(* ===== verification/Prelude.thy ===== *)
theory Prelude
  imports Main "HOL-Library.AList" "HOL-Library.Sublist"
begin

section \<open>Prelude: Python values, exceptions and effects\<close>

text \<open>
  What every component of the model shares: the string methods of Python that the source
  calls (\<open>strip\<close>, \<open>split\<close>, \<open>join\<close>, \<open>lower\<close>, \<open>isdigit\<close>, \<open>int\<close>, \<open>str\<close>), the exception classes
  of \<^verbatim>\<open>dino/exceptions.py\<close> with the built-in exceptions the code can raise, and operations
  that read and write a state and may raise. A Python string is a list of characters; the
  character classes (\<open>isspace\<close>, \<open>isdigit\<close>, \<open>lower\<close>) are those of ASCII.
\<close>

named_theorems op_simps "symbolic execution of effectful operations"
named_theorems str_simps "facts on the Python string functions"

subsection \<open>Strings\<close>

abbreviation code_of :: "char \<Rightarrow> nat" where
  "code_of \<equiv> of_char"

definition is_space :: "char \<Rightarrow> bool" where
  "is_space c \<longleftrightarrow> (let n = code_of c in n = 32 \<or> (9 \<le> n \<and> n \<le> 13) \<or> (28 \<le> n \<and> n \<le> 31))"

definition is_digit_char :: "char \<Rightarrow> bool" where
  "is_digit_char c \<longleftrightarrow> 48 \<le> code_of c \<and> code_of c \<le> 57"

definition lower_char :: "char \<Rightarrow> char" where
  "lower_char c = (if 65 \<le> code_of c \<and> code_of c \<le> 90 then char_of (code_of c + 32) else c)"

definition strip :: "string \<Rightarrow> string" where
  "strip s = rev (dropWhile is_space (rev (dropWhile is_space s)))"

text \<open>\<open>len(s.strip()) == 0\<close>, the test for a blank string.\<close>

definition blank :: "string \<Rightarrow> bool" where
  "blank s \<longleftrightarrow> strip s = []"

definition lower :: "string \<Rightarrow> string" where
  "lower s = map lower_char s"

definition isdigit :: "string \<Rightarrow> bool" where
  "isdigit s \<longleftrightarrow> s \<noteq> [] \<and> list_all is_digit_char s"

text \<open>\<open>s.split(c)\<close> and \<open>s.split(c, n)\<close> for a separator of one character.\<close>

fun split_on :: "char \<Rightarrow> string \<Rightarrow> string list" where
  "split_on c [] = [[]]"
| "split_on c (x # xs) =
     (if x = c then [] # split_on c xs
      else (case split_on c xs of [] \<Rightarrow> [[x]] | y # ys \<Rightarrow> (x # y) # ys))"

fun split_max :: "char \<Rightarrow> nat \<Rightarrow> string \<Rightarrow> string list" where
  "split_max c 0 s = [s]"
| "split_max c (Suc n) s =
     (if c \<in> set s
      then takeWhile (\<lambda>x. x \<noteq> c) s # split_max c n (tl (dropWhile (\<lambda>x. x \<noteq> c) s))
      else [s])"

fun join_on :: "char \<Rightarrow> string list \<Rightarrow> string" where
  "join_on c [] = []"
| "join_on c [x] = x"
| "join_on c (x # y # ys) = x @ c # join_on c (y # ys)"

text \<open>\<open>sub in s\<close> for strings.\<close>

fun contains :: "string \<Rightarrow> string \<Rightarrow> bool" where
  "contains sub [] = (sub = [])"
| "contains sub (x # xs) = (prefix sub (x # xs) \<or> contains sub xs)"

text \<open>\<open>'%s' % v\<close> for a value that may be \<open>None\<close>.\<close>

definition fmt :: "string option \<Rightarrow> string" where
  "fmt v = (case v of None \<Rightarrow> ''None'' | Some s \<Rightarrow> s)"

text \<open>\<open>v is None or len(v.strip()) == 0\<close>.\<close>

definition none_or_blank :: "string option \<Rightarrow> bool" where
  "none_or_blank v = (case v of None \<Rightarrow> True | Some s \<Rightarrow> blank s)"

subsection \<open>Numbers and text\<close>

definition digit_val :: "char \<Rightarrow> nat" where
  "digit_val c = code_of c - 48"

fun digits_val :: "nat \<Rightarrow> string \<Rightarrow> nat" where
  "digits_val acc [] = acc"
| "digits_val acc (c # cs) = digits_val (10 * acc + digit_val c) cs"

text \<open>
  \<open>int(s)\<close> for a text: surrounding white space, one sign, then digits with single
  underscores between them. \<open>None\<close> stands for the \<open>ValueError\<close>.
\<close>

fun int_digits :: "string \<Rightarrow> string option" where
  "int_digits [] = None"
| "int_digits [c] = (if is_digit_char c then Some [c] else None)"
| "int_digits (c # d # cs) =
     (if \<not> is_digit_char c then None
      else if d = CHR ''_'' then map_option ((#) c) (int_digits cs)
      else map_option ((#) c) (int_digits (d # cs)))"

definition unsigned_val :: "string \<Rightarrow> int option" where
  "unsigned_val s = map_option (\<lambda>ds. int (digits_val 0 ds)) (int_digits s)"

definition py_int :: "string \<Rightarrow> int option" where
  "py_int s = (case strip s of
     [] \<Rightarrow> None
   | c # cs \<Rightarrow> (if c = CHR ''-'' then map_option uminus (unsigned_val cs)
                else if c = CHR ''+'' then unsigned_val cs
                else unsigned_val (c # cs)))"

definition digit_char :: "nat \<Rightarrow> char" where
  "digit_char d = char_of (48 + d)"

fun str_nat :: "nat \<Rightarrow> string" where
  "str_nat n = (if n < 10 then [digit_char n] else str_nat (n div 10) @ [digit_char (n mod 10)])"

definition str_int :: "int \<Rightarrow> string" where
  "str_int i = (if i < 0 then CHR ''-'' # str_nat (nat (- i)) else str_nat (nat i))"

declare str_nat.simps [simp del]
declare split_on.simps(2) [simp del]

text \<open>
  \<open>float(s)\<close> of a decimal text, in millionths: an optional sign, digits, and an optional
  fraction, of which six digits count. Exponents, \<open>inf\<close> and \<open>nan\<close> are not modelled.
\<close>

definition micro :: int where
  "micro = 1000000"

definition frac_val :: "string \<Rightarrow> int option" where
  "frac_val s = (if list_all is_digit_char s
     then Some (int (digits_val 0 (take 6 (s @ replicate 6 (CHR ''0''))))) else None)"

definition float_unsigned :: "string \<Rightarrow> int option" where
  "float_unsigned s = (case split_max (CHR ''.'') 1 s of
     [i, f] \<Rightarrow> (case (unsigned_val i, frac_val f) of
                 (Some a, Some b) \<Rightarrow> Some (a * micro + b) | _ \<Rightarrow> None)
   | _ \<Rightarrow> map_option (\<lambda>a. a * micro) (unsigned_val s))"

definition py_float :: "string \<Rightarrow> int option" where
  "py_float s = (case strip s of
     [] \<Rightarrow> None
   | c # cs \<Rightarrow> (if c = CHR ''-'' then map_option uminus (float_unsigned cs)
                else if c = CHR ''+'' then float_unsigned cs
                else float_unsigned (c # cs)))"

subsection \<open>Exceptions\<close>

text \<open>
  The classes of \<^verbatim>\<open>dino/exceptions.py\<close> with the arguments their constructors keep, the
  built-in exceptions that the modelled code can raise, and \<open>PublishException\<close> of
  \<^verbatim>\<open>dino/endpoint/base.py\<close>.
\<close>

datatype exc =
    NoSuchChannelException string
  | EmptyRoomNameException string
  | EmptyUserNameException string
  | EmptyUserIdException
  | EmptyChannelNameException string
  | RoomExistsException string
  | NoChannelFoundException string
  | ChannelExistsException string
  | NoRoomNameException string
  | NoSuchRoomException string
  | MultipleRoomsFoundForNameException string
  | InvalidAclTypeException string
  | InvalidAclValueException string string
  | InvalidApiActionException string
  | AclValueNotFoundException string string
  | NoSuchUserException string
  | ValidationException string
  | UserExistsException string
  | NoOriginRoomException
  | NoTargetRoomException
  | RoomNameExistsForChannelException string string
  | ChannelNameExistsException string
  | UnknownBanTypeException string
  | ValueError
  | KeyError
  | IndexError
  | AttributeError
  | TypeError
  | OverflowError
  | NotImplementedError
  | RuntimeError string
  | RedisError
  | PublishException
  | IntegrityError
  | StaleDataError
  | UnmappedInstanceError
  | CassandraError

subsection \<open>Operations: state and exceptions\<close>

text \<open>
  An operation reads and writes a state and returns a value or raises. What it wrote before
  an exception stays written, as in Python.
\<close>

type_synonym ('w, 'a) op = "'w \<Rightarrow> (exc + 'a) \<times> 'w"

definition ret :: "'a \<Rightarrow> ('w, 'a) op" where
  "ret a w = (Inr a, w)"

definition throw :: "exc \<Rightarrow> ('w, 'a) op" where
  "throw e w = (Inl e, w)"

definition bindM :: "('w, 'a) op \<Rightarrow> ('a \<Rightarrow> ('w, 'b) op) \<Rightarrow> ('w, 'b) op" where
  "bindM m f w = (case m w of (Inl e, w') \<Rightarrow> (Inl e, w') | (Inr a, w') \<Rightarrow> f a w')"

definition thenM :: "('w, 'a) op \<Rightarrow> ('w, 'b) op \<Rightarrow> ('w, 'b) op" where
  "thenM m n = bindM m (\<lambda>_. n)"

definition gets :: "('w \<Rightarrow> 'a) \<Rightarrow> ('w, 'a) op" where
  "gets f w = (Inr (f w), w)"

definition modify :: "('w \<Rightarrow> 'w) \<Rightarrow> ('w, unit) op" where
  "modify f w = (Inr (), f w)"

definition stateM :: "('w \<Rightarrow> 'a \<times> 'w) \<Rightarrow> ('w, 'a) op" where
  "stateM f w = (case f w of (a, w') \<Rightarrow> (Inr a, w'))"

definition lift_result :: "exc + 'a \<Rightarrow> ('w, 'a) op" where
  "lift_result r w = (r, w)"

definition whenM :: "bool \<Rightarrow> ('w, unit) op \<Rightarrow> ('w, unit) op" where
  "whenM b m = (if b then m else ret ())"

text \<open>\<open>try: m except E: h\<close>; the handler says which exceptions it takes.\<close>

definition catchM :: "('w, 'a) op \<Rightarrow> (exc \<Rightarrow> ('w, 'a) op option) \<Rightarrow> ('w, 'a) op" where
  "catchM m h w = (case m w of
     (Inr a, w') \<Rightarrow> (Inr a, w')
   | (Inl e, w') \<Rightarrow> (case h e of None \<Rightarrow> (Inl e, w') | Some k \<Rightarrow> k w'))"

text \<open>\<open>for x in xs: m\<close>, and a loop that collects results.\<close>

fun iterM :: "('a \<Rightarrow> ('w, unit) op) \<Rightarrow> 'a list \<Rightarrow> ('w, unit) op" where
  "iterM f [] = ret ()"
| "iterM f (x # xs) = bindM (f x) (\<lambda>_. iterM f xs)"

fun mapM :: "('a \<Rightarrow> ('w, 'b) op) \<Rightarrow> 'a list \<Rightarrow> ('w, 'b list) op" where
  "mapM f [] = ret []"
| "mapM f (x # xs) = bindM (f x) (\<lambda>y. bindM (mapM f xs) (\<lambda>ys. ret (y # ys)))"

fun foldM :: "('b \<Rightarrow> 'a \<Rightarrow> ('w, 'b) op) \<Rightarrow> 'b \<Rightarrow> 'a list \<Rightarrow> ('w, 'b) op" where
  "foldM f acc [] = ret acc"
| "foldM f acc (x # xs) = bindM (f acc x) (\<lambda>acc'. foldM f acc' xs)"

lemma ret_run [op_simps]: "ret a w = (Inr a, w)"
  by (simp add: ret_def)

lemma throw_run [op_simps]: "throw e w = (Inl e, w)"
  by (simp add: throw_def)

lemma gets_run [op_simps]: "gets f w = (Inr (f w), w)"
  by (simp add: gets_def)

lemma modify_run [op_simps]: "modify f w = (Inr (), f w)"
  by (simp add: modify_def)

lemma bindM_ret [op_simps]: "bindM (ret a) f = f a"
  by (simp add: bindM_def ret_def fun_eq_iff)

lemma bindM_throw [op_simps]: "bindM (throw e) f = throw e"
  by (simp add: bindM_def throw_def fun_eq_iff)

lemma bindM_gets [op_simps]: "bindM (gets g) f w = f (g w) w"
  by (simp add: bindM_def gets_def)

lemma bindM_modify [op_simps]: "bindM (modify g) f w = f () (g w)"
  by (simp add: bindM_def modify_def)

lemma bindM_assoc [op_simps]: "bindM (bindM m f) g = bindM m (\<lambda>x. bindM (f x) g)"
  by (auto simp: bindM_def fun_eq_iff split: prod.splits sum.splits)

lemma thenM_bind [op_simps]: "thenM m n = bindM m (\<lambda>_. n)"
  by (simp add: thenM_def)

lemma bindM_if [op_simps]:
  "bindM (if b then m else n) f = (if b then bindM m f else bindM n f)"
  by simp

lemma bindM_Inr: "m w = (Inr a, w') \<Longrightarrow> bindM m f w = f a w'"
  by (simp add: bindM_def)

lemma bindM_Inl: "m w = (Inl e, w') \<Longrightarrow> bindM m f w = (Inl e, w')"
  by (simp add: bindM_def)

lemma whenM_run [op_simps]: "whenM b m w = (if b then m w else (Inr (), w))"
  by (simp add: whenM_def ret_def)

lemma bindM_whenM [op_simps]:
  "bindM (whenM b m) f w = (if b then bindM m f w else f () w)"
  by (simp add: whenM_def bindM_def ret_def)

lemma lift_result_run [op_simps]: "lift_result r w = (r, w)"
  by (simp add: lift_result_def)

lemma stateM_run [op_simps]: "stateM f w = (Inr (fst (f w)), snd (f w))"
  by (simp add: stateM_def split: prod.splits)

lemma bindM_stateM [op_simps]: "bindM (stateM g) f w = f (fst (g w)) (snd (g w))"
  by (simp add: bindM_def stateM_def split: prod.splits)

lemma bindM_inv:
  assumes "bindM m f w = (Inr b, w')"
  obtains a w1 where "m w = (Inr a, w1)" and "f a w1 = (Inr b, w')"
  using assms by (auto simp: bindM_def split: prod.splits sum.splits)

subsection \<open>Lemmas on strings\<close>

lemma split_on_neq_Nil [simp]: "split_on c s \<noteq> []"
  by (cases s) (auto simp: split_on.simps split: list.splits)

lemma split_on_no_sep [str_simps]: "c \<notin> set s \<Longrightarrow> split_on c s = [s]"
  by (induction s) (auto simp: split_on.simps)

lemma split_on_append_sep: "c \<notin> set s \<Longrightarrow> split_on c (s @ c # t) = s # split_on c t"
  by (induction s) (auto simp: split_on.simps split: list.splits)

lemma split_on_join_on [str_simps]:
  "xs \<noteq> [] \<Longrightarrow> \<forall>x \<in> set xs. c \<notin> set x \<Longrightarrow> split_on c (join_on c xs) = xs"
  by (induction c xs rule: join_on.induct) (auto simp: split_on_no_sep split_on_append_sep)

lemma join_on_Cons: "xs \<noteq> [] \<Longrightarrow> join_on c (x # xs) = x @ c # join_on c xs"
  by (cases xs) auto

lemma join_on_split_on [str_simps]: "join_on c (split_on c s) = s"
proof (induction s)
  case Nil
  then show ?case by simp
next
  case (Cons x xs)
  obtain y ys where eq: "split_on c xs = y # ys"
    by (cases "split_on c xs") auto
  show ?case
  proof (cases "x = c")
    case True
    with Cons eq show ?thesis by (simp add: split_on.simps)
  next
    case False
    have "join_on c ((x # y) # ys) = x # join_on c (y # ys)"
      by (cases ys) auto
    with False Cons eq show ?thesis by (simp add: split_on.simps)
  qed
qed

lemma split_on_no_sep_in_parts: "p \<in> set (split_on c s) \<Longrightarrow> c \<notin> set p"
proof (induction s arbitrary: p)
  case Nil
  then show ?case by simp
next
  case (Cons x xs)
  obtain y ys where eq: "split_on c xs = y # ys"
    by (cases "split_on c xs") auto
  with Cons show ?case by (auto simp: split_on.simps split: if_splits)
qed

lemma split_max_append_sep [str_simps]:
  "c \<notin> set s \<Longrightarrow> split_max c (Suc n) (s @ c # t) = s # split_max c n t"
  by (simp add: takeWhile_append dropWhile_append)

lemma split_max_no_sep [str_simps]: "c \<notin> set s \<Longrightarrow> split_max c n s = [s]"
  by (cases n) auto

lemma set_split_on_subset: "p \<in> set (split_on c s) \<Longrightarrow> set p \<subseteq> set s"
proof (induction s arbitrary: p)
  case Nil
  then show ?case by simp
next
  case (Cons x xs)
  obtain y ys where eq: "split_on c xs = y # ys"
    by (cases "split_on c xs") auto
  with Cons show ?case
    by (fastforce simp: split_on.simps split: if_splits)
qed

lemma blank_Nil [simp]: "blank []"
  by (simp add: blank_def strip_def)

lemma blank_iff: "blank s \<longleftrightarrow> (\<forall>c \<in> set s. is_space c)"
proof -
  have "blank s \<longleftrightarrow> (\<forall>c \<in> set (dropWhile is_space s). is_space c)"
    by (simp add: blank_def strip_def)
  also have "\<dots> \<longleftrightarrow> (\<forall>c \<in> set s. is_space c)"
    by (metis dropWhile_eq_Nil_conv list.set_intros(1) hd_dropWhile hd_in_set set_dropWhileD)
  finally show ?thesis .
qed

lemma strip_id [str_simps]:
  "s = [] \<or> (\<not> is_space (hd s) \<and> \<not> is_space (last s)) \<Longrightarrow> strip s = s"
proof (cases s)
  case (Cons a as)
  assume "s = [] \<or> (\<not> is_space (hd s) \<and> \<not> is_space (last s))"
  with Cons have h: "\<not> is_space a" and l: "\<not> is_space (last s)" by auto
  from h Cons have "dropWhile is_space s = s" by simp
  moreover from l Cons have "dropWhile is_space (rev s) = rev s"
    by (cases "rev s") (auto simp: last_rev hd_rev [symmetric] simp del: last.simps)
  ultimately show ?thesis by (simp add: strip_def)
qed (simp add: strip_def)

lemma contains_iff_sublist: "contains sub s \<longleftrightarrow> sublist sub s"
  by (induction s) (auto simp: sublist_Cons_right)

lemma fmt_Some [simp]: "fmt (Some s) = s"
  by (simp add: fmt_def)

lemma none_or_blank_simps [simp]:
  "none_or_blank None" "none_or_blank (Some s) = blank s"
  by (simp_all add: none_or_blank_def)

subsection \<open>Lemmas on numbers and text\<close>

lemma code_of_digit_char: "d < 10 \<Longrightarrow> code_of (digit_char d) = 48 + d"
  by (simp add: digit_char_def)

lemma digit_char_props [simp]:
  assumes "d < 10"
  shows "is_digit_char (digit_char d)" "digit_val (digit_char d) = d"
  using assms by (simp_all add: is_digit_char_def digit_val_def code_of_digit_char)

lemma digit_not_space: "is_digit_char c \<Longrightarrow> \<not> is_space c"
  by (auto simp: is_digit_char_def is_space_def Let_def)

lemma digit_not_sign:
  "is_digit_char c \<Longrightarrow> c \<noteq> CHR ''-''" "is_digit_char c \<Longrightarrow> c \<noteq> CHR ''+''"
  "is_digit_char c \<Longrightarrow> c \<noteq> CHR ''_''" "is_digit_char c \<Longrightarrow> c \<noteq> CHR ''|''"
  by (auto simp: is_digit_char_def)

lemma digits_val_append: "digits_val acc (s @ t) = digits_val (digits_val acc s) t"
  by (induction s arbitrary: acc) auto

lemma digits_val_str_nat: "digits_val 0 (str_nat n) = n"
proof (induction n rule: str_nat.induct)
  case (1 n)
  show ?case
    by (cases "n < 10") (auto simp: str_nat.simps [of n] digits_val_append 1)
qed

lemma str_nat_digits: "list_all is_digit_char (str_nat n) \<and> str_nat n \<noteq> []"
proof (induction n rule: str_nat.induct)
  case (1 n)
  then show ?case by (cases "n < 10") (auto simp: str_nat.simps [of n])
qed

lemma int_digits_all: "s \<noteq> [] \<Longrightarrow> list_all is_digit_char s \<Longrightarrow> int_digits s = Some s"
  by (induction s rule: int_digits.induct) (auto dest: digit_not_sign)

lemma unsigned_val_isdigit:
  "isdigit s \<Longrightarrow> unsigned_val s = Some (int (digits_val 0 s))"
  by (auto simp: unsigned_val_def isdigit_def int_digits_all)

lemma isdigit_str_nat [simp]: "isdigit (str_nat n)"
  using str_nat_digits [of n] by (simp add: isdigit_def)

lemma isdigit_strip: "isdigit s \<Longrightarrow> strip s = s"
  by (rule strip_id) (auto simp: isdigit_def list_all_iff digit_not_space)

lemma isdigit_signed_strip:
  assumes "isdigit s" and "c = CHR ''-'' \<or> c = CHR ''+''"
  shows "strip (c # s) = c # s"
proof (rule strip_id)
  have "last (c # s) = last s" using assms(1) by (auto simp: isdigit_def)
  moreover have "is_digit_char (last s)" using assms(1) by (auto simp: isdigit_def list_all_iff)
  moreover have "\<not> is_space c" using assms(2) by (auto simp: is_space_def)
  ultimately show "c # s = [] \<or> \<not> is_space (hd (c # s)) \<and> \<not> is_space (last (c # s))"
    by (simp add: digit_not_space)
qed

lemma py_int_isdigit [str_simps]: "isdigit s \<Longrightarrow> py_int s = Some (int (digits_val 0 s))"
  by (cases s) (auto simp: py_int_def isdigit_strip unsigned_val_isdigit isdigit_def
      dest: digit_not_sign)

lemma py_int_minus [str_simps]:
  "isdigit s \<Longrightarrow> py_int (CHR ''-'' # s) = Some (- int (digits_val 0 s))"
  by (simp add: py_int_def isdigit_signed_strip unsigned_val_isdigit)

lemma py_int_plus [str_simps]:
  "isdigit s \<Longrightarrow> py_int (CHR ''+'' # s) = Some (int (digits_val 0 s))"
  by (simp add: py_int_def isdigit_signed_strip unsigned_val_isdigit)

lemma py_int_str_int [simp]: "py_int (str_int i) = Some i"
  by (auto simp: str_int_def py_int_isdigit py_int_minus digits_val_str_nat)

lemma no_pipe_str_nat: "CHR ''|'' \<notin> set (str_nat n)"
  using str_nat_digits [of n] by (auto simp: list_all_iff dest: digit_not_sign)

lemma no_pipe_str_int [simp]: "CHR ''|'' \<notin> set (str_int i)"
  by (auto simp: str_int_def no_pipe_str_nat)

lemma no_dot_digits: "isdigit s \<Longrightarrow> CHR ''.'' \<notin> set s"
  by (auto simp: isdigit_def list_all_iff is_digit_char_def)

lemma float_unsigned_isdigit:
  "isdigit s \<Longrightarrow> float_unsigned s = Some (int (digits_val 0 s) * micro)"
  by (simp add: float_unsigned_def no_dot_digits unsigned_val_isdigit)

lemma py_float_isdigit [str_simps]:
  "isdigit s \<Longrightarrow> py_float s = Some (int (digits_val 0 s) * micro)"
  by (cases s) (auto simp: py_float_def isdigit_strip float_unsigned_isdigit isdigit_def
      dest: digit_not_sign)

lemma py_float_str_int [simp]: "py_float (str_int i) = Some (i * micro)"
proof (cases "i < 0")
  case True
  then show ?thesis
    by (simp add: str_int_def py_float_def isdigit_signed_strip float_unsigned_isdigit
        digits_val_str_nat)
next
  case False
  then show ?thesis by (simp add: str_int_def py_float_isdigit digits_val_str_nat)
qed

lemma iterM_rule:
  assumes "I [] w" "\<And>ys x w. I ys w \<Longrightarrow> \<exists>w'. f x w = (Inr (), w') \<and> I (ys @ [x]) w'"
  shows "\<exists>w'. iterM f xs w = (Inr (), w') \<and> I xs w'"
proof -
  have "\<exists>w'. iterM f xs w = (Inr (), w') \<and> I (ys @ xs) w'" if "I ys w" for ys w
    using that
  proof (induction xs arbitrary: ys w)
    case Nil
    then show ?case by (simp add: ret_def)
  next
    case (Cons x xs)
    obtain w1 where w1: "f x w = (Inr (), w1)" "I (ys @ [x]) w1" using assms(2) Cons.prems by blast
    from Cons.IH [OF w1(2)] w1(1) show ?case by (simp add: bindM_def)
  qed
  from this [of "[]" w] assms(1) show ?thesis by simp
qed

end
