(* ===== verification/Config_Keys.thy ===== *)
theory Config_Keys
  imports Prelude
begin

section \<open>Configuration constants and Redis keys\<close>

text \<open>
  The constants of \<^verbatim>\<open>dino/config.py\<close> that the model uses: role names, API actions and targets,
  user status values, acknowledgement states, error codes, session keys, and the Redis key
  templates with the static methods of \<open>RedisKeys\<close> that fill them. \<open>rk_f\<close> is the method
  \<open>RedisKeys.f\<close>. The lemmas show what each key is as text, that every template is injective
  in its arguments, and that the keys of the database backend never collide as long as the
  ids contain no colon and are not one of a few reserved words.
\<close>

subsection \<open>Roles, actions, targets, status\<close>

definition target_room :: string where
  "target_room = ''room''"

definition target_channel :: string where
  "target_channel = ''channel''"

definition action_join :: string where
  "action_join = ''join''"

definition action_autojoin :: string where
  "action_autojoin = ''autojoin''"

definition action_crossroom :: string where
  "action_crossroom = ''crossroom''"

definition action_message :: string where
  "action_message = ''message''"

definition action_kick :: string where
  "action_kick = ''kick''"

definition action_ban :: string where
  "action_ban = ''ban''"

definition action_list :: string where
  "action_list = ''list''"

definition action_history :: string where
  "action_history = ''history''"

definition action_setacl :: string where
  "action_setacl = ''setacl''"

definition action_create :: string where
  "action_create = ''create''"

definition action_whisper :: string where
  "action_whisper = ''whisper''"

definition role_owner :: string where
  "role_owner = ''owner''"

definition role_moderator :: string where
  "role_moderator = ''moderator''"

definition role_admin :: string where
  "role_admin = ''admin''"

definition role_super_user :: string where
  "role_super_user = ''superuser''"

definition role_global_moderator :: string where
  "role_global_moderator = ''globalmod''"

definition status_available :: string where
  "status_available = ''1''"

definition status_chat :: string where
  "status_chat = ''2''"

definition status_invisible :: string where
  "status_invisible = ''3''"

definition status_unavailable :: string where
  "status_unavailable = ''4''"

definition status_unknown :: string where
  "status_unknown = ''5''"

definition status_away :: string where
  "status_away = ''6''"

definition all_api_actions :: "string list" where
  "all_api_actions =
     [action_join,
      action_autojoin,
      action_crossroom,
      action_message,
      action_kick,
      action_ban,
      action_list,
      action_history,
      action_setacl,
      action_create,
      action_whisper]"

definition all_roles :: "string list" where
  "all_roles = [role_owner, role_moderator, role_admin, role_super_user, role_global_moderator]"

definition ack_not_acked :: int where
  "ack_not_acked = 0"

definition ack_received :: int where
  "ack_received = 1"

definition ack_read :: int where
  "ack_read = 2"

subsection \<open>Error codes\<close>

definition EC_OK :: int where
  "EC_OK = 200"

definition EC_UNKNOWN_ERROR :: int where
  "EC_UNKNOWN_ERROR = 250"

definition EC_MISSING_ACTOR_ID :: int where
  "EC_MISSING_ACTOR_ID = 500"

definition EC_MISSING_OBJECT_ID :: int where
  "EC_MISSING_OBJECT_ID = 501"

definition EC_MISSING_TARGET_ID :: int where
  "EC_MISSING_TARGET_ID = 502"

definition EC_MISSING_OBJECT_URL :: int where
  "EC_MISSING_OBJECT_URL = 503"

definition EC_MISSING_TARGET_DISPLAY_NAME :: int where
  "EC_MISSING_TARGET_DISPLAY_NAME = 504"

definition EC_MISSING_ACTOR_URL :: int where
  "EC_MISSING_ACTOR_URL = 505"

definition EC_MISSING_OBJECT_CONTENT :: int where
  "EC_MISSING_OBJECT_CONTENT = 506"

definition EC_MISSING_OBJECT :: int where
  "EC_MISSING_OBJECT = 507"

definition EC_MISSING_OBJECT_ATTACHMENTS :: int where
  "EC_MISSING_OBJECT_ATTACHMENTS = 508"

definition EC_MISSING_ATTACHMENT_TYPE :: int where
  "EC_MISSING_ATTACHMENT_TYPE = 509"

definition EC_MISSING_ATTACHMENT_CONTENT :: int where
  "EC_MISSING_ATTACHMENT_CONTENT = 510"

definition EC_MISSING_VERB :: int where
  "EC_MISSING_VERB = 511"

definition EC_INVALID_TARGET_TYPE :: int where
  "EC_INVALID_TARGET_TYPE = 600"

definition EC_INVALID_ACL_TYPE :: int where
  "EC_INVALID_ACL_TYPE = 601"

definition EC_INVALID_ACL_ACTION :: int where
  "EC_INVALID_ACL_ACTION = 602"

definition EC_INVALID_ACL_VALUE :: int where
  "EC_INVALID_ACL_VALUE = 603"

definition EC_INVALID_STATUS :: int where
  "EC_INVALID_STATUS = 604"

definition EC_INVALID_OBJECT_TYPE :: int where
  "EC_INVALID_OBJECT_TYPE = 605"

definition EC_INVALID_BAN_DURATION :: int where
  "EC_INVALID_BAN_DURATION = 606"

definition EC_INVALID_VERB :: int where
  "EC_INVALID_VERB = 607"

definition EC_EMPTY_MESSAGE :: int where
  "EC_EMPTY_MESSAGE = 700"

definition EC_NOT_BASE64 :: int where
  "EC_NOT_BASE64 = 701"

definition EC_USER_NOT_IN_ROOM :: int where
  "EC_USER_NOT_IN_ROOM = 702"

definition EC_USER_IS_BANNED :: int where
  "EC_USER_IS_BANNED = 703"

definition EC_ROOM_ALREADY_EXISTS :: int where
  "EC_ROOM_ALREADY_EXISTS = 704"

definition EC_NOT_ALLOWED :: int where
  "EC_NOT_ALLOWED = 705"

definition EC_VALIDATION_ERROR :: int where
  "EC_VALIDATION_ERROR = 706"

definition EC_ROOM_FULL :: int where
  "EC_ROOM_FULL = 707"

definition EC_NOT_ONLINE :: int where
  "EC_NOT_ONLINE = 708"

definition EC_TOO_MANY_PRIVATE_ROOMS :: int where
  "EC_TOO_MANY_PRIVATE_ROOMS = 709"

definition EC_ROOM_NAME_TOO_LONG :: int where
  "EC_ROOM_NAME_TOO_LONG = 710"

definition EC_ROOM_NAME_TOO_SHORT :: int where
  "EC_ROOM_NAME_TOO_SHORT = 711"

definition EC_INVALID_TOKEN :: int where
  "EC_INVALID_TOKEN = 712"

definition EC_INVALID_LOGIN :: int where
  "EC_INVALID_LOGIN = 713"

definition EC_MSG_TOO_LONG :: int where
  "EC_MSG_TOO_LONG = 714"

definition EC_MULTIPLE_ROOMS_WITH_NAME :: int where
  "EC_MULTIPLE_ROOMS_WITH_NAME = 715"

definition EC_TOO_MANY_ATTACHMENTS :: int where
  "EC_TOO_MANY_ATTACHMENTS = 716"

definition EC_NOT_ENABLED :: int where
  "EC_NOT_ENABLED = 717"

definition EC_ROOM_NAME_RESTRICTED :: int where
  "EC_ROOM_NAME_RESTRICTED = 718"

definition EC_USER_MUTED :: int where
  "EC_USER_MUTED = 719"

definition EC_NOT_ALLOWED_TO_WHISPER_CHANNEL :: int where
  "EC_NOT_ALLOWED_TO_WHISPER_CHANNEL = 720"

definition EC_NOT_ALLOWED_TO_WHISPER_NOT_A_CONTACT :: int where
  "EC_NOT_ALLOWED_TO_WHISPER_NOT_A_CONTACT = 721"

definition EC_NOT_ALLOWED_TO_WHISPER_TURNED_OFF :: int where
  "EC_NOT_ALLOWED_TO_WHISPER_TURNED_OFF = 722"

definition EC_NOT_ALLOWED_TO_WHISPER_SELF :: int where
  "EC_NOT_ALLOWED_TO_WHISPER_SELF = 723"

definition EC_NOT_ALLOWED_TO_WHISPER_GENERIC_ERROR :: int where
  "EC_NOT_ALLOWED_TO_WHISPER_GENERIC_ERROR = 724"

definition EC_REMOTE_ERROR :: int where
  "EC_REMOTE_ERROR = 725"

definition EC_NO_SUCH_USER :: int where
  "EC_NO_SUCH_USER = 800"

definition EC_NO_SUCH_CHANNEL :: int where
  "EC_NO_SUCH_CHANNEL = 801"

definition EC_NO_SUCH_ROOM :: int where
  "EC_NO_SUCH_ROOM = 802"

definition EC_NO_ADMIN_ROOM_FOUND :: int where
  "EC_NO_ADMIN_ROOM_FOUND = 803"

definition EC_NO_USER_IN_SESSION :: int where
  "EC_NO_USER_IN_SESSION = 804"

definition EC_NO_ADMIN_ONLINE :: int where
  "EC_NO_ADMIN_ONLINE = 805"

lemmas error_code_defs =
  EC_OK_def EC_UNKNOWN_ERROR_def EC_MISSING_ACTOR_ID_def
  EC_MISSING_OBJECT_ID_def EC_MISSING_TARGET_ID_def EC_MISSING_OBJECT_URL_def
  EC_MISSING_TARGET_DISPLAY_NAME_def EC_MISSING_ACTOR_URL_def EC_MISSING_OBJECT_CONTENT_def
  EC_MISSING_OBJECT_def EC_MISSING_OBJECT_ATTACHMENTS_def EC_MISSING_ATTACHMENT_TYPE_def
  EC_MISSING_ATTACHMENT_CONTENT_def EC_MISSING_VERB_def EC_INVALID_TARGET_TYPE_def
  EC_INVALID_ACL_TYPE_def EC_INVALID_ACL_ACTION_def EC_INVALID_ACL_VALUE_def
  EC_INVALID_STATUS_def EC_INVALID_OBJECT_TYPE_def EC_INVALID_BAN_DURATION_def
  EC_INVALID_VERB_def EC_EMPTY_MESSAGE_def EC_NOT_BASE64_def
  EC_USER_NOT_IN_ROOM_def EC_USER_IS_BANNED_def EC_ROOM_ALREADY_EXISTS_def
  EC_NOT_ALLOWED_def EC_VALIDATION_ERROR_def EC_ROOM_FULL_def
  EC_NOT_ONLINE_def EC_TOO_MANY_PRIVATE_ROOMS_def EC_ROOM_NAME_TOO_LONG_def
  EC_ROOM_NAME_TOO_SHORT_def EC_INVALID_TOKEN_def EC_INVALID_LOGIN_def
  EC_MSG_TOO_LONG_def EC_MULTIPLE_ROOMS_WITH_NAME_def EC_TOO_MANY_ATTACHMENTS_def
  EC_NOT_ENABLED_def EC_ROOM_NAME_RESTRICTED_def EC_USER_MUTED_def
  EC_NOT_ALLOWED_TO_WHISPER_CHANNEL_def EC_NOT_ALLOWED_TO_WHISPER_NOT_A_CONTACT_def EC_NOT_ALLOWED_TO_WHISPER_TURNED_OFF_def
  EC_NOT_ALLOWED_TO_WHISPER_SELF_def EC_NOT_ALLOWED_TO_WHISPER_GENERIC_ERROR_def EC_REMOTE_ERROR_def
  EC_NO_SUCH_USER_def EC_NO_SUCH_CHANNEL_def EC_NO_SUCH_ROOM_def
  EC_NO_ADMIN_ROOM_FOUND_def EC_NO_USER_IN_SESSION_def EC_NO_ADMIN_ONLINE_def

subsection \<open>Session keys\<close>

text \<open>
  The members of the enumeration whose value is a string, in the order of the class; the three
  members whose value is a set are \<open>user_agent_keys\<close>, \<open>temporary_keys\<close> and
  \<open>requires_session_keys\<close>.
\<close>

definition session_key_values :: "string list" where
  "session_key_values =
     [''user_id'', ''user_name'', ''age'', ''gender'',
      ''membership'', ''group'', ''country'', ''city'',
      ''image'', ''user_type'', ''crossgroup'', ''has_webcam'',
      ''fake_checked'', ''token'', ''is_streaming'', ''spoken_language'',
      ''excluded_list'', ''invisible'', ''avatar'', ''app_avatar'',
      ''app_avatar_safe'', ''enabled_safe'', ''user_agent'', ''user_agent_browser'',
      ''user_agent_version'', ''user_agent_platform'', ''user_agent_language'']"

definition user_agent_keys :: "string list" where
  "user_agent_keys =
     [''user_agent'', ''user_agent_browser'', ''user_agent_version'', ''user_agent_platform'',
      ''user_agent_language'']"

definition temporary_keys :: "string list" where
  "temporary_keys = [''is_streaming'']"

definition requires_session_keys :: "string list" where
  "requires_session_keys = [''user_id'', ''user_name'', ''token'']"

subsection \<open>Redis key templates\<close>

text \<open>\<open>template % args\<close> and \<open>template.format(args)\<close> for templates with \<open>%s\<close> or \<open>{}\<close> only.\<close>

fun percent :: "string \<Rightarrow> string list \<Rightarrow> string" where
  "percent [] args = []"
| "percent [c] args = [c]"
| "percent (c # d # cs) args =
     (if c = CHR ''%'' \<and> d = CHR ''s''
      then (case args of [] \<Rightarrow> c # d # percent cs [] | a # rest \<Rightarrow> a @ percent cs rest)
      else c # percent (d # cs) args)"

fun braces :: "string \<Rightarrow> string list \<Rightarrow> string" where
  "braces [] args = []"
| "braces [c] args = [c]"
| "braces (c # d # cs) args =
     (if c = CHR ''{'' \<and> d = CHR ''}''
      then (case args of [] \<Rightarrow> c # d # braces cs [] | a # rest \<Rightarrow> a @ braces cs rest)
      else c # braces (d # cs) args)"

definition RKEY_ALL_ROOMS :: string where
  "RKEY_ALL_ROOMS = ''rooms:all''"

definition RKEY_USERS_IN_ROOM_FOR_ROLE :: string where
  "RKEY_USERS_IN_ROOM_FOR_ROLE = ''room:role:%s:%s''"

definition RKEY_USERS_IN_CHANNEL_FOR_ROLE :: string where
  "RKEY_USERS_IN_CHANNEL_FOR_ROLE = ''channel:role:%s:%s''"

definition RKEY_ACLS_IN_CHANNEL :: string where
  "RKEY_ACLS_IN_CHANNEL = ''channel:acls:%s''"

definition RKEY_ACLS_IN_ROOM :: string where
  "RKEY_ACLS_IN_ROOM = ''room:acls:%s''"

definition RKEY_ACLS_IN_ROOM_FOR_ACTION :: string where
  "RKEY_ACLS_IN_ROOM_FOR_ACTION = ''room:acls:%s:%s''"

definition RKEY_ACLS_IN_CHANNEL_FOR_ACTION :: string where
  "RKEY_ACLS_IN_CHANNEL_FOR_ACTION = ''channel:acls:%s:%s''"

definition RKEY_ROOMS_FOR_CHANNEL_WITH_INFO :: string where
  "RKEY_ROOMS_FOR_CHANNEL_WITH_INFO = ''channel:rooms:info:%s''"

definition RKEY_ROOMS_FOR_CHANNEL_WITHOUT_INFO :: string where
  "RKEY_ROOMS_FOR_CHANNEL_WITHOUT_INFO = ''channel:rooms:noinfo:%s''"

definition RKEY_TYPE_OF_ROOMS_IN_CHANNEL :: string where
  "RKEY_TYPE_OF_ROOMS_IN_CHANNEL = ''channel:roomtype:%s''"

definition RKEY_ROOMS_FOR_USER :: string where
  "RKEY_ROOMS_FOR_USER = ''user:rooms:%s''"

definition RKEY_USERS_IN_ROOM :: string where
  "RKEY_USERS_IN_ROOM = ''room:%s''"

definition RKEY_USERS_IN_ROOM_VISIBLE :: string where
  "RKEY_USERS_IN_ROOM_VISIBLE = ''room:visible:%s''"

definition RKEY_USERS_IN_ROOM_WITH_INVISIBLE :: string where
  "RKEY_USERS_IN_ROOM_WITH_INVISIBLE = ''room:with:invisible:%s''"

definition RKEY_USERS_IN_ROOM_VISIBLE_BY_NAME :: string where
  "RKEY_USERS_IN_ROOM_VISIBLE_BY_NAME = ''room:visible:name:%s''"

definition RKEY_USERS_IN_ROOM_WITH_INVISIBLE_BY_NAME :: string where
  "RKEY_USERS_IN_ROOM_WITH_INVISIBLE_BY_NAME = ''room:with:invisible:name:%s''"

definition RKEY_ROOMS :: string where
  "RKEY_ROOMS = ''rooms:%s''"

definition RKEY_ROOMS_PERMANENT :: string where
  "RKEY_ROOMS_PERMANENT = ''rooms:permanent''"

definition RKEY_ONLINE_BITMAP :: string where
  "RKEY_ONLINE_BITMAP = ''users:online:bitmap''"

definition RKEY_ONLINE_SET :: string where
  "RKEY_ONLINE_SET = ''users:online:set''"

definition RKEY_MULTI_CAST :: string where
  "RKEY_MULTI_CAST = ''users:multicast''"

definition RKEY_USER_STATUS :: string where
  "RKEY_USER_STATUS = ''user:status:%s''"

definition RKEY_USER_STATUS_CHANGED_AT :: string where
  "RKEY_USER_STATUS_CHANGED_AT = ''user:status:changed''"

definition RKEY_USER_LAST_ONLINE :: string where
  "RKEY_USER_LAST_ONLINE = ''user:online:last:{}''"

definition RKEY_ROOM_NAME :: string where
  "RKEY_ROOM_NAME = ''room:names''"

definition RKEY_ROOM_ACL :: string where
  "RKEY_ROOM_ACL = ''room:acl:%s''"

definition RKEY_CHANNEL_ACL :: string where
  "RKEY_CHANNEL_ACL = ''channel:acl:%s''"

definition RKEY_ROOM_HISTORY :: string where
  "RKEY_ROOM_HISTORY = ''room:history:%s''"

definition RKEY_AUTH :: string where
  "RKEY_AUTH = ''user:auth:%s''"

definition RKEY_CHANNELS :: string where
  "RKEY_CHANNELS = ''channels''"

definition RKEY_CHANNELS_SORT :: string where
  "RKEY_CHANNELS_SORT = ''channels:sort''"

definition RKEY_CHANNEL_EXISTS :: string where
  "RKEY_CHANNEL_EXISTS = ''channel:exists''"

definition RKEY_ROOM_ID_FOR_NAME :: string where
  "RKEY_ROOM_ID_FOR_NAME = ''room:id:%s''"

definition RKEY_CHANNEL_ROLES :: string where
  "RKEY_CHANNEL_ROLES = ''channel:roles:%s''"

definition RKEY_GLOBAL_ROLES :: string where
  "RKEY_GLOBAL_ROLES = ''global:roles''"

definition RKEY_ROOM_ROLES :: string where
  "RKEY_ROOM_ROLES = ''room:roles:%s''"

definition RKEY_CHANNEL_FOR_ROOMS :: string where
  "RKEY_CHANNEL_FOR_ROOMS = ''room:channel''"

definition RKEY_LAST_READ :: string where
  "RKEY_LAST_READ = ''room:read:%s''"

definition RKEY_USER_NAMES :: string where
  "RKEY_USER_NAMES = ''user:names''"

definition RKEY_USER_IDS :: string where
  "RKEY_USER_IDS = ''user:ids''"

definition RKEY_ROOM_ADMIN :: string where
  "RKEY_ROOM_ADMIN = ''room:admin''"

definition RKEY_ACL_VALIDATION :: string where
  "RKEY_ACL_VALIDATION = ''acl:validation:%s''"

definition RKEY_USER_ROLES :: string where
  "RKEY_USER_ROLES = ''users:roles''"

definition RKEY_BLACK_LIST :: string where
  "RKEY_BLACK_LIST = ''words:blacklist''"

definition RKEY_NON_EPHEMERAL_ROOMS :: string where
  "RKEY_NON_EPHEMERAL_ROOMS = ''rooms:nonephemeral''"

definition RKEY_DEFAULT_ROOMS :: string where
  "RKEY_DEFAULT_ROOMS = ''rooms:default''"

definition RKEY_ACKS_USER :: string where
  "RKEY_ACKS_USER = ''acks:user:%s''"

definition RKEY_ACKS_ROOM :: string where
  "RKEY_ACKS_ROOM = ''acks:room:%s''"

definition RKEY_USERS_IN_ROOM_COUNT :: string where
  "RKEY_USERS_IN_ROOM_COUNT = ''users:online:inrooms''"

definition RKEY_SID_TO_USER_ID :: string where
  "RKEY_SID_TO_USER_ID = ''user:sid:map''"

definition RKEY_USER_ID_TO_SID :: string where
  "RKEY_USER_ID_TO_SID = ''sid:user:map''"

definition RKEY_BANNED_USERS_GLOBAL :: string where
  "RKEY_BANNED_USERS_GLOBAL = ''users:banned:global''"

definition RKEY_BANNED_USERS_ROOM :: string where
  "RKEY_BANNED_USERS_ROOM = ''users:banned:room:%s''"

definition RKEY_MUTED_USERS_ROOM :: string where
  "RKEY_MUTED_USERS_ROOM = ''users:muted:room:%s''"

definition RKEY_BANNED_USERS_CHANNEL :: string where
  "RKEY_BANNED_USERS_CHANNEL = ''users:banned:channel:%s''"

definition RKEY_HEARTBEAT :: string where
  "RKEY_HEARTBEAT = ''heartbeat:{}''"

definition RKEY_AVATARS :: string where
  "RKEY_AVATARS = ''user:avatars''"

definition RKEY_SESSION_COUNT :: string where
  "RKEY_SESSION_COUNT = ''session:count''"

definition RKEY_USER_NAMES_SET :: string where
  "RKEY_USER_NAMES_SET = ''user:names:set''"

definition RKEY_CAN_WHISPER :: string where
  "RKEY_CAN_WHISPER = ''whisper:{}''"

definition RKEY_ROOMS_WITH_ACL_ACTION :: string where
  "RKEY_ROOMS_WITH_ACL_ACTION = ''rooms:acl:{}''"

definition RKEY_ACLS_FOR_ROOMS_HAVING_ACTION :: string where
  "RKEY_ACLS_FOR_ROOMS_HAVING_ACTION = ''rooms:acl:{}:{}''"

definition RKEY_JOIN_COUNTS :: string where
  "RKEY_JOIN_COUNTS = ''rooms:joins:{}''"

definition RKEY_JOIN_COUNTS_BY_NAME :: string where
  "RKEY_JOIN_COUNTS_BY_NAME = ''rooms:joins:name:{}''"

definition RKEY_DEFAULT_CHANNEL_ID :: string where
  "RKEY_DEFAULT_CHANNEL_ID = ''channel:default:id''"

definition RKEY_ROOM_OWNERS :: string where
  "RKEY_ROOM_OWNERS = ''room:owners:{}''"

lemmas rkey_defs =
  RKEY_ALL_ROOMS_def RKEY_USERS_IN_ROOM_FOR_ROLE_def
  RKEY_USERS_IN_CHANNEL_FOR_ROLE_def RKEY_ACLS_IN_CHANNEL_def
  RKEY_ACLS_IN_ROOM_def RKEY_ACLS_IN_ROOM_FOR_ACTION_def
  RKEY_ACLS_IN_CHANNEL_FOR_ACTION_def RKEY_ROOMS_FOR_CHANNEL_WITH_INFO_def
  RKEY_ROOMS_FOR_CHANNEL_WITHOUT_INFO_def RKEY_TYPE_OF_ROOMS_IN_CHANNEL_def
  RKEY_ROOMS_FOR_USER_def RKEY_USERS_IN_ROOM_def
  RKEY_USERS_IN_ROOM_VISIBLE_def RKEY_USERS_IN_ROOM_WITH_INVISIBLE_def
  RKEY_USERS_IN_ROOM_VISIBLE_BY_NAME_def RKEY_USERS_IN_ROOM_WITH_INVISIBLE_BY_NAME_def
  RKEY_ROOMS_def RKEY_ROOMS_PERMANENT_def
  RKEY_ONLINE_BITMAP_def RKEY_ONLINE_SET_def
  RKEY_MULTI_CAST_def RKEY_USER_STATUS_def
  RKEY_USER_STATUS_CHANGED_AT_def RKEY_USER_LAST_ONLINE_def
  RKEY_ROOM_NAME_def RKEY_ROOM_ACL_def
  RKEY_CHANNEL_ACL_def RKEY_ROOM_HISTORY_def
  RKEY_AUTH_def RKEY_CHANNELS_def
  RKEY_CHANNELS_SORT_def RKEY_CHANNEL_EXISTS_def
  RKEY_ROOM_ID_FOR_NAME_def RKEY_CHANNEL_ROLES_def
  RKEY_GLOBAL_ROLES_def RKEY_ROOM_ROLES_def
  RKEY_CHANNEL_FOR_ROOMS_def RKEY_LAST_READ_def
  RKEY_USER_NAMES_def RKEY_USER_IDS_def
  RKEY_ROOM_ADMIN_def RKEY_ACL_VALIDATION_def
  RKEY_USER_ROLES_def RKEY_BLACK_LIST_def
  RKEY_NON_EPHEMERAL_ROOMS_def RKEY_DEFAULT_ROOMS_def
  RKEY_ACKS_USER_def RKEY_ACKS_ROOM_def
  RKEY_USERS_IN_ROOM_COUNT_def RKEY_SID_TO_USER_ID_def
  RKEY_USER_ID_TO_SID_def RKEY_BANNED_USERS_GLOBAL_def
  RKEY_BANNED_USERS_ROOM_def RKEY_MUTED_USERS_ROOM_def
  RKEY_BANNED_USERS_CHANNEL_def RKEY_HEARTBEAT_def
  RKEY_AVATARS_def RKEY_SESSION_COUNT_def
  RKEY_USER_NAMES_SET_def RKEY_CAN_WHISPER_def
  RKEY_ROOMS_WITH_ACL_ACTION_def RKEY_ACLS_FOR_ROOMS_HAVING_ACTION_def
  RKEY_JOIN_COUNTS_def RKEY_JOIN_COUNTS_BY_NAME_def
  RKEY_DEFAULT_CHANNEL_ID_def RKEY_ROOM_OWNERS_def

subsection \<open>Redis keys\<close>

text \<open>Each method, with the text of its key as a lemma of the collection \<open>key_simps\<close>.\<close>

named_theorems key_simps "the Redis keys as text"

definition rk_user_status_changed_at :: "string" where
  "rk_user_status_changed_at = RKEY_USER_STATUS_CHANGED_AT"

lemma rk_user_status_changed_at_text [key_simps]: "rk_user_status_changed_at = ''user:status:changed''"
  by (simp add: rk_user_status_changed_at_def RKEY_USER_STATUS_CHANGED_AT_def)

definition rk_room_owners :: "string \<Rightarrow> string" where
  "rk_room_owners room_id = braces RKEY_ROOM_OWNERS [room_id]"

lemma rk_room_owners_text [key_simps]: "rk_room_owners room_id = ''room:owners:'' @ room_id"
  by (simp add: rk_room_owners_def RKEY_ROOM_OWNERS_def)

definition rk_default_channel_id :: "string" where
  "rk_default_channel_id = RKEY_DEFAULT_CHANNEL_ID"

lemma rk_default_channel_id_text [key_simps]: "rk_default_channel_id = ''channel:default:id''"
  by (simp add: rk_default_channel_id_def RKEY_DEFAULT_CHANNEL_ID_def)

definition rk_join_counts_by_name :: "string \<Rightarrow> string" where
  "rk_join_counts_by_name room_id = braces RKEY_JOIN_COUNTS_BY_NAME [room_id]"

lemma rk_join_counts_by_name_text [key_simps]: "rk_join_counts_by_name room_id = ''rooms:joins:name:'' @ room_id"
  by (simp add: rk_join_counts_by_name_def RKEY_JOIN_COUNTS_BY_NAME_def)

definition rk_join_counts :: "string \<Rightarrow> string" where
  "rk_join_counts room_id = braces RKEY_JOIN_COUNTS [room_id]"

lemma rk_join_counts_text [key_simps]: "rk_join_counts room_id = ''rooms:joins:'' @ room_id"
  by (simp add: rk_join_counts_def RKEY_JOIN_COUNTS_def)

definition rk_all_rooms :: "string" where
  "rk_all_rooms = RKEY_ALL_ROOMS"

lemma rk_all_rooms_text [key_simps]: "rk_all_rooms = ''rooms:all''"
  by (simp add: rk_all_rooms_def RKEY_ALL_ROOMS_def)

definition rk_user_names_set :: "string" where
  "rk_user_names_set = RKEY_USER_NAMES_SET"

lemma rk_user_names_set_text [key_simps]: "rk_user_names_set = ''user:names:set''"
  by (simp add: rk_user_names_set_def RKEY_USER_NAMES_SET_def)

definition rk_can_whisper_to :: "string \<Rightarrow> string" where
  "rk_can_whisper_to user_id = braces RKEY_CAN_WHISPER [user_id]"

lemma rk_can_whisper_to_text [key_simps]: "rk_can_whisper_to user_id = ''whisper:'' @ user_id"
  by (simp add: rk_can_whisper_to_def RKEY_CAN_WHISPER_def)

definition rk_session_count :: "string" where
  "rk_session_count = RKEY_SESSION_COUNT"

lemma rk_session_count_text [key_simps]: "rk_session_count = ''session:count''"
  by (simp add: rk_session_count_def RKEY_SESSION_COUNT_def)

definition rk_avatars :: "string" where
  "rk_avatars = RKEY_AVATARS"

lemma rk_avatars_text [key_simps]: "rk_avatars = ''user:avatars''"
  by (simp add: rk_avatars_def RKEY_AVATARS_def)

definition rk_all_permanent_rooms :: "string" where
  "rk_all_permanent_rooms = RKEY_ROOMS_PERMANENT"

lemma rk_all_permanent_rooms_text [key_simps]: "rk_all_permanent_rooms = ''rooms:permanent''"
  by (simp add: rk_all_permanent_rooms_def RKEY_ROOMS_PERMANENT_def)

definition rk_room_acls_for_action :: "string \<Rightarrow> string \<Rightarrow> string" where
  "rk_room_acls_for_action room_id action = braces RKEY_ACLS_FOR_ROOMS_HAVING_ACTION [room_id, action]"

lemma rk_room_acls_for_action_text [key_simps]: "rk_room_acls_for_action room_id action = ''rooms:acl:'' @ room_id @ '':'' @ action"
  by (simp add: rk_room_acls_for_action_def RKEY_ACLS_FOR_ROOMS_HAVING_ACTION_def)

definition rk_rooms_with_action :: "string \<Rightarrow> string" where
  "rk_rooms_with_action action = braces RKEY_ROOMS_WITH_ACL_ACTION [action]"

lemma rk_rooms_with_action_text [key_simps]: "rk_rooms_with_action action = ''rooms:acl:'' @ action"
  by (simp add: rk_rooms_with_action_def RKEY_ROOMS_WITH_ACL_ACTION_def)

definition rk_heartbeat_user :: "string \<Rightarrow> string" where
  "rk_heartbeat_user user_id = braces RKEY_HEARTBEAT [user_id]"

lemma rk_heartbeat_user_text [key_simps]: "rk_heartbeat_user user_id = ''heartbeat:'' @ user_id"
  by (simp add: rk_heartbeat_user_def RKEY_HEARTBEAT_def)

definition rk_ack_for_user :: "string \<Rightarrow> string" where
  "rk_ack_for_user user_id = percent RKEY_ACKS_USER [user_id]"

lemma rk_ack_for_user_text [key_simps]: "rk_ack_for_user user_id = ''acks:user:'' @ user_id"
  by (simp add: rk_ack_for_user_def RKEY_ACKS_USER_def)

definition rk_ack_for_room :: "string \<Rightarrow> string" where
  "rk_ack_for_room user_id = percent RKEY_ACKS_ROOM [user_id]"

lemma rk_ack_for_room_text [key_simps]: "rk_ack_for_room user_id = ''acks:room:'' @ user_id"
  by (simp add: rk_ack_for_room_def RKEY_ACKS_ROOM_def)

definition rk_users_in_room_incl_invisible_by_name :: "string \<Rightarrow> string" where
  "rk_users_in_room_incl_invisible_by_name room_name = percent RKEY_USERS_IN_ROOM_WITH_INVISIBLE_BY_NAME [room_name]"

lemma rk_users_in_room_incl_invisible_by_name_text [key_simps]: "rk_users_in_room_incl_invisible_by_name room_name = ''room:with:invisible:name:'' @ room_name"
  by (simp add: rk_users_in_room_incl_invisible_by_name_def RKEY_USERS_IN_ROOM_WITH_INVISIBLE_BY_NAME_def)

definition rk_users_in_room_only_visible_by_name :: "string \<Rightarrow> string" where
  "rk_users_in_room_only_visible_by_name room_name = percent RKEY_USERS_IN_ROOM_VISIBLE_BY_NAME [room_name]"

lemma rk_users_in_room_only_visible_by_name_text [key_simps]: "rk_users_in_room_only_visible_by_name room_name = ''room:visible:name:'' @ room_name"
  by (simp add: rk_users_in_room_only_visible_by_name_def RKEY_USERS_IN_ROOM_VISIBLE_BY_NAME_def)

definition rk_users_in_room_incl_invisible :: "string \<Rightarrow> string" where
  "rk_users_in_room_incl_invisible room_id = percent RKEY_USERS_IN_ROOM_WITH_INVISIBLE [room_id]"

lemma rk_users_in_room_incl_invisible_text [key_simps]: "rk_users_in_room_incl_invisible room_id = ''room:with:invisible:'' @ room_id"
  by (simp add: rk_users_in_room_incl_invisible_def RKEY_USERS_IN_ROOM_WITH_INVISIBLE_def)

definition rk_users_in_room_only_visible :: "string \<Rightarrow> string" where
  "rk_users_in_room_only_visible room_id = percent RKEY_USERS_IN_ROOM_VISIBLE [room_id]"

lemma rk_users_in_room_only_visible_text [key_simps]: "rk_users_in_room_only_visible room_id = ''room:visible:'' @ room_id"
  by (simp add: rk_users_in_room_only_visible_def RKEY_USERS_IN_ROOM_VISIBLE_def)

definition rk_channels_with_sort :: "string" where
  "rk_channels_with_sort = RKEY_CHANNELS_SORT"

lemma rk_channels_with_sort_text [key_simps]: "rk_channels_with_sort = ''channels:sort''"
  by (simp add: rk_channels_with_sort_def RKEY_CHANNELS_SORT_def)

definition rk_users_in_channel_for_role :: "string \<Rightarrow> string \<Rightarrow> string" where
  "rk_users_in_channel_for_role channel_id role = percent RKEY_USERS_IN_CHANNEL_FOR_ROLE [channel_id, role]"

lemma rk_users_in_channel_for_role_text [key_simps]: "rk_users_in_channel_for_role channel_id role = ''channel:role:'' @ channel_id @ '':'' @ role"
  by (simp add: rk_users_in_channel_for_role_def RKEY_USERS_IN_CHANNEL_FOR_ROLE_def)

definition rk_users_in_room_for_role :: "string \<Rightarrow> string \<Rightarrow> string" where
  "rk_users_in_room_for_role room_id role = percent RKEY_USERS_IN_ROOM_FOR_ROLE [room_id, role]"

lemma rk_users_in_room_for_role_text [key_simps]: "rk_users_in_room_for_role room_id role = ''room:role:'' @ room_id @ '':'' @ role"
  by (simp add: rk_users_in_room_for_role_def RKEY_USERS_IN_ROOM_FOR_ROLE_def)

definition rk_acls_in_room_for_action :: "string \<Rightarrow> string \<Rightarrow> string" where
  "rk_acls_in_room_for_action room_id action = percent RKEY_ACLS_IN_ROOM_FOR_ACTION [room_id, action]"

lemma rk_acls_in_room_for_action_text [key_simps]: "rk_acls_in_room_for_action room_id action = ''room:acls:'' @ room_id @ '':'' @ action"
  by (simp add: rk_acls_in_room_for_action_def RKEY_ACLS_IN_ROOM_FOR_ACTION_def)

definition rk_acls_in_channel_for_action :: "string \<Rightarrow> string \<Rightarrow> string" where
  "rk_acls_in_channel_for_action channel_id action = percent RKEY_ACLS_IN_CHANNEL_FOR_ACTION [channel_id, action]"

lemma rk_acls_in_channel_for_action_text [key_simps]: "rk_acls_in_channel_for_action channel_id action = ''channel:acls:'' @ channel_id @ '':'' @ action"
  by (simp add: rk_acls_in_channel_for_action_def RKEY_ACLS_IN_CHANNEL_FOR_ACTION_def)

definition rk_acls_in_room :: "string \<Rightarrow> string" where
  "rk_acls_in_room room_id = percent RKEY_ACLS_IN_ROOM [room_id]"

lemma rk_acls_in_room_text [key_simps]: "rk_acls_in_room room_id = ''room:acls:'' @ room_id"
  by (simp add: rk_acls_in_room_def RKEY_ACLS_IN_ROOM_def)

definition rk_acls_in_channel :: "string \<Rightarrow> string" where
  "rk_acls_in_channel channel_id = percent RKEY_ACLS_IN_CHANNEL [channel_id]"

lemma rk_acls_in_channel_text [key_simps]: "rk_acls_in_channel channel_id = ''channel:acls:'' @ channel_id"
  by (simp add: rk_acls_in_channel_def RKEY_ACLS_IN_CHANNEL_def)

definition rk_rooms_for_channel_with_info :: "string \<Rightarrow> string" where
  "rk_rooms_for_channel_with_info channel_id = percent RKEY_ROOMS_FOR_CHANNEL_WITH_INFO [channel_id]"

lemma rk_rooms_for_channel_with_info_text [key_simps]: "rk_rooms_for_channel_with_info channel_id = ''channel:rooms:info:'' @ channel_id"
  by (simp add: rk_rooms_for_channel_with_info_def RKEY_ROOMS_FOR_CHANNEL_WITH_INFO_def)

definition rk_rooms_for_channel_without_info :: "string \<Rightarrow> string" where
  "rk_rooms_for_channel_without_info channel_id = percent RKEY_ROOMS_FOR_CHANNEL_WITHOUT_INFO [channel_id]"

lemma rk_rooms_for_channel_without_info_text [key_simps]: "rk_rooms_for_channel_without_info channel_id = ''channel:rooms:noinfo:'' @ channel_id"
  by (simp add: rk_rooms_for_channel_without_info_def RKEY_ROOMS_FOR_CHANNEL_WITHOUT_INFO_def)

definition rk_default_rooms :: "string" where
  "rk_default_rooms = RKEY_DEFAULT_ROOMS"

lemma rk_default_rooms_text [key_simps]: "rk_default_rooms = ''rooms:default''"
  by (simp add: rk_default_rooms_def RKEY_DEFAULT_ROOMS_def)

definition rk_room_types_in_channel :: "string \<Rightarrow> string" where
  "rk_room_types_in_channel channel_id = percent RKEY_TYPE_OF_ROOMS_IN_CHANNEL [channel_id]"

lemma rk_room_types_in_channel_text [key_simps]: "rk_room_types_in_channel channel_id = ''channel:roomtype:'' @ channel_id"
  by (simp add: rk_room_types_in_channel_def RKEY_TYPE_OF_ROOMS_IN_CHANNEL_def)

definition rk_non_ephemeral_rooms :: "string" where
  "rk_non_ephemeral_rooms = RKEY_NON_EPHEMERAL_ROOMS"

lemma rk_non_ephemeral_rooms_text [key_simps]: "rk_non_ephemeral_rooms = ''rooms:nonephemeral''"
  by (simp add: rk_non_ephemeral_rooms_def RKEY_NON_EPHEMERAL_ROOMS_def)

definition rk_black_list :: "string" where
  "rk_black_list = RKEY_BLACK_LIST"

lemma rk_black_list_text [key_simps]: "rk_black_list = ''words:blacklist''"
  by (simp add: rk_black_list_def RKEY_BLACK_LIST_def)

definition rk_user_roles :: "string" where
  "rk_user_roles = RKEY_USER_ROLES"

lemma rk_user_roles_text [key_simps]: "rk_user_roles = ''users:roles''"
  by (simp add: rk_user_roles_def RKEY_USER_ROLES_def)

definition rk_acl_validations :: "string \<Rightarrow> string" where
  "rk_acl_validations acl_type = percent RKEY_ACL_VALIDATION [acl_type]"

lemma rk_acl_validations_text [key_simps]: "rk_acl_validations acl_type = ''acl:validation:'' @ acl_type"
  by (simp add: rk_acl_validations_def RKEY_ACL_VALIDATION_def)

definition rk_user_names :: "string" where
  "rk_user_names = RKEY_USER_NAMES"

lemma rk_user_names_text [key_simps]: "rk_user_names = ''user:names''"
  by (simp add: rk_user_names_def RKEY_USER_NAMES_def)

definition rk_user_ids :: "string" where
  "rk_user_ids = RKEY_USER_IDS"

lemma rk_user_ids_text [key_simps]: "rk_user_ids = ''user:ids''"
  by (simp add: rk_user_ids_def RKEY_USER_IDS_def)

definition rk_sid_for_user_id :: "string" where
  "rk_sid_for_user_id = RKEY_SID_TO_USER_ID"

lemma rk_sid_for_user_id_text [key_simps]: "rk_sid_for_user_id = ''user:sid:map''"
  by (simp add: rk_sid_for_user_id_def RKEY_SID_TO_USER_ID_def)

definition rk_user_id_for_sid :: "string" where
  "rk_user_id_for_sid = RKEY_USER_ID_TO_SID"

lemma rk_user_id_for_sid_text [key_simps]: "rk_user_id_for_sid = ''sid:user:map''"
  by (simp add: rk_user_id_for_sid_def RKEY_USER_ID_TO_SID_def)

definition rk_banned_users :: "string option \<Rightarrow> string" where
  "rk_banned_users room_id = (case room_id of
     None \<Rightarrow> RKEY_BANNED_USERS_GLOBAL
   | Some r \<Rightarrow> percent RKEY_BANNED_USERS_ROOM [r])"

lemma rk_banned_users_text [key_simps]:
  "rk_banned_users None = ''users:banned:global''"
  "rk_banned_users (Some r) = ''users:banned:room:'' @ r"
  by (simp_all add: rk_banned_users_def RKEY_BANNED_USERS_GLOBAL_def RKEY_BANNED_USERS_ROOM_def)

definition rk_muted_users :: "string \<Rightarrow> string" where
  "rk_muted_users room_id = percent RKEY_MUTED_USERS_ROOM [room_id]"

lemma rk_muted_users_text [key_simps]: "rk_muted_users room_id = ''users:muted:room:'' @ room_id"
  by (simp add: rk_muted_users_def RKEY_MUTED_USERS_ROOM_def)

definition rk_banned_users_channel :: "string \<Rightarrow> string" where
  "rk_banned_users_channel channel_id = percent RKEY_BANNED_USERS_CHANNEL [channel_id]"

lemma rk_banned_users_channel_text [key_simps]: "rk_banned_users_channel channel_id = ''users:banned:channel:'' @ channel_id"
  by (simp add: rk_banned_users_channel_def RKEY_BANNED_USERS_CHANNEL_def)

definition rk_last_read :: "string \<Rightarrow> string" where
  "rk_last_read room_id = percent RKEY_LAST_READ [room_id]"

lemma rk_last_read_text [key_simps]: "rk_last_read room_id = ''room:read:'' @ room_id"
  by (simp add: rk_last_read_def RKEY_LAST_READ_def)

definition rk_channel_roles :: "string \<Rightarrow> string" where
  "rk_channel_roles channel_id = percent RKEY_CHANNEL_ROLES [channel_id]"

lemma rk_channel_roles_text [key_simps]: "rk_channel_roles channel_id = ''channel:roles:'' @ channel_id"
  by (simp add: rk_channel_roles_def RKEY_CHANNEL_ROLES_def)

definition rk_room_roles :: "string \<Rightarrow> string" where
  "rk_room_roles room_id = percent RKEY_ROOM_ROLES [room_id]"

lemma rk_room_roles_text [key_simps]: "rk_room_roles room_id = ''room:roles:'' @ room_id"
  by (simp add: rk_room_roles_def RKEY_ROOM_ROLES_def)

definition rk_global_roles :: "string" where
  "rk_global_roles = RKEY_GLOBAL_ROLES"

lemma rk_global_roles_text [key_simps]: "rk_global_roles = ''global:roles''"
  by (simp add: rk_global_roles_def RKEY_GLOBAL_ROLES_def)

definition rk_room_id_for_name :: "string \<Rightarrow> string" where
  "rk_room_id_for_name room_name = percent RKEY_ROOM_ID_FOR_NAME [room_name]"

lemma rk_room_id_for_name_text [key_simps]: "rk_room_id_for_name room_name = ''room:id:'' @ room_name"
  by (simp add: rk_room_id_for_name_def RKEY_ROOM_ID_FOR_NAME_def)

definition rk_rooms_for_user :: "string \<Rightarrow> string" where
  "rk_rooms_for_user user_id = percent RKEY_ROOMS_FOR_USER [user_id]"

lemma rk_rooms_for_user_text [key_simps]: "rk_rooms_for_user user_id = ''user:rooms:'' @ user_id"
  by (simp add: rk_rooms_for_user_def RKEY_ROOMS_FOR_USER_def)

definition rk_users_in_room :: "string \<Rightarrow> string" where
  "rk_users_in_room room_id = percent RKEY_USERS_IN_ROOM [room_id]"

lemma rk_users_in_room_text [key_simps]: "rk_users_in_room room_id = ''room:'' @ room_id"
  by (simp add: rk_users_in_room_def RKEY_USERS_IN_ROOM_def)

definition rk_admin_room :: "string" where
  "rk_admin_room = RKEY_ROOM_ADMIN"

lemma rk_admin_room_text [key_simps]: "rk_admin_room = ''room:admin''"
  by (simp add: rk_admin_room_def RKEY_ROOM_ADMIN_def)

definition rk_rooms :: "string \<Rightarrow> string" where
  "rk_rooms channel_id = percent RKEY_ROOMS [channel_id]"

lemma rk_rooms_text [key_simps]: "rk_rooms channel_id = ''rooms:'' @ channel_id"
  by (simp add: rk_rooms_def RKEY_ROOMS_def)

definition rk_room_name_for_id :: "string" where
  "rk_room_name_for_id = RKEY_ROOM_NAME"

lemma rk_room_name_for_id_text [key_simps]: "rk_room_name_for_id = ''room:names''"
  by (simp add: rk_room_name_for_id_def RKEY_ROOM_NAME_def)

definition rk_online_bitmap :: "string" where
  "rk_online_bitmap = RKEY_ONLINE_BITMAP"

lemma rk_online_bitmap_text [key_simps]: "rk_online_bitmap = ''users:online:bitmap''"
  by (simp add: rk_online_bitmap_def RKEY_ONLINE_BITMAP_def)

definition rk_online_set :: "string" where
  "rk_online_set = RKEY_ONLINE_SET"

lemma rk_online_set_text [key_simps]: "rk_online_set = ''users:online:set''"
  by (simp add: rk_online_set_def RKEY_ONLINE_SET_def)

definition rk_channels :: "string" where
  "rk_channels = RKEY_CHANNELS"

lemma rk_channels_text [key_simps]: "rk_channels = ''channels''"
  by (simp add: rk_channels_def RKEY_CHANNELS_def)

definition rk_channel_exists :: "string" where
  "rk_channel_exists = RKEY_CHANNEL_EXISTS"

lemma rk_channel_exists_text [key_simps]: "rk_channel_exists = ''channel:exists''"
  by (simp add: rk_channel_exists_def RKEY_CHANNEL_EXISTS_def)

definition rk_users_multi_cast :: "string" where
  "rk_users_multi_cast = RKEY_MULTI_CAST"

lemma rk_users_multi_cast_text [key_simps]: "rk_users_multi_cast = ''users:multicast''"
  by (simp add: rk_users_multi_cast_def RKEY_MULTI_CAST_def)

definition rk_user_status :: "string \<Rightarrow> string" where
  "rk_user_status user_id = percent RKEY_USER_STATUS [user_id]"

lemma rk_user_status_text [key_simps]: "rk_user_status user_id = ''user:status:'' @ user_id"
  by (simp add: rk_user_status_def RKEY_USER_STATUS_def)

definition rk_user_last_online :: "string \<Rightarrow> string" where
  "rk_user_last_online user_id = braces RKEY_USER_LAST_ONLINE [user_id]"

lemma rk_user_last_online_text [key_simps]: "rk_user_last_online user_id = ''user:online:last:'' @ user_id"
  by (simp add: rk_user_last_online_def RKEY_USER_LAST_ONLINE_def)

definition rk_room_history :: "string \<Rightarrow> string" where
  "rk_room_history room_id = percent RKEY_ROOM_HISTORY [room_id]"

lemma rk_room_history_text [key_simps]: "rk_room_history room_id = ''room:history:'' @ room_id"
  by (simp add: rk_room_history_def RKEY_ROOM_HISTORY_def)

definition rk_channel_acl :: "string \<Rightarrow> string" where
  "rk_channel_acl channel_id = percent RKEY_CHANNEL_ACL [channel_id]"

lemma rk_channel_acl_text [key_simps]: "rk_channel_acl channel_id = ''channel:acl:'' @ channel_id"
  by (simp add: rk_channel_acl_def RKEY_CHANNEL_ACL_def)

definition rk_room_acl :: "string \<Rightarrow> string" where
  "rk_room_acl room_id = percent RKEY_ROOM_ACL [room_id]"

lemma rk_room_acl_text [key_simps]: "rk_room_acl room_id = ''room:acl:'' @ room_id"
  by (simp add: rk_room_acl_def RKEY_ROOM_ACL_def)

definition rk_channel_for_rooms :: "string" where
  "rk_channel_for_rooms = RKEY_CHANNEL_FOR_ROOMS"

lemma rk_channel_for_rooms_text [key_simps]: "rk_channel_for_rooms = ''room:channel''"
  by (simp add: rk_channel_for_rooms_def RKEY_CHANNEL_FOR_ROOMS_def)

definition rk_auth_key :: "string \<Rightarrow> string" where
  "rk_auth_key user_id = percent RKEY_AUTH [user_id]"

lemma rk_auth_key_text [key_simps]: "rk_auth_key user_id = ''user:auth:'' @ user_id"
  by (simp add: rk_auth_key_def RKEY_AUTH_def)

subsection \<open>The keys of the database backend\<close>

text \<open>
  The keys that \<open>DatabaseRedis\<close> reads and writes, as a datatype: one constructor per method
  of \<open>RedisKeys\<close> it calls, with the ids that fill the template.
\<close>

datatype db_key =
    KDefaultChannel | KChannels | KGlobalRoles | KUserNames | KRoomNames | KChannelForRooms
  | KNonEphemeral | KDefaultRooms | KBlackList | KAdminRoom | KSids
  | KRooms string | KUsersInRoom string | KRoomsForUser string | KRoomRoles string
  | KChannelRoles string | KRoomAcl string | KChannelAcl string | KBannedGlobal
  | KBannedRoom string | KBannedChannel string | KMuted string | KLastRead string
  | KUserStatus string | KAuth string | KJoins string

fun key_text :: "db_key \<Rightarrow> string" where
  "key_text KDefaultChannel = rk_default_channel_id"
| "key_text KChannels = rk_channels"
| "key_text KGlobalRoles = rk_global_roles"
| "key_text KUserNames = rk_user_names"
| "key_text KRoomNames = rk_room_name_for_id"
| "key_text KChannelForRooms = rk_channel_for_rooms"
| "key_text KNonEphemeral = rk_non_ephemeral_rooms"
| "key_text KDefaultRooms = rk_default_rooms"
| "key_text KBlackList = rk_black_list"
| "key_text KAdminRoom = rk_admin_room"
| "key_text KSids = rk_sid_for_user_id"
| "key_text (KRooms c) = rk_rooms c"
| "key_text (KUsersInRoom r) = rk_users_in_room r"
| "key_text (KRoomsForUser u) = rk_rooms_for_user u"
| "key_text (KRoomRoles r) = rk_room_roles r"
| "key_text (KChannelRoles c) = rk_channel_roles c"
| "key_text (KRoomAcl r) = rk_room_acl r"
| "key_text (KChannelAcl c) = rk_channel_acl c"
| "key_text KBannedGlobal = rk_banned_users None"
| "key_text (KBannedRoom r) = rk_banned_users (Some r)"
| "key_text (KBannedChannel c) = rk_banned_users_channel c"
| "key_text (KMuted r) = rk_muted_users r"
| "key_text (KLastRead r) = rk_last_read r"
| "key_text (KUserStatus u) = rk_user_status u"
| "key_text (KAuth u) = rk_auth_key u"
| "key_text (KJoins r) = rk_join_counts r"

text \<open>
  The ids for which the keys are kept apart: no colon in an id, and no room called
  \<open>names\<close>, \<open>channel\<close> or \<open>admin\<close>, no channel called \<open>default\<close> or \<open>nonephemeral\<close>.
\<close>

definition plain_id :: "string \<Rightarrow> bool" where
  "plain_id s \<longleftrightarrow> CHR '':'' \<notin> set s"

definition room_id_ok :: "string \<Rightarrow> bool" where
  "room_id_ok r \<longleftrightarrow> plain_id r \<and> r \<notin> {''names'', ''channel'', ''admin''}"

definition channel_id_ok :: "string \<Rightarrow> bool" where
  "channel_id_ok c \<longleftrightarrow> plain_id c \<and> c \<notin> {''default'', ''nonephemeral''}"

fun key_ok :: "db_key \<Rightarrow> bool" where
  "key_ok (KRooms c) = channel_id_ok c"
| "key_ok (KUsersInRoom r) = room_id_ok r"
| "key_ok k = True"

lemma plain_id_simps [simp]:
  "plain_id []" "plain_id (c # s) \<longleftrightarrow> c \<noteq> CHR '':'' \<and> plain_id s"
  by (auto simp: plain_id_def)

lemma key_text_inj:
  assumes "key_ok k" "key_ok k'" "key_text k = key_text k'"
  shows "k = k'"
  using assms
  apply (cases k; cases k')
  apply (simp_all add: key_simps room_id_ok_def channel_id_ok_def)
  apply (elim conjE, hypsubst, simp)+
  done

end
