(* ===== verification/Redis_Client.thy ===== *)
theory Redis_Client
  imports Prelude
begin

section \<open>The Redis client\<close>

text \<open>
  The backends call a Redis client (\<open>redis.Redis\<close>, or \<open>fakeredis\<close> in the tests), which is not
  part of the repository. It is a parameter here: a record of the commands the source calls,
  each a function on an abstract server state. What the code relies on is stated as the laws
  of the locales below, one per data type, which are the documented effects of the commands on
  keys of their own data type. A command on a key of another data type (the server answers
  \<open>WRONGTYPE\<close>) and connection failures are not modelled. Redis stores bytes; the code encodes
  and decodes them as UTF-8, which is the identity here. \<open>store_redis\<close> is a reference client
  over an in-memory store that satisfies all laws, so that theorems about any client can be
  applied to a concrete one.
\<close>

subsection \<open>The commands\<close>

record 's redis =
  r_get :: "'s \<Rightarrow> string \<Rightarrow> string option"
  r_set :: "'s \<Rightarrow> string \<Rightarrow> string \<Rightarrow> 's"
  r_incr :: "'s \<Rightarrow> string \<Rightarrow> 's"
  r_delete :: "'s \<Rightarrow> string \<Rightarrow> 's"
  r_expire :: "'s \<Rightarrow> string \<Rightarrow> int \<Rightarrow> 's"
  r_hget :: "'s \<Rightarrow> string \<Rightarrow> string \<Rightarrow> string option"
  r_hset :: "'s \<Rightarrow> string \<Rightarrow> string \<Rightarrow> string \<Rightarrow> 's"
  r_hmset :: "'s \<Rightarrow> string \<Rightarrow> (string \<times> string) list \<Rightarrow> 's"
  r_hdel :: "'s \<Rightarrow> string \<Rightarrow> string \<Rightarrow> 's"
  r_hexists :: "'s \<Rightarrow> string \<Rightarrow> string \<Rightarrow> bool"
  r_hgetall :: "'s \<Rightarrow> string \<Rightarrow> (string \<times> string) list"
  r_hvals :: "'s \<Rightarrow> string \<Rightarrow> string list"
  r_sadd :: "'s \<Rightarrow> string \<Rightarrow> string \<Rightarrow> 's"
  r_srem :: "'s \<Rightarrow> string \<Rightarrow> string \<Rightarrow> 's"
  r_sismember :: "'s \<Rightarrow> string \<Rightarrow> string \<Rightarrow> bool"
  r_smembers :: "'s \<Rightarrow> string \<Rightarrow> string list"
  r_lpush :: "'s \<Rightarrow> string \<Rightarrow> string \<Rightarrow> 's"
  r_ltrim :: "'s \<Rightarrow> string \<Rightarrow> int \<Rightarrow> int \<Rightarrow> 's"
  r_lrem :: "'s \<Rightarrow> string \<Rightarrow> string \<Rightarrow> 's"
  r_lrange :: "'s \<Rightarrow> string \<Rightarrow> int \<Rightarrow> int \<Rightarrow> string list"

text \<open>
  The elements from index \<open>a\<close> to index \<open>b\<close> of a list, both included; negative indices count
  from the end, as in \<open>LRANGE\<close> and \<open>LTRIM\<close>. \<open>r_lrem\<close> is \<open>LREM key 1 value\<close>.
\<close>

definition list_index :: "nat \<Rightarrow> int \<Rightarrow> int" where
  "list_index n i = (if i < 0 then int n + i else i)"

definition list_range :: "'a list \<Rightarrow> int \<Rightarrow> int \<Rightarrow> 'a list" where
  "list_range xs a b =
     (let i = max 0 (list_index (length xs) a); j = list_index (length xs) b
      in if j < i then [] else take (nat (j - i + 1)) (drop (nat i) xs))"

lemma list_range_all [simp]: "list_range xs 0 (- 1) = xs"
  by (cases xs) (auto simp: list_range_def list_index_def Let_def)

lemma list_range_prefix: "0 \<le> n \<Longrightarrow> list_range xs 0 n = take (nat n + 1) xs"
  by (auto simp: list_range_def list_index_def Let_def nat_add_distrib)

subsection \<open>The laws, by data type\<close>

locale redis_strings =
  fixes R :: "'s redis"
  assumes get_set: "r_get R (r_set R s k v) k' = (if k' = k then Some v else r_get R s k')"
    and get_delete: "r_get R (r_delete R s k) k' = (if k' = k then None else r_get R s k')"
    and get_incr: "r_get R s k = None \<or> r_get R s k = Some (str_int n) \<Longrightarrow>
      r_get R (r_incr R s k) k' =
        (if k' = k then Some (str_int ((case r_get R s k of None \<Rightarrow> 0 | Some _ \<Rightarrow> n) + 1))
         else r_get R s k')"
    and get_expire: "r_get R (r_expire R s k t) k' = r_get R s k'"

locale redis_hashes =
  fixes R :: "'s redis"
  assumes hget_hset:
    "r_hget R (r_hset R s k f v) k' f' = (if k' = k \<and> f' = f then Some v else r_hget R s k' f')"
    and hget_hmset: "distinct (map fst m) \<Longrightarrow>
      r_hget R (r_hmset R s k m) k' f' =
        (if k' = k then (case map_of m f' of None \<Rightarrow> r_hget R s k f' | Some v \<Rightarrow> Some v)
         else r_hget R s k' f')"
    and hget_hdel:
    "r_hget R (r_hdel R s k f) k' f' = (if k' = k \<and> f' = f then None else r_hget R s k' f')"
    and hget_delete: "r_hget R (r_delete R s k) k' f = (if k' = k then None else r_hget R s k' f)"
    and hget_expire: "r_hget R (r_expire R s k t) k' f = r_hget R s k' f"
    and hexists: "r_hexists R s k f \<longleftrightarrow> r_hget R s k f \<noteq> None"
    and map_of_hgetall: "map_of (r_hgetall R s k) = r_hget R s k"
    and distinct_hgetall: "distinct (map fst (r_hgetall R s k))"
    and hvals: "r_hvals R s k = map snd (r_hgetall R s k)"

locale redis_sets =
  fixes R :: "'s redis"
  assumes sismember_sadd:
    "r_sismember R (r_sadd R s k x) k' y \<longleftrightarrow> (k' = k \<and> y = x) \<or> r_sismember R s k' y"
    and sismember_srem:
    "r_sismember R (r_srem R s k x) k' y \<longleftrightarrow> \<not> (k' = k \<and> y = x) \<and> r_sismember R s k' y"
    and sismember_delete:
    "r_sismember R (r_delete R s k) k' y \<longleftrightarrow> k' \<noteq> k \<and> r_sismember R s k' y"
    and sismember_expire: "r_sismember R (r_expire R s k t) k' y \<longleftrightarrow> r_sismember R s k' y"
    and set_smembers: "y \<in> set (r_smembers R s k) \<longleftrightarrow> r_sismember R s k y"
    and distinct_smembers: "distinct (r_smembers R s k)"

locale redis_lists =
  fixes R :: "'s redis"
  assumes lrange_slice: "r_lrange R s k a b = list_range (r_lrange R s k 0 (- 1)) a b"
    and lrange_lpush:
    "r_lrange R (r_lpush R s k x) k' 0 (- 1) =
       (if k' = k then x # r_lrange R s k 0 (- 1) else r_lrange R s k' 0 (- 1))"
    and lrange_ltrim:
    "r_lrange R (r_ltrim R s k a b) k' 0 (- 1) =
       (if k' = k then list_range (r_lrange R s k 0 (- 1)) a b else r_lrange R s k' 0 (- 1))"
    and lrange_lrem:
    "r_lrange R (r_lrem R s k x) k' 0 (- 1) =
       (if k' = k then remove1 x (r_lrange R s k 0 (- 1)) else r_lrange R s k' 0 (- 1))"

text \<open>Commands of one data type leave the keys of the others alone.\<close>

locale redis_client = redis_strings R + redis_hashes R + redis_sets R + redis_lists R
  for R :: "'s redis" +
  assumes get_frame:
    "r_get R (r_hset R s k f v) k' = r_get R s k'" "r_get R (r_hmset R s k m) k' = r_get R s k'"
    "r_get R (r_hdel R s k f) k' = r_get R s k'" "r_get R (r_sadd R s k x) k' = r_get R s k'"
    "r_get R (r_srem R s k x) k' = r_get R s k'"
    and hget_frame:
    "r_hget R (r_set R s k v) k' f' = r_hget R s k' f'"
    "r_hget R (r_incr R s k) k' f' = r_hget R s k' f'"
    "r_hget R (r_sadd R s k x) k' f' = r_hget R s k' f'"
    "r_hget R (r_srem R s k x) k' f' = r_hget R s k' f'"
    and sismember_frame:
    "r_sismember R (r_set R s k v) k' y = r_sismember R s k' y"
    "r_sismember R (r_incr R s k) k' y = r_sismember R s k' y"
    "r_sismember R (r_hset R s k f v) k' y = r_sismember R s k' y"
    "r_sismember R (r_hmset R s k m) k' y = r_sismember R s k' y"
    "r_sismember R (r_hdel R s k f) k' y = r_sismember R s k' y"
begin

lemmas laws =
  get_set get_delete get_expire get_frame
  hget_hset hget_hdel hget_delete hget_expire hget_frame hexists map_of_hgetall hvals
  sismember_sadd sismember_srem sismember_delete sismember_expire sismember_frame set_smembers

lemma in_set_hgetall: "(f, v) \<in> set (r_hgetall R s k) \<longleftrightarrow> r_hget R s k f = Some v"
  by (metis distinct_hgetall map_of_eq_Some_iff map_of_hgetall)

lemma hgetall_empty: "r_hgetall R s k = [] \<longleftrightarrow> (\<forall>f. r_hget R s k f = None)"
proof -
  have "r_hgetall R s k = [] \<longleftrightarrow> map_of (r_hgetall R s k) = Map.empty"
    by simp
  also have "\<dots> \<longleftrightarrow> (\<forall>f. r_hget R s k f = None)"
    by (simp add: map_of_hgetall fun_eq_iff)
  finally show ?thesis .
qed

lemma in_set_hvals: "v \<in> set (r_hvals R s k) \<longleftrightarrow> (\<exists>f. r_hget R s k f = Some v)"
  by (force simp: hvals in_set_hgetall [symmetric])

end

subsection \<open>A reference client over an in-memory store\<close>

record store =
  st_strings :: "string \<Rightarrow> string option"
  st_hashes :: "string \<Rightarrow> (string \<times> string) list"
  st_sets :: "string \<Rightarrow> string list"
  st_lists :: "string \<Rightarrow> string list"

definition empty_store :: store where
  "empty_store = \<lparr>st_strings = (\<lambda>_. None), st_hashes = (\<lambda>_. []), st_sets = (\<lambda>_. []),
     st_lists = (\<lambda>_. [])\<rparr>"

definition incr_text :: "string option \<Rightarrow> string" where
  "incr_text v = (case v of
     None \<Rightarrow> str_int 1
   | Some s \<Rightarrow> (case py_int s of None \<Rightarrow> s | Some n \<Rightarrow> str_int (n + 1)))"

definition store_redis :: "store redis" where
  "store_redis = \<lparr>
     r_get = (\<lambda>s k. st_strings s k),
     r_set = (\<lambda>s k v. s\<lparr>st_strings := (st_strings s)(k := Some v)\<rparr>),
     r_incr = (\<lambda>s k. s\<lparr>st_strings := (st_strings s)(k := Some (incr_text (st_strings s k)))\<rparr>),
     r_delete = (\<lambda>s k. s\<lparr>st_strings := (st_strings s)(k := None),
       st_hashes := (st_hashes s)(k := []), st_sets := (st_sets s)(k := []),
       st_lists := (st_lists s)(k := [])\<rparr>),
     r_expire = (\<lambda>s k t. s),
     r_hget = (\<lambda>s k f. map_of (st_hashes s k) f),
     r_hset = (\<lambda>s k f v. s\<lparr>st_hashes := (st_hashes s)(k := AList.update f v (st_hashes s k))\<rparr>),
     r_hmset = (\<lambda>s k m. s\<lparr>st_hashes := (st_hashes s)(k := m @ st_hashes s k)\<rparr>),
     r_hdel = (\<lambda>s k f. s\<lparr>st_hashes := (st_hashes s)(k := AList.delete f (st_hashes s k))\<rparr>),
     r_hexists = (\<lambda>s k f. map_of (st_hashes s k) f \<noteq> None),
     r_hgetall = (\<lambda>s k. AList.clearjunk (st_hashes s k)),
     r_hvals = (\<lambda>s k. map snd (AList.clearjunk (st_hashes s k))),
     r_sadd = (\<lambda>s k x. s\<lparr>st_sets := (st_sets s)(k := x # st_sets s k)\<rparr>),
     r_srem = (\<lambda>s k x. s\<lparr>st_sets := (st_sets s)(k := filter (\<lambda>y. y \<noteq> x) (st_sets s k))\<rparr>),
     r_sismember = (\<lambda>s k x. List.member (st_sets s k) x),
     r_smembers = (\<lambda>s k. remdups (st_sets s k)),
     r_lpush = (\<lambda>s k x. s\<lparr>st_lists := (st_lists s)(k := x # st_lists s k)\<rparr>),
     r_ltrim = (\<lambda>s k a b. s\<lparr>st_lists := (st_lists s)(k := list_range (st_lists s k) a b)\<rparr>),
     r_lrem = (\<lambda>s k x. s\<lparr>st_lists := (st_lists s)(k := remove1 x (st_lists s k))\<rparr>),
     r_lrange = (\<lambda>s k a b. list_range (st_lists s k) a b)\<rparr>"

interpretation memory_client: redis_client store_redis
  by unfold_locales
    (auto simp: store_redis_def incr_text_def update_conv' delete_conv' map_of_clearjunk
      distinct_clearjunk map_add_def split: option.splits)

lemma store_redis_simps [simp]:
  "r_get store_redis s k = st_strings s k"
  "r_set store_redis s k v = s\<lparr>st_strings := (st_strings s)(k := Some v)\<rparr>"
  "r_hget store_redis s k f = map_of (st_hashes s k) f"
  "r_hset store_redis s k f v = s\<lparr>st_hashes := (st_hashes s)(k := AList.update f v (st_hashes s k))\<rparr>"
  "r_hdel store_redis s k f = s\<lparr>st_hashes := (st_hashes s)(k := AList.delete f (st_hashes s k))\<rparr>"
  "r_hexists store_redis s k f = (map_of (st_hashes s k) f \<noteq> None)"
  "r_hgetall store_redis s k = AList.clearjunk (st_hashes s k)"
  "r_hvals store_redis s k = map snd (AList.clearjunk (st_hashes s k))"
  "r_sismember store_redis s k x = (x \<in> set (st_sets s k))"
  "r_sadd store_redis s k x = s\<lparr>st_sets := (st_sets s)(k := x # st_sets s k)\<rparr>"
  "r_lpush store_redis s k x = s\<lparr>st_lists := (st_lists s)(k := x # st_lists s k)\<rparr>"
  "r_lrange store_redis s k a b = list_range (st_lists s k) a b"
  by (simp_all add: store_redis_def)

lemma empty_store_simps [simp]:
  "st_strings empty_store k = None" "st_hashes empty_store k = []"
  "st_sets empty_store k = []" "st_lists empty_store k = []"
  by (simp_all add: empty_store_def)

end
