(* ===== verification/Cache_Iface.thy ===== *)
theory Cache_Iface
  imports Config_Keys Redis_Client
begin

section \<open>The cache interface\<close>

text \<open>
  \<open>ICache\<close> of \<^verbatim>\<open>dino/cache/__init__.py\<close>, restricted to what the Redis database backend calls,
  and \<open>CacheAllMiss\<close> of \<^verbatim>\<open>dino/cache/miss.py\<close>. The contract that the backend relies on is the
  locale \<open>coherent_cache\<close>: an answer is either a miss or the value that the cached mapping has.
  It is stated with a relation \<open>agrees c ch nm\<close>: every channel of a room and every channel name
  that \<open>c\<close> can answer is the one in the mappings \<open>ch\<close> (room to channel) and \<open>nm\<close> (channel to
  name).
\<close>

record 'c icache =
  ic_get_channel_for_room :: "string \<Rightarrow> ('c, string option) op"
  ic_set_channel_for_room :: "string \<Rightarrow> string \<Rightarrow> ('c, unit) op"
  ic_get_channel_name :: "string \<Rightarrow> ('c, string option) op"
  ic_set_channel_name :: "string \<Rightarrow> string \<Rightarrow> ('c, unit) op"
  ic_get_channel_exists :: "string \<Rightarrow> ('c, bool option) op"
  ic_set_channel_exists :: "string \<Rightarrow> ('c, unit) op"
  ic_set_join_count :: "string \<Rightarrow> int \<Rightarrow> ('c, unit) op"
  ic_get_user_status :: "string \<Rightarrow> ('c, string option) op"

locale coherent_cache =
  fixes C :: "'c icache"
    and agrees :: "'c \<Rightarrow> (string \<Rightarrow> string option) \<Rightarrow> (string \<Rightarrow> string option) \<Rightarrow> bool"
  assumes get_channel_for_room:
    "agrees c ch nm \<Longrightarrow>
       \<exists>v c'. ic_get_channel_for_room C r c = (Inr v, c') \<and> (v = None \<or> v = ch r) \<and> agrees c' ch nm"
    and set_channel_for_room:
    "agrees c ch nm \<Longrightarrow> ch r = Some x \<Longrightarrow>
       \<exists>c'. ic_set_channel_for_room C x r c = (Inr (), c') \<and> agrees c' ch nm"
    and get_channel_name:
    "agrees c ch nm \<Longrightarrow>
       \<exists>v c'. ic_get_channel_name C x c = (Inr v, c') \<and> (v = None \<or> v = nm x) \<and> agrees c' ch nm"
    and set_channel_name:
    "agrees c ch nm \<Longrightarrow>
       \<exists>c'. ic_set_channel_name C x n c = (Inr (), c') \<and> agrees c' ch (nm(x \<mapsto> n))"
    and get_channel_exists:
    "agrees c ch nm \<Longrightarrow> \<exists>v c'. ic_get_channel_exists C x c = (Inr v, c') \<and> agrees c' ch nm"
    and set_channel_exists:
    "agrees c ch nm \<Longrightarrow> \<exists>c'. ic_set_channel_exists C x c = (Inr (), c') \<and> agrees c' ch nm"
    and set_join_count:
    "agrees c ch nm \<Longrightarrow> \<exists>c'. ic_set_join_count C r k c = (Inr (), c') \<and> agrees c' ch nm"
    and get_user_status:
    "agrees c ch nm \<Longrightarrow> \<exists>v c'. ic_get_user_status C u c = (Inr v, c') \<and> agrees c' ch nm"
    and agrees_extend_channel: "agrees c ch nm \<Longrightarrow> ch r = None \<Longrightarrow> agrees c (ch(r \<mapsto> x)) nm"
    and agrees_extend_name: "agrees c ch nm \<Longrightarrow> nm x = None \<Longrightarrow> agrees c ch (nm(x \<mapsto> n))"

subsection \<open>The cache that never has anything\<close>

definition always_returns_none :: "('c, 'a option) op" where
  "always_returns_none = ret None"

definition all_miss :: "unit icache" where
  "all_miss = \<lparr>
     ic_get_channel_for_room = (\<lambda>_. always_returns_none),
     ic_set_channel_for_room = (\<lambda>_ _. ret ()),
     ic_get_channel_name = (\<lambda>_. always_returns_none),
     ic_set_channel_name = (\<lambda>_ _. ret ()),
     ic_get_channel_exists = (\<lambda>_. always_returns_none),
     ic_set_channel_exists = (\<lambda>_. ret ()),
     ic_set_join_count = (\<lambda>_ _. ret ()),
     ic_get_user_status = (\<lambda>_. always_returns_none)\<rparr>"

interpretation all_miss_cache: coherent_cache all_miss "\<lambda>_ _ _. True"
  by unfold_locales (simp_all add: all_miss_def always_returns_none_def op_simps)

end
