(* ===== verification/Durations.thy ===== *)
theory Durations
  imports Prelude
begin

section \<open>Durations and timestamps\<close>

text \<open>
  \<^verbatim>\<open>dino/validation/generic.py\<close> (\<open>is_digit\<close>), \<^verbatim>\<open>dino/validation/duration.py\<close>
  (\<open>DurationValidator\<close>) and the conversions of \<^verbatim>\<open>dino/utils/__init__.py\<close> from a ban duration
  such as \<open>5m\<close> to the end of the ban. A naive \<open>datetime\<close> is the number of microseconds from
  1970-01-01T00:00:00; \<open>tz\<close> is the offset of the local time zone from UTC in seconds, with
  which Python reads a naive value when it converts to and from a timestamp.
\<close>

subsection \<open>Validation\<close>

definition is_digit :: "string option \<Rightarrow> bool" where
  "is_digit val = (case val of
     None \<Rightarrow> False
   | Some v \<Rightarrow>
       if length v = 0 then False
       else if hd v \<in> {CHR ''-'', CHR ''+''} then isdigit (tl v)
       else isdigit v)"

definition chars_in_list :: "string option \<Rightarrow> string list \<Rightarrow> bool" where
  "chars_in_list val char_list = (case val of
     None \<Rightarrow> False
   | Some v \<Rightarrow>
       if blank v then False
       else length (filter (\<lambda>x. x \<in> set char_list) (split_on (CHR '','') v))
            = length (split_on (CHR '','') v))"

definition duration_units :: "(char \<times> string) list" where
  "duration_units = [(CHR ''d'', ''days''), (CHR ''h'', ''hours''), (CHR ''m'', ''minutes''),
     (CHR ''s'', ''seconds'')]"

text \<open>The message of the \<open>ValueError\<close> the constructor raises, \<open>None\<close> when it does not.\<close>

definition duration_error :: "string option \<Rightarrow> string option" where
  "duration_error ban_duration = (case ban_duration of
     None \<Rightarrow> Some ''empty ban duration''
   | Some d \<Rightarrow>
       if d = '''' then Some ''empty ban duration''
       else if last d \<notin> {CHR ''s'', CHR ''m'', CHR ''h'', CHR ''d''}
         then Some (''invalid ban duration: '' @ d)
       else if hd d = CHR ''-'' then Some (''can not set negative ban duration: '' @ d)
       else (let d' = (if hd d = CHR ''+'' then tl d else d)
             in if \<not> is_digit (Some (butlast d'))
                then Some (''invalid ban duration, not a number: '' @ d')
                else None))"

definition duration_validator :: "string option \<Rightarrow> exc + unit" where
  "duration_validator d = (case duration_error d of None \<Rightarrow> Inr () | Some _ \<Rightarrow> Inl ValueError)"

subsection \<open>Conversion\<close>

definition max_datetime :: int where
  "max_datetime = 253402300799999999"

definition ban_seconds :: "string \<Rightarrow> exc + int" where
  "ban_seconds ban_duration =
     (let u = last ban_duration; n = butlast ban_duration
      in if u \<in> {CHR ''d'', CHR ''h'', CHR ''m'', CHR ''s''} \<and> is_digit (Some n)
         then (case py_int n of
             None \<Rightarrow> Inl ValueError
           | Some k \<Rightarrow>
               if u = CHR ''d'' then Inr (k * 86400)
               else if u = CHR ''h'' then Inr (k * 3600)
               else if u = CHR ''m'' then Inr (k * 60)
               else Inr k)
         else Inr 0)"

text \<open>\<open>now + timedelta(...)\<close>, which raises \<open>OverflowError\<close> after the last representable date.\<close>

definition ban_duration_to_datetime :: "int \<Rightarrow> string option \<Rightarrow> exc + int" where
  "ban_duration_to_datetime now ban_duration =
     (case duration_validator ban_duration of
        Inl e \<Rightarrow> Inl e
      | Inr _ \<Rightarrow> (case ban_seconds (the ban_duration) of
          Inl e \<Rightarrow> Inl e
        | Inr secs \<Rightarrow>
            if now + secs * micro > max_datetime then Inl OverflowError
            else Inr (now + secs * micro)))"

text \<open>\<open>int(x)\<close> of a number of microseconds, which truncates towards zero.\<close>

definition trunc_seconds :: "int \<Rightarrow> int" where
  "trunc_seconds us = (if us < 0 then - ((- us) div micro) else us div micro)"

definition naive_to_timestamp :: "int \<Rightarrow> int \<Rightarrow> int" where
  "naive_to_timestamp tz dt = dt - tz * micro"

definition from_timestamp :: "int \<Rightarrow> int \<Rightarrow> int" where
  "from_timestamp tz ts = ts + tz * micro"

definition datetime_to_timestamp :: "int \<Rightarrow> int \<Rightarrow> string" where
  "datetime_to_timestamp tz some_date = str_int (trunc_seconds (naive_to_timestamp tz some_date))"

definition ban_duration_to_timestamp :: "int \<Rightarrow> int \<Rightarrow> string option \<Rightarrow> exc + string" where
  "ban_duration_to_timestamp tz now ban_duration =
     (case ban_duration_to_datetime now ban_duration of
        Inl e \<Rightarrow> Inl e
      | Inr d \<Rightarrow> Inr (datetime_to_timestamp tz d))"

text \<open>\<open>(end - now).seconds\<close>: the seconds of a \<open>timedelta\<close> within its day.\<close>

definition delta_seconds :: "int \<Rightarrow> int" where
  "delta_seconds us = (us mod (86400 * micro)) div micro"

subsection \<open>What is accepted\<close>

lemma is_digit_Some:
  "is_digit (Some s) \<longleftrightarrow>
     (\<exists>ds. isdigit ds \<and> (s = ds \<or> s = CHR ''-'' # ds \<or> s = CHR ''+'' # ds))"
proof (cases s)
  case (Cons c cs)
  have "isdigit (c # cs) \<Longrightarrow> c \<noteq> CHR ''-'' \<and> c \<noteq> CHR ''+''"
    by (auto simp: isdigit_def dest: digit_not_sign)
  with Cons show ?thesis by (auto simp: is_digit_def)
qed (auto simp: is_digit_def isdigit_def)

lemma is_digit_Nil: "\<not> is_digit (Some [])"
  by (simp add: is_digit_def)

lemma is_digit_isdigit: "isdigit ds \<Longrightarrow> is_digit (Some ds)"
  by (auto simp: is_digit_Some)

lemma py_int_is_digit: "is_digit (Some s) \<Longrightarrow> \<exists>k. py_int s = Some k"
  by (auto simp: is_digit_Some str_simps)

lemma not_is_digit_two_signs:
  assumes "c \<in> {CHR ''-'', CHR ''+''}" "d \<in> {CHR ''-'', CHR ''+''}"
  shows "\<not> is_digit (Some (c # d # ds))"
  using assms by (auto simp: is_digit_def isdigit_def is_digit_char_def)

abbreviation duration_unit :: "char \<Rightarrow> bool" where
  "duration_unit u \<equiv> u \<in> {CHR ''s'', CHR ''m'', CHR ''h'', CHR ''d''}"

lemma isdigit_neq_Nil: "isdigit ds \<Longrightarrow> ds \<noteq> []"
  by (simp add: isdigit_def)

lemma isdigit_hd: "isdigit ds \<Longrightarrow> hd ds \<noteq> CHR ''-'' \<and> hd ds \<noteq> CHR ''+''"
  by (cases ds) (auto simp: isdigit_def dest: digit_not_sign)

lemma duration_error_plain:
  assumes "isdigit ds" "duration_unit u"
  shows "duration_error (Some (ds @ [u])) = None"
  using assms isdigit_neq_Nil [OF assms(1)] isdigit_hd [OF assms(1)]
  by (simp add: duration_error_def is_digit_isdigit)

lemma duration_error_plus:
  assumes "is_digit (Some n)" "duration_unit u"
  shows "duration_error (Some (CHR ''+'' # n @ [u])) = None"
  using assms by (simp add: duration_error_def)

lemma duration_error_None_form:
  assumes "duration_error (Some d) = None"
  shows "\<exists>n u. duration_unit u \<and>
    ((isdigit n \<and> d = n @ [u]) \<or> (is_digit (Some n) \<and> d = CHR ''+'' # n @ [u]))"
proof -
  from assms have ne: "d \<noteq> []" and unit: "duration_unit (last d)" and neg: "hd d \<noteq> CHR ''-''"
    by (auto simp: duration_error_def Let_def split: if_splits)
  show ?thesis
  proof (cases "hd d = CHR ''+''")
    case True
    with ne obtain t where d: "d = CHR ''+'' # t" by (cases d) auto
    with unit have "t \<noteq> []" by auto
    with d assms unit have "is_digit (Some (butlast t))" "d = CHR ''+'' # butlast t @ [last t]"
      by (auto simp: duration_error_def Let_def split: if_splits)
    with unit d \<open>t \<noteq> []\<close> show ?thesis
      by (intro exI [of _ "butlast t"] exI [of _ "last t"]) auto
  next
    case False
    with assms ne unit neg have dig: "is_digit (Some (butlast d))"
      by (auto simp: duration_error_def Let_def split: if_splits)
    then have "butlast d \<noteq> []" using is_digit_Nil by metis
    with False neg ne have "hd (butlast d) \<notin> {CHR ''-'', CHR ''+''}"
      by (cases d) auto
    with dig have "isdigit (butlast d)"
      by (auto simp: is_digit_def split: if_splits)
    with unit ne show ?thesis
      by (intro exI [of _ "butlast d"] exI [of _ "last d"]) auto
  qed
qed

lemma ban_seconds_digits:
  assumes "isdigit ds"
  shows "ban_seconds (ds @ ''d'') = Inr (int (digits_val 0 ds) * 86400)"
    "ban_seconds (ds @ ''h'') = Inr (int (digits_val 0 ds) * 3600)"
    "ban_seconds (ds @ ''m'') = Inr (int (digits_val 0 ds) * 60)"
    "ban_seconds (ds @ ''s'') = Inr (int (digits_val 0 ds))"
  using assms by (simp_all add: ban_seconds_def is_digit_isdigit str_simps)

lemma ban_seconds_plus:
  assumes "isdigit ds" "duration_unit u"
  shows "ban_seconds (CHR ''+'' # ds @ [u]) = ban_seconds (ds @ [u])"
proof -
  have "is_digit (Some (CHR ''+'' # ds))" using assms by (auto simp: is_digit_Some)
  with assms show ?thesis
    by (auto simp: ban_seconds_def is_digit_isdigit str_simps)
qed

lemma ban_seconds_two_signs:
  assumes "c \<in> {CHR ''-'', CHR ''+''}"
  shows "ban_seconds (CHR ''+'' # c # ds @ [u]) = Inr 0"
  using not_is_digit_two_signs [of "CHR ''+''" c ds] assms
  by (auto simp: ban_seconds_def)

subsection \<open>Timestamps\<close>

lemma micro_pos [simp]: "0 < micro" "micro \<noteq> 0"
  by (simp_all add: micro_def)

lemma trunc_seconds_mult [simp]: "trunc_seconds (k * micro) = k"
  by (auto simp: trunc_seconds_def minus_mult_left simp del: mult_minus_left)

lemma trunc_seconds_bounds:
  assumes "0 \<le> us"
  shows "trunc_seconds us * micro \<le> us" "us < trunc_seconds us * micro + micro"
  using assms
  by (auto simp: trunc_seconds_def micro_def minus_mod_eq_div_mult [symmetric])

lemma datetime_roundtrip:
  assumes "tz * micro \<le> d"
  shows "\<exists>t. py_float (datetime_to_timestamp tz d) = Some t \<and>
    from_timestamp tz t \<le> d \<and> d < from_timestamp tz t + micro"
  using trunc_seconds_bounds [of "d - tz * micro"] assms
  by (auto simp: datetime_to_timestamp_def from_timestamp_def naive_to_timestamp_def)

lemma delta_seconds_bounds: "0 \<le> delta_seconds us" "delta_seconds us < 86400"
proof -
  have "us mod (86400 * micro) < 86400 * micro" "0 \<le> us mod (86400 * micro)"
    by (simp_all add: micro_def)
  then show "0 \<le> delta_seconds us" "delta_seconds us < 86400"
    by (simp_all add: delta_seconds_def micro_def)
qed

end
