(* ===== verification/Memory_Cache.thy ===== *)
theory Memory_Cache
  imports Durations
begin

section \<open>The in-process cache\<close>

text \<open>
  \<open>MemoryCache\<close> of \<^verbatim>\<open>dino/cache/redis.py\<close>: a dictionary from keys to values with an expiry
  time. \<open>now\<close> is what \<open>datetime.utcnow()\<close> answers during the call, in microseconds; all
  times are read and written through the same clock. A stored value may be \<open>None\<close>, which
  \<open>get\<close> cannot tell from a missing key, so the stored type is an option.
\<close>

type_synonym 'v memory_cache = "(string \<times> int \<times> 'v option) list"

definition mc_set :: "int \<Rightarrow> string \<Rightarrow> 'v option \<Rightarrow> int \<Rightarrow> 'v memory_cache \<Rightarrow> 'v memory_cache" where
  "mc_set now key value ttl vals = AList.update key (now + ttl * micro, value) vals"

definition mc_get :: "int \<Rightarrow> string \<Rightarrow> 'v memory_cache \<Rightarrow> 'v option \<times> 'v memory_cache" where
  "mc_get now key vals = (case map_of vals key of
     None \<Rightarrow> (None, vals)
   | Some (expires_at, value) \<Rightarrow>
       if now > expires_at then (None, AList.delete key vals) else (value, vals))"

text \<open>The loop of \<open>cleanup\<close> over a copy of the dictionary; \<open>del\<close> of a missing key is ignored.\<close>

fun mc_cleanup_loop :: "int \<Rightarrow> (string \<times> int \<times> 'v option) list \<Rightarrow> 'v memory_cache \<Rightarrow> 'v memory_cache" where
  "mc_cleanup_loop now [] vals = vals"
| "mc_cleanup_loop now ((key, expires_at, _) # rest) vals =
     mc_cleanup_loop now rest (if now > expires_at then AList.delete key vals else vals)"

definition mc_cleanup :: "int \<Rightarrow> 'v memory_cache \<Rightarrow> 'v memory_cache" where
  "mc_cleanup now vals = mc_cleanup_loop (now + 31 * micro) vals vals"

definition mc_delete :: "string \<Rightarrow> 'v memory_cache \<Rightarrow> 'v memory_cache" where
  "mc_delete key vals = AList.delete key vals"

definition mc_flushall :: "'v memory_cache \<Rightarrow> 'v memory_cache" where
  "mc_flushall vals = []"

text \<open>A Python dictionary has each key once.\<close>

definition mc_ok :: "'v memory_cache \<Rightarrow> bool" where
  "mc_ok vals \<longleftrightarrow> distinct (map fst vals)"

text \<open>The abstract view: what a lookup at time \<open>now\<close> answers.\<close>

definition mc_view :: "int \<Rightarrow> 'v memory_cache \<Rightarrow> string \<Rightarrow> 'v option" where
  "mc_view now vals key = (case map_of vals key of
     None \<Rightarrow> None | Some (expires_at, v) \<Rightarrow> if now > expires_at then None else v)"

subsection \<open>Lookups and the abstract view\<close>

lemma mc_get_view: "fst (mc_get now key vals) = mc_view now vals key"
  by (simp add: mc_get_def mc_view_def split: option.splits prod.splits)

lemma map_of_mc_set:
  "map_of (mc_set now key v ttl vals) = (map_of vals)(key \<mapsto> (now + ttl * micro, v))"
  by (simp add: mc_set_def update_conv')

lemma map_of_mc_delete: "map_of (mc_delete key vals) = (map_of vals)(key := None)"
  by (simp add: mc_delete_def delete_conv')

lemma mc_view_set:
  "mc_view t (mc_set now key v ttl vals) k =
     (if k = key then (if t > now + ttl * micro then None else v) else mc_view t vals k)"
  by (simp add: mc_view_def map_of_mc_set)

lemma mc_view_delete: "mc_view t (mc_delete key vals) k = (if k = key then None else mc_view t vals k)"
  by (simp add: mc_view_def map_of_mc_delete)

lemma map_of_mc_get:
  "map_of (snd (mc_get now key vals)) k = map_of vals k \<or>
   (k = key \<and> map_of (snd (mc_get now key vals)) k = None)"
  by (auto simp: mc_get_def delete_conv' split: option.splits prod.splits)

lemma mc_view_get: "now \<le> t \<Longrightarrow> mc_view t (snd (mc_get now key vals)) k = mc_view t vals k"
  by (auto simp: mc_get_def mc_view_def delete_conv' split: option.splits prod.splits)

subsection \<open>The invariant\<close>

lemma mc_ok_set: "mc_ok vals \<Longrightarrow> mc_ok (mc_set now key v ttl vals)"
  by (simp add: mc_ok_def mc_set_def distinct_update)

lemma distinct_map_fst_delete: "distinct (map fst vals) \<Longrightarrow> distinct (map fst (AList.delete k vals))"
  by (rule distinct_delete)

lemma mc_ok_get: "mc_ok vals \<Longrightarrow> mc_ok (snd (mc_get now key vals))"
  by (auto simp: mc_ok_def mc_get_def distinct_delete split: option.splits prod.splits)

lemma mc_ok_delete: "mc_ok vals \<Longrightarrow> mc_ok (mc_delete key vals)"
  by (simp add: mc_ok_def mc_delete_def distinct_delete)

lemma mc_ok_cleanup_loop: "mc_ok vals \<Longrightarrow> mc_ok (mc_cleanup_loop now es vals)"
  by (induction now es vals rule: mc_cleanup_loop.induct) (auto simp: mc_ok_def distinct_delete)

lemma mc_ok_cleanup: "mc_ok vals \<Longrightarrow> mc_ok (mc_cleanup now vals)"
  by (simp add: mc_cleanup_def mc_ok_cleanup_loop)

subsection \<open>Cleaning up\<close>

lemma map_of_cleanup_loop:
  "map_of (mc_cleanup_loop now es vals) k =
     (if \<exists>(key, e, v) \<in> set es. key = k \<and> now > e then None else map_of vals k)"
  by (induction now es vals rule: mc_cleanup_loop.induct) (auto simp: delete_conv')

lemma map_of_cleanup:
  assumes "mc_ok vals"
  shows "map_of (mc_cleanup now vals) k = (case map_of vals k of
    None \<Rightarrow> None | Some (e, v) \<Rightarrow> if now + 31 * micro > e then None else Some (e, v))"
proof -
  have "(\<exists>(key, e, v) \<in> set vals. key = k \<and> now + 31 * micro > e) \<longleftrightarrow>
      (\<exists>e v. map_of vals k = Some (e, v) \<and> now + 31 * micro > e)"
    using assms by (force simp: mc_ok_def)
  then show ?thesis
    by (auto simp: mc_cleanup_def map_of_cleanup_loop split: option.splits)
qed

end
