(* ===== verification/Cache_Redis.thy ===== *)
theory Cache_Redis
  imports Cache_Iface Memory_Cache
begin

section \<open>The Redis cache\<close>

text \<open>
  \<open>CacheRedis\<close> of \<^verbatim>\<open>dino/cache/redis.py\<close>: a Redis database with a \<open>MemoryCache\<close> in front of it.
  A state is the Redis server state, the in-process dictionary and the clock; a method is an
  operation on it. Values held in process are Python values (\<open>pyval\<close>). The environment gives
  the Redis client, the random part of a time to live (\<open>int(random.random() * n)\<close>, a function
  of the clock) and the order in which Python iterates over a set of strings.
\<close>

subsection \<open>Values, state, environment\<close>

record room_info =
  ri_name :: string
  ri_sort_order :: int
  ri_ephemeral :: "bool option"
  ri_admin :: "bool option"
  ri_users :: "int option"

datatype pyval =
    PStr string
  | PBool bool
  | PInt int
  | PPair pyval pyval
  | PList "string list"
  | PSet "string list"
  | PDict "(string \<times> string) list"
  | PAcls "(string \<times> (string \<times> string) list) list"
  | PRooms "(string \<times> room_info) list"
  | PChannels "(string \<times> string \<times> int \<times> string option) list"

record 's cw =
  cw_redis :: 's
  cw_mem :: "pyval memory_cache"
  cw_now :: int

record 's cenv =
  ce_redis :: "'s redis"
  ce_jitter :: "int \<Rightarrow> int \<Rightarrow> int"
  ce_order :: "string list \<Rightarrow> string list"

definition ONE_MINUTE :: int where "ONE_MINUTE = 60"
definition FIVE_MINUTES :: int where "FIVE_MINUTES = 5 * 60"
definition TEN_MINUTES :: int where "TEN_MINUTES = 10 * 60"
definition ONE_HOUR :: int where "ONE_HOUR = 60 * 60"
definition TEN_SECONDS :: int where "TEN_SECONDS = 10"
definition THIRTY_SECONDS :: int where "THIRTY_SECONDS = 30"
definition SEVEN_DAYS :: int where "SEVEN_DAYS = 7 * 24 * ONE_HOUR"
definition EIGHT_HOURS_IN_SECONDS :: int where "EIGHT_HOURS_IN_SECONDS = 8 * 60 * 60"

subsection \<open>Access to the parts of the state\<close>

definition mem_get :: "string \<Rightarrow> ('s cw, pyval option) op" where
  "mem_get key = stateM (\<lambda>w. let (v, m) = mc_get (cw_now w) key (cw_mem w)
                             in (v, w\<lparr>cw_mem := m\<rparr>))"

definition mem_set :: "string \<Rightarrow> pyval option \<Rightarrow> int \<Rightarrow> ('s cw, unit) op" where
  "mem_set key v ttl = modify (\<lambda>w. w\<lparr>cw_mem := mc_set (cw_now w) key v ttl (cw_mem w)\<rparr>)"

definition mem_del :: "string \<Rightarrow> ('s cw, unit) op" where
  "mem_del key = modify (\<lambda>w. w\<lparr>cw_mem := mc_delete key (cw_mem w)\<rparr>)"

definition jitter :: "'s cenv \<Rightarrow> int \<Rightarrow> ('s cw, int) op" where
  "jitter E n = gets (\<lambda>w. ce_jitter E (cw_now w) n)"

definition on_redis :: "('s \<Rightarrow> 's) \<Rightarrow> ('s cw, unit) op" where
  "on_redis f = modify (\<lambda>w. w\<lparr>cw_redis := f (cw_redis w)\<rparr>)"

definition ask_redis :: "('s \<Rightarrow> 'a) \<Rightarrow> ('s cw, 'a) op" where
  "ask_redis f = gets (\<lambda>w. f (cw_redis w))"

definition x_hset :: "'s cenv \<Rightarrow> string \<Rightarrow> string \<Rightarrow> string \<Rightarrow> ('s cw, unit) op" where
  "x_hset E k f v = on_redis (\<lambda>s. r_hset (ce_redis E) s k f v)"

definition x_hget :: "'s cenv \<Rightarrow> string \<Rightarrow> string \<Rightarrow> ('s cw, string option) op" where
  "x_hget E k f = ask_redis (\<lambda>s. r_hget (ce_redis E) s k f)"

definition x_hdel :: "'s cenv \<Rightarrow> string \<Rightarrow> string \<Rightarrow> ('s cw, unit) op" where
  "x_hdel E k f = on_redis (\<lambda>s. r_hdel (ce_redis E) s k f)"

definition x_hmset :: "'s cenv \<Rightarrow> string \<Rightarrow> (string \<times> string) list \<Rightarrow> ('s cw, unit) op" where
  "x_hmset E k m = on_redis (\<lambda>s. r_hmset (ce_redis E) s k m)"

definition x_hgetall :: "'s cenv \<Rightarrow> string \<Rightarrow> ('s cw, (string \<times> string) list) op" where
  "x_hgetall E k = ask_redis (\<lambda>s. r_hgetall (ce_redis E) s k)"

definition x_get :: "'s cenv \<Rightarrow> string \<Rightarrow> ('s cw, string option) op" where
  "x_get E k = ask_redis (\<lambda>s. r_get (ce_redis E) s k)"

definition x_set :: "'s cenv \<Rightarrow> string \<Rightarrow> string \<Rightarrow> ('s cw, unit) op" where
  "x_set E k v = on_redis (\<lambda>s. r_set (ce_redis E) s k v)"

definition x_delete :: "'s cenv \<Rightarrow> string \<Rightarrow> ('s cw, unit) op" where
  "x_delete E k = on_redis (\<lambda>s. r_delete (ce_redis E) s k)"

definition x_expire :: "'s cenv \<Rightarrow> string \<Rightarrow> int \<Rightarrow> ('s cw, unit) op" where
  "x_expire E k t = on_redis (\<lambda>s. r_expire (ce_redis E) s k t)"

definition x_sadd :: "'s cenv \<Rightarrow> string \<Rightarrow> string \<Rightarrow> ('s cw, unit) op" where
  "x_sadd E k x = on_redis (\<lambda>s. r_sadd (ce_redis E) s k x)"

definition x_srem :: "'s cenv \<Rightarrow> string \<Rightarrow> string \<Rightarrow> ('s cw, unit) op" where
  "x_srem E k x = on_redis (\<lambda>s. r_srem (ce_redis E) s k x)"

definition x_smembers :: "'s cenv \<Rightarrow> string \<Rightarrow> ('s cw, string list) op" where
  "x_smembers E k = ask_redis (\<lambda>s. r_smembers (ce_redis E) s k)"

lemmas x_defs = x_hset_def x_hget_def x_hdel_def x_hmset_def x_hgetall_def x_get_def x_set_def
  x_delete_def x_expire_def x_sadd_def x_srem_def x_smembers_def on_redis_def ask_redis_def

text \<open>\<open>'%s-%s' % (key, id)\<close>, the key of an entry in process.\<close>

definition dash :: "string \<Rightarrow> string \<Rightarrow> string" where
  "dash key i = key @ ''-'' @ i"

definition as_str :: "pyval option \<Rightarrow> string option" where
  "as_str v = (case v of Some (PStr s) \<Rightarrow> Some s | _ \<Rightarrow> None)"

text \<open>
  The common shape of the getters: the value in process, else the field of a Redis hash, which
  is then kept in process for \<open>ttl\<close> seconds.
\<close>

definition cached_hget :: "'s cenv \<Rightarrow> string \<Rightarrow> string \<Rightarrow> string \<Rightarrow> int \<Rightarrow> ('s cw, pyval option) op" where
  "cached_hget E cache_key key field ttl =
     bindM (mem_get cache_key) (\<lambda>value.
     if value \<noteq> None then ret value
     else bindM (x_hget E key field) (\<lambda>v.
       case v of None \<Rightarrow> ret None
       | Some s \<Rightarrow> thenM (mem_set cache_key (Some (PStr s)) ttl) (ret (Some (PStr s)))))"

definition py_split_max :: "char \<Rightarrow> nat \<Rightarrow> pyval \<Rightarrow> ('w, string list) op" where
  "py_split_max c n v = (case v of PStr s \<Rightarrow> ret (split_max c n s) | _ \<Rightarrow> throw AttributeError)"

subsection \<open>Rooms, their acls, heartbeats\<close>

definition cr_get_all_permanent_rooms :: "'s cenv \<Rightarrow> ('s cw, pyval option) op" where
  "cr_get_all_permanent_rooms E =
     bindM (x_get E rk_all_permanent_rooms) (\<lambda>rooms.
     case rooms of None \<Rightarrow> ret None
     | Some s \<Rightarrow> if length s = 0 then ret None else ret (Some (PList (split_on (CHR '','') s))))"

definition cr_set_all_permanent_rooms :: "'s cenv \<Rightarrow> string list \<Rightarrow> ('s cw, unit) op" where
  "cr_set_all_permanent_rooms E rooms =
     thenM (x_set E rk_all_permanent_rooms (join_on (CHR '','') rooms))
     (x_expire E rk_all_permanent_rooms FIVE_MINUTES)"

definition cr_reset_room_acls_for_action :: "'s cenv \<Rightarrow> string \<Rightarrow> ('s cw, unit) op" where
  "cr_reset_room_acls_for_action E action = x_delete E (rk_rooms_with_action action)"

definition cr_get_room_acls_for_action ::
  "'s cenv \<Rightarrow> string \<Rightarrow> ('s cw, (string \<times> (string \<times> string) list) list option) op" where
  "cr_get_room_acls_for_action E action =
     bindM (x_get E (rk_rooms_with_action action)) (\<lambda>room_ids.
     case room_ids of None \<Rightarrow> ret None
     | Some ids \<Rightarrow>
         (if length (split_on (CHR '','') ids) = 0 then ret None
          else bindM (foldM (\<lambda>acls room_id.
                 bindM (x_hgetall E (rk_room_acls_for_action room_id action)) (\<lambda>a.
                 ret (AList.update room_id a acls))) [] (split_on (CHR '','') ids))
               (\<lambda>room_acls. ret (Some room_acls))))"

definition cr_set_room_acls_for_action ::
  "'s cenv \<Rightarrow> string \<Rightarrow> (string \<times> (string \<times> string) list) list \<Rightarrow> ('s cw, unit) op" where
  "cr_set_room_acls_for_action E action acls =
     thenM (iterM (\<lambda>(room_id, values).
        if values = [] then throw RedisError
        else thenM (x_hmset E (rk_room_acls_for_action room_id action) values)
                   (x_expire E (rk_room_acls_for_action room_id action) TEN_MINUTES)) acls)
     (thenM (x_set E (rk_rooms_with_action action) (join_on (CHR '','') (map fst acls)))
            (x_expire E (rk_rooms_with_action action) TEN_MINUTES))"

definition cr_add_heartbeat :: "'s cenv \<Rightarrow> string \<Rightarrow> ('s cw, unit) op" where
  "cr_add_heartbeat E user_id =
     thenM (x_set E (rk_heartbeat_user user_id) user_id)
           (x_expire E (rk_heartbeat_user user_id) ONE_MINUTE)"

definition cr_has_heartbeat :: "'s cenv \<Rightarrow> string \<Rightarrow> ('s cw, bool) op" where
  "cr_has_heartbeat E user_id =
     bindM (x_get E (rk_heartbeat_user user_id)) (\<lambda>v. ret (v \<noteq> None))"

definition cr_check_heartbeat :: "'s cenv \<Rightarrow> string \<Rightarrow> ('s cw, bool) op" where
  "cr_check_heartbeat E user_id =
     bindM (cr_has_heartbeat E user_id) (\<lambda>exists.
     thenM (whenM exists (cr_add_heartbeat E user_id)) (ret exists))"

definition cr_get_rooms_for_user :: "'s cenv \<Rightarrow> string \<Rightarrow> ('s cw, (string \<times> string) list) op" where
  "cr_get_rooms_for_user E user_id = x_hgetall E (rk_rooms_for_user user_id)"

definition cr_set_rooms_for_user ::
  "'s cenv \<Rightarrow> string \<Rightarrow> (string \<times> string) list \<Rightarrow> ('s cw, unit) op" where
  "cr_set_rooms_for_user E user_id rooms =
     (if rooms = [] then x_delete E (rk_rooms_for_user user_id)
      else thenM (x_hmset E (rk_rooms_for_user user_id) rooms)
           (bindM (jitter E TEN_SECONDS) (\<lambda>j.
            x_expire E (rk_rooms_for_user user_id) (2 * TEN_SECONDS + j))))"

definition cr_remove_rooms_for_user :: "'s cenv \<Rightarrow> string \<Rightarrow> ('s cw, unit) op" where
  "cr_remove_rooms_for_user E user_id = x_delete E (rk_rooms_for_user user_id)"

definition cr_leave_room_for_user :: "'s cenv \<Rightarrow> string \<Rightarrow> string \<Rightarrow> ('s cw, unit) op" where
  "cr_leave_room_for_user E user_id room_id = x_hdel E (rk_rooms_for_user user_id) room_id"

definition cr_is_user_in_room :: "'s cenv \<Rightarrow> string \<Rightarrow> string \<Rightarrow> ('s cw, bool) op" where
  "cr_is_user_in_room E user_id room_id =
     ask_redis (\<lambda>s. r_hexists (ce_redis E) s (rk_rooms_for_user user_id) room_id)"

definition cr_set_user_in_room :: "'s cenv \<Rightarrow> string \<Rightarrow> string \<Rightarrow> string \<Rightarrow> ('s cw, unit) op" where
  "cr_set_user_in_room E user_id room_id room_name =
     x_hset E (rk_rooms_for_user user_id) room_id room_name"

definition cr_set_type_of_rooms_in_channel :: "'s cenv \<Rightarrow> string \<Rightarrow> string \<Rightarrow> ('s cw, unit) op" where
  "cr_set_type_of_rooms_in_channel E channel_id object_type =
     bindM (jitter E ONE_MINUTE) (\<lambda>j.
     mem_set (rk_room_types_in_channel channel_id) (Some (PStr object_type)) (ONE_MINUTE + j))"

definition cr_get_type_of_rooms_in_channel :: "string \<Rightarrow> ('s cw, pyval option) op" where
  "cr_get_type_of_rooms_in_channel channel_id = mem_get (rk_room_types_in_channel channel_id)"

definition cr_set_is_room_ephemeral :: "string \<Rightarrow> bool \<Rightarrow> ('s cw, unit) op" where
  "cr_set_is_room_ephemeral room_id is_ephemeral =
     mem_set (dash rk_non_ephemeral_rooms room_id) (Some (PBool is_ephemeral)) 30"

definition cr_is_room_ephemeral :: "string \<Rightarrow> ('s cw, pyval option) op" where
  "cr_is_room_ephemeral room_id = mem_get (dash rk_non_ephemeral_rooms room_id)"

definition cr_set_default_rooms :: "string list \<Rightarrow> ('s cw, unit) op" where
  "cr_set_default_rooms rooms = mem_set rk_default_rooms (Some (PList rooms)) FIVE_MINUTES"

definition cr_clear_default_rooms :: "('s cw, unit) op" where
  "cr_clear_default_rooms = mem_del rk_default_rooms"

definition cr_get_default_rooms :: "'s cenv \<Rightarrow> ('s cw, pyval option) op" where
  "cr_get_default_rooms E =
     bindM (mem_get rk_default_rooms) (\<lambda>value.
     if value \<noteq> None then ret value
     else bindM (x_smembers E rk_default_rooms) (\<lambda>rooms.
       if length rooms > 0
       then thenM (mem_set rk_default_rooms (Some (PList rooms)) FIVE_MINUTES)
                  (ret (Some (PList rooms)))
       else ret None))"

definition cr_get_default_channel_id :: "'s cenv \<Rightarrow> ('s cw, pyval option) op" where
  "cr_get_default_channel_id E =
     bindM (mem_get rk_default_channel_id) (\<lambda>v.
     if v \<noteq> None then ret v
     else bindM (x_get E rk_default_channel_id) (\<lambda>d.
       case d of None \<Rightarrow> ret None
       | Some s \<Rightarrow> thenM (mem_set rk_default_channel_id (Some (PStr s)) 30) (ret (Some (PStr s)))))"

definition cr_set_default_channel_id :: "'s cenv \<Rightarrow> string \<Rightarrow> ('s cw, unit) op" where
  "cr_set_default_channel_id E channel_id =
     thenM (mem_set rk_default_channel_id (Some (PStr channel_id)) 30)
           (x_set E rk_default_channel_id channel_id)"

subsection \<open>The black list\<close>

text \<open>The second test of \<open>get_black_list\<close> is on \<open>value\<close>, not on \<open>values\<close>.\<close>

definition cr_get_black_list :: "'s cenv \<Rightarrow> ('s cw, pyval option) op" where
  "cr_get_black_list E =
     bindM (mem_get rk_black_list) (\<lambda>value.
     if value \<noteq> None then ret value
     else bindM (x_smembers E rk_black_list) (\<lambda>values.
       if value \<noteq> None
       then thenM (mem_set rk_black_list (Some (PSet values)) TEN_MINUTES)
                  (ret (Some (PSet values)))
       else ret None))"

definition cr_reset_black_list :: "'s cenv \<Rightarrow> ('s cw, unit) op" where
  "cr_reset_black_list E = thenM (mem_del rk_black_list) (x_delete E rk_black_list)"

definition cr_set_black_list :: "'s cenv \<Rightarrow> string list \<Rightarrow> ('s cw, unit) op" where
  "cr_set_black_list E the_list =
     thenM (mem_set rk_black_list (Some (PSet the_list)) TEN_MINUTES)
     (thenM (x_delete E rk_black_list)
     (if the_list = [] then throw RedisError
      else iterM (x_sadd E rk_black_list) the_list))"

definition cr_remove_from_black_list :: "'s cenv \<Rightarrow> string \<Rightarrow> ('s cw, unit) op" where
  "cr_remove_from_black_list E word =
     bindM (mem_get rk_black_list) (\<lambda>cached.
     case cached of
       Some (PSet ws) \<Rightarrow>
         (if word \<notin> set ws then throw KeyError
          else thenM (mem_set rk_black_list (Some (PSet (remove1 word ws))) TEN_MINUTES)
                     (x_srem E rk_black_list word))
     | _ \<Rightarrow> throw AttributeError)"

definition cr_add_to_black_list :: "'s cenv \<Rightarrow> string \<Rightarrow> ('s cw, unit) op" where
  "cr_add_to_black_list E word =
     bindM (mem_get rk_black_list) (\<lambda>cached.
     case cached of
       Some (PSet ws) \<Rightarrow>
         thenM (mem_set rk_black_list (Some (PSet (List.insert word ws))) TEN_MINUTES)
               (x_sadd E rk_black_list word)
     | _ \<Rightarrow> throw AttributeError)"

subsection \<open>Bans and mutes\<close>

definition cr_set_memory_cache_and_hset ::
  "'s cenv \<Rightarrow> string \<Rightarrow> string \<Rightarrow> string \<Rightarrow> ('s cw, unit) op" where
  "cr_set_memory_cache_and_hset E key user_id timestamp =
     thenM (mem_set (dash key user_id) (Some (PStr timestamp)) 30) (x_hset E key user_id timestamp)"

definition ban_text :: "string \<Rightarrow> string \<Rightarrow> string \<Rightarrow> string" where
  "ban_text duration timestamp username = duration @ ''|'' @ timestamp @ ''|'' @ username"

definition cr_set_global_ban_timestamp ::
  "'s cenv \<Rightarrow> string \<Rightarrow> string \<Rightarrow> string \<Rightarrow> string \<Rightarrow> ('s cw, unit) op" where
  "cr_set_global_ban_timestamp E user_id duration timestamp username =
     cr_set_memory_cache_and_hset E (rk_banned_users None) user_id
       (ban_text duration timestamp username)"

definition cr_set_channel_ban_timestamp ::
  "'s cenv \<Rightarrow> string \<Rightarrow> string \<Rightarrow> string \<Rightarrow> string \<Rightarrow> string \<Rightarrow> ('s cw, unit) op" where
  "cr_set_channel_ban_timestamp E channel_id user_id duration timestamp username =
     cr_set_memory_cache_and_hset E (rk_banned_users_channel channel_id) user_id
       (ban_text duration timestamp username)"

definition cr_set_room_ban_timestamp ::
  "'s cenv \<Rightarrow> string \<Rightarrow> string \<Rightarrow> string \<Rightarrow> string \<Rightarrow> string \<Rightarrow> ('s cw, unit) op" where
  "cr_set_room_ban_timestamp E room_id user_id duration timestamp username =
     cr_set_memory_cache_and_hset E (rk_banned_users (Some room_id)) user_id
       (ban_text duration timestamp username)"

definition cr_set_room_mute_timestamp ::
  "'s cenv \<Rightarrow> string \<Rightarrow> string \<Rightarrow> string \<Rightarrow> string \<Rightarrow> ('s cw, unit) op" where
  "cr_set_room_mute_timestamp E room_id user_id duration timestamp =
     cr_set_memory_cache_and_hset E (rk_muted_users room_id) user_id
       (duration @ ''|'' @ timestamp)"

text \<open>\<open>None, None, None\<close> when there is no ban, else the parts of the text.\<close>

definition cr_get_ban_or_mute :: "'s cenv \<Rightarrow> nat \<Rightarrow> string \<Rightarrow> string \<Rightarrow> ('s cw, string list option) op" where
  "cr_get_ban_or_mute E n key user_id =
     bindM (mem_get (dash key user_id)) (\<lambda>value.
     case value of
       Some v \<Rightarrow> bindM (py_split_max (CHR ''|'') n v) (\<lambda>ps. ret (Some ps))
     | None \<Rightarrow> bindM (x_hget E key user_id) (\<lambda>ban_info.
         case ban_info of None \<Rightarrow> ret None
         | Some s \<Rightarrow> ret (Some (split_max (CHR ''|'') n s))))"

definition cr_get_mute_timestamp :: "'s cenv \<Rightarrow> string \<Rightarrow> string \<Rightarrow> ('s cw, string list option) op" where
  "cr_get_mute_timestamp E key user_id = cr_get_ban_or_mute E 1 key user_id"

definition cr_get_ban_timestamp :: "'s cenv \<Rightarrow> string \<Rightarrow> string \<Rightarrow> ('s cw, string list option) op" where
  "cr_get_ban_timestamp E key user_id = cr_get_ban_or_mute E 2 key user_id"

definition cr_get_global_ban_timestamp :: "'s cenv \<Rightarrow> string \<Rightarrow> ('s cw, string list option) op" where
  "cr_get_global_ban_timestamp E user_id = cr_get_ban_timestamp E (rk_banned_users None) user_id"

definition cr_get_channel_ban_timestamp ::
  "'s cenv \<Rightarrow> string \<Rightarrow> string \<Rightarrow> ('s cw, string list option) op" where
  "cr_get_channel_ban_timestamp E channel_id user_id =
     cr_get_ban_timestamp E (rk_banned_users_channel channel_id) user_id"

definition cr_get_room_mute_timestamp ::
  "'s cenv \<Rightarrow> string \<Rightarrow> string \<Rightarrow> ('s cw, string list option) op" where
  "cr_get_room_mute_timestamp E room_id user_id =
     cr_get_mute_timestamp E (rk_muted_users room_id) user_id"

definition cr_get_room_ban_timestamp ::
  "'s cenv \<Rightarrow> string \<Rightarrow> string \<Rightarrow> ('s cw, string list option) op" where
  "cr_get_room_ban_timestamp E room_id user_id =
     cr_get_ban_timestamp E (rk_banned_users (Some room_id)) user_id"

subsection \<open>The admin room\<close>

definition cr_get_admin_room :: "'s cenv \<Rightarrow> ('s cw, pyval option) op" where
  "cr_get_admin_room E =
     bindM (mem_get rk_admin_room) (\<lambda>value.
     if value \<noteq> None then ret value
     else bindM (x_get E rk_admin_room) (\<lambda>room_id.
       case room_id of None \<Rightarrow> ret None
       | Some s \<Rightarrow>
           if blank s then ret None
           else thenM (mem_set rk_admin_room (Some (PStr s)) TEN_MINUTES) (ret (Some (PStr s)))))"

definition cr_set_admin_room :: "'s cenv \<Rightarrow> string \<Rightarrow> ('s cw, unit) op" where
  "cr_set_admin_room E room_id =
     thenM (x_set E rk_admin_room room_id)
           (mem_set rk_admin_room (Some (PStr room_id)) TEN_MINUTES)"

definition cr_remove_admin_room :: "'s cenv \<Rightarrow> ('s cw, unit) op" where
  "cr_remove_admin_room E = thenM (x_delete E rk_admin_room) (mem_del rk_admin_room)"

subsection \<open>The rooms of a channel\<close>

text \<open>\<open>str(b).lower()\<close> of a boolean.\<close>

definition bool_text :: "bool \<Rightarrow> string" where
  "bool_text b = (if b then ''true'' else ''false'')"

definition default_to :: "'a \<Rightarrow> 'a option \<Rightarrow> 'a" where
  "default_to d v = (case v of None \<Rightarrow> d | Some x \<Rightarrow> x)"

definition room_info_text :: "room_info \<Rightarrow> string" where
  "room_info_text i =
     str_int (ri_sort_order i) @ ''|'' @ bool_text (default_to True (ri_ephemeral i)) @ ''|'' @
     bool_text (default_to False (ri_admin i)) @ ''|'' @ str_int (default_to 0 (ri_users i)) @ ''|''
     @ ri_name i"

definition room_info_text_short :: "string \<Rightarrow> bool \<Rightarrow> string" where
  "room_info_text_short name ephemeral = bool_text (ephemeral \<or> True) @ ''|'' @ name"

definition parse_room_info :: "string \<Rightarrow> exc + room_info" where
  "parse_room_info s = (case split_max (CHR ''|'') 4 s of
     [room_sort, room_ephemeral, room_admin, room_users, room_name] \<Rightarrow>
       (case py_int (if room_sort = '''' then ''999'' else room_sort) of
          None \<Rightarrow> Inl ValueError
        | Some srt \<Rightarrow>
            (case py_int (if room_users = '''' then ''0'' else room_users) of
               None \<Rightarrow> Inl ValueError
             | Some users \<Rightarrow>
                 Inr \<lparr>ri_name = room_name, ri_sort_order = srt,
                   ri_ephemeral = Some (lower room_ephemeral \<in> {'''', ''true''}),
                   ri_admin = Some (lower room_admin \<notin> {'''', ''false''}),
                   ri_users = Some users\<rparr>))
   | _ \<Rightarrow> Inl ValueError)"

definition parse_room_info_short :: "string \<Rightarrow> exc + (string \<times> bool)" where
  "parse_room_info_short s = (case split_max (CHR ''|'') 1 s of
     [room_ephemeral, room_name] \<Rightarrow> Inr (room_name, lower room_ephemeral \<in> {'''', ''true''})
   | _ \<Rightarrow> Inl ValueError)"

text \<open>A loop over the items of a hash that converts each value and may raise.\<close>

fun map_values :: "('a \<Rightarrow> exc + 'b) \<Rightarrow> (string \<times> 'a) list \<Rightarrow> exc + (string \<times> 'b) list" where
  "map_values f [] = Inr []"
| "map_values f ((k, v) # rest) = (case f v of
     Inl e \<Rightarrow> Inl e
   | Inr y \<Rightarrow> (case map_values f rest of Inl e \<Rightarrow> Inl e | Inr ys \<Rightarrow> Inr ((k, y) # ys)))"

definition short_info :: "string \<times> bool \<Rightarrow> room_info" where
  "short_info p = \<lparr>ri_name = fst p, ri_sort_order = 0, ri_ephemeral = Some (snd p),
     ri_admin = None, ri_users = None\<rparr>"

definition cr_reset_rooms_for_channel :: "'s cenv \<Rightarrow> string \<Rightarrow> ('s cw, unit) op" where
  "cr_reset_rooms_for_channel E channel_id =
     thenM (mem_del (rk_rooms_for_channel_with_info channel_id))
     (thenM (mem_del (rk_rooms_for_channel_without_info channel_id))
     (thenM (x_delete E (rk_rooms_for_channel_with_info channel_id))
            (x_delete E (rk_rooms_for_channel_without_info channel_id))))"

definition cr_get_rooms_for_channel_without_info ::
  "'s cenv \<Rightarrow> string \<Rightarrow> ('s cw, pyval option) op" where
  "cr_get_rooms_for_channel_without_info E channel_id =
     bindM (mem_get (rk_rooms_for_channel_without_info channel_id)) (\<lambda>rooms.
     if rooms \<noteq> None then ret rooms
     else bindM (x_hgetall E (rk_rooms_for_channel_without_info channel_id)) (\<lambda>raw_rooms.
       if length raw_rooms = 0 then ret None
       else bindM (lift_result (map_values parse_room_info_short raw_rooms)) (\<lambda>clean.
         ret (Some (PRooms (map (\<lambda>(k, v). (k, short_info v)) clean))))))"

definition cr_get_rooms_for_channel_with_info ::
  "'s cenv \<Rightarrow> string \<Rightarrow> ('s cw, pyval option) op" where
  "cr_get_rooms_for_channel_with_info E channel_id =
     bindM (mem_get (rk_rooms_for_channel_with_info channel_id)) (\<lambda>rooms.
     if rooms \<noteq> None then ret rooms
     else bindM (x_hgetall E (rk_rooms_for_channel_with_info channel_id)) (\<lambda>raw_rooms.
       if length raw_rooms = 0 then ret None
       else bindM (lift_result (map_values parse_room_info raw_rooms)) (\<lambda>clean.
         ret (Some (PRooms clean)))))"

definition cr_get_rooms_for_channel ::
  "'s cenv \<Rightarrow> string \<Rightarrow> bool \<Rightarrow> ('s cw, pyval option) op" where
  "cr_get_rooms_for_channel E channel_id with_info =
     (if with_info then cr_get_rooms_for_channel_with_info E channel_id
      else cr_get_rooms_for_channel_without_info E channel_id)"

definition cr_set_rooms_for_channel_with_info ::
  "'s cenv \<Rightarrow> string \<Rightarrow> (string \<times> room_info) list \<Rightarrow> ('s cw, unit) op" where
  "cr_set_rooms_for_channel_with_info E channel_id rooms_infos =
     (let key = rk_rooms_for_channel_with_info channel_id;
          redis_rooms = map (\<lambda>(room_id, i). (room_id, room_info_text i)) rooms_infos
      in thenM (mem_set key (Some (PRooms rooms_infos)) TEN_SECONDS)
           (whenM (length redis_rooms > 0)
              (thenM (x_hmset E key redis_rooms) (x_expire E key ONE_MINUTE))))"

text \<open>Here each info must have the key \<open>ephemeral\<close>; a missing one raises \<open>KeyError\<close>.\<close>

definition short_text :: "room_info \<Rightarrow> exc + string" where
  "short_text i = (case ri_ephemeral i of
     None \<Rightarrow> Inl KeyError
   | Some e \<Rightarrow> Inr (room_info_text_short (ri_name i) e))"

definition cr_set_rooms_for_channel_without_info ::
  "'s cenv \<Rightarrow> string \<Rightarrow> (string \<times> room_info) list \<Rightarrow> ('s cw, unit) op" where
  "cr_set_rooms_for_channel_without_info E channel_id rooms_infos =
     (let key = rk_rooms_for_channel_without_info channel_id
      in thenM (mem_set key (Some (PRooms rooms_infos)) TEN_SECONDS)
           (bindM (lift_result (map_values short_text rooms_infos)) (\<lambda>redis_rooms.
              whenM (length redis_rooms > 0)
                (thenM (x_hmset E key redis_rooms) (x_expire E key ONE_MINUTE)))))"

definition cr_set_rooms_for_channel ::
  "'s cenv \<Rightarrow> string \<Rightarrow> (string \<times> room_info) list \<Rightarrow> bool \<Rightarrow> ('s cw, unit) op" where
  "cr_set_rooms_for_channel E channel_id rooms_infos with_info =
     (if with_info then cr_set_rooms_for_channel_with_info E channel_id rooms_infos
      else cr_set_rooms_for_channel_without_info E channel_id rooms_infos)"

subsection \<open>Entries held in process only\<close>

definition cr_get_acls_in_room_for_action :: "string \<Rightarrow> string \<Rightarrow> ('s cw, pyval option) op" where
  "cr_get_acls_in_room_for_action room_id action = mem_get (rk_acls_in_room_for_action room_id action)"

definition cr_set_acls_in_room_for_action ::
  "'s cenv \<Rightarrow> string \<Rightarrow> string \<Rightarrow> (string \<times> string) list \<Rightarrow> ('s cw, unit) op" where
  "cr_set_acls_in_room_for_action E room_id action acls =
     bindM (jitter E TEN_MINUTES) (\<lambda>j.
     mem_set (rk_acls_in_room_for_action room_id action) (Some (PDict acls)) (TEN_MINUTES + j))"

definition cr_get_acls_in_channel_for_action :: "string \<Rightarrow> string \<Rightarrow> ('s cw, pyval option) op" where
  "cr_get_acls_in_channel_for_action channel_id action =
     mem_get (rk_acls_in_channel_for_action channel_id action)"

definition cr_get_users_in_room_for_role :: "string \<Rightarrow> string \<Rightarrow> ('s cw, pyval option) op" where
  "cr_get_users_in_room_for_role room_id role = mem_get (rk_users_in_room_for_role room_id role)"

definition users_key_by_name :: "string \<Rightarrow> bool \<Rightarrow> string" where
  "users_key_by_name room_name is_super_user =
     (if is_super_user then rk_users_in_room_incl_invisible_by_name room_name
      else rk_users_in_room_only_visible_by_name room_name)"

definition cr_get_users_in_room_by_name :: "string \<Rightarrow> bool \<Rightarrow> ('s cw, pyval option) op" where
  "cr_get_users_in_room_by_name room_name is_super_user =
     mem_get (users_key_by_name room_name is_super_user)"

definition cr_set_users_in_room_by_name ::
  "'s cenv \<Rightarrow> string \<Rightarrow> (string \<times> string) list \<Rightarrow> bool \<Rightarrow> ('s cw, unit) op" where
  "cr_set_users_in_room_by_name E room_name users is_super_user =
     bindM (jitter E TEN_SECONDS) (\<lambda>j.
     mem_set (users_key_by_name room_name is_super_user) (Some (PDict users)) (TEN_SECONDS + j))"

definition users_key :: "string \<Rightarrow> bool \<Rightarrow> string" where
  "users_key room_id is_super_user =
     (if is_super_user then rk_users_in_room_incl_invisible room_id
      else rk_users_in_room_only_visible room_id)"

definition cr_get_users_in_room :: "string \<Rightarrow> bool \<Rightarrow> ('s cw, pyval option) op" where
  "cr_get_users_in_room room_id is_super_user = mem_get (users_key room_id is_super_user)"

definition cr_set_users_in_room ::
  "'s cenv \<Rightarrow> string \<Rightarrow> (string \<times> string) list \<Rightarrow> bool \<Rightarrow> ('s cw, unit) op" where
  "cr_set_users_in_room E room_id users is_super_user =
     bindM (jitter E TEN_SECONDS) (\<lambda>j.
     mem_set (users_key room_id is_super_user) (Some (PDict users)) (TEN_SECONDS + j))"

definition cr_set_users_in_room_for_role ::
  "'s cenv \<Rightarrow> string \<Rightarrow> string \<Rightarrow> (string \<times> string) list \<Rightarrow> ('s cw, unit) op" where
  "cr_set_users_in_room_for_role E room_id role users =
     bindM (jitter E FIVE_MINUTES) (\<lambda>j.
     mem_set (rk_users_in_room_for_role room_id role) (Some (PDict users)) (FIVE_MINUTES + j))"

definition cr_reset_users_in_room_for_role :: "string \<Rightarrow> string \<Rightarrow> ('s cw, unit) op" where
  "cr_reset_users_in_room_for_role room_id role = mem_del (rk_users_in_room_for_role room_id role)"

definition cr_get_users_in_channel_for_role :: "string \<Rightarrow> string \<Rightarrow> ('s cw, pyval option) op" where
  "cr_get_users_in_channel_for_role channel_id role =
     mem_get (rk_users_in_channel_for_role channel_id role)"

definition cr_set_users_in_channel_for_role ::
  "'s cenv \<Rightarrow> string \<Rightarrow> string \<Rightarrow> (string \<times> string) list \<Rightarrow> ('s cw, unit) op" where
  "cr_set_users_in_channel_for_role E channel_id role users =
     bindM (jitter E FIVE_MINUTES) (\<lambda>j.
     mem_set (rk_users_in_channel_for_role channel_id role) (Some (PDict users)) (FIVE_MINUTES + j))"

definition cr_reset_users_in_channel_for_role :: "string \<Rightarrow> string \<Rightarrow> ('s cw, unit) op" where
  "cr_reset_users_in_channel_for_role channel_id role =
     mem_del (rk_users_in_channel_for_role channel_id role)"

definition cr_set_acls_in_channel_for_action ::
  "string \<Rightarrow> string \<Rightarrow> (string \<times> string) list \<Rightarrow> ('s cw, unit) op" where
  "cr_set_acls_in_channel_for_action channel_id action acls =
     mem_set (rk_acls_in_channel_for_action channel_id action) (Some (PDict acls)) FIVE_MINUTES"

definition cr_reset_acls_in_channel_for_action :: "string \<Rightarrow> string \<Rightarrow> ('s cw, unit) op" where
  "cr_reset_acls_in_channel_for_action channel_id action =
     mem_del (rk_acls_in_channel_for_action channel_id action)"

definition cr_reset_acls_in_room_for_action :: "string \<Rightarrow> string \<Rightarrow> ('s cw, unit) op" where
  "cr_reset_acls_in_room_for_action room_id action =
     mem_del (rk_acls_in_room_for_action room_id action)"

definition cr_reset_acls_in_channel :: "string \<Rightarrow> ('s cw, unit) op" where
  "cr_reset_acls_in_channel channel_id = mem_del (rk_acls_in_channel channel_id)"

definition cr_reset_acls_in_room :: "string \<Rightarrow> ('s cw, unit) op" where
  "cr_reset_acls_in_room room_id = mem_del (rk_acls_in_room room_id)"

definition cr_set_all_acls_for_channel ::
  "'s cenv \<Rightarrow> string \<Rightarrow> (string \<times> (string \<times> string) list) list \<Rightarrow> ('s cw, unit) op" where
  "cr_set_all_acls_for_channel E channel_id acls =
     bindM (jitter E FIVE_MINUTES) (\<lambda>j.
     mem_set (rk_acls_in_channel channel_id) (Some (PAcls acls)) (FIVE_MINUTES + j))"

definition cr_set_all_acls_for_room ::
  "'s cenv \<Rightarrow> string \<Rightarrow> (string \<times> (string \<times> string) list) list \<Rightarrow> ('s cw, unit) op" where
  "cr_set_all_acls_for_room E room_id acls =
     bindM (jitter E FIVE_MINUTES) (\<lambda>j.
     mem_set (rk_acls_in_room room_id) (Some (PAcls acls)) (FIVE_MINUTES + j))"

definition cr_get_all_acls_for_channel :: "string \<Rightarrow> ('s cw, pyval option) op" where
  "cr_get_all_acls_for_channel channel_id = mem_get (rk_acls_in_channel channel_id)"

definition cr_get_all_acls_for_room :: "string \<Rightarrow> ('s cw, pyval option) op" where
  "cr_get_all_acls_for_room room_id = mem_get (rk_acls_in_room room_id)"

definition cr_get_user_info :: "string \<Rightarrow> ('s cw, pyval option) op" where
  "cr_get_user_info user_id = mem_get (rk_auth_key user_id)"

definition cr_set_user_info :: "'s cenv \<Rightarrow> string \<Rightarrow> (string \<times> string) list \<Rightarrow> ('s cw, unit) op" where
  "cr_set_user_info E user_id info =
     bindM (jitter E ONE_MINUTE) (\<lambda>j.
     mem_set (rk_auth_key user_id) (Some (PDict info)) (FIVE_MINUTES + j))"

definition cr_reset_user_info :: "string \<Rightarrow> ('s cw, unit) op" where
  "cr_reset_user_info user_id = mem_del (rk_auth_key user_id)"

subsection \<open>Sessions of a user\<close>

definition cr_reset_sids_for_user :: "'s cenv \<Rightarrow> string \<Rightarrow> ('s cw, unit) op" where
  "cr_reset_sids_for_user E user_id = x_hdel E rk_sid_for_user_id user_id"

definition cr_get_sids_for_user :: "'s cenv \<Rightarrow> string \<Rightarrow> ('s cw, string list option) op" where
  "cr_get_sids_for_user E user_id =
     bindM (x_hget E rk_sid_for_user_id user_id) (\<lambda>all_sids.
     case all_sids of None \<Rightarrow> ret None
     | Some s \<Rightarrow> ret (Some (ce_order E (remdups (split_on (CHR '','') s)))))"

definition store_sids :: "'s cenv \<Rightarrow> string \<Rightarrow> string list \<Rightarrow> ('s cw, unit) op" where
  "store_sids E user_id all_sids =
     x_hset E rk_sid_for_user_id user_id (join_on (CHR '','') (ce_order E (remdups all_sids)))"

definition try_to_remove_sid :: "'s cenv \<Rightarrow> string option \<Rightarrow> string \<Rightarrow> ('s cw, unit) op" where
  "try_to_remove_sid E user_id sid =
     thenM (x_hdel E rk_user_id_for_sid sid)
     (case user_id of
        None \<Rightarrow> ret ()
      | Some u \<Rightarrow> bindM (cr_get_sids_for_user E u) (\<lambda>found.
          let all_sids = default_to [] found
          in if sid \<notin> set all_sids then ret ()
             else store_sids E u (remove1 sid all_sids)))"

text \<open>Only a \<open>RuntimeError\<close> is caught, and the attempt made once more.\<close>

definition cr_remove_sid_for_user :: "'s cenv \<Rightarrow> string option \<Rightarrow> string \<Rightarrow> ('s cw, unit) op" where
  "cr_remove_sid_for_user E user_id sid =
     catchM (try_to_remove_sid E user_id sid) (\<lambda>e. case e of
       RuntimeError _ \<Rightarrow> Some (catchM (try_to_remove_sid E user_id sid)
         (\<lambda>e'. case e' of RuntimeError _ \<Rightarrow> Some (ret ()) | _ \<Rightarrow> None))
     | _ \<Rightarrow> None)"

definition cr_set_sids_for_user :: "'s cenv \<Rightarrow> string \<Rightarrow> string list \<Rightarrow> ('s cw, unit) op" where
  "cr_set_sids_for_user E user_id all_sids =
     thenM (iterM (\<lambda>sid. x_hset E rk_user_id_for_sid sid user_id) (ce_order E (remdups all_sids)))
           (store_sids E user_id all_sids)"

definition cr_add_sid_for_user :: "'s cenv \<Rightarrow> string \<Rightarrow> string \<Rightarrow> ('s cw, unit) op" where
  "cr_add_sid_for_user E user_id sid =
     bindM (cr_get_sids_for_user E user_id) (\<lambda>found.
     let all_sids = List.insert sid (default_to [] found)
     in thenM (iterM (\<lambda>x. x_hset E rk_user_id_for_sid x user_id) (ce_order E (remdups all_sids)))
              (store_sids E user_id all_sids))"

definition cr_get_user_for_sid :: "'s cenv \<Rightarrow> string \<Rightarrow> ('s cw, string option) op" where
  "cr_get_user_for_sid E sid = x_hget E rk_user_id_for_sid sid"

subsection \<open>Counters, avatars, whispers, channels\<close>

text \<open>\<open>int(float(s))\<close>.\<close>

definition int_of_float :: "string \<Rightarrow> exc + int" where
  "int_of_float s = (case py_float s of None \<Rightarrow> Inl ValueError | Some us \<Rightarrow> Inr (trunc_seconds us))"

definition read_count :: "'s cenv \<Rightarrow> string \<Rightarrow> ('s cw, int option) op" where
  "read_count E key =
     bindM (x_get E key) (\<lambda>n_joins.
     case n_joins of None \<Rightarrow> ret None
     | Some s \<Rightarrow> bindM (lift_result (int_of_float s)) (\<lambda>n. ret (Some n)))"

definition cr_get_join_count_by_name :: "'s cenv \<Rightarrow> string \<Rightarrow> ('s cw, int option) op" where
  "cr_get_join_count_by_name E room_name = read_count E (rk_join_counts_by_name room_name)"

definition cr_get_join_count :: "'s cenv \<Rightarrow> string \<Rightarrow> ('s cw, int option) op" where
  "cr_get_join_count E room_id = read_count E (rk_join_counts room_id)"

definition cr_set_join_count_by_name :: "'s cenv \<Rightarrow> string \<Rightarrow> int \<Rightarrow> ('s cw, unit) op" where
  "cr_set_join_count_by_name E room_name n_joins =
     thenM (x_set E (rk_join_counts_by_name room_name) (str_int n_joins))
           (x_expire E (rk_join_counts_by_name room_name) SEVEN_DAYS)"

definition cr_set_join_count :: "'s cenv \<Rightarrow> string \<Rightarrow> int \<Rightarrow> ('s cw, unit) op" where
  "cr_set_join_count E room_id n_joins =
     thenM (x_set E (rk_join_counts room_id) (str_int n_joins))
           (x_expire E (rk_join_counts room_id) SEVEN_DAYS)"

definition cr_set_avatar_for :: "'s cenv \<Rightarrow> string \<Rightarrow> string \<Rightarrow> string \<Rightarrow> string \<Rightarrow> ('s cw, unit) op" where
  "cr_set_avatar_for E user_id avatar_url app_avatar_url app_avatar_safe_url =
     (let urls = join_on (CHR ''|'') [avatar_url, app_avatar_url, app_avatar_safe_url]
      in thenM (mem_set (dash rk_avatars user_id) (Some (PStr urls)) THIRTY_SECONDS)
               (x_hset E rk_avatars user_id urls))"

definition cr_get_avatar_for :: "'s cenv \<Rightarrow> string \<Rightarrow> ('s cw, string list option) op" where
  "cr_get_avatar_for E user_id =
     bindM (mem_get (dash rk_avatars user_id)) (\<lambda>value.
     case value of
       Some v \<Rightarrow> bindM (py_split_max (CHR ''|'') 2 v) (\<lambda>ps. ret (Some ps))
     | None \<Rightarrow> bindM (x_hget E rk_avatars user_id) (\<lambda>found.
         case found of None \<Rightarrow> ret None
         | Some s \<Rightarrow>
             (if length (split_max (CHR ''|'') 2 s) \<noteq> 3 then throw ValueError
              else thenM (mem_set (dash rk_avatars user_id) (Some (PStr s)) THIRTY_SECONDS)
                         (ret (Some (split_max (CHR ''|'') 2 s))))))"

definition cr_set_all_rooms :: "string list \<Rightarrow> ('s cw, unit) op" where
  "cr_set_all_rooms all_rooms =
     thenM (mem_del rk_all_rooms) (mem_set rk_all_rooms (Some (PList all_rooms)) ONE_MINUTE)"

definition cr_get_all_rooms :: "('s cw, pyval option) op" where
  "cr_get_all_rooms = mem_get rk_all_rooms"

text \<open>The reason code is a number when it comes from the process, a text when from Redis.\<close>

definition cr_get_can_whisper_to_user ::
  "'s cenv \<Rightarrow> string \<Rightarrow> string \<Rightarrow> ('s cw, (pyval \<times> pyval) option) op" where
  "cr_get_can_whisper_to_user E sender_id target_user_name =
     (let key = rk_can_whisper_to sender_id; cache_key = dash key target_user_name
      in bindM (mem_get cache_key) (\<lambda>value.
         case value of
           Some (PPair a b) \<Rightarrow> ret (Some (a, b))
         | Some _ \<Rightarrow> throw TypeError
         | None \<Rightarrow> bindM (x_hget E key target_user_name) (\<lambda>found.
             case found of None \<Rightarrow> ret None
             | Some s \<Rightarrow> (case split_on (CHR ''|'') s of
                 [can, code] \<Rightarrow> ret (Some (PBool (can = ''1''), PStr code))
               | _ \<Rightarrow> throw ValueError))))"

definition cr_set_can_whisper_to_user ::
  "'s cenv \<Rightarrow> string \<Rightarrow> string \<Rightarrow> bool \<Rightarrow> int \<Rightarrow> ('s cw, unit) op" where
  "cr_set_can_whisper_to_user E sender_id target_user_name allowed reason_code =
     (let key = rk_can_whisper_to sender_id; cache_key = dash key target_user_name
      in if \<not> allowed then ret ()
         else thenM (mem_set cache_key (Some (PPair (PBool allowed) (PInt reason_code))) TEN_MINUTES)
              (thenM (x_hset E key target_user_name
                       (join_on (CHR ''|'') [if allowed then ''1'' else ''0'', str_int reason_code]))
                     (x_expire E key EIGHT_HOURS_IN_SECONDS)))"

definition cr_reset_channels_with_sort :: "'s cenv \<Rightarrow> ('s cw, unit) op" where
  "cr_reset_channels_with_sort E = thenM (mem_del rk_channels_with_sort) (x_delete E rk_channels_with_sort)"

definition channel_sort_text :: "string \<times> int \<times> string option \<Rightarrow> string" where
  "channel_sort_text info = (case info of (name, srt, tags) \<Rightarrow>
     str_int srt @ ''|'' @ fmt tags @ ''|'' @ name)"

definition parse_channel_sort :: "string \<Rightarrow> (string \<times> int \<times> string option) option" where
  "parse_channel_sort s = (case split_max (CHR ''|'') 2 s of
     [srt, tags, name] \<Rightarrow> (case py_int srt of
         None \<Rightarrow> None
       | Some n \<Rightarrow> Some (name, n, Some (if tags = ''None'' then '''' else tags)))
   | _ \<Rightarrow> None)"

definition cr_get_channels_with_sort :: "'s cenv \<Rightarrow> ('s cw, pyval option) op" where
  "cr_get_channels_with_sort E =
     bindM (mem_get rk_channels_with_sort) (\<lambda>channels.
     if channels \<noteq> None then ret channels
     else bindM (x_hgetall E rk_channels_with_sort) (\<lambda>raw.
       if length raw = 0 then ret None
       else (let clean = List.map_filter (\<lambda>(channel_id, text).
                   map_option (\<lambda>i. (channel_id, i)) (parse_channel_sort text)) raw
             in thenM (mem_set rk_channels_with_sort (Some (PChannels clean)) ONE_MINUTE)
                      (ret (Some (PChannels clean))))))"

definition cr_set_channels_with_sort ::
  "'s cenv \<Rightarrow> (string \<times> string \<times> int \<times> string option) list \<Rightarrow> ('s cw, unit) op" where
  "cr_set_channels_with_sort E channels =
     (if length channels = 0 then ret ()
      else thenM (mem_set rk_channels_with_sort (Some (PChannels channels)) ONE_MINUTE)
           (thenM (x_hmset E rk_channels_with_sort
                     (map (\<lambda>(channel_id, i). (channel_id, channel_sort_text i)) channels))
                  (x_expire E rk_channels_with_sort ONE_MINUTE)))"

subsection \<open>Names and existence\<close>

definition cr_remove_room_id_for_name :: "'s cenv \<Rightarrow> string \<Rightarrow> string \<Rightarrow> ('s cw, unit) op" where
  "cr_remove_room_id_for_name E channel_id room_name =
     thenM (mem_del (dash (rk_room_id_for_name channel_id) room_name))
           (x_hdel E (rk_room_id_for_name channel_id) room_name)"

definition cr_get_room_id_for_name :: "'s cenv \<Rightarrow> string \<Rightarrow> string \<Rightarrow> ('s cw, pyval option) op" where
  "cr_get_room_id_for_name E channel_id room_name =
     cached_hget E (dash (rk_room_id_for_name channel_id) room_name)
       (rk_room_id_for_name channel_id) room_name 30"

definition cr_set_room_id_for_name :: "'s cenv \<Rightarrow> string \<Rightarrow> string \<Rightarrow> string \<Rightarrow> ('s cw, unit) op" where
  "cr_set_room_id_for_name E channel_id room_name room_id =
     thenM (mem_set (dash (rk_room_id_for_name channel_id) room_name) (Some (PStr room_id)) 30)
           (x_hset E (rk_room_id_for_name channel_id) room_name room_id)"

definition cr_get_user_id :: "'s cenv \<Rightarrow> string \<Rightarrow> ('s cw, pyval option) op" where
  "cr_get_user_id E user_name = cached_hget E (dash rk_user_ids user_name) rk_user_ids user_name 30"

definition cr_set_user_id :: "'s cenv \<Rightarrow> string \<Rightarrow> string \<Rightarrow> ('s cw, unit) op" where
  "cr_set_user_id E user_id user_name =
     thenM (x_hset E rk_user_ids user_name user_id)
           (mem_set (dash rk_user_ids user_name) (Some (PStr user_id)) 30)"

definition cr_get_user_name :: "'s cenv \<Rightarrow> string \<Rightarrow> ('s cw, pyval option) op" where
  "cr_get_user_name E user_id = cached_hget E (dash rk_user_names user_id) rk_user_names user_id 30"

definition cr_set_user_name :: "'s cenv \<Rightarrow> string \<Rightarrow> string \<Rightarrow> ('s cw, unit) op" where
  "cr_set_user_name E user_id user_name =
     thenM (x_hset E rk_user_names user_id user_name)
           (mem_set (dash rk_user_names user_id) (Some (PStr user_name)) 30)"

definition cr_get_room_exists :: "'s cenv \<Rightarrow> string \<Rightarrow> string \<Rightarrow> ('s cw, bool option) op" where
  "cr_get_room_exists E channel_id room_id =
     (let key = rk_rooms channel_id; cache_key = dash key room_id
      in bindM (mem_get cache_key) (\<lambda>value.
         if value \<noteq> None then ret (Some True)
         else bindM (ask_redis (\<lambda>s. r_hexists (ce_redis E) s key room_id)) (\<lambda>exists.
           if exists then thenM (mem_set cache_key (Some (PBool True)) 30) (ret (Some True))
           else ret None)))"

definition name_key :: "string \<Rightarrow> string" where
  "name_key channel_id = rk_channels @ ''-name-'' @ channel_id"

definition room_name_key :: "string \<Rightarrow> string" where
  "room_name_key room_id = rk_room_name_for_id @ ''-'' @ room_id @ ''-name''"

definition cr_remove_channel_exists :: "'s cenv \<Rightarrow> string \<Rightarrow> ('s cw, unit) op" where
  "cr_remove_channel_exists E channel_id =
     thenM (x_hdel E rk_channel_exists channel_id)
     (thenM (mem_del (dash rk_channel_exists channel_id))
     (thenM (mem_del (name_key channel_id))
            (x_hdel E rk_channels channel_id)))"

definition cr_remove_room_exists :: "'s cenv \<Rightarrow> string \<Rightarrow> string \<Rightarrow> ('s cw, unit) op" where
  "cr_remove_room_exists E channel_id room_id =
     thenM (mem_set (dash (rk_rooms channel_id) room_id) None 30)
     (thenM (x_hdel E (rk_rooms channel_id) room_id)
     (thenM (mem_del (dash rk_channel_for_rooms room_id))
     (thenM (x_hdel E rk_channel_for_rooms room_id)
     (thenM (x_delete E (rk_room_roles room_id))
     (bindM (x_hget E rk_room_name_for_id room_id) (\<lambda>room_name.
      thenM (mem_del (room_name_key room_id))
     (thenM (x_hdel E rk_room_name_for_id room_id)
     (thenM (x_hdel E (rk_room_id_for_name channel_id) room_id)
     (thenM (case room_name of None \<Rightarrow> ret ()
             | Some n \<Rightarrow> mem_del (dash (rk_room_id_for_name channel_id) n))
            (iterM (\<lambda>role. x_delete E (rk_users_in_room_for_role room_id role)) all_roles))))))))))"

definition cr_set_room_exists :: "'s cenv \<Rightarrow> string \<Rightarrow> string \<Rightarrow> string \<Rightarrow> ('s cw, unit) op" where
  "cr_set_room_exists E channel_id room_id room_name =
     thenM (mem_set (dash (rk_rooms channel_id) room_id) (Some (PStr room_name)) 30)
     (thenM (x_hset E (rk_rooms channel_id) room_id room_name)
            (x_expire E (rk_rooms channel_id) ONE_MINUTE))"

definition cr_set_channel_exists :: "'s cenv \<Rightarrow> string \<Rightarrow> ('s cw, unit) op" where
  "cr_set_channel_exists E channel_id =
     thenM (x_hset E rk_channel_exists channel_id ''1'')
     (thenM (x_expire E rk_channel_exists ONE_MINUTE)
            (mem_set (dash rk_channel_exists channel_id) (Some (PBool True)) 30))"

definition cr_set_channel_for_room :: "'s cenv \<Rightarrow> string \<Rightarrow> string \<Rightarrow> ('s cw, unit) op" where
  "cr_set_channel_for_room E channel_id room_id =
     thenM (x_hset E rk_channel_for_rooms room_id channel_id)
     (thenM (x_expire E rk_channel_for_rooms ONE_HOUR)
            (mem_set (dash rk_channel_for_rooms room_id) (Some (PStr channel_id)) TEN_MINUTES))"

definition cr_get_channel_exists :: "'s cenv \<Rightarrow> string \<Rightarrow> ('s cw, bool option) op" where
  "cr_get_channel_exists E channel_id =
     (let cache_key = dash rk_channel_exists channel_id
      in bindM (mem_get cache_key) (\<lambda>value.
         if value \<noteq> None then ret (Some True)
         else bindM (x_hget E rk_channel_exists channel_id) (\<lambda>v.
           case v of None \<Rightarrow> ret None
           | Some _ \<Rightarrow> thenM (mem_set cache_key (Some (PBool True)) 30) (ret (Some True)))))"

definition cr_set_channel_name :: "'s cenv \<Rightarrow> string \<Rightarrow> string \<Rightarrow> ('s cw, unit) op" where
  "cr_set_channel_name E channel_id channel_name =
     thenM (mem_set (name_key channel_id) (Some (PStr channel_name)) 30)
     (thenM (x_hset E rk_channels channel_id channel_name)
            (x_expire E rk_channels TEN_MINUTES))"

definition cr_get_user_name_exists :: "'s cenv \<Rightarrow> string \<Rightarrow> ('s cw, bool) op" where
  "cr_get_user_name_exists E user_name =
     bindM (mem_get (dash rk_user_names_set user_name)) (\<lambda>value.
     if value \<noteq> None then ret True
     else ask_redis (\<lambda>s. r_sismember (ce_redis E) s rk_user_names_set user_name))"

definition cr_set_user_name_exists :: "'s cenv \<Rightarrow> string \<Rightarrow> ('s cw, unit) op" where
  "cr_set_user_name_exists E user_name =
     thenM (mem_set (dash rk_user_names_set user_name) (Some (PBool True)) TEN_MINUTES)
           (x_sadd E rk_user_names_set user_name)"

definition cr_get_channel_name :: "'s cenv \<Rightarrow> string \<Rightarrow> ('s cw, pyval option) op" where
  "cr_get_channel_name E channel_id = cached_hget E (name_key channel_id) rk_channels channel_id 30"

definition cr_get_room_name :: "'s cenv \<Rightarrow> string \<Rightarrow> ('s cw, pyval option) op" where
  "cr_get_room_name E room_id =
     cached_hget E (room_name_key room_id) rk_room_name_for_id room_id 30"

definition cr_set_room_name :: "'s cenv \<Rightarrow> string \<Rightarrow> string \<Rightarrow> ('s cw, unit) op" where
  "cr_set_room_name E room_id room_name =
     bindM (jitter E ONE_MINUTE) (\<lambda>j.
     thenM (mem_set (room_name_key room_id) (Some (PStr room_name)) (FIVE_MINUTES + j))
     (thenM (x_hset E rk_room_name_for_id room_id room_name)
            (x_expire E rk_room_name_for_id TEN_MINUTES)))"

definition cr_get_channel_for_room :: "'s cenv \<Rightarrow> string \<Rightarrow> ('s cw, pyval option) op" where
  "cr_get_channel_for_room E room_id =
     cached_hget E (dash rk_channel_for_rooms room_id) rk_channel_for_rooms room_id 30"

definition cr_get_user_status :: "'s cenv \<Rightarrow> string \<Rightarrow> ('s cw, pyval option) op" where
  "cr_get_user_status E user_id =
     bindM (mem_get (rk_user_status user_id)) (\<lambda>status.
     if status \<noteq> None then ret status
     else bindM (x_get E (rk_user_status user_id)) (\<lambda>v.
       case v of None \<Rightarrow> ret None
       | Some s \<Rightarrow> thenM (mem_set (rk_user_status user_id) (Some (PStr s)) TEN_SECONDS)
                         (ret (Some (PStr s)))))"

definition cr_set_user_status :: "'s cenv \<Rightarrow> string \<Rightarrow> string \<Rightarrow> ('s cw, unit) op" where
  "cr_set_user_status E user_id status =
     thenM (mem_set (rk_user_status user_id) (Some (PStr status)) THIRTY_SECONDS)
           (x_set E (rk_user_status user_id) status)"

definition cr_user_check_status :: "'s cenv \<Rightarrow> string \<Rightarrow> string \<Rightarrow> ('s cw, bool) op" where
  "cr_user_check_status E user_id other_status =
     bindM (cr_get_user_status E user_id) (\<lambda>v. ret (v = Some (PStr other_status)))"

definition cr_user_is_offline :: "'s cenv \<Rightarrow> string \<Rightarrow> ('s cw, bool) op" where
  "cr_user_is_offline E user_id = cr_user_check_status E user_id status_unavailable"

definition cr_user_is_online :: "'s cenv \<Rightarrow> string \<Rightarrow> ('s cw, bool) op" where
  "cr_user_is_online E user_id = cr_user_check_status E user_id status_available"

definition cr_user_is_invisible :: "'s cenv \<Rightarrow> string \<Rightarrow> ('s cw, bool) op" where
  "cr_user_is_invisible E user_id = cr_user_check_status E user_id status_invisible"

definition cr_get_room_owners :: "'s cenv \<Rightarrow> string \<Rightarrow> ('s cw, pyval option) op" where
  "cr_get_room_owners E room_id =
     (let key = rk_room_owners room_id
      in bindM (mem_get key) (\<lambda>value.
         if value \<noteq> None then ret value
         else bindM (x_get E key) (\<lambda>v.
           case v of None \<Rightarrow> ret None
           | Some s \<Rightarrow> (let owners = PSet (remdups (split_on (CHR '','') s))
               in bindM (jitter E TEN_MINUTES) (\<lambda>j.
                  thenM (mem_set key (Some owners) (TEN_MINUTES + j)) (ret (Some owners)))))))"

definition cr_set_room_owners :: "'s cenv \<Rightarrow> string \<Rightarrow> string list \<Rightarrow> ('s cw, unit) op" where
  "cr_set_room_owners E room_id owners =
     (let key = rk_room_owners room_id
      in bindM (jitter E TEN_MINUTES) (\<lambda>j.
         thenM (mem_set key (Some (PSet owners)) (TEN_MINUTES + j))
         (thenM (x_set E key (join_on (CHR '','') (ce_order E (remdups owners))))
         (bindM (jitter E EIGHT_HOURS_IN_SECONDS) (\<lambda>k.
          x_expire E key (EIGHT_HOURS_IN_SECONDS + k))))))"

definition cr_get_last_online :: "'s cenv \<Rightarrow> string \<Rightarrow> ('s cw, pyval option) op" where
  "cr_get_last_online E user_id =
     (let key = rk_user_last_online (strip user_id)
      in bindM (mem_get key) (\<lambda>last_online.
         if last_online \<noteq> None then ret last_online
         else bindM (x_get E key) (\<lambda>v.
           case v of None \<Rightarrow> ret None
           | Some s \<Rightarrow> thenM (mem_set key (Some (PStr s)) 30) (ret (Some (PStr s))))))"

end
