(* ===== verification/Cache_Facts.thy ===== *)
theory Cache_Facts
  imports Cache_Redis
begin

section \<open>Facts on the Redis cache\<close>

text \<open>
  The cache against its contract (\<open>coherent_cache\<close>), the sessions of a user, and the texts under
  which rooms are kept in Redis. The locale \<open>cache_env\<close> states what the environment provides: a
  lawful Redis client, a random part of a time to live within its bounds, and an iteration order
  of a set that visits each element once.
\<close>

locale cache_env = redis_client "ce_redis E" for E :: "'s cenv" +
  assumes order_set: "set (ce_order E xs) = set xs"
    and order_distinct: "distinct xs \<Longrightarrow> distinct (ce_order E xs)"
    and jitter_bounds: "0 \<le> n \<Longrightarrow> 0 \<le> ce_jitter E t n \<and> ce_jitter E t n \<le> n"

definition memory_cenv :: "store cenv" where
  "memory_cenv = \<lparr>ce_redis = store_redis, ce_jitter = (\<lambda>_ _. 0), ce_order = (\<lambda>xs. xs)\<rparr>"

lemma memory_cenv_simps [simp]:
  "ce_redis memory_cenv = store_redis" "ce_order memory_cenv xs = xs" "ce_jitter memory_cenv t n = 0"
  by (simp_all add: memory_cenv_def)

interpretation memory_cache_env: cache_env memory_cenv
proof -
  show "cache_env memory_cenv"
    by (auto simp: cache_env_def cache_env_axioms_def memory_client.redis_client_axioms)
qed

subsection \<open>Running the parts\<close>

lemma mem_get_run [op_simps]:
  "mem_get key w = (Inr (mc_view (cw_now w) (cw_mem w) key),
     w\<lparr>cw_mem := snd (mc_get (cw_now w) key (cw_mem w))\<rparr>)"
  by (simp add: mem_get_def op_simps Let_def mc_get_view [symmetric] split: prod.splits)

lemma mem_set_run [op_simps]:
  "mem_set key v ttl w = (Inr (), w\<lparr>cw_mem := mc_set (cw_now w) key v ttl (cw_mem w)\<rparr>)"
  by (simp add: mem_set_def op_simps)

lemma mem_del_run [op_simps]:
  "mem_del key w = (Inr (), w\<lparr>cw_mem := mc_delete key (cw_mem w)\<rparr>)"
  by (simp add: mem_del_def op_simps)

lemma bindM_mem_get [op_simps]:
  "bindM (mem_get key) f w = f (mc_view (cw_now w) (cw_mem w) key)
     (w\<lparr>cw_mem := snd (mc_get (cw_now w) key (cw_mem w))\<rparr>)"
  by (simp add: bindM_def mem_get_run)

lemma bindM_mem_set [op_simps]:
  "bindM (mem_set key v ttl) f w = f () (w\<lparr>cw_mem := mc_set (cw_now w) key v ttl (cw_mem w)\<rparr>)"
  by (simp add: bindM_def mem_set_run)

lemma bindM_mem_del [op_simps]:
  "bindM (mem_del key) f w = f () (w\<lparr>cw_mem := mc_delete key (cw_mem w)\<rparr>)"
  by (simp add: bindM_def mem_del_run)

lemma x_get_run [op_simps]: "x_get E k w = (Inr (r_get (ce_redis E) (cw_redis w) k), w)"
  by (simp add: x_defs op_simps)

lemmas run_simps = op_simps x_defs jitter_def

subsection \<open>The contract of the cache\<close>

definition redis_icache :: "'s cenv \<Rightarrow> 's cw icache" where
  "redis_icache E = \<lparr>
     ic_get_channel_for_room = (\<lambda>r. bindM (cr_get_channel_for_room E r) (\<lambda>v. ret (as_str v))),
     ic_set_channel_for_room = cr_set_channel_for_room E,
     ic_get_channel_name = (\<lambda>c. bindM (cr_get_channel_name E c) (\<lambda>v. ret (as_str v))),
     ic_set_channel_name = cr_set_channel_name E,
     ic_get_channel_exists = cr_get_channel_exists E,
     ic_set_channel_exists = cr_set_channel_exists E,
     ic_set_join_count = cr_set_join_count E,
     ic_get_user_status = (\<lambda>u. bindM (cr_get_user_status E u) (\<lambda>v. ret (as_str v)))\<rparr>"

text \<open>An entry in process, expired or not, holds the text that the mapping has, if it holds one.\<close>

definition entry_agrees :: "pyval memory_cache \<Rightarrow> string \<Rightarrow> string option \<Rightarrow> bool" where
  "entry_agrees m key val \<longleftrightarrow>
     (\<forall>e v. map_of m key = Some (e, Some v) \<longrightarrow> (\<exists>x. v = PStr x \<and> val = Some x))"

definition cache_agrees ::
  "'s cenv \<Rightarrow> 's cw \<Rightarrow> (string \<Rightarrow> string option) \<Rightarrow> (string \<Rightarrow> string option) \<Rightarrow> bool" where
  "cache_agrees E w ch nm \<longleftrightarrow>
     (\<forall>r. entry_agrees (cw_mem w) (dash rk_channel_for_rooms r) (ch r)) \<and>
     (\<forall>c. entry_agrees (cw_mem w) (name_key c) (nm c)) \<and>
     (\<forall>r x. r_hget (ce_redis E) (cw_redis w) rk_channel_for_rooms r = Some x \<longrightarrow> ch r = Some x) \<and>
     (\<forall>c x. r_hget (ce_redis E) (cw_redis w) rk_channels c = Some x \<longrightarrow> nm c = Some x)"

lemma entry_agrees_get: "entry_agrees m key val \<Longrightarrow> entry_agrees (snd (mc_get t k m)) key val"
  using map_of_mc_get [of t k m key] by (auto simp: entry_agrees_def)

lemma entry_agrees_set_other:
  "key \<noteq> k \<Longrightarrow> entry_agrees (mc_set t k v ttl m) key val \<longleftrightarrow> entry_agrees m key val"
  by (simp add: entry_agrees_def map_of_mc_set)

lemma entry_agrees_set_same: "entry_agrees (mc_set t k (Some (PStr x)) ttl m) k (Some x)"
  by (simp add: entry_agrees_def map_of_mc_set)

lemma entry_agrees_view:
  "entry_agrees m key val \<Longrightarrow> mc_view t m key = None \<or> (\<exists>x. mc_view t m key = Some (PStr x) \<and> val = Some x)"
  by (cases "mc_view t m key") (auto simp: entry_agrees_def mc_view_def split: option.splits if_splits)

lemma entry_agrees_extend: "entry_agrees m key None \<Longrightarrow> entry_agrees m key v"
  by (simp add: entry_agrees_def)

lemma cache_keys [simp]:
  "dash k r = dash k r' \<longleftrightarrow> r = r'" "name_key c = name_key c' \<longleftrightarrow> c = c'"
  "dash rk_channel_for_rooms r \<noteq> name_key c" "name_key c \<noteq> dash rk_channel_for_rooms r"
  "dash rk_channel_for_rooms r \<noteq> dash rk_channel_exists c" "name_key c \<noteq> dash rk_channel_exists c'"
  "dash rk_channel_for_rooms r \<noteq> rk_user_status u" "name_key c \<noteq> rk_user_status u"
  "rk_channels \<noteq> rk_channel_for_rooms" "rk_channel_for_rooms \<noteq> rk_channels"
  "rk_channels \<noteq> rk_channel_exists" "rk_channel_for_rooms \<noteq> rk_channel_exists"
  by (simp_all add: dash_def name_key_def key_simps)

lemmas entry_lemmas = entry_agrees_get entry_agrees_set_other entry_agrees_set_same

context cache_env begin

lemma agrees_cached_hget:
  assumes "entry_agrees (cw_mem w) ck val"
    and "\<And>x. r_hget (ce_redis E) (cw_redis w) key field = Some x \<Longrightarrow> val = Some x"
  obtains v m where "cached_hget E ck key field ttl w = (Inr v, w\<lparr>cw_mem := m\<rparr>)"
    "v = None \<or> (\<exists>x. v = Some (PStr x) \<and> val = Some x)"
    "\<And>k u. entry_agrees (cw_mem w) k u \<Longrightarrow> (k = ck \<Longrightarrow> u = val) \<Longrightarrow> entry_agrees m k u"
proof (cases "mc_view (cw_now w) (cw_mem w) ck")
  case (Some v)
  show ?thesis
    using entry_agrees_view [OF assms(1), of "cw_now w"] Some
    by (intro that [of "Some v" "snd (mc_get (cw_now w) ck (cw_mem w))"])
       (auto simp: cached_hget_def run_simps entry_lemmas)
next
  case None
  note view = None
  show ?thesis
  proof (cases "r_hget (ce_redis E) (cw_redis w) key field")
    case None
    with view show ?thesis
      by (intro that [of None "snd (mc_get (cw_now w) ck (cw_mem w))"])
         (auto simp: cached_hget_def run_simps entry_lemmas)
  next
    case (Some x)
    with view assms(2) [OF Some] show ?thesis
      by (intro that [of "Some (PStr x)"
            "mc_set (cw_now w) ck (Some (PStr x)) ttl (snd (mc_get (cw_now w) ck (cw_mem w)))"])
         (auto simp: cached_hget_def run_simps entry_lemmas, metis entry_lemmas)
  qed
qed

lemma agrees_upd_mem:
  assumes "cache_agrees E w ch nm" "\<And>k u. entry_agrees (cw_mem w) k u \<Longrightarrow>
      (\<forall>r. k = dash rk_channel_for_rooms r \<longrightarrow> u = ch r) \<Longrightarrow> (\<forall>c. k = name_key c \<longrightarrow> u = nm c) \<Longrightarrow>
      entry_agrees m k u"
  shows "cache_agrees E (w\<lparr>cw_mem := m\<rparr>) ch nm"
  using assms by (auto simp: cache_agrees_def)

lemma agrees_get_channel_for_room:
  assumes "cache_agrees E w ch nm"
  shows "\<exists>v w'. ic_get_channel_for_room (redis_icache E) r w = (Inr v, w') \<and>
    (v = None \<or> v = ch r) \<and> cache_agrees E w' ch nm"
proof -
  have "entry_agrees (cw_mem w) (dash rk_channel_for_rooms r) (ch r)"
    and "\<And>x. r_hget (ce_redis E) (cw_redis w) rk_channel_for_rooms r = Some x \<Longrightarrow> ch r = Some x"
    using assms by (auto simp: cache_agrees_def)
  then show ?thesis
  proof (rule agrees_cached_hget [where ttl = 30])
    fix v m
    assume eq: "cached_hget E (dash rk_channel_for_rooms r) rk_channel_for_rooms r 30 w
        = (Inr v, w\<lparr>cw_mem := m\<rparr>)"
      and v: "v = None \<or> (\<exists>x. v = Some (PStr x) \<and> ch r = Some x)"
      and m: "\<And>k u. entry_agrees (cw_mem w) k u \<Longrightarrow>
        (k = dash rk_channel_for_rooms r \<Longrightarrow> u = ch r) \<Longrightarrow> entry_agrees m k u"
    have "cache_agrees E (w\<lparr>cw_mem := m\<rparr>) ch nm"
      by (rule agrees_upd_mem [OF assms]) (rule m; simp)
    with eq v show ?thesis
      by (auto simp: redis_icache_def cr_get_channel_for_room_def bindM_def ret_def as_str_def)
  qed
qed

lemma agrees_get_channel_name:
  assumes "cache_agrees E w ch nm"
  shows "\<exists>v w'. ic_get_channel_name (redis_icache E) c w = (Inr v, w') \<and>
    (v = None \<or> v = nm c) \<and> cache_agrees E w' ch nm"
proof -
  have "entry_agrees (cw_mem w) (name_key c) (nm c)"
    and "\<And>x. r_hget (ce_redis E) (cw_redis w) rk_channels c = Some x \<Longrightarrow> nm c = Some x"
    using assms by (auto simp: cache_agrees_def)
  then show ?thesis
  proof (rule agrees_cached_hget [where ttl = 30])
    fix v m
    assume eq: "cached_hget E (name_key c) rk_channels c 30 w = (Inr v, w\<lparr>cw_mem := m\<rparr>)"
      and v: "v = None \<or> (\<exists>x. v = Some (PStr x) \<and> nm c = Some x)"
      and m: "\<And>k u. entry_agrees (cw_mem w) k u \<Longrightarrow> (k = name_key c \<Longrightarrow> u = nm c) \<Longrightarrow>
        entry_agrees m k u"
    have "cache_agrees E (w\<lparr>cw_mem := m\<rparr>) ch nm"
      by (rule agrees_upd_mem [OF assms]) (rule m; simp)
    with eq v show ?thesis
      by (auto simp: redis_icache_def cr_get_channel_name_def bindM_def ret_def as_str_def)
  qed
qed

lemma agrees_set_channel_for_room:
  assumes "cache_agrees E w ch nm" "ch r = Some x"
  shows "\<exists>w'. ic_set_channel_for_room (redis_icache E) x r w = (Inr (), w') \<and> cache_agrees E w' ch nm"
  using assms
  by (auto simp: redis_icache_def cr_set_channel_for_room_def run_simps cache_agrees_def laws
      entry_lemmas) (metis entry_lemmas(2,3) cache_keys(1))

lemma agrees_set_channel_name:
  assumes "cache_agrees E w ch nm"
  shows "\<exists>w'. ic_set_channel_name (redis_icache E) x n w = (Inr (), w') \<and>
    cache_agrees E w' ch (nm(x \<mapsto> n))"
  using assms
  by (auto simp: redis_icache_def cr_set_channel_name_def run_simps cache_agrees_def laws
      entry_lemmas)

text \<open>Operations on other entries: they keep the relation.\<close>

lemma agrees_other_mem:
  assumes "cache_agrees E w ch nm" "\<forall>r. k \<noteq> dash rk_channel_for_rooms r" "\<forall>c. k \<noteq> name_key c"
  shows "cache_agrees E (w\<lparr>cw_mem := mc_set t k v ttl (cw_mem w)\<rparr>) ch nm"
  using assms by (auto simp: cache_agrees_def entry_agrees_def map_of_mc_set)

lemma agrees_mem_get:
  assumes "cache_agrees E w ch nm"
  shows "cache_agrees E (w\<lparr>cw_mem := snd (mc_get t k (cw_mem w))\<rparr>) ch nm"
  using assms by (auto simp: cache_agrees_def entry_agrees_get)

lemma agrees_redis:
  assumes "cache_agrees E w ch nm"
    and "\<And>k f. k = rk_channel_for_rooms \<or> k = rk_channels \<Longrightarrow>
      r_hget (ce_redis E) s k f = r_hget (ce_redis E) (cw_redis w) k f"
  shows "cache_agrees E (w\<lparr>cw_redis := s\<rparr>) ch nm"
  using assms by (auto simp: cache_agrees_def)

lemma exists_key_apart: "dash rk_channel_exists x \<noteq> dash rk_channel_for_rooms r"
  "dash rk_channel_exists x \<noteq> name_key c" "rk_user_status u \<noteq> dash rk_channel_for_rooms r"
  "rk_user_status u \<noteq> name_key c"
  by (simp_all add: dash_def name_key_def key_simps)

lemma agrees_get_channel_exists:
  assumes "cache_agrees E w ch nm"
  shows "\<exists>v w'. ic_get_channel_exists (redis_icache E) x w = (Inr v, w') \<and> cache_agrees E w' ch nm"
proof -
  let ?w1 = "w\<lparr>cw_mem := snd (mc_get (cw_now w) (dash rk_channel_exists x) (cw_mem w))\<rparr>"
  have w1: "cache_agrees E ?w1 ch nm" by (rule agrees_mem_get [OF assms])
  show ?thesis
    using w1 agrees_other_mem [OF w1, of "dash rk_channel_exists x" "cw_now w"]
    by (auto simp: redis_icache_def cr_get_channel_exists_def run_simps Let_def exists_key_apart
        split: option.splits)
qed

lemma agrees_set_channel_exists:
  assumes "cache_agrees E w ch nm"
  shows "\<exists>w'. ic_set_channel_exists (redis_icache E) x w = (Inr (), w') \<and> cache_agrees E w' ch nm"
proof -
  let ?s = "r_expire (ce_redis E) (r_hset (ce_redis E) (cw_redis w) rk_channel_exists x ''1'')
      rk_channel_exists ONE_MINUTE"
  have w1: "cache_agrees E (w\<lparr>cw_redis := ?s\<rparr>) ch nm"
    by (rule agrees_redis [OF assms]) (auto simp: laws key_simps)
  show ?thesis
    using agrees_other_mem [OF w1, of "dash rk_channel_exists x" "cw_now w"]
    by (auto simp: redis_icache_def cr_set_channel_exists_def run_simps exists_key_apart)
qed

lemma agrees_set_join_count:
  assumes "cache_agrees E w ch nm"
  shows "\<exists>w'. ic_set_join_count (redis_icache E) r k w = (Inr (), w') \<and> cache_agrees E w' ch nm"
  using agrees_redis [OF assms, of "r_expire (ce_redis E) (r_set (ce_redis E) (cw_redis w)
      (rk_join_counts r) (str_int k)) (rk_join_counts r) SEVEN_DAYS"]
  by (auto simp: redis_icache_def cr_set_join_count_def run_simps laws)

lemma agrees_get_user_status:
  assumes "cache_agrees E w ch nm"
  shows "\<exists>v w'. ic_get_user_status (redis_icache E) u w = (Inr v, w') \<and> cache_agrees E w' ch nm"
proof -
  let ?w1 = "w\<lparr>cw_mem := snd (mc_get (cw_now w) (rk_user_status u) (cw_mem w))\<rparr>"
  have w1: "cache_agrees E ?w1 ch nm" by (rule agrees_mem_get [OF assms])
  show ?thesis
    using w1 agrees_other_mem [OF w1, of "rk_user_status u" "cw_now w"]
    by (auto simp: redis_icache_def cr_get_user_status_def run_simps exists_key_apart
        split: option.splits)
qed

lemma agrees_extend:
  "cache_agrees E w ch nm \<Longrightarrow> ch r = None \<Longrightarrow> cache_agrees E w (ch(r \<mapsto> x)) nm"
  "cache_agrees E w ch nm \<Longrightarrow> nm c = None \<Longrightarrow> cache_agrees E w ch (nm(c \<mapsto> n))"
  by (auto simp: cache_agrees_def entry_agrees_def) (metis option.distinct(1))+

end

text \<open>The Redis cache meets the contract that the database backend relies on.\<close>

sublocale cache_env \<subseteq> redis_cache: coherent_cache "redis_icache E" "cache_agrees E"
  by unfold_locales
    (simp_all add: agrees_get_channel_for_room agrees_set_channel_for_room agrees_get_channel_name
      agrees_set_channel_name agrees_get_channel_exists agrees_set_channel_exists
      agrees_set_join_count agrees_get_user_status agrees_extend)

end
