(* ===== verification/Base64.thy ===== *)
theory Base64
  imports Prelude
begin

section \<open>Base64 texts\<close>

text \<open>
  \<open>b64e\<close>, \<open>b64d\<close> and \<open>is_base64\<close> of \<^verbatim>\<open>dino/utils/__init__.py\<close>, with the functions of the Python
  standard library they call: \<open>base64.b64encode\<close>, \<open>base64.b64decode\<close> (which skips characters
  outside the alphabet and stops at complete padding) and the decoding of UTF-8. A text is the
  list of the bytes of its UTF-8 encoding, so that encoding is the identity and decoding is the
  check \<open>utf8_ok\<close>.
\<close>

subsection \<open>The standard library\<close>

definition b64_alphabet :: string where
  "b64_alphabet = ''ABCDEFGHIJKLMNOPQRSTUVWXYZabcdefghijklmnopqrstuvwxyz0123456789+/''"

definition b64_char :: "nat \<Rightarrow> char" where
  "b64_char n = b64_alphabet ! n"

definition b64_value :: "char \<Rightarrow> nat option" where
  "b64_value c =
     (let n = code_of c
      in if 65 \<le> n \<and> n \<le> 90 then Some (n - 65)
         else if 97 \<le> n \<and> n \<le> 122 then Some (n - 71)
         else if 48 \<le> n \<and> n \<le> 57 then Some (n + 4)
         else if n = 43 then Some 62
         else if n = 47 then Some 63
         else None)"

fun b64encode :: "nat list \<Rightarrow> string" where
  "b64encode [] = []"
| "b64encode [a] = [b64_char (a div 4), b64_char ((a mod 4) * 16), CHR ''='', CHR ''='']"
| "b64encode [a, b] =
     [b64_char (a div 4), b64_char ((a mod 4) * 16 + b div 16), b64_char ((b mod 16) * 4), CHR ''='']"
| "b64encode (a # b # c # r) =
     b64_char (a div 4) # b64_char ((a mod 4) * 16 + b div 16) #
     b64_char ((b mod 16) * 4 + c div 64) # b64_char (c mod 64) # b64encode r"

text \<open>The decoder: position in the group of four, bits left over, pads seen.\<close>

fun a2b :: "nat \<Rightarrow> nat \<Rightarrow> nat \<Rightarrow> string \<Rightarrow> nat list option" where
  "a2b q l p [] = (if q = 0 then Some [] else None)"
| "a2b q l p (c # s) =
     (if c = CHR ''=''
      then (if q \<ge> 2 then (if q + p + 1 \<ge> 4 then Some [] else a2b q l (p + 1) s) else a2b q l p s)
      else (case b64_value c of
          None \<Rightarrow> a2b q l p s
        | Some v \<Rightarrow>
            if q = 0 then a2b 1 v 0 s
            else if q = 1 then map_option ((#) (l * 4 + v div 16)) (a2b 2 (v mod 16) 0 s)
            else if q = 2 then map_option ((#) (l * 16 + v div 4)) (a2b 3 (v mod 4) 0 s)
            else map_option ((#) (l * 64 + v)) (a2b 0 0 0 s)))"

definition b64decode :: "string \<Rightarrow> nat list option" where
  "b64decode s = a2b 0 0 0 s"

fun utf8_ok :: "nat list \<Rightarrow> bool" where
  "utf8_ok [] = True"
| "utf8_ok (a # r) =
     (if a < 128 then utf8_ok r
      else if 194 \<le> a \<and> a < 224 then
        (case r of b # r' \<Rightarrow> 128 \<le> b \<and> b < 192 \<and> utf8_ok r' | _ \<Rightarrow> False)
      else if 224 \<le> a \<and> a < 240 then
        (case r of b # c # r' \<Rightarrow>
            (if a = 224 then 160 else 128) \<le> b \<and> b < (if a = 237 then 160 else 192) \<and>
            128 \<le> c \<and> c < 192 \<and> utf8_ok r' | _ \<Rightarrow> False)
      else if 240 \<le> a \<and> a < 245 then
        (case r of b # c # d # r' \<Rightarrow>
            (if a = 240 then 144 else 128) \<le> b \<and> b < (if a = 244 then 144 else 192) \<and>
            128 \<le> c \<and> c < 192 \<and> 128 \<le> d \<and> d < 192 \<and> utf8_ok r' | _ \<Rightarrow> False)
      else False)"

definition bytes_of :: "string \<Rightarrow> nat list" where
  "bytes_of s = map code_of s"

definition text_of_bytes :: "nat list \<Rightarrow> string option" where
  "text_of_bytes bs = (if utf8_ok bs then Some (map char_of bs) else None)"

subsection \<open>The functions of utils\<close>

definition b64d :: "string option \<Rightarrow> string" where
  "b64d s = (case s of
     None \<Rightarrow> []
   | Some t \<Rightarrow>
       if length (strip t) = 0 then []
       else (case b64decode (strip t) of
           None \<Rightarrow> []
         | Some bs \<Rightarrow> (case text_of_bytes bs of None \<Rightarrow> [] | Some u \<Rightarrow> u)))"

definition b64e :: "string option \<Rightarrow> string" where
  "b64e s = (case s of
     None \<Rightarrow> [] | Some t \<Rightarrow> if length (strip t) = 0 then [] else b64encode (bytes_of (strip t)))"

definition is_base64 :: "string option \<Rightarrow> bool" where
  "is_base64 s = (case s of
     None \<Rightarrow> False
   | Some t \<Rightarrow>
       if length (strip t) = 0 then False
       else (case b64decode t of None \<Rightarrow> False | Some bs \<Rightarrow> text_of_bytes bs \<noteq> None))"

subsection \<open>Round trip\<close>

lemma b64_table: "list_all (\<lambda>n. b64_value (b64_char n) = Some n \<and> b64_char n \<noteq> CHR ''='' \<and>
    \<not> is_space (b64_char n)) [0..<64]"
  by (simp add: upt_rec b64_char_def b64_alphabet_def b64_value_def is_space_def)

lemma b64_char_props:
  assumes "n < 64"
  shows "b64_value (b64_char n) = Some n" "b64_char n \<noteq> CHR ''=''" "\<not> is_space (b64_char n)"
  using b64_table assms by (auto simp: list_all_iff)

lemma nat_split_64:
  fixes a b c :: nat
  assumes "a < 256" "b < 256" "c < 256"
  shows "a div 4 < 64" "(a mod 4) * 16 + b div 16 < 64" "(b mod 16) * 4 + c div 64 < 64"
    "c mod 64 < 64" "(a mod 4) * 16 < 64" "(b mod 16) * 4 < 64"
proof -
  have *: "a div 4 < 64" "a mod 4 < 4" "b div 16 < 16" "b mod 16 < 16" "c div 64 < 4" "c mod 64 < 64"
    using assms by (simp_all add: less_mult_imp_div_less)
  then show "a div 4 < 64" "c mod 64 < 64" by blast+
  from * show "(a mod 4) * 16 + b div 16 < 64" "(b mod 16) * 4 + c div 64 < 64"
    "(a mod 4) * 16 < 64" "(b mod 16) * 4 < 64"
    by linarith+
qed

lemma a2b_char:
  assumes "n < 64"
  shows "a2b 0 l p (b64_char n # s) = a2b 1 n 0 s"
    "a2b 1 l p (b64_char n # s) = map_option ((#) (l * 4 + n div 16)) (a2b 2 (n mod 16) 0 s)"
    "a2b 2 l p (b64_char n # s) = map_option ((#) (l * 16 + n div 4)) (a2b 3 (n mod 4) 0 s)"
    "a2b 3 l p (b64_char n # s) = map_option ((#) (l * 64 + n)) (a2b 0 0 0 s)"
  using b64_char_props [OF assms] by simp_all

lemma a2b_pads: "a2b 2 l 0 ''=='' = Some []" "a2b 3 l 0 ''='' = Some []" "a2b 0 l p [] = Some []"
  by simp_all

lemma regroup_64:
  fixes a b c :: nat
  assumes "a < 256" "b < 256" "c < 256"
  shows "a div 4 * 4 + ((a mod 4) * 16 + b div 16) div 16 = a"
    "((a mod 4) * 16 + b div 16) mod 16 = b div 16"
    "(b div 16) * 16 + ((b mod 16) * 4 + c div 64) div 4 = b"
    "((b mod 16) * 4 + c div 64) mod 4 = c div 64"
    "(c div 64) * 64 + c mod 64 = c"
    "a div 4 * 4 + ((a mod 4) * 16) div 16 = a" "((a mod 4) * 16) mod 16 = 0"
    "(b div 16) * 16 + ((b mod 16) * 4) div 4 = b" "((b mod 16) * 4) mod 4 = 0"
proof -
  have *: "b div 16 < 16" "c div 64 < 4"
    using assms by (simp_all add: less_mult_imp_div_less)
  then show "a div 4 * 4 + ((a mod 4) * 16 + b div 16) div 16 = a"
    "((a mod 4) * 16 + b div 16) mod 16 = b div 16"
    "(b div 16) * 16 + ((b mod 16) * 4 + c div 64) div 4 = b"
    "((b mod 16) * 4 + c div 64) mod 4 = c div 64"
    by simp_all
qed simp_all

lemma a2b_encode: "list_all (\<lambda>b. b < 256) bs \<Longrightarrow> a2b 0 0 0 (b64encode bs) = Some bs"
proof (induction bs rule: b64encode.induct)
  case (2 a)
  then have a: "a < 256" by simp
  show ?case
    by (simp only: b64encode.simps a2b_char nat_split_64 [OF a a a] regroup_64 [OF a a a] a2b_pads
        option.map)
next
  case (3 a b)
  then have *: "a < 256" "b < 256" by simp_all
  show ?case
    by (simp only: b64encode.simps a2b_char nat_split_64 [OF * *(2)] regroup_64 [OF * *(2)] a2b_pads
        option.map)
next
  case (4 a b c r)
  then have *: "a < 256" "b < 256" "c < 256" by simp_all
  from 4 show ?case
    by (simp only: b64encode.simps a2b_char nat_split_64 [OF *] regroup_64 [OF *] option.map
        list.pred_inject)
qed simp

lemma bytes_of_bounded: "list_all (\<lambda>b. b < 256) (bytes_of s)"
  by (simp add: bytes_of_def list_all_iff)

lemma b64decode_encode: "b64decode (b64encode (bytes_of s)) = Some (bytes_of s)"
  by (simp add: b64decode_def a2b_encode bytes_of_bounded)

lemma chars_of_bytes: "map char_of (bytes_of s) = s"
  by (simp add: bytes_of_def comp_def)

lemma b64encode_no_space: "list_all (\<lambda>b. b < 256) bs \<Longrightarrow> c \<in> set (b64encode bs) \<Longrightarrow> \<not> is_space c"
  by (induction bs rule: b64encode.induct)
    (auto simp: b64_char_props nat_split_64, simp_all add: is_space_def)

lemma b64encode_chars:
  "list_all (\<lambda>b. b < 256) bs \<Longrightarrow> c \<in> set (b64encode bs) \<Longrightarrow> b64_value c \<noteq> None \<or> c = CHR ''=''"
  by (induction bs rule: b64encode.induct) (auto simp: b64_char_props nat_split_64)

lemma b64e_chars: "c \<in> set (b64e s) \<Longrightarrow> b64_value c \<noteq> None \<or> c = CHR ''=''"
  using b64encode_chars [OF bytes_of_bounded] by (auto simp: b64e_def split: option.splits if_splits)

lemma b64encode_Nil: "b64encode bs = [] \<longleftrightarrow> bs = []"
  by (cases bs rule: b64encode.cases) auto

lemma strip_no_space: "\<forall>c \<in> set s. \<not> is_space c \<Longrightarrow> strip s = s"
  by (rule strip_id) (auto simp: neq_Nil_conv)

lemma b64e_strip: "strip (b64e s) = b64e s"
  by (rule strip_no_space)
    (auto simp: b64e_def b64encode_no_space [OF bytes_of_bounded] split: option.splits if_splits)

lemma bytes_of_Nil: "bytes_of s = [] \<longleftrightarrow> s = []"
  by (simp add: bytes_of_def)

lemma b64d_b64e_text: "utf8_ok (bytes_of (strip t)) \<Longrightarrow> b64d (Some (b64e (Some t))) = strip t"
  using b64e_strip [of "Some t"]
  by (auto simp: b64d_def b64e_def b64decode_encode text_of_bytes_def chars_of_bytes b64encode_Nil
      bytes_of_Nil split: if_splits)

lemma is_base64_b64e_text:
  "utf8_ok (bytes_of (strip t)) \<Longrightarrow> is_base64 (Some (b64e (Some t))) \<longleftrightarrow> \<not> blank t"
  using b64e_strip [of "Some t"]
  by (auto simp: is_base64_def b64e_def b64decode_encode text_of_bytes_def b64encode_Nil blank_def
      bytes_of_Nil split: if_splits)

end
