(* ===== verification/Claims_Values.thy ===== *)
theory Claims_Values
  imports Cache_Facts Base64
begin

section \<open>Properties of values, keys and the cache\<close>

subsection \<open>Keys\<close>

text \<open>The Redis keys of the database backend are kept apart: for ids without a colon that are none
of the reserved words, two uses of the same key text are the same key with the same ids. A
message to one room can therefore never be stored under the members of another, and so on.\<close>

lemma keys_kept_apart:
  assumes "key_ok k" "key_ok k'"
  shows "key_text k = key_text k' \<longleftrightarrow> k = k'"
  using key_text_inj [OF assms] by blast

lemma keys_kept_apart_witness:
  "key_text (KUsersInRoom ''7'') = key_text (KRooms ''7'') \<longleftrightarrow> KUsersInRoom ''7'' = KRooms ''7''"
  by (rule keys_kept_apart) (simp_all add: room_id_ok_def channel_id_ok_def)

subsection \<open>Durations\<close>

text \<open>The duration validator accepts exactly an optional plus sign, digits with an optional sign
when the plus sign is there, and one of the units s, m, h, d.\<close>

lemma duration_accepted_forms:
  "duration_validator (Some d) = Inr () \<longleftrightarrow>
     (\<exists>n u. duration_unit u \<and>
        ((isdigit n \<and> d = n @ [u]) \<or> (is_digit (Some n) \<and> d = CHR ''+'' # n @ [u])))"
proof -
  have "duration_validator (Some d) = Inr () \<longleftrightarrow> duration_error (Some d) = None"
    by (simp add: duration_validator_def split: option.splits)
  also have "\<dots> \<longleftrightarrow> (\<exists>n u. duration_unit u \<and>
        ((isdigit n \<and> d = n @ [u]) \<or> (is_digit (Some n) \<and> d = CHR ''+'' # n @ [u])))"
  proof
    assume "\<exists>n u. duration_unit u \<and>
      ((isdigit n \<and> d = n @ [u]) \<or> (is_digit (Some n) \<and> d = CHR ''+'' # n @ [u]))"
    then obtain n u where u: "duration_unit u"
      and "(isdigit n \<and> d = n @ [u]) \<or> (is_digit (Some n) \<and> d = CHR ''+'' # n @ [u])" by blast
    then show "duration_error (Some d) = None"
      by (elim disjE conjE) (simp_all only: duration_error_plain duration_error_plus)
  qed (rule duration_error_None_form)
  finally show ?thesis .
qed

definition unit_seconds :: "char \<Rightarrow> int" where
  "unit_seconds u = (if u = CHR ''d'' then 86400 else if u = CHR ''h'' then 3600
     else if u = CHR ''m'' then 60 else 1)"

text \<open>A ban of n units, with or without a plus sign, ends exactly n times the seconds of the unit
after now, or raises OverflowError when that is past the last representable date; never another
error.\<close>

lemma ban_end_exact:
  assumes "isdigit ds" "duration_unit u" "pre = [] \<or> pre = ''+''"
  shows "ban_duration_to_datetime now (Some (pre @ ds @ [u])) =
    (let e = now + int (digits_val 0 ds) * unit_seconds u * micro
     in if e > max_datetime then Inl OverflowError else Inr e)"
proof -
  have e: "duration_error (Some (pre @ ds @ [u])) = None"
    using assms duration_error_plain [of ds u] duration_error_plus [of ds u] is_digit_isdigit by auto
  have s: "ban_seconds (pre @ ds @ [u]) = Inr (int (digits_val 0 ds) * unit_seconds u)"
    using assms ban_seconds_digits [of ds] ban_seconds_plus [of ds u]
    by (auto simp: unit_seconds_def)
  show ?thesis
    by (simp add: ban_duration_to_datetime_def duration_validator_def e s Let_def)
qed

lemma ban_end_exact_witness:
  "ban_duration_to_datetime 0 (Some ''+90m'') = Inr (5400 * micro)"
  using ban_end_exact [of "''90''" "CHR ''m''" "''+''" 0]
  by (simp add: isdigit_def is_digit_char_def unit_seconds_def digit_val_def micro_def max_datetime_def)

text \<open>A duration with two signs passes the validator but gives a ban that ends at once: the
conversion tests the whole number text, sign included, and ignores what it does not recognise.\<close>

lemma two_signs_no_ban:
  assumes "isdigit ds" "duration_unit u" "c \<in> {CHR ''-'', CHR ''+''}" "now \<le> max_datetime"
  shows "duration_validator (Some (CHR ''+'' # c # ds @ [u])) = Inr () \<and>
    ban_duration_to_datetime now (Some (CHR ''+'' # c # ds @ [u])) = Inr now"
proof -
  have "is_digit (Some (c # ds))" using assms(1,3) by (auto simp: is_digit_Some)
  then have e: "duration_error (Some (CHR ''+'' # c # ds @ [u])) = None"
    using duration_error_plus [of "c # ds" u] assms(2) by simp
  with assms(4) show ?thesis
    using ban_seconds_two_signs [OF assms(3), of ds u]
    by (simp add: ban_duration_to_datetime_def duration_validator_def)
qed

lemma two_signs_no_ban_witness:
  "duration_validator (Some ''++5m'') = Inr () \<and> ban_duration_to_datetime 7 (Some ''++5m'') = Inr 7"
  using two_signs_no_ban [of "''5''" "CHR ''m''" "CHR ''+''" 7]
  by (simp add: isdigit_def is_digit_char_def max_datetime_def)

text \<open>The timestamp of an accepted ban, read back the way the ban checks read it (a float of the
text, then a local date), is the end of the ban up to less than one second, never later.\<close>

lemma ban_timestamp_read_back:
  assumes "ban_duration_to_timestamp tz now d = Inr t" "0 \<le> now - tz * micro"
    and "ban_duration_to_datetime now d = Inr e" "now \<le> e"
  shows "\<exists>us. py_float t = Some us \<and> from_timestamp tz us \<le> e \<and> e < from_timestamp tz us + micro"
  using assms datetime_roundtrip [of tz e] by (auto simp: ban_duration_to_timestamp_def)

lemma str_60: "str_int 60 = ''60''"
  by code_simp

lemma ban_timestamp_read_back_witness:
  "\<exists>us. py_float ''60'' = Some us \<and> from_timestamp 0 us \<le> 60 * micro + 5 \<and>
    60 * micro + 5 < from_timestamp 0 us + micro"
proof (rule ban_timestamp_read_back [of 0 5 "Some ''1m''"])
  show e: "ban_duration_to_datetime 5 (Some ''1m'') = Inr (60 * micro + 5)"
    by (simp add: ban_duration_to_datetime_def duration_validator_def duration_error_def ban_seconds_def
        is_digit_def isdigit_def is_digit_char_def py_int_def strip_def is_space_def unsigned_val_def
        digit_val_def micro_def max_datetime_def)
  show "ban_duration_to_timestamp 0 5 (Some ''1m'') = Inr ''60''"
    using str_60 by (simp add: ban_duration_to_timestamp_def e datetime_to_timestamp_def trunc_seconds_def
        micro_def naive_to_timestamp_def)
qed (simp_all add: micro_def)

subsection \<open>Base64\<close>

text \<open>Encoding a text and decoding it again gives the text without surrounding white space, and
the encoded form of any text that is not blank passes the base64 check.\<close>

lemma base64_round_trip:
  assumes "utf8_ok (bytes_of (strip t))"
  shows "b64d (Some (b64e (Some t))) = strip t \<and> (is_base64 (Some (b64e (Some t))) \<longleftrightarrow> \<not> blank t)"
  using b64d_b64e_text [OF assms] is_base64_b64e_text [OF assms] by auto

lemma base64_round_trip_witness:
  "b64d (Some (b64e (Some '' hi ''))) = ''hi'' \<and> is_base64 (Some (b64e (Some '' hi '')))"
  using base64_round_trip [of "'' hi ''"] by (simp add: strip_def is_space_def bytes_of_def blank_def)

subsection \<open>The in-process cache\<close>

text \<open>A value put into the in-process dictionary is what a lookup gives until its time to live is
over, and nothing after; other keys are not affected.\<close>

lemma memory_cache_lookup:
  "fst (mc_get t k (mc_set now key v ttl vals)) =
     (if k = key then (if t \<le> now + ttl * micro then v else None) else fst (mc_get t k vals))"
  by (auto simp: mc_get_view mc_view_set)

text \<open>The clean-up deletes every entry that expires within 31 seconds, also those that are still
valid, and keeps all others as they are; the comment in the source says that such entries are
skipped.\<close>

lemma cleanup_deletes_soon_expiring:
  assumes "mc_ok vals"
  shows "map_of (mc_cleanup now vals) k = (case map_of vals k of
    None \<Rightarrow> None | Some (e, v) \<Rightarrow> if e < now + 31 * micro then None else Some (e, v))"
  using map_of_cleanup [OF assms] by simp

lemma cleanup_deletes_soon_expiring_witness:
  "map_of (mc_cleanup 0 [(''k'', 30 * micro, Some (1 :: int))]) ''k'' = None \<and>
   mc_view 0 [(''k'', 30 * micro, Some (1 :: int))] ''k'' = Some 1"
  using cleanup_deletes_soon_expiring [of "[(''k'', 30 * micro, Some (1 :: int))]" 0 "''k''"]
  by (simp add: mc_ok_def mc_view_def micro_def)

subsection \<open>The Redis cache\<close>

lemma split_room_info:
  "split_max (CHR ''|'') 4 (room_info_text i) = [str_int (ri_sort_order i),
     bool_text (default_to True (ri_ephemeral i)), bool_text (default_to False (ri_admin i)),
     str_int (default_to 0 (ri_users i)), ri_name i]"
proof -
  have four: "4 = Suc (Suc (Suc (Suc 0)))" by simp
  have "CHR ''|'' \<notin> set (bool_text b)" for b by (simp add: bool_text_def)
  then show ?thesis
    unfolding four by (simp add: room_info_text_def split_max_append_sep del: split_max.simps(2))
qed

lemma str_int_neq_Nil [simp]: "str_int i \<noteq> []"
  using py_int_str_int [of i] by (auto simp: py_int_def strip_def)

lemma lower_bool_text: "lower (bool_text b) = bool_text b"
  by (simp add: bool_text_def lower_def lower_char_def)

text \<open>The description of a room that the cache writes to Redis is read back unchanged, whatever
the name of the room, with the defaults filled in: ephemeral, not an admin room, no users.\<close>

lemma room_info_round_trip:
  "parse_room_info (room_info_text i) = Inr (i\<lparr>ri_ephemeral := Some (default_to True (ri_ephemeral i)),
     ri_admin := Some (default_to False (ri_admin i)), ri_users := Some (default_to 0 (ri_users i))\<rparr>)"
  by (simp add: parse_room_info_def split_room_info lower_bool_text) (simp add: bool_text_def)

text \<open>The short description always says that the room is ephemeral, also for a permanent room.\<close>

lemma short_room_info_loses_permanence:
  "parse_room_info_short (room_info_text_short name e) = Inr (name, True)"
proof -
  have "CHR ''|'' \<notin> set (bool_text True)" by (simp add: bool_text_def)
  then show ?thesis
    by (simp add: parse_room_info_short_def room_info_text_short_def One_nat_def split_max_append_sep
        lower_bool_text del: split_max.simps(2)) (simp add: bool_text_def)
qed

text \<open>The cache never answers with its black list from Redis: after the entry in process has
expired or on another node, the answer is a miss even though the words are stored in Redis.\<close>

lemma black_list_never_from_redis:
  assumes "mc_view (cw_now w) (cw_mem w) rk_black_list = None"
  shows "fst (cr_get_black_list E w) = Inr None"
  using assms by (simp add: cr_get_black_list_def run_simps)

lemma black_list_never_from_redis_witness:
  "fst (cr_get_black_list memory_cenv
     \<lparr>cw_redis = empty_store\<lparr>st_sets := (\<lambda>_. [''word''])\<rparr>, cw_mem = [], cw_now = 0\<rparr>) = Inr None"
  by (rule black_list_never_from_redis) (simp add: mc_view_def)

end
