(* ===== verification/Db_Core.thy ===== *)
theory Db_Core
  imports Cache_Iface
begin

section \<open>The Redis database: channels, rooms and members\<close>

text \<open>
  \<open>DatabaseRedis\<close> of \<^verbatim>\<open>dino/db/redis.py\<close>, first part: the registry of channels and rooms and the
  members of rooms. A state is the state of the Redis server and that of the cache; a method is
  an operation on it. The environment gives the Redis client, the cache (\<open>env.cache\<close>), the order
  in which Python iterates over a set of strings, and the offset of the local time zone. Redis
  answers with bytes that the code decodes, which is the identity here. A dictionary that a
  method builds is an association list in the order of its construction. A random identifier
  (\<open>uuid4\<close>) is an argument.
\<close>

record ('s, 'c) dbw =
  db_redis :: 's
  db_cache :: 'c

record ('s, 'c) denv =
  de_redis :: "'s redis"
  de_cache :: "'c icache"
  de_order :: "string list \<Rightarrow> string list"
  de_tz :: int

subsection \<open>Access to the parts of the state\<close>

definition d_ask :: "('s \<Rightarrow> 'a) \<Rightarrow> (('s, 'c) dbw, 'a) op" where
  "d_ask f = gets (\<lambda>w. f (db_redis w))"

definition d_on :: "('s \<Rightarrow> 's) \<Rightarrow> (('s, 'c) dbw, unit) op" where
  "d_on f = modify (\<lambda>w. w\<lparr>db_redis := f (db_redis w)\<rparr>)"

text \<open>A call of a method of the cache.\<close>

definition via_cache :: "('c, 'a) op \<Rightarrow> (('s, 'c) dbw, 'a) op" where
  "via_cache m w = (case m (db_cache w) of (r, c) \<Rightarrow> (r, w\<lparr>db_cache := c\<rparr>))"

definition d_get :: "('s, 'c) denv \<Rightarrow> string \<Rightarrow> (('s, 'c) dbw, string option) op" where
  "d_get E k = d_ask (\<lambda>s. r_get (de_redis E) s k)"

definition d_set :: "('s, 'c) denv \<Rightarrow> string \<Rightarrow> string \<Rightarrow> (('s, 'c) dbw, unit) op" where
  "d_set E k v = d_on (\<lambda>s. r_set (de_redis E) s k v)"

definition d_delete :: "('s, 'c) denv \<Rightarrow> string \<Rightarrow> (('s, 'c) dbw, unit) op" where
  "d_delete E k = d_on (\<lambda>s. r_delete (de_redis E) s k)"

definition d_hget :: "('s, 'c) denv \<Rightarrow> string \<Rightarrow> string \<Rightarrow> (('s, 'c) dbw, string option) op" where
  "d_hget E k f = d_ask (\<lambda>s. r_hget (de_redis E) s k f)"

definition d_hset :: "('s, 'c) denv \<Rightarrow> string \<Rightarrow> string \<Rightarrow> string \<Rightarrow> (('s, 'c) dbw, unit) op" where
  "d_hset E k f v = d_on (\<lambda>s. r_hset (de_redis E) s k f v)"

definition d_hmset :: "('s, 'c) denv \<Rightarrow> string \<Rightarrow> (string \<times> string) list \<Rightarrow> (('s, 'c) dbw, unit) op" where
  "d_hmset E k m = d_on (\<lambda>s. r_hmset (de_redis E) s k m)"

definition d_hdel :: "('s, 'c) denv \<Rightarrow> string \<Rightarrow> string \<Rightarrow> (('s, 'c) dbw, unit) op" where
  "d_hdel E k f = d_on (\<lambda>s. r_hdel (de_redis E) s k f)"

definition d_hexists :: "('s, 'c) denv \<Rightarrow> string \<Rightarrow> string \<Rightarrow> (('s, 'c) dbw, bool) op" where
  "d_hexists E k f = d_ask (\<lambda>s. r_hexists (de_redis E) s k f)"

definition d_hgetall :: "('s, 'c) denv \<Rightarrow> string \<Rightarrow> (('s, 'c) dbw, (string \<times> string) list) op" where
  "d_hgetall E k = d_ask (\<lambda>s. r_hgetall (de_redis E) s k)"

definition d_hvals :: "('s, 'c) denv \<Rightarrow> string \<Rightarrow> (('s, 'c) dbw, string list) op" where
  "d_hvals E k = d_ask (\<lambda>s. r_hvals (de_redis E) s k)"

definition d_sadd :: "('s, 'c) denv \<Rightarrow> string \<Rightarrow> string \<Rightarrow> (('s, 'c) dbw, unit) op" where
  "d_sadd E k x = d_on (\<lambda>s. r_sadd (de_redis E) s k x)"

definition d_srem :: "('s, 'c) denv \<Rightarrow> string \<Rightarrow> string \<Rightarrow> (('s, 'c) dbw, unit) op" where
  "d_srem E k x = d_on (\<lambda>s. r_srem (de_redis E) s k x)"

definition d_sismember :: "('s, 'c) denv \<Rightarrow> string \<Rightarrow> string \<Rightarrow> (('s, 'c) dbw, bool) op" where
  "d_sismember E k x = d_ask (\<lambda>s. r_sismember (de_redis E) s k x)"

definition d_smembers :: "('s, 'c) denv \<Rightarrow> string \<Rightarrow> (('s, 'c) dbw, string list) op" where
  "d_smembers E k = d_ask (\<lambda>s. r_smembers (de_redis E) s k)"

definition d_incr :: "('s, 'c) denv \<Rightarrow> string \<Rightarrow> (('s, 'c) dbw, unit) op" where
  "d_incr E k = d_on (\<lambda>s. r_incr (de_redis E) s k)"

lemmas d_defs = d_ask_def d_on_def d_get_def d_set_def d_delete_def d_hget_def d_hset_def
  d_hmset_def d_hdel_def d_hexists_def d_hgetall_def d_hvals_def d_sadd_def d_srem_def
  d_sismember_def d_smembers_def d_incr_def

subsection \<open>Names\<close>

definition dr_get_room_name :: "('s, 'c) denv \<Rightarrow> string \<Rightarrow> (('s, 'c) dbw, string) op" where
  "dr_get_room_name E room_id =
     bindM (d_hget E rk_room_name_for_id room_id) (\<lambda>room_name.
     case room_name of None \<Rightarrow> throw (NoSuchRoomException room_id) | Some n \<Rightarrow> ret n)"

definition dr_get_channel_name :: "('s, 'c) denv \<Rightarrow> string \<Rightarrow> (('s, 'c) dbw, string) op" where
  "dr_get_channel_name E channel_id =
     bindM (via_cache (ic_get_channel_name (de_cache E) channel_id)) (\<lambda>channel_name.
     case channel_name of
       Some n \<Rightarrow> ret n
     | None \<Rightarrow>
         bindM (d_hget E rk_channels channel_id) (\<lambda>channel_name.
         case channel_name of
           None \<Rightarrow> throw (NoSuchChannelException channel_id)
         | Some n \<Rightarrow> thenM (via_cache (ic_set_channel_name (de_cache E) channel_id n)) (ret n)))"

definition dr_get_user_name :: "('s, 'c) denv \<Rightarrow> string \<Rightarrow> (('s, 'c) dbw, string) op" where
  "dr_get_user_name E user_id =
     bindM (d_hget E rk_user_names user_id) (\<lambda>name.
     case name of None \<Rightarrow> throw (NoSuchUserException user_id) | Some n \<Rightarrow> ret n)"

definition dr_channel_for_room :: "('s, 'c) denv \<Rightarrow> string option \<Rightarrow> (('s, 'c) dbw, string) op" where
  "dr_channel_for_room E room_id =
     (if none_or_blank room_id then throw (NoSuchRoomException (fmt room_id))
      else (let room_id = the room_id in
        bindM (via_cache (ic_get_channel_for_room (de_cache E) room_id)) (\<lambda>value.
        case value of
          Some c \<Rightarrow> ret c
        | None \<Rightarrow>
            thenM (dr_get_room_name E room_id)
            (bindM (d_hget E rk_channel_for_rooms room_id) (\<lambda>channel_id.
             case channel_id of
               None \<Rightarrow> throw (NoChannelFoundException room_id)
             | Some c \<Rightarrow> thenM (via_cache (ic_set_channel_for_room (de_cache E) c room_id)) (ret c))))))"

subsection \<open>Existence\<close>

definition dr_room_exists :: "('s, 'c) denv \<Rightarrow> string \<Rightarrow> string \<Rightarrow> (('s, 'c) dbw, bool) op" where
  "dr_room_exists E channel_id room_id = d_hexists E (rk_rooms channel_id) room_id"

definition dr_channel_exists :: "('s, 'c) denv \<Rightarrow> string option \<Rightarrow> (('s, 'c) dbw, bool) op" where
  "dr_channel_exists E channel_id = (case channel_id of
     None \<Rightarrow> ret False
   | Some c \<Rightarrow> if c = '''' then ret False else d_hexists E rk_channels c)"

definition dr_room_name_exists :: "('s, 'c) denv \<Rightarrow> string \<Rightarrow> string \<Rightarrow> (('s, 'c) dbw, bool) op" where
  "dr_room_name_exists E channel_id room_name =
     bindM (d_hvals E (rk_rooms channel_id)) (\<lambda>names. ret (lower room_name \<in> set (map lower names)))"

definition dr_channel_name_exists :: "('s, 'c) denv \<Rightarrow> string option \<Rightarrow> (('s, 'c) dbw, bool) op" where
  "dr_channel_name_exists E channel_name =
     bindM (d_hvals E rk_channels) (\<lambda>names.
     case channel_name of None \<Rightarrow> throw AttributeError
     | Some n \<Rightarrow> ret (lower n \<in> set (map lower names)))"

text \<open>The guard at the start of \<open>create_room\<close>, \<open>rename_room\<close> and \<open>remove_room\<close>.\<close>

definition dr_require_channel :: "('s, 'c) denv \<Rightarrow> string \<Rightarrow> (('s, 'c) dbw, unit) op" where
  "dr_require_channel E channel_id =
     bindM (via_cache (ic_get_channel_exists (de_cache E) channel_id)) (\<lambda>cached.
     if cached = None
     then bindM (dr_channel_exists E (Some channel_id)) (\<lambda>ok.
          if \<not> ok then throw (NoSuchChannelException channel_id) else ret ())
     else ret ())"

subsection \<open>Persistence of rooms\<close>

definition dr_set_ephemeral_room :: "('s, 'c) denv \<Rightarrow> string \<Rightarrow> (('s, 'c) dbw, unit) op" where
  "dr_set_ephemeral_room E room_id = d_srem E rk_non_ephemeral_rooms room_id"

definition dr_unset_ephemeral_room :: "('s, 'c) denv \<Rightarrow> string \<Rightarrow> (('s, 'c) dbw, unit) op" where
  "dr_unset_ephemeral_room E room_id = d_sadd E rk_non_ephemeral_rooms room_id"

definition dr_is_room_ephemeral :: "('s, 'c) denv \<Rightarrow> string \<Rightarrow> (('s, 'c) dbw, bool) op" where
  "dr_is_room_ephemeral E room_id =
     bindM (d_sismember E rk_non_ephemeral_rooms room_id) (\<lambda>b. ret (\<not> b))"

definition dr_add_default_room :: "('s, 'c) denv \<Rightarrow> string \<Rightarrow> (('s, 'c) dbw, unit) op" where
  "dr_add_default_room E room_id = d_sadd E rk_default_rooms room_id"

definition dr_remove_default_room :: "('s, 'c) denv \<Rightarrow> string \<Rightarrow> (('s, 'c) dbw, unit) op" where
  "dr_remove_default_room E room_id = d_srem E rk_default_rooms room_id"

text \<open>The result of \<open>smembers\<close> is not returned.\<close>

definition dr_get_default_rooms :: "('s, 'c) denv \<Rightarrow> (('s, 'c) dbw, string list option) op" where
  "dr_get_default_rooms E = thenM (d_smembers E rk_default_rooms) (ret None)"

subsection \<open>Members\<close>

definition dr_room_contains :: "('s, 'c) denv \<Rightarrow> string \<Rightarrow> string \<Rightarrow> (('s, 'c) dbw, bool) op" where
  "dr_room_contains E room_id user_id =
     thenM (dr_get_room_name E room_id)
     (thenM (dr_channel_for_room E (Some room_id))
            (d_hexists E (rk_users_in_room room_id) user_id))"

definition dr_users_in_room :: "('s, 'c) denv \<Rightarrow> string \<Rightarrow> (('s, 'c) dbw, (string \<times> string) list) op" where
  "dr_users_in_room E room_id =
     bindM (catchM (thenM (dr_get_room_name E room_id) (ret True))
              (\<lambda>e. case e of NoSuchRoomException _ \<Rightarrow> Some (ret False) | _ \<Rightarrow> None)) (\<lambda>known.
     if \<not> known then ret []
     else thenM (dr_channel_for_room E (Some room_id)) (d_hgetall E (rk_users_in_room room_id)))"

definition dr_join_room ::
  "('s, 'c) denv \<Rightarrow> string \<Rightarrow> string \<Rightarrow> string \<Rightarrow> string \<Rightarrow> (('s, 'c) dbw, unit) op" where
  "dr_join_room E user_id user_name room_id room_name =
     thenM (d_hset E (rk_rooms_for_user user_id) room_id room_name)
           (d_hset E (rk_users_in_room room_id) user_id user_name)"

definition dr_leave_room :: "('s, 'c) denv \<Rightarrow> string \<Rightarrow> string \<Rightarrow> (('s, 'c) dbw, unit) op" where
  "dr_leave_room E user_id room_id =
     thenM (dr_get_room_name E room_id)
     (thenM (d_hdel E (rk_users_in_room room_id) user_id)
            (d_hdel E (rk_rooms_for_user user_id) room_id))"

definition dr_kick_user :: "('s, 'c) denv \<Rightarrow> string \<Rightarrow> string \<Rightarrow> (('s, 'c) dbw, unit) op" where
  "dr_kick_user E room_id user_id = dr_leave_room E user_id room_id"

definition dr_rooms_for_user :: "('s, 'c) denv \<Rightarrow> string \<Rightarrow> (('s, 'c) dbw, (string \<times> string) list) op" where
  "dr_rooms_for_user E user_id = d_hgetall E (rk_rooms_for_user user_id)"

definition dr_remove_current_rooms_for_user :: "('s, 'c) denv \<Rightarrow> string \<Rightarrow> (('s, 'c) dbw, unit) op" where
  "dr_remove_current_rooms_for_user E user_id = d_delete E (rk_rooms_for_user user_id)"

subsection \<open>Lists of channels and rooms\<close>

definition dr_get_channels ::
  "('s, 'c) denv \<Rightarrow> (('s, 'c) dbw, (string \<times> string \<times> int \<times> string) list) op" where
  "dr_get_channels E =
     bindM (d_hgetall E rk_channels) (\<lambda>all.
     ret (map (\<lambda>(channel_id, channel_name). (channel_id, channel_name, 1, ''normal'')) all))"

record db_room =
  dbr_name :: string
  dbr_sort_order :: int
  dbr_ephemeral :: bool
  dbr_users :: nat

definition dr_rooms_for_channel ::
  "('s, 'c) denv \<Rightarrow> string \<Rightarrow> (('s, 'c) dbw, (string \<times> db_room) list) op" where
  "dr_rooms_for_channel E channel_id =
     bindM (d_hgetall E (rk_rooms channel_id)) (\<lambda>all_rooms.
     mapM (\<lambda>(room_id, room_name).
       bindM (dr_is_room_ephemeral E room_id) (\<lambda>ephemeral.
       bindM (dr_users_in_room E room_id) (\<lambda>users.
       ret (room_id, \<lparr>dbr_name = room_name, dbr_sort_order = 1, dbr_ephemeral = ephemeral,
                      dbr_users = length users\<rparr>)))) all_rooms)"

definition dr_rooms_for_channel_without_info ::
  "('s, 'c) denv \<Rightarrow> string \<Rightarrow> (('s, 'c) dbw, (string \<times> string \<times> bool) list) op" where
  "dr_rooms_for_channel_without_info E channel_id =
     bindM (dr_rooms_for_channel E channel_id) (\<lambda>rooms.
     ret (map (\<lambda>(room_id, room). (room_id, dbr_name room, dbr_ephemeral room)) rooms))"

subsection \<open>Renaming and removing\<close>

definition dr_rename_channel :: "('s, 'c) denv \<Rightarrow> string \<Rightarrow> string option \<Rightarrow> (('s, 'c) dbw, unit) op" where
  "dr_rename_channel E channel_id channel_name =
     thenM (dr_get_channel_name E channel_id)
     (bindM (dr_channel_name_exists E channel_name) (\<lambda>taken.
      if taken then throw (ChannelNameExistsException (fmt channel_name))
      else if none_or_blank channel_name then throw (EmptyChannelNameException channel_id)
      else thenM (d_hset E rk_channels channel_id (the channel_name))
                 (via_cache (ic_set_channel_name (de_cache E) channel_id (the channel_name)))))"

definition dr_rename_room :: "('s, 'c) denv \<Rightarrow> string \<Rightarrow> string \<Rightarrow> string option \<Rightarrow> (('s, 'c) dbw, unit) op" where
  "dr_rename_room E channel_id room_id room_name =
     thenM (dr_require_channel E channel_id)
     (if none_or_blank room_name then throw (EmptyRoomNameException channel_id)
      else (let name = the room_name in
        bindM (dr_room_exists E channel_id room_id) (\<lambda>known.
        if \<not> known then throw (NoSuchRoomException room_id)
        else bindM (dr_room_name_exists E channel_id name) (\<lambda>taken.
          if taken then throw (RoomNameExistsForChannelException channel_id name)
          else thenM (d_hset E rk_room_name_for_id room_id name)
                     (d_hset E (rk_rooms channel_id) room_id name)))))"

definition dr_remove_room :: "('s, 'c) denv \<Rightarrow> string \<Rightarrow> string \<Rightarrow> (('s, 'c) dbw, unit) op" where
  "dr_remove_room E channel_id room_id =
     bindM (dr_room_exists E channel_id room_id) (\<lambda>known.
     if \<not> known then throw (NoSuchRoomException room_id)
     else thenM (dr_require_channel E channel_id)
       (thenM (d_srem E rk_non_ephemeral_rooms room_id)
       (thenM (d_hdel E rk_room_name_for_id room_id)
       (thenM (d_delete E (rk_room_roles room_id))
       (thenM (d_hdel E (rk_rooms channel_id) room_id)
              (d_hdel E rk_channel_for_rooms room_id))))))"

text \<open>
  \<open>remove_channel\<close> deletes the name, then calls \<open>hdel\<close> with a key and no field, which the server
  refuses.
\<close>

definition dr_remove_channel :: "('s, 'c) denv \<Rightarrow> string \<Rightarrow> (('s, 'c) dbw, unit) op" where
  "dr_remove_channel E channel_id = thenM (d_hdel E rk_channels channel_id) (throw RedisError)"

definition dr_get_or_create_default_channel ::
  "('s, 'c) denv \<Rightarrow> string \<Rightarrow> string \<Rightarrow> (('s, 'c) dbw, string) op" where
  "dr_get_or_create_default_channel E default_channel_name new_id =
     bindM (d_get E rk_default_channel_id) (\<lambda>channel_id.
     case channel_id of
       Some c \<Rightarrow> ret c
     | None \<Rightarrow> thenM (d_set E rk_default_channel_id new_id)
                (thenM (d_hset E rk_channels new_id default_channel_name) (ret new_id)))"

subsection \<open>Join counts\<close>

text \<open>\<open>int(float(str(value, 'utf-8')))\<close>.\<close>

definition int_of_float_text :: "string option \<Rightarrow> exc + int" where
  "int_of_float_text v = (case v of
     None \<Rightarrow> Inl TypeError
   | Some s \<Rightarrow> (case py_float s of None \<Rightarrow> Inl ValueError
       | Some f \<Rightarrow> Inr (if f < 0 then - ((- f) div micro) else f div micro)))"

definition dr_increase_join_count :: "('s, 'c) denv \<Rightarrow> string \<Rightarrow> (('s, 'c) dbw, unit) op" where
  "dr_increase_join_count E room_id =
     thenM (d_incr E (rk_join_counts room_id))
     (bindM (d_get E (rk_join_counts room_id)) (\<lambda>v.
      bindM (lift_result (int_of_float_text v)) (\<lambda>current_value.
      via_cache (ic_set_join_count (de_cache E) room_id current_value))))"

end
