(* ===== verification/Db_Roles.thy ===== *)
theory Db_Roles
  imports Db_Core
begin

section \<open>The Redis database: roles, creation of channels and rooms\<close>

text \<open>
  Second part of \<open>DatabaseRedis\<close>: the roles of users in rooms, in channels and globally, kept as
  comma separated texts in hashes, and the creation of channels and rooms, which gives the
  creator a role.
\<close>

subsection \<open>Texts of roles\<close>

text \<open>\<open>roles = set(str(roles, 'utf-8').split(','))\<close> with one role added or removed.\<close>

definition add_role_text :: "(string list \<Rightarrow> string list) \<Rightarrow> string \<Rightarrow> string option \<Rightarrow> string" where
  "add_role_text order role roles = (case roles of
     None \<Rightarrow> role
   | Some s \<Rightarrow> join_on (CHR '','') (order (List.insert role (remdups (split_on (CHR '','') s)))))"

definition remove_role_text :: "(string list \<Rightarrow> string list) \<Rightarrow> string \<Rightarrow> string \<Rightarrow> string" where
  "remove_role_text order role roles =
     join_on (CHR '','') (order (remove1 role (remdups (split_on (CHR '','') roles))))"

definition role_in_text :: "string \<Rightarrow> string option \<Rightarrow> bool" where
  "role_in_text role roles = (case roles of None \<Rightarrow> False | Some s \<Rightarrow> role \<in> set (split_on (CHR '','') s))"

subsection \<open>Asking\<close>

definition dr_has_role_in_room ::
  "('s, 'c) denv \<Rightarrow> string \<Rightarrow> string \<Rightarrow> string option \<Rightarrow> (('s, 'c) dbw, bool) op" where
  "dr_has_role_in_room E role room_id user_id = (case user_id of
     None \<Rightarrow> ret False
   | Some u \<Rightarrow> bindM (d_hget E (rk_room_roles room_id) u) (\<lambda>roles. ret (role_in_text role roles)))"

definition dr_has_role_in_channel ::
  "('s, 'c) denv \<Rightarrow> string \<Rightarrow> string \<Rightarrow> string option \<Rightarrow> (('s, 'c) dbw, bool) op" where
  "dr_has_role_in_channel E role channel_id user_id = (case user_id of
     None \<Rightarrow> ret False
   | Some u \<Rightarrow> bindM (d_hget E (rk_channel_roles channel_id) u) (\<lambda>roles. ret (role_in_text role roles)))"

definition dr_has_global_role ::
  "('s, 'c) denv \<Rightarrow> string option \<Rightarrow> string \<Rightarrow> (('s, 'c) dbw, bool) op" where
  "dr_has_global_role E user_id role = (case user_id of
     None \<Rightarrow> ret False
   | Some u \<Rightarrow> bindM (d_hget E rk_global_roles u) (\<lambda>roles. ret (role_in_text role roles)))"

definition dr_is_super_user :: "('s, 'c) denv \<Rightarrow> string option \<Rightarrow> (('s, 'c) dbw, bool) op" where
  "dr_is_super_user E user_id = dr_has_global_role E user_id role_super_user"

definition dr_is_admin :: "('s, 'c) denv \<Rightarrow> string \<Rightarrow> string option \<Rightarrow> (('s, 'c) dbw, bool) op" where
  "dr_is_admin E channel_id user_id = dr_has_role_in_channel E role_admin channel_id user_id"

definition dr_is_moderator :: "('s, 'c) denv \<Rightarrow> string \<Rightarrow> string option \<Rightarrow> (('s, 'c) dbw, bool) op" where
  "dr_is_moderator E room_id user_id = dr_has_role_in_room E role_moderator room_id user_id"

text \<open>The source passes the role as the user; the user, here as a text, becomes the role.\<close>

definition dr_is_global_moderator :: "('s, 'c) denv \<Rightarrow> string option \<Rightarrow> (('s, 'c) dbw, bool) op" where
  "dr_is_global_moderator E user_id = (case user_id of
     None \<Rightarrow> bindM (d_hget E rk_global_roles role_global_moderator) (\<lambda>_. ret False)
   | Some u \<Rightarrow> dr_has_global_role E (Some role_global_moderator) u)"

definition dr_is_owner :: "('s, 'c) denv \<Rightarrow> string \<Rightarrow> string option \<Rightarrow> (('s, 'c) dbw, bool) op" where
  "dr_is_owner E room_id user_id = dr_has_role_in_room E role_owner room_id user_id"

definition dr_is_owner_channel :: "('s, 'c) denv \<Rightarrow> string \<Rightarrow> string option \<Rightarrow> (('s, 'c) dbw, bool) op" where
  "dr_is_owner_channel E channel_id user_id = dr_has_role_in_channel E role_owner channel_id user_id"

subsection \<open>Adding and removing\<close>

definition dr_update_roles ::
  "('s, 'c) denv \<Rightarrow> string \<Rightarrow> string \<Rightarrow> string \<Rightarrow> (('s, 'c) dbw, unit) op" where
  "dr_update_roles E key user_id role =
     bindM (d_hget E key user_id) (\<lambda>roles. d_hset E key user_id (add_role_text (de_order E) role roles))"

definition dr_drop_role ::
  "('s, 'c) denv \<Rightarrow> string \<Rightarrow> string \<Rightarrow> string \<Rightarrow> (('s, 'c) dbw, unit) op" where
  "dr_drop_role E key user_id role =
     bindM (d_hget E key user_id) (\<lambda>roles.
     case roles of
       None \<Rightarrow> ret ()
     | Some s \<Rightarrow>
         if role \<notin> set (split_on (CHR '','') s) then ret ()
         else d_hset E key user_id (remove_role_text (de_order E) role s))"

definition dr_add_channel_role ::
  "('s, 'c) denv \<Rightarrow> string \<Rightarrow> string \<Rightarrow> string \<Rightarrow> (('s, 'c) dbw, unit) op" where
  "dr_add_channel_role E role channel_id user_id =
     thenM (dr_get_channel_name E channel_id) (dr_update_roles E (rk_channel_roles channel_id) user_id role)"

definition dr_add_room_role ::
  "('s, 'c) denv \<Rightarrow> string \<Rightarrow> string \<Rightarrow> string \<Rightarrow> (('s, 'c) dbw, unit) op" where
  "dr_add_room_role E role room_id user_id =
     thenM (dr_get_room_name E room_id) (dr_update_roles E (rk_room_roles room_id) user_id role)"

definition dr_add_global_role :: "('s, 'c) denv \<Rightarrow> string \<Rightarrow> string \<Rightarrow> (('s, 'c) dbw, unit) op" where
  "dr_add_global_role E user_id role = dr_update_roles E rk_global_roles user_id role"

definition dr_remove_channel_role ::
  "('s, 'c) denv \<Rightarrow> string \<Rightarrow> string \<Rightarrow> string \<Rightarrow> (('s, 'c) dbw, unit) op" where
  "dr_remove_channel_role E role channel_id user_id = dr_drop_role E (rk_channel_roles channel_id) user_id role"

definition dr_remove_room_role ::
  "('s, 'c) denv \<Rightarrow> string \<Rightarrow> string \<Rightarrow> string \<Rightarrow> (('s, 'c) dbw, unit) op" where
  "dr_remove_room_role E role room_id user_id = dr_drop_role E (rk_room_roles room_id) user_id role"

definition dr_remove_global_role :: "('s, 'c) denv \<Rightarrow> string \<Rightarrow> string \<Rightarrow> (('s, 'c) dbw, unit) op" where
  "dr_remove_global_role E user_id role = dr_drop_role E rk_global_roles user_id role"

definition dr_set_super_user :: "('s, 'c) denv \<Rightarrow> string \<Rightarrow> (('s, 'c) dbw, unit) op" where
  "dr_set_super_user E user_id = dr_add_global_role E user_id role_super_user"

definition dr_set_admin :: "('s, 'c) denv \<Rightarrow> string \<Rightarrow> string \<Rightarrow> (('s, 'c) dbw, unit) op" where
  "dr_set_admin E channel_id user_id =
     bindM (dr_channel_exists E (Some channel_id)) (\<lambda>known.
     if \<not> known then throw (NoSuchChannelException channel_id)
     else dr_add_channel_role E role_admin channel_id user_id)"

definition dr_set_moderator :: "('s, 'c) denv \<Rightarrow> string \<Rightarrow> string \<Rightarrow> (('s, 'c) dbw, unit) op" where
  "dr_set_moderator E room_id user_id = dr_add_room_role E role_moderator room_id user_id"

definition dr_set_global_moderator :: "('s, 'c) denv \<Rightarrow> string \<Rightarrow> string \<Rightarrow> (('s, 'c) dbw, unit) op" where
  "dr_set_global_moderator E room_id user_id = dr_add_global_role E user_id role_global_moderator"

definition dr_set_owner :: "('s, 'c) denv \<Rightarrow> string \<Rightarrow> string \<Rightarrow> (('s, 'c) dbw, unit) op" where
  "dr_set_owner E room_id user_id = dr_add_room_role E role_owner room_id user_id"

definition dr_set_owner_channel :: "('s, 'c) denv \<Rightarrow> string \<Rightarrow> string \<Rightarrow> (('s, 'c) dbw, unit) op" where
  "dr_set_owner_channel E channel_id user_id = dr_add_channel_role E role_owner channel_id user_id"

definition dr_remove_admin :: "('s, 'c) denv \<Rightarrow> string \<Rightarrow> string \<Rightarrow> (('s, 'c) dbw, unit) op" where
  "dr_remove_admin E channel_id user_id =
     bindM (dr_channel_exists E (Some channel_id)) (\<lambda>known.
     if \<not> known then throw (NoSuchChannelException channel_id)
     else dr_remove_channel_role E role_admin channel_id user_id)"

definition dr_remove_owner_channel :: "('s, 'c) denv \<Rightarrow> string \<Rightarrow> string \<Rightarrow> (('s, 'c) dbw, unit) op" where
  "dr_remove_owner_channel E channel_id user_id =
     bindM (dr_channel_exists E (Some channel_id)) (\<lambda>known.
     if \<not> known then throw (NoSuchChannelException channel_id)
     else dr_remove_channel_role E role_owner channel_id user_id)"

definition dr_remove_moderator :: "('s, 'c) denv \<Rightarrow> string \<Rightarrow> string \<Rightarrow> (('s, 'c) dbw, unit) op" where
  "dr_remove_moderator E room_id user_id =
     thenM (dr_get_room_name E room_id)
     (bindM (dr_channel_for_room E (Some room_id)) (\<lambda>c.
      if c = '''' then throw (NoChannelFoundException room_id)
      else dr_remove_room_role E role_moderator room_id user_id))"

definition dr_remove_super_user :: "('s, 'c) denv \<Rightarrow> string \<Rightarrow> (('s, 'c) dbw, unit) op" where
  "dr_remove_super_user E user_id = dr_remove_global_role E user_id role_super_user"

definition dr_remove_global_moderator :: "('s, 'c) denv \<Rightarrow> string \<Rightarrow> (('s, 'c) dbw, unit) op" where
  "dr_remove_global_moderator E user_id = dr_remove_global_role E user_id role_global_moderator"

definition dr_remove_owner :: "('s, 'c) denv \<Rightarrow> string \<Rightarrow> string \<Rightarrow> (('s, 'c) dbw, unit) op" where
  "dr_remove_owner E room_id user_id =
     bindM (dr_channel_for_room E (Some room_id)) (\<lambda>c.
     if c = '''' then throw (NoSuchRoomException room_id)
     else dr_remove_room_role E role_owner room_id user_id)"

subsection \<open>All roles of a user, all users of a role\<close>

record user_roles =
  ur_global :: "string list"
  ur_channel :: "(string \<times> string list) list"
  ur_room :: "(string \<times> string list) list"

definition dr_get_user_roles :: "('s, 'c) denv \<Rightarrow> string \<Rightarrow> (('s, 'c) dbw, user_roles) op" where
  "dr_get_user_roles E user_id =
     bindM (d_hgetall E (rk_rooms_for_user user_id)) (\<lambda>rooms.
     bindM (d_hget E rk_global_roles user_id) (\<lambda>global_roles.
     bindM (foldM (\<lambda>(checked, out) (room_id, _).
         bindM (dr_channel_for_room E (Some room_id)) (\<lambda>channel_id.
         bindM (d_hget E (rk_room_roles room_id) user_id) (\<lambda>room_roles.
         bindM (if channel_id \<in> set checked then ret (checked, out)
                else bindM (d_hget E (rk_channel_roles channel_id) user_id) (\<lambda>channel_roles.
                  ret (channel_id # checked,
                    case channel_roles of None \<Rightarrow> out
                    | Some s \<Rightarrow> out\<lparr>ur_channel := ur_channel out @ [(channel_id, split_on (CHR '','') s)]\<rparr>)))
           (\<lambda>(checked, out).
            ret (checked, case room_roles of None \<Rightarrow> out
                 | Some s \<Rightarrow> out\<lparr>ur_room := ur_room out @ [(room_id, split_on (CHR '','') s)]\<rparr>)))))
       ([], \<lparr>ur_global = (case global_roles of None \<Rightarrow> [] | Some s \<Rightarrow> split_on (CHR '','') s),
             ur_channel = [], ur_room = []\<rparr>) rooms)
     (\<lambda>(_, out). ret out)))"

definition dr_get_user_roles_in_room :: "('s, 'c) denv \<Rightarrow> string \<Rightarrow> string \<Rightarrow> (('s, 'c) dbw, string list) op" where
  "dr_get_user_roles_in_room E user_id room_id =
     bindM (dr_get_user_roles E user_id) (\<lambda>roles.
     ret (case map_of (ur_room roles) room_id of None \<Rightarrow> [] | Some rs \<Rightarrow> rs))"

definition dr_get_super_users :: "('s, 'c) denv \<Rightarrow> (('s, 'c) dbw, (string \<times> string) list) op" where
  "dr_get_super_users E =
     bindM (d_hgetall E rk_global_roles) (\<lambda>users.
     mapM (\<lambda>(user_id, _). bindM (dr_get_user_name E user_id) (\<lambda>n. ret (user_id, n))) users)"

text \<open>A user without a name is logged and left out.\<close>

definition dr_get_users_with_role ::
  "('s, 'c) denv \<Rightarrow> (string \<times> string) list \<Rightarrow> string \<Rightarrow> (('s, 'c) dbw, (string \<times> string) list) op" where
  "dr_get_users_with_role E roles role_key =
     foldM (\<lambda>cleaned (user_id, user_roles).
       if role_key \<notin> set (split_on (CHR '','') user_roles) then ret cleaned
       else catchM (bindM (dr_get_user_name E user_id) (\<lambda>n. ret (cleaned @ [(user_id, n)])))
              (\<lambda>e. case e of NoSuchUserException _ \<Rightarrow> Some (ret cleaned) | _ \<Rightarrow> None)) [] roles"

definition dr_get_admins_channel :: "('s, 'c) denv \<Rightarrow> string \<Rightarrow> (('s, 'c) dbw, (string \<times> string) list) op" where
  "dr_get_admins_channel E channel_id =
     thenM (dr_get_channel_name E channel_id)
     (bindM (d_hgetall E (rk_channel_roles channel_id)) (\<lambda>roles. dr_get_users_with_role E roles role_admin))"

definition dr_get_owners_channel :: "('s, 'c) denv \<Rightarrow> string \<Rightarrow> (('s, 'c) dbw, (string \<times> string) list) op" where
  "dr_get_owners_channel E channel_id =
     thenM (dr_get_channel_name E channel_id)
     (bindM (d_hgetall E (rk_channel_roles channel_id)) (\<lambda>roles. dr_get_users_with_role E roles role_owner))"

definition dr_get_owners_room :: "('s, 'c) denv \<Rightarrow> string \<Rightarrow> (('s, 'c) dbw, (string \<times> string) list) op" where
  "dr_get_owners_room E room_id =
     thenM (dr_get_room_name E room_id)
     (bindM (d_hgetall E (rk_room_roles room_id)) (\<lambda>roles. dr_get_users_with_role E roles role_owner))"

definition dr_get_moderators_room :: "('s, 'c) denv \<Rightarrow> string \<Rightarrow> (('s, 'c) dbw, (string \<times> string) list) op" where
  "dr_get_moderators_room E room_id =
     thenM (dr_get_room_name E room_id)
     (bindM (d_hgetall E (rk_room_roles room_id)) (\<lambda>roles. dr_get_users_with_role E roles role_moderator))"

subsection \<open>Creating channels and rooms\<close>

definition dr_create_channel ::
  "('s, 'c) denv \<Rightarrow> string option \<Rightarrow> string \<Rightarrow> string \<Rightarrow> (('s, 'c) dbw, unit) op" where
  "dr_create_channel E channel_name channel_id user_id =
     bindM (dr_channel_exists E (Some channel_id)) (\<lambda>known.
     if known then throw (ChannelExistsException channel_id)
     else if none_or_blank channel_name then throw (EmptyChannelNameException channel_id)
     else bindM (dr_channel_name_exists E channel_name) (\<lambda>taken.
       if taken then throw (ChannelNameExistsException (the channel_name))
       else thenM (via_cache (ic_set_channel_exists (de_cache E) channel_id))
            (thenM (d_hset E rk_channels channel_id (the channel_name))
                   (dr_set_owner_channel E channel_id user_id))))"

definition dr_create_room ::
  "('s, 'c) denv \<Rightarrow> string option \<Rightarrow> string \<Rightarrow> string \<Rightarrow> string \<Rightarrow> string \<Rightarrow> bool \<Rightarrow> (('s, 'c) dbw, unit) op" where
  "dr_create_room E room_name room_id channel_id user_id user_name ephemeral =
     thenM (dr_require_channel E channel_id)
     (if none_or_blank room_name then throw (EmptyRoomNameException room_id)
      else (let name = the room_name in
        bindM (dr_room_exists E channel_id room_id) (\<lambda>known.
        if known then throw (RoomExistsException room_id)
        else bindM (dr_room_name_exists E channel_id name) (\<lambda>taken.
          if taken then throw (RoomNameExistsForChannelException channel_id name)
          else thenM (whenM ephemeral (d_sadd E rk_non_ephemeral_rooms room_id))
               (thenM (d_hset E rk_room_name_for_id room_id name)
               (thenM (d_hset E (rk_rooms channel_id) room_id name)
               (thenM (d_hset E rk_channel_for_rooms room_id channel_id)
               (thenM (d_hset E rk_user_names user_id user_name)
                      (dr_set_owner E room_id user_id)))))))))"

end
