(* ===== verification/Activity.thy ===== *)
theory Activity
  imports Prelude
begin

section \<open>Activities\<close>

text \<open>
  A request is an activity of the ActivityStreams vocabulary, built by a third-party package
  from the JSON of the client. The model has the attributes the source reads and writes. An
  attribute can be missing (reading it raises \<open>AttributeError\<close>, \<open>hasattr\<close> is false), be \<open>None\<close>,
  or be a text. The parts \<open>actor\<close>, \<open>object\<close>, \<open>target\<close> and \<open>provider\<close> may be missing too.
\<close>

datatype attr = Absent | Null | Text string

record attachment =
  at_id :: attr
  at_object_type :: attr
  at_content :: attr
  at_summary :: attr

record entity =
  en_id :: attr
  en_url :: attr
  en_content :: attr
  en_summary :: attr
  en_updated :: attr
  en_object_type :: attr
  en_display_name :: attr
  en_attachments :: "attachment list option option"

record activity =
  av_id :: attr
  av_verb :: attr
  av_published :: attr
  av_actor :: "entity option"
  av_object :: "entity option"
  av_target :: "entity option"
  av_provider :: "entity option"

definition blank_attachment :: attachment where
  "blank_attachment = \<lparr>at_id = Absent, at_object_type = Absent, at_content = Absent,
     at_summary = Absent\<rparr>"

definition blank_entity :: entity where
  "blank_entity = \<lparr>en_id = Absent, en_url = Absent, en_content = Absent, en_summary = Absent,
     en_updated = Absent, en_object_type = Absent, en_display_name = Absent, en_attachments = None\<rparr>"

definition blank_activity :: activity where
  "blank_activity = \<lparr>av_id = Absent, av_verb = Absent, av_published = Absent, av_actor = None,
     av_object = None, av_target = None, av_provider = None\<rparr>"

subsection \<open>Reading and writing attributes\<close>

definition attr_value :: "attr \<Rightarrow> exc + string option" where
  "attr_value a = (case a of Absent \<Rightarrow> Inl AttributeError | Null \<Rightarrow> Inr None | Text s \<Rightarrow> Inr (Some s))"

definition attr_of :: "string option \<Rightarrow> attr" where
  "attr_of v = (case v of None \<Rightarrow> Null | Some s \<Rightarrow> Text s)"

text \<open>\<open>activity.part.attribute\<close>.\<close>

definition part_attr :: "entity option \<Rightarrow> (entity \<Rightarrow> attr) \<Rightarrow> exc + string option" where
  "part_attr p f = (case p of None \<Rightarrow> Inl AttributeError | Some e \<Rightarrow> attr_value (f e))"

definition read_attr :: "entity option \<Rightarrow> (entity \<Rightarrow> attr) \<Rightarrow> ('w, string option) op" where
  "read_attr p f = lift_result (part_attr p f)"

text \<open>\<open>hasattr(activity, 'part') and hasattr(activity.part, 'attribute')\<close>.\<close>

definition has_attr :: "entity option \<Rightarrow> (entity \<Rightarrow> attr) \<Rightarrow> bool" where
  "has_attr p f = (case p of None \<Rightarrow> False | Some e \<Rightarrow> f e \<noteq> Absent)"

text \<open>A method call on a value that may be \<open>None\<close>.\<close>

definition text_of :: "string option \<Rightarrow> ('w, string) op" where
  "text_of v = (case v of None \<Rightarrow> throw AttributeError | Some s \<Rightarrow> ret s)"

lemma read_attr_Some [op_simps]: "read_attr (Some e) f w = (attr_value (f e), w)"
  by (simp add: read_attr_def part_attr_def lift_result_run)

lemma read_attr_run: "read_attr p f w = (part_attr p f, w)"
  by (simp add: read_attr_def lift_result_run)

lemma bindM_read_attr [op_simps]:
  "bindM (read_attr p f) k w = (case part_attr p f of Inl e \<Rightarrow> (Inl e, w) | Inr v \<Rightarrow> k v w)"
  by (simp add: bindM_def read_attr_run split: sum.splits)

lemma part_attr_simps [simp]:
  "part_attr None f = Inl AttributeError"
  "part_attr (Some e) f = attr_value (f e)"
  by (simp_all add: part_attr_def)

lemma attr_value_simps [simp]:
  "attr_value Absent = Inl AttributeError" "attr_value Null = Inr None"
  "attr_value (Text s) = Inr (Some s)"
  by (simp_all add: attr_value_def)

lemma text_of_simps [op_simps]:
  "text_of (Some s) = ret s" "text_of None = throw AttributeError"
  by (simp_all add: text_of_def)

lemma attr_value_Inl: "attr_value a = Inl e \<longleftrightarrow> a = Absent \<and> e = AttributeError"
  by (cases a) auto

lemma has_attr_reads: "has_attr p f \<longleftrightarrow> (\<exists>v. part_attr p f = Inr v)"
proof (cases p)
  case (Some e)
  then show ?thesis by (cases "f e") (auto simp: has_attr_def)
qed (auto simp: has_attr_def)

end
