(* ===== verification/Acl_Patterns.thy ===== *)
theory Acl_Patterns
  imports Prelude
begin

section \<open>Custom ACL patterns\<close>

text \<open>
  The pattern language of \<open>AclPatternValidator\<close> (\<^verbatim>\<open>dino/validation/acl.py\<close>): clauses
  \<open>type=value\<close> joined by \<open>,\<close> (and) and \<open>|\<close> (or), with one level of parentheses. The texts between
  parentheses are moved to a dictionary of groups and replaced by \<open>@0@\<close>, \<open>@1@\<close> and so on; a
  group is tested when its mark is reached. Here the dictionary is the list of its values, since
  its keys are \<open>0, 1, ...\<close>. The test of one clause is a parameter, \<open>_test_a_clause\<close> with the
  arguments that the source passes along unchanged. The \<open>while\<close> loop and the recursion may not
  end, so both take fuel, and \<open>None\<close> stands for no result within it.
\<close>

type_synonym verdict = "bool \<times> string option"

abbreviation valid :: verdict where "valid \<equiv> (True, None)"
abbreviation invalid :: "string \<Rightarrow> verdict" where "invalid msg \<equiv> (False, Some msg)"

text \<open>Sequencing of operations that may find no result within their fuel.\<close>

definition bindO :: "('w, 'a option) op \<Rightarrow> ('a \<Rightarrow> ('w, 'b option) op) \<Rightarrow> ('w, 'b option) op" where
  "bindO m f = bindM m (\<lambda>r. case r of None \<Rightarrow> ret None | Some a \<Rightarrow> f a)"

subsection \<open>The loop that takes out the groups\<close>

fun index_of :: "char \<Rightarrow> string \<Rightarrow> nat option" where
  "index_of c [] = None"
| "index_of c (x # xs) = (if x = c then Some 0 else map_option Suc (index_of c xs))"

definition slice :: "nat \<Rightarrow> nat \<Rightarrow> string \<Rightarrow> string" where
  "slice i j s = take (j - i) (drop i s)"

definition at_mark :: "nat \<Rightarrow> string" where
  "at_mark pos = ''@'' @ str_nat pos @ ''@''"

fun take_groups :: "nat \<Rightarrow> string list \<Rightarrow> string \<Rightarrow> (exc + string list \<times> string) option" where
  "take_groups fuel groups clause =
     (case index_of (CHR ''('') clause of
        None \<Rightarrow> Some (Inr (groups, clause))
      | Some i \<Rightarrow>
          (case index_of (CHR '')'') clause of
             None \<Rightarrow> Some (Inl ValueError)
           | Some e \<Rightarrow>
               (case fuel of
                  0 \<Rightarrow> None
                | Suc n \<Rightarrow> take_groups n (groups @ [slice (i + 1) e clause])
                    (take i clause @ at_mark (length groups) @ drop (e + 1) clause))))"

declare take_groups.simps [simp del]

subsection \<open>Testing a pattern\<close>

definition group_of :: "string list \<Rightarrow> string \<Rightarrow> exc + string" where
  "group_of groups s = (case py_int s of
     None \<Rightarrow> Inl ValueError
   | Some k \<Rightarrow> if 0 \<le> k \<and> nat k < length groups then Inr (groups ! nat k) else Inl KeyError)"

text \<open>The text an \<open>and\<close> clause stands for: itself, or the group whose mark it is.\<close>

definition resolve_clause :: "string list \<Rightarrow> string \<Rightarrow> exc + string" where
  "resolve_clause groups c =
     (if CHR ''@'' \<in> set c
      then (if hd c \<noteq> CHR ''@'' \<or> last c \<noteq> CHR ''@'' \<or> count_list c (CHR ''@'') \<noteq> 2
            then Inl (ValidationException (''mismatched at-signs in clause: '' @ c))
            else group_of groups (butlast (tl c)))
      else Inr c)"

definition compound :: "string \<Rightarrow> bool" where
  "compound c \<longleftrightarrow> CHR ''|'' \<in> set c \<or> CHR '','' \<in> set c"

text \<open>The loop over the \<open>and\<close> clauses: the groups, and whether all were valid.\<close>

fun and_loop :: "(string list \<Rightarrow> string \<Rightarrow> ('w, string list option) op) \<Rightarrow>
    (string \<Rightarrow> ('w, verdict option) op) \<Rightarrow> string list \<Rightarrow> string list \<Rightarrow>
    ('w, (string list \<times> bool) option) op" where
  "and_loop sub test groups [] = ret (Some (groups, True))"
| "and_loop sub test groups (c # cs) =
     bindM (lift_result (resolve_clause groups c)) (\<lambda>c'.
     if compound c' then bindO (sub groups c') (\<lambda>groups'. and_loop sub test groups' cs)
     else bindO (test c') (\<lambda>(ok, msg).
       if ok then and_loop sub test groups cs else ret (Some (groups, False))))"

fun or_loop :: "(string list \<Rightarrow> string \<Rightarrow> ('w, string list option) op) \<Rightarrow>
    (string \<Rightarrow> ('w, verdict option) op) \<Rightarrow> exc \<Rightarrow> string list \<Rightarrow> string list \<Rightarrow>
    ('w, string list option) op" where
  "or_loop sub test failure groups [] = throw failure"
| "or_loop sub test failure groups (c # cs) =
     bindO (and_loop sub test groups (split_on (CHR '','') c)) (\<lambda>(groups', all_and_ok).
     if all_and_ok then ret (Some groups') else or_loop sub test failure groups' cs)"

definition pattern_failure :: "string list \<Rightarrow> exc" where
  "pattern_failure or_clauses =
     (if length or_clauses > 1
      then ValidationException (''no OR clause validated true for: '' @ join_on (CHR ''|'') or_clauses)
      else ValidationException (''the AND clause did not validate for: '' @ hd or_clauses))"

fun split_and_test_clause :: "nat \<Rightarrow> (string \<Rightarrow> ('w, verdict option) op) \<Rightarrow> string list \<Rightarrow> string \<Rightarrow>
    ('w, string list option) op" where
  "split_and_test_clause 0 test groups clause = ret None"
| "split_and_test_clause (Suc n) test groups clause =
     (case take_groups n groups clause of
        None \<Rightarrow> ret None
      | Some (Inl e) \<Rightarrow> throw e
      | Some (Inr (groups', clause')) \<Rightarrow>
          (let or_clauses = split_on (CHR ''|'') clause'
           in or_loop (split_and_test_clause n test) test (pattern_failure or_clauses) groups' or_clauses))"

subsection \<open>Checking the text of a new pattern\<close>

definition pattern_char :: "char \<Rightarrow> bool" where
  "pattern_char c \<longleftrightarrow> is_digit_char c \<or> (97 \<le> code_of c \<and> code_of c \<le> 122) \<or> c \<in> set ''!|,():=_''"

text \<open>\<open>^[0-9a-z!|,():=_]*$\<close>; the \<open>$\<close> also matches before a line feed that ends the text.\<close>

definition newline :: char where "newline = CHR 0x0A"

definition pattern_matches :: "string \<Rightarrow> bool" where
  "pattern_matches s \<longleftrightarrow> list_all pattern_char s \<or>
     (s \<noteq> [] \<and> last s = newline \<and> list_all pattern_char (butlast s))"

fun nesting_ok :: "nat \<Rightarrow> nat \<Rightarrow> string \<Rightarrow> bool" where
  "nesting_ok opened closed [] = True"
| "nesting_ok opened closed (c # cs) =
     (let o' = (if c = CHR ''('' then opened + 1 else opened);
          c' = (if c \<noteq> CHR ''('' \<and> c = CHR '')'' then closed + 1 else closed)
      in if \<bar>int o' - int c'\<bar> > 1 \<or> c' > o' then False else nesting_ok o' c' cs)"

definition pattern_text_error :: "string option \<Rightarrow> string option" where
  "pattern_text_error values = (case values of
     None \<Rightarrow> Some ''blank pattern''
   | Some v \<Rightarrow>
       if blank v then Some ''blank pattern''
       else if \<not> pattern_matches v then Some (''pattern did not match new value: '' @ v)
       else if CHR ''('' \<in> set v \<or> CHR '')'' \<in> set v
         then (if count_list v (CHR ''('') \<noteq> count_list v (CHR '')'')
               then Some (''parenthesis mismatch in pattern: '' @ v)
               else if \<not> nesting_ok 0 0 v
                 then Some (''nest parenthesis not allowed in pattern: '' @ v)
               else None)
       else None)"

subsection \<open>Termination\<close>

text \<open>Parentheses that open and close in turn; \<open>b\<close> says whether one is open.\<close>

fun alternates :: "bool \<Rightarrow> string \<Rightarrow> bool" where
  "alternates b [] = (\<not> b)"
| "alternates b (c # cs) =
     (if c = CHR ''('' then \<not> b \<and> alternates True cs
      else if c = CHR '')'' then b \<and> alternates False cs
      else alternates b cs)"

lemma nesting_ok_alternates:
  assumes "nesting_ok o1 c1 s" "count_list s (CHR ''('') + o1 = count_list s (CHR '')'') + c1"
    "c1 \<le> o1" "o1 \<le> c1 + 1"
  shows "alternates (o1 = c1 + 1) s"
  using assms
proof (induction s arbitrary: o1 c1)
  case (Cons x xs)
  show ?case
  proof (cases "x = CHR ''(''")
    case True
    with Cons.prems have "nesting_ok (o1 + 1) c1 xs" "o1 = c1"
      by (auto simp: Let_def split: if_splits)
    with Cons.IH [of "o1 + 1" c1] Cons.prems True show ?thesis by simp
  next
    case F: False
    show ?thesis
    proof (cases "x = CHR '')''")
      case True
      with Cons.prems have "nesting_ok o1 (c1 + 1) xs" "o1 = c1 + 1"
        by (auto simp: Let_def split: if_splits)
      with Cons.IH [of o1 "c1 + 1"] Cons.prems True show ?thesis by simp
    next
      case False
      with F Cons.prems have "nesting_ok o1 c1 xs"
        by (auto simp: Let_def split: if_splits)
      with Cons.IH [of o1 c1] Cons.prems False F show ?thesis by simp
    qed
  qed
qed auto

lemma index_of_append: "c \<notin> set a \<Longrightarrow> index_of c (a @ c # r) = Some (length a)"
  by (induction a) auto

lemma index_of_None: "index_of c s = None \<longleftrightarrow> c \<notin> set s"
  by (induction s) (auto split: if_splits)

lemma alternates_True_cases:
  assumes "alternates True s"
  obtains g r where "s = g @ CHR '')'' # r" "CHR ''('' \<notin> set g" "CHR '')'' \<notin> set g" "alternates False r"
  using assms
proof (induction s arbitrary: thesis)
  case (Cons x xs)
  show ?case
  proof (cases "x = CHR '')''")
    case True
    with Cons.prems(2) Cons.prems(1) [of "[]" xs] show ?thesis by simp
  next
    case False
    with Cons.prems(2) have *: "x \<noteq> CHR ''(''" "alternates True xs" by (auto split: if_splits)
    show ?thesis
    proof (rule Cons.IH [OF _ *(2)])
      fix g r
      assume "xs = g @ CHR '')'' # r" "CHR ''('' \<notin> set g" "CHR '')'' \<notin> set g" "alternates False r"
      with False * Cons.prems(1) [of "x # g" r] show ?thesis by simp
    qed
  qed
qed simp

lemma alternates_False_cases:
  assumes "alternates False s"
  obtains (none) "CHR ''('' \<notin> set s" "CHR '')'' \<notin> set s"
    | (group) a g r where "s = a @ CHR ''('' # g @ CHR '')'' # r"
        "CHR ''('' \<notin> set a" "CHR '')'' \<notin> set a" "CHR ''('' \<notin> set g" "CHR '')'' \<notin> set g"
        "alternates False r"
  using assms
proof (induction s arbitrary: thesis)
  case Nil
  then show ?case by simp
next
  case (Cons x xs)
  show ?case
  proof (cases "x = CHR ''(''")
    case True
    with Cons.prems(3) have "alternates True xs" by simp
    then obtain g r where "xs = g @ CHR '')'' # r" "CHR ''('' \<notin> set g" "CHR '')'' \<notin> set g"
      "alternates False r" by (rule alternates_True_cases)
    with True Cons.prems(2) [of "[]" g r] show ?thesis by simp
  next
    case False
    with Cons.prems(3) have *: "x \<noteq> CHR '')''" "alternates False xs" by (auto split: if_splits)
    show ?thesis
    proof (rule Cons.IH [OF _ _ *(2)])
      assume "CHR ''('' \<notin> set xs" "CHR '')'' \<notin> set xs"
      with False * Cons.prems(1) show ?thesis by simp
    next
      fix a g r
      assume "xs = a @ CHR ''('' # g @ CHR '')'' # r"
        "CHR ''('' \<notin> set a" "CHR '')'' \<notin> set a" "CHR ''('' \<notin> set g" "CHR '')'' \<notin> set g"
        "alternates False r"
      with False * Cons.prems(2) [of "x # a" g r] show ?thesis by simp
    qed
  qed
qed

text \<open>A text without marks and parentheses, such as the groups of an accepted pattern.\<close>

definition plain_group :: "string \<Rightarrow> bool" where
  "plain_group g \<longleftrightarrow> CHR ''('' \<notin> set g \<and> CHR ''@'' \<notin> set g"

lemma take_groups_none: "CHR ''('' \<notin> set c \<Longrightarrow> take_groups n gs c = Some (Inr (gs, c))"
  using index_of_None [of "CHR ''(''" c] by (simp add: take_groups.simps)

lemma str_nat_no_paren: "CHR ''('' \<notin> set (str_nat n)" "CHR '')'' \<notin> set (str_nat n)"
  using str_nat_digits [of n] by (auto simp: list_all_iff is_digit_char_def)

lemma take_groups_step:
  assumes "s = a @ CHR ''('' # g @ CHR '')'' # r"
    "CHR ''('' \<notin> set a" "CHR '')'' \<notin> set a" "CHR ''('' \<notin> set g" "CHR '')'' \<notin> set g"
  shows "take_groups (Suc n) gs s = take_groups n (gs @ [g]) (a @ at_mark (length gs) @ r)"
proof -
  have o1: "index_of (CHR ''('') s = Some (length a)"
    unfolding assms(1) by (rule index_of_append) (rule assms)
  have "index_of (CHR '')'') ((a @ CHR ''('' # g) @ CHR '')'' # r) = Some (length (a @ CHR ''('' # g))"
    by (rule index_of_append) (use assms in simp)
  then have c1: "index_of (CHR '')'') s = Some (length a + Suc (length g))"
    by (simp add: assms(1))
  show ?thesis
    by (subst take_groups.simps) (simp add: o1 c1, simp add: assms(1) slice_def)
qed

lemma take_groups_alternates:
  assumes "alternates False post" "CHR ''('' \<notin> set pre" "CHR '')'' \<notin> set pre" "CHR ''@'' \<notin> set post"
    "count_list post (CHR ''('') \<le> n"
  shows "\<exists>gs' c'. take_groups n gs (pre @ post) = Some (Inr (gs @ gs', c')) \<and>
    list_all plain_group gs' \<and> CHR ''('' \<notin> set c'"
  using assms
proof (induction n arbitrary: pre post gs)
  case 0
  then have "CHR ''('' \<notin> set (pre @ post)" by (auto simp: count_list_0_iff)
  then show ?case by (auto simp: take_groups_none intro: exI [of _ "[]"])
next
  case (Suc n)
  from Suc.prems(1) show ?case
  proof (cases rule: alternates_False_cases)
    case none
    with Suc.prems(2) show ?thesis by (auto simp: take_groups_none intro: exI [of _ "[]"])
  next
    case (group a g r)
    have step: "take_groups (Suc n) gs (pre @ post)
        = take_groups n (gs @ [g]) (((pre @ a) @ at_mark (length gs)) @ r)"
      using take_groups_step [of "pre @ post" "pre @ a" g r n gs] group Suc.prems by simp
    have "\<exists>gs' c'. take_groups n (gs @ [g]) (((pre @ a) @ at_mark (length gs)) @ r)
        = Some (Inr ((gs @ [g]) @ gs', c')) \<and> list_all plain_group gs' \<and> CHR ''('' \<notin> set c'"
      by (rule Suc.IH) (use group Suc.prems str_nat_no_paren in \<open>auto simp: at_mark_def\<close>)
    then obtain gs' c' where *: "take_groups n (gs @ [g]) (((pre @ a) @ at_mark (length gs)) @ r)
        = Some (Inr ((gs @ [g]) @ gs', c'))" "list_all plain_group gs'" "CHR ''('' \<notin> set c'"
      by blast
    have "plain_group g" using group Suc.prems(4) by (simp add: plain_group_def)
    with * step show ?thesis by (auto intro!: exI [of _ "g # gs'"])
  qed
qed

definition settles :: "'g \<Rightarrow> (exc + 'g option) \<Rightarrow> bool" where
  "settles gs r \<longleftrightarrow> (\<exists>e. r = Inl e) \<or> r = Inr (Some gs)"

lemma group_of_in_set: "group_of gs s = Inr g \<Longrightarrow> g \<in> set gs"
  by (auto simp: group_of_def split: option.splits if_splits)

lemma resolve_clause_cases:
  assumes "resolve_clause gs c = Inr c'"
  shows "c' = c \<and> CHR ''@'' \<notin> set c \<or> c' \<in> set gs"
  using assms by (auto simp: resolve_clause_def split: if_splits dest: group_of_in_set)

lemma and_loop_settles:
  assumes sub: "\<And>g w. g \<in> set gs \<Longrightarrow> settles gs (fst (sub gs g w))"
    and test: "\<And>c w. fst (test c w) \<noteq> Inr None"
    and cs: "\<And>c. c \<in> set cs \<Longrightarrow> \<not> compound c"
  shows "(\<exists>e. fst (and_loop sub test gs cs w) = Inl e) \<or>
    (\<exists>b. fst (and_loop sub test gs cs w) = Inr (Some (gs, b)))"
  using cs
proof (induction cs arbitrary: w)
  case Nil
  then show ?case by (auto simp: op_simps)
next
  case (Cons c cs)
  show ?case
  proof (cases "resolve_clause gs c")
    case (Inl e)
    then show ?thesis by (simp add: bindM_def op_simps)
  next
    case (Inr c')
    note IH = Cons.IH [OF Cons.prems [OF list.set_intros(2)]]
    show ?thesis
    proof (cases "compound c'")
      case True
      with resolve_clause_cases [OF Inr] Cons.prems have "c' \<in> set gs" by auto
      then have "settles gs (fst (sub gs c' w))" by (rule sub)
      with True Inr show ?thesis
        using IH [where w = "snd (sub gs c' w)"]
        by (cases "sub gs c' w") (auto simp: bindM_def bindO_def op_simps settles_def)
    next
      case False
      with Inr IH test [of c' w] show ?thesis
        by (cases "test c' w") (auto simp: bindM_def bindO_def op_simps split: sum.splits option.splits)
    qed
  qed
qed

lemma or_loop_settles:
  assumes sub: "\<And>g w. g \<in> set gs \<Longrightarrow> settles gs (fst (sub gs g w))"
    and test: "\<And>c w. fst (test c w) \<noteq> Inr None"
    and cs: "\<And>c. c \<in> set cs \<Longrightarrow> CHR ''|'' \<notin> set c"
  shows "settles gs (fst (or_loop sub test failure gs cs w))"
  using cs
proof (induction cs arbitrary: w)
  case Nil
  then show ?case by (simp add: op_simps settles_def)
next
  case (Cons c cs)
  have atoms: "\<not> compound a" if "a \<in> set (split_on (CHR '','') c)" for a
    using split_on_no_sep_in_parts [OF that] set_split_on_subset [OF that] Cons.prems [of c]
    by (auto simp: compound_def)
  from and_loop_settles [where gs = gs and sub = sub and test = test and w = w, OF sub test atoms]
  consider e where "fst (and_loop sub test gs (split_on (CHR '','') c) w) = Inl e"
    | b where "fst (and_loop sub test gs (split_on (CHR '','') c) w) = Inr (Some (gs, b))"
    by blast
  then show ?case
  proof cases
    case 1
    then show ?thesis
      by (cases "and_loop sub test gs (split_on (CHR '','') c) w")
        (auto simp: bindM_def bindO_def settles_def)
  next
    case 2
    with Cons.IH [OF Cons.prems [OF list.set_intros(2)]] show ?thesis
      by (cases "and_loop sub test gs (split_on (CHR '','') c) w")
        (auto simp: bindM_def bindO_def op_simps settles_def)
  qed
qed

lemma split_group_settles:
  assumes test: "\<And>c w. fst (test c w) \<noteq> Inr None" and g: "plain_group g"
  shows "settles gs (fst (split_and_test_clause (Suc n) test gs g w))"
proof -
  have no_paren: "CHR ''('' \<notin> set g" and no_at: "CHR ''@'' \<notin> set g"
    using g by (auto simp: plain_group_def)
  have "settles gs (fst (or_loop sub test failure gs cs w))"
    if "\<And>c. c \<in> set cs \<Longrightarrow> CHR ''|'' \<notin> set c \<and> CHR ''@'' \<notin> set c" for sub failure cs w
    using that
  proof (induction cs arbitrary: w)
    case Nil
    then show ?case by (simp add: op_simps settles_def)
  next
    case (Cons c cs)
    have atoms: "\<not> compound a \<and> CHR ''@'' \<notin> set a" if "a \<in> set (split_on (CHR '','') c)" for a
      using split_on_no_sep_in_parts [OF that] set_split_on_subset [OF that] Cons.prems [of c]
      by (auto simp: compound_def)
    have flat: "(\<exists>e. fst (and_loop sub test gs as w) = Inl e) \<or>
        (\<exists>b. fst (and_loop sub test gs as w) = Inr (Some (gs, b)))"
      if "\<forall>a \<in> set as. \<not> compound a \<and> CHR ''@'' \<notin> set a" for as w
      using that
    proof (induction as arbitrary: w)
      case (Cons a as)
      with test [of a w] show ?case
        by (cases "test a w")
          (auto simp: bindM_def bindO_def op_simps resolve_clause_def split: sum.splits option.splits)
    qed (auto simp: op_simps)
    have "\<forall>a \<in> set (split_on (CHR '','') c). \<not> compound a \<and> CHR ''@'' \<notin> set a"
      using atoms by blast
    note flat [OF this, of w]
    moreover have "settles gs (fst (or_loop sub test failure gs cs w'))" for w'
      by (rule Cons.IH) (use Cons.prems in auto)
    note this [of "snd (and_loop sub test gs (split_on (CHR '','') c) w)"]
    ultimately show ?case
      by (cases "and_loop sub test gs (split_on (CHR '','') c) w")
        (auto simp: bindM_def bindO_def op_simps settles_def split: if_splits)
  qed
  note loop = this
  have "CHR ''|'' \<notin> set c \<and> CHR ''@'' \<notin> set c" if "c \<in> set (split_on (CHR ''|'') g)" for c
    using split_on_no_sep_in_parts [OF that] set_split_on_subset [OF that] no_at by auto
  from loop [OF this] show ?thesis
    by (simp add: take_groups_none no_paren Let_def)
qed

lemma split_and_test_terminates:
  assumes test: "\<And>c w. fst (test c w) \<noteq> Inr None"
    and v: "alternates False v" "CHR ''@'' \<notin> set v" and n: "count_list v (CHR ''('') \<le> n"
  shows "fst (split_and_test_clause (Suc (Suc n)) test [] v w) \<noteq> Inr None"
proof -
  have "\<exists>gs' c'. take_groups (Suc n) [] ([] @ v) = Some (Inr ([] @ gs', c')) \<and>
      list_all plain_group gs' \<and> CHR ''('' \<notin> set c'"
    by (rule take_groups_alternates) (use v n in simp_all)
  then obtain gs c where tg: "take_groups (Suc n) [] v = Some (Inr (gs, c))"
    and plain: "list_all plain_group gs"
    by auto
  have sub: "settles gs (fst (split_and_test_clause (Suc n) test gs g w))" if "g \<in> set gs" for g w
    by (rule split_group_settles) (use test plain that in \<open>auto simp: list_all_iff\<close>)
  have "settles gs (fst (or_loop (split_and_test_clause (Suc n) test) test
      (pattern_failure (split_on (CHR ''|'') c)) gs (split_on (CHR ''|'') c) w))"
    by (rule or_loop_settles) (use sub test in \<open>auto dest: split_on_no_sep_in_parts\<close>)
  then show ?thesis
    by (subst split_and_test_clause.simps) (auto simp: tg Let_def settles_def)
qed

lemma accepted_alternates:
  assumes "pattern_text_error (Some v) = None"
  shows "alternates False v" "CHR ''@'' \<notin> set v"
proof -
  have m: "pattern_matches v" using assms by (auto simp: pattern_text_error_def split: if_splits)
  have "\<not> pattern_char (CHR ''@'')" "newline \<noteq> CHR ''@''"
    by (simp_all add: pattern_char_def is_digit_char_def newline_def)
  then show "CHR ''@'' \<notin> set v"
    using m by (cases v rule: rev_cases) (auto simp: pattern_matches_def list_all_iff)
  show "alternates False v"
  proof (cases "CHR ''('' \<in> set v \<or> CHR '')'' \<in> set v")
    case True
    with assms have "nesting_ok 0 0 v" "count_list v (CHR ''('') = count_list v (CHR '')'')"
      by (auto simp: pattern_text_error_def split: if_splits)
    with nesting_ok_alternates [of 0 0 v] show ?thesis by simp
  next
    case False
    then show ?thesis by (induction v) auto
  qed
qed

subsection \<open>Meaning\<close>

text \<open>A pattern without parentheses is an \<open>or\<close> of \<open>and\<close>s of its clauses.\<close>

definition flat_sat :: "(string \<Rightarrow> bool) \<Rightarrow> string \<Rightarrow> bool" where
  "flat_sat T s \<longleftrightarrow>
     (\<exists>alt \<in> set (split_on (CHR ''|'') s). \<forall>c \<in> set (split_on (CHR '','') alt). T c)"

text \<open>The meaning of an \<open>and\<close> clause that may be the mark of a group.\<close>

definition clause_sat :: "(string \<Rightarrow> bool) \<Rightarrow> string list \<Rightarrow> string \<Rightarrow> bool" where
  "clause_sat T groups c = (case resolve_clause groups c of Inl _ \<Rightarrow> False | Inr c' \<Rightarrow> flat_sat T c')"

definition pattern_sat :: "(string \<Rightarrow> bool) \<Rightarrow> nat \<Rightarrow> string \<Rightarrow> bool" where
  "pattern_sat T fuel v = (case take_groups fuel [] v of
     Some (Inr (groups, clause)) \<Rightarrow>
       (\<exists>alt \<in> set (split_on (CHR ''|'') clause). \<forall>c \<in> set (split_on (CHR '','') alt).
          clause_sat T groups c)
   | _ \<Rightarrow> False)"

lemma flat_sat_atom: "\<not> compound c \<Longrightarrow> flat_sat T c \<longleftrightarrow> T c"
  by (simp add: flat_sat_def compound_def split_on_no_sep)

lemma and_loop_sound:
  assumes sub: "\<And>g w gs' w'. g \<in> set gs \<Longrightarrow> sub gs g w = (Inr (Some gs'), w') \<Longrightarrow> gs' = gs \<and> flat_sat T g"
    and test: "\<And>c w r w'. test c w = (Inr (Some r), w') \<Longrightarrow> fst r \<Longrightarrow> T c"
    and cs: "\<And>c. c \<in> set cs \<Longrightarrow> \<not> compound c"
    and run: "and_loop sub test gs cs w = (Inr (Some (gs', b)), w')"
  shows "gs' = gs \<and> (b \<longrightarrow> (\<forall>c \<in> set cs. clause_sat T gs c))"
  using cs run
proof (induction cs arbitrary: w)
  case Nil
  then show ?case by (simp add: op_simps)
next
  case (Cons c cs)
  from Cons.prems(2) obtain c' where c': "resolve_clause gs c = Inr c'"
    by (cases "resolve_clause gs c") (auto simp: bindM_def op_simps)
  show ?case
  proof (cases "compound c'")
    case True
    with resolve_clause_cases [OF c'] Cons.prems(1) have g: "c' \<in> set gs" by auto
    from Cons.prems(2) c' True obtain gs1 w1 where s: "sub gs c' w = (Inr (Some gs1), w1)"
      and r: "and_loop sub test gs1 cs w1 = (Inr (Some (gs', b)), w')"
      by (auto simp: bindM_def bindO_def op_simps split: prod.splits sum.splits option.splits)
    from sub [OF g s] have *: "gs1 = gs" "flat_sat T c'" by auto
    with Cons.IH [OF Cons.prems(1) [OF list.set_intros(2)], of w1] r c' show ?thesis
      by (auto simp: clause_sat_def)
  next
    case False
    from Cons.prems(2) c' False obtain ok m w1 where t: "test c' w = (Inr (Some (ok, m)), w1)"
      and r: "(if ok then and_loop sub test gs cs else ret (Some (gs, False))) w1
        = (Inr (Some (gs', b)), w')"
      by (auto simp: bindM_def bindO_def op_simps split: prod.splits sum.splits option.splits)
    show ?thesis
    proof (cases ok)
      case True
      with test [OF t] False c' have "clause_sat T gs c" by (simp add: clause_sat_def flat_sat_atom)
      with Cons.IH [OF Cons.prems(1) [OF list.set_intros(2)], of w1] r True show ?thesis by auto
    next
      case False
      with r show ?thesis by (auto simp: op_simps)
    qed
  qed
qed

lemma or_loop_sound:
  assumes sub: "\<And>g w gs' w'. g \<in> set gs \<Longrightarrow> sub gs g w = (Inr (Some gs'), w') \<Longrightarrow> gs' = gs \<and> flat_sat T g"
    and test: "\<And>c w r w'. test c w = (Inr (Some r), w') \<Longrightarrow> fst r \<Longrightarrow> T c"
    and cs: "\<And>c. c \<in> set cs \<Longrightarrow> CHR ''|'' \<notin> set c"
    and run: "or_loop sub test failure gs cs w = (Inr (Some gs'), w')"
  shows "gs' = gs \<and> (\<exists>alt \<in> set cs. \<forall>c \<in> set (split_on (CHR '','') alt). clause_sat T gs c)"
  using cs run
proof (induction cs arbitrary: w)
  case Nil
  then show ?case by (simp add: op_simps)
next
  case (Cons c cs)
  have atoms: "\<not> compound a" if "a \<in> set (split_on (CHR '','') c)" for a
    using split_on_no_sep_in_parts [OF that] set_split_on_subset [OF that] Cons.prems(1) [of c]
    by (auto simp: compound_def)
  from Cons.prems(2) obtain gs1 b w1
    where a: "and_loop sub test gs (split_on (CHR '','') c) w = (Inr (Some (gs1, b)), w1)"
      and r: "(if b then ret (Some gs1) else or_loop sub test failure gs1 cs) w1 = (Inr (Some gs'), w')"
    by (auto simp: bindM_def bindO_def op_simps split: prod.splits sum.splits option.splits)
  have "gs1 = gs \<and> (b \<longrightarrow> (\<forall>a \<in> set (split_on (CHR '','') c). clause_sat T gs a))"
    by (rule and_loop_sound [where sub = sub and test = test, OF _ _ _ a])
      (use sub test atoms in \<open>blast+\<close>)
  with r Cons.IH [OF Cons.prems(1) [OF list.set_intros(2)], of w1] show ?case
    by (cases b) (auto simp: op_simps)
qed

lemma clause_sat_plain: "CHR ''@'' \<notin> set c \<Longrightarrow> clause_sat T gs c \<longleftrightarrow> flat_sat T c"
  by (simp add: clause_sat_def resolve_clause_def)

lemma split_flat_sound:
  assumes test: "\<And>c w r w'. test c w = (Inr (Some r), w') \<Longrightarrow> fst r \<Longrightarrow> T c" and g: "plain_group g"
    and run: "split_and_test_clause n test gs g w = (Inr (Some gs'), w')"
  shows "gs' = gs \<and> flat_sat T g"
proof -
  have atom: "\<not> compound a \<and> CHR ''@'' \<notin> set a"
    if "c \<in> set (split_on (CHR ''|'') g)" "a \<in> set (split_on (CHR '','') c)" for a c
    using that g split_on_no_sep_in_parts [OF that(1)] split_on_no_sep_in_parts [OF that(2)]
      set_split_on_subset [OF that(1)] set_split_on_subset [OF that(2)]
    by (auto simp: compound_def plain_group_def)
  have flat: "gs' = gs \<and> (b \<longrightarrow> (\<forall>a \<in> set cs. T a))"
    if "\<forall>a \<in> set cs. \<not> compound a \<and> CHR ''@'' \<notin> set a"
      "and_loop sub test gs cs w = (Inr (Some (gs', b)), w')" for cs sub b gs gs' w w'
    using that
  proof (induction cs arbitrary: w)
    case (Cons a cs)
    then show ?case
      using test [of a w]
      by (auto simp: bindM_def bindO_def op_simps resolve_clause_def
          split: prod.splits sum.splits option.splits if_splits)
  qed (simp add: op_simps)
  have orl: "gs' = gs \<and> (\<exists>c \<in> set cs. \<forall>a \<in> set (split_on (CHR '','') c). T a)"
    if "\<forall>c \<in> set cs. \<forall>a \<in> set (split_on (CHR '','') c). \<not> compound a \<and> CHR ''@'' \<notin> set a"
      "or_loop sub test failure gs cs w = (Inr (Some gs'), w')" for cs sub failure gs gs' w w'
    using that
  proof (induction cs arbitrary: w)
    case (Cons c cs)
    from Cons.prems(2) obtain gs1 b w1
      where a: "and_loop sub test gs (split_on (CHR '','') c) w = (Inr (Some (gs1, b)), w1)"
        and r: "(if b then ret (Some gs1) else or_loop sub test failure gs1 cs) w1 = (Inr (Some gs'), w')"
      by (auto simp: bindM_def bindO_def op_simps split: prod.splits sum.splits option.splits)
    from flat [OF _ a] Cons.prems(1) have "gs1 = gs \<and> (b \<longrightarrow> (\<forall>a \<in> set (split_on (CHR '','') c). T a))"
      by simp
    with r Cons.IH [of w1] Cons.prems(1) show ?case by (cases b) (auto simp: op_simps)
  qed (simp add: op_simps)
  from g have "CHR ''('' \<notin> set g" by (simp add: plain_group_def)
  then obtain m sub failure where "or_loop sub test failure gs (split_on (CHR ''|'') g) w = (Inr (Some gs'), w')"
    using run by (cases n) (auto simp: op_simps take_groups_none Let_def)
  from orl [OF _ this] atom show ?thesis by (auto simp: flat_sat_def)
qed

lemma split_and_test_sound:
  assumes test: "\<And>c w r w'. test c w = (Inr (Some r), w') \<Longrightarrow> fst r \<Longrightarrow> T c"
    and v: "alternates False v" "CHR ''@'' \<notin> set v" "count_list v (CHR ''('') \<le> n"
    and run: "split_and_test_clause (Suc n) test [] v w = (Inr (Some gs'), w')"
  shows "pattern_sat T n v"
proof -
  have "\<exists>gs' c'. take_groups n [] ([] @ v) = Some (Inr ([] @ gs', c')) \<and>
      list_all plain_group gs' \<and> CHR ''('' \<notin> set c'"
    by (rule take_groups_alternates) (use v in simp_all)
  then obtain gs c where tg: "take_groups n [] v = Some (Inr (gs, c))"
    and plain: "list_all plain_group gs"
    by auto
  have run': "or_loop (split_and_test_clause n test) test (pattern_failure (split_on (CHR ''|'') c)) gs
      (split_on (CHR ''|'') c) w = (Inr (Some gs'), w')"
    using run by (simp add: tg Let_def)
  have sub: "gs' = gs \<and> flat_sat T g"
    if "g \<in> set gs" "split_and_test_clause n test gs g w = (Inr (Some gs'), w')" for g w gs' w'
    using split_flat_sound [OF test _ that(2)] plain that(1) by (auto simp: list_all_iff)
  have "gs' = gs \<and> (\<exists>alt \<in> set (split_on (CHR ''|'') c). \<forall>a \<in> set (split_on (CHR '','') alt).
      clause_sat T gs a)"
    by (rule or_loop_sound [where test = test, OF _ _ _ run'])
      (use sub test split_on_no_sep_in_parts in \<open>blast+\<close>)
  then show ?thesis by (simp add: pattern_sat_def tg)
qed

text \<open>Without parentheses, with a test of the clauses that always answers, the verdict is exact.\<close>

lemma split_flat_exact:
  assumes test: "\<And>c w. test c w = (Inr (Some (t c)), w)" and g: "plain_group g"
  shows "split_and_test_clause (Suc n) test gs g w =
    (if flat_sat (\<lambda>c. fst (t c)) g then Inr (Some gs)
     else Inl (pattern_failure (split_on (CHR ''|'') g)), w)"
proof -
  have atom: "\<not> compound a \<and> CHR ''@'' \<notin> set a"
    if "c \<in> set (split_on (CHR ''|'') g)" "a \<in> set (split_on (CHR '','') c)" for a c
    using that g split_on_no_sep_in_parts [OF that(1)] split_on_no_sep_in_parts [OF that(2)]
      set_split_on_subset [OF that(1)] set_split_on_subset [OF that(2)]
    by (auto simp: compound_def plain_group_def)
  have flat: "and_loop sub test gs cs w = (Inr (Some (gs, \<forall>a \<in> set cs. fst (t a))), w)"
    if "\<forall>a \<in> set cs. \<not> compound a \<and> CHR ''@'' \<notin> set a" for cs sub
    using that
    by (induction cs) (auto simp: bindM_def bindO_def op_simps resolve_clause_def test split: prod.splits)
  have orl: "or_loop sub test failure gs cs w =
      (if \<exists>c \<in> set cs. \<forall>a \<in> set (split_on (CHR '','') c). fst (t a) then Inr (Some gs) else Inl failure, w)"
    if "\<forall>c \<in> set cs. \<forall>a \<in> set (split_on (CHR '','') c). \<not> compound a \<and> CHR ''@'' \<notin> set a" for cs sub failure
    using that
  proof (induction cs)
    case (Cons c cs)
    then show ?case by (auto simp: bindO_def bindM_def flat op_simps)
  qed (simp add: op_simps)
  from g have "CHR ''('' \<notin> set g" by (simp add: plain_group_def)
  then show ?thesis
    using orl [of "split_on (CHR ''|'') g"] atom by (auto simp: take_groups_none Let_def flat_sat_def)
qed

end
