(* ===== verification/Acl_Rules.thy ===== *)
theory Acl_Rules
  imports Activity Acl_Patterns Durations Config_Keys
begin

section \<open>Access control lists\<close>

text \<open>
  \<^verbatim>\<open>dino/validation/acl.py\<close> without the check of the configuration: the validators, the check of
  a new rule (\<open>is_acl_valid\<close>, \<open>validate_new_acl\<close>) and the decision on an action
  (\<open>validate_acl_for_action\<close>). The validators form a class hierarchy in the source and a datatype
  here; a call of a validator object is \<open>call_validator\<close>. The configuration is the dictionary
  under \<open>ConfigKeys.ACL\<close> after \<open>init_acl_validators\<close> has put the validator objects into it. The
  database is a record of the operations the validators use, each of which may change the
  state (it fills caches) and raise. \<open>None\<close> as a verdict stands for no verdict within the fuel
  of a custom pattern. Texts of messages that print a Python list are shortened.
\<close>

subsection \<open>Configuration, environment, database\<close>

datatype validator =
    AclIsAdmin
  | AclIsRoomOwner
  | AclIsSuperUser
  | AclPattern
  | AclDisallow
  | AclSameChannel
  | AclSameRoom
  | AclStrInCsv "string list option"
  | AclCsvInCsv "string list option"
  | AclRange

text \<open>The \<open>value\<close> of a validation: missing, the text of the file, or a validator object.\<close>

datatype conf_value = NoValue | TextValue string | ValidatorValue validator

record validation_conf =
  vc_type :: "string option"
  vc_value :: conf_value
  vc_default :: "string option"

record acl_config =
  ac_available :: "string list"
  ac_validation :: "(string \<times> validation_conf) list"
  ac_targets :: "(string \<times> (string \<times> (string \<times> string list) list) list) list"

record acl_env =
  ae_config :: acl_config
  ae_session :: "string \<Rightarrow> string option"

record 'w acl_db =
  ad_is_admin :: "string option \<Rightarrow> string option \<Rightarrow> ('w, bool) op"
  ad_is_owner :: "string option \<Rightarrow> string option \<Rightarrow> ('w, bool) op"
  ad_is_owner_channel :: "string option \<Rightarrow> string option \<Rightarrow> ('w, bool) op"
  ad_is_super_user :: "string option \<Rightarrow> ('w, bool) op"
  ad_is_global_moderator :: "string option \<Rightarrow> ('w, bool) op"
  ad_channel_for_room :: "string option \<Rightarrow> ('w, string) op"
  ad_room_contains :: "string \<Rightarrow> string \<Rightarrow> ('w, bool) op"

text \<open>\<open>all_acls['validation'][acl_type]['value']\<close> with the two lookups that can fail.\<close>

definition validator_of :: "acl_config \<Rightarrow> string \<Rightarrow> exc + conf_value" where
  "validator_of cfg acl_type = (case map_of (ac_validation cfg) acl_type of
     None \<Rightarrow> Inl KeyError
   | Some v \<Rightarrow> (case vc_value v of NoValue \<Rightarrow> Inl KeyError | x \<Rightarrow> Inr x))"

subsection \<open>The functions of utils that the decision uses\<close>

definition utils_is_admin :: "('w, 'x) acl_db_scheme \<Rightarrow> string option \<Rightarrow> string option \<Rightarrow> ('w, bool) op" where
  "utils_is_admin DB channel_id user_id =
     (if user_id = None then ret False else ad_is_admin DB channel_id user_id)"

definition utils_is_user_in_room ::
  "('w, 'x) acl_db_scheme \<Rightarrow> string option \<Rightarrow> string option \<Rightarrow> ('w, bool) op" where
  "utils_is_user_in_room DB user_id room_id = (case user_id of
     None \<Rightarrow> ret False
   | Some u \<Rightarrow> (case room_id of
       None \<Rightarrow> ret False
     | Some r \<Rightarrow> if blank r then ret False else ad_room_contains DB r u))"

subsection \<open>New values\<close>

definition quoted :: "string \<Rightarrow> string" where
  "quoted s = CHR 0x22 # s @ [CHR 0x22]"

definition csv_values :: "string option \<Rightarrow> string list option" where
  "csv_values csv = map_option (split_on (CHR '','')) csv"

definition validate_new_csv :: "string list option \<Rightarrow> string option \<Rightarrow> exc + unit" where
  "validate_new_csv valid_csvs values = (case valid_csvs of
     None \<Rightarrow> Inr ()
   | Some ok \<Rightarrow> (case values of
       None \<Rightarrow> Inr ()
     | Some v \<Rightarrow>
         if blank v then Inr ()
         else if list_all (\<lambda>x. x \<in> set ok) (split_on (CHR '','') v) then Inr ()
         else Inl (ValidationException (''new acl value(s) '' @ quoted v @ '' does not match configured possible value(s)''))))"

definition validate_new_range :: "string option \<Rightarrow> exc + unit" where
  "validate_new_range values = (case values of
     None \<Rightarrow> Inl (ValidationException ''blank range when creating AclRangeValidator'')
   | Some v \<Rightarrow>
       if blank v then Inl (ValidationException ''blank range when creating AclRangeValidator'')
       else (case split_max (CHR '':'') 1 v of
         [lo, hi] \<Rightarrow>
           (if lo \<noteq> '''' \<and> \<not> is_digit (Some lo)
            then Inl (ValidationException (''first value in range '' @ quoted v @ '' is not a number''))
            else if hi \<noteq> '''' \<and> \<not> is_digit (Some hi)
            then Inl (ValidationException (''last value in range '' @ quoted v @ '' is not a number''))
            else Inr ())
       | _ \<Rightarrow> Inl (ValidationException (''value not a range, no colon in value: '' @ quoted v @ ''''))))"

text \<open>
  \<open>_test_a_clause\<close>: the checks of the text of a clause, then either the call of its validator or
  the check of the value, which is what \<open>run\<close> stands for.
\<close>

definition test_a_clause :: "acl_config \<Rightarrow> (validator \<Rightarrow> string \<Rightarrow> string \<Rightarrow> bool \<Rightarrow> ('w, verdict option) op) \<Rightarrow>
    string \<Rightarrow> ('w, verdict option) op" where
  "test_a_clause cfg run clause =
     (case split_on (CHR ''='') clause of
        [_] \<Rightarrow> throw (ValidationException (''no equal sign in clause: '' @ clause))
      | [acl_type, acl_value] \<Rightarrow>
          (if map_of (ac_validation cfg) acl_type = None
           then throw (ValidationException (''invalid acl '' @ quoted acl_type @ '' in clause: '' @ clause))
           else if acl_type = ''custom''
           then throw (ValidationException (''nested custom acls not allowed in clause: '' @ clause))
           else if acl_value = '''' then throw IndexError
           else (let value_is_negated = (hd acl_value = CHR ''!'');
                     acl_value = (if value_is_negated then tl acl_value else acl_value)
                 in bindM (lift_result (validator_of cfg acl_type)) (\<lambda>v.
                    case v of
                      ValidatorValue validator_func \<Rightarrow> run validator_func acl_type acl_value value_is_negated
                    | _ \<Rightarrow> throw (ValidationException (''validator for acl type '' @ quoted acl_type @ '' is not of instance BaseAclValidator'')))))
      | _ \<Rightarrow> throw (ValidationException (''equal sign mismatch in clause: '' @ clause)))"

fun validate_new_acl :: "nat \<Rightarrow> acl_config \<Rightarrow> validator \<Rightarrow> string option \<Rightarrow> ('w, unit option) op" where
  "validate_new_acl fuel cfg (AclStrInCsv csvs) values =
     bindM (lift_result (validate_new_csv csvs values)) (\<lambda>_. ret (Some ()))"
| "validate_new_acl fuel cfg (AclCsvInCsv csvs) values =
     bindM (lift_result (validate_new_csv csvs values)) (\<lambda>_. ret (Some ()))"
| "validate_new_acl fuel cfg AclRange values =
     bindM (lift_result (validate_new_range values)) (\<lambda>_. ret (Some ()))"
| "validate_new_acl fuel cfg AclPattern values =
     (case pattern_text_error values of
        Some msg \<Rightarrow> throw (ValidationException msg)
      | None \<Rightarrow>
          (case fuel of
             0 \<Rightarrow> ret None
           | Suc n \<Rightarrow>
               bindO (split_and_test_clause n
                        (test_a_clause cfg (\<lambda>v acl_type acl_value negated.
                           bindO (validate_new_acl n cfg v (Some acl_value)) (\<lambda>_. ret (Some valid))))
                        [] (the values))
                 (\<lambda>_. ret (Some ()))))"
| "validate_new_acl fuel cfg validator values = ret (Some ())"

text \<open>\<open>AclValidator.is_acl_valid\<close>, which the admin interface calls; a blank value removes the rule.\<close>

definition is_acl_valid :: "nat \<Rightarrow> acl_config \<Rightarrow> string \<Rightarrow> string option \<Rightarrow> ('w, verdict option) op" where
  "is_acl_valid fuel cfg acl_type acl_value =
     (if map_of (ac_validation cfg) acl_type = None
      then ret (Some (invalid (''acl type '' @ quoted acl_type @ '' does not have a validator'')))
      else bindM (lift_result (validator_of cfg acl_type)) (\<lambda>v.
        case v of
          ValidatorValue validator_func \<Rightarrow>
            (if none_or_blank acl_value then ret (Some valid)
             else catchM (bindO (validate_new_acl fuel cfg validator_func acl_value)
                            (\<lambda>_. ret (Some valid)))
                    (\<lambda>e. case e of ValidationException msg \<Rightarrow> Some (ret (Some (invalid msg))) | _ \<Rightarrow> None))
        | _ \<Rightarrow> ret (Some (invalid (''validator for acl type '' @ quoted acl_type @ '' is not of instance BaseAclValidator'')))))"

subsection \<open>Calling a validator\<close>

definition call_is_admin :: "('w, 'x) acl_db_scheme \<Rightarrow> activity \<Rightarrow> bool \<Rightarrow> ('w, verdict) op" where
  "call_is_admin DB activity negated =
     bindM (read_attr (av_actor activity) en_id) (\<lambda>user_id.
     bindM (read_attr (av_object activity) en_url) (\<lambda>channel_id.
     bindM (ad_is_admin DB channel_id user_id) (\<lambda>b.
     ret (if negated then (if \<not> b then valid else invalid ''is admin (ACL negated)'')
          else if b then valid else invalid ''not admin''))))"

definition call_is_room_owner :: "('w, 'x) acl_db_scheme \<Rightarrow> activity \<Rightarrow> bool \<Rightarrow> ('w, verdict) op" where
  "call_is_room_owner DB activity negated =
     bindM (read_attr (av_actor activity) en_id) (\<lambda>user_id.
     bindM (read_attr (av_target activity) en_id) (\<lambda>room_id.
     bindM (ad_is_owner DB room_id user_id) (\<lambda>b.
     ret (if negated then (if \<not> b then valid else invalid ''is owner (ACL negated)'')
          else if b then valid else invalid ''not owner''))))"

definition call_is_super_user :: "('w, 'x) acl_db_scheme \<Rightarrow> activity \<Rightarrow> bool \<Rightarrow> ('w, verdict) op" where
  "call_is_super_user DB activity negated =
     bindM (read_attr (av_actor activity) en_id) (\<lambda>user_id.
     bindM (ad_is_super_user DB user_id) (\<lambda>b.
     ret (if negated then (if \<not> b then valid else invalid ''is super user (ACL negated)'')
          else if b then valid else invalid ''not super user'')))"

definition call_same_channel :: "activity \<Rightarrow> bool \<Rightarrow> ('w, verdict) op" where
  "call_same_channel activity negated =
     bindM (read_attr (av_provider activity) en_url) (\<lambda>origin.
     if none_or_blank origin then ret (invalid ''no origin channel uuid in actor.url'')
     else bindM (read_attr (av_object activity) en_url) (\<lambda>target.
       if none_or_blank target then ret (invalid ''no target channel uuid in object.url'')
       else ret (if negated then (if origin \<noteq> target then valid
                                  else invalid ''channels are the same (negated ACL)'')
                 else if origin = target then valid else invalid ''channels are not the same'')))"

definition call_same_room :: "('w, 'x) acl_db_scheme \<Rightarrow> activity \<Rightarrow> bool \<Rightarrow> ('w, verdict) op" where
  "call_same_room DB activity negated =
     bindM (read_attr (av_actor activity) en_url) (\<lambda>origin.
     if none_or_blank origin then ret (invalid ''no origin room uuid in actor.url'')
     else bindM (read_attr (av_target activity) en_id) (\<lambda>target.
       if none_or_blank target then ret (invalid ''no target room uuid in object.url'')
       else bindM (read_attr (av_actor activity) en_id) (\<lambda>user_id.
         bindM (utils_is_user_in_room DB user_id target) (\<lambda>inside.
         ret (if \<not> inside then invalid ''user is not in room, not allowed''
              else if negated then (if origin \<noteq> target then valid
                                    else invalid ''rooms are the same (negated ACL)'')
              else if origin = target then valid else invalid ''rooms are not the same'')))))"

definition call_str_in_csv ::
  "(string \<Rightarrow> string option) \<Rightarrow> string \<Rightarrow> string \<Rightarrow> bool \<Rightarrow> verdict" where
  "call_str_in_csv session acl_type acl_values negated =
     (if strip acl_values = '''' then valid
      else (let vs = split_on (CHR '','') acl_values
            in case session acl_type of
                 None \<Rightarrow> invalid (''no session value for acl'' @ quoted acl_type @ '''')
               | Some v \<Rightarrow>
                   if negated
                   then (if v \<in> set vs
                         then invalid (''session value '' @ v @ '' is in non-allowed (ACL negated) values ['' @
                                join_on (CHR '','') vs @ '']'')
                         else valid)
                   else if v \<notin> set vs
                   then invalid (''session value '' @ v @ '' not in allowed values ['' @
                          join_on (CHR '','') vs @ '']'')
                   else valid))"

definition call_csv_in_csv ::
  "(string \<Rightarrow> string option) \<Rightarrow> string \<Rightarrow> string \<Rightarrow> bool \<Rightarrow> verdict" where
  "call_csv_in_csv session acl_type acl_values negated =
     (if strip acl_values = '''' then valid
      else (let vs = split_on (CHR '','') acl_values
            in case session acl_type of
                 None \<Rightarrow> invalid (''no session values for acl'' @ quoted acl_type @ '''')
               | Some sv \<Rightarrow>
                   (let own = filter (\<lambda>x. \<not> blank x) (split_on (CHR '','') sv)
                    in if negated
                       then (case find (\<lambda>x. x \<in> set vs) own of
                               Some x \<Rightarrow> invalid (''session value '' @ x @
                                 '' is in non-allowed (ACL negated) values ['' @ join_on (CHR '','') vs @ '']'')
                             | None \<Rightarrow> valid)
                       else if \<exists>x \<in> set own. lower x \<in> set vs then valid
                       else invalid (''session values ['' @ sv @ ''] not in allowed values ['' @
                              join_on (CHR '','') vs @ '']''))))"

text \<open>One end of a range: nothing, or a number.\<close>

definition range_end :: "string \<Rightarrow> exc + int option" where
  "range_end s = (if s = '''' then Inr None
     else (case py_int s of None \<Rightarrow> Inl ValueError | Some k \<Rightarrow> Inr (Some k)))"

definition range_verdict :: "int option \<Rightarrow> int option \<Rightarrow> int \<Rightarrow> bool \<Rightarrow> verdict" where
  "range_verdict lo hi v negated =
     (if negated
      then (case (lo, hi) of
              (Some a, Some b) \<Rightarrow> if a \<le> v \<and> v \<le> b then invalid ''value withing range (ACL negated)'' else valid
            | (Some a, None) \<Rightarrow> if a \<le> v then invalid ''value too high'' else valid
            | (None, Some b) \<Rightarrow> if b \<ge> v then invalid ''value too low'' else valid
            | (None, None) \<Rightarrow> valid)
      else (case lo of
              Some a \<Rightarrow> if a > v then invalid ''value too low''
                else (case hi of Some b \<Rightarrow> if b < v then invalid ''value too high'' else valid | None \<Rightarrow> valid)
            | None \<Rightarrow> (case hi of Some b \<Rightarrow> if b < v then invalid ''value too high'' else valid | None \<Rightarrow> valid)))"

definition call_range ::
  "(string \<Rightarrow> string option) \<Rightarrow> string \<Rightarrow> string \<Rightarrow> bool \<Rightarrow> exc + verdict" where
  "call_range session acl_type acl_range negated =
     (if blank acl_range then Inr (invalid ''blank range when creating AclRangeValidator'')
      else (case split_max (CHR '':'') 1 acl_range of
        [l, h] \<Rightarrow>
          (case range_end l of
             Inl e \<Rightarrow> Inl e
           | Inr lo \<Rightarrow>
               (case range_end h of
                  Inl e \<Rightarrow> Inl e
                | Inr hi \<Rightarrow>
                    (case session acl_type of
                       None \<Rightarrow> Inr (invalid ''blank value in AclRangeValidator'')
                     | Some sv \<Rightarrow>
                         if blank sv then Inr (invalid ''blank value in AclRangeValidator'')
                         else (case py_int sv of
                             None \<Rightarrow> Inr (invalid (''session value '' @ quoted sv @ '' is not a valid number''))
                           | Some v \<Rightarrow> Inr (range_verdict lo hi v negated)))))
      | _ \<Rightarrow> Inl ValueError))"

text \<open>
  A call with the session to use as the last argument; a call from a pattern has none, so its
  clauses read the session of the environment. \<open>AclRangeValidator\<close> always reads the latter.
\<close>

fun call_validator :: "nat \<Rightarrow> ('w, 'x) acl_db_scheme \<Rightarrow> acl_env \<Rightarrow> activity \<Rightarrow> (string \<Rightarrow> string option) \<Rightarrow>
    validator \<Rightarrow> string \<Rightarrow> string \<Rightarrow> bool \<Rightarrow> ('w, verdict option) op" where
  "call_validator fuel DB env activity session AclIsAdmin t v negated =
     bindM (call_is_admin DB activity negated) (\<lambda>r. ret (Some r))"
| "call_validator fuel DB env activity session AclIsRoomOwner t v negated =
     bindM (call_is_room_owner DB activity negated) (\<lambda>r. ret (Some r))"
| "call_validator fuel DB env activity session AclIsSuperUser t v negated =
     bindM (call_is_super_user DB activity negated) (\<lambda>r. ret (Some r))"
| "call_validator fuel DB env activity session AclPattern t v negated =
     (case fuel of
        0 \<Rightarrow> ret None
      | Suc n \<Rightarrow>
          catchM (bindO (split_and_test_clause n
                    (test_a_clause (ae_config env)
                       (call_validator n DB env activity (ae_session env))) [] v)
                  (\<lambda>_. ret (Some valid)))
            (\<lambda>e. case e of ValidationException msg \<Rightarrow> Some (ret (Some (invalid msg))) | _ \<Rightarrow> None))"
| "call_validator fuel DB env activity session AclDisallow t v negated = ret (Some (invalid ''not allowed''))"
| "call_validator fuel DB env activity session AclSameChannel t v negated =
     bindM (call_same_channel activity negated) (\<lambda>r. ret (Some r))"
| "call_validator fuel DB env activity session AclSameRoom t v negated =
     bindM (call_same_room DB activity negated) (\<lambda>r. ret (Some r))"
| "call_validator fuel DB env activity session (AclStrInCsv csvs) t v negated =
     ret (Some (call_str_in_csv session t v negated))"
| "call_validator fuel DB env activity session (AclCsvInCsv csvs) t v negated =
     ret (Some (call_csv_in_csv session t v negated))"
| "call_validator fuel DB env activity session AclRange t v negated =
     bindM (lift_result (call_range (ae_session env) t v negated)) (\<lambda>r. ret (Some r))"

subsection \<open>The decision on an action\<close>

text \<open>The loop over the rules of the target that the configuration lists for the action.\<close>

fun check_rules :: "nat \<Rightarrow> ('w, 'x) acl_db_scheme \<Rightarrow> acl_env \<Rightarrow> activity \<Rightarrow> (string \<Rightarrow> string option) \<Rightarrow>
    (string \<times> string) list \<Rightarrow> string list \<Rightarrow> ('w, verdict option) op" where
  "check_rules fuel DB env activity session target_acls [] = ret (Some valid)"
| "check_rules fuel DB env activity session target_acls (acl # acls) =
     (case map_of target_acls acl of
        None \<Rightarrow> check_rules fuel DB env activity session target_acls acls
      | Some value \<Rightarrow>
          bindM (lift_result (validator_of (ae_config env) acl)) (\<lambda>f.
          case f of
            ValidatorValue is_valid_func \<Rightarrow>
              bindO (call_validator fuel DB env activity session is_valid_func acl value False) (\<lambda>(is_valid, msg).
              if \<not> is_valid
              then ret (Some (invalid (''acl '' @ quoted acl @ '' did not validate for target acl '' @ quoted value @ '': '' @ fmt msg)))
              else check_rules fuel DB env activity session target_acls acls)
          | _ \<Rightarrow> throw TypeError))"

definition possible_acls :: "acl_config \<Rightarrow> string \<Rightarrow> string \<Rightarrow> (string \<times> string list) list" where
  "possible_acls cfg target action = (case map_of (ac_targets cfg) target of
     None \<Rightarrow> [] | Some actions \<Rightarrow> (case map_of actions action of None \<Rightarrow> [] | Some rules \<Rightarrow> rules))"

definition rule_values :: "(string \<times> string list) list \<Rightarrow> string list" where
  "rule_values rules = concat (map snd (filter (\<lambda>(rule, _). rule = ''acls'') rules))"

definition target_type_missing :: "activity \<Rightarrow> bool" where
  "target_type_missing activity =
     (case av_target activity of
        None \<Rightarrow> True
      | Some t \<Rightarrow> (case en_object_type t of Text s \<Rightarrow> blank s | _ \<Rightarrow> True))"

definition validate_acl_for_action ::
  "nat \<Rightarrow> ('w, 'x) acl_db_scheme \<Rightarrow> acl_env \<Rightarrow> activity \<Rightarrow> string \<Rightarrow> string \<Rightarrow> (string \<times> string) list option \<Rightarrow>
   string option \<Rightarrow> (string \<Rightarrow> string option) option \<Rightarrow> string option \<Rightarrow> ('w, verdict option) op" where
  "validate_acl_for_action fuel DB env activity target action target_acls target_id session_to_use channel_id =
     (let session = (case session_to_use of None \<Rightarrow> ae_session env | Some s \<Rightarrow> s);
          rules = possible_acls (ae_config env) target action
      in if target_type_missing activity then ret (Some (invalid ''target.objectType must not be none''))
      else
        bindM (case target_id of None \<Rightarrow> read_attr (av_target activity) en_id | Some i \<Rightarrow> ret (Some i)) (\<lambda>target_id.
        bindM (read_attr (av_actor activity) en_id) (\<lambda>user_id.
        bindM (if target = target_room then bindM (ad_channel_for_room DB target_id) (\<lambda>c. ret (Some c))
               else (case channel_id of None \<Rightarrow> read_attr (av_object activity) en_url | Some c \<Rightarrow> ret (Some c)))
          (\<lambda>channel_id.
        bindM (utils_is_admin DB channel_id user_id) (\<lambda>adm.
        if adm then ret (Some valid) else
        bindM (ad_is_super_user DB user_id) (\<lambda>su.
        if su then ret (Some valid) else
        bindM (ad_is_global_moderator DB user_id) (\<lambda>gm.
        if gm then ret (Some valid)
        else if rules = [] then ret (Some valid) else
        bindM (ad_is_owner_channel DB channel_id user_id) (\<lambda>oc.
        if oc then ret (Some valid) else
        bindM (if target = target_channel then ret False
               else if target = target_room then ad_is_owner DB target_id user_id
               else ret False) (\<lambda>ow.
        if ow then ret (Some valid)
        else (case target_acls of
            None \<Rightarrow> ret (Some valid)
          | Some acls \<Rightarrow>
              if acls = [] then ret (Some valid)
              else check_rules fuel DB env activity session acls (rule_values rules)))))))))))"

end
