(* ===== verification/Db_Acls.thy ===== *)
theory Db_Acls
  imports Db_Roles Acl_Rules
begin

section \<open>The Redis database: access control lists\<close>

text \<open>
  Third part of \<open>DatabaseRedis\<close>: the rules of rooms and channels, kept in a hash under the field
  \<open>action|type\<close>. A new value is checked by its validator before anything is written.
\<close>

definition acl_field :: "string \<Rightarrow> string \<Rightarrow> string" where
  "acl_field action acl_type = action @ ''|'' @ acl_type"

subsection \<open>Adding and deleting\<close>

text \<open>The loop that checks the new rules and collects the fields to write.\<close>

fun dr_check_acls :: "nat \<Rightarrow> acl_config \<Rightarrow> string \<Rightarrow> (string \<times> string) list \<Rightarrow>
    ('w, (string \<times> string) list option) op" where
  "dr_check_acls fuel cfg action [] = ret (Some [])"
| "dr_check_acls fuel cfg action ((acl_type, acl_value) # acls) =
     (if acl_type \<notin> set (ac_available cfg) then throw (InvalidAclTypeException acl_type)
      else bindM (lift_result (validator_of cfg acl_type)) (\<lambda>v.
        bindO (case v of ValidatorValue f \<Rightarrow> validate_new_acl fuel cfg f (Some acl_value)
               | _ \<Rightarrow> throw AttributeError) (\<lambda>_.
        bindO (dr_check_acls fuel cfg action acls) (\<lambda>rest.
        ret (Some ((acl_field action acl_type, acl_value) # rest))))))"

definition dr_write_acls :: "('s, 'c) denv \<Rightarrow> string \<Rightarrow> (string \<times> string) list \<Rightarrow> (('s, 'c) dbw, unit option) op" where
  "dr_write_acls E key new_acls =
     (if new_acls = [] then ret (Some ()) else thenM (d_hmset E key new_acls) (ret (Some ())))"

definition dr_add_acls_in_channel_for_action :: "nat \<Rightarrow> acl_config \<Rightarrow> ('s, 'c) denv \<Rightarrow> string \<Rightarrow> string \<Rightarrow>
    (string \<times> string) list \<Rightarrow> (('s, 'c) dbw, unit option) op" where
  "dr_add_acls_in_channel_for_action fuel cfg E channel_id action acls =
     bindM (dr_channel_exists E (Some channel_id)) (\<lambda>known.
     if \<not> known then throw (NoSuchChannelException channel_id)
     else if action \<notin> set all_api_actions then throw (InvalidApiActionException action)
     else bindO (dr_check_acls fuel cfg action acls) (dr_write_acls E (rk_channel_acl channel_id)))"

definition dr_add_acls_in_room_for_action :: "nat \<Rightarrow> acl_config \<Rightarrow> ('s, 'c) denv \<Rightarrow> string \<Rightarrow> string \<Rightarrow>
    (string \<times> string) list \<Rightarrow> (('s, 'c) dbw, unit option) op" where
  "dr_add_acls_in_room_for_action fuel cfg E room_id action acls =
     thenM (dr_channel_for_room E (Some room_id))
     (if action \<notin> set all_api_actions then throw (InvalidApiActionException action)
      else bindO (dr_check_acls fuel cfg action acls) (dr_write_acls E (rk_room_acl room_id)))"

definition dr_update_acl_in_room_for_action :: "nat \<Rightarrow> acl_config \<Rightarrow> ('s, 'c) denv \<Rightarrow> string \<Rightarrow> string \<Rightarrow>
    string \<Rightarrow> string \<Rightarrow> string \<Rightarrow> (('s, 'c) dbw, unit option) op" where
  "dr_update_acl_in_room_for_action fuel cfg E channel_id room_id action acl_type acl_value =
     bindM (dr_channel_exists E (Some channel_id)) (\<lambda>known.
     if \<not> known then throw (NoSuchChannelException channel_id)
     else bindM (dr_room_exists E channel_id room_id) (\<lambda>known.
       if \<not> known then throw (NoSuchRoomException room_id)
       else dr_add_acls_in_room_for_action fuel cfg E room_id action [(acl_type, acl_value)]))"

definition dr_update_acl_in_channel_for_action :: "nat \<Rightarrow> acl_config \<Rightarrow> ('s, 'c) denv \<Rightarrow> string \<Rightarrow>
    string \<Rightarrow> string \<Rightarrow> string \<Rightarrow> (('s, 'c) dbw, unit option) op" where
  "dr_update_acl_in_channel_for_action fuel cfg E channel_id action acl_type acl_value =
     dr_add_acls_in_channel_for_action fuel cfg E channel_id action [(acl_type, acl_value)]"

definition dr_delete_acl_in_room_for_action ::
  "('s, 'c) denv \<Rightarrow> string \<Rightarrow> string \<Rightarrow> string \<Rightarrow> (('s, 'c) dbw, unit) op" where
  "dr_delete_acl_in_room_for_action E room_id acl_type action =
     thenM (dr_get_room_name E room_id)
     (thenM (dr_channel_for_room E (Some room_id))
     (if action \<notin> set all_api_actions then throw (InvalidApiActionException action)
      else d_hdel E (rk_room_acl room_id) (acl_field action acl_type)))"

definition dr_delete_acl_in_channel_for_action ::
  "('s, 'c) denv \<Rightarrow> string \<Rightarrow> string \<Rightarrow> string \<Rightarrow> (('s, 'c) dbw, unit) op" where
  "dr_delete_acl_in_channel_for_action E channel_id acl_type action =
     bindM (dr_channel_exists E (Some channel_id)) (\<lambda>known.
     if \<not> known then throw (NoSuchChannelException channel_id)
     else if action \<notin> set all_api_actions then throw (InvalidApiActionException action)
     else d_hdel E (rk_channel_acl channel_id) (acl_field action acl_type))"

subsection \<open>Reading\<close>

text \<open>\<open>acl_action, acl_type = key.split('|', 1)\<close>.\<close>

definition split_acl_field :: "string \<Rightarrow> exc + string \<times> string" where
  "split_acl_field key = (case split_max (CHR ''|'') 1 key of
     [acl_action, acl_type] \<Rightarrow> Inr (acl_action, acl_type) | _ \<Rightarrow> Inl ValueError)"

fun acls_for_action :: "string \<Rightarrow> (string \<times> string) list \<Rightarrow> exc + (string \<times> string) list" where
  "acls_for_action action [] = Inr []"
| "acls_for_action action ((key, value) # acls) =
     (case split_acl_field key of
        Inl e \<Rightarrow> Inl e
      | Inr (acl_action, acl_type) \<Rightarrow>
          (case acls_for_action action acls of
             Inl e \<Rightarrow> Inl e
           | Inr rest \<Rightarrow> Inr (if acl_action \<noteq> action then rest else (acl_type, value) # rest)))"

definition dr_get_acls_in_room_for_action ::
  "('s, 'c) denv \<Rightarrow> string \<Rightarrow> string \<Rightarrow> (('s, 'c) dbw, (string \<times> string) list) op" where
  "dr_get_acls_in_room_for_action E room_id action =
     thenM (dr_get_room_name E room_id)
     (thenM (dr_channel_for_room E (Some room_id))
     (bindM (d_hgetall E (rk_room_acl room_id)) (\<lambda>acls. lift_result (acls_for_action action acls))))"

definition dr_get_acls_in_channel_for_action ::
  "('s, 'c) denv \<Rightarrow> string \<Rightarrow> string \<Rightarrow> (('s, 'c) dbw, (string \<times> string) list) op" where
  "dr_get_acls_in_channel_for_action E channel_id action =
     thenM (dr_get_channel_name E channel_id)
     (bindM (d_hgetall E (rk_channel_acl channel_id)) (\<lambda>acls. lift_result (acls_for_action action acls)))"

fun group_acls :: "(string \<times> (string \<times> string) list) list \<Rightarrow> (string \<times> string) list \<Rightarrow>
    exc + (string \<times> (string \<times> string) list) list" where
  "group_acls out [] = Inr out"
| "group_acls out ((key, value) # acls) =
     (case split_acl_field key of
        Inl e \<Rightarrow> Inl e
      | Inr (acl_action, acl_type) \<Rightarrow>
          group_acls (AList.update acl_action
            ((case map_of out acl_action of None \<Rightarrow> [] | Some vs \<Rightarrow> vs) @ [(acl_type, value)]) out) acls)"

definition dr_get_all_acls_channel ::
  "('s, 'c) denv \<Rightarrow> string \<Rightarrow> (('s, 'c) dbw, (string \<times> (string \<times> string) list) list) op" where
  "dr_get_all_acls_channel E channel_id =
     thenM (dr_get_channel_name E channel_id)
     (bindM (d_hgetall E (rk_channel_acl channel_id)) (\<lambda>acls. lift_result (group_acls [] acls)))"

definition dr_get_all_acls_room ::
  "('s, 'c) denv \<Rightarrow> string \<Rightarrow> (('s, 'c) dbw, (string \<times> (string \<times> string) list) list) op" where
  "dr_get_all_acls_room E room_id =
     thenM (dr_get_room_name E room_id)
     (thenM (dr_channel_for_room E (Some room_id))
     (bindM (d_hgetall E (rk_room_acl room_id)) (\<lambda>acls. lift_result (group_acls [] acls))))"

text \<open>
  \<open>get_acl_validation_value\<close> reads another Redis, \<open>environ.env.redis\<close>, which is an argument here.
\<close>

definition dr_get_acl_validation_value ::
  "(string \<Rightarrow> string \<Rightarrow> string option) \<Rightarrow> string option \<Rightarrow> string option \<Rightarrow> exc + string" where
  "dr_get_acl_validation_value env_redis_hget acl_type validation_method =
     (if none_or_blank acl_type then Inl (InvalidAclTypeException (fmt acl_type))
      else if none_or_blank validation_method
      then Inl (InvalidAclValueException (the acl_type) (fmt validation_method))
      else (case env_redis_hget (rk_acl_validations (the acl_type)) (the validation_method) of
          None \<Rightarrow> Inl (AclValueNotFoundException (the acl_type) (the validation_method))
        | Some value \<Rightarrow>
            if blank value then Inl (AclValueNotFoundException (the acl_type) (the validation_method))
            else Inr value))"

end
