(* ===== verification/Db_Bans.thy ===== *)
theory Db_Bans
  imports Db_Roles Durations Base64
begin

section \<open>The Redis database: bans and mutes\<close>

text \<open>
  Fourth part of \<open>DatabaseRedis\<close>: bans from everything, from a channel, from a room, kept in
  hashes as \<open>duration|timestamp|name\<close>, and mutes. \<open>now\<close> is \<open>datetime.utcnow()\<close> as a naive value
  in microseconds; a stored timestamp is read with \<open>datetime.fromtimestamp\<close>, which gives a naive
  local time.
\<close>

subsection \<open>Dates\<close>

definition min_datetime :: int where
  "min_datetime = - 62135596800000000"

text \<open>\<open>datetime.fromtimestamp\<close> raises \<open>ValueError\<close> for a year outside of 1 to 9999.\<close>

definition naive_from_timestamp :: "int \<Rightarrow> int \<Rightarrow> exc + int" where
  "naive_from_timestamp tz us =
     (let d = from_timestamp tz us
      in if d < min_datetime \<or> max_datetime < d then Inl ValueError else Inr d)"

text \<open>Year, month and day of a number of days from 1970-01-01 in the Gregorian calendar.\<close>

definition civil_date :: "int \<Rightarrow> int \<times> int \<times> int" where
  "civil_date days =
     (let z = days + 719468;
          era = z div 146097;
          doe = z mod 146097;
          yoe = (doe - doe div 1460 + doe div 36524 - doe div 146096) div 365;
          doy = doe - (365 * yoe + yoe div 4 - yoe div 100);
          mp = (5 * doy + 2) div 153;
          d = doy - (153 * mp + 2) div 5 + 1;
          m = (if mp < 10 then mp + 3 else mp - 9);
          y = yoe + era * 400 + (if m \<le> 2 then 1 else 0)
      in (y, m, d))"

definition pad2 :: "int \<Rightarrow> string" where
  "pad2 n = (if n < 10 then CHR ''0'' # str_int n else str_int n)"

text \<open>\<open>strftime(ConfigKeys.DEFAULT_DATE_FORMAT)\<close>, \<open>%Y-%m-%dT%H:%M:%SZ\<close>.\<close>

definition date_text :: "int \<Rightarrow> string" where
  "date_text us =
     (let secs = us div micro; (y, m, d) = civil_date (secs div 86400); s = secs mod 86400
      in str_int y @ ''-'' @ pad2 m @ ''-'' @ pad2 d @ ''T'' @ pad2 (s div 3600) @ '':'' @
         pad2 (s mod 3600 div 60) @ '':'' @ pad2 (s mod 60) @ ''Z'')"

subsection \<open>Texts of bans\<close>

definition ban_entry :: "string \<Rightarrow> string \<Rightarrow> string \<Rightarrow> string" where
  "ban_entry ban_duration ban_timestamp user_name =
     ban_duration @ ''|'' @ ban_timestamp @ ''|'' @ user_name"

text \<open>\<open>ban.split('|', 2)[1]\<close>.\<close>

definition ban_time :: "string \<Rightarrow> exc + string" where
  "ban_time ban = (case split_max (CHR ''|'') 2 ban of _ # t # _ \<Rightarrow> Inr t | _ \<Rightarrow> Inl IndexError)"

subsection \<open>Banning\<close>

text \<open>The name of the user, or the empty text.\<close>

definition dr_name_or_blank :: "('s, 'c) denv \<Rightarrow> string \<Rightarrow> (('s, 'c) dbw, string) op" where
  "dr_name_or_blank E user_id =
     catchM (dr_get_user_name E user_id)
       (\<lambda>e. case e of NoSuchUserException _ \<Rightarrow> Some (ret []) | _ \<Rightarrow> None)"

definition dr_ban_user_global ::
  "('s, 'c) denv \<Rightarrow> string \<Rightarrow> string \<Rightarrow> string \<Rightarrow> (('s, 'c) dbw, unit) op" where
  "dr_ban_user_global E user_id ban_timestamp ban_duration =
     bindM (dr_name_or_blank E user_id) (\<lambda>user_name.
     d_hset E (rk_banned_users None) user_id (ban_entry ban_duration ban_timestamp user_name))"

definition dr_ban_user_room ::
  "('s, 'c) denv \<Rightarrow> string \<Rightarrow> string \<Rightarrow> string \<Rightarrow> string \<Rightarrow> (('s, 'c) dbw, unit) op" where
  "dr_ban_user_room E user_id ban_timestamp ban_duration room_id =
     thenM (catchM (dr_channel_for_room E (Some room_id))
             (\<lambda>e. case e of NoChannelFoundException _ \<Rightarrow> Some (throw (NoSuchRoomException room_id)) | _ \<Rightarrow> None))
     (bindM (dr_name_or_blank E user_id) (\<lambda>user_name.
      d_hset E (rk_banned_users (Some room_id)) user_id (ban_entry ban_duration ban_timestamp user_name)))"

definition dr_ban_user_channel ::
  "('s, 'c) denv \<Rightarrow> string \<Rightarrow> string \<Rightarrow> string \<Rightarrow> string \<Rightarrow> (('s, 'c) dbw, unit) op" where
  "dr_ban_user_channel E user_id ban_timestamp ban_duration channel_id =
     bindM (dr_name_or_blank E user_id) (\<lambda>user_name.
     d_hset E (rk_banned_users_channel channel_id) user_id (ban_entry ban_duration ban_timestamp user_name))"

definition dr_remove_global_ban :: "('s, 'c) denv \<Rightarrow> string \<Rightarrow> (('s, 'c) dbw, unit) op" where
  "dr_remove_global_ban E user_id = d_hdel E (rk_banned_users None) user_id"

definition dr_remove_channel_ban :: "('s, 'c) denv \<Rightarrow> string \<Rightarrow> string \<Rightarrow> (('s, 'c) dbw, unit) op" where
  "dr_remove_channel_ban E channel_id user_id = d_hdel E (rk_banned_users_channel channel_id) user_id"

definition dr_remove_room_ban :: "('s, 'c) denv \<Rightarrow> string \<Rightarrow> string \<Rightarrow> (('s, 'c) dbw, unit) op" where
  "dr_remove_room_ban E room_id user_id = d_hdel E (rk_banned_users (Some room_id)) user_id"

subsection \<open>Asking for a ban\<close>

text \<open>
  The end of the three checks: the time of the ban, unless it is over. Every one of them then
  deletes the entry of the user from the hash of global bans.
\<close>

definition dr_check_ban ::
  "('s, 'c) denv \<Rightarrow> int \<Rightarrow> string \<Rightarrow> string option \<Rightarrow> (('s, 'c) dbw, bool \<times> string option) op" where
  "dr_check_ban E now user_id ban = (case ban of
     None \<Rightarrow> ret (False, None)
   | Some b \<Rightarrow>
       bindM (lift_result (ban_time b)) (\<lambda>time.
       (case py_float time of
          None \<Rightarrow> throw ValueError
        | Some us \<Rightarrow>
            bindM (lift_result (naive_from_timestamp (de_tz E) us)) (\<lambda>end.
            if now > end
            then thenM (d_hdel E (rk_banned_users None) user_id) (ret (False, None))
            else ret (True, Some time)))))"

definition dr_is_banned_globally ::
  "('s, 'c) denv \<Rightarrow> int \<Rightarrow> string \<Rightarrow> (('s, 'c) dbw, bool \<times> string option) op" where
  "dr_is_banned_globally E now user_id =
     bindM (d_hget E (rk_banned_users None) user_id) (dr_check_ban E now user_id)"

definition dr_is_banned_from_channel ::
  "('s, 'c) denv \<Rightarrow> int \<Rightarrow> string \<Rightarrow> string \<Rightarrow> (('s, 'c) dbw, bool \<times> string option) op" where
  "dr_is_banned_from_channel E now channel_id user_id =
     bindM (d_hget E (rk_banned_users_channel channel_id) user_id) (dr_check_ban E now user_id)"

definition dr_is_banned_from_room ::
  "('s, 'c) denv \<Rightarrow> int \<Rightarrow> string \<Rightarrow> string \<Rightarrow> (('s, 'c) dbw, bool \<times> string option) op" where
  "dr_is_banned_from_room E now room_id user_id =
     bindM (d_hget E (rk_banned_users (Some room_id)) user_id) (dr_check_ban E now user_id)"

text \<open>The times of the three bans, blank where there is none.\<close>

definition time_or_blank :: "string option \<Rightarrow> ('w, string) op" where
  "time_or_blank ban = (case ban of None \<Rightarrow> ret [] | Some b \<Rightarrow> lift_result (ban_time b))"

definition dr_get_user_ban_status ::
  "('s, 'c) denv \<Rightarrow> string \<Rightarrow> string \<Rightarrow> (('s, 'c) dbw, string \<times> string \<times> string) op" where
  "dr_get_user_ban_status E room_id user_id =
     bindM (dr_channel_for_room E (Some room_id)) (\<lambda>channel_id.
     bindM (d_hget E (rk_banned_users None) user_id) (\<lambda>global_ban.
     bindM (d_hget E (rk_banned_users_channel channel_id) user_id) (\<lambda>channel_ban.
     bindM (d_hget E (rk_banned_users (Some room_id)) user_id) (\<lambda>room_ban.
     bindM (time_or_blank global_ban) (\<lambda>g.
     bindM (time_or_blank channel_ban) (\<lambda>c.
     bindM (time_or_blank room_ban) (\<lambda>r. ret (g, c, r))))))))"

text \<open>
  \<open>_get_ban_timestamp\<close> decodes a value and splits it; callers pass the value of \<open>hget\<close>. Here the
  three texts are a list, as \<open>split\<close> returns them.
\<close>

definition dr_get_ban_timestamp :: "string option \<Rightarrow> string option list" where
  "dr_get_ban_timestamp ban = (case ban of
     None \<Rightarrow> [None, None, None] | Some b \<Rightarrow> map Some (split_max (CHR ''|'') 2 b))"

definition dr_get_global_ban_timestamp :: "('s, 'c) denv \<Rightarrow> string \<Rightarrow> (('s, 'c) dbw, string option list) op" where
  "dr_get_global_ban_timestamp E user_id =
     bindM (d_hget E (rk_banned_users None) user_id) (\<lambda>ban. ret (dr_get_ban_timestamp ban))"

definition dr_get_channel_ban_timestamp ::
  "('s, 'c) denv \<Rightarrow> string \<Rightarrow> string \<Rightarrow> (('s, 'c) dbw, string option list) op" where
  "dr_get_channel_ban_timestamp E channel_id user_id =
     bindM (d_hget E (rk_banned_users_channel channel_id) user_id) (\<lambda>ban. ret (dr_get_ban_timestamp ban))"

definition dr_get_room_ban_timestamp ::
  "('s, 'c) denv \<Rightarrow> string \<Rightarrow> string \<Rightarrow> (('s, 'c) dbw, string option list) op" where
  "dr_get_room_ban_timestamp E room_id user_id =
     bindM (d_hget E (rk_banned_users (Some room_id)) user_id) (\<lambda>ban. ret (dr_get_ban_timestamp ban))"

subsection \<open>Lists of bans\<close>

text \<open>
  \<open>for_global_ban\<close>, \<open>for_local_ban_channel\<close>, \<open>for_local_ban\<close>: an entry that is over is deleted, any
  other one is listed with the encoded name, the duration and the date of its end.
\<close>

definition dr_list_ban :: "('s, 'c) denv \<Rightarrow> int \<Rightarrow> string \<Rightarrow> (string \<times> string \<times> string \<times> string) list \<Rightarrow>
    string \<times> string \<Rightarrow> (('s, 'c) dbw, (string \<times> string \<times> string \<times> string) list) op" where
  "dr_list_ban E now key output entry = (case entry of (user_id, ban_info) \<Rightarrow>
     (case split_max (CHR ''|'') 2 ban_info of
        [ban_duration, ban_timestamp, username] \<Rightarrow>
          (case py_int ban_timestamp of
             None \<Rightarrow> throw ValueError
           | Some ts \<Rightarrow>
               bindM (lift_result (naive_from_timestamp (de_tz E) (ts * micro))) (\<lambda>end.
               if end < now then thenM (d_hdel E key user_id) (ret output)
               else bindM (dr_get_user_name E user_id) (\<lambda>name.
                 ret (output @ [(user_id, b64e (Some name), ban_duration, date_text end)]))))
      | _ \<Rightarrow> throw ValueError))"

definition dr_list_bans ::
  "('s, 'c) denv \<Rightarrow> int \<Rightarrow> string \<Rightarrow> (('s, 'c) dbw, (string \<times> string \<times> string \<times> string) list) op" where
  "dr_list_bans E now key = bindM (d_hgetall E key) (\<lambda>bans. foldM (dr_list_ban E now key) [] bans)"

definition dr_get_banned_users_global ::
  "('s, 'c) denv \<Rightarrow> int \<Rightarrow> (('s, 'c) dbw, (string \<times> string \<times> string \<times> string) list) op" where
  "dr_get_banned_users_global E now = dr_list_bans E now (rk_banned_users None)"

definition dr_get_banned_users_for_channel ::
  "('s, 'c) denv \<Rightarrow> int \<Rightarrow> string \<Rightarrow> (('s, 'c) dbw, (string \<times> string \<times> string \<times> string) list) op" where
  "dr_get_banned_users_for_channel E now channel_id = dr_list_bans E now (rk_banned_users_channel channel_id)"

definition dr_get_banned_users_for_room ::
  "('s, 'c) denv \<Rightarrow> int \<Rightarrow> string \<Rightarrow> (('s, 'c) dbw, (string \<times> string \<times> string \<times> string) list) op" where
  "dr_get_banned_users_for_room E now room_id = dr_list_bans E now (rk_banned_users (Some room_id))"

record all_bans =
  ab_global :: "(string \<times> string \<times> string \<times> string) list"
  ab_channels :: "(string \<times> string \<times> (string \<times> string \<times> string \<times> string) list) list"
  ab_rooms :: "(string \<times> string \<times> (string \<times> string \<times> string \<times> string) list) list"

definition dr_get_banned_users :: "('s, 'c) denv \<Rightarrow> int \<Rightarrow> (('s, 'c) dbw, all_bans) op" where
  "dr_get_banned_users E now =
     bindM (d_hgetall E rk_channels) (\<lambda>all_channels.
     bindM (dr_get_banned_users_global E now) (\<lambda>g.
     bindM (foldM (\<lambda>output (channel_id, _).
         bindM (dr_get_channel_name E channel_id) (\<lambda>name.
         bindM (dr_get_banned_users_for_channel E now channel_id) (\<lambda>users.
         ret (if users \<noteq> [] then output @ [(channel_id, b64e (Some name), users)] else output))))
       [] all_channels) (\<lambda>cs.
     bindM (foldM (\<lambda>output (channel_id, _).
         bindM (d_hgetall E (rk_rooms channel_id)) (\<lambda>rooms.
         foldM (\<lambda>output (room_id, _).
             bindM (dr_get_room_name E room_id) (\<lambda>name.
             bindM (dr_get_banned_users_for_room E now room_id) (\<lambda>users.
             ret (if users \<noteq> [] then AList.update room_id (b64e (Some name), users) output else output))))
           output rooms))
       [] all_channels) (\<lambda>rs.
     ret \<lparr>ab_global = g, ab_channels = cs, ab_rooms = rs\<rparr>))))"

text \<open>
  \<open>get_bans_for_user\<close>. For a ban from a channel or a room the source calls
  \<open>hget(RedisKeys, r_key)\<close>, with a class as the key, which the client refuses; for a global ban
  it splits the undecoded bytes with a text. Hence any ban of the user raises, and the result is
  the three empty dictionaries.
\<close>

definition dr_get_bans_for_user :: "('s, 'c) denv \<Rightarrow> string \<Rightarrow> (('s, 'c) dbw, all_bans) op" where
  "dr_get_bans_for_user E user_id =
     bindM (d_hgetall E rk_channels) (\<lambda>all_channels.
     bindM (foldM (\<lambda>room_ids (channel_id, _).
         bindM (d_hgetall E (rk_rooms channel_id)) (\<lambda>all_rooms. ret (room_ids @ map fst all_rooms)))
       [] all_channels) (\<lambda>room_ids.
     thenM (iterM (\<lambda>(channel_id, _).
         bindM (d_hexists E (rk_banned_users_channel channel_id) user_id) (\<lambda>b.
         if \<not> b then ret () else throw RedisError)) all_channels)
     (thenM (iterM (\<lambda>room_id.
         bindM (d_hexists E (rk_banned_users (Some room_id)) user_id) (\<lambda>b.
         if \<not> b then ret () else throw RedisError)) room_ids)
     (bindM (d_hexists E (rk_banned_users None) user_id) (\<lambda>b.
      if b then throw TypeError else ret \<lparr>ab_global = [], ab_channels = [], ab_rooms = []\<rparr>)))))"

subsection \<open>Mutes\<close>

definition mute_field :: "string \<Rightarrow> string \<Rightarrow> string \<Rightarrow> string \<Rightarrow> string \<Rightarrow> string \<Rightarrow> string" where
  "mute_field room_id user_id muter_id mute_duration room_name reason =
     join_on (CHR ''|'') [room_id, user_id, muter_id, mute_duration, room_name, reason]"

definition dr_mute_user :: "('s, 'c) denv \<Rightarrow> string \<Rightarrow> string \<Rightarrow> string \<Rightarrow> string \<Rightarrow> string option \<Rightarrow> string \<Rightarrow>
    string option \<Rightarrow> (('s, 'c) dbw, unit) op" where
  "dr_mute_user E room_id user_id mute_duration mute_timestamp room_name muter_id reason =
     d_hset E (rk_muted_users ''all'')
       (mute_field room_id user_id muter_id mute_duration (b64e room_name) (b64e reason)) mute_timestamp"

record mute =
  mu_muter :: string
  mu_room_name :: string
  mu_duration :: string
  mu_timestamp :: string
  mu_reason :: string

text \<open>The time of each mute is computed again from its duration, from the time of the call.\<close>

definition dr_read_mute ::
  "int \<Rightarrow> int \<Rightarrow> string \<Rightarrow> (string \<times> mute) list \<Rightarrow> string \<Rightarrow> exc + (string \<times> mute) list" where
  "dr_read_mute tz now user_id out field = (case split_max (CHR ''|'') 5 field of
     [room_id, user_id_in_redis, muter_id, mute_duration, room_name, reason] \<Rightarrow>
       (if user_id_in_redis \<noteq> user_id then Inr out
        else (case ban_duration_to_timestamp tz now (Some mute_duration) of
            Inl e \<Rightarrow> Inl e
          | Inr ts \<Rightarrow> Inr (AList.update room_id \<lparr>mu_muter = muter_id, mu_room_name = room_name,
              mu_duration = mute_duration, mu_timestamp = ts, mu_reason = reason\<rparr> out)))
   | _ \<Rightarrow> Inl ValueError)"

definition dr_get_mutes_for_user ::
  "('s, 'c) denv \<Rightarrow> int \<Rightarrow> string \<Rightarrow> (('s, 'c) dbw, (string \<times> mute) list) op" where
  "dr_get_mutes_for_user E now user_id =
     bindM (d_hgetall E (rk_muted_users ''all'')) (\<lambda>all_mutes.
     foldM (\<lambda>out (field, _). lift_result (dr_read_mute (de_tz E) now user_id out field)) [] all_mutes)"

end
