(* ===== verification/Db_Users.thy ===== *)
theory Db_Users
  imports Db_Acls Db_Bans
begin

section \<open>The Redis database: users, sessions, the admin room\<close>

text \<open>
  Last part of \<open>DatabaseRedis\<close>: users and their names, sessions, statuses, the time a user last read
  a room, the black list, the admin room, and the methods that the backend does not support.
\<close>

subsection \<open>Users\<close>

definition dr_create_user :: "('s, 'c) denv \<Rightarrow> string option \<Rightarrow> string option \<Rightarrow> (('s, 'c) dbw, unit) op" where
  "dr_create_user E user_id user_name =
     (if none_or_blank user_name then throw (EmptyUserNameException (fmt user_id))
      else if none_or_blank user_id then throw EmptyUserIdException
      else (let uid = the user_id; name = the user_name in
        thenM (catchM (thenM (dr_get_user_name E uid) (throw (UserExistsException uid)))
                (\<lambda>e. case e of NoSuchUserException _ \<Rightarrow> Some (ret ()) | _ \<Rightarrow> None))
        (thenM (d_hset E (rk_auth_key uid) ''user_id'' uid)
        (thenM (d_hset E (rk_auth_key uid) ''user_name'' name)
               (d_hset E rk_user_names uid name)))))"

definition dr_set_user_name :: "('s, 'c) denv \<Rightarrow> string \<Rightarrow> string \<Rightarrow> (('s, 'c) dbw, unit) op" where
  "dr_set_user_name E user_id user_name =
     thenM (d_hset E (rk_auth_key user_id) ''user_name'' user_name) (d_hset E rk_user_names user_id user_name)"

definition dr_get_user_id :: "string \<Rightarrow> string" where
  "dr_get_user_id user_name = user_name"

subsection \<open>Sessions: one per user\<close>

definition dr_require_user_id :: "string option \<Rightarrow> ('w, string) op" where
  "dr_require_user_id user_id =
     (if none_or_blank user_id then throw EmptyUserIdException else ret (the user_id))"

definition dr_add_sid_for_user :: "('s, 'c) denv \<Rightarrow> string option \<Rightarrow> string \<Rightarrow> (('s, 'c) dbw, unit) op" where
  "dr_add_sid_for_user E user_id sid =
     bindM (dr_require_user_id user_id) (\<lambda>uid. d_hset E rk_sid_for_user_id uid sid)"

definition dr_reset_sids_for_user :: "('s, 'c) denv \<Rightarrow> string option \<Rightarrow> (('s, 'c) dbw, unit) op" where
  "dr_reset_sids_for_user E user_id =
     bindM (dr_require_user_id user_id) (\<lambda>uid. d_hdel E rk_sid_for_user_id uid)"

definition dr_remove_sid_for_user :: "('s, 'c) denv \<Rightarrow> string option \<Rightarrow> string \<Rightarrow> (('s, 'c) dbw, unit) op" where
  "dr_remove_sid_for_user E user_id sid = dr_reset_sids_for_user E user_id"

definition dr_get_sids_for_user :: "('s, 'c) denv \<Rightarrow> string option \<Rightarrow> (('s, 'c) dbw, string list) op" where
  "dr_get_sids_for_user E user_id =
     bindM (dr_require_user_id user_id) (\<lambda>uid.
     bindM (d_hget E rk_sid_for_user_id uid) (\<lambda>sid.
     ret (case sid of None \<Rightarrow> [] | Some s \<Rightarrow> [s])))"

subsection \<open>Statuses\<close>

definition dr_get_user_status :: "('s, 'c) denv \<Rightarrow> string \<Rightarrow> (('s, 'c) dbw, string) op" where
  "dr_get_user_status E user_id =
     bindM (via_cache (ic_get_user_status (de_cache E) user_id)) (\<lambda>status.
     case status of
       Some s \<Rightarrow> ret s
     | None \<Rightarrow> bindM (d_get E (rk_user_status user_id)) (\<lambda>status.
         ret (case status of None \<Rightarrow> status_unavailable | Some s \<Rightarrow> s)))"

definition dr_get_online_admins :: "('s, 'c) denv \<Rightarrow> (('s, 'c) dbw, string list) op" where
  "dr_get_online_admins E =
     bindM (dr_get_super_users E) (\<lambda>admins.
     bindM (mapM (dr_get_user_status E) (map fst admins)) (\<lambda>statuses.
     ret (map fst (filter (\<lambda>(_, status). status \<in> {status_available, status_chat, status_away, status_invisible})
       (zip (map fst admins) statuses)))))"

subsection \<open>Last read, black list\<close>

definition dr_update_last_read_for ::
  "('s, 'c) denv \<Rightarrow> string list \<Rightarrow> string \<Rightarrow> int \<Rightarrow> (('s, 'c) dbw, unit) op" where
  "dr_update_last_read_for E users room_id time_stamp =
     thenM (dr_get_room_name E room_id)
       (iterM (\<lambda>user_id. d_hset E (rk_last_read room_id) user_id (str_int time_stamp)) (de_order E users))"

definition dr_get_last_read_timestamp ::
  "('s, 'c) denv \<Rightarrow> string \<Rightarrow> string \<Rightarrow> (('s, 'c) dbw, int option) op" where
  "dr_get_last_read_timestamp E room_id user_id =
     bindM (d_hget E (rk_last_read room_id) user_id) (\<lambda>timestamp.
     case timestamp of
       None \<Rightarrow> ret None
     | Some s \<Rightarrow> (case py_int s of None \<Rightarrow> throw ValueError | Some t \<Rightarrow> ret (Some t)))"

text \<open>\<open>sadd(key, words)\<close> with a list as the member, which the client refuses.\<close>

definition dr_add_words_to_blacklist :: "string list \<Rightarrow> ('w, unit) op" where
  "dr_add_words_to_blacklist words = throw RedisError"

definition dr_get_black_list :: "('s, 'c) denv \<Rightarrow> (('s, 'c) dbw, string list) op" where
  "dr_get_black_list E = d_smembers E rk_black_list"

subsection \<open>The admin room\<close>

definition dr_unset_admin_room :: "('s, 'c) denv \<Rightarrow> string \<Rightarrow> (('s, 'c) dbw, unit) op" where
  "dr_unset_admin_room E room_uuid = d_delete E rk_admin_room"

definition dr_set_admin_room :: "('s, 'c) denv \<Rightarrow> string \<Rightarrow> (('s, 'c) dbw, unit) op" where
  "dr_set_admin_room E room_uuid = d_set E rk_admin_room room_uuid"

definition dr_get_admin_room :: "('s, 'c) denv \<Rightarrow> (('s, 'c) dbw, string option) op" where
  "dr_get_admin_room E =
     bindM (d_get E rk_admin_room) (\<lambda>room_id. ret (if none_or_blank room_id then None else room_id))"

definition dr_create_admin_room :: "nat \<Rightarrow> acl_config \<Rightarrow> ('s, 'c) denv \<Rightarrow> string \<Rightarrow> string \<Rightarrow>
    (('s, 'c) dbw, string option) op" where
  "dr_create_admin_room fuel cfg E channel_id room_id =
     bindM (dr_get_admin_room E) (\<lambda>admin_room_id.
     case admin_room_id of
       Some r \<Rightarrow> ret (Some r)
     | None \<Rightarrow>
         (let acls = [(role_admin, ''''), (role_super_user, '''')]; samechannel = [(''samechannel'', '''')] in
         thenM (catchM (dr_create_user E (Some ''0'') (Some ''Admin''))
                  (\<lambda>e. case e of UserExistsException _ \<Rightarrow> Some (ret ()) | _ \<Rightarrow> None))
         (thenM (dr_create_channel E (Some ''Admins'') channel_id ''0'')
         (thenM (d_set E rk_admin_room room_id)
         (thenM (d_hset E rk_room_name_for_id room_id ''Admins'')
         (thenM (d_hset E (rk_rooms channel_id) room_id ''Admins'')
         (thenM (d_hset E rk_channel_for_rooms room_id channel_id)
         (thenM (d_sadd E rk_non_ephemeral_rooms room_id)
         (bindO (dr_add_acls_in_channel_for_action fuel cfg E channel_id action_list acls) (\<lambda>_.
          bindO (dr_add_acls_in_channel_for_action fuel cfg E channel_id action_join acls) (\<lambda>_.
          bindO (dr_add_acls_in_room_for_action fuel cfg E room_id action_join acls) (\<lambda>_.
          bindO (dr_add_acls_in_room_for_action fuel cfg E room_id action_list acls) (\<lambda>_.
          bindO (dr_add_acls_in_room_for_action fuel cfg E room_id action_crossroom samechannel) (\<lambda>_.
          ret (Some room_id)))))))))))))))"

subsection \<open>Methods the backend does not support\<close>

text \<open>Methods that raise, that do nothing, and that answer with a constant.\<close>

definition dr_not_implemented :: "('w, 'a) op" where
  "dr_not_implemented = throw NotImplementedError"

definition dr_ignored :: "('w, unit) op" where
  "dr_ignored = ret ()"

definition dr_empty_list :: "('w, 'a list) op" where
  "dr_empty_list = ret []"

definition dr_get_reason_for_ban :: "string \<Rightarrow> string" where
  "dr_get_reason_for_ban user_id = ''''"

definition dr_get_joins_in_room :: "string \<Rightarrow> int" where
  "dr_get_joins_in_room room_id = - 1"

definition dr_type_of_rooms_in_channel :: "string \<Rightarrow> string" where
  "dr_type_of_rooms_in_channel channel_id = ''mix''"

definition dr_user_name_exists :: "string \<Rightarrow> bool" where
  "dr_user_name_exists user_name = True"

end
