(* ===== verification/Db_Facts.thy ===== *)
theory Db_Facts
  imports Db_Users Cache_Facts
begin

section \<open>Facts on the Redis database\<close>

text \<open>
  What the hashes and sets of the backend hold is collected in a record of maps, the view of a
  Redis state; each write is an update of one map of the view, and reads are reads of a map. The
  facts on the methods are then statements on views: the registry of channels and rooms and its
  invariant, the roles, and what a coherent cache may answer.
\<close>

subsection \<open>The view of a Redis state\<close>

record dbv =
  v_room_name :: "string \<Rightarrow> string option"
  v_channel_of :: "string \<Rightarrow> string option"
  v_rooms :: "string \<Rightarrow> string \<Rightarrow> string option"
  v_channels :: "string \<Rightarrow> string option"
  v_persistent :: "string \<Rightarrow> bool"
  v_room_roles :: "string \<Rightarrow> string \<Rightarrow> string option"
  v_channel_roles :: "string \<Rightarrow> string \<Rightarrow> string option"
  v_global_roles :: "string \<Rightarrow> string option"
  v_user_names :: "string \<Rightarrow> string option"
  v_room_acl :: "string \<Rightarrow> string \<Rightarrow> string option"
  v_channel_acl :: "string \<Rightarrow> string \<Rightarrow> string option"
  v_bans :: "string option \<Rightarrow> string \<Rightarrow> string option"
  v_channel_bans :: "string \<Rightarrow> string \<Rightarrow> string option"
  v_sids :: "string \<Rightarrow> string option"

definition view :: "'s redis \<Rightarrow> 's \<Rightarrow> dbv" where
  "view R s = \<lparr>
     v_room_name = r_hget R s rk_room_name_for_id,
     v_channel_of = r_hget R s rk_channel_for_rooms,
     v_rooms = (\<lambda>c. r_hget R s (rk_rooms c)),
     v_channels = r_hget R s rk_channels,
     v_persistent = r_sismember R s rk_non_ephemeral_rooms,
     v_room_roles = (\<lambda>r. r_hget R s (rk_room_roles r)),
     v_channel_roles = (\<lambda>c. r_hget R s (rk_channel_roles c)),
     v_global_roles = r_hget R s rk_global_roles,
     v_user_names = r_hget R s rk_user_names,
     v_room_acl = (\<lambda>r. r_hget R s (rk_room_acl r)),
     v_channel_acl = (\<lambda>c. r_hget R s (rk_channel_acl c)),
     v_bans = (\<lambda>r. r_hget R s (rk_banned_users r)),
     v_channel_bans = (\<lambda>c. r_hget R s (rk_banned_users_channel c)),
     v_sids = r_hget R s rk_sid_for_user_id\<rparr>"

abbreviation upd2 :: "('a \<Rightarrow> 'b \<Rightarrow> 'c) \<Rightarrow> 'a \<Rightarrow> 'b \<Rightarrow> 'c \<Rightarrow> 'a \<Rightarrow> 'b \<Rightarrow> 'c" where
  "upd2 f a b c \<equiv> f(a := (f a)(b := c))"

text \<open>The keys of the hashes of the view.\<close>

definition view_keys :: "string set" where
  "view_keys = {rk_room_name_for_id, rk_channel_for_rooms, rk_channels, rk_global_roles, rk_user_names,
     rk_sid_for_user_id} \<union> range rk_rooms \<union> range rk_room_roles \<union> range rk_channel_roles \<union>
     range rk_room_acl \<union> range rk_channel_acl \<union> range rk_banned_users \<union> range rk_banned_users_channel"

lemma view_reads:
  "r_hget R s rk_room_name_for_id = v_room_name (view R s)"
  "r_hget R s rk_channel_for_rooms = v_channel_of (view R s)"
  "r_hget R s (rk_rooms c) = v_rooms (view R s) c"
  "r_hget R s rk_channels = v_channels (view R s)"
  "r_sismember R s rk_non_ephemeral_rooms = v_persistent (view R s)"
  "r_hget R s (rk_room_roles r) = v_room_roles (view R s) r"
  "r_hget R s (rk_channel_roles c) = v_channel_roles (view R s) c"
  "r_hget R s rk_global_roles = v_global_roles (view R s)"
  "r_hget R s rk_user_names = v_user_names (view R s)"
  "r_hget R s (rk_room_acl r) = v_room_acl (view R s) r"
  "r_hget R s (rk_channel_acl c) = v_channel_acl (view R s) c"
  "r_hget R s (rk_banned_users b) = v_bans (view R s) b"
  "r_hget R s (rk_banned_users_channel c) = v_channel_bans (view R s) c"
  "r_hget R s rk_sid_for_user_id = v_sids (view R s)"
  by (simp_all add: view_def)

lemma banned_key_text:
  "rk_banned_users b = (case b of None \<Rightarrow> ''users:banned:global'' | Some r \<Rightarrow> ''users:banned:room:'' @ r)"
  by (cases b) (simp_all add: key_simps)

lemma banned_key_inj [simp]: "rk_banned_users a = rk_banned_users b \<longleftrightarrow> a = b"
  by (cases a; cases b) (simp_all add: key_simps)

lemma banned_key_neq:
  "rk_banned_users b \<noteq> ''room:names''" "rk_banned_users b \<noteq> ''room:channel''"
  "rk_banned_users b \<noteq> ''channels''" "rk_banned_users b \<noteq> ''global:roles''"
  "rk_banned_users b \<noteq> ''user:names''" "rk_banned_users b \<noteq> ''user:sid:map''"
  "rk_banned_users b \<noteq> ''sid:user:map''"
  "rk_banned_users b \<noteq> ''rooms:'' @ x" "rk_banned_users b \<noteq> ''room:roles:'' @ x"
  "rk_banned_users b \<noteq> ''channel:roles:'' @ x" "rk_banned_users b \<noteq> ''room:acl:'' @ x"
  "rk_banned_users b \<noteq> ''channel:acl:'' @ x" "rk_banned_users b \<noteq> ''users:banned:channel:'' @ x"
  "rk_banned_users b \<noteq> ''user:auth:'' @ x" "rk_banned_users b \<noteq> ''user:rooms:'' @ x"
  "rk_banned_users b \<noteq> ''room:read:'' @ x"
  by (cases b; simp add: key_simps)+

lemmas view_key_simps = banned_key_neq [unfolded append_Cons append_Nil]
  banned_key_neq [unfolded append_Cons append_Nil, symmetric] key_simps

context redis_client begin

lemma view_hset:
  "view R (r_hset R s rk_room_name_for_id f v) = (view R s)\<lparr>v_room_name := (v_room_name (view R s))(f := Some v)\<rparr>"
  "view R (r_hset R s rk_channel_for_rooms f v) = (view R s)\<lparr>v_channel_of := (v_channel_of (view R s))(f := Some v)\<rparr>"
  "view R (r_hset R s rk_channels f v) = (view R s)\<lparr>v_channels := (v_channels (view R s))(f := Some v)\<rparr>"
  "view R (r_hset R s rk_global_roles f v) = (view R s)\<lparr>v_global_roles := (v_global_roles (view R s))(f := Some v)\<rparr>"
  "view R (r_hset R s rk_user_names f v) = (view R s)\<lparr>v_user_names := (v_user_names (view R s))(f := Some v)\<rparr>"
  "view R (r_hset R s rk_sid_for_user_id f v) = (view R s)\<lparr>v_sids := (v_sids (view R s))(f := Some v)\<rparr>"
  "view R (r_hset R s (rk_rooms i) f v) = (view R s)\<lparr>v_rooms := upd2 (v_rooms (view R s)) i f (Some v)\<rparr>"
  "view R (r_hset R s (rk_room_roles i) f v) = (view R s)\<lparr>v_room_roles := upd2 (v_room_roles (view R s)) i f (Some v)\<rparr>"
  "view R (r_hset R s (rk_channel_roles i) f v) = (view R s)\<lparr>v_channel_roles := upd2 (v_channel_roles (view R s)) i f (Some v)\<rparr>"
  "view R (r_hset R s (rk_room_acl i) f v) = (view R s)\<lparr>v_room_acl := upd2 (v_room_acl (view R s)) i f (Some v)\<rparr>"
  "view R (r_hset R s (rk_channel_acl i) f v) = (view R s)\<lparr>v_channel_acl := upd2 (v_channel_acl (view R s)) i f (Some v)\<rparr>"
  "view R (r_hset R s (rk_banned_users b) f v) = (view R s)\<lparr>v_bans := upd2 (v_bans (view R s)) b f (Some v)\<rparr>"
  "view R (r_hset R s (rk_banned_users_channel i) f v) = (view R s)\<lparr>v_channel_bans := upd2 (v_channel_bans (view R s)) i f (Some v)\<rparr>"
  "view R (r_hset R s (rk_auth_key i) f v) = view R s"
  "view R (r_hset R s (rk_rooms_for_user i) f v) = view R s"
  "view R (r_hset R s (rk_last_read i) f v) = view R s"
  by (simp_all add: view_def laws view_key_simps fun_eq_iff)

lemma view_hdel:
  "view R (r_hdel R s rk_room_name_for_id f) = (view R s)\<lparr>v_room_name := (v_room_name (view R s))(f := None)\<rparr>"
  "view R (r_hdel R s rk_channel_for_rooms f) = (view R s)\<lparr>v_channel_of := (v_channel_of (view R s))(f := None)\<rparr>"
  "view R (r_hdel R s rk_channels f) = (view R s)\<lparr>v_channels := (v_channels (view R s))(f := None)\<rparr>"
  "view R (r_hdel R s rk_global_roles f) = (view R s)\<lparr>v_global_roles := (v_global_roles (view R s))(f := None)\<rparr>"
  "view R (r_hdel R s rk_user_names f) = (view R s)\<lparr>v_user_names := (v_user_names (view R s))(f := None)\<rparr>"
  "view R (r_hdel R s rk_sid_for_user_id f) = (view R s)\<lparr>v_sids := (v_sids (view R s))(f := None)\<rparr>"
  "view R (r_hdel R s (rk_rooms i) f) = (view R s)\<lparr>v_rooms := upd2 (v_rooms (view R s)) i f None\<rparr>"
  "view R (r_hdel R s (rk_room_roles i) f) = (view R s)\<lparr>v_room_roles := upd2 (v_room_roles (view R s)) i f None\<rparr>"
  "view R (r_hdel R s (rk_channel_roles i) f) = (view R s)\<lparr>v_channel_roles := upd2 (v_channel_roles (view R s)) i f None\<rparr>"
  "view R (r_hdel R s (rk_room_acl i) f) = (view R s)\<lparr>v_room_acl := upd2 (v_room_acl (view R s)) i f None\<rparr>"
  "view R (r_hdel R s (rk_channel_acl i) f) = (view R s)\<lparr>v_channel_acl := upd2 (v_channel_acl (view R s)) i f None\<rparr>"
  "view R (r_hdel R s (rk_banned_users b) f) = (view R s)\<lparr>v_bans := upd2 (v_bans (view R s)) b f None\<rparr>"
  "view R (r_hdel R s (rk_banned_users_channel i) f) = (view R s)\<lparr>v_channel_bans := upd2 (v_channel_bans (view R s)) i f None\<rparr>"
  "view R (r_hdel R s (rk_rooms_for_user i) f) = view R s"
  by (simp_all add: view_def laws view_key_simps fun_eq_iff)

lemma view_others:
  "view R (r_sadd R s rk_non_ephemeral_rooms x) = (view R s)\<lparr>v_persistent := (v_persistent (view R s))(x := True)\<rparr>"
  "view R (r_srem R s rk_non_ephemeral_rooms x) = (view R s)\<lparr>v_persistent := (v_persistent (view R s))(x := False)\<rparr>"
  "view R (r_delete R s (rk_room_roles r)) = (view R s)\<lparr>v_room_roles := (v_room_roles (view R s))(r := (\<lambda>_. None))\<rparr>"
  "view R (r_set R s k t) = view R s"
  "view R (r_incr R s k) = view R s"
  by (simp_all add: view_def laws view_key_simps fun_eq_iff)

lemma view_hmset:
  assumes "distinct (map fst m)"
  shows "view R (r_hmset R s (rk_room_acl i) m) = (view R s)\<lparr>v_room_acl :=
      (v_room_acl (view R s))(i := v_room_acl (view R s) i ++ map_of m)\<rparr>"
    "view R (r_hmset R s (rk_channel_acl i) m) = (view R s)\<lparr>v_channel_acl :=
      (v_channel_acl (view R s))(i := v_channel_acl (view R s) i ++ map_of m)\<rparr>"
  by (simp_all add: view_def laws hget_hmset [OF assms] view_key_simps fun_eq_iff map_add_def)

lemma hexists_view:
  "r_hexists R s (rk_rooms c) r \<longleftrightarrow> v_rooms (view R s) c r \<noteq> None"
  "r_hexists R s rk_channels c \<longleftrightarrow> v_channels (view R s) c \<noteq> None"
  by (simp_all add: laws view_reads)

lemma hvals_view:
  "n \<in> set (r_hvals R s (rk_rooms c)) \<longleftrightarrow> (\<exists>r. v_rooms (view R s) c r = Some n)"
  "n \<in> set (r_hvals R s rk_channels) \<longleftrightarrow> (\<exists>c. v_channels (view R s) c = Some n)"
  by (simp_all add: in_set_hvals view_reads)

lemmas views = view_hset view_hdel view_others

end

subsection \<open>The environment\<close>

definition dv :: "('s, 'c) denv \<Rightarrow> ('s, 'c) dbw \<Rightarrow> dbv" where
  "dv E w = view (de_redis E) (db_redis w)"

text \<open>What the cache can answer is what Redis holds.\<close>

definition db_ok :: "('s, 'c) denv \<Rightarrow> ('c \<Rightarrow> (string \<Rightarrow> string option) \<Rightarrow> (string \<Rightarrow> string option) \<Rightarrow> bool) \<Rightarrow>
    ('s, 'c) dbw \<Rightarrow> bool" where
  "db_ok E agrees w \<longleftrightarrow> agrees (db_cache w) (v_channel_of (dv E w)) (v_channels (dv E w))"

definition spec_channel_for_room :: "dbv \<Rightarrow> string \<Rightarrow> exc + string" where
  "spec_channel_for_room v r =
     (case v_channel_of v r of
        Some c \<Rightarrow> Inr c
      | None \<Rightarrow> (case v_room_name v r of None \<Rightarrow> Inl (NoSuchRoomException r)
          | Some _ \<Rightarrow> Inl (NoChannelFoundException r)))"

definition spec_channel_name :: "dbv \<Rightarrow> string \<Rightarrow> exc + string" where
  "spec_channel_name v x = (case v_channels v x of
     None \<Rightarrow> Inl (NoSuchChannelException x) | Some n \<Rightarrow> Inr n)"

locale db_env = redis_client "de_redis E" + coherent_cache "de_cache E" agrees
  for E :: "('s, 'c) denv" and agrees +
  assumes set_order: "set (de_order E xs) = set xs"

lemma via_cache_run: "m (db_cache w) = (r, c) \<Longrightarrow> via_cache m w = (r, w\<lparr>db_cache := c\<rparr>)"
  by (simp add: via_cache_def)

lemma bind_via_cache: "via_cache m w = (Inr a, w') \<Longrightarrow> bindM (via_cache m) f w = f a w'"
  by (simp add: bindM_def)

lemma dv_simps [simp]:
  "dv E (w\<lparr>db_cache := c\<rparr>) = dv E w"
  "dv E (w\<lparr>db_redis := s\<rparr>) = view (de_redis E) s"
  by (simp_all add: dv_def)

lemmas db_reads = view_reads dv_def [symmetric]

lemma get_room_name_run [op_simps]:
  "dr_get_room_name E r w = (case v_room_name (dv E w) r of
     None \<Rightarrow> Inl (NoSuchRoomException r) | Some n \<Rightarrow> Inr n, w)"
  by (simp add: dr_get_room_name_def op_simps d_defs db_reads split: option.splits)

lemma bind_room_name [op_simps]:
  "bindM (dr_get_room_name E r) f w = (case v_room_name (dv E w) r of
     None \<Rightarrow> (Inl (NoSuchRoomException r), w) | Some n \<Rightarrow> f n w)"
  by (simp add: bindM_def get_room_name_run split: option.splits)

lemma get_user_name_run [op_simps]:
  "dr_get_user_name E u w = (case v_user_names (dv E w) u of
     None \<Rightarrow> Inl (NoSuchUserException u) | Some n \<Rightarrow> Inr n, w)"
  by (simp add: dr_get_user_name_def op_simps d_defs db_reads split: option.splits)

lemmas db_run = op_simps d_defs db_reads

context db_env begin

lemmas db_views = views hexists_view hvals_view

lemma cache_channel_for_room:
  assumes "db_ok E agrees w"
  obtains v c where "via_cache (ic_get_channel_for_room (de_cache E) r) w = (Inr v, w\<lparr>db_cache := c\<rparr>)"
    "v = None \<or> v = v_channel_of (dv E w) r" "db_ok E agrees (w\<lparr>db_cache := c\<rparr>)"
proof -
  from get_channel_for_room [OF assms [unfolded db_ok_def], of r] obtain v c where
    "ic_get_channel_for_room (de_cache E) r (db_cache w) = (Inr v, c)"
    "v = None \<or> v = v_channel_of (dv E w) r"
    "agrees c (v_channel_of (dv E w)) (v_channels (dv E w))" by blast
  with that show thesis by (simp add: via_cache_run db_ok_def)
qed

lemma cache_channel_name:
  assumes "db_ok E agrees w"
  obtains v c where "via_cache (ic_get_channel_name (de_cache E) x) w = (Inr v, w\<lparr>db_cache := c\<rparr>)"
    "v = None \<or> v = v_channels (dv E w) x" "db_ok E agrees (w\<lparr>db_cache := c\<rparr>)"
proof -
  from get_channel_name [OF assms [unfolded db_ok_def], of x] obtain v c where
    "ic_get_channel_name (de_cache E) x (db_cache w) = (Inr v, c)"
    "v = None \<or> v = v_channels (dv E w) x"
    "agrees c (v_channel_of (dv E w)) (v_channels (dv E w))" by blast
  with that show thesis by (simp add: via_cache_run db_ok_def)
qed

lemma cache_channel_exists:
  assumes "db_ok E agrees w"
  obtains v c where "via_cache (ic_get_channel_exists (de_cache E) x) w = (Inr v, w\<lparr>db_cache := c\<rparr>)"
    "db_ok E agrees (w\<lparr>db_cache := c\<rparr>)"
proof -
  from get_channel_exists [OF assms [unfolded db_ok_def], of x] obtain v c where
    "ic_get_channel_exists (de_cache E) x (db_cache w) = (Inr v, c)"
    "agrees c (v_channel_of (dv E w)) (v_channels (dv E w))" by blast
  with that show thesis by (simp add: via_cache_run db_ok_def)
qed

subsection \<open>The channel of a room, the name of a channel\<close>

text \<open>With a coherent cache the answer is that of the database alone, and Redis is left as it was.\<close>

lemma channel_for_room_spec:
  assumes ok: "db_ok E agrees w" and r: "\<not> blank r"
    and named: "v_channel_of (dv E w) r \<noteq> None \<Longrightarrow> v_room_name (dv E w) r \<noteq> None"
  obtains c where "dr_channel_for_room E (Some r) w =
      (spec_channel_for_room (dv E w) r, w\<lparr>db_cache := c\<rparr>)" "db_ok E agrees (w\<lparr>db_cache := c\<rparr>)"
proof -
  obtain v c where g: "via_cache (ic_get_channel_for_room (de_cache E) r) w = (Inr v, w\<lparr>db_cache := c\<rparr>)"
    and v: "v = None \<or> v = v_channel_of (dv E w) r" and ok': "db_ok E agrees (w\<lparr>db_cache := c\<rparr>)"
    by (rule cache_channel_for_room [OF ok])
  have start: "dr_channel_for_room E (Some r) w = (case v of Some c \<Rightarrow> ret c
      | None \<Rightarrow> thenM (dr_get_room_name E r) (bindM (d_hget E rk_channel_for_rooms r) (\<lambda>channel_id.
             case channel_id of
               None \<Rightarrow> throw (NoChannelFoundException r)
             | Some c \<Rightarrow> thenM (via_cache (ic_set_channel_for_room (de_cache E) c r)) (ret c)))) (w\<lparr>db_cache := c\<rparr>)"
    using r by (simp add: dr_channel_for_room_def none_or_blank_def bind_via_cache [OF g])
  show thesis
  proof (cases "v = None")
    case False
    with v start that [OF _ ok'] show thesis
      by (auto simp: spec_channel_for_room_def op_simps split: option.splits)
  next
    case True
    show thesis
    proof (cases "v_channel_of (dv E w) r")
      case None
      with True start that [OF _ ok'] show thesis
        by (simp add: spec_channel_for_room_def db_run split: option.splits)
    next
      case (Some ch)
      from set_channel_for_room [OF ok' [unfolded db_ok_def], of r ch] Some obtain c2 where
        s: "ic_set_channel_for_room (de_cache E) ch r c = (Inr (), c2)"
        and ok2: "agrees c2 (v_channel_of (dv E w)) (v_channels (dv E w))" by auto
      have "via_cache (ic_set_channel_for_room (de_cache E) ch r) (w\<lparr>db_cache := c\<rparr>)
          = (Inr (), w\<lparr>db_cache := c2\<rparr>)"
        using s by (simp add: via_cache_run)
      note run = bind_via_cache [OF this]
      obtain n where "v_room_name (dv E w) r = Some n" using named Some by auto
      with Some True start have "dr_channel_for_room E (Some r) w = (Inr ch, w\<lparr>db_cache := c2\<rparr>)"
        by (simp add: db_run run)
      with that [of c2] ok2 Some show thesis by (simp add: spec_channel_for_room_def db_ok_def)
    qed
  qed
qed

lemma channel_name_spec:
  assumes ok: "db_ok E agrees w"
  obtains c where "dr_get_channel_name E x w = (spec_channel_name (dv E w) x, w\<lparr>db_cache := c\<rparr>)"
    "db_ok E agrees (w\<lparr>db_cache := c\<rparr>)"
proof -
  obtain v c where g: "via_cache (ic_get_channel_name (de_cache E) x) w = (Inr v, w\<lparr>db_cache := c\<rparr>)"
    and v: "v = None \<or> v = v_channels (dv E w) x" and ok': "db_ok E agrees (w\<lparr>db_cache := c\<rparr>)"
    by (rule cache_channel_name [OF ok])
  show thesis
  proof (cases "v = None \<and> v_channels (dv E w) x \<noteq> None")
    case False
    with v show thesis
      using that [OF _ ok']
      by (auto simp: dr_get_channel_name_def bind_via_cache [OF g] spec_channel_name_def db_run
          split: option.splits)
  next
    case True
    then obtain n where n: "v_channels (dv E w) x = Some n" by auto
    from set_channel_name [OF ok' [unfolded db_ok_def], of x n] obtain c2 where
      s: "ic_set_channel_name (de_cache E) x n c = (Inr (), c2)"
      and ok2: "agrees c2 (v_channel_of (dv E w)) ((v_channels (dv E w))(x \<mapsto> n))" by auto
    have "via_cache (ic_set_channel_name (de_cache E) x n) (w\<lparr>db_cache := c\<rparr>) = (Inr (), w\<lparr>db_cache := c2\<rparr>)"
      using s by (simp add: via_cache_run)
    note run = bind_via_cache [OF this]
    have "dr_get_channel_name E x w = (Inr n, w\<lparr>db_cache := c2\<rparr>)"
      using True n by (simp add: dr_get_channel_name_def bind_via_cache [OF g] db_run run)
    with that [of c2] ok2 n show thesis by (simp add: spec_channel_name_def db_ok_def fun_upd_idem)
  qed
qed

end

end
