(* ===== verification/Acl_Facts.thy ===== *)
theory Acl_Facts
  imports Acl_Rules
begin

section \<open>Facts on access control lists\<close>

text \<open>
  That a new rule is checked in finite time and that an accepted rule is later decided in finite
  time and without a conversion error, what ranges and value lists mean, and the decision on an
  action as a formula over the roles of the user, proved for any database whose role queries
  answer without changing the roles (\<open>role_queries\<close>).
\<close>

subsection \<open>Termination\<close>

text \<open>Only the type \<open>custom\<close> has the pattern validator, as in \<^verbatim>\<open>acl.yaml\<close>.\<close>

definition no_nested_patterns :: "acl_config \<Rightarrow> bool" where
  "no_nested_patterns cfg \<longleftrightarrow>
     list_all (\<lambda>(t, c). vc_value c = ValidatorValue AclPattern \<longrightarrow> t = ''custom'') (ac_validation cfg)"

lemma validator_of_not_pattern:
  assumes "no_nested_patterns cfg" "t \<noteq> ''custom''" "validator_of cfg t = Inr (ValidatorValue v)"
  shows "v \<noteq> AclPattern"
  using assms map_of_SomeD [of "ac_validation cfg" t]
  by (fastforce simp: validator_of_def no_nested_patterns_def list_all_iff
      split: option.splits conf_value.splits)

lemma test_a_clause_returns:
  assumes run: "\<And>v t x b w. v \<noteq> AclPattern \<Longrightarrow> fst (run v t x b w) \<noteq> Inr None"
    and cfg: "no_nested_patterns cfg"
  shows "fst (test_a_clause cfg run c w) \<noteq> Inr None"
proof -
  consider (one) a where "split_on (CHR ''='') c = [a]"
    | (two) a b where "split_on (CHR ''='') c = [a, b]"
    | (other) a b d cs where "split_on (CHR ''='') c = a # b # d # cs"
    using split_on_neq_Nil [of "CHR ''=''" c] by (metis list.exhaust)
  then show ?thesis
  proof cases
    case two
    show ?thesis
    proof (cases "validator_of cfg a")
      case (Inl e)
      with two show ?thesis by (simp add: test_a_clause_def op_simps Let_def bindM_def)
    next
      case (Inr f)
      with two run validator_of_not_pattern [OF cfg, of a] show ?thesis
        by (cases f) (auto simp: test_a_clause_def op_simps Let_def bindM_def)
    qed
  qed (simp_all add: test_a_clause_def op_simps)
qed

lemma validate_new_acl_simple:
  "v \<noteq> AclPattern \<Longrightarrow> fst (validate_new_acl n cfg v x w) \<noteq> Inr None"
  by (cases v) (auto simp: op_simps bindM_def split: sum.splits)

lemma bindO_returns:
  assumes "fst (m w) \<noteq> Inr None" "\<And>a w'. fst (f a w') \<noteq> Inr None"
  shows "fst (bindO m f w) \<noteq> Inr None"
  using assms by (cases "m w") (auto simp: bindO_def bindM_def op_simps split: sum.splits option.splits)

lemma validate_new_acl_returns:
  assumes cfg: "no_nested_patterns cfg"
    and fuel: "case values of None \<Rightarrow> True | Some v \<Rightarrow> count_list v (CHR ''('') + 3 \<le> fuel"
  shows "fst (validate_new_acl fuel cfg validator values w) \<noteq> Inr None"
proof (cases "validator = AclPattern \<and> pattern_text_error values = None")
  case True
  then obtain v where v: "values = Some v" "pattern_text_error (Some v) = None"
    by (cases "values") (auto simp: pattern_text_error_def)
  with fuel obtain m where m: "fuel = count_list v (CHR ''('') + 3 + m"
    using le_Suc_ex by (metis option.simps(5))
  define n where "n = count_list v (CHR ''('') + m"
  have n: "fuel = Suc (Suc (Suc n))" "count_list v (CHR ''('') \<le> n"
    using m by (simp_all add: n_def)
  let ?run = "\<lambda>f t x (b :: bool). bindO (validate_new_acl (Suc (Suc n)) cfg f (Some x)) (\<lambda>_. ret (Some valid))"
  have test: "fst (test_a_clause cfg ?run c w') \<noteq> Inr None" for c and w' :: 'a
    by (rule test_a_clause_returns [OF _ cfg], rule bindO_returns, erule validate_new_acl_simple)
      (simp add: op_simps)
  have "fst (split_and_test_clause (Suc (Suc n)) (test_a_clause cfg ?run) [] v w') \<noteq> Inr None" for w' :: 'a
    by (rule split_and_test_terminates [OF test accepted_alternates [OF v(2)] n(2)])
  then have "fst (bindO (split_and_test_clause (Suc (Suc n)) (test_a_clause cfg ?run) [] v)
      (\<lambda>_. ret (Some ())) w) \<noteq> Inr None"
    by (rule bindO_returns) (simp add: op_simps)
  with True v n show ?thesis
    by (simp del: split_and_test_clause.simps)
next
  case False
  then show ?thesis
    by (cases validator) (auto simp: op_simps bindM_def split: sum.splits option.splits)
qed

lemma call_validator_simple:
  assumes "v \<noteq> AclPattern"
  shows "fst (call_validator n DB env act sess v t x b w) \<noteq> Inr None"
proof -
  have *: "fst (bindM m (\<lambda>r. ret (Some r)) w) \<noteq> Inr None" for m :: "('w, verdict) op" and w
    by (auto simp: bindM_def ret_def split: prod.splits sum.splits)
  show ?thesis using assms by (cases v) (auto simp: * op_simps)
qed

lemma catchM_returns:
  assumes "fst (m w) \<noteq> Inr None" "\<And>e k w'. h e = Some k \<Longrightarrow> fst (k w') \<noteq> Inr None"
  shows "fst (catchM m h w) \<noteq> Inr None"
  using assms by (cases "m w") (auto simp: catchM_def split: sum.splits option.splits)

lemma validation_handler_returns:
  "(case e of ValidationException msg \<Rightarrow> Some (ret (Some (invalid msg))) | _ \<Rightarrow> None) = Some k \<Longrightarrow>
     fst (k w) \<noteq> Inr None"
  by (auto simp: op_simps split: exc.splits)

lemma handled_returns:
  assumes "fst (m w) \<noteq> Inr None"
  shows "fst (catchM (bindO m (\<lambda>_. ret (Some valid)))
      (\<lambda>e. case e of ValidationException msg \<Rightarrow> Some (ret (Some (invalid msg))) | _ \<Rightarrow> None) w) \<noteq> Inr None"
proof (rule catchM_returns)
  show "fst (bindO m (\<lambda>_. ret (Some valid)) w) \<noteq> Inr None"
    by (rule bindO_returns) (use assms in \<open>simp_all add: op_simps\<close>)
qed (rule validation_handler_returns)

lemma is_acl_valid_returns:
  assumes "no_nested_patterns cfg" "case value of None \<Rightarrow> True | Some v \<Rightarrow> count_list v (CHR ''('') + 3 \<le> fuel"
  shows "fst (is_acl_valid fuel cfg acl_type value w) \<noteq> Inr None"
proof -
  have valid: "fst (catchM (bindO (validate_new_acl fuel cfg f value) (\<lambda>_. ret (Some valid)))
      (\<lambda>e. case e of ValidationException msg \<Rightarrow> Some (ret (Some (invalid msg))) | _ \<Rightarrow> None) w) \<noteq> Inr None" for f
    by (rule handled_returns, rule validate_new_acl_returns) (use assms in auto)
  show ?thesis
  proof (cases "validator_of cfg acl_type")
    case (Inl e)
    then show ?thesis by (simp add: is_acl_valid_def op_simps bindM_def)
  next
    case (Inr f)
    with valid show ?thesis
      by (cases f) (auto simp: is_acl_valid_def op_simps bindM_def)
  qed
qed

lemma accepted_pattern_returns:
  assumes cfg: "no_nested_patterns (ae_config env)" and v: "pattern_text_error (Some v) = None"
    and fuel: "count_list v (CHR ''('') + 3 \<le> fuel"
  shows "fst (call_validator fuel DB env act sess AclPattern t v b w) \<noteq> Inr None"
proof -
  obtain m where m: "fuel = count_list v (CHR ''('') + 3 + m"
    using le_Suc_ex [OF fuel] by blast
  define n where "n = count_list v (CHR ''('') + m"
  have n: "fuel = Suc (Suc (Suc n))" "count_list v (CHR ''('') \<le> n"
    using m by (simp_all add: n_def)
  let ?test = "test_a_clause (ae_config env) (call_validator (Suc (Suc n)) DB env act (ae_session env))"
  have test: "fst (?test c w') \<noteq> Inr None" for c w'
    by (rule test_a_clause_returns [OF call_validator_simple cfg])
  have "fst (catchM (bindO (split_and_test_clause (Suc (Suc n)) ?test [] v) (\<lambda>_. ret (Some valid)))
      (\<lambda>e. case e of ValidationException msg \<Rightarrow> Some (ret (Some (invalid msg))) | _ \<Rightarrow> None) w) \<noteq> Inr None"
    by (rule handled_returns [OF split_and_test_terminates [OF test accepted_alternates [OF v] n(2)]])
  then show ?thesis
    by (simp add: n(1) del: split_and_test_clause.simps)
qed

text \<open>A pattern that was never checked can keep the loop going: \<open>)(\<close> has its mark put in for ever.\<close>

lemma unchecked_loop: "take_groups n gs (CHR '')'' # a @ CHR ''('' # r) = None"
  if "CHR ''('' \<notin> set a" for a
  using that
proof (induction n arbitrary: gs a)
  case 0
  then show ?case
    using index_of_append [of "CHR ''(''" "CHR '')'' # a" r] by (simp add: take_groups.simps)
next
  case (Suc n)
  have "CHR ''('' \<notin> set (a @ at_mark (length gs) @ a)"
    using Suc.prems str_nat_no_paren by (simp add: at_mark_def)
  from Suc.IH [OF this] Suc.prems index_of_append [of "CHR ''(''" "CHR '')'' # a" r] show ?case
    by (subst take_groups.simps) (simp add: slice_def)
qed

subsection \<open>Ranges and value lists\<close>

definition in_range :: "int option \<Rightarrow> int option \<Rightarrow> int \<Rightarrow> bool" where
  "in_range lo hi v \<longleftrightarrow> (case lo of None \<Rightarrow> True | Some a \<Rightarrow> a \<le> v) \<and> (case hi of None \<Rightarrow> True | Some b \<Rightarrow> v \<le> b)"

lemma range_verdict_plain: "fst (range_verdict lo hi v False) \<longleftrightarrow> in_range lo hi v"
  by (auto simp: range_verdict_def in_range_def split: option.splits)

text \<open>A negated range excludes what the plain one admits, but for the range with no end at all.\<close>

lemma range_verdict_negated:
  "lo \<noteq> None \<or> hi \<noteq> None \<Longrightarrow> fst (range_verdict lo hi v True) \<longleftrightarrow> \<not> in_range lo hi v"
  by (auto simp: range_verdict_def in_range_def split: option.splits)

lemma range_end_accepted: "s = '''' \<or> is_digit (Some s) \<Longrightarrow> \<exists>e. range_end s = Inr e"
  by (auto simp: range_end_def dest: py_int_is_digit split: option.splits)

lemma split_max_colon:
  obtains (one) "split_max (CHR '':'') 1 v = [v]"
    | (two) l h where "split_max (CHR '':'') 1 v = [l, h]"
  by (cases "CHR '':'' \<in> set v") (auto simp: One_nat_def)

lemma validate_new_range_accepts:
  assumes "validate_new_range (Some v) = Inr ()"
  obtains l h where "\<not> blank v" "split_max (CHR '':'') 1 v = [l, h]"
    "l = '''' \<or> is_digit (Some l)" "h = '''' \<or> is_digit (Some h)"
  using assms by (cases v rule: split_max_colon) (auto simp: validate_new_range_def split: if_splits)

definition range_bounds :: "string \<Rightarrow> int option \<times> int option" where
  "range_bounds v = (case split_max (CHR '':'') 1 v of
     [l, h] \<Rightarrow> (if l = '''' then None else py_int l, if h = '''' then None else py_int h)
   | _ \<Rightarrow> (None, None))"

lemma range_end_value: "s = '''' \<or> is_digit (Some s) \<Longrightarrow> range_end s = Inr (if s = '''' then None else py_int s)"
  by (auto simp: range_end_def dest: py_int_is_digit split: option.splits)

lemma call_range_accepted:
  assumes "validate_new_range (Some v) = Inr ()"
  shows "call_range sess t v b = Inr (case sess t of
      None \<Rightarrow> invalid ''blank value in AclRangeValidator''
    | Some sv \<Rightarrow> if blank sv then invalid ''blank value in AclRangeValidator''
        else (case py_int sv of
            None \<Rightarrow> invalid (''session value '' @ quoted sv @ '' is not a valid number'')
          | Some k \<Rightarrow> range_verdict (fst (range_bounds v)) (snd (range_bounds v)) k b))"
proof -
  obtain l h where "\<not> blank v" "split_max (CHR '':'') 1 v = [l, h]"
    "l = [] \<or> is_digit (Some l)" "h = [] \<or> is_digit (Some h)"
    by (rule validate_new_range_accepts [OF assms])
  then show ?thesis
    by (simp only: call_range_def range_bounds_def range_end_value if_False list.case sum.case fst_conv snd_conv)
      (auto split: option.splits)
qed

lemma call_str_in_csv_plain:
  "fst (call_str_in_csv sess t vs False) \<longleftrightarrow>
     blank vs \<or> (\<exists>v. sess t = Some v \<and> v \<in> set (split_on (CHR '','') vs))"
  by (auto simp: call_str_in_csv_def blank_def Let_def split: option.splits)

lemma call_str_in_csv_negated:
  "fst (call_str_in_csv sess t vs True) \<longleftrightarrow>
     blank vs \<or> (\<exists>v. sess t = Some v \<and> v \<notin> set (split_on (CHR '','') vs))"
  by (auto simp: call_str_in_csv_def blank_def Let_def split: option.splits)

lemma call_csv_in_csv_plain:
  "fst (call_csv_in_csv sess t vs False) \<longleftrightarrow>
     blank vs \<or> (\<exists>sv. sess t = Some sv \<and>
       (\<exists>x \<in> set (split_on (CHR '','') sv). \<not> blank x \<and> lower x \<in> set (split_on (CHR '','') vs)))"
  by (auto simp: call_csv_in_csv_def blank_def Let_def split: option.splits)

lemma find_in: "find P xs = Some x \<Longrightarrow> P x \<and> x \<in> set xs"
  by (auto simp: find_Some_iff)

lemma call_csv_in_csv_negated:
  "fst (call_csv_in_csv sess t vs True) \<longleftrightarrow>
     blank vs \<or> (\<exists>sv. sess t = Some sv \<and>
       (\<forall>x \<in> set (split_on (CHR '','') sv). \<not> blank x \<longrightarrow> x \<notin> set (split_on (CHR '','') vs)))"
  by (auto simp: call_csv_in_csv_def blank_def Let_def find_None_iff dest!: find_in
      split: option.splits)

subsection \<open>The decision\<close>

text \<open>
  A database whose role queries answer from the state without changing it, and in which finding
  the channel of a room, which fills a cache, does not change the roles.
\<close>

locale role_queries =
  fixes DB :: "('w, 'x) acl_db_scheme"
    and adm own ownc :: "'w \<Rightarrow> string option \<Rightarrow> string option \<Rightarrow> bool"
    and super gmod :: "'w \<Rightarrow> string option \<Rightarrow> bool"
  assumes is_admin: "ad_is_admin DB c u w = (Inr (adm w c u), w)"
    and is_owner: "ad_is_owner DB r u w = (Inr (own w r u), w)"
    and is_owner_channel: "ad_is_owner_channel DB c u w = (Inr (ownc w c u), w)"
    and is_super_user: "ad_is_super_user DB u w = (Inr (super w u), w)"
    and is_global_moderator: "ad_is_global_moderator DB u w = (Inr (gmod w u), w)"
    and channel_keeps_roles: "ad_channel_for_room DB r w = (x, w') \<Longrightarrow>
      adm w' = adm w \<and> own w' = own w \<and> ownc w' = ownc w \<and> super w' = super w \<and> gmod w' = gmod w"
begin

lemmas runs = is_admin is_owner is_owner_channel is_super_user is_global_moderator

lemma bind_runs:
  "bindM (ad_is_admin DB c u) f w = f (adm w c u) w"
  "bindM (ad_is_owner DB r u) f w = f (own w r u) w"
  "bindM (ad_is_owner_channel DB c u) f w = f (ownc w c u) w"
  "bindM (ad_is_super_user DB u) f w = f (super w u) w"
  "bindM (ad_is_global_moderator DB u) f w = f (gmod w u) w"
  by (simp_all add: bindM_def runs)

lemma room_decision:
  assumes act: "av_target act = Some t" "en_object_type t = Text ot" "\<not> blank ot" "en_id t = Text r"
      "av_actor act = Some a" "en_id a = Text u"
    and ch: "ad_channel_for_room DB (Some r) w = (Inr c, w')"
  shows "validate_acl_for_action fuel DB env act target_room action acls None sess None w =
    (let rules = possible_acls (ae_config env) target_room action;
         session = (case sess of None \<Rightarrow> ae_session env | Some s \<Rightarrow> s) in
     if adm w (Some c) (Some u) \<or> super w (Some u) \<or> gmod w (Some u) \<or> rules = [] \<or>
        ownc w (Some c) (Some u) \<or> own w (Some r) (Some u) \<or> acls = None \<or> acls = Some []
     then (Inr (Some valid), w')
     else check_rules fuel DB env act session (the acls) (rule_values rules) w')"
proof -
  have tc: "target_room \<noteq> target_channel" by (simp add: target_room_def target_channel_def)
  have found: "bindM (ad_channel_for_room DB (Some r)) f w = f c w'" for f :: "string \<Rightarrow> ('w, verdict option) op"
    by (simp add: bindM_def ch)
  note keep = channel_keeps_roles [OF ch]
  show ?thesis
    using act keep tc
    by (simp add: validate_acl_for_action_def target_type_missing_def Let_def op_simps utils_is_admin_def
        bind_runs found split: option.splits)
qed

lemma channel_decision:
  assumes act: "av_target act = Some t" "en_object_type t = Text ot" "\<not> blank ot" "en_id t \<noteq> Absent"
      "av_actor act = Some a" "en_id a = Text u" "av_object act = Some ob" "en_url ob = Text c"
  shows "validate_acl_for_action fuel DB env act target_channel action acls None sess None w =
    (let rules = possible_acls (ae_config env) target_channel action;
         session = (case sess of None \<Rightarrow> ae_session env | Some s \<Rightarrow> s) in
     if adm w (Some c) (Some u) \<or> super w (Some u) \<or> gmod w (Some u) \<or> rules = [] \<or>
        ownc w (Some c) (Some u) \<or> acls = None \<or> acls = Some []
     then (Inr (Some valid), w)
     else check_rules fuel DB env act session (the acls) (rule_values rules) w)"
proof -
  have tc: "target_channel \<noteq> target_room" by (simp add: target_room_def target_channel_def)
  obtain v where "attr_value (en_id t) = Inr v"
    using act(4) by (cases "en_id t") auto
  then show ?thesis
    using act tc
    by (simp add: validate_acl_for_action_def target_type_missing_def Let_def op_simps utils_is_admin_def
        bind_runs split: option.splits)
qed

end

text \<open>The rules of a target: all that are set must be satisfied; the first that is not is named.\<close>

lemma check_rules_verdict:
  assumes "\<And>acl v. acl \<in> set acls \<Longrightarrow> map_of target_acls acl = Some v \<Longrightarrow>
    \<exists>f m. validator_of (ae_config env) acl = Inr (ValidatorValue f) \<and>
      (\<forall>w. call_validator fuel DB env act session f acl v False w = (Inr (Some (ok acl, m)), w))"
  shows "\<exists>r. check_rules fuel DB env act session target_acls acls w = (Inr (Some r), w) \<and>
    (fst r \<longleftrightarrow> (\<forall>acl \<in> set acls. map_of target_acls acl \<noteq> None \<longrightarrow> ok acl))"
  using assms
proof (induction acls)
  case Nil
  then show ?case by (simp add: op_simps)
next
  case (Cons acl acls)
  have IH: "\<exists>r. check_rules fuel DB env act session target_acls acls w = (Inr (Some r), w) \<and>
    (fst r \<longleftrightarrow> (\<forall>acl \<in> set acls. map_of target_acls acl \<noteq> None \<longrightarrow> ok acl))"
    by (rule Cons.IH) (use Cons.prems in auto)
  show ?case
  proof (cases "map_of target_acls acl")
    case None
    with IH show ?thesis by simp
  next
    case (Some v)
    from Cons.prems [of acl v] Some obtain f m where f:
      "validator_of (ae_config env) acl = Inr (ValidatorValue f)"
      "\<forall>w. call_validator fuel DB env act session f acl v False w = (Inr (Some (ok acl, m)), w)" by auto
    then have "bindO (call_validator fuel DB env act session f acl v False) g w = g (ok acl, m) w" for g :: "verdict \<Rightarrow> ('a, verdict option) op"
      by (simp add: bindO_def bindM_def)
    with Some f(1) IH show ?thesis
      by (auto simp: bindM_def op_simps)
  qed
qed

end
