(* ===== verification/Keeps.thy ===== *)
theory Keeps
  imports Acl_Facts
begin

section \<open>Operations that stay within a relation of states\<close>

text \<open>
  \<open>keeps R m\<close> says that whatever the outcome of \<open>m\<close>, the state after it is related to the state
  before. For a reflexive and transitive relation it passes through every construct of the model,
  the evaluation of custom patterns included, so that what an access control list may do to the
  state is what the queries of the database do to it.
\<close>

definition keeps :: "('w \<Rightarrow> 'w \<Rightarrow> bool) \<Rightarrow> ('w, 'a) op \<Rightarrow> bool" where
  "keeps R m \<longleftrightarrow> (\<forall>w. R w (snd (m w)))"

lemma keepsD: "keeps R m \<Longrightarrow> m w = (r, w') \<Longrightarrow> R w w'"
  by (auto simp: keeps_def) (metis snd_conv)

locale state_relation =
  fixes R :: "'w \<Rightarrow> 'w \<Rightarrow> bool"
  assumes R_refl: "R w w"
    and R_trans: "R w w1 \<Longrightarrow> R w1 w2 \<Longrightarrow> R w w2"
begin

lemma keeps_basic: "keeps R (ret a)" "keeps R (throw e)" "keeps R (lift_result r)" "keeps R (read_attr p g)"
  by (simp_all add: keeps_def op_simps read_attr_run R_refl)

lemma keeps_bindM: "keeps R m \<Longrightarrow> (\<And>a. keeps R (f a)) \<Longrightarrow> keeps R (bindM m f)"
  unfolding keeps_def bindM_def by (auto split: prod.splits sum.splits) (metis R_trans snd_conv)+

lemma keeps_thenM: "keeps R m \<Longrightarrow> keeps R k \<Longrightarrow> keeps R (thenM m k)"
  unfolding thenM_def by (rule keeps_bindM)

lemma keeps_bindO: "keeps R m \<Longrightarrow> (\<And>a. keeps R (f a)) \<Longrightarrow> keeps R (bindO m f)"
  unfolding bindO_def by (rule keeps_bindM) (auto simp: keeps_basic split: option.splits)

lemma keeps_catchM: "keeps R m \<Longrightarrow> (\<And>e k. h e = Some k \<Longrightarrow> keeps R k) \<Longrightarrow> keeps R (catchM m h)"
  unfolding keeps_def catchM_def
  by (auto split: prod.splits sum.splits option.splits) (metis R_trans snd_conv)+

lemma keeps_if: "keeps R m \<Longrightarrow> keeps R k \<Longrightarrow> keeps R (if b then m else k)"
  by simp

lemma keeps_option: "keeps R m \<Longrightarrow> (\<And>a. keeps R (f a)) \<Longrightarrow> keeps R (case v of None \<Rightarrow> m | Some a \<Rightarrow> f a)"
  by (simp split: option.split)

lemma keeps_foldM: "(\<And>b x. keeps R (f b x)) \<Longrightarrow> keeps R (foldM f b xs)"
  by (induction xs arbitrary: b) (auto simp: keeps_basic intro: keeps_bindM)

lemma keeps_and_loop:
  assumes "\<And>gs g. keeps R (sub gs g)" "\<And>c. keeps R (test c)"
  shows "keeps R (and_loop sub test groups cs)"
  using assms
  by (induction cs arbitrary: groups)
    (auto simp: keeps_basic intro!: keeps_bindM keeps_bindO split: prod.splits)

lemma keeps_or_loop:
  assumes "\<And>gs g. keeps R (sub gs g)" "\<And>c. keeps R (test c)"
  shows "keeps R (or_loop sub test failure groups cs)"
  using assms
  by (induction cs arbitrary: groups)
    (auto simp: keeps_basic intro!: keeps_bindO keeps_and_loop split: prod.splits)

lemma keeps_split:
  assumes "\<And>c. keeps R (test c)"
  shows "keeps R (split_and_test_clause n test groups clause)"
  using assms
  by (induction n arbitrary: groups clause)
    (auto simp: keeps_basic Let_def intro!: keeps_or_loop split: option.splits sum.splits)

lemma keeps_test_clause:
  assumes "\<And>v t x b. keeps R (run v t x b)"
  shows "keeps R (test_a_clause cfg run clause)"
  using assms
  by (auto simp: test_a_clause_def keeps_basic Let_def intro!: keeps_bindM
      split: list.splits conf_value.splits)

lemma keeps_validate_new_acl: "keeps R (validate_new_acl fuel cfg f v)"
proof (induction fuel arbitrary: f v)
  case 0
  then show ?case
    by (cases f) (auto simp: keeps_basic intro!: keeps_bindM split: option.splits)
next
  case (Suc n)
  then show ?case
    by (cases f) (auto simp: keeps_basic intro!: keeps_bindM keeps_bindO keeps_split keeps_test_clause
        simp del: split_and_test_clause.simps split: option.splits)
qed

lemma keeps_is_acl_valid: "keeps R (is_acl_valid fuel cfg t v)"
  by (auto simp: is_acl_valid_def keeps_basic keeps_validate_new_acl
      intro!: keeps_bindM keeps_catchM keeps_bindO split: conf_value.splits exc.splits)

end

text \<open>A database whose queries stay within the relation.\<close>

locale acl_relation = state_relation R for R :: "'w \<Rightarrow> 'w \<Rightarrow> bool" +
  fixes DB :: "('w, 'x) acl_db_scheme"
  assumes keeps_admin: "keeps R (ad_is_admin DB c u)"
    and keeps_owner: "keeps R (ad_is_owner DB r u)"
    and keeps_owner_channel: "keeps R (ad_is_owner_channel DB c u)"
    and keeps_super_user: "keeps R (ad_is_super_user DB u)"
    and keeps_global_moderator: "keeps R (ad_is_global_moderator DB u)"
    and keeps_channel_for_room: "keeps R (ad_channel_for_room DB r)"
    and keeps_room_contains: "keeps R (ad_room_contains DB i j)"
begin

lemmas keeps_queries = keeps_admin keeps_owner keeps_owner_channel keeps_super_user keeps_global_moderator
  keeps_channel_for_room keeps_room_contains

lemma keeps_user_in_room: "keeps R (utils_is_user_in_room DB u r)"
  by (auto simp: utils_is_user_in_room_def keeps_basic keeps_queries split: option.splits)

lemma keeps_utils_is_admin: "keeps R (utils_is_admin DB c u)"
  by (simp add: utils_is_admin_def keeps_basic keeps_queries)

lemma keeps_call_validator: "keeps R (call_validator fuel DB env act session f t v b)"
proof (induction fuel arbitrary: session f t v b)
  case 0
  then show ?case
    by (cases f) (auto simp: keeps_basic keeps_queries keeps_user_in_room call_is_admin_def call_is_room_owner_def
        call_is_super_user_def call_same_channel_def call_same_room_def intro!: keeps_bindM)
next
  case (Suc n)
  then show ?case
    by (cases f) (auto simp: keeps_basic keeps_queries keeps_user_in_room call_is_admin_def call_is_room_owner_def
        call_is_super_user_def call_same_channel_def call_same_room_def
        simp del: split_and_test_clause.simps
        intro!: keeps_bindM keeps_catchM keeps_bindO keeps_split keeps_test_clause split: exc.splits)
qed

lemma keeps_check_rules: "keeps R (check_rules fuel DB env act session target_acls acls)"
  by (induction acls)
    (auto simp: keeps_basic keeps_call_validator intro!: keeps_bindM keeps_bindO
      split: option.split conf_value.split prod.split)

text \<open>The decision on an action does to the state only what the queries do.\<close>

lemma keeps_validate_acl:
  "keeps R (validate_acl_for_action fuel DB env act target action acls target_id session channel)"
  unfolding validate_acl_for_action_def Let_def
  by (intro keeps_if keeps_bindM keeps_option keeps_basic keeps_queries keeps_utils_is_admin keeps_check_rules)

end

text \<open>The relation of equality: operations that leave the whole state as it is.\<close>

interpretation same_state: state_relation "(=)"
  by unfold_locales auto

end
