(* ===== verification/Db_Role_Facts.thy ===== *)
theory Db_Role_Facts
  imports Db_Facts Keeps
begin

section \<open>Facts on the roles in the Redis database\<close>

text \<open>
  Adding and removing a role change exactly that role of that user in that place; the queries
  read the roles and change nothing, so that the database provides what the decision on an
  action relies on (\<open>role_queries\<close>).
\<close>

subsection \<open>Texts of roles\<close>

text \<open>A role has a name without a comma that is not empty.\<close>

definition role_name :: "string \<Rightarrow> bool" where
  "role_name r \<longleftrightarrow> r \<noteq> '''' \<and> CHR '','' \<notin> set r"

lemma role_names [simp]:
  "role_name role_owner" "role_name role_moderator" "role_name role_admin" "role_name role_super_user"
  "role_name role_global_moderator"
  by (simp_all add: role_name_def role_owner_def role_moderator_def role_admin_def role_super_user_def
      role_global_moderator_def)

lemma role_in_None [simp]: "\<not> role_in_text r None"
  by (simp add: role_in_text_def)

lemma role_in_join:
  assumes "\<forall>x \<in> set xs. CHR '','' \<notin> set x" "r \<noteq> ''''"
  shows "role_in_text r (Some (join_on (CHR '','') xs)) \<longleftrightarrow> r \<in> set xs"
  using assms by (cases "xs = []") (auto simp: role_in_text_def split_on_join_on)

lemma parts_no_comma: "x \<in> set (split_on (CHR '','') s) \<Longrightarrow> CHR '','' \<notin> set x"
  by (rule split_on_no_sep_in_parts)

lemma role_in_add:
  assumes "role_name role" "role_name r" "\<And>xs. set (order xs) = set xs"
  shows "role_in_text r (Some (add_role_text order role t)) \<longleftrightarrow> r = role \<or> role_in_text r t"
proof (cases t)
  case None
  with assms(1) show ?thesis
    by (auto simp: add_role_text_def role_in_text_def role_name_def split_on_no_sep)
next
  case (Some s)
  have "\<forall>x \<in> set (order (List.insert role (remdups (split_on (CHR '','') s)))). CHR '','' \<notin> set x"
    using assms(1) parts_no_comma by (auto simp: assms(3) role_name_def)
  from role_in_join [OF this, of r] Some assms(2) show ?thesis
    by (auto simp: add_role_text_def assms(3) role_name_def role_in_text_def)
qed

lemma role_in_remove:
  assumes "role_name r" "\<And>xs. set (order xs) = set xs"
  shows "role_in_text r (Some (remove_role_text order role s)) \<longleftrightarrow> r \<noteq> role \<and> role_in_text r (Some s)"
proof -
  have "\<forall>x \<in> set (order (remove1 role (remdups (split_on (CHR '','') s)))). CHR '','' \<notin> set x"
    using parts_no_comma by (auto simp: assms(2) dest: notin_set_remove1 in_set_remove1)
  from role_in_join [OF this, of r] assms(1) show ?thesis
    by (auto simp: remove_role_text_def assms(2) role_name_def role_in_text_def)
qed

subsection \<open>Roles of a view\<close>

definition room_role :: "dbv \<Rightarrow> string \<Rightarrow> string \<Rightarrow> string \<Rightarrow> bool" where
  "room_role v r u role \<longleftrightarrow> role_in_text role (v_room_roles v r u)"

definition channel_role :: "dbv \<Rightarrow> string \<Rightarrow> string \<Rightarrow> string \<Rightarrow> bool" where
  "channel_role v c u role \<longleftrightarrow> role_in_text role (v_channel_roles v c u)"

definition global_role :: "dbv \<Rightarrow> string \<Rightarrow> string \<Rightarrow> bool" where
  "global_role v u role \<longleftrightarrow> role_in_text role (v_global_roles v u)"

lemmas role_views = room_role_def channel_role_def global_role_def

lemma has_role_run [op_simps]:
  "dr_has_role_in_room E role r (Some u) w = (Inr (room_role (dv E w) r u role), w)"
  "dr_has_role_in_channel E role c (Some u) w = (Inr (channel_role (dv E w) c u role), w)"
  "dr_has_global_role E (Some u) role w = (Inr (global_role (dv E w) u role), w)"
  by (simp_all add: dr_has_role_in_room_def dr_has_role_in_channel_def dr_has_global_role_def db_run role_views)

lemma role_queries_run [op_simps]:
  "dr_is_owner E r (Some u) w = (Inr (room_role (dv E w) r u role_owner), w)"
  "dr_is_moderator E r (Some u) w = (Inr (room_role (dv E w) r u role_moderator), w)"
  "dr_is_admin E c (Some u) w = (Inr (channel_role (dv E w) c u role_admin), w)"
  "dr_is_owner_channel E c (Some u) w = (Inr (channel_role (dv E w) c u role_owner), w)"
  "dr_is_super_user E (Some u) w = (Inr (global_role (dv E w) u role_super_user), w)"
  "dr_is_global_moderator E (Some u) w = (Inr (global_role (dv E w) role_global_moderator u), w)"
  by (simp_all add: dr_is_owner_def dr_is_moderator_def dr_is_admin_def dr_is_owner_channel_def
      dr_is_super_user_def dr_is_global_moderator_def op_simps)

lemma role_queries_None [op_simps]:
  "dr_is_owner E r None w = (Inr False, w)" "dr_is_moderator E r None w = (Inr False, w)"
  "dr_is_admin E c None w = (Inr False, w)" "dr_is_owner_channel E c None w = (Inr False, w)"
  "dr_is_super_user E None w = (Inr False, w)" "dr_is_global_moderator E None w = (Inr False, w)"
  by (simp_all add: dr_is_owner_def dr_is_moderator_def dr_is_admin_def dr_is_owner_channel_def
      dr_is_super_user_def dr_is_global_moderator_def dr_has_role_in_room_def dr_has_role_in_channel_def
      dr_has_global_role_def db_run)

lemma update_roles_run [op_simps]:
  "dr_update_roles E key u role w = (Inr (), w\<lparr>db_redis := r_hset (de_redis E) (db_redis w) key u
     (add_role_text (de_order E) role (r_hget (de_redis E) (db_redis w) key u))\<rparr>)"
  by (simp add: dr_update_roles_def op_simps d_defs)

lemma drop_role_run [op_simps]:
  "dr_drop_role E key u role w = (Inr (), case r_hget (de_redis E) (db_redis w) key u of
     None \<Rightarrow> w
   | Some s \<Rightarrow> if role_in_text role (Some s)
       then w\<lparr>db_redis := r_hset (de_redis E) (db_redis w) key u (remove_role_text (de_order E) role s)\<rparr>
       else w)"
  by (simp add: dr_drop_role_def op_simps d_defs role_in_text_def split: option.splits)

context db_env begin

lemma set_owner_run:
  assumes "v_room_name (dv E w) r \<noteq> None"
  shows "\<exists>w'. dr_set_owner E r u w = (Inr (), w') \<and> db_cache w' = db_cache w \<and>
    dv E w' = (dv E w)\<lparr>v_room_roles := upd2 (v_room_roles (dv E w)) r u
      (Some (add_role_text (de_order E) role_owner (v_room_roles (dv E w) r u)))\<rparr>"
  using assms
  by (auto simp: dr_set_owner_def dr_add_room_role_def op_simps db_views db_reads)

lemma set_room_role_spec:
  assumes "v_room_name (dv E w) r \<noteq> None" "role_name role"
  shows "\<exists>w'. dr_add_room_role E role r u w = (Inr (), w') \<and>
    (\<forall>r' u' role'. role_name role' \<longrightarrow>
       room_role (dv E w') r' u' role' = (room_role (dv E w) r' u' role' \<or> (r' = r \<and> u' = u \<and> role' = role)))
    \<and> v_channel_roles (dv E w') = v_channel_roles (dv E w) \<and> v_global_roles (dv E w') = v_global_roles (dv E w)"
  using assms
  by (auto simp: dr_add_room_role_def op_simps db_views db_reads room_role_def role_in_add set_order)

lemma remove_room_role_spec:
  assumes "role_name role"
  shows "\<exists>w'. dr_remove_room_role E role r u w = (Inr (), w') \<and>
    (\<forall>r' u' role'. role_name role' \<longrightarrow>
       room_role (dv E w') r' u' role' = (room_role (dv E w) r' u' role' \<and> \<not> (r' = r \<and> u' = u \<and> role' = role)))
    \<and> v_channel_roles (dv E w') = v_channel_roles (dv E w) \<and> v_global_roles (dv E w') = v_global_roles (dv E w)"
  using assms
  by (auto simp: dr_remove_room_role_def op_simps db_views db_reads room_role_def role_in_remove set_order
      split: option.splits)

lemma global_role_spec:
  assumes "role_name role"
  shows "\<exists>w'. dr_add_global_role E u role w = (Inr (), w') \<and>
    (\<forall>u' role'. role_name role' \<longrightarrow>
       global_role (dv E w') u' role' = (global_role (dv E w) u' role' \<or> (u' = u \<and> role' = role)))
    \<and> v_channel_roles (dv E w') = v_channel_roles (dv E w) \<and> v_room_roles (dv E w') = v_room_roles (dv E w)"
  using assms
  by (auto simp: dr_add_global_role_def op_simps db_views db_reads global_role_def role_in_add set_order)

lemma remove_global_role_spec:
  assumes "role_name role"
  shows "\<exists>w'. dr_remove_global_role E u role w = (Inr (), w') \<and>
    (\<forall>u' role'. role_name role' \<longrightarrow>
       global_role (dv E w') u' role' = (global_role (dv E w) u' role' \<and> \<not> (u' = u \<and> role' = role)))
    \<and> v_channel_roles (dv E w') = v_channel_roles (dv E w) \<and> v_room_roles (dv E w') = v_room_roles (dv E w)"
  using assms
  by (auto simp: dr_remove_global_role_def op_simps db_views db_reads global_role_def role_in_remove set_order
      split: option.splits)

lemma global_moderator_spec:
  assumes "v_global_roles (dv E w) role_global_moderator = None" "u \<noteq> role_global_moderator"
  shows "\<exists>w'. dr_set_global_moderator E r u w = (Inr (), w') \<and>
    global_role (dv E w') u role_global_moderator \<and> dr_is_global_moderator E (Some u) w' = (Inr False, w')"
  using assms
  by (auto simp: dr_set_global_moderator_def dr_add_global_role_def op_simps db_views db_reads global_role_def
      role_in_add set_order)

end

subsection \<open>The database behind the decision on an action\<close>

text \<open>Operations that leave Redis as it is, but may fill the cache.\<close>

abbreviation same_redis :: "('s, 'c, 'y) dbw_scheme \<Rightarrow> ('s, 'c, 'y) dbw_scheme \<Rightarrow> bool" where
  "same_redis w w' \<equiv> db_redis w' = db_redis w"

interpretation same_redis: state_relation same_redis
  by unfold_locales auto

lemma keeps_redis_ops: "keeps same_redis (d_ask f)" "keeps same_redis (via_cache m)"
  by (auto simp: keeps_def op_simps d_ask_def via_cache_def split: prod.splits)

lemmas reads_only = same_redis.keeps_basic keeps_redis_ops

lemma keeps_redis_room_name: "keeps same_redis (dr_get_room_name E r)"
  by (auto simp: dr_get_room_name_def d_hget_def reads_only intro!: same_redis.keeps_bindM split: option.splits)

lemma keeps_redis_channel_for_room: "keeps same_redis (dr_channel_for_room E r)"
  by (auto simp: dr_channel_for_room_def Let_def d_hget_def reads_only keeps_redis_room_name
      intro!: same_redis.keeps_bindM same_redis.keeps_thenM split: option.splits)

lemma keeps_redis_room_contains: "keeps same_redis (dr_room_contains E r u)"
  by (auto simp: dr_room_contains_def d_hexists_def reads_only keeps_redis_room_name keeps_redis_channel_for_room
      intro!: same_redis.keeps_thenM)

definition redis_acl_db :: "('s, 'c) denv \<Rightarrow> (('s, 'c) dbw) acl_db" where
  "redis_acl_db E = \<lparr>
     ad_is_admin = (\<lambda>c u. dr_is_admin E (fmt c) u),
     ad_is_owner = (\<lambda>r u. dr_is_owner E (fmt r) u),
     ad_is_owner_channel = (\<lambda>c u. dr_is_owner_channel E (fmt c) u),
     ad_is_super_user = dr_is_super_user E,
     ad_is_global_moderator = dr_is_global_moderator E,
     ad_channel_for_room = dr_channel_for_room E,
     ad_room_contains = dr_room_contains E\<rparr>"

text \<open>The answers, as functions of the view; the last one is what the code computes.\<close>

definition q_admin :: "dbv \<Rightarrow> string option \<Rightarrow> string option \<Rightarrow> bool" where
  "q_admin v c u = (case u of None \<Rightarrow> False | Some x \<Rightarrow> channel_role v (fmt c) x role_admin)"

definition q_owner :: "dbv \<Rightarrow> string option \<Rightarrow> string option \<Rightarrow> bool" where
  "q_owner v r u = (case u of None \<Rightarrow> False | Some x \<Rightarrow> room_role v (fmt r) x role_owner)"

definition q_owner_channel :: "dbv \<Rightarrow> string option \<Rightarrow> string option \<Rightarrow> bool" where
  "q_owner_channel v c u = (case u of None \<Rightarrow> False | Some x \<Rightarrow> channel_role v (fmt c) x role_owner)"

definition q_super :: "dbv \<Rightarrow> string option \<Rightarrow> bool" where
  "q_super v u = (case u of None \<Rightarrow> False | Some x \<Rightarrow> global_role v x role_super_user)"

definition q_globalmod :: "dbv \<Rightarrow> string option \<Rightarrow> bool" where
  "q_globalmod v u = (case u of None \<Rightarrow> False | Some x \<Rightarrow> global_role v role_global_moderator x)"

lemmas q_defs = q_admin_def q_owner_def q_owner_channel_def q_super_def q_globalmod_def

lemma redis_role_queries:
  "role_queries (redis_acl_db E) (\<lambda>w. q_admin (dv E w)) (\<lambda>w. q_owner (dv E w))
     (\<lambda>w. q_owner_channel (dv E w)) (\<lambda>w. q_super (dv E w)) (\<lambda>w. q_globalmod (dv E w))"
proof
  fix r w x w'
  assume "ad_channel_for_room (redis_acl_db E) r w = (x, w')"
  then have "db_redis w' = db_redis w"
    using keepsD [OF keeps_redis_channel_for_room [of E r]] by (simp add: redis_acl_db_def)
  then show "q_admin (dv E w') = q_admin (dv E w) \<and> q_owner (dv E w') = q_owner (dv E w) \<and>
    q_owner_channel (dv E w') = q_owner_channel (dv E w) \<and> q_super (dv E w') = q_super (dv E w) \<and>
    q_globalmod (dv E w') = q_globalmod (dv E w)"
    by (simp add: dv_def)
qed (simp_all add: redis_acl_db_def q_defs op_simps split: option.splits)

interpretation redis_roles: role_queries "redis_acl_db E" "\<lambda>w. q_admin (dv E w)" "\<lambda>w. q_owner (dv E w)"
    "\<lambda>w. q_owner_channel (dv E w)" "\<lambda>w. q_super (dv E w)" "\<lambda>w. q_globalmod (dv E w)" for E
  by (rule redis_role_queries)

text \<open>Deciding on an action never changes Redis.\<close>

lemma role_queries_pure:
  "snd (dr_is_admin E c u w) = w" "snd (dr_is_owner E c u w) = w" "snd (dr_is_owner_channel E c u w) = w"
  "snd (dr_is_super_user E u w) = w" "snd (dr_is_global_moderator E u w) = w"
  by (cases u; simp add: op_simps)+

interpretation redis_acl_db: acl_relation same_redis "redis_acl_db E" for E
  by unfold_locales
    (simp_all add: redis_acl_db_def keeps_redis_channel_for_room keeps_redis_room_contains,
     simp_all add: keeps_def role_queries_pure)

subsection \<open>Concrete environments\<close>

definition memory_denv :: "(store, unit) denv" where
  "memory_denv = \<lparr>de_redis = store_redis, de_cache = all_miss, de_order = (\<lambda>xs. xs), de_tz = 0\<rparr>"

text \<open>The database with the Redis cache in front of it, both on stores in memory.\<close>

definition cached_denv :: "(store, store cw) denv" where
  "cached_denv = \<lparr>de_redis = store_redis, de_cache = redis_icache memory_cenv, de_order = (\<lambda>xs. xs),
     de_tz = 0\<rparr>"

interpretation memory_db: db_env memory_denv "\<lambda>_ _ _. True"
proof -
  show "db_env memory_denv (\<lambda>_ _ _. True)"
    by (simp add: db_env_def db_env_axioms_def memory_denv_def memory_client.redis_client_axioms
        all_miss_cache.coherent_cache_axioms)
qed

interpretation cached_db: db_env cached_denv "cache_agrees memory_cenv"
proof -
  show "db_env cached_denv (cache_agrees memory_cenv)"
    by (simp add: db_env_def db_env_axioms_def cached_denv_def memory_client.redis_client_axioms
        memory_cache_env.redis_cache.coherent_cache_axioms)
qed

definition empty_dbw :: "(store, unit) dbw" where
  "empty_dbw = \<lparr>db_redis = empty_store, db_cache = ()\<rparr>"

definition empty_cached :: "(store, store cw) dbw" where
  "empty_cached = \<lparr>db_redis = empty_store, db_cache = \<lparr>cw_redis = empty_store, cw_mem = [], cw_now = 0\<rparr>\<rparr>"

end
