(* ===== verification/Db_Registry.thy ===== *)
theory Db_Registry
  imports Db_Role_Facts
begin

section \<open>The registry of channels and rooms\<close>

text \<open>
  The rooms of a channel, the names of the rooms and the channel of a room are kept in separate
  hashes. They agree (\<open>registry_ok\<close>), and no two rooms of a channel have names that differ in
  case only. Creating, renaming and removing a room keep this in every outcome, and are described
  exactly by operations on views.
\<close>

definition registry_ok :: "dbv \<Rightarrow> bool" where
  "registry_ok v \<longleftrightarrow>
     (\<forall>c r n. v_rooms v c r = Some n \<longrightarrow> v_room_name v r = Some n \<and> v_channel_of v r = Some c) \<and>
     (\<forall>r c. v_channel_of v r = Some c \<longrightarrow> v_rooms v c r \<noteq> None) \<and>
     (\<forall>r. v_room_name v r \<noteq> None \<longrightarrow> v_channel_of v r \<noteq> None) \<and>
     (\<forall>c r r' n n'. v_rooms v c r = Some n \<longrightarrow> v_rooms v c r' = Some n' \<longrightarrow> lower n = lower n' \<longrightarrow> r = r')"

subsection \<open>The operations on views\<close>

definition name_taken :: "dbv \<Rightarrow> string \<Rightarrow> string \<Rightarrow> bool" where
  "name_taken v c n \<longleftrightarrow> (\<exists>r n'. v_rooms v c r = Some n' \<and> lower n' = lower n)"

definition created_room ::
  "(string list \<Rightarrow> string list) \<Rightarrow> string \<Rightarrow> string \<Rightarrow> string \<Rightarrow> string \<Rightarrow> string \<Rightarrow> bool \<Rightarrow> dbv \<Rightarrow> dbv" where
  "created_room order n r c u un ephemeral v = v\<lparr>
     v_persistent := (if ephemeral then (v_persistent v)(r := True) else v_persistent v),
     v_room_name := (v_room_name v)(r \<mapsto> n),
     v_rooms := upd2 (v_rooms v) c r (Some n),
     v_channel_of := (v_channel_of v)(r \<mapsto> c),
     v_user_names := (v_user_names v)(u \<mapsto> un),
     v_room_roles := upd2 (v_room_roles v) r u (Some (add_role_text order role_owner (v_room_roles v r u)))\<rparr>"

definition renamed_room :: "string \<Rightarrow> string \<Rightarrow> string \<Rightarrow> dbv \<Rightarrow> dbv" where
  "renamed_room c r n v = v\<lparr>v_room_name := (v_room_name v)(r \<mapsto> n), v_rooms := upd2 (v_rooms v) c r (Some n)\<rparr>"

definition removed_room :: "string \<Rightarrow> string \<Rightarrow> dbv \<Rightarrow> dbv" where
  "removed_room c r v = v\<lparr>
     v_persistent := (v_persistent v)(r := False),
     v_room_name := (v_room_name v)(r := None),
     v_room_roles := (v_room_roles v)(r := (\<lambda>_. None)),
     v_rooms := upd2 (v_rooms v) c r None,
     v_channel_of := (v_channel_of v)(r := None)\<rparr>"

subsection \<open>The invariant on views\<close>

lemma registry_okD:
  assumes "registry_ok v"
  shows "v_rooms v c r = Some n \<Longrightarrow> v_room_name v r = Some n"
    "v_rooms v c r = Some n \<Longrightarrow> v_channel_of v r = Some c"
    "v_channel_of v r = Some c \<Longrightarrow> \<exists>n. v_rooms v c r = Some n"
    "v_room_name v r = Some n \<Longrightarrow> \<exists>c. v_channel_of v r = Some c"
    "v_rooms v c r = Some n \<Longrightarrow> v_rooms v c r' = Some n' \<Longrightarrow> lower n = lower n' \<Longrightarrow> r = r'"
  using assms unfolding registry_ok_def by blast+

lemma registry_one_channel:
  "registry_ok v \<Longrightarrow> v_rooms v c r = Some n \<Longrightarrow> v_rooms v c' r = Some n' \<Longrightarrow> c = c'"
  by (metis option.inject registry_okD(2))

lemma registry_okI:
  assumes "\<And>c r n. v_rooms v c r = Some n \<Longrightarrow> v_room_name v r = Some n"
    "\<And>c r n. v_rooms v c r = Some n \<Longrightarrow> v_channel_of v r = Some c"
    "\<And>r c. v_channel_of v r = Some c \<Longrightarrow> \<exists>n. v_rooms v c r = Some n"
    "\<And>r n. v_room_name v r = Some n \<Longrightarrow> \<exists>c. v_channel_of v r = Some c"
    "\<And>c r r' n n'. v_rooms v c r = Some n \<Longrightarrow> v_rooms v c r' = Some n' \<Longrightarrow> lower n = lower n' \<Longrightarrow> r = r'"
  shows "registry_ok v"
  using assms unfolding registry_ok_def by blast

lemma registry_created:
  assumes v: "registry_ok v" and r: "v_room_name v r = None" "v_channel_of v r = None"
    and n: "\<not> name_taken v c n"
  shows "registry_ok (created_room order n r c u un eph v)"
  using r n
  by (intro registry_okI)
    (auto simp: created_room_def name_taken_def dest: registry_okD [OF v] registry_one_channel [OF v] split: if_splits)

lemma registry_renamed:
  assumes v: "registry_ok v" and r: "v_rooms v c r \<noteq> None" and n: "\<not> name_taken v c n"
  shows "registry_ok (renamed_room c r n v)"
  using r n
  by (intro registry_okI)
    (auto simp: renamed_room_def name_taken_def dest: registry_okD [OF v] registry_one_channel [OF v] split: if_splits)

lemma registry_removed:
  assumes v: "registry_ok v" and r: "v_rooms v c r \<noteq> None"
  shows "registry_ok (removed_room c r v)"
  using r
  by (intro registry_okI)
    (auto simp: removed_room_def dest: registry_okD [OF v] registry_one_channel [OF v] split: if_splits)

subsection \<open>The operations of the database\<close>

text \<open>The errors of the guards, in the order of the code; \<open>seen\<close> says whether the cache vouches for the channel.\<close>

definition create_room_error :: "bool \<Rightarrow> dbv \<Rightarrow> string option \<Rightarrow> string \<Rightarrow> string \<Rightarrow> exc option" where
  "create_room_error seen v name r c =
     (if \<not> seen \<and> (c = '''' \<or> v_channels v c = None) then Some (NoSuchChannelException c)
      else if none_or_blank name then Some (EmptyRoomNameException r)
      else if v_rooms v c r \<noteq> None then Some (RoomExistsException r)
      else if name_taken v c (the name) then Some (RoomNameExistsForChannelException c (the name))
      else None)"

definition rename_room_error :: "bool \<Rightarrow> dbv \<Rightarrow> string option \<Rightarrow> string \<Rightarrow> string \<Rightarrow> exc option" where
  "rename_room_error seen v name r c =
     (if \<not> seen \<and> (c = '''' \<or> v_channels v c = None) then Some (NoSuchChannelException c)
      else if none_or_blank name then Some (EmptyRoomNameException c)
      else if v_rooms v c r = None then Some (NoSuchRoomException r)
      else if name_taken v c (the name) then Some (RoomNameExistsForChannelException c (the name))
      else None)"

definition remove_room_error :: "bool \<Rightarrow> dbv \<Rightarrow> string \<Rightarrow> string \<Rightarrow> exc option" where
  "remove_room_error seen v r c =
     (if v_rooms v c r = None then Some (NoSuchRoomException r)
      else if \<not> seen \<and> (c = '''' \<or> v_channels v c = None) then Some (NoSuchChannelException c)
      else None)"

text \<open>An outcome: an error without effect on Redis, or success with the new view.\<close>

definition outcome :: "('s, 'c) denv \<Rightarrow> exc option \<Rightarrow> (dbv \<Rightarrow> dbv) \<Rightarrow> ('s, 'c) dbw \<Rightarrow>
    (exc + unit) \<times> ('s, 'c) dbw \<Rightarrow> bool" where
  "outcome E err f w res \<longleftrightarrow> (case err of
     Some e \<Rightarrow> fst res = Inl e \<and> dv E (snd res) = dv E w
   | None \<Rightarrow> fst res = Inr () \<and> dv E (snd res) = f (dv E w))"

lemma room_exists_run [op_simps]:
  "redis_client (de_redis E) \<Longrightarrow> dr_room_exists E c r w = (Inr (v_rooms (dv E w) c r \<noteq> None), w)"
  by (simp add: dr_room_exists_def db_run redis_client.hexists_view)

lemma channel_exists_run:
  "redis_client (de_redis E) \<Longrightarrow>
     dr_channel_exists E (Some c) w = (Inr (c \<noteq> '''' \<and> v_channels (dv E w) c \<noteq> None), w)"
  by (simp add: dr_channel_exists_def db_run redis_client.hexists_view)

lemma room_name_exists_run:
  "redis_client (de_redis E) \<Longrightarrow> dr_room_name_exists E c n w = (Inr (name_taken (dv E w) c n), w)"
  by (simp add: dr_room_name_exists_def db_run redis_client.hvals_view name_taken_def image_iff Bex_def)
    metis

context db_env begin

lemmas client = redis_client_axioms

lemma bind_exists:
  "bindM (dr_room_exists E c r) f w = f (v_rooms (dv E w) c r \<noteq> None) w"
  "bindM (dr_channel_exists E (Some c)) g w = g (c \<noteq> '''' \<and> v_channels (dv E w) c \<noteq> None) w"
  "bindM (dr_room_name_exists E c n) h w = h (name_taken (dv E w) c n) w"
  by (simp_all add: bindM_def room_exists_run channel_exists_run room_name_exists_run client)

lemma require_channel_run:
  assumes "db_ok E agrees w"
  obtains seen cc where
    "dr_require_channel E c w =
       (if \<not> seen \<and> (c = '''' \<or> v_channels (dv E w) c = None) then Inl (NoSuchChannelException c)
        else Inr (), w\<lparr>db_cache := cc\<rparr>)" "db_ok E agrees (w\<lparr>db_cache := cc\<rparr>)"
proof -
  obtain v cc where g: "via_cache (ic_get_channel_exists (de_cache E) c) w = (Inr v, w\<lparr>db_cache := cc\<rparr>)"
    and ok: "db_ok E agrees (w\<lparr>db_cache := cc\<rparr>)"
    by (rule cache_channel_exists [OF assms])
  show thesis
    by (rule that [OF _ ok, of "v \<noteq> None"])
      (simp add: dr_require_channel_def bind_via_cache [OF g] bind_exists op_simps)
qed

lemma bind_outcome:
  "m w = (if b then Inl e else Inr x, w') \<Longrightarrow> bindM m f w = (if b then (Inl e, w') else f x w')"
  by (simp add: bindM_def)

lemmas room_runs = thenM_def bind_exists d_defs op_simps db_reads db_views Let_def

text \<open>What an outcome means for the coherence of the cache.\<close>

lemma db_ok_outcome:
  assumes "outcome E err f w res" "db_cache (snd res) = cc" "db_ok E agrees (w\<lparr>db_cache := cc\<rparr>)"
    "err = None \<Longrightarrow> agrees cc (v_channel_of (f (dv E w))) (v_channels (f (dv E w)))"
  shows "db_ok E agrees (snd res)"
  using assms by (cases err) (simp_all add: outcome_def db_ok_def)

lemma created_room_maps:
  "v_channel_of (created_room order n r c u un eph v) = (v_channel_of v)(r \<mapsto> c)"
  "v_channels (created_room order n r c u un eph v) = v_channels v"
  by (simp_all add: created_room_def)

lemma renamed_room_maps:
  "v_channel_of (renamed_room c r n v) = v_channel_of v" "v_channels (renamed_room c r n v) = v_channels v"
  by (simp_all add: renamed_room_def)

lemma create_room_outcome:
  assumes ok: "db_ok E agrees w"
  shows "\<exists>seen. outcome E (create_room_error seen (dv E w) name r c)
      (created_room (de_order E) (the name) r c u un eph) w (dr_create_room E name r c u un eph w) \<and>
    (v_channel_of (dv E w) r = None \<longrightarrow> db_ok E agrees (snd (dr_create_room E name r c u un eph w)))"
proof -
  obtain seen cc where g: "dr_require_channel E c w =
       (if \<not> seen \<and> (c = '''' \<or> v_channels (dv E w) c = None) then Inl (NoSuchChannelException c)
        else Inr (), w\<lparr>db_cache := cc\<rparr>)" and ok': "db_ok E agrees (w\<lparr>db_cache := cc\<rparr>)"
    by (rule require_channel_run [OF ok])
  let ?res = "dr_create_room E name r c u un eph w"
  have run: "outcome E (create_room_error seen (dv E w) name r c)
      (created_room (de_order E) (the name) r c u un eph) w ?res \<and> db_cache (snd ?res) = cc"
    by (simp add: outcome_def dr_create_room_def room_runs bind_outcome [of "dr_require_channel E c", OF g]
        create_room_error_def created_room_def dr_set_owner_def dr_add_room_role_def)
  moreover have "db_ok E agrees (snd ?res)" if fresh: "v_channel_of (dv E w) r = None"
  proof (rule db_ok_outcome [OF conjunct1 [OF run] conjunct2 [OF run] ok'])
    have "agrees cc (v_channel_of (dv E w)) (v_channels (dv E w))"
      using ok' by (simp add: db_ok_def)
    from agrees_extend_channel [where x = c, OF this fresh]
    show "agrees cc (v_channel_of (created_room (de_order E) (the name) r c u un eph (dv E w)))
        (v_channels (created_room (de_order E) (the name) r c u un eph (dv E w)))"
      by (simp only: created_room_maps)
  qed
  ultimately show ?thesis by (intro exI [of _ seen] conjI impI) simp_all
qed

lemma rename_room_outcome:
  assumes ok: "db_ok E agrees w"
  shows "\<exists>seen. outcome E (rename_room_error seen (dv E w) name r c)
      (renamed_room c r (the name)) w (dr_rename_room E c r name w) \<and>
    db_ok E agrees (snd (dr_rename_room E c r name w))"
proof -
  obtain seen cc where g: "dr_require_channel E c w =
       (if \<not> seen \<and> (c = '''' \<or> v_channels (dv E w) c = None) then Inl (NoSuchChannelException c)
        else Inr (), w\<lparr>db_cache := cc\<rparr>)" and ok': "db_ok E agrees (w\<lparr>db_cache := cc\<rparr>)"
    by (rule require_channel_run [OF ok])
  let ?res = "dr_rename_room E c r name w"
  have run: "outcome E (rename_room_error seen (dv E w) name r c) (renamed_room c r (the name)) w ?res \<and>
      db_cache (snd ?res) = cc"
    by (simp add: outcome_def dr_rename_room_def room_runs bind_outcome [of "dr_require_channel E c", OF g]
        rename_room_error_def renamed_room_def)
  moreover have "db_ok E agrees (snd ?res)"
    by (rule db_ok_outcome [OF conjunct1 [OF run] conjunct2 [OF run] ok'])
      (use ok' in \<open>simp add: renamed_room_maps db_ok_def\<close>)
  ultimately show ?thesis by (intro exI [of _ seen] conjI impI) simp_all
qed

text \<open>Removing a room may leave its channel in the cache, so nothing is said of the cache.\<close>

lemma remove_room_outcome:
  assumes ok: "db_ok E agrees w"
  shows "\<exists>seen. outcome E (remove_room_error seen (dv E w) r c)
      (removed_room c r) w (dr_remove_room E c r w)"
proof -
  obtain seen cc where g: "dr_require_channel E c w =
       (if \<not> seen \<and> (c = '''' \<or> v_channels (dv E w) c = None) then Inl (NoSuchChannelException c)
        else Inr (), w\<lparr>db_cache := cc\<rparr>)"
    by (rule require_channel_run [OF ok])
  show ?thesis
    by (rule exI [of _ seen])
      (simp add: outcome_def dr_remove_room_def room_runs bind_outcome [of "dr_require_channel E c", OF g]
        remove_room_error_def removed_room_def)
qed

text \<open>Every outcome of the three operations keeps the registry in order.\<close>

lemma registry_kept:
  assumes ok: "db_ok E agrees w" and reg: "registry_ok (dv E w)"
  shows "v_room_name (dv E w) r = None \<Longrightarrow>
      registry_ok (dv E (snd (dr_create_room E name r c u un eph w)))"
    and "registry_ok (dv E (snd (dr_rename_room E c r name w)))"
    and "registry_ok (dv E (snd (dr_remove_room E c r w)))"
proof -
  show "registry_ok (dv E (snd (dr_create_room E name r c u un eph w)))"
    if fresh: "v_room_name (dv E w) r = None"
  proof -
    have "v_channel_of (dv E w) r = None"
      using fresh registry_okD(1,3) [OF reg] by (cases "v_channel_of (dv E w) r") force+
    with create_room_outcome [OF ok, of name r c u un eph] fresh reg show ?thesis
      by (auto simp: outcome_def create_room_error_def split: option.splits if_splits
          intro: registry_created)
  qed
  show "registry_ok (dv E (snd (dr_rename_room E c r name w)))"
    using rename_room_outcome [OF ok, of name r c] reg
    by (auto simp: outcome_def rename_room_error_def split: option.splits if_splits
        intro: registry_renamed)
  show "registry_ok (dv E (snd (dr_remove_room E c r w)))"
    using remove_room_outcome [OF ok, of r c] reg
    by (auto simp: outcome_def remove_room_error_def split: option.splits if_splits
        intro: registry_removed)
qed

end

subsection \<open>A concrete state\<close>

text \<open>One channel \<open>c\<close> with one room \<open>r\<close>, owned by user \<open>1\<close>.\<close>

definition demo_store :: store where
  "demo_store = empty_store\<lparr>st_hashes := (\<lambda>_. [])(rk_room_name_for_id := [(''r'', ''Room'')],
     rk_channel_for_rooms := [(''r'', ''c'')], rk_channels := [(''c'', ''Main'')],
     rk_rooms ''c'' := [(''r'', ''Room'')], rk_room_roles ''r'' := [(''1'', ''owner'')],
     rk_user_names := [(''1'', ''One'')])\<rparr>"

definition demo :: "(store, unit) dbw" where
  "demo = \<lparr>db_redis = demo_store, db_cache = ()\<rparr>"

lemma demo_view [simp]:
  "v_room_name (dv memory_denv demo) = [''r'' \<mapsto> ''Room'']"
  "v_channel_of (dv memory_denv demo) = [''r'' \<mapsto> ''c'']"
  "v_channels (dv memory_denv demo) = [''c'' \<mapsto> ''Main'']"
  "v_rooms (dv memory_denv demo) x = (if x = ''c'' then [''r'' \<mapsto> ''Room''] else Map.empty)"
  "v_room_roles (dv memory_denv demo) x = (if x = ''r'' then [''1'' \<mapsto> ''owner''] else Map.empty)"
  "v_channel_roles (dv memory_denv demo) x = Map.empty"
  "v_global_roles (dv memory_denv demo) = Map.empty"
  "v_user_names (dv memory_denv demo) = [''1'' \<mapsto> ''One'']"
  "v_channel_acl (dv memory_denv demo) x = Map.empty"
  "v_bans (dv memory_denv demo) b = Map.empty"
  "v_channel_bans (dv memory_denv demo) x = Map.empty"
  by (simp_all add: dv_def demo_def demo_store_def memory_denv_def view_def view_key_simps fun_eq_iff)

lemma demo_ok [simp]: "db_ok memory_denv (\<lambda>_ _ _. True) demo"
  by (simp add: db_ok_def)

lemma demo_registry: "registry_ok (dv memory_denv demo)"
  by (rule registry_okI) (auto split: if_splits)

end
