(* ===== verification/Db_Ban_Facts.thy ===== *)
theory Db_Ban_Facts
  imports Db_Registry
begin

section \<open>Facts on bans, mutes and stored rules\<close>

text \<open>
  A ban is found until the time it was given and not after, and a check after it is over deletes
  an entry, but from the hash of the global bans whatever the ban was; a stored mute is read
  back; new rules are written together or not at all, and are read back by action.
\<close>

subsection \<open>Bans\<close>

definition no_pipe :: "string \<Rightarrow> bool" where
  "no_pipe s \<longleftrightarrow> CHR ''|'' \<notin> set s"

lemma ban_time_text: "no_pipe d \<Longrightarrow> no_pipe t \<Longrightarrow> ban_time (ban_entry d t n) = Inr t"
  by (simp add: ban_time_def ban_entry_def no_pipe_def numeral_2_eq_2 split_max_append_sep
      del: split_max.simps(2))

lemma name_or_blank_run [op_simps]:
  "dr_name_or_blank E u w = (Inr (case v_user_names (dv E w) u of None \<Rightarrow> [] | Some n \<Rightarrow> n), w)"
  by (simp add: dr_name_or_blank_def catchM_def get_user_name_run ret_run split: option.splits)

lemma bind_name_or_blank [op_simps]:
  "bindM (dr_name_or_blank E u) f w = f (case v_user_names (dv E w) u of None \<Rightarrow> [] | Some n \<Rightarrow> n) w"
  by (simp add: bindM_def name_or_blank_run)

text \<open>The answer to the question for a ban with an integer time, and what the check writes.\<close>

lemma check_ban_run:
  assumes "ban_time b = Inr (str_int ts)"
    "min_datetime \<le> from_timestamp (de_tz E) (ts * micro)" "from_timestamp (de_tz E) (ts * micro) \<le> max_datetime"
  shows "dr_check_ban E now u (Some b) w =
    (if now > from_timestamp (de_tz E) (ts * micro)
     then (Inr (False, None), w\<lparr>db_redis := r_hdel (de_redis E) (db_redis w) (rk_banned_users None) u\<rparr>)
     else (Inr (True, Some (str_int ts)), w))"
  using assms by (simp add: dr_check_ban_def bindM_def lift_result_run naive_from_timestamp_def Let_def db_run)

context db_env begin

lemma ban_user_global_run:
  "\<exists>w'. dr_ban_user_global E u ts d w = (Inr (), w') \<and>
    dv E w' = (dv E w)\<lparr>v_bans := upd2 (v_bans (dv E w)) None u
      (Some (ban_entry d ts (case v_user_names (dv E w) u of None \<Rightarrow> [] | Some n \<Rightarrow> n)))\<rparr>"
  by (simp add: dr_ban_user_global_def db_run op_simps views)

lemma ban_user_channel_run:
  "\<exists>w'. dr_ban_user_channel E u ts d c w = (Inr (), w') \<and>
    dv E w' = (dv E w)\<lparr>v_channel_bans := upd2 (v_channel_bans (dv E w)) c u
      (Some (ban_entry d ts (case v_user_names (dv E w) u of None \<Rightarrow> [] | Some n \<Rightarrow> n)))\<rparr>"
  by (simp add: dr_ban_user_channel_def db_run op_simps views)

lemma ban_user_room_run:
  assumes ok: "db_ok E agrees w" and r: "\<not> blank r" and ch: "v_channel_of (dv E w) r \<noteq> None"
    and named: "v_room_name (dv E w) r \<noteq> None"
  shows "\<exists>w'. dr_ban_user_room E u ts d r w = (Inr (), w') \<and>
    dv E w' = (dv E w)\<lparr>v_bans := upd2 (v_bans (dv E w)) (Some r) u
      (Some (ban_entry d ts (case v_user_names (dv E w) u of None \<Rightarrow> [] | Some n \<Rightarrow> n)))\<rparr>"
proof -
  obtain c where g: "dr_channel_for_room E (Some r) w = (spec_channel_for_room (dv E w) r, w\<lparr>db_cache := c\<rparr>)"
    using channel_for_room_spec [OF ok r] named by blast
  have "catchM (dr_channel_for_room E (Some r)) h w = (Inr (the (v_channel_of (dv E w) r)), w\<lparr>db_cache := c\<rparr>)" for h
    using ch by (auto simp: catchM_def g spec_channel_for_room_def)
  then show ?thesis
    by (simp add: dr_ban_user_room_def thenM_def bindM_def [of "catchM _ _"] db_run op_simps views)
qed

lemma global_check_run:
  assumes "v_bans (dv E w) None u = Some b" "ban_time b = Inr (str_int ts)"
    "min_datetime \<le> from_timestamp (de_tz E) (ts * micro)" "from_timestamp (de_tz E) (ts * micro) \<le> max_datetime"
  shows "\<exists>w'. dr_is_banned_globally E now u w = (Inr (if now > from_timestamp (de_tz E) (ts * micro)
      then (False, None) else (True, Some (str_int ts))), w') \<and>
    dv E w' = (if now > from_timestamp (de_tz E) (ts * micro)
      then (dv E w)\<lparr>v_bans := upd2 (v_bans (dv E w)) None u None\<rparr> else dv E w)"
  using assms by (simp add: dr_is_banned_globally_def db_run op_simps check_ban_run views)

text \<open>For a channel or a room it is the global ban that a check after the end deletes.\<close>

lemma channel_check_run:
  assumes "v_channel_bans (dv E w) c u = Some b" "ban_time b = Inr (str_int ts)"
    "min_datetime \<le> from_timestamp (de_tz E) (ts * micro)" "from_timestamp (de_tz E) (ts * micro) \<le> max_datetime"
  shows "\<exists>w'. dr_is_banned_from_channel E now c u w = (Inr (if now > from_timestamp (de_tz E) (ts * micro)
      then (False, None) else (True, Some (str_int ts))), w') \<and>
    dv E w' = (if now > from_timestamp (de_tz E) (ts * micro)
      then (dv E w)\<lparr>v_bans := upd2 (v_bans (dv E w)) None u None\<rparr> else dv E w)"
  using assms by (simp add: dr_is_banned_from_channel_def db_run op_simps check_ban_run views)

lemma room_check_run:
  assumes "v_bans (dv E w) (Some r) u = Some b" "ban_time b = Inr (str_int ts)"
    "min_datetime \<le> from_timestamp (de_tz E) (ts * micro)" "from_timestamp (de_tz E) (ts * micro) \<le> max_datetime"
  shows "\<exists>w'. dr_is_banned_from_room E now r u w = (Inr (if now > from_timestamp (de_tz E) (ts * micro)
      then (False, None) else (True, Some (str_int ts))), w') \<and>
    dv E w' = (if now > from_timestamp (de_tz E) (ts * micro)
      then (dv E w)\<lparr>v_bans := upd2 (v_bans (dv E w)) None u None\<rparr> else dv E w)"
  using assms by (simp add: dr_is_banned_from_room_def db_run op_simps check_ban_run views)

end

subsection \<open>Mutes\<close>

lemma split_mute_field:
  assumes "no_pipe r" "no_pipe u" "no_pipe m" "no_pipe d" "no_pipe n"
  shows "split_max (CHR ''|'') 5 (mute_field r u m d n x) = [r, u, m, d, n, x]"
proof -
  have five: "5 = Suc (Suc (Suc (Suc (Suc 0))))" by simp
  show ?thesis
    unfolding five using assms by (simp add: mute_field_def no_pipe_def split_max_append_sep del: split_max.simps(2))
qed

lemma b64e_no_pipe: "no_pipe (b64e s)"
  unfolding no_pipe_def using b64e_chars [of "CHR ''|''"] by (auto simp: b64_value_def Let_def)

lemma read_mute_field:
  assumes "no_pipe r" "no_pipe u" "no_pipe m" "no_pipe d"
    "ban_duration_to_timestamp tz now (Some d) = Inr ts"
  shows "dr_read_mute tz now u' out (mute_field r u m d (b64e n) (b64e x)) = Inr (if u = u'
    then AList.update r \<lparr>mu_muter = m, mu_room_name = b64e n, mu_duration = d, mu_timestamp = ts,
      mu_reason = b64e x\<rparr> out else out)"
  using assms by (simp add: dr_read_mute_def split_mute_field b64e_no_pipe)

subsection \<open>Rules\<close>

lemma pure_check_acls: "keeps (=) (dr_check_acls fuel cfg action acls)"
  by (induction fuel cfg action acls rule: dr_check_acls.induct)
    (auto simp: same_state.keeps_basic intro!: same_state.keeps_bindM same_state.keeps_bindO
      same_state.keeps_validate_new_acl split: conf_value.splits)

lemma check_acls_Cons:
  assumes "dr_check_acls fuel cfg action ((t, v) # acls) w = (Inr (Some flds), w')"
  shows "\<exists>rest w1. t \<in> set (ac_available cfg) \<and>
    dr_check_acls fuel cfg action acls w1 = (Inr (Some rest), w') \<and> flds = (acl_field action t, v) # rest"
  using assms
  by (auto simp: op_simps bindO_def bindM_def split: if_splits sum.splits prod.splits option.splits)

lemma check_acls_flds:
  assumes "dr_check_acls fuel cfg action acls w = (Inr (Some flds), w')"
  shows "flds = map (\<lambda>(t, v). (acl_field action t, v)) acls \<and> (\<forall>(t, v) \<in> set acls. t \<in> set (ac_available cfg))"
  using assms
proof (induction acls arbitrary: flds w)
  case Nil
  then show ?case by (simp add: op_simps)
next
  case (Cons tv acls)
  obtain t v where tv: "tv = (t, v)" by (cases tv)
  from check_acls_Cons [OF Cons.prems [unfolded tv]] obtain rest w1 where
    "t \<in> set (ac_available cfg)" "dr_check_acls fuel cfg action acls w1 = (Inr (Some rest), w')"
    "flds = (acl_field action t, v) # rest" by blast
  with Cons.IH [of w1 rest] tv show ?case by simp
qed

lemma split_acl_field_field: "no_pipe a \<Longrightarrow> split_acl_field (acl_field a t) = Inr (a, t)"
  by (simp add: split_acl_field_def acl_field_def no_pipe_def One_nat_def split_max_append_sep
      del: split_max.simps(2))

lemma pipe_key:
  assumes "CHR ''|'' \<in> set key"
  obtains a t where "key = acl_field a t" "no_pipe a"
proof -
  from split_list_first [OF assms] obtain ys zs where "key = ys @ CHR ''|'' # zs" "CHR ''|'' \<notin> set ys"
    by blast
  with that [of ys zs] show thesis by (simp add: acl_field_def no_pipe_def)
qed

lemma acl_field_inj:
  assumes "no_pipe a" "no_pipe a'" "acl_field a t = acl_field a' t'"
  shows "a = a' \<and> t = t'"
proof -
  have "Inr (a, t) = (Inr (a', t') :: exc + string \<times> string)"
    unfolding split_acl_field_field [OF assms(1), symmetric] split_acl_field_field [OF assms(2), symmetric]
    by (simp only: assms(3))
  then show ?thesis by simp
qed

lemma map_of_acl_fields:
  assumes "no_pipe a" "no_pipe a'"
  shows "map_of (map (\<lambda>(t, v). (acl_field a t, v)) acls) (acl_field a' t) =
    (if a' = a then map_of acls t else None)"
proof (induction acls)
  case Nil
  then show ?case by simp
next
  case (Cons tv acls)
  obtain t' v where tv: "tv = (t', v)" by (cases tv)
  have "acl_field a' t = acl_field a t' \<longleftrightarrow> a' = a \<and> t' = t"
    by (rule iffI) (use acl_field_inj [OF assms(2,1), of t t'] in simp_all)
  with Cons show ?case by (cases "a' = a") (auto simp: tv)
qed

lemma acls_for_action_map:
  assumes "\<forall>key \<in> fst ` set l. CHR ''|'' \<in> set key" "no_pipe action"
  shows "\<exists>r. acls_for_action action l = Inr r \<and> (\<forall>t. map_of r t = map_of l (acl_field action t))"
  using assms
proof (induction l)
  case Nil
  then show ?case by simp
next
  case (Cons kv l)
  obtain key v where kv: "kv = (key, v)" by (cases kv)
  with Cons.prems obtain a t where key: "key = acl_field a t" "no_pipe a"
    using pipe_key [of key] by auto
  from Cons obtain r where r: "acls_for_action action l = Inr r"
    "\<forall>t. map_of r t = map_of l (acl_field action t)" by auto
  have eq: "key = acl_field action t' \<longleftrightarrow> a = action \<and> t' = t" for t'
    by (rule iffI) (use acl_field_inj [OF key(2) Cons.prems(2), of t t'] key(1) in simp_all)
  have eq': "acl_field action t' = key \<longleftrightarrow> a = action \<and> t' = t" for t'
    by (subst eq_commute) (rule eq)
  have "split_acl_field key = Inr (a, t)"
    using split_acl_field_field [OF key(2)] key(1) by simp
  with kv r show ?case
    by (cases "a = action") (auto simp: eq eq')
qed

lemma api_actions_no_pipe: "action \<in> set all_api_actions \<Longrightarrow> no_pipe action"
  by (auto simp: all_api_actions_def no_pipe_def action_join_def action_autojoin_def action_crossroom_def
      action_message_def action_kick_def action_ban_def action_list_def action_history_def action_setacl_def
      action_create_def action_whisper_def)

definition acls_well_formed :: "(string \<Rightarrow> string option) \<Rightarrow> bool" where
  "acls_well_formed m \<longleftrightarrow> (\<forall>f. m f \<noteq> None \<longrightarrow> CHR ''|'' \<in> set f)"

context db_env begin

text \<open>New rules of a channel: nothing is written unless all are accepted; then exactly they are.\<close>

lemma add_acls_channel_outcome:
  assumes "distinct (map fst acls)"
  shows "case dr_add_acls_in_channel_for_action fuel cfg E c action acls w of
      (Inr (Some _), w') \<Rightarrow> dv E w' = (dv E w)\<lparr>v_channel_acl := (v_channel_acl (dv E w))(c :=
          v_channel_acl (dv E w) c ++ map_of (map (\<lambda>(t, v). (acl_field action t, v)) acls))\<rparr> \<and>
        action \<in> set all_api_actions \<and> v_channels (dv E w) c \<noteq> None \<and> db_cache w' = db_cache w \<and>
        (\<forall>(t, v) \<in> set acls. t \<in> set (ac_available cfg))
    | (_, w') \<Rightarrow> w' = w"
proof -
  have pc: "snd (dr_check_acls fuel cfg action acls w) = w"
    using pure_check_acls [of fuel cfg action acls] by (metis keeps_def)
  have inj: "distinct (map fst (map (\<lambda>(t, v). (acl_field action t, v)) acls))"
    using assms by (auto simp: distinct_map acl_field_def inj_on_def comp_def case_prod_beta')
  show ?thesis
  proof (cases "c \<noteq> '''' \<and> v_channels (dv E w) c \<noteq> None \<and> action \<in> set all_api_actions")
    case False
    then show ?thesis
      by (auto simp: dr_add_acls_in_channel_for_action_def bind_exists op_simps)
  next
    case True
    then have run: "dr_add_acls_in_channel_for_action fuel cfg E c action acls w =
        bindO (dr_check_acls fuel cfg action acls) (dr_write_acls E (rk_channel_acl c)) w"
      by (simp add: dr_add_acls_in_channel_for_action_def bind_exists)
    obtain r where r: "dr_check_acls fuel cfg action acls w = (r, w)"
      using pc by (cases "dr_check_acls fuel cfg action acls w") auto
    show ?thesis
    proof (cases "\<exists>flds. r = Inr (Some flds)")
      case False
      with r show ?thesis
        by (auto simp: run bindO_def bindM_def ret_run split: sum.splits option.splits)
    next
      case hit: True
      then obtain flds where f: "r = Inr (Some flds)" by blast
      have eq: "flds = map (\<lambda>(t, v). (acl_field action t, v)) acls"
        and "\<forall>(t, v) \<in> set acls. t \<in> set (ac_available cfg)"
        using check_acls_flds [OF r [unfolded f]] by blast+
      moreover have "flds = [] \<longleftrightarrow> acls = []" by (simp add: eq)
      ultimately show ?thesis
        using True r f inj
        by (simp add: run bindO_def bindM_def [of "dr_check_acls _ _ _ _"] op_simps
            dr_write_acls_def d_defs view_hmset eq db_reads)
    qed
  qed
qed

text \<open>Reading them back.\<close>

lemma get_acls_channel_spec:
  assumes ok: "db_ok E agrees w" and c: "v_channels (dv E w) c \<noteq> None"
    and wf: "acls_well_formed (v_channel_acl (dv E w) c)" and a: "no_pipe action"
  shows "\<exists>acls w'. dr_get_acls_in_channel_for_action E c action w = (Inr acls, w') \<and> dv E w' = dv E w \<and>
    (\<forall>t. map_of acls t = v_channel_acl (dv E w) c (acl_field action t))"
proof -
  obtain cc where g: "dr_get_channel_name E c w = (spec_channel_name (dv E w) c, w\<lparr>db_cache := cc\<rparr>)"
    by (rule channel_name_spec [OF ok])
  let ?l = "r_hgetall (de_redis E) (db_redis w) (rk_channel_acl c)"
  have "\<forall>key \<in> fst ` set ?l. CHR ''|'' \<in> set key"
    using wf by (auto simp: acls_well_formed_def in_set_hgetall view_reads dv_def)
  from acls_for_action_map [OF this a] obtain r where r: "acls_for_action action ?l = Inr r"
    "\<forall>t. map_of r t = map_of ?l (acl_field action t)" by blast
  have m: "map_of ?l = v_channel_acl (dv E w) c"
    by (simp add: map_of_hgetall view_reads dv_def)
  obtain n where "v_channels (dv E w) c = Some n" using c by auto
  then show ?thesis
    using r m by (simp add: dr_get_acls_in_channel_for_action_def thenM_def bindM_def [of "dr_get_channel_name E c"] g
        spec_channel_name_def d_defs op_simps)
qed

lemma added_rules_spec:
  assumes ok: "db_ok E agrees w" and acls: "distinct (map fst acls)"
    and wf: "acls_well_formed (v_channel_acl (dv E w) c)" and a: "no_pipe action'"
    and add: "dr_add_acls_in_channel_for_action fuel cfg E c action acls w = (Inr (Some x), w')"
  shows "\<exists>got w''. dr_get_acls_in_channel_for_action E c action' w' = (Inr got, w'') \<and>
    (\<forall>t. map_of got t = (if action' = action \<and> map_of acls t \<noteq> None then map_of acls t
       else v_channel_acl (dv E w) c (acl_field action' t)))"
proof -
  let ?new = "map_of (map (\<lambda>(t, v). (acl_field action t, v)) acls)"
  have dv': "dv E w' = (dv E w)\<lparr>v_channel_acl := (v_channel_acl (dv E w))(c := v_channel_acl (dv E w) c ++ ?new)\<rparr>"
    and act: "no_pipe action" and ch: "v_channels (dv E w) c \<noteq> None" and cache: "db_cache w' = db_cache w"
    using add_acls_channel_outcome [OF acls, where fuel = fuel and cfg = cfg and c = c and action = action and w = w] api_actions_no_pipe by (auto simp: add)
  have new: "?new (acl_field action' t) = (if action' = action then map_of acls t else None)" for t
    by (rule map_of_acl_fields [OF act a])
  have "acls_well_formed (v_channel_acl (dv E w') c)"
    using wf by (auto simp: dv' acls_well_formed_def map_add_Some_iff acl_field_def dest!: map_of_SomeD)
  moreover have "db_ok E agrees w'" using ok by (simp add: db_ok_def cache dv')
  moreover have "v_channels (dv E w') c \<noteq> None" using ch by (simp add: dv')
  ultimately obtain got w'' where "dr_get_acls_in_channel_for_action E c action' w' = (Inr got, w'')"
    "\<forall>t. map_of got t = v_channel_acl (dv E w') c (acl_field action' t)"
    using get_acls_channel_spec a by blast
  then show ?thesis
    by (auto simp: dv' new map_add_def split: option.splits)
qed

text \<open>A ban and a later check.\<close>

lemma global_ban_spec:
  assumes "no_pipe d" "until = from_timestamp (de_tz E) (ts * micro)"
    "min_datetime \<le> until" "until \<le> max_datetime"
  shows "\<exists>w1 w2. dr_ban_user_global E u (str_int ts) d w = (Inr (), w1) \<and>
    dr_is_banned_globally E now u w1 =
      (Inr (if now > until then (False, None) else (True, Some (str_int ts))), w2) \<and>
    dv E w2 = (if now > until then (dv E w)\<lparr>v_bans := upd2 (v_bans (dv E w)) None u None\<rparr> else dv E w1)"
proof -
  obtain w1 n where b: "dr_ban_user_global E u (str_int ts) d w = (Inr (), w1)"
    "dv E w1 = (dv E w)\<lparr>v_bans := upd2 (v_bans (dv E w)) None u (Some (ban_entry d (str_int ts) n))\<rparr>"
    using ban_user_global_run by blast
  have e: "v_bans (dv E w1) None u = Some (ban_entry d (str_int ts) n)" by (simp add: b)
  have t: "ban_time (ban_entry d (str_int ts) n) = Inr (str_int ts)"
    by (rule ban_time_text) (use assms in \<open>simp_all add: no_pipe_def\<close>)
  from global_check_run [OF e t assms(3) [unfolded assms(2)] assms(4) [unfolded assms(2)], folded assms(2)] obtain w2 where
    "dr_is_banned_globally E now u w1 =
      (Inr (if now > until then (False, None) else (True, Some (str_int ts))), w2)"
    "dv E w2 = (if now > until then (dv E w1)\<lparr>v_bans := upd2 (v_bans (dv E w1)) None u None\<rparr> else dv E w1)"
    by blast
  then show ?thesis by (auto simp: b fun_eq_iff intro!: exI)
qed

lemma not_banned_globally: "v_bans (dv E w) None u = None \<Longrightarrow> dr_is_banned_globally E now u w = (Inr (False, None), w)"
  by (simp add: dr_is_banned_globally_def dr_check_ban_def db_run)

lemma channel_ban_spec:
  assumes "no_pipe d" "until = from_timestamp (de_tz E) (ts * micro)"
    "min_datetime \<le> until" "until \<le> max_datetime"
  shows "\<exists>w1 w2. dr_ban_user_channel E u (str_int ts) d c w = (Inr (), w1) \<and>
    dr_is_banned_from_channel E now c u w1 =
      (Inr (if now > until then (False, None) else (True, Some (str_int ts))), w2) \<and>
    v_channel_bans (dv E w2) c u \<noteq> None \<and>
    (now > until \<longrightarrow> dr_is_banned_globally E now' u w2 = (Inr (False, None), w2))"
proof -
  obtain w1 n where b: "dr_ban_user_channel E u (str_int ts) d c w = (Inr (), w1)"
    "dv E w1 = (dv E w)\<lparr>v_channel_bans := upd2 (v_channel_bans (dv E w)) c u (Some (ban_entry d (str_int ts) n))\<rparr>"
    using ban_user_channel_run by blast
  have e: "v_channel_bans (dv E w1) c u = Some (ban_entry d (str_int ts) n)" by (simp add: b)
  have t: "ban_time (ban_entry d (str_int ts) n) = Inr (str_int ts)"
    by (rule ban_time_text) (use assms in \<open>simp_all add: no_pipe_def\<close>)
  from channel_check_run [OF e t assms(3) [unfolded assms(2)] assms(4) [unfolded assms(2)], folded assms(2)] obtain w2 where
    "dr_is_banned_from_channel E now c u w1 =
      (Inr (if now > until then (False, None) else (True, Some (str_int ts))), w2)"
    "dv E w2 = (if now > until then (dv E w1)\<lparr>v_bans := upd2 (v_bans (dv E w1)) None u None\<rparr> else dv E w1)"
    by blast
  then show ?thesis using b(1) e by (auto simp: not_banned_globally intro!: exI)
qed

lemma room_ban_spec:
  assumes "db_ok E agrees w" "\<not> blank r" "v_channel_of (dv E w) r \<noteq> None"
    "v_room_name (dv E w) r \<noteq> None" "no_pipe d" "until = from_timestamp (de_tz E) (ts * micro)"
    "min_datetime \<le> until" "until \<le> max_datetime"
  shows "\<exists>w1 w2. dr_ban_user_room E u (str_int ts) d r w = (Inr (), w1) \<and>
    dr_is_banned_from_room E now r u w1 =
      (Inr (if now > until then (False, None) else (True, Some (str_int ts))), w2) \<and>
    v_bans (dv E w2) (Some r) u \<noteq> None \<and>
    (now > until \<longrightarrow> dr_is_banned_globally E now' u w2 = (Inr (False, None), w2))"
proof -
  obtain w1 n where b: "dr_ban_user_room E u (str_int ts) d r w = (Inr (), w1)"
    "dv E w1 = (dv E w)\<lparr>v_bans := upd2 (v_bans (dv E w)) (Some r) u (Some (ban_entry d (str_int ts) n))\<rparr>"
    using ban_user_room_run [OF assms(1-4)] by blast
  have e: "v_bans (dv E w1) (Some r) u = Some (ban_entry d (str_int ts) n)" by (simp add: b)
  have t: "ban_time (ban_entry d (str_int ts) n) = Inr (str_int ts)"
    by (rule ban_time_text) (use assms in \<open>simp_all add: no_pipe_def\<close>)
  from room_check_run [OF e t assms(7) [unfolded assms(6)] assms(8) [unfolded assms(6)], folded assms(6)] obtain w2 where
    "dr_is_banned_from_room E now r u w1 =
      (Inr (if now > until then (False, None) else (True, Some (str_int ts))), w2)"
    "dv E w2 = (if now > until then (dv E w1)\<lparr>v_bans := upd2 (v_bans (dv E w1)) None u None\<rparr> else dv E w1)"
    by blast
  then show ?thesis using b(1) e by (auto simp: not_banned_globally intro!: exI)
qed

text \<open>What \<open>get_bans_for_user\<close> does, exactly.\<close>

lemma ex_fst: "(\<exists>x \<in> set l. P (fst x)) \<longleftrightarrow> (\<exists>a b. (a, b) \<in> set l \<and> P a)"
  by force

lemma bind_hgetall: "bindM (d_hgetall E k) f w = f (r_hgetall (de_redis E) (db_redis w) k) w"
  by (simp add: bindM_def d_hgetall_def d_ask_def op_simps)

lemma bind_hexists: "bindM (d_hexists E k x) f w = f (r_hexists (de_redis E) (db_redis w) k x) w"
  by (simp add: bindM_def d_hexists_def d_ask_def op_simps)

lemma iter_hexists:
  "iterM (\<lambda>x. bindM (d_hexists E (key x) u) (\<lambda>b. if \<not> b then ret () else throw e)) xs w =
    (if \<exists>x \<in> set xs. r_hexists (de_redis E) (db_redis w) (key x) u then Inl e else Inr (), w)"
  by (induction xs) (simp_all add: bindM_def d_hexists_def d_ask_def op_simps)

lemma fold_hgetall:
  "foldM (\<lambda>out x. bindM (d_hgetall E (key x)) (\<lambda>l. ret (out @ map fst l))) out xs w =
    (Inr (out @ concat (map (\<lambda>x. map fst (r_hgetall (de_redis E) (db_redis w) (key x))) xs)), w)"
  by (induction xs arbitrary: out) (simp_all add: op_simps d_defs)

lemma bans_for_user_spec:
  "dr_get_bans_for_user E u w =
    (if (\<exists>c. v_channels (dv E w) c \<noteq> None \<and> v_channel_bans (dv E w) c u \<noteq> None) \<or>
        (\<exists>c r. v_channels (dv E w) c \<noteq> None \<and> v_rooms (dv E w) c r \<noteq> None \<and> v_bans (dv E w) (Some r) u \<noteq> None)
     then Inl RedisError
     else if v_bans (dv E w) None u \<noteq> None then Inl TypeError
     else Inr \<lparr>ab_global = [], ab_channels = [], ab_rooms = []\<rparr>, w)"
proof -
  let ?cs = "r_hgetall (de_redis E) (db_redis w) rk_channels"
  let ?rooms = "concat (map (\<lambda>x. map fst (r_hgetall (de_redis E) (db_redis w) (rk_rooms (fst x)))) ?cs)"
  have cs: "(\<exists>x \<in> set ?cs. P (fst x)) \<longleftrightarrow> (\<exists>c. v_channels (dv E w) c \<noteq> None \<and> P c)" for P
    using ex_fst [of ?cs P] by (simp add: in_set_hgetall db_reads)
  have rooms: "(\<exists>r \<in> set ?rooms. P r) \<longleftrightarrow>
      (\<exists>c r. v_channels (dv E w) c \<noteq> None \<and> v_rooms (dv E w) c r \<noteq> None \<and> P r)" for P
    using ex_fst [of ?cs "\<lambda>c. \<exists>r \<in> set (map fst (r_hgetall (de_redis E) (db_redis w) (rk_rooms c))). P r"]
    by (simp add: ex_fst in_set_hgetall db_reads)
  have "dr_get_bans_for_user E u w =
    (if \<exists>x \<in> set ?cs. r_hexists (de_redis E) (db_redis w) (rk_banned_users_channel (fst x)) u then Inl RedisError
     else if \<exists>r \<in> set ?rooms. r_hexists (de_redis E) (db_redis w) (rk_banned_users (Some r)) u then Inl RedisError
     else if r_hexists (de_redis E) (db_redis w) (rk_banned_users None) u then Inl TypeError
     else Inr \<lparr>ab_global = [], ab_channels = [], ab_rooms = []\<rparr>, w)"
    by (simp add: dr_get_bans_for_user_def case_prod_beta' thenM_def bindM_def [of "iterM _ _"]
        bindM_def [of "foldM _ _ _"] iter_hexists fold_hgetall bind_hgetall bind_hexists ret_run throw_run
        del: set_concat)
  also have "\<dots> = (if (\<exists>c. v_channels (dv E w) c \<noteq> None \<and> v_channel_bans (dv E w) c u \<noteq> None) \<or>
        (\<exists>c r. v_channels (dv E w) c \<noteq> None \<and> v_rooms (dv E w) c r \<noteq> None \<and> v_bans (dv E w) (Some r) u \<noteq> None)
     then Inl RedisError
     else if v_bans (dv E w) None u \<noteq> None then Inl TypeError
     else Inr \<lparr>ab_global = [], ab_channels = [], ab_rooms = []\<rparr>, w)"
    unfolding cs [of "\<lambda>c. r_hexists (de_redis E) (db_redis w) (rk_banned_users_channel c) u"] rooms by (simp add: hexists db_reads)
  finally show ?thesis .
qed

end

end
