(* ===== verification/Claims_Acl.thy ===== *)
theory Claims_Acl
  imports Db_Ban_Facts
begin

section \<open>Properties of access control\<close>

subsection \<open>The decision on an action\<close>

text \<open>C15: Whether a user may act in a room, with the roles in the Redis database: admins of the channel,
super users and owners of the channel or the room may, as may anybody when the configuration has
no rules for the action or the room has set none; everybody else is decided by the rules alone.
Where the code should let global moderators in, it asks for a user called \<open>globalmod\<close> that has the
id of the acting user as a role. The decision never changes what Redis holds.\<close>

theorem room_action_decision:
  assumes "db_env E agrees" "db_ok E agrees w"
    and "av_target act = Some t" "en_object_type t = Text ot" "\<not> blank ot" "en_id t = Text r"
    and "av_actor act = Some a" "en_id a = Text u"
    and "\<not> blank r" "v_room_name (dv E w) r \<noteq> None" "v_channel_of (dv E w) r = Some c"
  shows "\<exists>w'. dv E w' = dv E w \<and>
    validate_acl_for_action fuel (redis_acl_db E) env act target_room action acls None None None w =
      (if channel_role (dv E w) c u role_admin \<or> global_role (dv E w) u role_super_user \<or>
          global_role (dv E w) role_global_moderator u \<or>
          possible_acls (ae_config env) target_room action = [] \<or>
          channel_role (dv E w) c u role_owner \<or> room_role (dv E w) r u role_owner \<or>
          acls = None \<or> acls = Some []
       then (Inr (Some valid), w')
       else check_rules fuel (redis_acl_db E) env act (ae_session env) (the acls)
              (rule_values (possible_acls (ae_config env) target_room action)) w')"
proof -
  show ?thesis
  proof -
    obtain cc where g: "dr_channel_for_room E (Some r) w = (Inr c, w\<lparr>db_cache := cc\<rparr>)"
      using db_env.channel_for_room_spec [OF assms(1,2,9)] assms(10,11)
      by (metis spec_channel_for_room_def option.simps(5))
    then have "ad_channel_for_room (redis_acl_db E) (Some r) w = (Inr c, w\<lparr>db_cache := cc\<rparr>)"
      by (simp add: redis_acl_db_def)
    from redis_roles.room_decision [OF assms(3-8) this, of fuel env action acls None]
    show ?thesis
      by (intro exI [of _ "w\<lparr>db_cache := cc\<rparr>"]) (simp add: Let_def q_defs fmt_def)
  qed
qed

definition age_config :: acl_config where
  "age_config = \<lparr>ac_available = [''age'', ''gender'', ''custom''],
     ac_validation = [
       (''age'', \<lparr>vc_type = Some ''range'', vc_value = ValidatorValue AclRange, vc_default = None\<rparr>),
       (''gender'', \<lparr>vc_type = Some ''str_in_csv'', vc_value = ValidatorValue (AclStrInCsv None),
          vc_default = None\<rparr>),
       (''custom'', \<lparr>vc_type = Some ''custom'', vc_value = ValidatorValue AclPattern, vc_default = None\<rparr>)],
     ac_targets = [(''room'', [(''join'', [(''acls'', [''age'', ''gender''])])])]\<rparr>"

definition age_env :: acl_env where
  "age_env = \<lparr>ae_config = age_config, ae_session = [''age'' \<mapsto> ''30'', ''gender'' \<mapsto> ''f'']\<rparr>"

definition demo_activity :: activity where
  "demo_activity = blank_activity\<lparr>
     av_actor := Some (blank_entity\<lparr>en_id := Text ''1''\<rparr>),
     av_target := Some (blank_entity\<lparr>en_id := Text ''r'', en_object_type := Text ''room''\<rparr>)\<rparr>"

lemma demo_activity_simps:
  "av_actor demo_activity = Some (blank_entity\<lparr>en_id := Text ''1''\<rparr>)"
  "av_target demo_activity = Some (blank_entity\<lparr>en_id := Text ''r'', en_object_type := Text ''room''\<rparr>)"
  by (simp_all add: demo_activity_def)

lemma not_blank_letters: "\<not> blank ''room''" "\<not> blank ''r''" "\<not> blank ''c''"
  by (simp_all add: blank_iff is_space_def)

text \<open>The owner of the room \<open>r\<close> is let in although the room has a rule that disallows everybody.\<close>

lemma room_action_decision_witness:
  "\<exists>w'. dv memory_denv w' = dv memory_denv demo \<and>
    validate_acl_for_action 0 (redis_acl_db memory_denv) age_env demo_activity target_room action_join
      (Some [(''disallow'', '''')]) None None None demo = (Inr (Some valid), w')"
  using room_action_decision [OF memory_db.db_env_axioms demo_ok demo_activity_simps(2) _ _ _
      demo_activity_simps(1), of "''room''" "''r''" "''1''" "''c''" 0 age_env action_join "Some [(''disallow'', '''')]"]
  by (simp add: not_blank_letters room_role_def role_in_text_def split_on.simps role_owner_def)

text \<open>When the rules decide, every rule that the configuration lists for the action and the target
has set must be satisfied, and rules the configuration does not list are not looked at.\<close>

lemma all_listed_rules_required:
  assumes "\<And>acl v. acl \<in> set acls \<Longrightarrow> map_of target_acls acl = Some v \<Longrightarrow>
    \<exists>f m. validator_of (ae_config env) acl = Inr (ValidatorValue f) \<and>
      (\<forall>w. call_validator fuel DB env act session f acl v False w = (Inr (Some (ok acl, m)), w))"
  shows "\<exists>r. check_rules fuel DB env act session target_acls acls w = (Inr (Some r), w) \<and>
    (fst r \<longleftrightarrow> (\<forall>acl \<in> set acls. map_of target_acls acl \<noteq> None \<longrightarrow> ok acl))"
  by (rule check_rules_verdict) (rule assms)

lemma all_listed_rules_required_witness:
  "\<exists>r. check_rules 0 (redis_acl_db memory_denv) age_env demo_activity (ae_session age_env)
      [(''gender'', ''m,w'')] [''age'', ''gender''] demo = (Inr (Some r), demo) \<and> \<not> fst r"
proof -
  have "\<exists>r. check_rules 0 (redis_acl_db memory_denv) age_env demo_activity (ae_session age_env)
      [(''gender'', ''m,w'')] [''age'', ''gender''] demo = (Inr (Some r), demo) \<and>
    (fst r \<longleftrightarrow> (\<forall>acl \<in> set [''age'', ''gender'']. map_of [(''gender'', ''m,w'')] acl \<noteq> None \<longrightarrow> acl = ''age''))"
    by (rule all_listed_rules_required)
      (auto simp: age_env_def age_config_def validator_of_def op_simps call_str_in_csv_def strip_def
        is_space_def split_on.simps split: if_splits)
  then show ?thesis by auto
qed

subsection \<open>New rules\<close>

text \<open>C29: The check of a new rule always comes to an end with a verdict or an error, for every value the
admin interface can pass, also for custom patterns with any number of parentheses: with only one
pattern type in the configuration, fuel of three more than the number of opening parentheses is
enough.\<close>

theorem new_rule_check_ends:
  assumes "no_nested_patterns cfg" "case value of None \<Rightarrow> True | Some v \<Rightarrow> count_list v (CHR ''('') + 3 \<le> fuel"
  shows "fst (is_acl_valid fuel cfg acl_type value w) \<noteq> Inr None"
  by (rule is_acl_valid_returns [OF assms])

lemma new_rule_check_ends_witness:
  "fst (is_acl_valid 5 age_config ''custom'' (Some '')(,)('') ()) \<noteq> Inr None"
  by (rule new_rule_check_ends) (simp_all add: no_nested_patterns_def age_config_def)

text \<open>C30: A custom pattern that passed the check is also decided in finite time for every user and
activity, with the same fuel.\<close>

theorem accepted_pattern_is_decided:
  assumes "no_nested_patterns (ae_config env)" "pattern_text_error (Some v) = None"
    "count_list v (CHR ''('') + 3 \<le> fuel"
  shows "fst (call_validator fuel DB env act sess AclPattern t v b w) \<noteq> Inr None"
  by (rule accepted_pattern_returns [OF assms])

lemma accepted_pattern_is_decided_witness:
  "fst (call_validator 4 (redis_acl_db memory_denv) age_env demo_activity (ae_session age_env) AclPattern
     ''custom'' ''(age=18:)|gender=m'' False demo) \<noteq> Inr None"
  by (rule accepted_pattern_is_decided)
    (simp_all add: no_nested_patterns_def age_env_def age_config_def pattern_text_error_def blank_iff
      is_space_def pattern_matches_def pattern_char_def is_digit_char_def Let_def)

text \<open>Without the check the loop that takes out the groups need not end: a value in which a closing
parenthesis comes before the first opening one is never decided, whatever the fuel.\<close>

lemma unchecked_pattern_never_decided:
  assumes "CHR ''('' \<notin> set a"
  shows "call_validator fuel DB env act sess AclPattern t (CHR '')'' # a @ CHR ''('' # r) b w = (Inr None, w)"
proof (cases fuel)
  case (Suc n)
  then show ?thesis
    by (cases n) (simp_all add: unchecked_loop [OF assms] op_simps catchM_def bindO_def bindM_def ret_def)
qed (simp add: op_simps)

lemma unchecked_pattern_never_decided_witness:
  "call_validator 100 (redis_acl_db memory_denv) age_env demo_activity (ae_session age_env) AclPattern
     ''custom'' '')x('' False demo = (Inr None, demo)"
  using unchecked_pattern_never_decided [of "''x''" 100 "redis_acl_db memory_denv" age_env demo_activity
      "ae_session age_env" "''custom''" "[]" False demo] by simp

subsection \<open>The meaning of patterns\<close>

text \<open>C16: A custom pattern never lets in too much: when a checked pattern accepts, some alternative has
all its clauses satisfied, where a group in parentheses is satisfied when one of its own
alternatives is. \<open>T\<close> is what a positive answer of the test of a clause guarantees.\<close>

theorem accepting_pattern_is_satisfied:
  assumes "\<And>c w r w'. test c w = (Inr (Some r), w') \<Longrightarrow> fst r \<Longrightarrow> T c"
    and "pattern_text_error (Some v) = None" "count_list v (CHR ''('') \<le> n"
    and "split_and_test_clause (Suc n) test [] v w = (Inr (Some gs'), w')"
  shows "pattern_sat T n v"
  using split_and_test_sound [OF assms(1) accepted_alternates [OF assms(2)] assms(3,4)] .

lemma accepting_pattern_is_satisfied_witness:
  "pattern_sat (\<lambda>c. c = ''a=1'') 1 ''a=1''"
proof (rule accepting_pattern_is_satisfied)
  show "split_and_test_clause (Suc 1) (\<lambda>c. ret (Some (c = ''a=1'', None))) [] ''a=1'' () = (Inr (Some []), ())"
    using split_flat_exact [of "\<lambda>c. ret (Some (c = ''a=1'', None))" "\<lambda>c. (c = ''a=1'', None)" "''a=1''" 1 "[]" "()"]
    by (simp add: op_simps plain_group_def flat_sat_def split_on.simps del: split_and_test_clause.simps)
qed (auto simp: op_simps pattern_text_error_def blank_iff is_space_def pattern_matches_def pattern_char_def
    is_digit_char_def)

text \<open>C31: A pattern without parentheses accepts exactly when some alternative has all its clauses
satisfied; the order of the alternatives does not matter.\<close>

theorem flat_pattern_exact:
  assumes "\<And>c w. test c w = (Inr (Some (t c)), w)" "plain_group v"
  shows "split_and_test_clause (Suc n) test gs v w =
    (if flat_sat (\<lambda>c. fst (t c)) v then Inr (Some gs)
     else Inl (pattern_failure (split_on (CHR ''|'') v)), w)"
  by (rule split_flat_exact [OF assms])

lemma flat_pattern_exact_witness:
  "split_and_test_clause 1 (\<lambda>c. ret (Some (c = ''b=2'', None))) [] ''a=1|b=2'' () = (Inr (Some []), ())"
  using flat_pattern_exact [of "\<lambda>c. ret (Some (c = ''b=2'', None))" "\<lambda>c. (c = ''b=2'', None)" "''a=1|b=2''" 0 "[]" "()"]
  by (simp add: op_simps plain_group_def flat_sat_def split_on.simps)

text \<open>With parentheses the order does matter: when the first alternative is a compound group that
is not satisfied, the whole pattern is refused without looking at the other alternatives, even if
one of them is satisfied.\<close>

lemma unsatisfied_group_ends_the_search:
  assumes "\<And>c w. test c w = (Inr (Some (t c)), w)" "plain_group g" "CHR '')'' \<notin> set g" "compound g"
    and "\<not> flat_sat (\<lambda>c. fst (t c)) g"
    and "CHR ''('' \<notin> set rest"
  shows "split_and_test_clause (Suc (Suc n)) test [] (CHR ''('' # g @ CHR '')'' # CHR ''|'' # rest) w =
    (Inl (pattern_failure (split_on (CHR ''|'') g)), w)"
proof -
  have g: "CHR ''('' \<notin> set g" using assms(2) by (simp add: plain_group_def)
  have mark: "at_mark 0 = ''@0@''"
    by (simp add: at_mark_def) code_simp
  have tg: "take_groups (Suc n) [] (CHR ''('' # g @ CHR '')'' # CHR ''|'' # rest) = Some (Inr ([g], ''@0@|'' @ rest))"
    using take_groups_step [of _ "[]" g "CHR ''|'' # rest" n "[]"] g assms(3,6)
    by (simp add: mark take_groups_none)
  have zero: "py_int ''0'' = Some 0"
    using py_int_isdigit [of "''0''"] by (simp add: isdigit_def is_digit_char_def digit_val_def)
  have ors: "split_on (CHR ''|'') (''@0@|'' @ rest) = ''@0@'' # split_on (CHR ''|'') rest"
    using split_on_append_sep [of "CHR ''|''" "''@0@''" rest] by simp
  have res: "resolve_clause [g] ''@0@'' = Inr g"
    by (simp add: resolve_clause_def group_of_def zero)
  have ands: "split_on (CHR '','') ''@0@'' = [''@0@'']"
    by (simp add: split_on.simps)
  have sub: "split_and_test_clause (Suc n) test [g] g w = (Inl (pattern_failure (split_on (CHR ''|'') g)), w)"
    using split_flat_exact [where n = n and gs = "[g]" and w = w, OF assms(1,2)] assms(5) by simp
  show ?thesis
    by (subst split_and_test_clause.simps)
      (simp add: tg Let_def ors [simplified] ands res assms(4) bindO_def bindM_def lift_result_run sub
        del: split_and_test_clause.simps)
qed

lemma unsatisfied_group_ends_the_search_witness:
  "split_and_test_clause 2 (\<lambda>c. ret (Some (c = ''c=3'', None))) [] ''(a=1,b=2)|c=3'' () =
    (Inl (pattern_failure [''a=1,b=2'']), ()) \<and>
   split_and_test_clause 1 (\<lambda>c. ret (Some (c = ''c=3'', None))) [] ''c=3|a=1,b=2'' () = (Inr (Some []), ())"
  using unsatisfied_group_ends_the_search [of "\<lambda>c. ret (Some (c = ''c=3'', None))" "\<lambda>c. (c = ''c=3'', None)"
      "''a=1,b=2''" "''c=3''" 0 "()"]
    split_flat_exact [of "\<lambda>c. ret (Some (c = ''c=3'', None))" "\<lambda>c. (c = ''c=3'', None)" "''c=3|a=1,b=2''" 0 "[]" "()"]
  by (simp add: op_simps plain_group_def flat_sat_def split_on.simps compound_def numeral_2_eq_2
      del: split_and_test_clause.simps)

subsection \<open>Ranges and value lists\<close>

text \<open>A range that passed the check never raises when it is used, and lets in exactly the users
whose session value is a number within the bounds; a missing bound is no bound.\<close>

lemma accepted_range_meaning:
  assumes "validate_new_range (Some v) = Inr ()"
  shows "\<exists>r. call_range sess t v False = Inr r \<and>
    (fst r \<longleftrightarrow> (\<exists>sv k. sess t = Some sv \<and> \<not> blank sv \<and> py_int sv = Some k \<and>
        in_range (fst (range_bounds v)) (snd (range_bounds v)) k))"
  by (cases "sess t") (auto simp: call_range_accepted [OF assms] range_verdict_plain split: option.splits)

lemma accepted_range_meaning_witness:
  "\<exists>r. call_range [''age'' \<mapsto> ''30''] ''age'' ''18:'' False = Inr r \<and> fst r"
proof -
  have i: "py_int ''18'' = Some 18" "py_int ''30'' = Some 30"
    using py_int_isdigit [of "''18''"] py_int_isdigit [of "''30''"]
    by (simp_all add: isdigit_def is_digit_char_def digit_val_def)
  have "validate_new_range (Some ''18:'') = Inr ()"
    by (simp add: validate_new_range_def blank_iff is_space_def is_digit_def isdigit_def is_digit_char_def)
  from accepted_range_meaning [OF this, of "[''age'' \<mapsto> ''30'']" "''age''"] show ?thesis
    by (simp add: range_bounds_def i in_range_def blank_iff is_space_def)
qed

text \<open>Negating a range reverses it, for every range with at least one bound.\<close>

lemma negated_range_is_complement:
  assumes "lo \<noteq> None \<or> hi \<noteq> None"
  shows "fst (range_verdict lo hi v True) \<longleftrightarrow> \<not> fst (range_verdict lo hi v False)"
  using range_verdict_negated [OF assms] range_verdict_plain by simp

lemma negated_range_is_complement_witness: "fst (range_verdict (Some 18) None 17 True)"
  using negated_range_is_complement [of "Some 18" None 17] by (simp add: range_verdict_plain in_range_def)

text \<open>Negating a list of values does not reverse it: a session value in upper case whose lower case
form is listed satisfies both the rule and its negation, since only the plain test converts it.\<close>

lemma negated_csv_not_complement:
  assumes "sess t = Some x" "CHR '','' \<notin> set x" "\<not> blank x" "\<not> blank vs"
    and "lower x \<in> set (split_on (CHR '','') vs)" "x \<notin> set (split_on (CHR '','') vs)"
  shows "fst (call_csv_in_csv sess t vs False) \<and> fst (call_csv_in_csv sess t vs True)"
  using assms by (simp add: call_csv_in_csv_plain call_csv_in_csv_negated split_on_no_sep)

lemma negated_csv_not_complement_witness:
  "fst (call_csv_in_csv [''lang'' \<mapsto> ''EN''] ''lang'' ''en,sv'' False) \<and>
   fst (call_csv_in_csv [''lang'' \<mapsto> ''EN''] ''lang'' ''en,sv'' True)"
proof (rule negated_csv_not_complement)
  have "lower ''EN'' = ''en''" by code_simp
  then show "lower ''EN'' \<in> set (split_on (CHR '','') ''en,sv'')" by (simp add: split_on.simps)
qed (simp_all add: blank_iff is_space_def split_on.simps)

end
