(* ===== verification/Acl_Config.thy ===== *)
theory Acl_Config
  imports Acl_Rules
begin

section \<open>The configuration of access control lists\<close>

text \<open>
  \<open>AclConfigValidator\<close> of \<^verbatim>\<open>dino/validation/acl.py\<close>, and of \<^verbatim>\<open>dino/environ.py\<close> the functions
  \<open>get_acl_config\<close>, which checks the configuration at start, and \<open>init_acl_validators\<close>, which puts
  the validator objects into it. The configuration is what the YAML parser returns; the keys of its
  mappings are texts. The order in which a Python set is iterated is a parameter. The messages of
  the errors are shortened to what they say without the names.
\<close>

subsection \<open>YAML values in Python\<close>

datatype yaml = YNull | YBool bool | YNum int | YText string | YList "yaml list" | YMap "(string \<times> yaml) list"

text \<open>\<open>for x in v\<close>\<close>

fun py_iter :: "yaml \<Rightarrow> exc + yaml list" where
  "py_iter (YMap m) = Inr (map (\<lambda>e. YText (fst e)) m)"
| "py_iter (YList l) = Inr l"
| "py_iter (YText s) = Inr (map (\<lambda>c. YText [c]) s)"
| "py_iter _ = Inl TypeError"

fun hashable :: "yaml \<Rightarrow> bool" where
  "hashable (YList l) = False" | "hashable (YMap m) = False" | "hashable _ = True"

text \<open>\<open>x in v\<close> and \<open>v[x]\<close>. A number is an index of a list.\<close>

fun py_in :: "yaml \<Rightarrow> yaml \<Rightarrow> exc + bool" where
  "py_in x (YMap m) = (if \<not> hashable x then Inl TypeError
     else Inr (case x of YText k \<Rightarrow> map_of m k \<noteq> None | _ \<Rightarrow> False))"
| "py_in x (YList l) = Inr (x \<in> set l)"
| "py_in x (YText t) = (case x of YText s \<Rightarrow> Inr (contains s t) | _ \<Rightarrow> Inl TypeError)"
| "py_in x _ = Inl TypeError"

definition py_nth :: "'a list \<Rightarrow> int \<Rightarrow> exc + 'a" where
  "py_nth l i = (let j = (if i < 0 then i + int (length l) else i)
     in if 0 \<le> j \<and> j < int (length l) then Inr (l ! nat j) else Inl IndexError)"

fun py_index :: "yaml \<Rightarrow> yaml \<Rightarrow> exc + yaml" where
  "py_index (YMap m) x = (if \<not> hashable x then Inl TypeError
     else (case x of YText k \<Rightarrow> (case map_of m k of None \<Rightarrow> Inl KeyError | Some v \<Rightarrow> Inr v) | _ \<Rightarrow> Inl KeyError))"
| "py_index (YList l) x = (case x of YNum i \<Rightarrow> py_nth l i | YBool b \<Rightarrow> py_nth l (if b then 1 else 0) | _ \<Rightarrow> Inl TypeError)"
| "py_index (YText s) x = (case x of
     YNum i \<Rightarrow> map_sum id (\<lambda>c. YText [c]) (py_nth s i)
   | YBool b \<Rightarrow> map_sum id (\<lambda>c. YText [c]) (py_nth s (if b then 1 else 0)) | _ \<Rightarrow> Inl TypeError)"
| "py_index _ x = Inl TypeError"

fun py_len :: "yaml \<Rightarrow> exc + nat" where
  "py_len (YMap m) = Inr (length m)"
| "py_len (YList l) = Inr (length l)"
| "py_len (YText s) = Inr (length s)"
| "py_len _ = Inl TypeError"

text \<open>\<open>d.get(key)\<close>, \<open>d.keys()\<close>, \<open>d.items()\<close> of a mapping; other values have no such methods.\<close>

fun py_items :: "yaml \<Rightarrow> exc + (string \<times> yaml) list" where
  "py_items (YMap m) = Inr m" | "py_items _ = Inl AttributeError"

definition py_get :: "yaml \<Rightarrow> string \<Rightarrow> exc + yaml" where
  "py_get d key = (case d of YMap m \<Rightarrow> Inr (case map_of m key of None \<Rightarrow> YNull | Some v \<Rightarrow> v) | _ \<Rightarrow> Inl AttributeError)"

text \<open>\<open>len(v.strip()) == 0\<close>, and the texts of a value that is iterated, for \<open>set\<close> and \<open>join\<close>.\<close>

fun py_blank :: "yaml \<Rightarrow> exc + bool" where
  "py_blank (YText s) = Inr (blank s)" | "py_blank _ = Inl AttributeError"

text \<open>The checks are written with exceptions as values.\<close>

definition andThen :: "exc + 'a \<Rightarrow> ('a \<Rightarrow> exc + 'b) \<Rightarrow> exc + 'b" where
  "andThen m f = (case m of Inl e \<Rightarrow> Inl e | Inr a \<Rightarrow> f a)"

definition check :: "bool \<Rightarrow> string \<Rightarrow> exc + unit" where
  "check b msg = (if b then Inr () else Inl (RuntimeError msg))"

fun check_each :: "('a \<Rightarrow> exc + unit) \<Rightarrow> 'a list \<Rightarrow> exc + unit" where
  "check_each f [] = Inr ()"
| "check_each f (x # xs) = andThen (f x) (\<lambda>_. check_each f xs)"

subsection \<open>The checks\<close>

definition valid_roots :: "string list" where
  "valid_roots = [''validation'', ''room'', ''available'', ''channel'']"

definition validation_methods :: "string list" where
  "validation_methods = [''csv_in_csv'', ''str_in_csv'', ''range'', ''samechannel'', ''sameroom'', ''disallow'',
     ''is_admin'', ''is_super_user'', ''anything'', ''custom'', ''is_room_owner'']"

definition config_rules :: "string list" where
  "config_rules = [''acls'', ''exclude'']"

definition config_actions :: "(string \<times> string list) list" where
  "config_actions =
     [(''room'', [''join'', ''setacl'', ''history'', ''create'', ''list'', ''kick'', ''message'', ''crossroom'', ''ban'', ''autojoin'']),
      (''channel'', [''create'', ''setacl'', ''list'', ''create'', ''message'', ''crossroom'', ''ban'', ''whisper''])]"

definition check_acl_roots :: "yaml \<Rightarrow> exc + unit" where
  "check_acl_roots acls =
     andThen (py_items acls) (\<lambda>roots.
     andThen (check (map_of roots ''available'' \<noteq> None) ''no ACLs in root available'') (\<lambda>_.
     andThen (py_in (YText ''acls'') (the (map_of roots ''available''))) (\<lambda>b.
     andThen (check b ''no ACLs defined in available ACLs'') (\<lambda>_.
     check_each (\<lambda>root. check (fst root \<in> set valid_roots) ''invalid ACL root'') roots))))"

definition check_validation :: "yaml \<Rightarrow> yaml \<Rightarrow> yaml \<Rightarrow> exc + unit" where
  "check_validation available_acls validations validation =
     andThen (py_in validation available_acls) (\<lambda>known.
     andThen (check known ''validation for unknown ACL'') (\<lambda>_.
     andThen (py_index validations validation) (\<lambda>conf.
     andThen (py_in (YText ''type'') conf) (\<lambda>b.
     andThen (check b ''no type in validation for ACL'') (\<lambda>_.
     andThen (py_index conf (YText ''type'')) (\<lambda>validation_method.
     andThen (py_in (YText ''value'') conf) (\<lambda>has_value.
     andThen (if has_value then andThen (py_index conf (YText ''value'')) (\<lambda>v.
                if validation_method = YText ''str_in_csv'' then py_blank v else Inr False)
              else Inr False) (\<lambda>blank_value.
     andThen (check (\<not> blank_value) ''blank validation value specified'') (\<lambda>_.
     check (validation_method \<in> YText ` set validation_methods) ''unknown validation method'')))))))))"

definition check_acl_validation_methods :: "yaml \<Rightarrow> yaml \<Rightarrow> exc + unit" where
  "check_acl_validation_methods acls available_acls =
     andThen (py_get acls ''validation'') (\<lambda>validations.
     andThen (py_iter validations) (check_each (check_validation available_acls validations)))"

definition check_acl_excludes :: "yaml \<Rightarrow> yaml list \<Rightarrow> exc + unit" where
  "check_acl_excludes available_acls excludes =
     check_each (\<lambda>e. andThen (py_in e available_acls) (\<lambda>b.
       check b ''can not exclude, not in available acls'')) excludes"

definition check_acl_keys_in_available :: "yaml \<Rightarrow> yaml list \<Rightarrow> exc + unit" where
  "check_acl_keys_in_available available_acls keys =
     check_each (\<lambda>acl. andThen (py_in acl available_acls) (\<lambda>b. check b ''specified ACL is not in available'')) keys"

definition check_acl_rules :: "yaml \<Rightarrow> exc + unit" where
  "check_acl_rules acls =
     andThen (py_items acls) (check_each (\<lambda>(target, actions).
       if map_of config_actions target = None then Inr ()
       else andThen (py_iter actions) (check_each (\<lambda>acl.
         andThen (py_index actions acl) (\<lambda>rules.
         andThen (py_iter rules) (check_each (\<lambda>rule.
           check (rule \<in> YText ` set config_rules) ''unknown rule'')))))))"

text \<open>\<open>set(v)\<close>\<close>

definition py_set :: "(yaml list \<Rightarrow> yaml list) \<Rightarrow> yaml \<Rightarrow> exc + yaml list" where
  "py_set order v = andThen (py_iter v) (\<lambda>xs. if list_all hashable xs then Inr (order (remdups xs)) else Inl TypeError)"

fun is_map :: "yaml \<Rightarrow> bool" where
  "is_map (YMap m) = True" | "is_map _ = False"

definition check_action :: "(yaml list \<Rightarrow> yaml list) \<Rightarrow> string \<Rightarrow> yaml \<Rightarrow> yaml \<Rightarrow> yaml \<Rightarrow> exc + unit" where
  "check_action order acl_target available_acls acls action =
     andThen (check (action \<in> YText ` set (the (map_of config_actions acl_target)))
       ''action is not available for target type'') (\<lambda>_.
     andThen (py_index acls action) (\<lambda>conf.
     if conf = YNull then Inr ()
     else andThen (check (is_map conf) ''acls for actions needs to be a dict'') (\<lambda>_.
     andThen (py_in (YText ''acls'') conf) (\<lambda>has_acls.
     if \<not> has_acls then Inr ()
     else andThen (andThen (py_index conf (YText ''acls'')) (py_set order)) (\<lambda>keys.
       andThen (check_acl_keys_in_available available_acls keys) (\<lambda>_.
       andThen (py_in (YText ''exclude'') conf) (\<lambda>has_exclude.
       if \<not> has_exclude then Inr ()
       else andThen (andThen (py_index conf (YText ''exclude'')) py_iter)
              (check_acl_excludes available_acls))))))))"

definition check_acl_actions ::
  "(yaml list \<Rightarrow> yaml list) \<Rightarrow> (string \<times> yaml) list \<Rightarrow> yaml \<Rightarrow> exc + unit" where
  "check_acl_actions order check_acls available_acls =
     check_each (\<lambda>(acl_target, acls).
       if acls = YNull then Inr ()
       else andThen (py_len acls) (\<lambda>n.
         if n = 0 then Inr ()
         else andThen (py_iter acls) (check_each (check_action order acl_target available_acls acls)))) check_acls"

definition validate_acl_config :: "(yaml list \<Rightarrow> yaml list) \<Rightarrow> yaml \<Rightarrow> (string \<times> yaml) list \<Rightarrow> exc + unit" where
  "validate_acl_config order acls check_acls =
     andThen (andThen (py_index acls (YText ''available'')) (\<lambda>a. py_index a (YText ''acls''))) (\<lambda>available_acls.
     andThen (check_acl_roots acls) (\<lambda>_.
     andThen (check_acl_validation_methods acls available_acls) (\<lambda>_.
     andThen (check_acl_rules acls) (\<lambda>_.
     check_acl_actions order check_acls available_acls))))"

subsection \<open>Reading the configuration\<close>

text \<open>
  \<open>get_acl_config\<close>. The rules without the excluded ones are collected in \<open>checked_acls\<close>, but what is
  returned is the configuration as it was read.
\<close>

definition remove_excluded :: "yaml list \<Rightarrow> yaml list \<Rightarrow> exc + yaml list" where
  "remove_excluded excludes keys =
     fold (\<lambda>e r. andThen r (\<lambda>ks. if \<not> hashable e then Inl TypeError
        else if e \<in> set ks then Inr (remove1 e ks) else Inl KeyError)) excludes (Inr keys)"

definition checked_action :: "(yaml list \<Rightarrow> yaml list) \<Rightarrow> yaml \<Rightarrow> yaml \<Rightarrow> exc + (yaml \<times> yaml list) option" where
  "checked_action order target_acls action =
     andThen (py_index target_acls action) (\<lambda>conf.
     if conf = YNull then Inr None
     else andThen (andThen (py_index conf (YText ''acls'')) (py_set order)) (\<lambda>keys.
       andThen (py_in (YText ''exclude'') conf) (\<lambda>has_exclude.
       andThen (if has_exclude
                then andThen (andThen (py_index conf (YText ''exclude'')) py_iter) (\<lambda>ex. remove_excluded ex keys)
                else Inr keys) (\<lambda>keys. Inr (Some (action, keys))))))"

fun checked_actions :: "(yaml list \<Rightarrow> yaml list) \<Rightarrow> yaml \<Rightarrow> yaml list \<Rightarrow> exc + (yaml \<times> yaml list) list" where
  "checked_actions order target_acls [] = Inr []"
| "checked_actions order target_acls (a # as) =
     andThen (checked_action order target_acls a) (\<lambda>r.
     andThen (checked_actions order target_acls as) (\<lambda>rs.
     Inr (case r of None \<Rightarrow> rs | Some e \<Rightarrow> e # rs)))"

definition checked_target :: "(yaml list \<Rightarrow> yaml list) \<Rightarrow> yaml \<Rightarrow> exc + (yaml \<times> yaml list) list" where
  "checked_target order target_acls =
     (if target_acls = YNull then Inr []
      else andThen (py_len target_acls) (\<lambda>n. if n = 0 then Inr []
        else andThen (py_iter target_acls) (checked_actions order target_acls)))"

definition get_acl_config :: "(yaml list \<Rightarrow> yaml list) \<Rightarrow> yaml \<Rightarrow> exc + yaml" where
  "get_acl_config order acls =
     andThen (if acls = YNull then Inr 0 else py_len acls) (\<lambda>n.
     if n = 0 then Inr (YMap [(''room'', YMap []), (''channel'', YMap []), (''available'', YMap [])])
     else
       andThen (py_get acls ''channel'') (\<lambda>channel_acls.
       andThen (py_get acls ''room'') (\<lambda>room_acls.
       andThen (validate_acl_config order acls [(''channel'', channel_acls), (''room'', room_acls)]) (\<lambda>_.
       andThen (checked_target order channel_acls) (\<lambda>_.
       andThen (checked_target order room_acls) (\<lambda>_. Inr acls))))))"

subsection \<open>The validator objects\<close>

text \<open>The value of a text validation: its own, the one of the database for \<open>##db##\<close>, or the default.\<close>

definition optional :: "yaml \<Rightarrow> string \<Rightarrow> exc + yaml" where
  "optional conf key = andThen (py_in (YText key) conf) (\<lambda>b. if b then py_index conf (YText key) else Inr YNull)"

definition csv_value :: "(string \<Rightarrow> string \<Rightarrow> exc + string) \<Rightarrow> string \<Rightarrow> bool \<Rightarrow> string \<Rightarrow> yaml \<Rightarrow> exc + yaml" where
  "csv_value lookup validation_type needs_value acl_type conf =
     andThen (optional conf ''value'') (\<lambda>csv.
     if csv \<noteq> YText ''##db##'' then Inr csv
     else (case lookup acl_type validation_type of
         Inr v \<Rightarrow> Inr (YText v)
       | Inl (AclValueNotFoundException _ _) \<Rightarrow>
           andThen (py_in (YText ''default'') conf) (\<lambda>has_default.
           andThen (if has_default then andThen (py_index conf (YText ''default'')) py_blank else Inr True) (\<lambda>blank_default.
           if \<not> blank_default then py_index conf (YText ''default'')
           else if needs_value then Inl (RuntimeError ''no default value found'')
           else Inr csv))
       | Inl e \<Rightarrow> Inl e))"

text \<open>\<open>BaseInCsvAclValidator(csv)\<close>\<close>

fun csv_parts :: "yaml \<Rightarrow> exc + string list option" where
  "csv_parts YNull = Inr None"
| "csv_parts (YText s) = Inr (Some (split_on (CHR '','') s))"
| "csv_parts _ = Inl AttributeError"

definition init_validator :: "(string \<Rightarrow> string \<Rightarrow> exc + string) \<Rightarrow> string \<Rightarrow> yaml \<Rightarrow> exc + validator" where
  "init_validator lookup acl_type conf =
     andThen (py_index conf (YText ''type'')) (\<lambda>validation_type.
     if validation_type = YText ''str_in_csv'' then
       andThen (andThen (csv_value lookup ''str_in_csv'' True acl_type conf) csv_parts) (\<lambda>csvs. Inr (AclStrInCsv csvs))
     else if validation_type = YText ''csv_in_csv'' then
       andThen (andThen (csv_value lookup ''csv_in_csv'' False acl_type conf) csv_parts) (\<lambda>csvs. Inr (AclCsvInCsv csvs))
     else if validation_type = YText ''range'' then Inr AclRange
     else if validation_type = YText ''disallow'' then Inr AclDisallow
     else if validation_type = YText ''samechannel'' then Inr AclSameChannel
     else if validation_type = YText ''custom'' then Inr AclPattern
     else if validation_type = YText ''sameroom'' then Inr AclSameRoom
     else if validation_type = YText ''is_admin'' then Inr AclIsAdmin
     else if validation_type = YText ''is_room_owner'' then Inr AclIsRoomOwner
     else if validation_type = YText ''is_super_user'' then Inr AclIsSuperUser
     else Inl (RuntimeError ''unknown validation type''))"

fun init_validations :: "(string \<Rightarrow> string \<Rightarrow> exc + string) \<Rightarrow> (string \<times> yaml) list \<Rightarrow> exc + (string \<times> validation_conf) list" where
  "init_validations lookup [] = Inr []"
| "init_validations lookup ((acl_type, conf) # rest) =
     andThen (init_validator lookup acl_type conf) (\<lambda>v.
     andThen (init_validations lookup rest) (\<lambda>vs.
     Inr ((acl_type, \<lparr>vc_type = (case py_index conf (YText ''type'') of Inr (YText t) \<Rightarrow> Some t | _ \<Rightarrow> None),
       vc_value = ValidatorValue v,
       vc_default = (case optional conf ''default'' of Inr (YText t) \<Rightarrow> Some t | _ \<Rightarrow> None)\<rparr>) # vs)))"

definition init_acl_validators :: "(string \<Rightarrow> string \<Rightarrow> exc + string) \<Rightarrow> yaml \<Rightarrow> exc + (string \<times> validation_conf) list" where
  "init_acl_validators lookup acl_config =
     andThen (andThen (py_index acl_config (YText ''validation'')) py_items) (init_validations lookup)"

end
