(* ===== verification/Config_Facts.thy ===== *)
theory Config_Facts
  imports Acl_Config
begin

section \<open>Facts on the configuration of access control lists\<close>

text \<open>
  What a configuration that passes the checks at start is known to have, and when the validator
  objects can be built from it.
\<close>

lemma andThen_Inr: "andThen m f = Inr b \<longleftrightarrow> (\<exists>a. m = Inr a \<and> f a = Inr b)"
  by (cases m) (auto simp: andThen_def)

lemma andThen_run: "andThen (Inr a) f = f a" "andThen (Inl e) f = Inl e"
  by (simp_all add: andThen_def)

lemma check_Inr: "check b msg = Inr u \<longleftrightarrow> b"
  by (simp add: check_def)

lemma check_each_Inr: "check_each f xs = Inr u \<longleftrightarrow> (\<forall>x\<in>set xs. f x = Inr ())"
  by (induction xs) (auto simp: andThen_Inr)

lemmas checks = andThen_Inr check_Inr check_each_Inr

definition validation_type :: "yaml \<Rightarrow> string option" where
  "validation_type conf = (case py_index conf (YText ''type'') of Inr (YText t) \<Rightarrow> Some t | _ \<Rightarrow> None)"

lemma checked_validation:
  assumes "check_validation available (YMap vs) (YText t) = Inr ()" "map_of vs t = Some v"
  shows "\<exists>ty. ty \<in> set validation_methods \<and> py_index v (YText ''type'') = Inr (YText ty)"
  using assms by (auto simp: check_validation_def checks)

lemma checked_config:
  assumes "get_acl_config order (YMap roots) = Inr c" "roots \<noteq> []" "map_of roots ''validation'' = Some (YMap vs)"
  shows "c = YMap roots \<and> (\<forall>t\<in>fst ` set vs. \<exists>available. check_validation available (YMap vs) (YText t) = Inr ())"
  using assms
  by (force simp: get_acl_config_def checks validate_acl_config_def check_acl_validation_methods_def py_get_def)

text \<open>
  What else the texts of a validation have to be: the value and the default are texts if they are
  there, and a value that is to be found in the database is there or has a default.
\<close>

definition text_or_absent :: "(string \<times> yaml) list \<Rightarrow> string \<Rightarrow> bool" where
  "text_or_absent m key \<longleftrightarrow> (case map_of m key of None \<Rightarrow> True | Some (YText _) \<Rightarrow> True | _ \<Rightarrow> False)"

definition found_in_db :: "(string \<Rightarrow> string \<Rightarrow> exc + string) \<Rightarrow> string \<Rightarrow> (string \<times> yaml) list \<Rightarrow> string \<Rightarrow> bool" where
  "found_in_db lookup t m ty \<longleftrightarrow> (case lookup t ty of
     Inr _ \<Rightarrow> True
   | Inl (AclValueNotFoundException _ _) \<Rightarrow>
       ty = ''csv_in_csv'' \<or> (\<exists>d. map_of m ''default'' = Some (YText d) \<and> \<not> blank d)
   | _ \<Rightarrow> False)"

definition buildable :: "(string \<Rightarrow> string \<Rightarrow> exc + string) \<Rightarrow> string \<times> yaml \<Rightarrow> bool" where
  "buildable lookup e \<longleftrightarrow> (case snd e of
     YMap m \<Rightarrow> text_or_absent m ''value'' \<and> text_or_absent m ''default'' \<and>
       (map_of m ''value'' = Some (YText ''##db##'') \<longrightarrow>
          (\<forall>ty\<in>{''str_in_csv'', ''csv_in_csv''}. found_in_db lookup (fst e) m ty))
   | _ \<Rightarrow> False)"

lemma optional_text:
  "text_or_absent m key \<Longrightarrow> optional (YMap m) key = Inr YNull \<or> (\<exists>s. optional (YMap m) key = Inr (YText s) \<and> map_of m key = Some (YText s))"
  by (auto simp: optional_def text_or_absent_def andThen_run split: option.splits yaml.splits)

lemma csv_built:
  assumes "buildable lookup (t, YMap m)" "ty = ''str_in_csv'' \<or> ty = ''csv_in_csv''"
  shows "\<exists>csvs. andThen (csv_value lookup ty (ty = ''str_in_csv'') t (YMap m)) csv_parts = Inr csvs"
proof -
  have v: "text_or_absent m ''value''" and d: "text_or_absent m ''default''"
    and db: "map_of m ''value'' = Some (YText ''##db##'') \<longrightarrow> found_in_db lookup t m ty"
    using assms by (auto simp: buildable_def)
  from optional_text [OF v] show ?thesis
  proof (elim disjE exE conjE)
    fix s assume s: "optional (YMap m) ''value'' = Inr (YText s)" "map_of m ''value'' = Some (YText s)"
    show ?thesis
    proof (cases "s = ''##db##''")
      case True
      with db s have f: "found_in_db lookup t m ty" by simp
      show ?thesis
      proof (cases "lookup t ty")
        case (Inl e)
        with f obtain a b where e: "e = AclValueNotFoundException a b"
          and dd: "ty = ''csv_in_csv'' \<or> (\<exists>d. map_of m ''default'' = Some (YText d) \<and> \<not> blank d)"
          by (cases e) (auto simp: found_in_db_def)
        show ?thesis
        proof (cases "map_of m ''default''")
          case None
          with dd s True Inl e show ?thesis by (simp add: csv_value_def andThen_run)
        next
          case (Some y)
          then obtain x where "y = YText x" using d by (cases y) (auto simp: text_or_absent_def)
          with dd s True Inl e Some show ?thesis by (cases "blank x") (auto simp: csv_value_def andThen_run)
        qed
      qed (use s True in \<open>simp add: csv_value_def andThen_run\<close>)
    qed (use s in \<open>simp add: csv_value_def andThen_run\<close>)
  qed (simp add: csv_value_def andThen_run)
qed

lemma validator_built:
  assumes "buildable lookup (t, v)" "py_index v (YText ''type'') = Inr (YText ty)" "ty \<in> set validation_methods"
  shows "if ty = ''anything'' then init_validator lookup t v = Inl (RuntimeError ''unknown validation type'')
    else \<exists>f. init_validator lookup t v = Inr f"
proof -
  obtain m where m: "v = YMap m" using assms(1) by (auto simp: buildable_def split: yaml.splits)
  from csv_built [OF assms(1) [unfolded m], of "''str_in_csv''"] obtain a where
    a: "andThen (csv_value lookup ''str_in_csv'' True t (YMap m)) csv_parts = Inr a" by auto
  from csv_built [OF assms(1) [unfolded m], of "''csv_in_csv''"] obtain b where
    b: "andThen (csv_value lookup ''csv_in_csv'' False t (YMap m)) csv_parts = Inr b" by auto
  note built = init_validator_def m assms(2) [unfolded m] a b andThen_run
  show ?thesis
    using assms(3) unfolding validation_methods_def list.set insert_iff empty_iff
    by (elim disjE; simp add: built del: py_index.simps)
qed

lemma validations_built:
  assumes "\<forall>e\<in>set vs. buildable lookup e \<and>
    (\<exists>ty. ty \<in> set validation_methods \<and> py_index (snd e) (YText ''type'') = Inr (YText ty))"
  shows "if \<exists>e\<in>set vs. validation_type (snd e) = Some ''anything''
    then init_validations lookup vs = Inl (RuntimeError ''unknown validation type'')
    else \<exists>confs. init_validations lookup vs = Inr confs \<and> map fst confs = map fst vs \<and>
      (\<forall>e\<in>set confs. \<exists>f. vc_value (snd e) = ValidatorValue f)"
  using assms
proof (induction vs)
  case (Cons e vs)
  obtain t v where e: "e = (t, v)" by (cases e)
  obtain ty where ty: "ty \<in> set validation_methods" "py_index v (YText ''type'') = Inr (YText ty)"
    using Cons.prems e by auto
  have "if ty = ''anything'' then init_validator lookup t v = Inl (RuntimeError ''unknown validation type'')
    else \<exists>f. init_validator lookup t v = Inr f"
    using validator_built [of lookup t v ty] Cons.prems e ty by auto
  moreover have "validation_type v = Some ty" using ty by (simp add: validation_type_def)
  ultimately show ?case
    using Cons e by (auto simp: andThen_run split: if_splits)
qed simp

lemma validator_of_conf:
  assumes "map fst confs = map fst vs" "\<forall>e\<in>set confs. \<exists>f. vc_value (snd e) = ValidatorValue f" "t \<in> fst ` set vs"
  shows "\<exists>f. \<forall>available targets. validator_of
    \<lparr>ac_available = available, ac_validation = confs, ac_targets = targets\<rparr> t = Inr (ValidatorValue f)"
proof -
  have "t \<in> fst ` set confs" using assms(1,3) by (metis list.set_map)
  then obtain c where c: "map_of confs t = Some c" by (metis map_of_eq_None_iff option.exhaust)
  then obtain f where "vc_value c = ValidatorValue f" using assms(2) map_of_SomeD by fastforce
  with c show ?thesis by (simp add: validator_of_def)
qed

end
