(* ===== verification/Claims_Config.thy ===== *)
theory Claims_Config
  imports Config_Facts
begin

section \<open>Properties of the configuration of access control lists\<close>

text \<open>A configuration that the checks at start let pass is used as it was read, so that rules which it
excludes stay in force. Given that values and defaults are texts and that what is to come from the
database is there or has a default, the validators can be built for it, and then every validation
has a validator object, so that no decision raises for want of one; unless one has the type
\<open>anything\<close>, which the checks allow but for which there is no validator: then the start fails.\<close>

lemma checked_config_starts:
  assumes "get_acl_config order (YMap roots) = Inr c" "roots \<noteq> []"
    and "map_of roots ''validation'' = Some (YMap vs)" "distinct (map fst vs)" "\<forall>e\<in>set vs. buildable lookup e"
  shows "c = YMap roots \<and>
    (if \<exists>e\<in>set vs. validation_type (snd e) = Some ''anything''
     then init_acl_validators lookup c = Inl (RuntimeError ''unknown validation type'')
     else \<exists>confs. init_acl_validators lookup c = Inr confs \<and>
       (\<forall>t\<in>fst ` set vs. \<exists>f. \<forall>available targets. validator_of
         \<lparr>ac_available = available, ac_validation = confs, ac_targets = targets\<rparr> t = Inr (ValidatorValue f)))"
proof -
  note c = checked_config [OF assms(1-3)]
  have "\<forall>e\<in>set vs. buildable lookup e \<and>
      (\<exists>ty. ty \<in> set validation_methods \<and> py_index (snd e) (YText ''type'') = Inr (YText ty))"
  proof
    fix e assume e: "e \<in> set vs"
    then obtain available where "check_validation available (YMap vs) (YText (fst e)) = Inr ()"
      using c by auto
    moreover have "map_of vs (fst e) = Some (snd e)" using e assms(4) by simp
    ultimately show "buildable lookup e \<and>
      (\<exists>ty. ty \<in> set validation_methods \<and> py_index (snd e) (YText ''type'') = Inr (YText ty))"
      using checked_validation assms(5) e by blast
  qed
  from validations_built [OF this] c assms(3) show ?thesis
    by (auto simp: init_acl_validators_def andThen_run validator_of_conf)
qed

definition demo_acls :: "(string \<times> yaml) list" where
  "demo_acls =
     [(''available'', YMap [(''acls'', YList [YText ''age'', YText ''gender''])]),
      (''validation'', YMap [(''age'', YMap [(''type'', YText ''range'')]),
         (''gender'', YMap [(''type'', YText ''str_in_csv''), (''value'', YText ''##db##''), (''default'', YText ''f,m'')])]),
      (''room'', YMap [(''join'', YMap [(''acls'', YList [YText ''age'', YText ''gender'']),
         (''exclude'', YList [YText ''age''])])])]"

lemma checked_config_starts_witness:
  "\<exists>confs. init_acl_validators (\<lambda>t m. Inl (AclValueNotFoundException t m)) (YMap demo_acls) = Inr confs"
proof -
  have g: "get_acl_config (\<lambda>xs. xs) (YMap demo_acls) = Inr (YMap demo_acls)" by code_simp
  have v: "map_of demo_acls ''validation'' = Some (YMap [(''age'', YMap [(''type'', YText ''range'')]),
    (''gender'', YMap [(''type'', YText ''str_in_csv''), (''value'', YText ''##db##''), (''default'', YText ''f,m'')])])"
    by (simp add: demo_acls_def)
  have "\<not> blank ''f,m''" by (simp add: blank_iff is_space_def)
  then show ?thesis
    using checked_config_starts [OF g _ v, of "\<lambda>t m. Inl (AclValueNotFoundException t m)"]
    by (auto simp: demo_acls_def buildable_def text_or_absent_def found_in_db_def validation_type_def)
qed

end
