(* ===== verification/Claims_Db.thy ===== *)
theory Claims_Db
  imports Db_Ban_Facts
begin

section \<open>Properties of the Redis database\<close>

subsection \<open>The registry of rooms\<close>

text \<open>C1: The registry of rooms stays in order: after \<open>create_room\<close> with a fresh id, \<open>rename_room\<close> or
\<open>remove_room\<close>, successful or not, every room of a channel has its name and its channel in the other
hashes, every room with a name has a channel that lists it, and no two rooms of a channel have
names that are equal up to case.\<close>

theorem registry_invariant:
  assumes "db_env E agrees" "db_ok E agrees w" "registry_ok (dv E w)"
  shows "(v_room_name (dv E w) r = None \<longrightarrow>
      registry_ok (dv E (snd (dr_create_room E name r c u un eph w)))) \<and>
    registry_ok (dv E (snd (dr_rename_room E c r name w))) \<and>
    registry_ok (dv E (snd (dr_remove_room E c r w)))"
  using db_env.registry_kept [OF assms] by blast

lemma registry_invariant_witness:
  "registry_ok (dv memory_denv (snd (dr_create_room memory_denv (Some ''New'') ''n'' ''c'' ''1'' ''One'' True demo)))"
  using registry_invariant [OF memory_db.db_env_axioms demo_ok demo_registry, of "''n''"] by simp






subsection \<open>The cache in front of the database\<close>

text \<open>C21: With a coherent cache the channel of a room is the one in Redis: the call answers with it, or
raises the error of the uncached code, and afterwards the cache is still coherent. The Redis cache
of the program and the cache that never has anything are both coherent, so they cannot be told
apart here.\<close>

theorem cached_channel_for_room:
  assumes "db_env E agrees" "db_ok E agrees w" "\<not> blank r"
    and "v_channel_of (dv E w) r \<noteq> None \<longrightarrow> v_room_name (dv E w) r \<noteq> None"
  shows "\<exists>c. dr_channel_for_room E (Some r) w = (spec_channel_for_room (dv E w) r, w\<lparr>db_cache := c\<rparr>) \<and>
    db_ok E agrees (w\<lparr>db_cache := c\<rparr>)"
  using db_env.channel_for_room_spec [OF assms(1-3)] assms(4) by metis

definition demo_cached :: "(store, store cw) dbw" where
  "demo_cached = \<lparr>db_redis = demo_store, db_cache = \<lparr>cw_redis = empty_store, cw_mem = [], cw_now = 0\<rparr>\<rparr>"

lemma demo_cached_dv: "dv cached_denv demo_cached = dv memory_denv demo"
  by (simp add: dv_def demo_cached_def cached_denv_def demo_def memory_denv_def)

lemma demo_cached_ok: "db_ok cached_denv (cache_agrees memory_cenv) demo_cached"
  by (simp add: db_ok_def demo_cached_def cache_agrees_def entry_agrees_def)

lemma cached_channel_for_room_witness:
  "fst (dr_channel_for_room cached_denv (Some ''r'') demo_cached) = Inr ''c''"
proof -
  have r: "\<not> blank ''r''" by (simp add: blank_iff is_space_def)
  show ?thesis
    using cached_channel_for_room [OF cached_db.db_env_axioms demo_cached_ok r]
    by (auto simp: demo_cached_dv spec_channel_for_room_def)
qed

subsection \<open>Roles\<close>

text \<open>Giving a user a role in a room that exists gives exactly that role to exactly that user in
exactly that room, and taking it away takes away exactly that; no other role of anybody changes,
however many roles the text of the user holds.\<close>

lemma room_role_granted_and_revoked:
  assumes "db_env E agrees" "role_name role" "v_room_name (dv E w) r \<noteq> None"
  shows "(\<exists>w'. dr_add_room_role E role r u w = (Inr (), w') \<and>
      (\<forall>r' u' x. role_name x \<longrightarrow>
         room_role (dv E w') r' u' x = (room_role (dv E w) r' u' x \<or> (r' = r \<and> u' = u \<and> x = role))) \<and>
      v_channel_roles (dv E w') = v_channel_roles (dv E w) \<and> v_global_roles (dv E w') = v_global_roles (dv E w)) \<and>
    (\<exists>w'. dr_remove_room_role E role r u w = (Inr (), w') \<and>
      (\<forall>r' u' x. role_name x \<longrightarrow>
         room_role (dv E w') r' u' x = (room_role (dv E w) r' u' x \<and> \<not> (r' = r \<and> u' = u \<and> x = role))) \<and>
      v_channel_roles (dv E w') = v_channel_roles (dv E w) \<and> v_global_roles (dv E w') = v_global_roles (dv E w))"
  using db_env.set_room_role_spec [OF assms(1,3,2)] db_env.remove_room_role_spec [OF assms(1,2)] by blast

lemma room_role_granted_and_revoked_witness:
  "\<exists>w'. dr_remove_room_role memory_denv role_owner ''r'' ''1'' demo = (Inr (), w') \<and>
    \<not> room_role (dv memory_denv w') ''r'' ''1'' role_owner"
  using room_role_granted_and_revoked [OF memory_db.db_env_axioms role_names(1), of demo "''r''" "''1''"]
  by auto

text \<open>Global roles are granted and revoked in the same exact way.\<close>

lemma global_role_granted_and_revoked:
  assumes "db_env E agrees" "role_name role"
  shows "(\<exists>w'. dr_add_global_role E u role w = (Inr (), w') \<and>
      (\<forall>u' x. role_name x \<longrightarrow> global_role (dv E w') u' x = (global_role (dv E w) u' x \<or> (u' = u \<and> x = role)))) \<and>
    (\<exists>w'. dr_remove_global_role E u role w = (Inr (), w') \<and>
      (\<forall>u' x. role_name x \<longrightarrow> global_role (dv E w') u' x = (global_role (dv E w) u' x \<and> \<not> (u' = u \<and> x = role))))"
  using db_env.global_role_spec [OF assms, of u w] db_env.remove_global_role_spec [OF assms, of u w]
  by (elim exE conjE) (rule conjI; rule exI; rule conjI; assumption)

lemma global_role_granted_and_revoked_witness:
  "\<exists>w'. dr_add_global_role memory_denv ''2'' role_super_user demo = (Inr (), w') \<and>
    global_role (dv memory_denv w') ''2'' role_super_user"
  using global_role_granted_and_revoked [OF memory_db.db_env_axioms role_names(4), of "''2''" demo] by auto

text \<open>A user who was made a global moderator is not recognised as one: the query passes role and user
in the wrong order, so unless somebody is called \<open>globalmod\<close> the answer is no.\<close>

lemma global_moderator_not_recognised:
  assumes "db_env E agrees" "v_global_roles (dv E w) role_global_moderator = None" "u \<noteq> role_global_moderator"
  shows "\<exists>w'. dr_set_global_moderator E r u w = (Inr (), w') \<and>
    global_role (dv E w') u role_global_moderator \<and> dr_is_global_moderator E (Some u) w' = (Inr False, w')"
  by (rule db_env.global_moderator_spec [OF assms])


lemma global_moderator_not_recognised_witness:
  "\<exists>w'. dr_set_global_moderator memory_denv ''r'' ''1'' demo = (Inr (), w') \<and>
    dr_is_global_moderator memory_denv (Some ''1'') w' = (Inr False, w')"
  using global_moderator_not_recognised [OF memory_db.db_env_axioms, of demo "''1''" "''r''"]
  by (auto simp: role_global_moderator_def)

lemma memory_denv_tz: "de_tz memory_denv = 0"
  by (simp add: memory_denv_def)

subsection \<open>Bans and how long they last\<close>

text \<open>C33: A ban from everything is found, with the time it was given, until that time and not after; a check
after the time deletes the entry, and any check leaves everything else as it is.\<close>

theorem global_ban_until_its_end:
  assumes "db_env E agrees" "no_pipe d" "until = from_timestamp (de_tz E) (ts * micro)"
    "min_datetime \<le> until" "until \<le> max_datetime"
  shows "\<exists>w1 w2. dr_ban_user_global E u (str_int ts) d w = (Inr (), w1) \<and>
    dr_is_banned_globally E now u w1 =
      (Inr (if now > until then (False, None) else (True, Some (str_int ts))), w2) \<and>
    dv E w2 = (if now > until then (dv E w)\<lparr>v_bans := upd2 (v_bans (dv E w)) None u None\<rparr> else dv E w1)"
  by (rule db_env.global_ban_spec [OF assms])

lemma global_ban_until_its_end_witness:
  "\<exists>w1. dr_ban_user_global memory_denv ''1'' (str_int 60) ''1m'' demo = (Inr (), w1) \<and>
    fst (dr_is_banned_globally memory_denv 60000000 ''1'' w1) = Inr (True, Some (str_int 60))"
proof -
  have p: "no_pipe ''1m''" by (simp add: no_pipe_def)
  show ?thesis
    using global_ban_until_its_end [OF memory_db.db_env_axioms p, of 60000000 60 "''1''" demo 60000000]
    by (auto simp: memory_denv_tz from_timestamp_def micro_def min_datetime_def max_datetime_def)
qed

text \<open>A ban from a channel is found until its time too, but a check after it deletes the user's ban from
everything instead of this one: the entry of the channel stays, and a user who is banned globally
is free again.\<close>

lemma expired_channel_ban_lifts_global_ban:
  assumes "db_env E agrees" "no_pipe d" "until = from_timestamp (de_tz E) (ts * micro)"
    "min_datetime \<le> until" "until \<le> max_datetime"
  shows "\<exists>w1 w2. dr_ban_user_channel E u (str_int ts) d c w = (Inr (), w1) \<and>
    dr_is_banned_from_channel E now c u w1 =
      (Inr (if now > until then (False, None) else (True, Some (str_int ts))), w2) \<and>
    v_channel_bans (dv E w2) c u \<noteq> None \<and>
    (now > until \<longrightarrow> dr_is_banned_globally E now' u w2 = (Inr (False, None), w2))"
  by (rule db_env.channel_ban_spec [OF assms])

lemma expired_channel_ban_lifts_global_ban_witness:
  "\<exists>w1 w2. dr_ban_user_channel memory_denv ''1'' (str_int 60) ''1m'' ''c'' demo = (Inr (), w1) \<and>
    dr_is_banned_from_channel memory_denv 60000001 ''c'' ''1'' w1 = (Inr (False, None), w2) \<and>
    dr_is_banned_globally memory_denv 0 ''1'' w2 = (Inr (False, None), w2)"
proof -
  have p: "no_pipe ''1m''" by (simp add: no_pipe_def)
  show ?thesis
    using expired_channel_ban_lifts_global_ban [OF memory_db.db_env_axioms p, of 60000000 60 "''1''" "''c''" demo 60000001 0]
    by (auto simp: memory_denv_tz from_timestamp_def micro_def min_datetime_def max_datetime_def)
qed

text \<open>A ban from a room, the same: \<open>ban_user_room\<close> needs the room to have a channel, the ban is found until
its time, and a check after it deletes the user's ban from everything.\<close>

lemma expired_room_ban_lifts_global_ban:
  assumes "db_env E agrees" "db_ok E agrees w" "\<not> blank r" "v_channel_of (dv E w) r \<noteq> None"
    "v_room_name (dv E w) r \<noteq> None" "no_pipe d" "until = from_timestamp (de_tz E) (ts * micro)"
    "min_datetime \<le> until" "until \<le> max_datetime"
  shows "\<exists>w1 w2. dr_ban_user_room E u (str_int ts) d r w = (Inr (), w1) \<and>
    dr_is_banned_from_room E now r u w1 =
      (Inr (if now > until then (False, None) else (True, Some (str_int ts))), w2) \<and>
    v_bans (dv E w2) (Some r) u \<noteq> None \<and>
    (now > until \<longrightarrow> dr_is_banned_globally E now' u w2 = (Inr (False, None), w2))"
  by (rule db_env.room_ban_spec [OF assms])

lemma expired_room_ban_lifts_global_ban_witness:
  "\<exists>w1 w2. dr_ban_user_room memory_denv ''1'' (str_int 60) ''1m'' ''r'' demo = (Inr (), w1) \<and>
    dr_is_banned_from_room memory_denv 60000001 ''r'' ''1'' w1 = (Inr (False, None), w2) \<and>
    v_bans (dv memory_denv w2) (Some ''r'') ''1'' \<noteq> None"
proof -
  have p: "no_pipe ''1m''" by (simp add: no_pipe_def)
  have r: "\<not> blank ''r''" by (simp add: blank_iff is_space_def)
  show ?thesis
    using expired_room_ban_lifts_global_ban [OF memory_db.db_env_axioms demo_ok r _ _ p,
        of 60000000 60 "''1''" 60000001 0]
    by (auto simp: memory_denv_tz from_timestamp_def micro_def min_datetime_def max_datetime_def)
qed

text \<open>\<open>get_bans_for_user\<close> never returns a ban: it raises when the user has a ban from a channel that
exists, from a room of one, or from everything, and returns three empty parts otherwise.\<close>

lemma bans_for_user_only_empty:
  assumes "db_env E agrees"
  shows "dr_get_bans_for_user E u w =
    (if (\<exists>c. v_channels (dv E w) c \<noteq> None \<and> v_channel_bans (dv E w) c u \<noteq> None) \<or>
        (\<exists>c r. v_channels (dv E w) c \<noteq> None \<and> v_rooms (dv E w) c r \<noteq> None \<and> v_bans (dv E w) (Some r) u \<noteq> None)
     then Inl RedisError
     else if v_bans (dv E w) None u \<noteq> None then Inl TypeError
     else Inr \<lparr>ab_global = [], ab_channels = [], ab_rooms = []\<rparr>, w)"
  by (rule db_env.bans_for_user_spec [OF assms])

lemma bans_for_user_only_empty_witness:
  "dr_get_bans_for_user memory_denv ''1'' demo = (Inr \<lparr>ab_global = [], ab_channels = [], ab_rooms = []\<rparr>, demo)"
  by (subst bans_for_user_only_empty [OF memory_db.db_env_axioms]) simp

subsection \<open>Mutes\<close>

text \<open>A stored mute is read back with its muter, room, duration and reason, for the muted user and nobody
else, whatever the reason holds (it is encoded); but the time is computed again from the duration, so
that it counts from the time of reading.\<close>

lemma mute_read_back:
  assumes "no_pipe r" "no_pipe u" "no_pipe m" "no_pipe d"
    "ban_duration_to_timestamp tz now (Some d) = Inr ts"
  shows "dr_read_mute tz now u' out (mute_field r u m d (b64e n) (b64e x)) = Inr (if u = u'
    then AList.update r \<lparr>mu_muter = m, mu_room_name = b64e n, mu_duration = d, mu_timestamp = ts,
      mu_reason = b64e x\<rparr> out else out)"
  by (rule read_mute_field [OF assms])

lemma mute_read_back_witness:
  "dr_read_mute 0 0 ''7'' [] (mute_field ''r'' ''8'' ''9'' ''0s'' (b64e None) (b64e (Some ''a|b''))) = Inr []"
proof -
  have t: "ban_duration_to_timestamp 0 0 (Some ''0s'') = Inr ''0''" by code_simp
  show ?thesis
    by (subst mute_read_back [OF _ _ _ _ t]) (simp_all add: no_pipe_def)
qed

subsection \<open>Rules of channels\<close>

text \<open>A configuration with one type of rule.\<close>

definition csv_config :: acl_config where
  "csv_config = \<lparr>ac_available = [''gender''],
     ac_validation = [(''gender'', \<lparr>vc_type = Some ''str_in_csv'',
       vc_value = ValidatorValue (AclStrInCsv (Some [''f'', ''m''])), vc_default = None\<rparr>)],
     ac_targets = []\<rparr>"

text \<open>Adding rules to a channel is all or nothing: unless the channel exists, the action is known, every type
of rule is allowed and every rule is accepted, nothing at all changes; otherwise exactly these rules
are added, over those of the same type for the same action.\<close>

lemma adding_rules_all_or_nothing:
  assumes "db_env E agrees" "distinct (map fst acls)"
  shows "case dr_add_acls_in_channel_for_action fuel cfg E c action acls w of
      (Inr (Some _), w') \<Rightarrow> dv E w' = (dv E w)\<lparr>v_channel_acl := (v_channel_acl (dv E w))(c :=
          v_channel_acl (dv E w) c ++ map_of (map (\<lambda>(t, v). (acl_field action t, v)) acls))\<rparr> \<and>
        action \<in> set all_api_actions \<and> v_channels (dv E w) c \<noteq> None \<and> db_cache w' = db_cache w \<and>
        (\<forall>(t, v) \<in> set acls. t \<in> set (ac_available cfg))
    | (_, w') \<Rightarrow> w' = w"
  by (rule db_env.add_acls_channel_outcome [OF assms])

lemma adding_rules_all_or_nothing_witness:
  "snd (dr_add_acls_in_channel_for_action 1 csv_config memory_denv ''c'' ''fly'' [(''age'', ''18:'')] demo) = demo"
  using adding_rules_all_or_nothing [OF memory_db.db_env_axioms, where acls = "[(''age'', ''18:'')]" and fuel = 1 and cfg = csv_config and c = "''c''" and action = "''fly''" and w = demo]
  by (auto simp: all_api_actions_def action_join_def action_autojoin_def action_crossroom_def
      action_message_def action_kick_def action_ban_def action_list_def action_history_def action_setacl_def
      action_create_def action_whisper_def split: prod.splits sum.splits option.splits)

text \<open>C32: The rules added to a channel for an action are the ones read back for it, and the rules of the other
actions are read as before.\<close>

theorem added_rules_read_back:
  assumes "db_env E agrees" "db_ok E agrees w" "distinct (map fst acls)"
    "acls_well_formed (v_channel_acl (dv E w) c)" "no_pipe action'"
    "dr_add_acls_in_channel_for_action fuel cfg E c action acls w = (Inr (Some x), w')"
  shows "\<exists>got w''. dr_get_acls_in_channel_for_action E c action' w' = (Inr got, w'') \<and>
    (\<forall>t. map_of got t = (if action' = action \<and> map_of acls t \<noteq> None then map_of acls t
       else v_channel_acl (dv E w) c (acl_field action' t)))"
  by (rule db_env.added_rules_spec [OF assms])

lemma csv_config_checks:
  "dr_check_acls 1 csv_config ''join'' [(''gender'', ''f'')] w = (Inr (Some [(''join|gender'', ''f'')]), w)"
proof -
  have "validate_new_csv (Some [''f'', ''m'']) (Some ''f'') = Inr ()" by code_simp
  then show ?thesis
    by (simp add: csv_config_def validator_of_def bindO_def bindM_def lift_result_run ret_run acl_field_def)
qed

lemma csv_config_adds:
  "fst (dr_add_acls_in_channel_for_action 1 csv_config memory_denv ''c'' ''join'' [(''gender'', ''f'')] demo) =
    Inr (Some ())"
  by (simp add: dr_add_acls_in_channel_for_action_def memory_db.bind_exists bindO_def
      bindM_def [of "dr_check_acls _ _ _ _"] csv_config_checks [unfolded One_nat_def] dr_write_acls_def d_defs op_simps
      all_api_actions_def action_join_def del: dr_check_acls.simps)

lemma added_rules_read_back_witness:
  "\<exists>w' got w''. dr_get_acls_in_channel_for_action memory_denv ''c'' ''join'' w' = (Inr got, w'') \<and>
    map_of got ''gender'' = Some ''f''"
proof -
  obtain w' where add: "dr_add_acls_in_channel_for_action 1 csv_config memory_denv ''c'' ''join''
      [(''gender'', ''f'')] demo = (Inr (Some ()), w')"
    using csv_config_adds by (metis prod.collapse)
  have d: "distinct (map fst [(''gender'', ''f'')])" by simp
  have wf: "acls_well_formed (v_channel_acl (dv memory_denv demo) ''c'')"
    by (simp add: acls_well_formed_def)
  have p: "no_pipe ''join''" by (simp add: no_pipe_def)
  show ?thesis
    using added_rules_read_back [OF memory_db.db_env_axioms demo_ok d wf p add]
    by (elim exE conjE) (drule spec [where x = "''gender''"], intro exI conjI, assumption, simp)
qed

end
