(* ===== verification/Presence.thy ===== *)
theory Presence
  imports Cache_Redis
begin

section \<open>Presence\<close>

text \<open>
  Going online, away, invisible and offline: the operations of \<open>CacheRedis\<close>, those of
  \<open>DatabaseRedis\<close> that call them, and the decisions of \<open>OnStatusHooks\<close> in
  \<^verbatim>\<open>dino/hooks/status.py\<close>. Of a user are kept a status, a bit, the membership in the set of online
  users and in the set of those who get broadcasts (multicast), and the time of the last change.

  The state has the cache, the Redis server of the database and the events published so far. The
  commands for bits and sorted sets, the clock in the two ways in which the source reads it, and
  the random draw that trims the sorted set are in the environment. What hooks emit to the rooms of
  the user is not modelled.
\<close>

record status_event =
  ev_user :: string
  ev_verb :: string
  ev_topic :: "string option"
  ev_updated :: "int option"

record 's pw =
  pw_cw :: "'s cw"
  pw_db :: 's
  pw_events :: "status_event list"

record 's penv =
  pe_cache :: "'s cenv"
  pe_db :: "'s redis"
  pe_setbit :: "'s \<Rightarrow> string \<Rightarrow> int \<Rightarrow> bool \<Rightarrow> 's"
  pe_getbit :: "'s \<Rightarrow> string \<Rightarrow> int \<Rightarrow> bool"
  pe_zadd :: "'s \<Rightarrow> string \<Rightarrow> string \<Rightarrow> int \<Rightarrow> 's"
  pe_zremrangebyscore :: "'s \<Rightarrow> string \<Rightarrow> int \<Rightarrow> int \<Rightarrow> 's"
  pe_status_topic :: "string option"
  pe_trim_now :: "int \<Rightarrow> bool"
  pe_naive_seconds :: "int \<Rightarrow> int"
  pe_unix_seconds :: "int \<Rightarrow> int"

definition in_cache :: "('s cw, 'a) op \<Rightarrow> ('s pw, 'a) op" where
  "in_cache m w = (case m (pw_cw w) of (r, c) \<Rightarrow> (r, w\<lparr>pw_cw := c\<rparr>))"

definition now_of :: "('s pw, int) op" where
  "now_of = gets (\<lambda>w. cw_now (pw_cw w))"

definition publish :: "string \<Rightarrow> string \<Rightarrow> string option \<Rightarrow> int option \<Rightarrow> ('s pw, unit) op" where
  "publish user_id verb topic updated =
     modify (\<lambda>w. w\<lparr>pw_events := pw_events w @ [\<lparr>ev_user = user_id, ev_verb = verb, ev_topic = topic, ev_updated = updated\<rparr>]\<rparr>)"

definition publish_status :: "'s penv \<Rightarrow> string \<Rightarrow> string \<Rightarrow> ('s pw, unit) op" where
  "publish_status E user_id verb =
     (case pe_status_topic E of None \<Rightarrow> ret () | Some t \<Rightarrow> publish user_id verb (Some t) None)"

definition pipeline :: "('s \<Rightarrow> 's) \<Rightarrow> ('s pw, unit) op" where
  "pipeline f = in_cache (on_redis f)"

subsection \<open>The cache\<close>

definition LONG_AGO :: int where "LONG_AGO = 789000000"

definition trim_user_changed_at :: "'s penv \<Rightarrow> ('s pw, unit) op" where
  "trim_user_changed_at E =
     bindM now_of (\<lambda>now. whenM (pe_trim_now E now)
       (pipeline (\<lambda>s. pe_zremrangebyscore E s rk_user_status_changed_at LONG_AGO
          (pe_naive_seconds E now - 24 * ONE_HOUR))))"

definition set_last_online_now :: "'s penv \<Rightarrow> string \<Rightarrow> ('s pw, unit) op" where
  "set_last_online_now E user_id =
     bindM now_of (\<lambda>now.
     let unix_time = str_int (pe_unix_seconds E now); key = rk_user_last_online user_id in
     thenM (in_cache (mem_set key (Some (PStr unix_time)) ONE_HOUR))
     (thenM (in_cache (x_set (pe_cache E) key unix_time))
     (thenM (in_cache (x_expire (pe_cache E) key SEVEN_DAYS))
            (publish_status E user_id ''lastonline''))))"

text \<open>\<open>int(float(user_id))\<close>, and the offsets that \<open>SETBIT\<close> accepts.\<close>

definition user_id_number :: "string \<Rightarrow> exc + int" where
  "user_id_number user_id = (case py_float user_id of
     None \<Rightarrow> Inl ValueError | Some f \<Rightarrow> Inr (if f < 0 then - ((- f) div micro) else f div micro))"

definition bit_offset :: "int \<Rightarrow> bool" where
  "bit_offset i \<longleftrightarrow> 0 \<le> i \<and> i < 2 ^ 32"

text \<open>
  A pipeline that sets a bit, changes the two sets, and sets the status and the time. The server runs
  all commands; a bad offset is answered with an error for its command alone, which the client
  raises in the end.
\<close>

definition status_pipeline :: "'s penv \<Rightarrow> string \<Rightarrow> int \<Rightarrow> bool \<Rightarrow> bool \<Rightarrow> string \<Rightarrow> int \<Rightarrow> 's \<Rightarrow> 's" where
  "status_pipeline E user_id i online multicast status now s =
     (let R = ce_redis (pe_cache E);
          s = (if bit_offset i then pe_setbit E s rk_online_bitmap i online else s);
          s = (if online then r_sadd R s rk_online_set user_id else r_srem R s rk_online_set user_id);
          s = (if multicast then r_sadd R s rk_users_multi_cast user_id else r_srem R s rk_users_multi_cast user_id);
          s = r_set R s (rk_user_status user_id) status
      in pe_zadd E s rk_user_status_changed_at user_id now)"

definition run_status_pipeline :: "'s penv \<Rightarrow> string \<Rightarrow> int \<Rightarrow> bool \<Rightarrow> bool \<Rightarrow> string \<Rightarrow> int \<Rightarrow> ('s pw, unit) op" where
  "run_status_pipeline E user_id i online multicast status now =
     thenM (pipeline (status_pipeline E user_id i online multicast status now))
       (if bit_offset i then ret () else throw RedisError)"

definition set_status_in_memory :: "string \<Rightarrow> string \<Rightarrow> ('s pw, unit) op" where
  "set_status_in_memory user_id status =
     in_cache (mem_set (rk_user_status user_id) (Some (PStr status)) THIRTY_SECONDS)"

text \<open>
  \<open>DatabaseRedis.get_user_status\<close>, which does not look at \<open>skip_cache\<close>. Under the key of a status
  the cache has texts only.
\<close>

definition db_get_user_status :: "'s penv \<Rightarrow> string \<Rightarrow> ('s pw, string) op" where
  "db_get_user_status E user_id =
     bindM (in_cache (cr_get_user_status (pe_cache E) user_id)) (\<lambda>status. case status of
       Some v \<Rightarrow> ret (case v of PStr s \<Rightarrow> s | _ \<Rightarrow> '''')
     | None \<Rightarrow> bindM (gets (\<lambda>w. r_get (pe_db E) (pw_db w) (rk_user_status user_id))) (\<lambda>status.
         ret (case status of None \<Rightarrow> status_unavailable | Some s \<Rightarrow> s)))"

definition cr_user_is_in_multicast :: "'s penv \<Rightarrow> string \<Rightarrow> ('s pw, bool) op" where
  "cr_user_is_in_multicast E user_id =
     gets (\<lambda>w. r_sismember (ce_redis (pe_cache E)) (cw_redis (pw_cw w)) rk_users_multi_cast user_id)"

definition cr_remove_from_multicast_on_disconnect :: "'s penv \<Rightarrow> string \<Rightarrow> ('s pw, unit) op" where
  "cr_remove_from_multicast_on_disconnect E user_id =
     pipeline (\<lambda>s. r_srem (ce_redis (pe_cache E)) s rk_users_multi_cast (strip user_id))"

text \<open>The time in the event of an invisible user is asked of the database, which does not have it.\<close>

definition cr_set_user_offline :: "'s penv \<Rightarrow> string \<Rightarrow> ('s pw, unit) op" where
  "cr_set_user_offline E user_id =
     (let u = strip user_id in
     bindM (lift_result (user_id_number user_id)) (\<lambda>i.
     bindM now_of (\<lambda>now.
     bindM (db_get_user_status E user_id) (\<lambda>status.
     thenM (set_last_online_now E u)
     (thenM (set_status_in_memory u status_unavailable)
     (thenM (run_status_pipeline E u i False False status_unavailable (pe_naive_seconds E now))
     (thenM (publish_status E user_id ''offline'')
     (thenM (publish user_id ''offline'' None
               (if status = status_invisible then None else Some (pe_unix_seconds E now)))
            (trim_user_changed_at E)))))))))"

definition swallow :: "('w, unit) op \<Rightarrow> ('w, unit) op" where
  "swallow m = catchM m (\<lambda>e. Some (ret ()))"

definition cr_set_user_online :: "'s penv \<Rightarrow> string \<Rightarrow> ('s pw, unit) op" where
  "cr_set_user_online E user_id = swallow
     (let u = strip user_id in
     bindM (lift_result (user_id_number user_id)) (\<lambda>i.
     bindM now_of (\<lambda>now.
     thenM (set_status_in_memory u status_available)
     (thenM (run_status_pipeline E u i True True status_available (pe_naive_seconds E now))
     (thenM (publish_status E user_id ''online'')
            (trim_user_changed_at E))))))"

definition cr_set_user_away :: "'s penv \<Rightarrow> string \<Rightarrow> ('s pw, unit) op" where
  "cr_set_user_away E user_id =
     thenM (set_status_in_memory user_id status_away)
     (thenM (in_cache (x_set (pe_cache E) (rk_user_status user_id) status_away))
            (publish_status E user_id ''away''))"

definition cr_set_user_status_invisible :: "'s penv \<Rightarrow> string \<Rightarrow> ('s pw, unit) op" where
  "cr_set_user_status_invisible E user_id = swallow
     (let u = strip user_id in
     bindM now_of (\<lambda>now.
     thenM (set_status_in_memory u status_invisible)
     (thenM (pipeline (\<lambda>s. pe_zadd E (r_set (ce_redis (pe_cache E)) s (rk_user_status u) status_invisible)
               rk_user_status_changed_at u (pe_naive_seconds E now)))
     (thenM (publish_status E user_id ''invisible'')
            (trim_user_changed_at E)))))"

definition cr_set_user_invisible :: "'s penv \<Rightarrow> string \<Rightarrow> bool \<Rightarrow> ('s pw, unit) op" where
  "cr_set_user_invisible E user_id update_last_online = swallow
     (let u = strip user_id in
     bindM (lift_result (user_id_number user_id)) (\<lambda>i.
     bindM now_of (\<lambda>now.
     thenM (set_status_in_memory u status_invisible)
     (thenM (run_status_pipeline E u i False True status_invisible (pe_naive_seconds E now))
     (thenM (publish_status E user_id ''invisible'')
     (thenM (trim_user_changed_at E)
            (whenM update_last_online (set_last_online_now E u))))))))"

subsection \<open>The database\<close>

definition db_set_user_offline :: "'s penv \<Rightarrow> string \<Rightarrow> ('s pw, unit) op" where
  "db_set_user_offline E user_id = cr_set_user_offline E user_id"

definition db_set_user_online :: "'s penv \<Rightarrow> string \<Rightarrow> ('s pw, unit) op" where
  "db_set_user_online E user_id =
     thenM (cr_set_user_online E user_id)
       (modify (\<lambda>w. w\<lparr>pw_db := r_set (pe_db E) (pw_db w) (rk_user_status user_id) status_available\<rparr>))"

definition db_set_user_invisible :: "'s penv \<Rightarrow> string \<Rightarrow> bool \<Rightarrow> ('s pw, unit) op" where
  "db_set_user_invisible E user_id is_offline =
     (if is_offline then cr_set_user_status_invisible E user_id else cr_set_user_invisible E user_id True)"

subsection \<open>The hook for a change of status\<close>

text \<open>\<open>utils.is_valid_id\<close> for the id of the actor: \<open>int(user_id)\<close> has to succeed.\<close>

definition is_valid_id :: "string option \<Rightarrow> bool" where
  "is_valid_id user_id = (case user_id of
     None \<Rightarrow> False | Some u \<Rightarrow> \<not> blank u \<and> py_int u \<noteq> None)"

definition os_set_online :: "'s penv \<Rightarrow> string \<Rightarrow> ('s pw, unit) op" where
  "os_set_online E user_id =
     bindM (if blank user_id then ret '''' else db_get_user_status E user_id) (\<lambda>_. db_set_user_online E user_id)"

definition os_set_offline :: "'s penv \<Rightarrow> string \<Rightarrow> ('s pw, unit) op" where
  "os_set_offline E user_id = db_set_user_offline E user_id"

definition os_set_away :: "'s penv \<Rightarrow> string \<Rightarrow> ('s pw, bool) op" where
  "os_set_away E user_id =
     bindM (db_get_user_status E user_id) (\<lambda>status.
     if status = status_available then thenM (cr_set_user_away E user_id) (ret True) else ret False)"

definition os_set_back :: "'s penv \<Rightarrow> string \<Rightarrow> ('s pw, bool) op" where
  "os_set_back E user_id =
     bindM (db_get_user_status E user_id) (\<lambda>status.
     if status = status_away then thenM (cr_set_user_online E user_id) (ret True) else ret False)"

definition os_set_visible :: "'s penv \<Rightarrow> string \<Rightarrow> ('s pw, unit) op" where
  "os_set_visible E user_id =
     bindM (db_get_user_status E user_id) (\<lambda>status.
     if status = status_available \<or> status = status_chat then ret ()
     else bindM (cr_user_is_in_multicast E user_id) (\<lambda>connected.
       if connected then os_set_online E user_id else os_set_offline E user_id))"

definition os_set_invisible :: "'s penv \<Rightarrow> string \<Rightarrow> string option \<Rightarrow> ('s pw, unit) op" where
  "os_set_invisible E user_id stage =
     bindM (db_get_user_status E user_id) (\<lambda>status.
     if status = status_invisible then ret ()
     else bindM (if stage = Some ''login'' then ret True
                 else if blank user_id then ret True
                 else bindM (db_get_user_status E user_id) (\<lambda>status.
                   ret (status \<notin> {status_available, status_chat, status_invisible, status_away})))
       (db_set_user_invisible E user_id))"

text \<open>
  \<open>set_status\<close>; \<open>stage\<close> is the summary of the actor when it has one. The published event is the
  request itself, with a time for some verbs: that of the last time online, which the database does
  not have, or now.
\<close>

definition os_set_status :: "'s penv \<Rightarrow> string option \<Rightarrow> string \<Rightarrow> string option \<Rightarrow> ('s pw, unit) op" where
  "os_set_status E user_id status stage =
     (if \<not> is_valid_id user_id then ret ()
      else let u = the user_id in
        bindM (if status = ''online'' then thenM (os_set_online E u) (ret True)
               else if status = ''invisible'' then
                 thenM (os_set_invisible E u (case stage of None \<Rightarrow> Some ''status'' | Some s \<Rightarrow> Some s)) (ret True)
               else if status = ''visible'' then thenM (os_set_visible E u) (ret True)
               else if status = ''offline'' then thenM (os_set_offline E u) (ret True)
               else if status = ''away'' then os_set_away E u
               else if status = ''back'' then os_set_back E u
               else ret True) (\<lambda>status_changed.
        bindM now_of (\<lambda>now.
        whenM status_changed
          (publish u status None (if status = ''away'' then Some (pe_unix_seconds E now) else None)))))"

end
