(* ===== verification/Presence_Facts.thy ===== *)
theory Presence_Facts
  imports Presence Cache_Facts
begin

section \<open>Facts on presence\<close>

text \<open>
  The presence of a user as a state of four parts, what each verb of a request makes of it, and that
  the operations on the cache and on Redis do exactly that, for the user of the request and nobody
  else. Users are those with a number as their id that \<open>SETBIT\<close> accepts.
\<close>

subsection \<open>The environment\<close>

locale presence_env = redis_client "ce_redis (pe_cache E)" for E :: "'s penv" +
  assumes db_client: "redis_client (pe_db E)"
    and getbit_setbit: "pe_getbit E (pe_setbit E s k i b) k' j = (if k' = k \<and> j = i then b else pe_getbit E s k' j)"
    and getbit_frame:
      "k' \<noteq> k \<Longrightarrow> pe_getbit E (r_set (ce_redis (pe_cache E)) s k v) k' j = pe_getbit E s k' j"
      "pe_getbit E (r_sadd (ce_redis (pe_cache E)) s k x) k' j = pe_getbit E s k' j"
      "pe_getbit E (r_srem (ce_redis (pe_cache E)) s k x) k' j = pe_getbit E s k' j"
      "pe_getbit E (r_expire (ce_redis (pe_cache E)) s k t) k' j = pe_getbit E s k' j"
      "pe_getbit E (pe_zadd E s k x n) k' j = pe_getbit E s k' j"
      "pe_getbit E (pe_zremrangebyscore E s k m n) k' j = pe_getbit E s k' j"
    and status_frame:
      "k' \<noteq> k \<Longrightarrow> r_get (ce_redis (pe_cache E)) (pe_setbit E s k i b) k' = r_get (ce_redis (pe_cache E)) s k'"
      "r_get (ce_redis (pe_cache E)) (pe_zadd E s k x n) k' = r_get (ce_redis (pe_cache E)) s k'"
      "r_get (ce_redis (pe_cache E)) (pe_zremrangebyscore E s k m n) k' = r_get (ce_redis (pe_cache E)) s k'"
    and member_frame:
      "r_sismember (ce_redis (pe_cache E)) (pe_setbit E s k i b) k' y = r_sismember (ce_redis (pe_cache E)) s k' y"
      "r_sismember (ce_redis (pe_cache E)) (pe_zadd E s k x n) k' y = r_sismember (ce_redis (pe_cache E)) s k' y"
      "r_sismember (ce_redis (pe_cache E)) (pe_zremrangebyscore E s k m n) k' y =
         r_sismember (ce_redis (pe_cache E)) s k' y"

subsection \<open>The abstract machine\<close>

record pstate =
  ps_status :: string
  ps_online :: bool
  ps_multicast :: bool
  ps_bit :: bool

definition is_online :: pstate where
  "is_online = \<lparr>ps_status = status_available, ps_online = True, ps_multicast = True, ps_bit = True\<rparr>"

definition is_offline :: pstate where
  "is_offline = \<lparr>ps_status = status_unavailable, ps_online = False, ps_multicast = False, ps_bit = False\<rparr>"

definition is_hidden :: pstate where
  "is_hidden = \<lparr>ps_status = status_invisible, ps_online = False, ps_multicast = True, ps_bit = False\<rparr>"

definition transition :: "string \<Rightarrow> string option \<Rightarrow> pstate \<Rightarrow> pstate" where
  "transition verb stage p =
     (if verb = ''online'' then is_online
      else if verb = ''offline'' then is_offline
      else if verb = ''away'' then (if ps_status p = status_available then p\<lparr>ps_status := status_away\<rparr> else p)
      else if verb = ''back'' then (if ps_status p = status_away then is_online else p)
      else if verb = ''visible'' then
        (if ps_status p \<in> {status_available, status_chat} then p
         else if ps_multicast p then is_online else is_offline)
      else if verb = ''invisible'' then
        (if ps_status p = status_invisible then p
         else if stage = Some ''login'' \<or> ps_status p \<notin> {status_available, status_chat, status_away}
         then p\<lparr>ps_status := status_invisible\<rparr> else is_hidden)
      else p)"

definition presence :: "'s penv \<Rightarrow> 's pw \<Rightarrow> int \<Rightarrow> pstate" where
  "presence E w i = (let R = ce_redis (pe_cache E); s = cw_redis (pw_cw w); u = str_int i in
     \<lparr>ps_status = (case r_get R s (rk_user_status u) of Some t \<Rightarrow> t
        | None \<Rightarrow> (case r_get (pe_db E) (pw_db w) (rk_user_status u) of Some t \<Rightarrow> t | None \<Rightarrow> status_unavailable)),
      ps_online = r_sismember R s rk_online_set u,
      ps_multicast = r_sismember R s rk_users_multi_cast u,
      ps_bit = pe_getbit E s rk_online_bitmap i\<rparr>)"

text \<open>What the process has in memory about a status, expired or not, is what Redis has.\<close>

definition status_ok :: "'s penv \<Rightarrow> 's pw \<Rightarrow> bool" where
  "status_ok E w \<longleftrightarrow> (\<forall>u. entry_agrees (cw_mem (pw_cw w)) (rk_user_status u)
     (r_get (ce_redis (pe_cache E)) (cw_redis (pw_cw w)) (rk_user_status u)))"

subsection \<open>Keys and ids\<close>

lemma presence_keys [simp]:
  "rk_user_status u = rk_user_status v \<longleftrightarrow> u = v"
  "rk_user_last_online u = rk_user_last_online v \<longleftrightarrow> u = v"
  "rk_user_status u \<noteq> rk_user_last_online v" "rk_user_last_online v \<noteq> rk_user_status u"
  "rk_online_bitmap \<noteq> rk_user_status u" "rk_user_status u \<noteq> rk_online_bitmap"
  "rk_online_bitmap \<noteq> rk_user_last_online u" "rk_user_last_online u \<noteq> rk_online_bitmap"
  "rk_online_set \<noteq> rk_users_multi_cast" "rk_users_multi_cast \<noteq> rk_online_set"
  by (simp_all add: key_simps)

lemma str_int_inj [simp]: "str_int i = str_int j \<longleftrightarrow> i = j"
  by (metis py_int_str_int option.inject)

lemma user_id_number_str [simp]: "user_id_number (str_int i) = Inr i"
  by (auto simp: user_id_number_def micro_def)

lemma strip_str_int [simp]: "strip (str_int i) = str_int i"
  by (simp add: str_int_def isdigit_signed_strip isdigit_strip)

lemma not_blank_str_int [simp]: "\<not> blank (str_int i)"
  using py_int_str_int [of i] by (auto simp: py_int_def blank_def split: list.splits)

subsection \<open>Running the operations\<close>

text \<open>An operation that makes \<open>f\<close> of the presence of one user, and nothing of that of others.\<close>

definition makes :: "'s penv \<Rightarrow> int \<Rightarrow> (pstate \<Rightarrow> pstate) \<Rightarrow> 's pw \<Rightarrow> 's pw \<Rightarrow> bool" where
  "makes E i f w w' \<longleftrightarrow> presence E w' = (presence E w)(i := f (presence E w i)) \<and> status_ok E w'"

lemma makes_trans:
  "makes E i f w w1 \<Longrightarrow> makes E i g w1 w' \<Longrightarrow> makes E i (g \<circ> f) w w'"
  by (simp add: makes_def)

lemma makes_id: "status_ok E w' \<Longrightarrow> presence E w' = presence E w \<Longrightarrow> makes E i id w w'"
  by (simp add: makes_def)

lemma bindM_in_cache: "bindM (in_cache m) f w = (case m (pw_cw w) of
    (Inl e, c) \<Rightarrow> (Inl e, w\<lparr>pw_cw := c\<rparr>) | (Inr a, c) \<Rightarrow> f a (w\<lparr>pw_cw := c\<rparr>))"
  by (simp add: bindM_def in_cache_def split: prod.splits sum.splits)

lemma in_cache_run: "in_cache m w = (case m (pw_cw w) of (r, c) \<Rightarrow> (r, w\<lparr>pw_cw := c\<rparr>))"
  by (simp add: in_cache_def)

lemmas presence_runs = op_simps x_defs in_cache_run bindM_in_cache now_of_def publish_def publish_status_def pipeline_def
  set_status_in_memory_def trim_user_changed_at_def run_status_pipeline_def set_last_online_now_def Let_def

lemma status_ok_events [simp]: "status_ok E (w\<lparr>pw_events := es\<rparr>) = status_ok E w"
  by (simp add: status_ok_def)

lemma status_ok_now [simp]: "status_ok E (w\<lparr>pw_cw := (pw_cw w)\<lparr>cw_now := n\<rparr>\<rparr>) = status_ok E w"
  by (simp add: status_ok_def)

lemma presence_now [simp]: "presence E (w\<lparr>pw_cw := (pw_cw w)\<lparr>cw_now := n\<rparr>\<rparr>) = presence E w"
  by (simp add: presence_def fun_eq_iff Let_def split: option.split)

lemma status_ok_db [simp]: "status_ok E (w\<lparr>pw_db := s\<rparr>) = status_ok E w"
  by (simp add: status_ok_def)

lemma presence_events [simp]: "presence E (w\<lparr>pw_events := es\<rparr>) = presence E w"
  by (simp add: presence_def fun_eq_iff Let_def split: option.split)

context presence_env begin

lemmas presence_laws = get_set get_expire get_frame sismember_sadd sismember_srem sismember_expire sismember_frame
  getbit_setbit getbit_frame status_frame member_frame

lemma status_known:
  assumes "status_ok E w"
  shows "\<exists>m. db_get_user_status E (str_int i) w =
      (Inr (ps_status (presence E w i)), w\<lparr>pw_cw := (pw_cw w)\<lparr>cw_mem := m\<rparr>\<rparr>) \<and>
    status_ok E (w\<lparr>pw_cw := (pw_cw w)\<lparr>cw_mem := m\<rparr>\<rparr>)"
proof -
  let ?k = "rk_user_status (str_int i)" and ?c = "pw_cw w"
  let ?v = "r_get (ce_redis (pe_cache E)) (cw_redis ?c) ?k"
  have e: "entry_agrees (cw_mem ?c) ?k ?v" using assms by (simp add: status_ok_def)
  from entry_agrees_view [OF e, of "cw_now ?c"] show ?thesis
  proof (elim disjE exE conjE)
    fix x assume "mc_view (cw_now ?c) (cw_mem ?c) ?k = Some (PStr x)" "?v = Some x"
    with assms show ?thesis
      by (auto simp: db_get_user_status_def cr_get_user_status_def presence_runs presence_def status_ok_def
          entry_agrees_get intro!: exI [of _ "snd (mc_get (cw_now ?c) ?k (cw_mem ?c))"])
  next
    assume m: "mc_view (cw_now ?c) (cw_mem ?c) ?k = None"
    show ?thesis
    proof (cases ?v)
      case None
      with m assms show ?thesis
        by (auto simp: db_get_user_status_def cr_get_user_status_def presence_runs presence_def status_ok_def
            entry_agrees_get intro!: exI [of _ "snd (mc_get (cw_now ?c) ?k (cw_mem ?c))"] split: option.splits)
    next
      case (Some x)
      let ?m = "mc_set (cw_now ?c) ?k (Some (PStr x)) TEN_SECONDS (snd (mc_get (cw_now ?c) ?k (cw_mem ?c)))"
      have "entry_agrees ?m (rk_user_status u) (r_get (ce_redis (pe_cache E)) (cw_redis ?c) (rk_user_status u))" for u
        using assms Some by (cases "u = str_int i")
          (auto simp: status_ok_def entry_agrees_get entry_agrees_set_same entry_agrees_set_other)
      with m Some show ?thesis
        by (auto simp: db_get_user_status_def cr_get_user_status_def presence_runs presence_def status_ok_def
            intro!: exI [of _ ?m])
    qed
  qed
qed

lemma presence_mem [simp]: "presence E (w\<lparr>pw_cw := (pw_cw w)\<lparr>cw_mem := m\<rparr>\<rparr>) = presence E w"
  by (simp add: presence_def fun_eq_iff Let_def split: option.split)

text \<open>Setting the status in memory and in Redis, whatever else of Redis the step changes.\<close>

lemma status_ok_set:
  assumes "status_ok E w"
    and "\<And>u. r_get (ce_redis (pe_cache E)) s (rk_user_status u) =
      (if u = v then Some t else r_get (ce_redis (pe_cache E)) (cw_redis (pw_cw w)) (rk_user_status u))"
  shows "status_ok E (w\<lparr>pw_cw := (pw_cw w)\<lparr>cw_mem := mc_set now (rk_user_status v) (Some (PStr t)) ttl (cw_mem (pw_cw w)),
    cw_redis := s\<rparr>\<rparr>)"
  using assms by (auto simp: status_ok_def entry_agrees_set_same entry_agrees_set_other)

end

subsection \<open>Steps that leave the presence of everybody as it is\<close>

definition quiet :: "'s penv \<Rightarrow> ('s pw, unit) op \<Rightarrow> bool" where
  "quiet E m \<longleftrightarrow> (\<forall>w. \<exists>w'. m w = (Inr (), w') \<and> presence E w' = presence E w \<and> (status_ok E w \<longrightarrow> status_ok E w'))"

lemma quiet_basic: "quiet E (ret ())" "quiet E (publish u v t x)" "quiet E (publish_status E u v)"
  by (auto simp: quiet_def publish_status_def publish_def op_simps split: option.splits)

lemma quiet_then:
  assumes "quiet E m" "quiet E k"
  shows "quiet E (thenM m k)"
  unfolding quiet_def
proof
  fix w
  obtain w1 where w1: "m w = (Inr (), w1)" "presence E w1 = presence E w" "status_ok E w \<longrightarrow> status_ok E w1"
    using assms(1) by (auto simp: quiet_def)
  obtain w2 where "k w1 = (Inr (), w2)" "presence E w2 = presence E w1" "status_ok E w1 \<longrightarrow> status_ok E w2"
    using assms(2) by (auto simp: quiet_def)
  with w1 show "\<exists>w'. thenM m k w = (Inr (), w') \<and> presence E w' = presence E w \<and> (status_ok E w \<longrightarrow> status_ok E w')"
    by (simp add: thenM_def bindM_def)
qed

lemma quiet_when: "quiet E m \<Longrightarrow> quiet E (whenM b m)"
  by (simp add: whenM_def quiet_basic)

lemma quiet_now: "(\<And>t. quiet E (f t)) \<Longrightarrow> quiet E (bindM now_of f)"
  by (simp add: quiet_def now_of_def op_simps)

lemma after_quiet: "makes E i f w w1 \<Longrightarrow> quiet E m \<Longrightarrow> \<exists>w'. m w1 = (Inr (), w') \<and> makes E i f w w'"
  unfolding makes_def quiet_def by metis

lemma swallow_run: "m w = (Inr (), w') \<Longrightarrow> swallow m w = (Inr (), w')"
  by (simp add: swallow_def catchM_def)

context presence_env begin

lemma quiet_trim: "quiet E (trim_user_changed_at E)"
  unfolding trim_user_changed_at_def pipeline_def
  by (intro quiet_now quiet_when)
    (auto simp: quiet_def in_cache_run x_defs op_simps presence_def status_ok_def fun_eq_iff Let_def presence_laws split: option.split)

lemma quiet_last_online: "quiet E (set_last_online_now E u)"
  unfolding set_last_online_now_def Let_def
  by (intro quiet_now quiet_then quiet_basic)
    (auto simp: quiet_def in_cache_run x_defs op_simps presence_def status_ok_def fun_eq_iff Let_def presence_laws
      entry_agrees_set_other split: option.split)

lemma presence_changed:
  assumes "cw_redis (pw_cw w') = status_pipeline E (str_int i) i on mc st t (cw_redis (pw_cw w))" "pw_db w' = pw_db w"
    and "bit_offset i"
  shows "presence E w' = (presence E w)(i := \<lparr>ps_status = st, ps_online = on, ps_multicast = mc, ps_bit = on\<rparr>)"
  using assms
  by (auto simp: presence_def status_pipeline_def fun_eq_iff Let_def presence_laws split: option.split)

lemma status_core:
  assumes ok: "status_ok E w" and i: "bit_offset i"
  shows "\<exists>w1. makes E i (\<lambda>_. \<lparr>ps_status = st, ps_online = on, ps_multicast = mc, ps_bit = on\<rparr>) w w1 \<and>
    (\<forall>rest :: (_, unit) op. thenM (set_status_in_memory (str_int i) st)
       (thenM (run_status_pipeline E (str_int i) i on mc st t) rest) w = rest w1)"
proof -
  let ?c = "pw_cw w"
  let ?w1 = "w\<lparr>pw_cw := ?c\<lparr>cw_mem := mc_set (cw_now ?c) (rk_user_status (str_int i)) (Some (PStr st)) THIRTY_SECONDS (cw_mem ?c),
    cw_redis := status_pipeline E (str_int i) i on mc st t (cw_redis ?c)\<rparr>\<rparr>"
  have "status_ok E ?w1"
    by (rule status_ok_set [OF ok]) (auto simp: status_pipeline_def Let_def presence_laws)
  moreover have "presence E ?w1 = (presence E w)(i := \<lparr>ps_status = st, ps_online = on, ps_multicast = mc, ps_bit = on\<rparr>)"
    by (rule presence_changed [OF _ _ i, of _ on mc st t]) simp_all
  ultimately have "makes E i (\<lambda>_. \<lparr>ps_status = st, ps_online = on, ps_multicast = mc, ps_bit = on\<rparr>) w ?w1"
    by (simp add: makes_def)
  moreover have "thenM (set_status_in_memory (str_int i) st)
      (thenM (run_status_pipeline E (str_int i) i on mc st t) rest) w = rest ?w1" for rest
    using i by (simp add: thenM_def bindM_def set_status_in_memory_def run_status_pipeline_def pipeline_def in_cache_def
        mem_set_run on_redis_def modify_def ret_def)
  ultimately show ?thesis by blast
qed

end

lemma bindM_now: "bindM now_of f w = f (cw_now (pw_cw w)) w"
  by (simp add: now_of_def op_simps)

lemma bindM_lift_Inr: "bindM (lift_result (Inr a)) f = f a"
  by (simp add: fun_eq_iff bindM_def lift_result_def)

subsection \<open>The operations\<close>

context presence_env begin

lemma set_online_run:
  assumes "status_ok E w" "bit_offset i"
  shows "\<exists>w'. cr_set_user_online E (str_int i) w = (Inr (), w') \<and> makes E i (\<lambda>_. is_online) w w'"
proof -
  obtain w1 where m: "makes E i (\<lambda>_. is_online) w w1"
    and run: "\<forall>rest :: (_, unit) op. thenM (set_status_in_memory (str_int i) status_available)
      (thenM (run_status_pipeline E (str_int i) i True True status_available
        (pe_naive_seconds E (cw_now (pw_cw w)))) rest) w = rest w1"
    using status_core [OF assms] unfolding is_online_def by blast
  have "quiet E (thenM (publish_status E (str_int i) ''online'') (trim_user_changed_at E))"
    by (intro quiet_then quiet_basic quiet_trim)
  from after_quiet [OF m this] show ?thesis
    unfolding cr_set_user_online_def Let_def strip_str_int user_id_number_str bindM_lift_Inr
    by (elim exE conjE, intro exI conjI swallow_run) (simp_all add: bindM_now run)
qed

lemma set_offline_run:
  assumes "status_ok E w" "bit_offset i"
  shows "\<exists>w'. cr_set_user_offline E (str_int i) w = (Inr (), w') \<and> makes E i (\<lambda>_. is_offline) w w'"
proof -
  let ?n = "cw_now (pw_cw w)"
  obtain m where st: "db_get_user_status E (str_int i) w =
      (Inr (ps_status (presence E w i)), w\<lparr>pw_cw := (pw_cw w)\<lparr>cw_mem := m\<rparr>\<rparr>)"
    and ok: "status_ok E (w\<lparr>pw_cw := (pw_cw w)\<lparr>cw_mem := m\<rparr>\<rparr>)" (is "status_ok E ?w0")
    using status_known [OF assms(1)] by blast
  obtain w1 where w1: "set_last_online_now E (str_int i) ?w0 = (Inr (), w1)" "presence E w1 = presence E w" "status_ok E w1"
    using quiet_last_online [of "str_int i"] ok unfolding quiet_def by (metis presence_mem)
  obtain w2 where m: "makes E i (\<lambda>_. is_offline) w1 w2"
    and run: "\<forall>rest :: (_, unit) op. thenM (set_status_in_memory (str_int i) status_unavailable)
      (thenM (run_status_pipeline E (str_int i) i False False status_unavailable (pe_naive_seconds E ?n)) rest) w1 = rest w2"
    using status_core [OF w1(3) assms(2)] unfolding is_offline_def by blast
  let ?tail = "thenM (publish_status E (str_int i) ''offline'') (thenM (publish (str_int i) ''offline'' None
      (if ps_status (presence E w i) = status_invisible then None else Some (pe_unix_seconds E ?n))) (trim_user_changed_at E))"
  have "quiet E ?tail" by (intro quiet_then quiet_basic quiet_trim)
  from after_quiet [OF m this] obtain w' where w': "?tail w2 = (Inr (), w')" "makes E i (\<lambda>_. is_offline) w1 w'" by blast
  have "cr_set_user_offline E (str_int i) w = ?tail w2"
    unfolding cr_set_user_offline_def Let_def strip_str_int user_id_number_str bindM_lift_Inr bindM_now
    by (simp only: bindM_def [of "db_get_user_status _ _"] st thenM_def [of "set_last_online_now _ _"]
        bindM_def [of "set_last_online_now _ _"] w1 prod.case sum.case run)
  with w' w1(2) show ?thesis by (simp add: makes_def)
qed

lemma set_away_run:
  assumes "status_ok E w"
  shows "\<exists>w'. cr_set_user_away E (str_int i) w = (Inr (), w') \<and> makes E i (\<lambda>p. p\<lparr>ps_status := status_away\<rparr>) w w'"
proof -
  let ?c = "pw_cw w" and ?s = "r_set (ce_redis (pe_cache E)) (cw_redis (pw_cw w)) (rk_user_status (str_int i)) status_away"
  let ?w1 = "w\<lparr>pw_cw := ?c\<lparr>cw_mem := mc_set (cw_now ?c) (rk_user_status (str_int i)) (Some (PStr status_away)) THIRTY_SECONDS (cw_mem ?c),
    cw_redis := ?s\<rparr>\<rparr>"
  have "status_ok E ?w1" by (rule status_ok_set [OF assms]) (auto simp: presence_laws)
  moreover have "presence E ?w1 = (presence E w)(i := presence E w i \<lparr>ps_status := status_away\<rparr>)"
    by (auto simp: presence_def fun_eq_iff Let_def presence_laws split: option.split)
  ultimately have m: "makes E i (\<lambda>p. p\<lparr>ps_status := status_away\<rparr>) w ?w1" by (simp add: makes_def)
  have "cr_set_user_away E (str_int i) w = publish_status E (str_int i) ''away'' ?w1"
    by (simp add: cr_set_user_away_def thenM_def bindM_def set_status_in_memory_def in_cache_def mem_set_run x_set_def
        on_redis_def modify_def)
  with after_quiet [OF m quiet_basic(3)] show ?thesis by simp
qed

end


context presence_env begin

lemma set_status_invisible_run:
  assumes "status_ok E w"
  shows "\<exists>w'. cr_set_user_status_invisible E (str_int i) w = (Inr (), w') \<and>
    makes E i (\<lambda>p. p\<lparr>ps_status := status_invisible\<rparr>) w w'"
proof -
  let ?c = "pw_cw w" and ?n = "cw_now (pw_cw w)"
  let ?s = "pe_zadd E (r_set (ce_redis (pe_cache E)) (cw_redis ?c) (rk_user_status (str_int i)) status_invisible)
    rk_user_status_changed_at (str_int i) (pe_naive_seconds E ?n)"
  let ?w1 = "w\<lparr>pw_cw := ?c\<lparr>cw_mem := mc_set (cw_now ?c) (rk_user_status (str_int i)) (Some (PStr status_invisible))
    THIRTY_SECONDS (cw_mem ?c), cw_redis := ?s\<rparr>\<rparr>"
  have "status_ok E ?w1" by (rule status_ok_set [OF assms]) (auto simp: presence_laws)
  moreover have "presence E ?w1 = (presence E w)(i := presence E w i \<lparr>ps_status := status_invisible\<rparr>)"
    by (auto simp: presence_def fun_eq_iff Let_def presence_laws split: option.split)
  ultimately have m: "makes E i (\<lambda>p. p\<lparr>ps_status := status_invisible\<rparr>) w ?w1" by (simp add: makes_def)
  let ?tail = "thenM (publish_status E (str_int i) ''invisible'') (trim_user_changed_at E)"
  have "quiet E ?tail" by (intro quiet_then quiet_basic quiet_trim)
  from after_quiet [OF m this] obtain w' where
    "?tail ?w1 = (Inr (), w')" "makes E i (\<lambda>p. p\<lparr>ps_status := status_invisible\<rparr>) w w'" by blast
  moreover have "thenM (set_status_in_memory (str_int i) status_invisible)
      (thenM (pipeline (\<lambda>s. pe_zadd E (r_set (ce_redis (pe_cache E)) s (rk_user_status (str_int i)) status_invisible)
               rk_user_status_changed_at (str_int i) (pe_naive_seconds E ?n))) rest) w = rest ?w1"
    for rest :: "('s pw, unit) op"
    by (simp add: thenM_def bindM_def set_status_in_memory_def pipeline_def in_cache_def mem_set_run on_redis_def modify_def)
  ultimately show ?thesis
    unfolding cr_set_user_status_invisible_def Let_def strip_str_int
    by (intro exI [of _ w'] conjI swallow_run) (simp_all add: bindM_now)
qed

lemma set_invisible_run:
  assumes "status_ok E w" "bit_offset i"
  shows "\<exists>w'. cr_set_user_invisible E (str_int i) b w = (Inr (), w') \<and> makes E i (\<lambda>_. is_hidden) w w'"
proof -
  obtain w1 where m: "makes E i (\<lambda>_. is_hidden) w w1"
    and run: "\<forall>rest :: (_, unit) op. thenM (set_status_in_memory (str_int i) status_invisible)
      (thenM (run_status_pipeline E (str_int i) i False True status_invisible
        (pe_naive_seconds E (cw_now (pw_cw w)))) rest) w = rest w1"
    using status_core [OF assms] unfolding is_hidden_def by blast
  have "quiet E (thenM (publish_status E (str_int i) ''invisible'') (thenM (trim_user_changed_at E)
      (whenM b (set_last_online_now E (str_int i)))))"
    by (intro quiet_then quiet_basic quiet_trim quiet_when quiet_last_online)
  from after_quiet [OF m this] show ?thesis
    unfolding cr_set_user_invisible_def Let_def strip_str_int user_id_number_str bindM_lift_Inr
    by (elim exE conjE, intro exI conjI swallow_run) (simp_all add: bindM_now run)
qed

lemma db_set_online_run:
  assumes "status_ok E w" "bit_offset i"
  shows "\<exists>w'. db_set_user_online E (str_int i) w = (Inr (), w') \<and> makes E i (\<lambda>_. is_online) w w'"
proof -
  obtain w1 where w1: "cr_set_user_online E (str_int i) w = (Inr (), w1)" and m: "makes E i (\<lambda>_. is_online) w w1"
    using set_online_run [OF assms] by blast
  let ?w' = "w1\<lparr>pw_db := r_set (pe_db E) (pw_db w1) (rk_user_status (str_int i)) status_available\<rparr>"
  have "presence E ?w' j = presence E w1 j" for j
  proof (cases "j = i")
    case True
    have "ps_status (presence E w1 i) = status_available" using m by (simp add: makes_def is_online_def)
    with True show ?thesis
      by (auto simp: presence_def Let_def redis_client.laws(1) [OF db_client] split: option.splits)
  next
    case False
    then show ?thesis
      by (auto simp: presence_def Let_def redis_client.laws(1) [OF db_client] split: option.splits)
  qed
  then have "presence E ?w' = presence E w1" by (simp add: fun_eq_iff)
  with m have "makes E i (\<lambda>_. is_online) w ?w'" by (simp add: makes_def)
  with w1 show ?thesis by (simp add: db_set_user_online_def thenM_def bindM_def modify_def)
qed

end

subsection \<open>The requests\<close>

text \<open>An operation makes \<open>f\<close> of the presence of the user, and has the result \<open>r\<close>.\<close>

definition runs :: "'s penv \<Rightarrow> int \<Rightarrow> (pstate \<Rightarrow> pstate) \<Rightarrow> 'a \<Rightarrow> ('s pw, 'a) op \<Rightarrow> 's pw \<Rightarrow> bool" where
  "runs E i f r m w \<longleftrightarrow> (\<exists>w'. m w = (Inr r, w') \<and> makes E i f w w')"

lemma runs_ret: "status_ok E w \<Longrightarrow> f (presence E w i) = presence E w i \<Longrightarrow> runs E i f r (ret r) w"
  by (auto simp: runs_def ret_def makes_def)

lemma runs_then_ret: "runs E i f () m w \<Longrightarrow> runs E i f r (thenM m (ret r)) w"
  by (auto simp: runs_def thenM_def bindM_def ret_def)

lemma runs_cong: "runs E i g r m w \<Longrightarrow> f (presence E w i) = g (presence E w i) \<Longrightarrow> runs E i f r m w"
  by (auto simp: runs_def makes_def)

lemma runs_from:
  "m w = m' w0 \<Longrightarrow> presence E w0 = presence E w \<Longrightarrow> runs E i f r m' w0 \<Longrightarrow> runs E i f r m w"
  by (auto simp: runs_def makes_def)

context presence_env begin

lemma runs_after_status:
  assumes ok: "status_ok E w"
    and rest: "\<And>w0. status_ok E w0 \<Longrightarrow> presence E w0 = presence E w \<Longrightarrow>
      runs E i f r (g (ps_status (presence E w i))) w0"
  shows "runs E i f r (bindM (db_get_user_status E (str_int i)) g) w"
proof -
  obtain m where st: "db_get_user_status E (str_int i) w =
      (Inr (ps_status (presence E w i)), w\<lparr>pw_cw := (pw_cw w)\<lparr>cw_mem := m\<rparr>\<rparr>)"
    and w0: "status_ok E (w\<lparr>pw_cw := (pw_cw w)\<lparr>cw_mem := m\<rparr>\<rparr>)"
    using status_known [OF ok] by blast
  show ?thesis
    by (rule runs_from [OF _ _ rest [OF w0]]) (simp_all add: bindM_def st)
qed

lemma os_set_online_run:
  assumes "status_ok E w" "bit_offset i"
  shows "runs E i (\<lambda>_. is_online) () (os_set_online E (str_int i)) w"
  unfolding os_set_online_def
  by (simp, rule runs_after_status [OF assms(1)]) (use db_set_online_run assms(2) in \<open>auto simp: runs_def\<close>)

lemma os_set_offline_run:
  assumes "status_ok E w" "bit_offset i"
  shows "runs E i (\<lambda>_. is_offline) () (os_set_offline E (str_int i)) w"
  using set_offline_run [OF assms] by (simp add: runs_def os_set_offline_def db_set_user_offline_def)

lemma os_set_away_run:
  assumes "status_ok E w"
  shows "runs E i (transition ''away'' stage) (ps_status (presence E w i) = status_available)
    (os_set_away E (str_int i)) w"
  unfolding os_set_away_def
proof (rule runs_after_status [OF assms])
  fix w0 assume w0: "status_ok E w0" "presence E w0 = presence E w"
  show "runs E i (transition ''away'' stage) (ps_status (presence E w i) = status_available)
    (if ps_status (presence E w i) = status_available then thenM (cr_set_user_away E (str_int i)) (ret True) else ret False) w0"
    using set_away_run [OF w0(1), of i] w0
    by (auto simp: transition_def runs_def makes_def thenM_def bindM_def ret_def)
qed

lemma os_set_back_run:
  assumes "status_ok E w" "bit_offset i"
  shows "runs E i (transition ''back'' stage) (ps_status (presence E w i) = status_away)
    (os_set_back E (str_int i)) w"
  unfolding os_set_back_def
proof (rule runs_after_status [OF assms(1)])
  fix w0 assume w0: "status_ok E w0" "presence E w0 = presence E w"
  show "runs E i (transition ''back'' stage) (ps_status (presence E w i) = status_away)
    (if ps_status (presence E w i) = status_away then thenM (cr_set_user_online E (str_int i)) (ret True) else ret False) w0"
    using set_online_run [OF w0(1) assms(2)] w0
    by (auto simp: transition_def runs_def makes_def thenM_def bindM_def ret_def)
qed

lemma os_set_visible_run:
  assumes "status_ok E w" "bit_offset i"
  shows "runs E i (transition ''visible'' stage) () (os_set_visible E (str_int i)) w"
  unfolding os_set_visible_def
proof (rule runs_after_status [OF assms(1)])
  fix w0 assume w0: "status_ok E w0" "presence E w0 = presence E w"
  let ?m = "bindM (cr_user_is_in_multicast E (str_int i)) (\<lambda>connected.
    if connected then os_set_online E (str_int i) else os_set_offline E (str_int i))"
  have mc: "?m w0 = (if ps_multicast (presence E w i) then os_set_online E (str_int i) else os_set_offline E (str_int i)) w0"
    using w0(2) by (auto simp: cr_user_is_in_multicast_def bindM_def gets_def presence_def Let_def fun_eq_iff)
  show "runs E i (transition ''visible'' stage) ()
    (if ps_status (presence E w i) = status_available \<or> ps_status (presence E w i) = status_chat then ret () else ?m) w0"
    using os_set_online_run [OF w0(1) assms(2)] os_set_offline_run [OF w0(1) assms(2)] mc w0
    by (auto simp: transition_def runs_def makes_def ret_def)
qed

lemma db_set_invisible_run:
  assumes "status_ok E w" "bit_offset i"
  shows "runs E i (\<lambda>p. if off then p\<lparr>ps_status := status_invisible\<rparr> else is_hidden) ()
    (db_set_user_invisible E (str_int i) off) w"
  using set_status_invisible_run [OF assms(1)] set_invisible_run [OF assms] unfolding runs_def db_set_user_invisible_def
  by (cases off) simp_all

lemma os_set_invisible_run:
  assumes "status_ok E w" "bit_offset i"
  shows "runs E i (transition ''invisible'' stage) () (os_set_invisible E (str_int i) stage) w"
  unfolding os_set_invisible_def
proof (rule runs_after_status [OF assms(1)])
  fix w0 assume w0: "status_ok E w0" "presence E w0 = presence E w"
  let ?st = "ps_status (presence E w i)" and ?set = "db_set_user_invisible E (str_int i)"
  let ?ask = "bindM (db_get_user_status E (str_int i))
    (\<lambda>status. ret (status \<notin> {status_available, status_chat, status_invisible, status_away}))"
  have set: "runs E i (transition ''invisible'' stage) () (?set off) v"
    if "status_ok E v" "presence E v = presence E w" "?st \<noteq> status_invisible"
      "off \<longleftrightarrow> stage = Some ''login'' \<or> ?st \<notin> {status_available, status_chat, status_away}" for v off
    by (rule runs_cong [OF db_set_invisible_run [OF that(1) assms(2)]]) (use that in \<open>auto simp: transition_def\<close>)
  have asked: "runs E i (transition ''invisible'' stage) () (bindM ?ask ?set) w0"
    if "?st \<noteq> status_invisible" "stage \<noteq> Some ''login''"
    unfolding bindM_assoc bindM_ret
    by (rule runs_after_status [OF w0(1)]) (rule set; use that w0 in simp)
  show "runs E i (transition ''invisible'' stage) ()
    (if ?st = status_invisible then ret ()
     else bindM (if stage = Some ''login'' then ret True else if blank (str_int i) then ret True else ?ask) ?set) w0"
    using set [OF w0, of True] asked w0 by (auto intro!: runs_ret simp: bindM_ret transition_def)
qed

end

lemma transition_verbs:
  "transition ''online'' stage = (\<lambda>_. is_online)" "transition ''offline'' stage = (\<lambda>_. is_offline)"
  by (simp_all add: transition_def fun_eq_iff)

lemma verbs_distinct:
  "(''online'' = ''invisible'') = False" "(''online'' = ''visible'') = False" "(''online'' = ''offline'') = False"
  "(''invisible'' = ''online'') = False" "(''visible'' = ''online'') = False" "(''visible'' = ''invisible'') = False"
  "(''offline'' = ''online'') = False" "(''offline'' = ''invisible'') = False" "(''offline'' = ''visible'') = False"
  "(''away'' = ''online'') = False" "(''away'' = ''invisible'') = False" "(''away'' = ''visible'') = False"
  "(''away'' = ''offline'') = False" "(''back'' = ''online'') = False" "(''back'' = ''invisible'') = False"
  "(''back'' = ''visible'') = False" "(''back'' = ''offline'') = False" "(''back'' = ''away'') = False"
  by simp_all

lemma transition_other:
  "verb \<notin> {''online'', ''invisible'', ''visible'', ''offline'', ''away'', ''back''} \<Longrightarrow> transition verb stage p = p"
  by (simp add: transition_def)

context presence_env begin

lemma status_request_run:
  assumes "status_ok E w" "bit_offset i"
  shows "runs E i (transition verb (Some (case stage of None \<Rightarrow> ''status'' | Some s \<Rightarrow> s))) ()
    (os_set_status E (Some (str_int i)) verb stage) w"
proof -
  let ?s = "Some (case stage of None \<Rightarrow> ''status'' | Some s \<Rightarrow> s)" and ?u = "str_int i"
  let ?m = "if verb = ''online'' then thenM (os_set_online E ?u) (ret True)
     else if verb = ''invisible'' then
       thenM (os_set_invisible E ?u (case stage of None \<Rightarrow> Some ''status'' | Some s \<Rightarrow> Some s)) (ret True)
     else if verb = ''visible'' then thenM (os_set_visible E ?u) (ret True)
     else if verb = ''offline'' then thenM (os_set_offline E ?u) (ret True)
     else if verb = ''away'' then os_set_away E ?u
     else if verb = ''back'' then os_set_back E ?u
     else ret True"
  have s: "(case stage of None \<Rightarrow> Some ''status'' | Some s \<Rightarrow> Some s) = ?s" by (cases stage) auto
  note runs = runs_then_ret [OF os_set_online_run [OF assms]] runs_then_ret [OF os_set_invisible_run [OF assms, of ?s]]
    runs_then_ret [OF os_set_visible_run [OF assms, of ?s]] runs_then_ret [OF os_set_offline_run [OF assms]]
    os_set_away_run [OF assms(1), of i ?s] os_set_back_run [OF assms, of ?s]
  have "\<exists>r. runs E i (transition verb ?s) r ?m w"
  proof (cases "verb \<in> {''online'', ''invisible'', ''visible'', ''offline'', ''away'', ''back''}")
    case True
    then show ?thesis
      by (elim insertE emptyE; hypsubst; unfold s; simp only: transition_verbs verbs_distinct simp_thms if_True if_False)
        (blast intro: runs)+
  next
    case False
    have "runs E i (transition verb ?s) True (ret True) w"
      by (rule runs_ret [OF assms(1)]) (rule transition_other [OF False])
    with False show ?thesis by auto
  qed
  then obtain r w1 where w1: "?m w = (Inr r, w1)" and m: "makes E i (transition verb ?s) w w1" by (auto simp: runs_def)
  have "quiet E (bindM now_of (\<lambda>now. whenM r (publish ?u verb None (x now))))" for x
    by (intro quiet_now quiet_when quiet_basic)
  from after_quiet [OF m this] have "runs E i (transition verb ?s) () (bindM ?m (\<lambda>status_changed. bindM now_of (\<lambda>now.
      whenM status_changed (publish ?u verb None (if verb = ''away'' then Some (pe_unix_seconds E now) else None))))) w"
    unfolding runs_def bindM_def [of ?m] w1 by simp
  then show ?thesis by (simp add: os_set_status_def is_valid_id_def Let_def cong: if_cong)
qed

end

subsection \<open>Requests one after the other\<close>

text \<open>Requests of any users, and the clock.\<close>

inductive status_steps :: "'s penv \<Rightarrow> 's pw \<Rightarrow> 's pw \<Rightarrow> bool" for E w where
  start: "status_steps E w w"
| request: "status_steps E w v \<Longrightarrow> bit_offset i \<Longrightarrow> os_set_status E (Some (str_int i)) verb stage v = (r, w') \<Longrightarrow>
    status_steps E w w'"
| tick: "status_steps E w v \<Longrightarrow> status_steps E w (v\<lparr>pw_cw := (pw_cw v)\<lparr>cw_now := n\<rparr>\<rparr>)"

definition consistent :: "pstate \<Rightarrow> bool" where
  "consistent p \<longleftrightarrow> ps_status p \<in> {status_available, status_away, status_invisible, status_unavailable} \<and>
     ps_bit p = ps_online p \<and> (ps_online p \<longrightarrow> ps_multicast p) \<and>
     (ps_status p \<in> {status_available, status_away} \<longrightarrow> ps_online p) \<and>
     (ps_status p = status_unavailable \<longrightarrow> \<not> ps_multicast p)"

lemmas status_values = status_available_def status_away_def status_invisible_def status_unavailable_def status_chat_def

lemma statuses_distinct [simp]:
  "status_available \<noteq> status_away" "status_available \<noteq> status_invisible" "status_available \<noteq> status_unavailable"
  "status_away \<noteq> status_available" "status_away \<noteq> status_invisible" "status_away \<noteq> status_unavailable"
  "status_invisible \<noteq> status_available" "status_invisible \<noteq> status_away" "status_invisible \<noteq> status_unavailable"
  "status_unavailable \<noteq> status_available" "status_unavailable \<noteq> status_away" "status_unavailable \<noteq> status_invisible"
  by (simp_all add: status_values)

lemma consistent_states: "consistent is_online" "consistent is_offline" "consistent is_hidden"
  by (simp_all add: consistent_def is_online_def is_offline_def is_hidden_def)

lemma consistent_away: "consistent p \<Longrightarrow> ps_status p = status_available \<Longrightarrow> consistent (p\<lparr>ps_status := status_away\<rparr>)"
  by (auto simp: consistent_def)

lemma consistent_invisible: "consistent p \<Longrightarrow> consistent (p\<lparr>ps_status := status_invisible\<rparr>)"
  by (auto simp: consistent_def)

lemma consistent_if: "(b \<Longrightarrow> consistent p) \<Longrightarrow> (\<not> b \<Longrightarrow> consistent q) \<Longrightarrow> consistent (if b then p else q)"
  by simp

lemma transition_consistent: "consistent p \<Longrightarrow> consistent (transition verb stage p)"
  unfolding transition_def Let_def
  by (intro consistent_if consistent_states; (rule consistent_away consistent_invisible)?; assumption)

context presence_env begin

lemma steps_consistent:
  assumes "status_steps E w w'" "status_ok E w" "\<forall>i. consistent (presence E w i)"
  shows "status_ok E w' \<and> (\<forall>i. consistent (presence E w' i))"
  using assms
proof (induction rule: status_steps.induct)
  case start
  then show ?case by simp
next
  case (request v i verb stage r w')
  then have ok: "status_ok E v" "\<forall>i. consistent (presence E v i)" by auto
  from status_request_run [OF ok(1) request.hyps(2), of verb stage] request.hyps(3) ok(2) show ?case
    by (auto simp: runs_def makes_def transition_consistent)
next
  case (tick v n)
  then show ?case by simp
qed

end

subsection \<open>A concrete environment\<close>

definition memory_penv :: "store penv" where
  "memory_penv = \<lparr>pe_cache = memory_cenv, pe_db = store_redis,
     pe_setbit = (\<lambda>s k i b. s\<lparr>st_hashes := (st_hashes s)(''bit:'' @ k :=
       AList.update (str_int i) (if b then ''1'' else ''0'') (st_hashes s (''bit:'' @ k)))\<rparr>),
     pe_getbit = (\<lambda>s k i. map_of (st_hashes s (''bit:'' @ k)) (str_int i) = Some ''1''),
     pe_zadd = (\<lambda>s k x n. s\<lparr>st_hashes := (st_hashes s)(''z:'' @ k := AList.update x (str_int n) (st_hashes s (''z:'' @ k)))\<rparr>),
     pe_zremrangebyscore = (\<lambda>s k m n. s\<lparr>st_hashes := (st_hashes s)(''z:'' @ k :=
       filter (\<lambda>(_, t). case py_int t of None \<Rightarrow> True | Some t \<Rightarrow> \<not> (m \<le> t \<and> t \<le> n)) (st_hashes s (''z:'' @ k)))\<rparr>),
     pe_status_topic = Some ''status'', pe_trim_now = (\<lambda>_. True), pe_naive_seconds = (\<lambda>n. n div 1000000),
     pe_unix_seconds = (\<lambda>n. n div 1000000)\<rparr>"

lemma store_redis_unchecked:
  "r_expire store_redis s k t = s"
  "r_srem store_redis s k x = s\<lparr>st_sets := (st_sets s)(k := filter (\<lambda>y. y \<noteq> x) (st_sets s k))\<rparr>"
  by (simp_all add: store_redis_def)

interpretation memory_presence: presence_env memory_penv
proof -
  show "presence_env memory_penv"
    by (auto simp: presence_env_def presence_env_axioms_def memory_penv_def memory_client.redis_client_axioms update_conv'
      store_redis_unchecked)
qed

end
