(* ===== verification/Claims_Presence.thy ===== *)
theory Claims_Presence
  imports Presence_Facts
begin

section \<open>Properties of presence\<close>

definition quiet_start :: "store pw" where
  "quiet_start = \<lparr>pw_cw = \<lparr>cw_redis = empty_store, cw_mem = [], cw_now = 0\<rparr>, pw_db = empty_store, pw_events = []\<rparr>"

lemma quiet_start_ok: "status_ok memory_penv quiet_start"
  by (simp add: status_ok_def quiet_start_def entry_agrees_def)

lemma quiet_start_offline: "presence memory_penv quiet_start i = is_offline"
  by (simp add: presence_def quiet_start_def is_offline_def memory_penv_def Let_def)



text \<open>C11: The parts of the presence of a user never drift apart: after any requests for a status, of any users
and at any times, the bit of a user is set exactly when the user is in the set of online users, who
all get broadcasts; whoever is available or away is online, nobody who is unavailable gets
broadcasts, and there is no other status but invisible.\<close>

theorem presence_stays_consistent:
  assumes "presence_env E" "status_ok E w" "\<forall>i. presence E w i = is_offline" "status_steps E w w'"
  shows "consistent (presence E w' i)"
  using presence_env.steps_consistent [OF assms(1,4,2)] assms(3) by (simp add: consistent_states)

theorem presence_stays_consistent_witness:
  "\<exists>w'. os_set_status memory_penv (Some (str_int 7)) ''away'' None quiet_start = (Inr (), w') \<and>
    consistent (presence memory_penv w' 7)"
proof -
  obtain w' where w': "os_set_status memory_penv (Some (str_int 7)) ''away'' None quiet_start = (Inr (), w')"
    using presence_env.status_request_run [OF memory_presence.presence_env_axioms quiet_start_ok, of 7 "''away''" None]
    by (auto simp: runs_def bit_offset_def)
  have "status_steps memory_penv quiet_start w'"
    by (rule status_steps.request [OF status_steps.start _ w']) (simp add: bit_offset_def)
  from presence_stays_consistent [OF memory_presence.presence_env_axioms quiet_start_ok _ this, of 7] w'
  show ?thesis by (simp add: quiet_start_offline)
qed

end
