(* ===== verification/Error_Codes.thy ===== *)
theory Error_Codes
  imports Prelude
begin

section \<open>Error codes\<close>

text \<open>The class \<open>ErrorCodes\<close> of \<^verbatim>\<open>dino/config.py\<close>: the status codes of responses to clients.\<close>

definition ec_ok :: int where "ec_ok = 200"
definition ec_unknown_error :: int where "ec_unknown_error = 250"
definition ec_missing_actor_id :: int where "ec_missing_actor_id = 500"
definition ec_missing_object_id :: int where "ec_missing_object_id = 501"
definition ec_missing_target_id :: int where "ec_missing_target_id = 502"
definition ec_missing_object_url :: int where "ec_missing_object_url = 503"
definition ec_missing_target_display_name :: int where "ec_missing_target_display_name = 504"
definition ec_missing_actor_url :: int where "ec_missing_actor_url = 505"
definition ec_missing_object_content :: int where "ec_missing_object_content = 506"
definition ec_missing_object :: int where "ec_missing_object = 507"
definition ec_missing_object_attachments :: int where "ec_missing_object_attachments = 508"
definition ec_missing_attachment_type :: int where "ec_missing_attachment_type = 509"
definition ec_missing_attachment_content :: int where "ec_missing_attachment_content = 510"
definition ec_missing_verb :: int where "ec_missing_verb = 511"
definition ec_invalid_target_type :: int where "ec_invalid_target_type = 600"
definition ec_invalid_acl_type :: int where "ec_invalid_acl_type = 601"
definition ec_invalid_acl_action :: int where "ec_invalid_acl_action = 602"
definition ec_invalid_acl_value :: int where "ec_invalid_acl_value = 603"
definition ec_invalid_status :: int where "ec_invalid_status = 604"
definition ec_invalid_object_type :: int where "ec_invalid_object_type = 605"
definition ec_invalid_ban_duration :: int where "ec_invalid_ban_duration = 606"
definition ec_invalid_verb :: int where "ec_invalid_verb = 607"
definition ec_empty_message :: int where "ec_empty_message = 700"
definition ec_not_base64 :: int where "ec_not_base64 = 701"
definition ec_user_not_in_room :: int where "ec_user_not_in_room = 702"
definition ec_user_is_banned :: int where "ec_user_is_banned = 703"
definition ec_room_already_exists :: int where "ec_room_already_exists = 704"
definition ec_not_allowed :: int where "ec_not_allowed = 705"
definition ec_validation_error :: int where "ec_validation_error = 706"
definition ec_room_full :: int where "ec_room_full = 707"
definition ec_not_online :: int where "ec_not_online = 708"
definition ec_too_many_private_rooms :: int where "ec_too_many_private_rooms = 709"
definition ec_room_name_too_long :: int where "ec_room_name_too_long = 710"
definition ec_room_name_too_short :: int where "ec_room_name_too_short = 711"
definition ec_invalid_token :: int where "ec_invalid_token = 712"
definition ec_invalid_login :: int where "ec_invalid_login = 713"
definition ec_msg_too_long :: int where "ec_msg_too_long = 714"
definition ec_multiple_rooms_with_name :: int where "ec_multiple_rooms_with_name = 715"
definition ec_too_many_attachments :: int where "ec_too_many_attachments = 716"
definition ec_not_enabled :: int where "ec_not_enabled = 717"
definition ec_room_name_restricted :: int where "ec_room_name_restricted = 718"
definition ec_user_muted :: int where "ec_user_muted = 719"
definition ec_not_allowed_to_whisper_channel :: int where "ec_not_allowed_to_whisper_channel = 720"
definition ec_not_allowed_to_whisper_not_a_contact :: int where "ec_not_allowed_to_whisper_not_a_contact = 721"
definition ec_not_allowed_to_whisper_turned_off :: int where "ec_not_allowed_to_whisper_turned_off = 722"
definition ec_not_allowed_to_whisper_self :: int where "ec_not_allowed_to_whisper_self = 723"
definition ec_not_allowed_to_whisper_generic_error :: int where "ec_not_allowed_to_whisper_generic_error = 724"
definition ec_remote_error :: int where "ec_remote_error = 725"
definition ec_no_such_user :: int where "ec_no_such_user = 800"
definition ec_no_such_channel :: int where "ec_no_such_channel = 801"
definition ec_no_such_room :: int where "ec_no_such_room = 802"
definition ec_no_admin_room_found :: int where "ec_no_admin_room_found = 803"
definition ec_no_user_in_session :: int where "ec_no_user_in_session = 804"
definition ec_no_admin_online :: int where "ec_no_admin_online = 805"

lemmas code_defs = ec_ok_def ec_unknown_error_def ec_missing_actor_id_def ec_missing_object_id_def
  ec_missing_target_id_def ec_missing_object_url_def ec_missing_target_display_name_def ec_missing_actor_url_def
  ec_missing_object_content_def ec_missing_object_def ec_missing_object_attachments_def ec_missing_attachment_type_def
  ec_missing_attachment_content_def ec_missing_verb_def ec_invalid_target_type_def ec_invalid_acl_type_def
  ec_invalid_acl_action_def ec_invalid_acl_value_def ec_invalid_status_def ec_invalid_object_type_def
  ec_invalid_ban_duration_def ec_invalid_verb_def ec_empty_message_def ec_not_base64_def
  ec_user_not_in_room_def ec_user_is_banned_def ec_room_already_exists_def ec_not_allowed_def
  ec_validation_error_def ec_room_full_def ec_not_online_def ec_too_many_private_rooms_def
  ec_room_name_too_long_def ec_room_name_too_short_def ec_invalid_token_def ec_invalid_login_def
  ec_msg_too_long_def ec_multiple_rooms_with_name_def ec_too_many_attachments_def ec_not_enabled_def
  ec_room_name_restricted_def ec_user_muted_def ec_not_allowed_to_whisper_channel_def ec_not_allowed_to_whisper_not_a_contact_def
  ec_not_allowed_to_whisper_turned_off_def ec_not_allowed_to_whisper_self_def ec_not_allowed_to_whisper_generic_error_def ec_remote_error_def
  ec_no_such_user_def ec_no_such_channel_def ec_no_such_room_def ec_no_admin_room_found_def
  ec_no_user_in_session_def ec_no_admin_online_def

end
