(* ===== verification/Request_Env.thy ===== *)
theory Request_Env
  imports Db_Users Error_Codes
begin

section \<open>What requests are checked against\<close>

text \<open>
  The database and the environment as the validators of requests use them, and the functions of
  \<^verbatim>\<open>dino/utils/__init__.py\<close> that stand between. \<open>req_db\<close> has the operations of
  \<open>environ.env.db\<close>, any of its implementations; \<open>renv\<close> has the settings, the session, the time and
  the other services: storage, authentication, the remote that answers whether a user may whisper
  to another, the socket, and \<open>re_new_part\<close>, the part of an activity that the package of activities
  builds from an empty dictionary. Their code is elsewhere, so they are arguments.
\<close>

subsection \<open>Database and environment\<close>

record 'w req_db = "'w acl_db" +
  rd_is_moderator :: "string option \<Rightarrow> string option \<Rightarrow> ('w, bool) op"
  rd_is_room_ephemeral :: "string option \<Rightarrow> ('w, bool) op"
  rd_channel_exists :: "string option \<Rightarrow> ('w, bool) op"
  rd_room_exists :: "string \<Rightarrow> string \<Rightarrow> ('w, bool) op"
  rd_room_name_exists :: "string \<Rightarrow> string \<Rightarrow> ('w, bool) op"
  rd_user_name_exists :: "string \<Rightarrow> ('w, bool) op"
  rd_get_room_name :: "string \<Rightarrow> ('w, string) op"
  rd_get_channel_name :: "string option \<Rightarrow> ('w, string) op"
  rd_get_user_name :: "string option \<Rightarrow> ('w, string) op"
  rd_get_room_id_for_name :: "string \<Rightarrow> ('w, string) op"
  rd_get_owners_room :: "string \<Rightarrow> ('w, (string \<times> string) list) op"
  rd_room_acls :: "string \<Rightarrow> string \<Rightarrow> ('w, (string \<times> string) list) op"
  rd_channel_acls :: "string \<Rightarrow> string \<Rightarrow> ('w, (string \<times> string) list) op"
  rd_user_ban_status :: "string \<Rightarrow> string \<Rightarrow> ('w, string \<times> string \<times> string) op"
  rd_user_mute_status :: "string \<Rightarrow> string \<Rightarrow> ('w, string) op"
  rd_is_banned_globally :: "string \<Rightarrow> ('w, bool \<times> string option) op"
  rd_reason_global :: "string \<Rightarrow> ('w, string) op"
  rd_reason_channel :: "string \<Rightarrow> string \<Rightarrow> ('w, string) op"
  rd_reason_room :: "string \<Rightarrow> string \<Rightarrow> ('w, string) op"
  rd_get_user_status :: "string \<Rightarrow> ('w, string) op"
  rd_get_admin_room :: "('w, string option) op"
  rd_get_black_list :: "('w, string list) op"

text \<open>The text of a message after \<open>ast.literal_eval\<close>: a text, or a dictionary (an image, an ad).\<close>

datatype body = TextBody string | DictBody

datatype event =
    JoinedRoom string
  | Emitted string string
  | Disconnected

record 'w renv =
  re_acl :: acl_env
  re_now :: int
  re_tz :: int
  re_sender_can_delete :: bool
  re_invisible_unrestricted :: bool
  re_validate_mutes :: bool
  re_validate_whispers :: bool
  re_order :: "string list \<Rightarrow> string list"
  re_new_part :: entity
  re_literal_text :: "string \<Rightarrow> body option"
  re_message_sender :: "string \<Rightarrow> ('w, string option) op"
  re_excluded_list :: "string \<Rightarrow> ('w, string option) op"
  re_authenticate :: "string option \<Rightarrow> string option \<Rightarrow> ('w, bool \<times> string option \<times> (string \<times> string) list) op"
  re_can_send_whisper_to :: "string option \<Rightarrow> string \<Rightarrow> ('w, bool \<times> int) op"
  re_event :: "event \<Rightarrow> ('w, unit) op"

definition session_user_id :: "'w renv \<Rightarrow> string option" where
  "session_user_id env = ae_session (re_acl env) ''user_id''"

definition session_user_name :: "'w renv \<Rightarrow> string option" where
  "session_user_name env = ae_session (re_acl env) ''user_name''"

subsection \<open>Strings\<close>

text \<open>\<open>s.split()\<close>: the words between white space.\<close>

fun py_words :: "string \<Rightarrow> string \<Rightarrow> string list" where
  "py_words w [] = (if w = [] then [] else [w])"
| "py_words w (c # cs) =
     (if is_space c then (if w = [] then py_words [] cs else w # py_words [] cs)
      else py_words (w @ [c]) cs)"

text \<open>\<open>s.replace(old, new)\<close> for a text \<open>old\<close> that is not empty.\<close>

function py_replace :: "string \<Rightarrow> string \<Rightarrow> string \<Rightarrow> string" where
  "py_replace old new [] = []"
| "py_replace old new (c # cs) =
     (if old \<noteq> [] \<and> take (length old) (c # cs) = old
      then new @ py_replace old new (drop (length old) (c # cs))
      else c # py_replace old new cs)"
  by pat_completeness auto
termination by (relation "measure (\<lambda>(_, _, s). length s)") auto

subsection \<open>Whispers\<close>

text \<open>\<open>re.sub("[,.'!)(]", "", ...)\<close> of a word without its first dash.\<close>

definition whisper_target :: "string \<Rightarrow> string" where
  "whisper_target word =
     filter (\<lambda>c. c \<notin> set '',.!)('' \<and> c \<noteq> CHR 0x27)
       (case word of c # cs \<Rightarrow> if c = CHR ''-'' then cs else word | [] \<Rightarrow> [])"

definition get_whisper_users_from_message :: "body \<Rightarrow> string list" where
  "get_whisper_users_from_message message = (case message of
     DictBody \<Rightarrow> []
   | TextBody t \<Rightarrow>
       remdups (map whisper_target (filter (\<lambda>w. w \<noteq> [] \<and> hd w = CHR ''-'') (py_words [] t))))"

definition is_whisper :: "body \<Rightarrow> bool" where
  "is_whisper message = (case message of
     DictBody \<Rightarrow> False
   | TextBody t \<Rightarrow> list_ex (\<lambda>w. w \<noteq> [] \<and> hd w = CHR ''-'') (py_words [] t))"

definition parse_message :: "'w renv \<Rightarrow> string \<Rightarrow> bool \<Rightarrow> body option" where
  "parse_message env msg encoded =
     (let msg = (if encoded then b64d (Some msg) else msg)
      in if blank msg then None
         else if CHR 0x7B \<in> set msg
         then re_literal_text env (py_replace ''true'' ''True'' (py_replace ''false'' ''False'' msg))
         else None)"

definition is_a_user_name :: "('w, 'x) req_db_scheme \<Rightarrow> string \<Rightarrow> ('w, bool) op" where
  "is_a_user_name DB user_name =
     (if length user_name < 3 \<or> length user_name > 20 then ret False
      else catchM (rd_user_name_exists DB user_name) (\<lambda>_. Some (ret False)))"

definition can_send_whisper_to_user_single ::
  "('w, 'x) req_db_scheme \<Rightarrow> 'w renv \<Rightarrow> string option \<Rightarrow> string \<Rightarrow> ('w, bool \<times> int) op" where
  "can_send_whisper_to_user_single DB env sender_id target_user_name =
     bindM (is_a_user_name DB target_user_name) (\<lambda>known.
     if \<not> known then ret (True, ec_ok)
     else bindM (re_can_send_whisper_to env sender_id target_user_name) (\<lambda>(allowed, reason_code).
       ret (if \<not> allowed then (False, reason_code) else (True, ec_ok))))"

text \<open>The first refusal, after all users have been asked about.\<close>

definition can_send_whisper_to_user ::
  "('w, 'x) req_db_scheme \<Rightarrow> 'w renv \<Rightarrow> activity \<Rightarrow> string list \<Rightarrow> ('w, bool \<times> int) op" where
  "can_send_whisper_to_user DB env activity users =
     bindM (read_attr (av_actor activity) en_id) (\<lambda>sender_id.
     bindM (mapM (can_send_whisper_to_user_single DB env sender_id) (re_order env users)) (\<lambda>answers.
     ret (case find (\<lambda>(can_whisper, _). \<not> can_whisper) answers of
            Some (_, reason) \<Rightarrow> (False, reason) | None \<Rightarrow> (True, ec_ok))))"

definition can_send_whisper_in_channel ::
  "nat \<Rightarrow> ('w, 'x) req_db_scheme \<Rightarrow> 'w renv \<Rightarrow> activity \<Rightarrow> string \<Rightarrow> ('w, bool option) op" where
  "can_send_whisper_in_channel fuel DB env activity channel_id =
     bindM (rd_channel_acls DB channel_id action_whisper) (\<lambda>channel_acls.
     bindO (validate_acl_for_action fuel DB (re_acl env) activity target_channel action_whisper
              (Some channel_acls) None None None)
       (\<lambda>(is_valid, _). ret (Some is_valid)))"

subsection \<open>Bans and mutes\<close>

text \<open>\<open>datetime.fromtimestamp(int(t))\<close> and \<open>datetime.fromtimestamp(int(float(t)))\<close>, then \<open>(end - now).seconds\<close>.\<close>

definition seconds_until :: "'w renv \<Rightarrow> int option \<Rightarrow> exc + string" where
  "seconds_until env t = (case t of
     None \<Rightarrow> Inl ValueError
   | Some us \<Rightarrow> (case naive_from_timestamp (re_tz env) us of
       Inl e \<Rightarrow> Inl e
     | Inr end \<Rightarrow> Inr (str_int (delta_seconds (end - re_now env)))))"

definition utils_is_banned_globally ::
  "('w, 'x) req_db_scheme \<Rightarrow> 'w renv \<Rightarrow> string option \<Rightarrow> ('w, bool \<times> string option) op" where
  "utils_is_banned_globally DB env user_id = (case user_id of
     None \<Rightarrow> ret (False, None)
   | Some u \<Rightarrow>
       bindM (rd_is_banned_globally DB u) (\<lambda>(user_is_banned, timestamp).
       if \<not> user_is_banned \<or> timestamp = None \<or> timestamp = Some [] then ret (False, None)
       else bindM (lift_result (seconds_until env (py_float (the timestamp)))) (\<lambda>s. ret (True, Some s))))"

definition reason_for_ban ::
  "('w, 'x) req_db_scheme \<Rightarrow> string \<Rightarrow> string option \<Rightarrow> string \<Rightarrow> ('w, string) op" where
  "reason_for_ban DB user_id scope target_id =
     (if none_or_blank scope \<or> scope = Some ''global'' then rd_reason_global DB user_id
      else if scope = Some ''channel'' then rd_reason_channel DB user_id target_id
      else if scope = Some ''room'' then rd_reason_room DB user_id target_id
      else throw KeyError)"

text \<open>The dictionary \<open>scope\<close>, \<open>seconds\<close>, \<open>id\<close>.\<close>

record ban_info =
  bi_scope :: string
  bi_seconds :: string
  bi_id :: string

definition utils_is_banned ::
  "('w, 'x) req_db_scheme \<Rightarrow> 'w renv \<Rightarrow> string \<Rightarrow> string \<Rightarrow> ('w, ban_info option) op" where
  "utils_is_banned DB env user_id room_id =
     bindM (rd_user_ban_status DB room_id user_id) (\<lambda>(global_time, channel_time, room_time).
     if global_time \<noteq> '''' then
       bindM (lift_result (seconds_until env (map_option (\<lambda>t. t * micro) (py_int global_time)))) (\<lambda>s.
       ret (Some \<lparr>bi_scope = ''global'', bi_seconds = s, bi_id = ''''\<rparr>))
     else if channel_time \<noteq> '''' then
       bindM (lift_result (seconds_until env (map_option (\<lambda>t. t * micro) (py_int channel_time)))) (\<lambda>s.
       bindM (ad_channel_for_room DB (Some room_id)) (\<lambda>channel_id.
       ret (Some \<lparr>bi_scope = ''channel'', bi_seconds = s, bi_id = channel_id\<rparr>)))
     else if room_time \<noteq> '''' then
       bindM (lift_result (seconds_until env
         (map_option (\<lambda>us. trunc_seconds us * micro) (py_float room_time)))) (\<lambda>s.
       ret (Some \<lparr>bi_scope = ''room'', bi_seconds = s, bi_id = room_id\<rparr>))
     else ret None)"

definition utils_is_muted ::
  "('w, 'x) req_db_scheme \<Rightarrow> 'w renv \<Rightarrow> string \<Rightarrow> string \<Rightarrow> ('w, ban_info option) op" where
  "utils_is_muted DB env user_id room_id =
     bindM (rd_user_mute_status DB room_id user_id) (\<lambda>room_time.
     if room_time \<noteq> '''' then
       bindM (lift_result (seconds_until env
         (map_option (\<lambda>us. trunc_seconds us * micro) (py_float room_time)))) (\<lambda>s.
       ret (Some \<lparr>bi_scope = ''room'', bi_seconds = s, bi_id = room_id\<rparr>))
     else ret None)"

subsection \<open>Users\<close>

definition utils_is_moderator :: "('w, 'x) req_db_scheme \<Rightarrow> string option \<Rightarrow> string option \<Rightarrow> ('w, bool) op" where
  "utils_is_moderator DB room_id user_id =
     (if user_id = None then ret False else rd_is_moderator DB room_id user_id)"

definition user_is_online :: "('w, 'x) req_db_scheme \<Rightarrow> string option \<Rightarrow> ('w, bool) op" where
  "user_is_online DB user_id =
     (if none_or_blank user_id then ret False
      else bindM (rd_get_user_status DB (the user_id)) (\<lambda>s.
        ret (s \<in> {status_available, status_chat, status_invisible, status_away})))"

definition user_is_invisible :: "('w, 'x) req_db_scheme \<Rightarrow> string option \<Rightarrow> ('w, bool) op" where
  "user_is_invisible DB user_id =
     (if none_or_blank user_id then ret False
      else bindM (rd_get_user_status DB (the user_id)) (\<lambda>s. ret (s = status_invisible)))"

text \<open>\<open>excluded.strip().rstrip(',').split(',')\<close>.\<close>

definition get_excluded_users :: "'w renv \<Rightarrow> string \<Rightarrow> ('w, string list) op" where
  "get_excluded_users env user_id =
     bindM (re_excluded_list env user_id) (\<lambda>excluded.
     ret (if none_or_blank excluded then []
          else split_on (CHR '','') (rev (dropWhile (\<lambda>c. c = CHR '','') (rev (strip (the excluded)))))))"

definition user_is_allowed_to_delete_message ::
  "('w, 'x) req_db_scheme \<Rightarrow> string option \<Rightarrow> string option \<Rightarrow> ('w, bool) op" where
  "user_is_allowed_to_delete_message DB room_id user_id =
     bindM (ad_channel_for_room DB room_id) (\<lambda>channel_id.
     bindM (ad_is_owner DB room_id user_id) (\<lambda>b. if b then ret True else
     bindM (utils_is_moderator DB room_id user_id) (\<lambda>b. if b then ret True else
     bindM (ad_is_owner_channel DB (Some channel_id) user_id) (\<lambda>b. if b then ret True else
     bindM (utils_is_admin DB (Some channel_id) user_id) (\<lambda>b. if b then ret True else
     bindM (ad_is_super_user DB user_id) (\<lambda>b. if b then ret True else
     ad_is_global_moderator DB user_id))))))"

subsection \<open>Rooms\<close>

definition room_name_restricted :: "('w, 'x) req_db_scheme \<Rightarrow> string \<Rightarrow> ('w, bool) op" where
  "room_name_restricted DB room_name =
     (if lower (strip room_name) \<in> {''admin'', ''admins''} then ret True
      else bindM (rd_get_black_list DB) (\<lambda>words.
        ret (list_ex (\<lambda>word. contains word (lower (strip room_name))) words)))"

text \<open>
  A message from another room. The source reads \<open>activity.object.url\<close> for the channel of the
  origin too, when the activity has a provider with an address.
\<close>

definition can_send_cross_room ::
  "nat \<Rightarrow> ('w, 'x) req_db_scheme \<Rightarrow> 'w renv \<Rightarrow> activity \<Rightarrow> string option \<Rightarrow> string option \<Rightarrow> ('w, bool option) op" where
  "can_send_cross_room fuel DB env activity from_room to_room =
     (if from_room = None then throw NoOriginRoomException
      else if to_room = None then throw NoTargetRoomException
      else if from_room = to_room then ret (Some True)
      else
        bindM (if has_attr (av_provider activity) en_url then read_attr (av_object activity) en_url
               else ret None) (\<lambda>from_channel.
        bindM (if has_attr (av_object activity) en_url then read_attr (av_object activity) en_url
               else ret None) (\<lambda>to_channel.
        bindM (if none_or_blank from_channel then ad_channel_for_room DB from_room else ret (the from_channel))
          (\<lambda>from_channel.
        bindM (if none_or_blank to_channel then ad_channel_for_room DB to_room else ret (the to_channel))
          (\<lambda>to_channel.
        if from_channel \<noteq> to_channel then ret (Some False)
        else
          bindM (rd_channel_acls DB to_channel action_crossroom) (\<lambda>channel_acls.
          bindO (validate_acl_for_action fuel DB (re_acl env) activity target_channel
                   action_crossroom (Some channel_acls) None None None) (\<lambda>(is_valid, _).
          if \<not> is_valid then ret (Some False)
          else
            bindM (catchM (bindM (rd_room_acls DB (the to_room) action_crossroom) (\<lambda>acls. ret (Some acls)))
                     (\<lambda>e. case e of NoSuchRoomException _ \<Rightarrow> Some (ret None) | _ \<Rightarrow> None)) (\<lambda>room_acls.
            case room_acls of
              None \<Rightarrow> ret (Some False)
            | Some acls \<Rightarrow>
                bindO (validate_acl_for_action fuel DB (re_acl env) activity target_room
                         action_crossroom (Some acls) None None None) (\<lambda>(is_valid, _). ret (Some is_valid))))))))))"

end
