(* ===== verification/Request_Validators.thy ===== *)
theory Request_Validators
  imports Request_Env
begin

section \<open>Validation of requests\<close>

text \<open>
  \<^verbatim>\<open>dino/validation/request.py\<close> and \<^verbatim>\<open>dino/validation/base.py\<close>: every kind of request has a
  validator \<open>on_...\<close> that accepts it, or refuses it with an error code, and that may complete the
  activity. The source returns triples; \<open>True, None, None\<close> is \<open>Accepted\<close>, \<open>True, False, False\<close> is
  \<open>AcceptedUnknownRoom\<close>. \<open>Raised\<close> is the text of an exception. The result holds the activity as the validator leaves it, and is \<open>None\<close> when
  the fuel for the custom patterns of the access control lists is not enough.
\<close>

datatype detail =
    Message string
  | NoMessage
  | Raised exc
  | AlreadyMuted string string string
  | AlreadyBanned string string string string string

datatype answer = Accepted | AcceptedUnknownRoom | Refused int detail

type_synonym 'w validation = "('w, (answer \<times> activity) option) op"

definition accept :: "activity \<Rightarrow> 'w validation" where
  "accept act = ret (Some (Accepted, act))"

definition refuse :: "activity \<Rightarrow> int \<Rightarrow> string \<Rightarrow> 'w validation" where
  "refuse act code msg = ret (Some (Refused code (Message msg), act))"

definition refuse_with :: "activity \<Rightarrow> int \<Rightarrow> detail \<Rightarrow> 'w validation" where
  "refuse_with act code d = ret (Some (Refused code d, act))"

text \<open>A refusal with the message of a failed access control list.\<close>

definition refuse_acl :: "activity \<Rightarrow> string option \<Rightarrow> 'w validation" where
  "refuse_acl act msg = refuse_with act ec_not_allowed (case msg of None \<Rightarrow> NoMessage | Some m \<Rightarrow> Message m)"

text \<open>\<open>activity.object.url = x\<close> and the like.\<close>

definition set_object_channel :: "string \<Rightarrow> string \<Rightarrow> activity \<Rightarrow> activity" where
  "set_object_channel url name act =
     act\<lparr>av_object := map_option (\<lambda>e. e\<lparr>en_url := Text url, en_display_name := Text name\<rparr>) (av_object act)\<rparr>"

definition set_object_name :: "string \<Rightarrow> activity \<Rightarrow> activity" where
  "set_object_name name act =
     act\<lparr>av_object := map_option (\<lambda>e. e\<lparr>en_display_name := Text name\<rparr>) (av_object act)\<rparr>"

definition set_target_name :: "string \<Rightarrow> activity \<Rightarrow> activity" where
  "set_target_name name act =
     act\<lparr>av_target := map_option (\<lambda>e. e\<lparr>en_display_name := Text name\<rparr>) (av_target act)\<rparr>"

definition set_target_type :: "string \<Rightarrow> activity \<Rightarrow> activity" where
  "set_target_type t act =
     act\<lparr>av_target := map_option (\<lambda>e. e\<lparr>en_object_type := Text t\<rparr>) (av_target act)\<rparr>"

text \<open>\<open>if not hasattr(activity, 'object'): activity.object = DefObject(dict())\<close>.\<close>

definition with_object :: "'w renv \<Rightarrow> activity \<Rightarrow> activity" where
  "with_object env act = (if av_object act = None then act\<lparr>av_object := Some (re_new_part env)\<rparr> else act)"

text \<open>\<open>activity.object.url\<close> when there is one.\<close>

definition object_url :: "activity \<Rightarrow> ('w, string option) op" where
  "object_url act = (if has_attr (av_object act) en_url then read_attr (av_object act) en_url else ret None)"

text \<open>An operation whose exceptions of one kind lead to a refusal.\<close>

definition or_refuse :: "('w, 'a) op \<Rightarrow> (exc \<Rightarrow> bool) \<Rightarrow> 'w validation \<Rightarrow> ('a \<Rightarrow> 'w validation) \<Rightarrow> 'w validation" where
  "or_refuse m is_caught refusal f =
     bindM (catchM (bindM m (\<lambda>a. ret (Some a))) (\<lambda>e. if is_caught e then Some (ret None) else None))
       (\<lambda>r. case r of None \<Rightarrow> refusal | Some a \<Rightarrow> f a)"

fun is_no_such_room :: "exc \<Rightarrow> bool" where
  "is_no_such_room (NoSuchRoomException _) = True" | "is_no_such_room _ = False"

fun is_no_such_channel :: "exc \<Rightarrow> bool" where
  "is_no_such_channel (NoSuchChannelException _) = True" | "is_no_such_channel _ = False"

fun is_no_channel_found :: "exc \<Rightarrow> bool" where
  "is_no_channel_found (NoChannelFoundException _) = True" | "is_no_channel_found _ = False"

fun is_no_such_user :: "exc \<Rightarrow> bool" where
  "is_no_such_user (NoSuchUserException _) = True" | "is_no_such_user _ = False"

fun is_multiple_rooms :: "exc \<Rightarrow> bool" where
  "is_multiple_rooms (MultipleRoomsFoundForNameException _) = True" | "is_multiple_rooms _ = False"

text \<open>\<open>utils.is_super_user(u) or utils.is_global_moderator(u)\<close>.\<close>

definition is_operator :: "('w, 'x) req_db_scheme \<Rightarrow> string option \<Rightarrow> ('w, bool) op" where
  "is_operator DB u =
     bindM (ad_is_super_user DB u) (\<lambda>b. if b then ret True else ad_is_global_moderator DB u)"

subsection \<open>The checks of every request\<close>

definition validate_request :: "'w renv \<Rightarrow> activity \<Rightarrow> exc + verdict" where
  "validate_request env act = (case av_actor act of
     None \<Rightarrow> Inl AttributeError
   | Some actor \<Rightarrow> (case en_id actor of
       Text i \<Rightarrow>
         (let session_user = (case session_user_id env of None \<Rightarrow> ''NOT_FOUND_IN_SESSION'' | Some s \<Rightarrow> s)
          in Inr (if strip i \<noteq> strip session_user
                  then invalid (''user_id in session '' @ session_user @ '' does not match user_id in request '' @ i)
                  else valid))
     | _ \<Rightarrow> Inr (invalid ''no ID on actor'')))"

text \<open>\<open>requires_session_keys\<close>, in the order of the enumeration.\<close>

definition required_session_keys :: "string list" where
  "required_session_keys = [''user_id'', ''user_name'', ''token'']"

definition validate_session :: "(string \<times> string) list \<Rightarrow> verdict" where
  "validate_session session =
     (case find (\<lambda>key. map_of session key = None \<or> map_of session key = Some []) required_session_keys of
        Some key \<Rightarrow> invalid (quoted key @ '' is a required parameter'')
      | None \<Rightarrow> valid)"

definition validate_login :: "'w renv \<Rightarrow> string option \<Rightarrow> string option \<Rightarrow>
    ('w, bool \<times> string option \<times> (string \<times> string) list) op" where
  "validate_login env user_id token =
     bindM (re_authenticate env user_id token) (\<lambda>(is_valid, error_msg, session).
     if \<not> is_valid then ret (False, error_msg, [])
     else (case validate_session session of (ok, msg) \<Rightarrow> ret (ok, msg, session)))"

end
