(* ===== verification/Validate_Messages.thy ===== *)
theory Validate_Messages
  imports Request_Validators
begin

section \<open>Validation of messages\<close>

text \<open>
  The validators of \<open>RequestValidator\<close> for messages: sending, acknowledging, deleting, reporting,
  whispering, history, and of the session: login, disconnect, status.
\<close>

subsection \<open>Sending\<close>

text \<open>The checks of a message to a room after the channel is known.\<close>

definition message_mute_check ::
  "('w, 'x) req_db_scheme \<Rightarrow> 'w renv \<Rightarrow> activity \<Rightarrow> string \<Rightarrow> string \<Rightarrow> 'w validation \<Rightarrow> 'w validation" where
  "message_mute_check DB env act user_id room_id rest =
     (if \<not> re_validate_mutes env then rest
      else bindM (utils_is_muted DB env user_id room_id) (\<lambda>muted. case muted of
          None \<Rightarrow> rest
        | Some info \<Rightarrow> bindM (rd_get_room_name DB (bi_id info)) (\<lambda>target_name.
            refuse_with act ec_user_is_banned (AlreadyMuted (bi_seconds info) (bi_id info) target_name))))"

definition message_whisper_check ::
  "nat \<Rightarrow> ('w, 'x) req_db_scheme \<Rightarrow> 'w renv \<Rightarrow> activity \<Rightarrow> string \<Rightarrow> string \<Rightarrow> 'w validation" where
  "message_whisper_check fuel DB env act channel_id message =
     (if \<not> re_validate_whispers env then accept act
      else (case parse_message env message True of
          None \<Rightarrow> accept act
        | Some m \<Rightarrow>
            if \<not> is_whisper m then accept act
            else (let users = get_whisper_users_from_message m in
              if users = [] then refuse act ec_no_such_user ''no such user''
              else bindO (can_send_whisper_in_channel fuel DB env act channel_id) (\<lambda>in_channel.
                if \<not> in_channel
                then refuse act ec_not_allowed_to_whisper_channel ''not allowed to whisper in channel''
                else bindM (can_send_whisper_to_user DB env act users) (\<lambda>(can_whisper, reason_code).
                  if \<not> can_whisper then refuse act reason_code ''not allowed to whisper this user''
                  else accept act)))))"

text \<open>The sender must be in the room, or in another room that may send to it.\<close>

definition message_presence_check :: "nat \<Rightarrow> ('w, 'x) req_db_scheme \<Rightarrow> 'w renv \<Rightarrow> activity \<Rightarrow>
    string option \<Rightarrow> string option \<Rightarrow> string \<Rightarrow> 'w validation \<Rightarrow> 'w validation" where
  "message_presence_check fuel DB env act user_id from_room_id room_id rest =
     bindM (utils_is_user_in_room DB user_id (Some room_id)) (\<lambda>inside.
     if inside then rest
     else (case from_room_id of
         None \<Rightarrow> refuse act ec_user_not_in_room ''user is not in target room''
       | Some origin \<Rightarrow>
           bindM (utils_is_user_in_room DB user_id (Some origin)) (\<lambda>inside.
           if \<not> inside
           then refuse act ec_user_not_in_room ''user is not in origin room, cannot send message from there''
           else bindO (can_send_cross_room fuel DB env act (Some origin) (Some room_id)) (\<lambda>may.
             if \<not> may
             then refuse act ec_not_allowed (''user not allowed to send cross-room msg from '' @ origin @ '' to '' @ room_id)
             else rest))))"

definition message_room_checks :: "nat \<Rightarrow> ('w, 'x) req_db_scheme \<Rightarrow> 'w renv \<Rightarrow> activity \<Rightarrow> string option \<Rightarrow>
    string option \<Rightarrow> string \<Rightarrow> string \<Rightarrow> string \<Rightarrow> 'w validation" where
  "message_room_checks fuel DB env act user_id from_room_id room_id channel_id message =
     bindM (rd_channel_exists DB (Some channel_id)) (\<lambda>known.
     if \<not> known then refuse act ec_no_such_channel (''channel '' @ channel_id @ '' does not exists'')
     else bindM (rd_room_exists DB channel_id room_id) (\<lambda>known.
       if \<not> known then refuse act ec_no_such_room (''target room '' @ room_id @ '' does not exist'')
       else bindM (case from_room_id of
             None \<Rightarrow> ret True
           | Some origin \<Rightarrow> if origin = room_id then ret True else rd_room_exists DB channel_id origin) (\<lambda>known.
         if \<not> known then refuse act ec_no_such_room (''origin room '' @ fmt from_room_id @ '' does not exist'')
         else message_presence_check fuel DB env act user_id from_room_id room_id
           (message_mute_check DB env act (the user_id) room_id
             (message_whisper_check fuel DB env act channel_id message)))))"

definition on_message_room :: "nat \<Rightarrow> ('w, 'x) req_db_scheme \<Rightarrow> 'w renv \<Rightarrow> activity \<Rightarrow> string option \<Rightarrow>
    string option \<Rightarrow> string \<Rightarrow> string \<Rightarrow> 'w validation" where
  "on_message_room fuel DB env act user_id from_room_id room_id message =
     bindM (object_url act) (\<lambda>url.
     bindM (if none_or_blank url then ad_channel_for_room DB (Some room_id) else ret (the url)) (\<lambda>channel_id.
     if channel_id = '''' then refuse act ec_missing_object_url ''no channel id specified when sending message''
     else bindM (rd_get_channel_name DB (Some channel_id)) (\<lambda>channel_name.
       message_room_checks fuel DB env (set_object_channel channel_id channel_name act) user_id from_room_id
         room_id channel_id message)))"

definition on_message_private :: "('w, 'x) req_db_scheme \<Rightarrow> activity \<Rightarrow> string \<Rightarrow> 'w validation" where
  "on_message_private DB act room_id =
     bindM (object_url act) (\<lambda>url.
     or_refuse (if none_or_blank url then ad_channel_for_room DB (Some room_id) else ret (the url))
       is_no_such_room (ret (Some (AcceptedUnknownRoom, act))) (\<lambda>channel_id.
     bindM (rd_channel_exists DB (Some channel_id)) (\<lambda>known.
     if \<not> known then refuse act ec_no_such_channel (''channel '' @ channel_id @ '' does not exists'')
     else bindM (rd_room_exists DB channel_id room_id) (\<lambda>known.
       if \<not> known then refuse act ec_no_such_room (''target room '' @ room_id @ '' does not exist'')
       else accept act))))"

definition on_message :: "nat \<Rightarrow> ('w, 'x) req_db_scheme \<Rightarrow> 'w renv \<Rightarrow> activity \<Rightarrow> 'w validation" where
  "on_message fuel DB env act =
     bindM (read_attr (av_target act) en_id) (\<lambda>room_id.
     bindM (read_attr (av_actor act) en_id) (\<lambda>user_id.
     bindM (read_attr (av_target act) en_object_type) (\<lambda>object_type.
     bindM (read_attr (av_object act) en_content) (\<lambda>message.
     bindM (if has_attr (av_actor act) en_url then read_attr (av_actor act) en_url else ret None) (\<lambda>from_room_id.
     if none_or_blank message then refuse act ec_empty_message ''empty message body''
     else if \<not> is_base64 message then refuse act ec_not_base64 ''invalid message content, not base64 encoded''
     else if room_id = None \<or> room_id = Some '''' then
       refuse act ec_missing_target_id ''no room id specified when sending message''
     else if object_type = Some ''room'' then
       on_message_room fuel DB env act user_id from_room_id (the room_id) (the message)
     else if object_type = Some ''private'' then on_message_private DB act (the room_id)
     else refuse act ec_invalid_target_type
       (''invalid object_type '' @ quoted (fmt object_type) @ '', must be one of [room, private]''))))))"

subsection \<open>Acknowledgements\<close>

text \<open>
  The check of an id by \<open>UUID(message_id)\<close>: \<open>urn:\<close>, \<open>uuid:\<close>, braces around and dashes are dropped,
  then 32 characters have to be a number of base 16 as \<open>int\<close> reads it.
\<close>

definition is_hex_digit :: "char \<Rightarrow> bool" where
  "is_hex_digit c \<longleftrightarrow> c \<in> set ''0123456789abcdefABCDEF''"

definition hex_digits_ok :: "string \<Rightarrow> bool" where
  "hex_digits_ok s \<longleftrightarrow> list_all (\<lambda>p. p \<noteq> [] \<and> list_all is_hex_digit p) (split_on (CHR ''_'') s)"

definition int_base16_ok :: "string \<Rightarrow> bool" where
  "int_base16_ok s =
     (let t = strip s;
          t = (case t of c # cs \<Rightarrow> if c = CHR ''+'' then cs else t | [] \<Rightarrow> t)
      in case t of
           z # x # cs \<Rightarrow>
             (if z = CHR ''0'' \<and> x \<in> set ''xX''
              then hex_digits_ok (case cs of c # ds \<Rightarrow> if c = CHR ''_'' then ds else cs | [] \<Rightarrow> cs)
              else hex_digits_ok t)
         | _ \<Rightarrow> hex_digits_ok t)"

definition strip_braces :: "string \<Rightarrow> string" where
  "strip_braces s = (let b = (\<lambda>c. c = CHR 0x7B \<or> c = CHR 0x7D) in rev (dropWhile b (rev (dropWhile b s))))"

definition uuid_ok :: "string \<Rightarrow> bool" where
  "uuid_ok s =
     (let h = filter (\<lambda>c. c \<noteq> CHR ''-'') (strip_braces (py_replace ''uuid:'' '''' (py_replace ''urn:'' '''' s)))
      in length h = 32 \<and> int_base16_ok h)"

text \<open>The loop over the attachments: the ids, or a refused one.\<close>

fun message_ids :: "attachment list \<Rightarrow> exc + string + string list" where
  "message_ids [] = Inr (Inr [])"
| "message_ids (a # as) = (case at_id a of
     Absent \<Rightarrow> Inl AttributeError
   | Null \<Rightarrow> Inl TypeError
   | Text i \<Rightarrow>
       if \<not> uuid_ok i then Inr (Inl i)
       else (case message_ids as of
           Inl e \<Rightarrow> Inl e
         | Inr (Inl bad) \<Rightarrow> Inr (Inl bad)
         | Inr (Inr ids) \<Rightarrow> Inr (Inr (List.insert (strip i) ids))))"

definition on_read_or_receive :: "activity \<Rightarrow> string \<Rightarrow> 'w validation" where
  "on_read_or_receive act expected_verb =
     (if av_verb act = Absent then refuse act ec_missing_verb ''no verb on activity''
      else bindM (if has_attr (av_target act) en_id
                  then bindM (read_attr (av_target act) en_id) (\<lambda>i. bindM (text_of i) (\<lambda>t. ret (blank t)))
                  else ret True) (\<lambda>missing.
        if missing then refuse act ec_missing_target_id ''no target.id on activity''
        else if av_verb act \<noteq> Text expected_verb then
          refuse act ec_invalid_verb (''expecting verb '' @ quoted expected_verb @ '' but was '' @
            quoted (case av_verb act of Text v \<Rightarrow> v | _ \<Rightarrow> ''None''))
        else (case av_object act of
            None \<Rightarrow> refuse act ec_missing_object_attachments ''no attachments found on object''
          | Some ob \<Rightarrow> (case en_attachments ob of
              None \<Rightarrow> refuse act ec_missing_object_attachments ''no attachments found on object''
            | Some None \<Rightarrow> throw TypeError
            | Some (Some attachments) \<Rightarrow>
                bindM (lift_result (message_ids attachments)) (\<lambda>r. case r of
                  Inl bad \<Rightarrow> refuse act ec_validation_error
                    (quoted bad @ '' is not a valid uuid (activity.object.attachments.id)'')
                | Inr ids \<Rightarrow>
                    if ids = [] then refuse act ec_missing_object_attachments ''no attachments found on object''
                    else if length ids > 500 then refuse act ec_too_many_attachments
                      (''max 500 attachments allowed at one time, received '' @ str_int (int (length ids)))
                    else accept act)))))"

definition on_read :: "activity \<Rightarrow> 'w validation" where
  "on_read act = on_read_or_receive act ''read''"

definition on_received :: "activity \<Rightarrow> 'w validation" where
  "on_received act = on_read_or_receive act ''receive''"

subsection \<open>Deleting, reporting\<close>

definition on_delete :: "('w, 'x) req_db_scheme \<Rightarrow> 'w renv \<Rightarrow> activity \<Rightarrow> 'w validation" where
  "on_delete DB env act =
     bindM (read_attr (av_actor act) en_id) (\<lambda>user_id.
     bindM (read_attr (av_target act) en_id) (\<lambda>room_id.
     bindM (read_attr (av_object act) en_id) (\<lambda>message_id.
     if none_or_blank message_id then refuse act ec_missing_object_id ''no object ID when deleting message''
     else bindM (if re_sender_can_delete env
                 then bindM (re_message_sender env (the message_id)) (\<lambda>sender. ret (sender = user_id))
                 else ret False) (\<lambda>own.
       if own then accept act
       else bindM (user_is_allowed_to_delete_message DB room_id user_id) (\<lambda>may.
         if may then accept act
         else refuse act ec_not_allowed (''not allowed to remove message in room '' @ fmt room_id))))))"

text \<open>
  \<open>on_report\<close> logs an exception with \<open>traceback.format_exc(e)\<close>, whose argument has to be a
  number, so that the handler itself raises \<open>TypeError\<close>; and texts have no method \<open>trim\<close>.
\<close>

definition on_report :: "('w, 'x) req_db_scheme \<Rightarrow> activity \<Rightarrow> 'w validation" where
  "on_report DB act =
     (if \<not> has_attr (av_object act) en_content then
        refuse act ec_missing_object_content ''need object.content (reported message)''
      else if \<not> has_attr (av_object act) en_id then
        refuse act ec_missing_object_id ''need object.id (id of reported message)''
      else if \<not> has_attr (av_target act) en_id then
        refuse act ec_missing_target_id ''need target.id (id of user reported)''
      else bindM (read_attr (av_target act) en_id) (\<lambda>target_id.
        bindM (catchM (rd_get_user_name DB target_id) (\<lambda>_. Some (throw TypeError))) (\<lambda>name.
        let act = set_target_name name act in
        bindM (read_attr (av_object act) en_content) (\<lambda>content.
        if \<not> is_base64 content then refuse act ec_not_base64 ''object.content is not base64 encoded''
        else if has_attr (av_object act) en_summary then throw AttributeError
        else accept act))))"

subsection \<open>Whispering, history\<close>

definition on_whisper :: "nat \<Rightarrow> ('w, 'x) req_db_scheme \<Rightarrow> 'w renv \<Rightarrow> activity \<Rightarrow> 'w validation" where
  "on_whisper fuel DB env act =
     (if \<not> has_attr (av_target act) en_id then
        refuse act ec_missing_target_id ''no target.id (user uuid to whisper to)''
      else if \<not> has_attr (av_actor act) en_id then
        refuse act ec_missing_actor_id ''no actor.id (id of user who is whispering)''
      else if \<not> has_attr (av_actor act) en_url then
        refuse act ec_missing_actor_url ''no actor.url (room uuid to whisper in)''
      else if \<not> has_attr (av_object act) en_content then
        refuse act ec_missing_object_content ''no object.content (message to whisper)''
      else bindM (read_attr (av_object act) en_content) (\<lambda>content.
        if \<not> is_base64 content then refuse act ec_not_base64 ''object.content needs to be base64 encoded''
        else bindM (read_attr (av_actor act) en_url) (\<lambda>room_id.
          or_refuse (ad_channel_for_room DB room_id) (\<lambda>e. is_no_such_channel e \<or> is_no_channel_found e)
            (refuse act ec_no_such_room ''no room found for actor.url (room uuid to whisper in)'') (\<lambda>channel_id.
          let act = act\<lparr>av_object := map_option (\<lambda>e. e\<lparr>en_url := Text channel_id\<rparr>) (av_object act)\<rparr> in
          or_refuse (rd_get_channel_name DB (Some channel_id)) (\<lambda>e. is_no_such_channel e \<or> is_no_channel_found e)
            (refuse act ec_no_such_channel ''no channel found for actor.url (room uuid to whisper in)'') (\<lambda>name.
          let act = set_object_name name act in
          bindM (rd_channel_acls DB channel_id action_whisper) (\<lambda>acls.
          bindO (validate_acl_for_action fuel DB (re_acl env) act target_channel action_whisper (Some acls) None None None)
            (\<lambda>(is_valid, msg). if \<not> is_valid then refuse_acl act msg else accept act)))))))"

definition on_history :: "nat \<Rightarrow> ('w, 'x) req_db_scheme \<Rightarrow> 'w renv \<Rightarrow> activity \<Rightarrow> 'w validation" where
  "on_history fuel DB env act =
     bindM (read_attr (av_target act) en_id) (\<lambda>room_id.
     if none_or_blank room_id then refuse act ec_missing_target_id ''invalid target id''
     else or_refuse (rd_room_acls DB (the room_id) action_history) is_no_such_room
       (refuse act ec_no_such_room ''no such room'') (\<lambda>acls.
       bindO (validate_acl_for_action fuel DB (re_acl env) act target_room action_history (Some acls) None None None)
         (\<lambda>(is_valid, msg). if \<not> is_valid then refuse_acl act msg else accept act)))"

subsection \<open>Login, disconnect, status\<close>

text \<open>
  \<open>on_login\<close> writes the attachments of the actor into the session, then the session of the
  authenticated user. A session is a list of keys and values here, either of which may be \<open>None\<close>.
\<close>

type_synonym session = "(string option \<times> string option) list"

fun attach_session :: "attachment list \<Rightarrow> session \<Rightarrow> exc + session" where
  "attach_session [] s = Inr s"
| "attach_session (a # as) s = (case (attr_value (at_content a), attr_value (at_object_type a)) of
     (Inl e, _) \<Rightarrow> Inl e
   | (Inr v, Inl e) \<Rightarrow> Inl e
   | (Inr v, Inr k) \<Rightarrow> attach_session as (AList.update k v s))"

definition fill_session :: "(string \<times> string) list \<Rightarrow> session \<Rightarrow> session" where
  "fill_session user s = fold (\<lambda>(k, v). AList.update (Some k) (Some v)) user s"

definition on_login ::
  "('w, 'x) req_db_scheme \<Rightarrow> 'w renv \<Rightarrow> activity \<Rightarrow> session \<Rightarrow> ('w, answer \<times> session) op" where
  "on_login DB env act session =
     bindM (read_attr (av_actor act) en_id) (\<lambda>user_id.
     bindM (utils_is_banned_globally DB env user_id) (\<lambda>(is_banned, duration).
     if is_banned then
       thenM (re_event env (JoinedRoom (the user_id)))
       (bindM (reason_for_ban DB (the user_id) None '''') (\<lambda>reason.
        thenM (re_event env (Emitted ''gn_banned'' (the user_id)))
        (ret (Refused ec_user_is_banned
          (Message (''user '' @ the user_id @ '' is banned from chatting for: '' @ fmt duration @ ''s'')), session))))
     else
       bindM (lift_result (case av_actor act of
           None \<Rightarrow> Inr session
         | Some actor \<Rightarrow> (case en_attachments actor of
             Some (Some attachments) \<Rightarrow> attach_session attachments session
           | _ \<Rightarrow> Inr session))) (\<lambda>session.
       case map_of session (Some ''token'') of
         None \<Rightarrow> ret (Refused ec_no_user_in_session (Message ''no token in session''), session)
       | Some token \<Rightarrow>
           bindM (validate_login env user_id token) (\<lambda>(is_valid, error_msg, user_session).
           ret (if \<not> is_valid
                then (Refused ec_not_allowed (case error_msg of None \<Rightarrow> NoMessage | Some m \<Rightarrow> Message m), session)
                else (Accepted, fill_session user_session session))))))"

definition on_disconnect :: "'w renv \<Rightarrow> activity \<Rightarrow> 'w validation" where
  "on_disconnect env act =
     (if session_user_id env = None \<or> session_user_name env = None
      then refuse act ec_no_user_in_session ''no user in session, not connected''
      else accept act)"

definition can_be_invisible :: "('w, 'x) req_db_scheme \<Rightarrow> 'w renv \<Rightarrow> string option \<Rightarrow> ('w, bool) op" where
  "can_be_invisible DB env user_id = (if re_invisible_unrestricted env then ret True else is_operator DB user_id)"

definition on_status :: "('w, 'x) req_db_scheme \<Rightarrow> 'w renv \<Rightarrow> activity \<Rightarrow> 'w validation" where
  "on_status DB env act =
     bindM (lift_result (attr_value (av_verb act))) (\<lambda>status.
     if session_user_name env = None then refuse act ec_no_user_in_session ''no user name in session''
     else bindM (lift_result (validate_request env act)) (\<lambda>(is_valid, msg).
       if \<not> is_valid then refuse_acl act msg
       else if status \<notin> Some ` {''online'', ''offline'', ''invisible''} then
         refuse act ec_invalid_status (''invalid status '' @ fmt status)
       else if status = Some ''invisible'' then
         bindM (can_be_invisible DB env (session_user_id env)) (\<lambda>may.
         if \<not> may then refuse act ec_not_allowed ''only ops can be invisible'' else accept act)
       else accept act))"

end
