(* ===== verification/Validate_Rooms.thy ===== *)
theory Validate_Rooms
  imports Request_Validators
begin

section \<open>Validation of requests about rooms\<close>

text \<open>
  The validators of \<open>RequestValidator\<close> for rooms and their users: creating, removing, renaming,
  joining, leaving, listing, inviting, kicking, banning, access control lists, user information.
\<close>

subsection \<open>Creating, removing, renaming\<close>

text \<open>The checks on the decoded name and on the rules of the channel.\<close>

definition create_checks ::
  "nat \<Rightarrow> ('w, 'x) req_db_scheme \<Rightarrow> 'w renv \<Rightarrow> activity \<Rightarrow> string option \<Rightarrow> string \<Rightarrow> 'w validation" where
  "create_checks fuel DB env act channel_id name =
     bindM (rd_channel_exists DB channel_id) (\<lambda>known.
     if \<not> known then refuse act ec_no_such_channel ''channel does not exist''
     else bindM (room_name_restricted DB name) (\<lambda>restricted.
       if restricted then refuse act ec_room_name_restricted ''restricted room name''
       else bindM (rd_room_name_exists DB (the channel_id) name) (\<lambda>taken.
         if taken then refuse act ec_room_already_exists ''a room with that name already exists''
         else let act = (if target_type_missing act then set_target_type ''room'' act else act) in
           bindM (rd_channel_acls DB (the channel_id) action_create) (\<lambda>acls.
           bindO (validate_acl_for_action fuel DB (re_acl env) act target_channel action_create (Some acls)
                    None None None)
             (\<lambda>(is_valid, msg). if \<not> is_valid then refuse_acl act msg else accept act)))))"

definition on_create :: "nat \<Rightarrow> ('w, 'x) req_db_scheme \<Rightarrow> 'w renv \<Rightarrow> activity \<Rightarrow> 'w validation" where
  "on_create fuel DB env act =
     (if \<not> has_attr (av_object act) en_url then refuse act ec_missing_object_url ''no channel id set''
      else if \<not> has_attr (av_target act) en_display_name then
        (if av_target act = None then throw AttributeError
         else refuse act ec_missing_target_display_name ''no room name set'')
      else bindM (read_attr (av_target act) en_display_name) (\<lambda>room_name.
        bindM (read_attr (av_object act) en_url) (\<lambda>channel_id.
        if \<not> has_attr (av_actor act) en_id then refuse act ec_missing_actor_id ''need actor.id (user uuid)''
        else or_refuse (rd_get_channel_name DB channel_id) is_no_such_channel
          (refuse act ec_no_such_channel ''channel does not exist'') (\<lambda>channel_name.
        let act = set_object_name channel_name act in
        if none_or_blank room_name then
          refuse act ec_missing_target_display_name ''got blank room name, can not create''
        else if \<not> is_base64 room_name then
          refuse act ec_not_base64 ''invalid room name, not base64 encoded''
        else create_checks fuel DB env act channel_id (b64d room_name)))))"

definition remove_or_rename_room ::
  "('w, 'x) req_db_scheme \<Rightarrow> activity \<Rightarrow> string \<Rightarrow> 'w validation" where
  "remove_or_rename_room DB act action =
     bindM (read_attr (av_actor act) en_id) (\<lambda>user_id.
     bindM (read_attr (av_target act) en_id) (\<lambda>room_id.
     bindM (ad_is_owner DB room_id user_id) (\<lambda>b. if b then accept act else
     bindM (ad_is_super_user DB user_id) (\<lambda>b. if b then accept act else
     bindM (bindM (ad_is_global_moderator DB user_id) (\<lambda>b. if b then rd_is_room_ephemeral DB room_id else ret False))
       (\<lambda>b. if b then accept act else
     bindM (bindM (utils_is_moderator DB room_id user_id) (\<lambda>b. if b then rd_is_room_ephemeral DB room_id else ret False))
       (\<lambda>b. if b then accept act else
     bindM (ad_channel_for_room DB room_id) (\<lambda>channel_id.
     bindM (utils_is_admin DB (Some channel_id) user_id) (\<lambda>b. if b then accept act else
     bindM (ad_is_owner_channel DB (Some channel_id) user_id) (\<lambda>b. if b then accept act else
     refuse act ec_not_allowed (''user '' @ fmt user_id @ '' is not allowed to '' @ action @ '' the room''))))))))))"

definition on_remove_room :: "('w, 'x) req_db_scheme \<Rightarrow> activity \<Rightarrow> 'w validation" where
  "on_remove_room DB act = remove_or_rename_room DB act ''remove''"

definition on_rename_room :: "('w, 'x) req_db_scheme \<Rightarrow> activity \<Rightarrow> 'w validation" where
  "on_rename_room DB act = remove_or_rename_room DB act ''rename''"

subsection \<open>Joining\<close>

text \<open>The room of the request by its id or by its name: \<open>Inl\<close> a refusal.\<close>

definition join_target :: "('w, 'x) req_db_scheme \<Rightarrow> string option \<Rightarrow> string option \<Rightarrow>
    ('w, (int \<times> string) + (string \<times> string)) op" where
  "join_target DB room_id room_name =
     (if \<not> none_or_blank room_id then
        catchM (bindM (rd_get_room_name DB (the room_id)) (\<lambda>name. ret (Inr (the room_id, name))))
          (\<lambda>e. if is_no_such_room e
             then Some (ret (Inl (ec_no_such_room, ''room with id '' @ quoted (the room_id) @ '' does not exist'')))
             else None)
      else if none_or_blank room_name then
        ret (Inl (ec_missing_target_display_name, ''neither room id nor name supplied''))
      else
        catchM (bindM (rd_get_room_id_for_name DB (the room_name)) (\<lambda>i. ret (Inr (i, the room_name))))
          (\<lambda>e. if is_no_such_room e
             then Some (ret (Inl (ec_no_such_room, ''room does not exists with given name '' @ quoted (the room_name))))
             else if is_multiple_rooms e
             then Some (ret (Inl (ec_multiple_rooms_with_name, ''found multiple rooms with name '' @ quoted (the room_name))))
             else None))"

text \<open>\<open>should_exclude_room\<close>: the owner ignores the user; the owner of static rooms is \<open>0\<close>.\<close>

definition owner_excludes :: "string list \<Rightarrow> string \<Rightarrow> bool" where
  "owner_excludes excluded_users owner_id \<longleftrightarrow>
     \<not> blank owner_id \<and> owner_id \<noteq> ''0'' \<and> owner_id \<in> set excluded_users"

definition join_ban_check ::
  "('w, 'x) req_db_scheme \<Rightarrow> 'w renv \<Rightarrow> activity \<Rightarrow> string \<Rightarrow> string \<Rightarrow> 'w validation" where
  "join_ban_check DB env act user_id room_id =
     bindM (utils_is_banned DB env user_id room_id) (\<lambda>banned. case banned of
       None \<Rightarrow> accept act
     | Some info \<Rightarrow>
         bindM (if bi_scope info = ''room'' then rd_get_room_name DB (bi_id info)
                else if bi_scope info = ''channel'' then rd_get_channel_name DB (Some (bi_id info))
                else ret '''') (\<lambda>target_name.
         bindM (reason_for_ban DB user_id (Some (bi_scope info)) (bi_id info)) (\<lambda>reason.
         refuse_with act ec_user_is_banned
           (AlreadyBanned (bi_seconds info) reason (bi_scope info) (bi_id info) target_name))))"

text \<open>A user without a role that opens the room: the owners' ignore lists, the rules of the room, the bans.\<close>

definition join_as_guest :: "nat \<Rightarrow> ('w, 'x) req_db_scheme \<Rightarrow> 'w renv \<Rightarrow> activity \<Rightarrow>
    string \<Rightarrow> string \<Rightarrow> string \<Rightarrow> 'w validation" where
  "join_as_guest fuel DB env act user_id room_id channel_id =
     bindM (get_excluded_users env user_id) (\<lambda>excluded_users.
     bindM (rd_get_owners_room DB room_id) (\<lambda>room_owners.
     if list_ex (\<lambda>(owner_id, _). owner_excludes excluded_users owner_id) room_owners then
       refuse act ec_not_allowed ''matches ignore list''
     else bindM (rd_get_channel_name DB (Some channel_id)) (\<lambda>channel_name.
       let act = set_target_type ''room'' (set_object_channel channel_id channel_name act) in
       or_refuse (rd_room_acls DB room_id action_join) is_no_such_room
         (refuse act ec_no_such_room ''no such room'') (\<lambda>acls.
       bindO (validate_acl_for_action fuel DB (re_acl env) act target_room action_join (Some acls) None None None)
         (\<lambda>(is_valid, msg).
          if \<not> is_valid then refuse_acl act msg
          else join_ban_check DB env act user_id room_id)))))"

definition join_entry :: "nat \<Rightarrow> ('w, 'x) req_db_scheme \<Rightarrow> 'w renv \<Rightarrow> activity \<Rightarrow>
    string option \<Rightarrow> string \<Rightarrow> 'w validation" where
  "join_entry fuel DB env act user_id room_id =
     bindM (is_operator DB user_id) (\<lambda>b. if b then accept act else
     bindM (ad_is_owner DB (Some room_id) user_id) (\<lambda>b. if b then accept act else
     bindM (ad_channel_for_room DB (Some room_id)) (\<lambda>channel_id.
     bindM (ad_is_owner_channel DB (Some channel_id) user_id) (\<lambda>b. if b then accept act else
     join_as_guest fuel DB env act (the user_id) room_id channel_id))))"

definition on_join :: "nat \<Rightarrow> ('w, 'x) req_db_scheme \<Rightarrow> 'w renv \<Rightarrow> activity \<Rightarrow> 'w validation" where
  "on_join fuel DB env act =
     bindM (read_attr (av_target act) en_id) (\<lambda>target_id.
     bindM (read_attr (av_target act) en_display_name) (\<lambda>room_name.
     bindM (if none_or_blank (session_user_id env) then read_attr (av_actor act) en_id
            else ret (session_user_id env)) (\<lambda>user_id.
     bindM (join_target DB target_id room_name) (\<lambda>room. case room of
       Inl (code, msg) \<Rightarrow> refuse act code msg
     | Inr (room_id, room_name) \<Rightarrow>
         bindM (user_is_online DB user_id) (\<lambda>online.
         if \<not> online then
           thenM (catchM (bindM (rd_get_user_name DB user_id) (\<lambda>_. ret ()))
                    (\<lambda>e. if is_no_such_user e then Some (ret ()) else None))
             (refuse (with_object env act) ec_not_online ''user is not online'')
         else join_entry fuel DB env (with_object env act) user_id room_id)))))"

subsection \<open>Leaving, listing, users\<close>

definition on_leave :: "activity \<Rightarrow> 'w validation" where
  "on_leave act =
     (if \<not> has_attr (av_target act) en_id
      then refuse act ec_missing_target_id ''room_id is None when trying to leave room'' else accept act)"

definition on_list_rooms :: "nat \<Rightarrow> ('w, 'x) req_db_scheme \<Rightarrow> 'w renv \<Rightarrow> activity \<Rightarrow> 'w validation" where
  "on_list_rooms fuel DB env act =
     (if \<not> has_attr (av_object act) en_url then refuse act ec_missing_object_url ''need channel ID to list rooms''
      else bindM (read_attr (av_object act) en_url) (\<lambda>channel_id.
        if channel_id = None \<or> channel_id = Some '''' then
          refuse act ec_missing_object_url ''need channel ID to list rooms''
        else bindM (read_attr (av_actor act) en_id) (\<lambda>user_id.
          bindM (utils_is_banned_globally DB env user_id) (\<lambda>(is_banned, duration).
          if is_banned then
            thenM (re_event env (JoinedRoom (the user_id)))
            (bindM (reason_for_ban DB (the user_id) None '''') (\<lambda>reason.
             thenM (re_event env (Emitted ''gn_banned'' (the user_id)))
             (thenM (re_event env Disconnected)
             (refuse_with act ec_user_is_banned (AlreadyBanned (fmt duration) reason ''global'' '''' '''')))))
          else
            let act = act\<lparr>av_target := Some ((re_new_part env)\<lparr>en_object_type := Text ''channel''\<rparr>)\<rparr> in
            bindM (rd_channel_acls DB (the channel_id) action_list) (\<lambda>acls.
            bindO (validate_acl_for_action fuel DB (re_acl env) act target_channel action_list (Some acls)
                     None None None)
              (\<lambda>(is_valid, msg). if \<not> is_valid then refuse_acl act msg else accept act))))))"

definition on_users_in_room :: "activity \<Rightarrow> 'w validation" where
  "on_users_in_room act =
     bindM (read_attr (av_target act) en_id) (\<lambda>room_id.
     if none_or_blank room_id then refuse act ec_missing_target_id ''no room id specified'' else accept act)"

text \<open>The loop over the attachments with user information: a refusal, or \<open>None\<close>.\<close>

fun info_refusal :: "attachment list \<Rightarrow> exc + (int \<times> string) option" where
  "info_refusal [] = Inr None"
| "info_refusal (a # as) = (case at_object_type a of
     Absent \<Rightarrow> Inr (Some (ec_missing_attachment_type, ''no objectType on attachment for object''))
   | Null \<Rightarrow> Inl AttributeError
   | Text t \<Rightarrow>
       if blank t then Inr (Some (ec_missing_attachment_type, ''no objectType on attachment for object''))
       else (case at_content a of
           Absent \<Rightarrow> Inr (Some (ec_missing_attachment_content, ''no content on attachment for object''))
         | Null \<Rightarrow> Inl AttributeError
         | Text c \<Rightarrow>
             if blank c then Inr (Some (ec_missing_attachment_content, ''no content on attachment for object''))
             else if \<not> is_base64 (Some c)
             then Inr (Some (ec_not_base64, ''content on attachment for object is not base64 encoded''))
             else info_refusal as))"

definition on_update_user_info :: "activity \<Rightarrow> 'w validation" where
  "on_update_user_info act = (case av_object act of
     None \<Rightarrow> refuse act ec_missing_object ''no object on activity''
   | Some ob \<Rightarrow> (case en_attachments ob of
       None \<Rightarrow> refuse act ec_missing_object_attachments ''no attachments on object''
     | Some None \<Rightarrow> throw TypeError
     | Some (Some attachments) \<Rightarrow>
         if attachments = [] then refuse act ec_missing_object_attachments ''no attachments on object''
         else bindM (lift_result (info_refusal attachments)) (\<lambda>r. case r of
             Some (code, msg) \<Rightarrow> refuse act code msg | None \<Rightarrow> accept act)))"

subsection \<open>Kicking, banning, inviting\<close>

definition on_kick :: "('w, 'x) req_db_scheme \<Rightarrow> activity \<Rightarrow> 'w validation" where
  "on_kick DB act =
     bindM (read_attr (av_actor act) en_id) (\<lambda>kicker_id.
     bindM (read_attr (av_target act) en_id) (\<lambda>room_id.
     bindM (read_attr (av_object act) en_id) (\<lambda>user_id_to_kick.
     if none_or_blank room_id then refuse act ec_missing_target_id ''got blank room id, can not kick''
     else or_refuse (rd_get_room_name DB (the room_id)) is_no_such_room
       (refuse act ec_no_such_room (''no room with id '' @ quoted (the room_id) @ '' exists'')) (\<lambda>_.
     if none_or_blank user_id_to_kick then
       refuse act ec_missing_target_display_name ''got blank user id, can not kick''
     else bindM (is_operator DB user_id_to_kick) (\<lambda>operator.
       if operator then refuse act ec_not_allowed ''not allowed to kick operators''
       else bindM (ad_channel_for_room DB room_id) (\<lambda>channel_id.
         bindM (ad_is_owner DB room_id kicker_id) (\<lambda>b. if b then accept act else
         bindM (is_operator DB kicker_id) (\<lambda>b. if b then accept act else
         bindM (utils_is_admin DB (Some channel_id) kicker_id) (\<lambda>b. if b then accept act else
         refuse act ec_not_allowed ''not allowed to kick'')))))))))"

definition on_ban :: "('w, 'x) req_db_scheme \<Rightarrow> activity \<Rightarrow> 'w validation" where
  "on_ban DB act =
     bindM (read_attr (av_target act) en_id) (\<lambda>room_id.
     bindM (read_attr (av_target act) en_object_type) (\<lambda>target_type.
     bindM (read_attr (av_actor act) en_id) (\<lambda>user_id.
     bindM (read_attr (av_object act) en_id) (\<lambda>kicked_id.
     bindM (read_attr (av_object act) en_summary) (\<lambda>ban_duration.
     let is_global_ban = (target_type = Some ''global'' \<or> room_id = None \<or> room_id = Some '''') in
     bindM (if is_global_ban then ret None
            else bindM (object_url act) (\<lambda>url.
              if none_or_blank url then bindM (ad_channel_for_room DB room_id) (\<lambda>c. ret (Some c)) else ret url))
       (\<lambda>channel_id.
     case duration_error ban_duration of
       Some msg \<Rightarrow> refuse act ec_invalid_ban_duration (''invalid ban duration: '' @ msg)
     | None \<Rightarrow>
         or_refuse (if \<not> is_global_ban \<and> \<not> none_or_blank room_id
                    then bindM (rd_get_room_name DB (the room_id)) (\<lambda>_. ret ()) else ret ())
           is_no_such_room (refuse act ec_no_such_room (''no room found for uuid: '' @ fmt room_id)) (\<lambda>_.
         if none_or_blank kicked_id then refuse act ec_missing_object_id ''got blank user id, can not ban''
         else bindM (if is_global_ban then ret True else rd_room_exists DB (the channel_id) (the room_id)) (\<lambda>known.
           if \<not> known then refuse act ec_no_such_room (''no room with id '' @ quoted (fmt room_id) @ '' exists'')
           else bindM (is_operator DB user_id) (\<lambda>b. if b then accept act else
             bindM (is_operator DB kicked_id) (\<lambda>b.
             if b then refuse act ec_no_such_room ''not allowed to kick super users or global mobs''
             else if \<not> is_global_ban then
               bindM (ad_is_owner DB room_id user_id) (\<lambda>b.
               if \<not> b then refuse act ec_not_allowed ''only owners can ban'' else accept act)
             else bindM (utils_is_admin DB channel_id user_id) (\<lambda>b.
               if \<not> b
               then refuse act ec_not_allowed ''only admins, super users and global mods can do global bans''
               else accept act)))))))))))"

definition on_invite :: "('w, 'x) req_db_scheme \<Rightarrow> 'w renv \<Rightarrow> activity \<Rightarrow> 'w validation" where
  "on_invite DB env act = (case av_actor act of
     None \<Rightarrow> throw AttributeError
   | Some actor \<Rightarrow>
      if en_url actor = Absent then refuse act ec_missing_actor_url ''need invite room uuid in actor.url''
      else bindM (read_attr (av_actor act) en_url) (\<lambda>invite_room.
        if \<not> has_attr (av_target act) en_id then
          refuse act ec_missing_target_id ''no target.id (uuid of user to invite)''
        else bindM (read_attr (av_target act) en_id) (\<lambda>target_id.
          or_refuse (rd_get_user_name DB target_id) is_no_such_user
            (refuse act ec_no_such_user ''no such user for target.id (uuid of user to invite)'') (\<lambda>user_name.
          let act = set_target_name user_name act in
          or_refuse (ad_channel_for_room DB invite_room) (\<lambda>e. is_no_such_room e \<or> is_no_channel_found e)
            (refuse act ec_no_such_room ''no room/channel found for actor.url room uuid'') (\<lambda>channel_id.
          bindM (rd_room_exists DB channel_id (the invite_room)) (\<lambda>known.
          if \<not> known then refuse act ec_no_such_room ''room actor.url does not exist''
          else bindM (rd_get_channel_name DB (Some channel_id)) (\<lambda>channel_name.
            accept (set_object_channel channel_id channel_name (with_object env act))))))))) "

definition on_request_admin :: "('w, 'x) req_db_scheme \<Rightarrow> 'w renv \<Rightarrow> activity \<Rightarrow> 'w validation" where
  "on_request_admin DB env act =
     (let act = act\<lparr>av_actor := Some ((re_new_part env)\<lparr>en_id := Text (fmt (session_user_id env)),
        en_display_name := attr_of (session_user_name env)\<rparr>)\<rparr>
      in bindM (read_attr (av_target act) en_id) (\<lambda>room_id.
         bindM (ad_channel_for_room DB room_id) (\<lambda>channel_id.
         bindM (rd_get_admin_room DB) (\<lambda>admin_room_id.
         if none_or_blank admin_room_id
         then refuse act ec_no_admin_room_found ''no admin room for this channel''
         else accept act))))"

subsection \<open>Access control lists\<close>

definition can_edit_acl ::
  "('w, 'x) req_db_scheme \<Rightarrow> activity \<Rightarrow> string option \<Rightarrow> string option \<Rightarrow> bool \<Rightarrow> ('w, bool) op" where
  "can_edit_acl DB act target_id user_id is_for_channel =
     bindM (if is_for_channel then
              bindM (ad_is_owner_channel DB target_id user_id) (\<lambda>b. if b then ret True else
              utils_is_admin DB target_id user_id)
            else
              bindM (ad_is_owner DB target_id user_id) (\<lambda>b. if b then ret True else
              bindM (object_url act) (\<lambda>url.
              bindM (if none_or_blank url then ad_channel_for_room DB target_id else ret (the url)) (\<lambda>channel_id.
              ad_is_owner_channel DB (Some channel_id) user_id))))
       (\<lambda>b. if b then ret True else is_operator DB user_id)"

text \<open>The loop that checks all new rules before anything is changed.\<close>

fun acls_refusal :: "nat \<Rightarrow> acl_config \<Rightarrow> attachment list \<Rightarrow> ('w, (int \<times> string) option option) op" where
  "acls_refusal fuel cfg [] = ret (Some None)"
| "acls_refusal fuel cfg (a # as) =
     bindM (lift_result (attr_value (at_object_type a))) (\<lambda>acl_type.
     if acl_type \<notin> Some ` set (ac_available cfg) then
       ret (Some (Some (ec_invalid_acl_type, ''invalid acl type '' @ quoted (fmt acl_type))))
     else bindM (lift_result (attr_value (at_summary a))) (\<lambda>action.
       if action \<notin> Some ` set all_api_actions then
         ret (Some (Some (ec_invalid_acl_action, ''invalid api action '' @ quoted (fmt action))))
       else bindM (lift_result (attr_value (at_content a))) (\<lambda>value.
         bindO (is_acl_valid fuel cfg (the acl_type) value) (\<lambda>(is_valid, msg).
         if \<not> is_valid then
           ret (Some (Some (ec_invalid_acl_value, ''invalid acl value '' @ quoted (fmt value) @ '' for type '' @
             quoted (fmt acl_type) @ '': '' @ fmt msg)))
         else acls_refusal fuel cfg as))))"

definition on_set_acl :: "nat \<Rightarrow> ('w, 'x) req_db_scheme \<Rightarrow> 'w renv \<Rightarrow> activity \<Rightarrow> 'w validation" where
  "on_set_acl fuel DB env act =
     bindM (read_attr (av_actor act) en_id) (\<lambda>user_id.
     bindM (read_attr (av_target act) en_id) (\<lambda>target_id.
     bindM (read_attr (av_target act) en_object_type) (\<lambda>object_type.
     if none_or_blank object_type then
       refuse act ec_invalid_target_type ''empty object_type, must be one of [channel, room]''
     else if object_type \<notin> {Some ''channel'', Some ''room''} then
       refuse act ec_invalid_target_type
         (''invalid object_type '' @ quoted (fmt object_type) @ '', must be one of [channel, room]'')
     else bindM (can_edit_acl DB act target_id user_id (object_type = Some ''channel'')) (\<lambda>may.
       if \<not> may then refuse act ec_not_allowed ''user is not allowed to change acls on the target''
       else bindM (is_operator DB user_id) (\<lambda>b. if b then accept act else
         (case av_object act of
            None \<Rightarrow> throw AttributeError
          | Some ob \<Rightarrow> (case en_attachments ob of
              None \<Rightarrow> throw AttributeError
            | Some None \<Rightarrow> throw TypeError
            | Some (Some acls) \<Rightarrow>
                bindO (acls_refusal fuel (ae_config (re_acl env)) acls) (\<lambda>r. case r of
                  Some (code, msg) \<Rightarrow> refuse act code msg | None \<Rightarrow> accept act))))))))"

definition on_get_acl :: "activity \<Rightarrow> 'w validation" where
  "on_get_acl act = (case av_target act of
     None \<Rightarrow> throw AttributeError
   | Some t \<Rightarrow> (case en_id t of
       Absent \<Rightarrow> refuse act ec_missing_target_id ''no target on activity''
     | i \<Rightarrow>
         if i = Null \<or> (case i of Text s \<Rightarrow> blank s | _ \<Rightarrow> False) then
           refuse act ec_missing_target_id ''blank target id on activity''
         else bindM (read_attr (av_target act) en_object_type) (\<lambda>object_type.
           if none_or_blank object_type then
             refuse act ec_invalid_object_type ''blank object type on activity''
           else if object_type \<notin> {Some ''room'', Some ''channel''} then
             refuse act ec_invalid_object_type
               (''unknown object type '' @ quoted (fmt object_type) @ '', must be one of [channel, room]'')
           else accept act)))"

text \<open>\<open>on_msg_status\<close>, \<open>on_list_channels\<close> and \<open>on_test\<close> accept everything.\<close>

definition on_list_channels :: "activity \<Rightarrow> 'w validation" where
  "on_list_channels act = accept act"

end
