(* ===== verification/Pre_Process.thy ===== *)
theory Pre_Process
  imports Validate_Messages Validate_Rooms
begin

section \<open>From a request to its handler\<close>

text \<open>
  The decorator \<open>pre_process\<close> of \<^verbatim>\<open>dino/utils/decorators.py\<close>, which every request passes, and the
  handlers of \<^verbatim>\<open>dino/api.py\<close> and \<^verbatim>\<open>dino/hooks\<close> that change rooms. A request is an activity as
  the client sent it; \<open>parse\<close> is the package that builds the activity object. A reply is a status
  code with a message or data. Checks that are configured for an event follow its validator.
\<close>

type_synonym reply = "int \<times> detail"

text \<open>The code of the triple \<open>True, False, False\<close> does not matter, since the handler sets the reply.\<close>

definition accepted_answer :: "answer \<Rightarrow> bool" where
  "accepted_answer a \<longleftrightarrow> a = Accepted \<or> a = AcceptedUnknownRoom"

fun run_checks :: "(activity \<Rightarrow> ('w, bool \<times> int) op) list \<Rightarrow> activity \<Rightarrow> ('w, int option) op" where
  "run_checks [] act = ret None"
| "run_checks (check # checks) act =
     bindM (check act) (\<lambda>(ok, code). if \<not> ok then ret (Some code) else run_checks checks act)"

text \<open>The server sets the user of the request from the session, whatever the client sent.\<close>

definition stamp_actor :: "'w renv \<Rightarrow> string \<Rightarrow> activity \<Rightarrow> activity" where
  "stamp_actor env user_name data =
     (let actor = (case av_actor data of None \<Rightarrow> blank_entity | Some a \<Rightarrow> a)
      in data\<lparr>av_actor := Some (actor\<lparr>en_id := Text (fmt (session_user_id env)),
           en_display_name := Text (b64e (Some user_name))\<rparr>)\<rparr>)"

text \<open>The name of the user in the session, or else in the database: \<open>None\<close> for an unknown user.\<close>

definition request_user_name :: "('w, 'x) req_db_scheme \<Rightarrow> 'w renv \<Rightarrow> ('w, string option) op" where
  "request_user_name DB env =
     (if \<not> none_or_blank (session_user_name env) then ret (session_user_name env)
      else catchM (bindM (rd_get_user_name DB (Some (fmt (session_user_id env)))) (\<lambda>n. ret (Some n)))
             (\<lambda>e. if is_no_such_user e then Some (ret None) else None))"

text \<open>
  The validator, the configured checks, the handler. A refusal by a configured check is answered
  with its code, but with the message of the validator, which is none.
\<close>

definition validated :: "(activity \<Rightarrow> 'w validation) \<Rightarrow> (activity \<Rightarrow> ('w, bool \<times> int) op) list \<Rightarrow>
    (activity \<Rightarrow> ('w, reply) op) \<Rightarrow> activity \<Rightarrow> ('w, reply option) op" where
  "validated validator checks handler act =
     bindO (validator act) (\<lambda>(a, act').
     case a of
       Refused code msg \<Rightarrow> ret (Some (code, msg))
     | _ \<Rightarrow> bindM (run_checks checks act') (\<lambda>failed. case failed of
         Some code \<Rightarrow> ret (Some (code, NoMessage))
       | None \<Rightarrow> bindM (handler act') (\<lambda>r. ret (Some r))))"

definition pre_process :: "('w, 'x) req_db_scheme \<Rightarrow> 'w renv \<Rightarrow> (activity \<Rightarrow> exc + activity) \<Rightarrow> bool \<Rightarrow>
    (activity \<Rightarrow> 'w validation) \<Rightarrow> (activity \<Rightarrow> ('w, bool \<times> int) op) list \<Rightarrow>
    (activity \<Rightarrow> ('w, reply) op) \<Rightarrow> activity \<Rightarrow> ('w, reply option) op" where
  "pre_process DB env parse should_validate_request validator checks handler data =
     catchM
       (if should_validate_request then
          bindM (request_user_name DB env) (\<lambda>user_name. case user_name of
            None \<Rightarrow> ret (Some (ec_no_user_in_session,
              Message (''no user found for user_id '' @ quoted (fmt (session_user_id env)) @ '' in session'')))
          | Some name \<Rightarrow>
              bindM (lift_result (parse (stamp_actor env name data))) (\<lambda>act.
              bindM (lift_result (validate_request env act)) (\<lambda>(is_valid, msg).
              if \<not> is_valid
              then ret (Some (ec_validation_error, case msg of None \<Rightarrow> NoMessage | Some m \<Rightarrow> Message m))
              else validated validator checks handler act)))
        else
          bindM (lift_result (parse (case av_actor data of
              None \<Rightarrow> data\<lparr>av_actor := Some blank_entity\<rparr> | Some _ \<Rightarrow> data))) (\<lambda>act.
          validated validator checks handler act))
       (\<lambda>e. Some (ret (Some (ec_unknown_error, Raised e))))"

subsection \<open>Creating a room\<close>

text \<open>\<open>OnCreateHooks.get_owners\<close>: the users in the first attachment of the target of type \<open>owners\<close>.\<close>

fun owners_attached :: "attachment list \<Rightarrow> exc + string list" where
  "owners_attached [] = Inr []"
| "owners_attached (a # as) =
     (if at_object_type a = Text ''owners'' \<and> at_summary a \<noteq> Absent
      then (case at_summary a of
          Text s \<Rightarrow> Inr (map strip (filter (\<lambda>p. \<not> blank p) (remdups (split_on (CHR '','') s))))
        | _ \<Rightarrow> Inl AttributeError)
      else owners_attached as)"

definition get_owners :: "(string list \<Rightarrow> string list) \<Rightarrow> activity \<Rightarrow> exc + string list" where
  "get_owners order act = (case av_target act of
     None \<Rightarrow> Inl AttributeError
   | Some t \<Rightarrow> (case en_attachments t of
       Some (Some attachments) \<Rightarrow> (case owners_attached attachments of Inl e \<Rightarrow> Inl e | Inr os \<Rightarrow> Inr (order os))
     | _ \<Rightarrow> Inr []))"

text \<open>
  \<open>api.on_create\<close> with the hook \<open>OnCreateHooks.create_room\<close>: the database operations are
  arguments, \<open>create name room channel user user_name ephemeral\<close> and \<open>set_owner room user\<close>, and
  so is the fresh id of the room.
\<close>

definition api_on_create :: "(string list \<Rightarrow> string list) \<Rightarrow> string \<Rightarrow>
    (string option \<Rightarrow> string \<Rightarrow> string \<Rightarrow> string \<Rightarrow> string \<Rightarrow> bool \<Rightarrow> ('w, unit) op) \<Rightarrow>
    (string \<Rightarrow> string \<Rightarrow> ('w, unit) op) \<Rightarrow> activity \<Rightarrow> ('w, unit) op" where
  "api_on_create order new_id create set_owner act =
     bindM (read_attr (av_target act) en_display_name) (\<lambda>room_name.
     bindM (read_attr (av_object act) en_url) (\<lambda>channel_id.
     bindM (read_attr (av_actor act) en_id) (\<lambda>user_id.
     bindM (read_attr (av_actor act) en_display_name) (\<lambda>user_name.
     let object_type = (case av_target act of
           None \<Rightarrow> ''room''
         | Some t \<Rightarrow> (case en_object_type t of Text s \<Rightarrow> s | _ \<Rightarrow> ''room''));
         is_ephemeral = (object_type \<noteq> ''private'');
         name = (if is_base64 room_name then Some (b64d room_name) else room_name)
     in bindM (lift_result (get_owners order act)) (\<lambda>owners.
        thenM (create name new_id (the channel_id) (the user_id) (the user_name) is_ephemeral)
          (iterM (set_owner new_id) owners))))))"

text \<open>
  The database part of \<open>api.on_rename_room\<close> and \<open>api.on_remove_room\<close>. The old name and the reason
  only go into the events that are sent.
\<close>

definition api_on_rename_room :: "('w, 'x) req_db_scheme \<Rightarrow>
    (string \<Rightarrow> string \<Rightarrow> string option \<Rightarrow> ('w, unit) op) \<Rightarrow> activity \<Rightarrow> ('w, unit) op" where
  "api_on_rename_room DB rename act =
     bindM (read_attr (av_target act) en_id) (\<lambda>room_id.
     bindM (read_attr (av_target act) en_display_name) (\<lambda>new_room_name.
     bindM (rd_get_room_name DB (the room_id)) (\<lambda>_.
     bindM (ad_channel_for_room DB room_id) (\<lambda>channel_id.
     bindM (read_attr (av_actor act) en_id) (\<lambda>_.
     bindM (read_attr (av_actor act) en_display_name) (\<lambda>_.
     rename channel_id (the room_id) (Some (b64d new_room_name))))))))"

definition api_on_remove_room :: "('w, 'x) req_db_scheme \<Rightarrow>
    (string \<Rightarrow> string \<Rightarrow> ('w, unit) op) \<Rightarrow> activity \<Rightarrow> ('w, unit) op" where
  "api_on_remove_room DB remove act =
     bindM (read_attr (av_target act) en_id) (\<lambda>room_id.
     bindM (rd_get_room_name DB (the room_id)) (\<lambda>_.
     bindM (ad_channel_for_room DB room_id) (\<lambda>channel_id.
     bindM (if has_attr (av_object act) en_content then read_attr (av_object act) en_content
            else if av_object act = None then throw AttributeError else ret None) (\<lambda>_.
     bindM (read_attr (av_actor act) en_id) (\<lambda>_.
     bindM (read_attr (av_actor act) en_display_name) (\<lambda>_.
     remove channel_id (the room_id)))))))"

end
