(* ===== verification/Request_Redis.thy ===== *)
theory Request_Redis
  imports Pre_Process Db_Ban_Facts
begin

section \<open>Requests over the Redis database\<close>

text \<open>
  The Redis database as the database of the validators, with the run of each of its operations on
  views, and the concrete environment of the examples. A value \<open>None\<close> as a field or a member is
  refused by the client.
\<close>

definition need :: "'a option \<Rightarrow> ('a \<Rightarrow> ('w, 'b) op) \<Rightarrow> ('w, 'b) op" where
  "need v f = (case v of None \<Rightarrow> throw RedisError | Some a \<Rightarrow> f a)"

definition redis_req_db :: "('s, 'c) denv \<Rightarrow> int \<Rightarrow> (('s, 'c) dbw) req_db" where
  "redis_req_db E now = acl_db.extend (redis_acl_db E) (req_db.fields
     (\<lambda>r u. dr_is_moderator E (fmt r) u)
     (\<lambda>r. need r (dr_is_room_ephemeral E))
     (dr_channel_exists E)
     (dr_room_exists E)
     (dr_room_name_exists E)
     (\<lambda>n. ret (dr_user_name_exists n))
     (dr_get_room_name E)
     (\<lambda>c. need c (dr_get_channel_name E))
     (\<lambda>u. need u (dr_get_user_name E))
     (\<lambda>_. dr_not_implemented)
     (dr_get_owners_room E)
     (dr_get_acls_in_room_for_action E)
     (dr_get_acls_in_channel_for_action E)
     (dr_get_user_ban_status E)
     (\<lambda>_ _. dr_not_implemented)
     (dr_is_banned_globally E now)
     (\<lambda>u. ret (dr_get_reason_for_ban u))
     (\<lambda>u _. ret (dr_get_reason_for_ban u))
     (\<lambda>u _. ret (dr_get_reason_for_ban u))
     (dr_get_user_status E)
     (dr_get_admin_room E)
     (dr_get_black_list E))"

lemma redis_req_db_simps [simp]:
  "ad_is_admin (redis_req_db E now) = (\<lambda>c u. dr_is_admin E (fmt c) u)"
  "ad_is_owner (redis_req_db E now) = (\<lambda>r u. dr_is_owner E (fmt r) u)"
  "ad_is_owner_channel (redis_req_db E now) = (\<lambda>c u. dr_is_owner_channel E (fmt c) u)"
  "ad_is_super_user (redis_req_db E now) = dr_is_super_user E"
  "ad_is_global_moderator (redis_req_db E now) = dr_is_global_moderator E"
  "ad_channel_for_room (redis_req_db E now) = dr_channel_for_room E"
  "ad_room_contains (redis_req_db E now) = dr_room_contains E"
  "rd_is_moderator (redis_req_db E now) = (\<lambda>r u. dr_is_moderator E (fmt r) u)"
  "rd_is_room_ephemeral (redis_req_db E now) = (\<lambda>r. need r (dr_is_room_ephemeral E))"
  "rd_channel_exists (redis_req_db E now) = dr_channel_exists E"
  "rd_room_exists (redis_req_db E now) = dr_room_exists E"
  "rd_room_name_exists (redis_req_db E now) = dr_room_name_exists E"
  "rd_user_name_exists (redis_req_db E now) = (\<lambda>n. ret (dr_user_name_exists n))"
  "rd_get_room_name (redis_req_db E now) = dr_get_room_name E"
  "rd_get_channel_name (redis_req_db E now) = (\<lambda>c. need c (dr_get_channel_name E))"
  "rd_get_user_name (redis_req_db E now) = (\<lambda>u. need u (dr_get_user_name E))"
  "rd_get_room_id_for_name (redis_req_db E now) = (\<lambda>_. dr_not_implemented)"
  "rd_get_owners_room (redis_req_db E now) = dr_get_owners_room E"
  "rd_room_acls (redis_req_db E now) = dr_get_acls_in_room_for_action E"
  "rd_channel_acls (redis_req_db E now) = dr_get_acls_in_channel_for_action E"
  "rd_user_ban_status (redis_req_db E now) = dr_get_user_ban_status E"
  "rd_user_mute_status (redis_req_db E now) = (\<lambda>_ _. dr_not_implemented)"
  "rd_is_banned_globally (redis_req_db E now) = dr_is_banned_globally E now"
  "rd_reason_global (redis_req_db E now) = (\<lambda>u. ret (dr_get_reason_for_ban u))"
  "rd_reason_channel (redis_req_db E now) = (\<lambda>u _. ret (dr_get_reason_for_ban u))"
  "rd_reason_room (redis_req_db E now) = (\<lambda>u _. ret (dr_get_reason_for_ban u))"
  "rd_get_user_status (redis_req_db E now) = dr_get_user_status E"
  "rd_get_admin_room (redis_req_db E now) = dr_get_admin_room E"
  "rd_get_black_list (redis_req_db E now) = dr_get_black_list E"
  by (simp_all add: redis_req_db_def redis_acl_db_def acl_db.defs req_db.defs)

lemma need_simps [simp]: "need (Some a) f = f a" "need None f = throw RedisError"
  by (simp_all add: need_def)

end
