(* ===== verification/Request_Facts.thy ===== *)
theory Request_Facts
  imports Request_Redis
begin

section \<open>Facts on requests\<close>

text \<open>
  How the validators decide over the Redis database, as functions of its view: who may kick, ban,
  remove and rename, and that the decision changes nothing in Redis; and what an accepted request
  guarantees, for any database.
\<close>

subsection \<open>Operations that answer from the view\<close>

definition operator_view :: "dbv \<Rightarrow> string option \<Rightarrow> bool" where
  "operator_view v u \<longleftrightarrow> q_super v u \<or> q_globalmod v u"

lemma role_answers:
  "dr_is_super_user E u w = (Inr (q_super (dv E w) u), w)"
  "dr_is_global_moderator E u w = (Inr (q_globalmod (dv E w) u), w)"
  "dr_is_admin E c u w = (Inr (q_admin (dv E w) (Some c) u), w)"
  "dr_is_owner E c u w = (Inr (q_owner (dv E w) (Some c) u), w)"
  "dr_is_owner_channel E c u w = (Inr (q_owner_channel (dv E w) (Some c) u), w)"
  by (cases u; simp add: q_defs op_simps fmt_def)+

lemma bind_role_answers:
  "bindM (dr_is_super_user E u) f w = f (q_super (dv E w) u) w"
  "bindM (dr_is_global_moderator E u) f w = f (q_globalmod (dv E w) u) w"
  "bindM (dr_is_admin E c u) f w = f (q_admin (dv E w) (Some c) u) w"
  "bindM (dr_is_owner E c u) f w = f (q_owner (dv E w) (Some c) u) w"
  "bindM (dr_is_owner_channel E c u) f w = f (q_owner_channel (dv E w) (Some c) u) w"
  by (simp_all add: bindM_def role_answers)

lemma is_operator_run: "is_operator (redis_req_db E now) u w = (Inr (operator_view (dv E w) u), w)"
  by (simp add: is_operator_def operator_view_def bind_role_answers role_answers ret_run)

lemma bind_is_operator: "bindM (is_operator (redis_req_db E now) u) f w = f (operator_view (dv E w) u) w"
  by (simp add: bindM_def is_operator_run)

lemma bind_utils_is_admin:
  "bindM (utils_is_admin (redis_req_db E now) c u) f w = f (q_admin (dv E w) (Some (fmt c)) u) w"
  by (cases u) (simp_all add: bindM_def utils_is_admin_def role_answers ret_run q_admin_def)

lemma or_refuse_room_name:
  "or_refuse (dr_get_room_name E r) is_no_such_room refusal f w =
    (case v_room_name (dv E w) r of None \<Rightarrow> refusal w | Some n \<Rightarrow> f n w)"
  by (simp add: or_refuse_def bindM_def catchM_def get_room_name_run ret_run split: option.splits)

lemma or_refuse_ret [op_simps]: "or_refuse (ret a) is_caught refusal f w = f a w"
  by (simp add: or_refuse_def bindM_def catchM_def ret_run)

text \<open>What the validators do in the end.\<close>

lemma answers_run [op_simps]:
  "accept act w = (Inr (Some (Accepted, act)), w)"
  "refuse act code msg w = (Inr (Some (Refused code (Message msg), act)), w)"
  "refuse_with act code d w = (Inr (Some (Refused code d, act)), w)"
  "refuse_acl act m w = (Inr (Some (Refused ec_not_allowed (case m of None \<Rightarrow> NoMessage | Some m \<Rightarrow> Message m), act)), w)"
  by (simp_all add: accept_def refuse_def refuse_with_def refuse_acl_def ret_run)

lemmas request_runs = bind_role_answers bind_is_operator bind_utils_is_admin or_refuse_room_name op_simps

subsection \<open>Kicking, banning, removing\<close>

context db_env begin

lemma channel_known:
  assumes "db_ok E agrees w" "\<not> blank r" "v_channel_of (dv E w) r = Some c" "v_room_name (dv E w) r \<noteq> None"
  obtains cc where "dr_channel_for_room E (Some r) w = (Inr c, w\<lparr>db_cache := cc\<rparr>)"
    "db_ok E agrees (w\<lparr>db_cache := cc\<rparr>)"
  using channel_for_room_spec [OF assms(1,2)] assms(3,4) by (metis spec_channel_for_room_def option.simps(5))

lemma kick_decided:
  assumes ok: "db_ok E agrees w" and r: "\<not> blank r"
    and room: "v_channel_of (dv E w) r = Some c" "v_room_name (dv E w) r \<noteq> None"
    and act: "av_actor act = Some a" "en_id a = Text u" "av_target act = Some t" "en_id t = Text r"
      "av_object act = Some ob" "en_id ob = Text k" "\<not> blank k"
  shows "\<exists>w'. dv E w' = dv E w \<and> on_kick (redis_req_db E now) act w = (Inr (Some (
      if operator_view (dv E w) (Some k) then Refused ec_not_allowed (Message ''not allowed to kick operators'')
      else if room_role (dv E w) r u role_owner \<or> operator_view (dv E w) (Some u) \<or> channel_role (dv E w) c u role_admin
      then Accepted else Refused ec_not_allowed (Message ''not allowed to kick''), act)), w')"
proof -
  obtain cc where "dr_channel_for_room E (Some r) w = (Inr c, w\<lparr>db_cache := cc\<rparr>)"
    by (rule channel_known [OF ok r room])
  then have g: "bindM (dr_channel_for_room E (Some r)) f w = f c (w\<lparr>db_cache := cc\<rparr>)" for f :: "_ \<Rightarrow> (_, 'z) op"
    by (simp add: bindM_def)
  show ?thesis
    using act r room(2)
    by (auto simp: on_kick_def request_runs g q_owner_def q_admin_def fmt_def)
qed

end


text \<open>The address of the channel in a request, when it is a text.\<close>

definition given_url :: "entity \<Rightarrow> string option" where
  "given_url e = (case en_url e of Text s \<Rightarrow> Some s | _ \<Rightarrow> None)"

lemma object_url_run: "av_object act = Some ob \<Longrightarrow> object_url act w = (Inr (given_url ob), w)"
  by (cases "en_url ob") (simp_all add: object_url_def has_attr_def given_url_def read_attr_Some ret_run)

lemma bind_object_url: "av_object act = Some ob \<Longrightarrow> bindM (object_url act) f w = f (given_url ob) w"
  by (simp add: bindM_def object_url_run)

context db_env begin

lemma room_ban_decided:
  assumes ok: "db_ok E agrees w" and r: "\<not> blank r"
    and room: "v_channel_of (dv E w) r = Some c" "v_room_name (dv E w) r \<noteq> None"
    and act: "av_actor act = Some a" "en_id a = Text u" "av_target act = Some t" "en_id t = Text r"
      "en_object_type t = Text tt" "tt \<noteq> ''global''"
      "av_object act = Some ob" "en_id ob = Text k" "\<not> blank k" "en_summary ob = Text d"
    and ch: "ch = (if none_or_blank (given_url ob) then c else the (given_url ob))"
  shows "\<exists>w' ans. dv E w' = dv E w \<and> on_ban (redis_req_db E now) act w = (Inr (Some (ans, act)), w') \<and>
    (ans = Accepted \<longleftrightarrow> duration_error (Some d) = None \<and> v_rooms (dv E w) ch r \<noteq> None \<and>
      (operator_view (dv E w) (Some u) \<or> \<not> operator_view (dv E w) (Some k) \<and> room_role (dv E w) r u role_owner))"
proof -
  obtain cc where "dr_channel_for_room E (Some r) w = (Inr c, w\<lparr>db_cache := cc\<rparr>)"
    by (rule channel_known [OF ok r room])
  then have g: "bindM (dr_channel_for_room E (Some r)) f w = f c (w\<lparr>db_cache := cc\<rparr>)" for f :: "_ \<Rightarrow> (_, 'z) op"
    by (simp add: bindM_def)
  have r': "r \<noteq> ''''" using r by auto
  have name: "or_refuse (bindM (dr_get_room_name E r) (\<lambda>_. ret ())) is_no_such_room refusal f w1 = f () w1"
    if "dv E w1 = dv E w" for refusal and f :: "_ \<Rightarrow> _ validation" and w1
    using room(2) that by (auto simp: or_refuse_def bindM_def catchM_def get_room_name_run ret_run)
  show ?thesis
  proof (cases "none_or_blank (given_url ob)")
    case True
    then show ?thesis
      using act r r' ch
      by (auto simp: on_ban_def Let_def request_runs bind_object_url [OF act(7)] g name bind_exists q_owner_def fmt_def
          split: option.splits)
  next
    case False
    then have "given_url ob = Some ch" using ch by (auto simp: none_or_blank_def split: option.splits)
    with False show ?thesis
      using act r r'
      by (auto simp: on_ban_def Let_def request_runs bind_object_url [OF act(7)] name bind_exists q_owner_def fmt_def
          split: option.splits)
  qed
qed

text \<open>For a ban from everything the role of an admin is looked up in a channel called \<open>None\<close>.\<close>

lemma global_ban_decided:
  assumes act: "av_actor act = Some a" "en_id a = Text u" "av_target act = Some t" "en_id t \<noteq> Absent"
      "en_object_type t = Text ''global''"
      "av_object act = Some ob" "en_id ob = Text k" "en_summary ob = Text d"
  shows "\<exists>ans. on_ban (redis_req_db E now) act w = (Inr (Some (ans, act)), w) \<and>
    (ans = Accepted \<longleftrightarrow> duration_error (Some d) = None \<and> \<not> blank k \<and>
      (operator_view (dv E w) (Some u) \<or>
       \<not> operator_view (dv E w) (Some k) \<and> channel_role (dv E w) ''None'' u role_admin))"
proof -
  obtain i where i: "attr_value (en_id t) = Inr i" using act(4) by (cases "en_id t") auto
  show ?thesis
    using act i
    by (auto simp: on_ban_def Let_def request_runs q_admin_def fmt_def split: option.splits)
qed

lemma remove_decided:
  assumes ok: "db_ok E agrees w" and r: "\<not> blank r"
    and room: "v_channel_of (dv E w) r = Some c" "v_room_name (dv E w) r \<noteq> None"
    and act: "av_actor act = Some a" "en_id a = Text u" "av_target act = Some t" "en_id t = Text r"
  shows "\<exists>w' ans. dv E w' = dv E w \<and>
    remove_or_rename_room (redis_req_db E now) act action w = (Inr (Some (ans, act)), w') \<and>
    (ans = Accepted \<longleftrightarrow> room_role (dv E w) r u role_owner \<or> global_role (dv E w) u role_super_user \<or>
      (q_globalmod (dv E w) (Some u) \<or> room_role (dv E w) r u role_moderator) \<and> \<not> v_persistent (dv E w) r \<or>
      channel_role (dv E w) c u role_admin \<or> channel_role (dv E w) c u role_owner)"
proof -
  obtain cc where "dr_channel_for_room E (Some r) w = (Inr c, w\<lparr>db_cache := cc\<rparr>)"
    by (rule channel_known [OF ok r room])
  then have g: "bindM (dr_channel_for_room E (Some r)) f w = f c (w\<lparr>db_cache := cc\<rparr>)" for f :: "_ \<Rightarrow> (_, 'z) op"
    by (simp add: bindM_def)
  have eph: "bindM (dr_is_room_ephemeral E r) f w = f (\<not> v_persistent (dv E w) r) w" for f :: "_ \<Rightarrow> (_, 'z) op" and w
    by (simp add: dr_is_room_ephemeral_def d_defs op_simps db_reads bindM_def)
  have eph1: "dr_is_room_ephemeral E r w = (Inr (\<not> v_persistent (dv E w) r), w)"
    by (simp add: dr_is_room_ephemeral_def d_defs op_simps db_reads)
  have mod: "utils_is_moderator (redis_req_db E now) (Some r) (Some u) w = (Inr (room_role (dv E w) r u role_moderator), w)"
    by (simp add: utils_is_moderator_def op_simps fmt_def)
  show ?thesis
    using act
    by (auto simp: remove_or_rename_room_def request_runs g eph eph1 mod bindM_def [of "bindM _ _"] bindM_def [of "utils_is_moderator _ _ _"]
        q_owner_def q_admin_def q_owner_channel_def q_super_def fmt_def)
qed

end



subsection \<open>Operations that only read Redis\<close>

lemma reads_redis:
  "keeps same_redis (dr_get_user_name E u)"
  "keeps same_redis (dr_get_channel_name E c)"
  "keeps same_redis (dr_get_user_status E u)"
  "keeps same_redis (dr_get_black_list E)"
  "keeps same_redis (dr_channel_exists E co)"
  "keeps same_redis (dr_room_exists E c r)"
  "keeps same_redis (dr_room_name_exists E c n)"
  by (auto simp: dr_get_user_name_def dr_get_channel_name_def dr_get_user_status_def dr_get_black_list_def
      dr_channel_exists_def dr_room_exists_def dr_room_name_exists_def d_hget_def d_get_def d_smembers_def
      d_hexists_def d_hvals_def reads_only intro!: same_redis.keeps_bindM same_redis.keeps_thenM
      split: option.split)

lemma reads_redis_more:
  "keeps same_redis (dr_get_users_with_role E roles key)"
  "keeps same_redis (dr_get_owners_room E r)"
  "keeps same_redis (dr_get_acls_in_room_for_action E r action)"
  "keeps same_redis (dr_get_acls_in_channel_for_action E c action)"
  by (auto simp: dr_get_users_with_role_def dr_get_owners_room_def dr_get_acls_in_room_for_action_def
      dr_get_acls_in_channel_for_action_def d_hgetall_def reads_only reads_redis keeps_redis_room_name
      keeps_redis_channel_for_room
      intro!: same_redis.keeps_bindM same_redis.keeps_thenM same_redis.keeps_foldM same_redis.keeps_catchM
      split: exc.splits)

lemma redis_acl_relation: "acl_relation same_redis (redis_req_db E now)"
  by unfold_locales
    (simp_all add: keeps_redis_channel_for_room keeps_redis_room_contains, simp_all add: keeps_def role_queries_pure)

interpretation redis_requests: acl_relation same_redis "redis_req_db E now" for E now
  by (rule redis_acl_relation)

lemma reads_redis_utils:
  "keeps same_redis (is_operator (redis_req_db E now) u)"
  "keeps same_redis (user_is_online (redis_req_db E now) u)"
  "keeps same_redis (object_url act)"
  "keeps same_redis (join_target (redis_req_db E now) ro no)"
  by (auto simp: is_operator_def user_is_online_def object_url_def join_target_def reads_only reads_redis
      keeps_redis_room_name dr_not_implemented_def redis_requests.keeps_queries [simplified]
      intro!: same_redis.keeps_bindM same_redis.keeps_catchM split: if_splits)

lemma dv_same: "same_redis w w' \<Longrightarrow> dv E w' = dv E w"
  by (simp add: dv_def)

subsection \<open>What an accepted request guarantees\<close>

lemma bindM_Inr_iff: "bindM m f w = (Inr b, w') \<longleftrightarrow> (\<exists>a w1. m w = (Inr a, w1) \<and> f a w1 = (Inr b, w'))"
  by (auto simp: bindM_def split: prod.splits sum.splits)

lemma bindO_Inr:
  "bindO m f w = (Inr (Some b), w') \<longleftrightarrow> (\<exists>a w1. m w = (Inr (Some a), w1) \<and> f a w1 = (Inr (Some b), w'))"
  by (auto simp: bindO_def bindM_Inr_iff ret_run split: option.splits)

lemma or_refuse_Inr:
  "or_refuse m c refusal f w = (Inr b, w') \<longleftrightarrow>
     (\<exists>a w1. m w = (Inr a, w1) \<and> f a w1 = (Inr b, w')) \<or>
     (\<exists>e w1. m w = (Inl e, w1) \<and> c e \<and> refusal w1 = (Inr b, w'))"
  by (auto simp: or_refuse_def bindM_def catchM_def ret_run split: prod.splits sum.splits if_splits)

lemmas inversions = bindM_Inr_iff bindO_Inr or_refuse_Inr answers_run ret_run throw_run

text \<open>A user without rights does not pass the check for bans, however long a ban has been over.\<close>

definition has_ban_time :: "string option \<Rightarrow> bool" where
  "has_ban_time b \<longleftrightarrow> (case b of None \<Rightarrow> False | Some t \<Rightarrow> ban_time t \<noteq> Inr '''')"

lemma time_or_blank_Inr: "time_or_blank b w = (Inr t, w') \<Longrightarrow> w' = w \<and> (t = '''' \<longleftrightarrow> \<not> has_ban_time b)"
  by (cases b) (auto simp: time_or_blank_def has_ban_time_def op_simps)

lemma join_ban_check_accepts:
  assumes "join_ban_check (redis_req_db E now) env act u r w = (Inr (Some (Accepted, act')), w')"
  shows "\<not> has_ban_time (v_bans (dv E w) None u) \<and> \<not> has_ban_time (v_bans (dv E w) (Some r) u)"
proof -
  have "\<exists>g c w1. dr_get_user_ban_status E r u w = (Inr (g, c, ''''), w1) \<and> g = ''''"
    using assms
    by (auto simp: join_ban_check_def utils_is_banned_def inversions split: option.splits prod.splits if_splits)
  then show ?thesis
    by (auto simp: dr_get_user_ban_status_def inversions db_run dest!: time_or_blank_Inr
        dv_same [where E = E, OF keepsD [OF keeps_redis_channel_for_room]])
qed

lemma join_target_run:
  assumes "\<not> blank r"
  shows "bindM (join_target (redis_req_db E now) (Some r) n) f w = (case v_room_name (dv E w) r of
     None \<Rightarrow> f (Inl (ec_no_such_room, ''room with id '' @ quoted r @ '' does not exist'')) w
   | Some name \<Rightarrow> f (Inr (r, name)) w)"
  using assms by (simp add: join_target_def bindM_def catchM_def get_room_name_run ret_run split: option.splits)

lemma guest_not_banned:
  assumes "join_as_guest fuel (redis_req_db E now) env act u r c w = (Inr (Some (Accepted, act')), w')"
    and env: "keeps same_redis (re_excluded_list env u)"
  shows "\<not> has_ban_time (v_bans (dv E w) None u) \<and> \<not> has_ban_time (v_bans (dv E w) (Some r) u)"
proof -
  have ex: "keeps same_redis (get_excluded_users env u)"
    unfolding get_excluded_users_def by (intro same_redis.keeps_bindM env reads_only)
  obtain x w1 os w2 n w3 acls w4 m w5 act1 where
    s: "get_excluded_users env u w = (Inr x, w1)" "dr_get_owners_room E r w1 = (Inr os, w2)"
      "dr_get_channel_name E c w2 = (Inr n, w3)" "dr_get_acls_in_room_for_action E r action_join w3 = (Inr acls, w4)"
      "validate_acl_for_action fuel (redis_req_db E now) (re_acl env) act1 target_room action_join (Some acls)
         None None None w4 = (Inr (Some (True, m)), w5)"
    and ban: "join_ban_check (redis_req_db E now) env act1 u r w5 = (Inr (Some (Accepted, act')), w')"
    using assms(1) by (auto simp: join_as_guest_def inversions Let_def split: if_splits)
  have "same_redis w w5"
    using keepsD [OF ex s(1)] keepsD [OF reads_redis_more(2) s(2)] keepsD [OF reads_redis(2) s(3)]
      keepsD [OF reads_redis_more(3) s(4)] keepsD [OF redis_requests.keeps_validate_acl s(5)] by simp
  then have "dv E w5 = dv E w" by (rule dv_same)
  with join_ban_check_accepts [OF ban] show ?thesis by simp
qed

lemma join_accepted:
  assumes acc: "on_join fuel (redis_req_db E now) env act w = (Inr (Some (Accepted, act')), w')"
    and act: "av_target act = Some t" "en_id t = Text r" "\<not> blank r"
    and u: "session_user_id env = Some u" "\<not> blank u"
    and env: "\<And>x. keeps same_redis (re_excluded_list env x)"
  shows "v_room_name (dv E w) r \<noteq> None \<and>
    (operator_view (dv E w) (Some u) \<or> room_role (dv E w) r u role_owner \<or>
     (\<exists>c. channel_role (dv E w) c u role_owner) \<or>
     \<not> has_ban_time (v_bans (dv E w) None u) \<and> \<not> has_ban_time (v_bans (dv E w) (Some r) u))"
proof -
  let ?DB = "redis_req_db E now"
  obtain w1 act1 where name: "v_room_name (dv E w) r \<noteq> None"
    and online: "user_is_online ?DB (Some u) w = (Inr True, w1)"
    and entry: "join_entry fuel ?DB env act1 (Some u) r w1 = (Inr (Some (Accepted, act')), w')"
    using acc act u
    by (auto simp: on_join_def read_attr_run bindM_Inr_iff [of "read_attr _ _"] bindM_Inr_iff [of "ret _"] ret_run
        join_target_run bindM_Inr_iff [of "user_is_online _ _"] thenM_def bindM_Inr_iff [of "catchM _ _"] answers_run
        split: option.splits if_splits)
  have same: "dv E w1 = dv E w" by (rule dv_same [OF keepsD [OF reads_redis_utils(2) online]])
  show ?thesis
  proof (cases "operator_view (dv E w) (Some u) \<or> room_role (dv E w) r u role_owner")
    case False
    with entry same obtain c w2 where ch: "dr_channel_for_room E (Some r) w1 = (Inr c, w2)"
      and "channel_role (dv E w2) c u role_owner \<or>
        join_as_guest fuel ?DB env act1 u r c w2 = (Inr (Some (Accepted, act')), w')"
      by (auto simp: join_entry_def request_runs bindM_Inr_iff [of "dr_channel_for_room _ _"] q_owner_def
          q_owner_channel_def fmt_def split: if_splits)
    moreover have "dv E w2 = dv E w"
      using dv_same [OF keepsD [OF keeps_redis_channel_for_room ch]] same by simp
    ultimately show ?thesis
      using name guest_not_banned [OF _ env, of fuel E now act1 u r c w2 act' w'] by auto
  qed (use name in auto)
qed

text \<open>The members of a room, as they are stored.\<close>

definition member :: "('s, 'c) denv \<Rightarrow> ('s, 'c) dbw \<Rightarrow> string \<Rightarrow> string \<Rightarrow> bool" where
  "member E w r u \<longleftrightarrow> r_hexists (de_redis E) (db_redis w) (rk_users_in_room r) u"

lemma member_same: "same_redis w w' \<Longrightarrow> member E w' r u = member E w r u"
  by (simp add: member_def)

lemma user_in_room_Inr:
  assumes "utils_is_user_in_room (redis_req_db E now) (Some u) (Some r) w = (Inr b, w')"
  shows "b \<longrightarrow> member E w r u"
proof (cases "blank r")
  case True
  with assms show ?thesis by (simp add: utils_is_user_in_room_def ret_run)
next
  case False
  with assms obtain n c w1 where "dr_channel_for_room E (Some r) w = (Inr c, w1)"
    "r_hexists (de_redis E) (db_redis w1) (rk_users_in_room r) u = b"
    by (auto simp: utils_is_user_in_room_def dr_room_contains_def thenM_def bind_room_name bindM_Inr_iff d_hexists_def
        d_ask_def get_room_name_run op_simps split: option.splits)
  with keepsD [OF keeps_redis_channel_for_room [of E "Some r"]] show ?thesis
    by (simp add: member_def)
qed

lemma message_presence:
  assumes acc: "message_presence_check fuel (redis_req_db E now) env act (Some u) from_room r rest w =
      (Inr (Some (Accepted, act')), w')"
  shows "member E w r u \<or> (\<exists>origin. from_room = Some origin \<and> member E w origin u)"
proof -
  let ?in = "utils_is_user_in_room (redis_req_db E now) (Some u)"
  obtain b w1 where b: "?in (Some r) w = (Inr b, w1)"
    using acc unfolding message_presence_check_def bindM_Inr_iff [of "?in (Some r)"] by blast
  have w1: "same_redis w w1" by (rule keepsD [OF redis_requests.keeps_user_in_room b])
  show ?thesis
  proof (cases b)
    case True
    with user_in_room_Inr [OF b] show ?thesis by blast
  next
    case False
    have "\<exists>origin w2. from_room = Some origin \<and> ?in (Some origin) w1 = (Inr True, w2)"
    proof (cases from_room)
      case None
      from acc False show ?thesis
        by (simp add: message_presence_check_def bindM_def [of "?in (Some r)"] b None answers_run)
    next
      case (Some origin)
      from acc False have acc2: "bindM (?in (Some origin)) (\<lambda>inside. if \<not> inside
          then refuse act ec_user_not_in_room ''user is not in origin room, cannot send message from there''
          else bindO (can_send_cross_room fuel (redis_req_db E now) env act (Some origin) (Some r)) (\<lambda>may.
            if \<not> may
            then refuse act ec_not_allowed (''user not allowed to send cross-room msg from '' @ origin @ '' to '' @ r)
            else rest)) w1 = (Inr (Some (Accepted, act')), w')"
        by (simp only: message_presence_check_def bindM_def [of "?in (Some r)"] b prod.case sum.case if_False
          option.case Some)
      obtain b2 w2 where b2: "?in (Some origin) w1 = (Inr b2, w2)"
        and rest: "(if \<not> b2
          then refuse act ec_user_not_in_room ''user is not in origin room, cannot send message from there''
          else bindO (can_send_cross_room fuel (redis_req_db E now) env act (Some origin) (Some r)) (\<lambda>may.
            if \<not> may
            then refuse act ec_not_allowed (''user not allowed to send cross-room msg from '' @ origin @ '' to '' @ r)
            else rest)) w2 = (Inr (Some (Accepted, act')), w')"
        using acc2 [unfolded bindM_Inr_iff [of "?in (Some origin)"]] by (elim exE conjE) (rule that)
      have "b2"
      proof (rule ccontr)
        assume "\<not> b2"
        with rest show False by (simp add: answers_run)
      qed
      with b2 have "?in (Some origin) w1 = (Inr True, w2)" by simp
      with Some show ?thesis by (intro exI conjI)
    qed
    then obtain origin w2 where "from_room = Some origin" and o: "?in (Some origin) w1 = (Inr True, w2)"
      by (elim exE conjE) (rule that)
    with user_in_room_Inr [OF o] member_same [OF w1] show ?thesis by simp
  qed
qed

context db_env begin

lemma message_checks_guarantee:
  assumes "message_room_checks fuel (redis_req_db E now) env act (Some u) from_room r c msg w =
      (Inr (Some (Accepted, act')), w')"
  shows "v_channels (dv E w) c \<noteq> None \<and> v_rooms (dv E w) c r \<noteq> None \<and>
    (\<forall>origin. from_room = Some origin \<longrightarrow> origin \<noteq> r \<longrightarrow> v_rooms (dv E w) c origin \<noteq> None) \<and>
    (member E w r u \<or> (\<exists>origin. from_room = Some origin \<and> member E w origin u))"
proof (cases from_room)
  case None
  with assms show ?thesis
    by (auto simp: message_room_checks_def bind_exists bindM_ret answers_run
        dest: message_presence split: if_split_asm)
next
  case (Some origin)
  show ?thesis
    using assms unfolding Some
    by (cases "origin = r") (auto simp: message_room_checks_def bind_exists bindM_ret answers_run
        dest: message_presence split: if_split_asm)
qed

lemma message_room_tail:
  assumes "(if c = '''' then refuse act ec_missing_object_url m
      else bindM (dr_get_channel_name E c) (\<lambda>name. checks (set_object_channel c name act))) w =
    (Inr (Some (Accepted, act')), w')"
  shows "\<exists>name w1. dr_get_channel_name E c w = (Inr name, w1) \<and>
    checks (set_object_channel c name act) w1 = (Inr (Some (Accepted, act')), w')"
  using assms by (auto simp: bindM_Inr_iff [of "dr_get_channel_name _ _"] answers_run split: if_split_asm)

lemma message_room_guarantees:
  assumes acc: "on_message_room fuel (redis_req_db E now) env act (Some u) from_room r msg w =
      (Inr (Some (Accepted, act')), w')"
  shows "(\<exists>c. v_channels (dv E w) c \<noteq> None \<and> v_rooms (dv E w) c r \<noteq> None \<and>
      (\<forall>origin. from_room = Some origin \<longrightarrow> origin \<noteq> r \<longrightarrow> v_rooms (dv E w) c origin \<noteq> None)) \<and>
    (member E w r u \<or> (\<exists>origin. from_room = Some origin \<and> member E w origin u))"
proof -
  obtain url w1 c w2 where
    s: "object_url act w = (Inr url, w1)"
      "(if none_or_blank url then dr_channel_for_room E (Some r) else ret (the url)) w1 = (Inr c, w2)"
    and tail: "(if c = '''' then refuse act ec_missing_object_url ''no channel id specified when sending message''
      else bindM (dr_get_channel_name E c) (\<lambda>name. message_room_checks fuel (redis_req_db E now) env
        (set_object_channel c name act) (Some u) from_room r c msg)) w2 = (Inr (Some (Accepted, act')), w')"
    using acc unfolding on_message_room_def bindM_Inr_iff [of "object_url act"] bindM_Inr_iff [of "If _ _ _"]
      redis_req_db_simps need_simps
    by (elim exE conjE) (rule that)
  from message_room_tail [OF tail] obtain name w3 act2 where
    n: "dr_get_channel_name E c w2 = (Inr name, w3)"
    and checks: "message_room_checks fuel (redis_req_db E now) env act2 (Some u) from_room r c msg w3 =
      (Inr (Some (Accepted, act')), w')"
    by (elim exE conjE) (rule that)
  have "keeps same_redis (if none_or_blank url then dr_channel_for_room E (Some r) else ret (the url))"
    by (simp add: keeps_redis_channel_for_room reads_only)
  from keepsD [OF reads_redis_utils(3) s(1)] keepsD [OF this s(2)] keepsD [OF reads_redis(2) n]
  have same: "same_redis w w3" by simp
  from message_checks_guarantee [OF checks] show ?thesis
    unfolding dv_same [OF same] member_same [OF same] 
    by (elim conjE, intro conjI) (rule exI [of _ c], simp_all)
qed

end

end
