(* ===== verification/Handler_Facts.thy ===== *)
theory Handler_Facts
  imports Request_Facts
begin

section \<open>Facts on handlers\<close>

text \<open>
  When the handler of a request runs at all, and what creating a room brings about from the request
  to the database.
\<close>

subsection \<open>Only accepted requests reach their handler\<close>

lemma bindM_keeps:
  assumes "keeps R m" "bindM m f w = (x, w')"
  shows "R w w' \<or> (\<exists>a w1. m w = (Inr a, w1) \<and> R w w1 \<and> f a w1 = (x, w'))"
proof -
  obtain y w1 where m: "m w = (y, w1)" by (cases "m w")
  with assms keepsD [OF assms(1) m] show ?thesis by (cases y) (auto simp: bindM_def)
qed

text \<open>The situation in which a handler runs.\<close>

definition handled :: "(activity \<Rightarrow> 'w validation) \<Rightarrow> (activity \<Rightarrow> ('w, bool \<times> int) op) list \<Rightarrow>
    (activity \<Rightarrow> ('w, reply) op) \<Rightarrow> activity \<Rightarrow> 'w \<Rightarrow> 'w \<Rightarrow> 'w \<Rightarrow> 'w \<Rightarrow> bool" where
  "handled validator checks handler act w1 w2 w3 w' \<longleftrightarrow> (\<exists>ans act'.
     validator act w1 = (Inr (Some (ans, act')), w2) \<and> accepted_answer ans \<and>
     run_checks checks act' w2 = (Inr None, w3) \<and> w' = snd (handler act' w3))"

context state_relation begin

lemma keeps_run_checks:
  assumes "\<forall>check\<in>set checks. \<forall>a. keeps R (check a)"
  shows "keeps R (run_checks checks act)"
  using assms
proof (induction checks)
  case Nil
  then show ?case by (simp add: keeps_basic)
next
  case (Cons check checks)
  then show ?case by (auto intro!: keeps_bindM keeps_if simp: keeps_basic split: prod.splits)
qed

lemma validated_handles:
  assumes run: "validated validator checks handler act w = (x, w')"
    and v: "\<And>a. keeps R (validator a)"
    and c: "\<forall>check\<in>set checks. \<forall>a. keeps R (check a)"
  shows "R w w' \<or> (\<exists>w2 w3. R w w3 \<and> handled validator checks handler act w w2 w3 w')"
proof -
  from bindM_keeps [OF v run [unfolded validated_def bindO_def]] consider "R w w'"
    | r w2 where "validator act w = (Inr r, w2)" "R w w2"
      "(case r of None \<Rightarrow> ret None | Some z \<Rightarrow> (case z of (a, act') \<Rightarrow> (case a of
        Refused code msg \<Rightarrow> ret (Some (code, msg))
      | _ \<Rightarrow> bindM (run_checks checks act') (\<lambda>failed. case failed of
          Some code \<Rightarrow> ret (Some (code, NoMessage))
        | None \<Rightarrow> bindM (handler act') (\<lambda>r. ret (Some r)))))) w2 = (x, w')"
    by (elim disjE exE conjE) (rule that; assumption)+
  then show ?thesis
  proof cases
    case 2
    show ?thesis
    proof (cases r)
      case None
      with 2 show ?thesis by (simp add: ret_run R_refl)
    next
      case (Some z)
      obtain a act' where z: "z = (a, act')" by (cases z)
      show ?thesis
      proof (cases "accepted_answer a")
        case False
        with 2 Some z show ?thesis by (cases a) (auto simp: accepted_answer_def ret_run)
      next
        case True
        with 2 Some z have r: "bindM (run_checks checks act') (\<lambda>failed. case failed of
            Some code \<Rightarrow> ret (Some (code, NoMessage))
          | None \<Rightarrow> bindM (handler act') (\<lambda>r. ret (Some r))) w2 = (x, w')"
          by (auto simp: accepted_answer_def)
        from bindM_keeps [OF keeps_run_checks [OF c] r] show ?thesis
        proof (elim disjE exE conjE)
          fix failed w3
          assume f: "run_checks checks act' w2 = (Inr failed, w3)" "R w2 w3"
            and rest: "(case failed of Some code \<Rightarrow> ret (Some (code, NoMessage))
              | None \<Rightarrow> bindM (handler act') (\<lambda>r. ret (Some r))) w3 = (x, w')"
          have "w' = snd (handler act' w3)" if "failed = None"
            using rest that by (auto simp: bindM_def ret_run split: prod.splits sum.splits)
          moreover have "w' = w3" if "failed \<noteq> None" using rest that by (auto simp: ret_run)
          ultimately show ?thesis
            using 2(1,2) Some z True f unfolding handled_def by (cases failed) (auto intro: R_trans)
        qed (use 2 in \<open>auto intro: R_trans\<close>)
      qed
    qed
  qed simp
qed

lemma catchM_always:
  "catchM m (\<lambda>e. Some (ret (g e))) w = (x, w') \<Longrightarrow> (\<exists>y. m w = (y, w')) \<and> (\<exists>b. x = Inr b)"
  by (auto simp: catchM_def ret_run split: prod.splits sum.splits)

lemma validate_request_user:
  assumes "validate_request env act = Inr (True, msg)"
  shows "\<exists>actor i. av_actor act = Some actor \<and> en_id actor = Text i \<and>
    strip i = strip (case session_user_id env of None \<Rightarrow> ''NOT_FOUND_IN_SESSION'' | Some s \<Rightarrow> s)"
  using assms
  by (auto simp: validate_request_def Let_def split: option.splits attr.splits if_splits)

text \<open>
  The handler runs only for a request of the user of the session that the validator and the
  configured checks accepted; every other request leaves the state as it was up to \<open>R\<close>. No
  exception leaves \<open>pre_process\<close>.
\<close>

lemma pre_process_handles:
  assumes run: "pre_process DB env parse True validator checks handler data w = (x, w')"
    and n: "\<And>u. keeps R (rd_get_user_name DB u)"
    and v: "\<And>a. keeps R (validator a)"
    and c: "\<forall>check\<in>set checks. \<forall>a. keeps R (check a)"
  shows "(\<exists>reply. x = Inr reply) \<and> (R w w' \<or> (\<exists>act actor i w1 w2 w3. R w w3 \<and>
    av_actor act = Some actor \<and> en_id actor = Text i \<and>
    strip i = strip (case session_user_id env of None \<Rightarrow> ''NOT_FOUND_IN_SESSION'' | Some s \<Rightarrow> s) \<and>
    handled validator checks handler act w1 w2 w3 w'))"
proof -
  have user: "keeps R (request_user_name DB env)"
    unfolding request_user_name_def
    by (auto intro!: keeps_if keeps_catchM keeps_bindM n simp: keeps_basic split: if_split_asm)
  let ?body = "bindM (request_user_name DB env) (\<lambda>user_name. case user_name of
      None \<Rightarrow> ret (Some (ec_no_user_in_session,
        Message (''no user found for user_id '' @ quoted (fmt (session_user_id env)) @ '' in session'')))
    | Some name \<Rightarrow> bindM (lift_result (parse (stamp_actor env name data))) (\<lambda>act.
        bindM (lift_result (validate_request env act)) (\<lambda>(is_valid, msg).
        if \<not> is_valid
        then ret (Some (ec_validation_error, case msg of None \<Rightarrow> NoMessage | Some m \<Rightarrow> Message m))
        else validated validator checks handler act)))"
  have "catchM ?body (\<lambda>e. Some (ret (Some (ec_unknown_error, Raised e)))) w = (x, w')"
    using run by (simp only: pre_process_def if_True)
  from catchM_always [OF this] obtain y where y: "?body w = (y, w')" and x: "\<exists>reply. x = Inr reply"
    by blast
  have "R w w' \<or> (\<exists>act actor i w1 w2 w3. R w w3 \<and> av_actor act = Some actor \<and> en_id actor = Text i \<and>
    strip i = strip (case session_user_id env of None \<Rightarrow> ''NOT_FOUND_IN_SESSION'' | Some s \<Rightarrow> s) \<and>
    handled validator checks handler act w1 w2 w3 w')"
    using bindM_keeps [OF user y]
  proof (elim disjE exE conjE)
    fix un w1
    assume w1: "R w w1" and r: "(case un of
      None \<Rightarrow> ret (Some (ec_no_user_in_session,
        Message (''no user found for user_id '' @ quoted (fmt (session_user_id env)) @ '' in session'')))
    | Some name \<Rightarrow> bindM (lift_result (parse (stamp_actor env name data))) (\<lambda>act.
        bindM (lift_result (validate_request env act)) (\<lambda>(is_valid, msg).
        if \<not> is_valid
        then ret (Some (ec_validation_error, case msg of None \<Rightarrow> NoMessage | Some m \<Rightarrow> Message m))
        else validated validator checks handler act))) w1 = (y, w')"
    show ?thesis
    proof (cases "w' = w1")
      case False
      with r obtain act msg where "validate_request env act = Inr (True, msg)"
        and "validated validator checks handler act w1 = (y, w')"
        by (auto simp: bindM_def lift_result_def ret_run throw_run split: option.splits sum.splits prod.splits if_splits)
      from validate_request_user [OF this(1)] validated_handles [OF this(2) v c] w1 R_trans show ?thesis
        by metis
    qed (use w1 in simp)
  qed simp
  with x show ?thesis by blast
qed

end

subsection \<open>The validators of rooms only read Redis\<close>

lemma reads_need: "(\<And>a. keeps same_redis (f a)) \<Longrightarrow> keeps same_redis (need v f)"
  by (cases v) (simp_all add: reads_only)

lemma reads_answers:
  "keeps same_redis (accept act)" "keeps same_redis (refuse act code msg)"
  "keeps same_redis (refuse_with act code d)" "keeps same_redis (refuse_acl act m)"
  by (simp_all add: keeps_def answers_run)

lemma keeps_or_refuse:
  "keeps same_redis m \<Longrightarrow> keeps same_redis refusal \<Longrightarrow> (\<And>a. keeps same_redis (f a)) \<Longrightarrow>
     keeps same_redis (or_refuse m c refusal f)"
  unfolding or_refuse_def
  by (auto intro!: same_redis.keeps_bindM same_redis.keeps_catchM simp: reads_only split: if_splits option.splits)

lemma reads_queries:
  "keeps same_redis (dr_is_super_user E u)" "keeps same_redis (dr_is_global_moderator E u)"
  "keeps same_redis (dr_is_admin E c u)" "keeps same_redis (dr_is_owner E c u)"
  "keeps same_redis (dr_is_owner_channel E c u)"
  by (simp_all add: keeps_def role_answers)

lemma reads_pair: "(\<And>a b. keeps same_redis (f a b)) \<Longrightarrow> keeps same_redis (case p of (a, b) \<Rightarrow> f a b)"
  by (cases p) simp

lemmas reads_intros = same_redis.keeps_bindM same_redis.keeps_thenM same_redis.keeps_bindO keeps_or_refuse
  same_redis.keeps_if same_redis.keeps_option reads_need reads_pair

lemmas reads_facts = reads_only reads_answers reads_redis reads_redis_more reads_redis_utils reads_queries
  keeps_redis_room_name keeps_redis_channel_for_room redis_requests.keeps_utils_is_admin

lemma reads_misc:
  "keeps same_redis (dr_is_room_ephemeral E r)"
  "keeps same_redis (utils_is_moderator (redis_req_db E now) ro u)"
  "keeps same_redis (room_name_restricted (redis_req_db E now) name)"
  by (auto simp: dr_is_room_ephemeral_def d_sismember_def utils_is_moderator_def room_name_restricted_def reads_only
      reads_redis keeps_redis_room_name op_simps intro!: same_redis.keeps_bindM same_redis.keeps_thenM)
    (auto simp: keeps_def op_simps)

lemma reads_kick: "keeps same_redis (on_kick (redis_req_db E now) act)"
  unfolding on_kick_def redis_req_db_simps by (intro reads_intros reads_facts | simp split: option.split)+

lemma reads_ban: "keeps same_redis (on_ban (redis_req_db E now) act)"
  unfolding on_ban_def redis_req_db_simps Let_def by (intro reads_intros reads_facts | simp split: option.split)+

lemma reads_remove_or_rename: "keeps same_redis (remove_or_rename_room (redis_req_db E now) act action)"
  unfolding remove_or_rename_room_def redis_req_db_simps
  by (intro reads_intros reads_facts reads_misc | simp split: option.split)+

lemma reads_create: "keeps same_redis (on_create fuel (redis_req_db E now) env act)"
  unfolding on_create_def create_checks_def redis_req_db_simps Let_def
  by (intro reads_intros reads_facts reads_misc redis_requests.keeps_validate_acl | simp split: option.split)+

subsection \<open>Creating a room\<close>

lemma read_attr_run_Text:
  "p = Some e \<Longrightarrow> g e = Text s \<Longrightarrow> bindM (read_attr p g) f w = f (Some s) w"
  by (simp add: bindM_def read_attr_Some)

context db_env begin

lemma create_checks_guarantee:
  assumes acc: "create_checks fuel (redis_req_db E now) env act (Some c) name w = (Inr (Some (Accepted, act')), w')"
  shows "c \<noteq> '''' \<and> v_channels (dv E w) c \<noteq> None \<and> \<not> name_taken (dv E w) c name \<and>
    (act' = act \<or> act' = set_target_type ''room'' act)"
proof -
  obtain w1 where r: "c \<noteq> ''''" "v_channels (dv E w) c \<noteq> None"
    "room_name_restricted (redis_req_db E now) name w = (Inr False, w1)"
    and n: "\<not> name_taken (dv E w1) c name"
    and a: "act' = act \<or> act' = set_target_type ''room'' act"
    using acc
    by (auto simp: create_checks_def bind_exists bindM_Inr_iff [of "room_name_restricted _ _"]
        bindM_Inr_iff [of "dr_get_acls_in_channel_for_action _ _ _"] bindO_Inr answers_run Let_def split: if_split_asm)
  have "keeps same_redis (room_name_restricted (redis_req_db E now) name)"
    by (auto simp: room_name_restricted_def reads_only reads_redis intro!: same_redis.keeps_bindM)
  from dv_same [OF keepsD [OF this r(3)], of E] r n a show ?thesis by simp
qed

lemma create_guarantees:
  assumes acc: "on_create fuel (redis_req_db E now) env act w = (Inr (Some (Accepted, act')), w')"
    and act: "av_object act = Some ob" "en_url ob = Text c" "av_target act = Some t" "en_display_name t = Text n"
  shows "is_base64 (Some n) \<and> c \<noteq> '''' \<and> v_channels (dv E w) c \<noteq> None \<and>
    \<not> name_taken (dv E w) c (b64d (Some n)) \<and>
    (\<exists>cn. act' = set_object_name cn act \<or> act' = set_target_type ''room'' (set_object_name cn act))"
proof -
  obtain cn w1 where cn: "dr_get_channel_name E c w = (Inr cn, w1)"
    and r: "create_checks fuel (redis_req_db E now) env (set_object_name cn act) (Some c) (b64d (Some n)) w1 =
      (Inr (Some (Accepted, act')), w')"
    and b: "is_base64 (Some n)"
    using acc act
    by (auto simp: on_create_def has_attr_def read_attr_run_Text or_refuse_Inr answers_run Let_def split: if_split_asm)
  from create_checks_guarantee [OF r] b dv_same [OF keepsD [OF reads_redis(2) cn], of E] show ?thesis
    by auto
qed

lemma set_owners_run:
  assumes "v_room_name (dv E w) r \<noteq> None"
  shows "\<exists>w' roles. iterM (dr_set_owner E r) os w = (Inr (), w') \<and>
    dv E w' = (dv E w)\<lparr>v_room_roles := roles\<rparr> \<and>
    (\<forall>x. room_role (dv E w') r x role_owner \<longleftrightarrow> room_role (dv E w) r x role_owner \<or> x \<in> set os)"
  using assms
proof (induction os arbitrary: w)
  case Nil
  then show ?case by (auto simp: op_simps intro!: exI [of _ "v_room_roles (dv E w)"])
next
  case (Cons o1 os)
  from set_owner_run [OF Cons.prems, of o1] obtain w1 where w1: "dr_set_owner E r o1 w = (Inr (), w1)"
    and v: "dv E w1 = (dv E w)\<lparr>v_room_roles := upd2 (v_room_roles (dv E w)) r o1
      (Some (add_role_text (de_order E) role_owner (v_room_roles (dv E w) r o1)))\<rparr>"
    by blast
  have role: "room_role (dv E w1) r x role_owner \<longleftrightarrow> room_role (dv E w) r x role_owner \<or> x = o1" for x
    by (auto simp: v room_role_def role_in_add set_order role_names)
  from Cons.IH [of w1] Cons.prems v obtain w' roles where
    "iterM (dr_set_owner E r) os w1 = (Inr (), w')" "dv E w' = (dv E w1)\<lparr>v_room_roles := roles\<rparr>"
    "\<forall>x. room_role (dv E w') r x role_owner \<longleftrightarrow> room_role (dv E w1) r x role_owner \<or> x \<in> set os"
    by auto
  then show ?case
    using w1 v role by (auto simp: thenM_def bindM_def)
qed

lemma registry_roles: "registry_ok (v\<lparr>v_room_roles := x\<rparr>) = registry_ok v"
  by (simp add: registry_ok_def)

lemma api_create_run:
  assumes ok: "db_ok E agrees w" and reg: "registry_ok (dv E w)"
    and act: "av_object act = Some ob" "en_url ob = Text c" "av_target act = Some t" "en_display_name t = Text n"
      "av_actor act = Some a" "en_id a = Text u" "en_display_name a = Text un"
    and b: "is_base64 (Some n)" "\<not> blank (b64d (Some n))" and os: "get_owners order act = Inr os"
    and new: "v_room_name (dv E w) new = None"
    and c: "c \<noteq> ''''" "v_channels (dv E w) c \<noteq> None" "\<not> name_taken (dv E w) c (b64d (Some n))"
  shows "\<exists>w'. api_on_create order new (dr_create_room E) (dr_set_owner E) act w = (Inr (), w') \<and>
    registry_ok (dv E w') \<and> v_rooms (dv E w') c new = Some (b64d (Some n)) \<and>
    (\<forall>x\<in>insert u (set os). room_role (dv E w') new x role_owner)"
proof -
  let ?name = "b64d (Some n)"
  define eph where "eph = ((case en_object_type t of Text s \<Rightarrow> s | _ \<Rightarrow> ''room'') \<noteq> ''private'')"
  from new have fresh: "v_channel_of (dv E w) new = None" "v_rooms (dv E w) c new = None"
    using registry_okD [OF reg] by (metis option.distinct(1) option.exhaust)+
  have "create_room_error seen (dv E w) (Some ?name) new c = None" for seen
    using c b fresh by (simp add: create_room_error_def)
  with create_room_outcome [OF ok, of "Some ?name" new c u un eph] obtain w1 where
    w1: "dr_create_room E (Some ?name) new c u un eph w = (Inr (), w1)"
    and v: "dv E w1 = created_room (de_order E) ?name new c u un eph (dv E w)"
    by (cases "dr_create_room E (Some ?name) new c u un eph w") (auto simp: outcome_def)
  have reg1: "registry_ok (dv E w1)"
    unfolding v by (rule registry_created [OF reg new fresh(1) c(3)])
  have u: "room_role (dv E w1) new u role_owner"
    by (simp add: v created_room_def room_role_def role_in_add set_order role_names)
  obtain w2 roles where w2: "iterM (dr_set_owner E new) os w1 = (Inr (), w2)"
    "dv E w2 = (dv E w1)\<lparr>v_room_roles := roles\<rparr>"
    "\<forall>x. room_role (dv E w2) new x role_owner \<longleftrightarrow> room_role (dv E w1) new x role_owner \<or> x \<in> set os"
    using set_owners_run [of w1 new os] by (auto simp: v created_room_def)
  have "api_on_create order new (dr_create_room E) (dr_set_owner E) act w = (Inr (), w2)"
    using act os w1 w2(1)
    by (simp add: api_on_create_def read_attr_run_Text Let_def b(1) lift_result_run thenM_def bindM_def
        read_attr_Some eph_def)
  moreover have "v_rooms (dv E w2) c new = Some ?name"
    by (simp add: w2(2) v created_room_def)
  ultimately show ?thesis
    using w2 reg1 u by (auto simp: registry_roles)
qed

end

end
