(* ===== verification/Claims_Requests.thy ===== *)
theory Claims_Requests
  imports Handler_Facts
begin

section \<open>Properties of requests\<close>

subsection \<open>The environment of the examples\<close>

text \<open>A user with the id 1 in the session; user 1 is online, in room \<open>r\<close> and its owner.\<close>

definition demo_renv :: "('s, 'c) dbw renv" where
  "demo_renv = \<lparr>re_acl = \<lparr>ae_config = \<lparr>ac_available = [], ac_validation = [], ac_targets = []\<rparr>,
       ae_session = [''user_id'' \<mapsto> ''1'', ''user_name'' \<mapsto> ''One'']\<rparr>,
     re_now = 0, re_tz = 0, re_sender_can_delete = False, re_invisible_unrestricted = False,
     re_validate_mutes = False, re_validate_whispers = False, re_order = (\<lambda>xs. xs),
     re_new_part = blank_entity, re_literal_text = (\<lambda>_. None), re_message_sender = (\<lambda>_. ret None),
     re_excluded_list = (\<lambda>_. ret None), re_authenticate = (\<lambda>_ _. ret (False, None, [])),
     re_can_send_whisper_to = (\<lambda>_ _. ret (True, 0)), re_event = (\<lambda>_. ret ())\<rparr>"

definition demo_room :: "(store, unit) dbw" where
  "demo_room = \<lparr>db_redis = demo_store\<lparr>
       st_strings := [rk_user_status ''1'' \<mapsto> status_available],
       st_hashes := (st_hashes demo_store)(rk_users_in_room ''r'' := [(''1'', ''One'')])\<rparr>,
     db_cache = ()\<rparr>"

definition demo_request :: activity where
  "demo_request = blank_activity\<lparr>
     av_actor := Some (blank_entity\<lparr>en_id := Text ''1'', en_display_name := Text ''T25l''\<rparr>),
     av_object := Some (blank_entity\<lparr>en_id := Text ''2'', en_url := Text ''c'', en_summary := Text ''5m''\<rparr>),
     av_target := Some (blank_entity\<lparr>en_id := Text ''r'', en_object_type := Text ''room'',
       en_display_name := Text ''TmV3''\<rparr>)\<rparr>"

lemma demo_request_parts:
  "av_actor demo_request = Some (blank_entity\<lparr>en_id := Text ''1'', en_display_name := Text ''T25l''\<rparr>)"
  "av_object demo_request = Some (blank_entity\<lparr>en_id := Text ''2'', en_url := Text ''c'', en_summary := Text ''5m''\<rparr>)"
  "av_target demo_request = Some (blank_entity\<lparr>en_id := Text ''r'', en_object_type := Text ''room'',
     en_display_name := Text ''TmV3''\<rparr>)"
  by (simp_all add: demo_request_def)

lemma not_blank_demo: "\<not> blank ''r''" "\<not> blank ''1''" "\<not> blank ''2''" "\<not> blank ''New''"
  by (simp_all add: blank_iff is_space_def)

definition accepts :: "exc + (answer \<times> activity) option \<Rightarrow> bool" where
  "accepts r \<longleftrightarrow> (case r of Inr (Some (Accepted, _)) \<Rightarrow> True | _ \<Rightarrow> False)"

lemma accepted_run:
  assumes "accepts (fst (m w))"
  obtains act' w' where "m w = (Inr (Some (Accepted, act')), w')"
  using assms by (cases "m w") (auto simp: accepts_def split: sum.splits option.splits answer.splits)

subsection \<open>Requests and their handlers\<close>





subsection \<open>Who may kick, ban and remove\<close>

text \<open>A request to kick from a room that exists is decided in this way and changes nothing in Redis:
operators cannot be kicked; the owner of the room, operators and the admins of its channel may kick
everybody else; nobody else may.\<close>

lemma kick_decision:
  assumes "db_env E agrees" "db_ok E agrees w" "\<not> blank r"
    and "v_channel_of (dv E w) r = Some c" "v_room_name (dv E w) r \<noteq> None"
    and "av_actor act = Some a" "en_id a = Text u" "av_target act = Some t" "en_id t = Text r"
      "av_object act = Some ob" "en_id ob = Text k" "\<not> blank k"
  shows "\<exists>w'. dv E w' = dv E w \<and> on_kick (redis_req_db E now) act w = (Inr (Some (
      if operator_view (dv E w) (Some k) then Refused ec_not_allowed (Message ''not allowed to kick operators'')
      else if room_role (dv E w) r u role_owner \<or> operator_view (dv E w) (Some u) \<or> channel_role (dv E w) c u role_admin
      then Accepted else Refused ec_not_allowed (Message ''not allowed to kick''), act)), w')"
  by (rule db_env.kick_decided [OF assms])

lemma kick_decision_witness:
  "\<exists>w'. on_kick (redis_req_db memory_denv 0) demo_request demo = (Inr (Some (Accepted, demo_request)), w')"
  using kick_decision [OF memory_db.db_env_axioms demo_ok not_blank_demo(1) _ _ demo_request_parts(1) _
      demo_request_parts(3) _ demo_request_parts(2) _ not_blank_demo(3), of "''c''" "''1''" 0]
  by (auto simp: operator_view_def q_super_def q_globalmod_def room_role_def global_role_def role_in_text_def
      split_on.simps role_owner_def)

text \<open>C22: A request to ban from a room that exists is accepted exactly when the duration is well formed, the
room is in the channel of the request (that of the room when none is given), and the user is an
operator, or owns the room and does not ban an operator. It changes nothing in Redis.\<close>

theorem room_ban_decision:
  assumes "db_env E agrees" "db_ok E agrees w" "\<not> blank r"
    and "v_channel_of (dv E w) r = Some c" "v_room_name (dv E w) r \<noteq> None"
    and "av_actor act = Some a" "en_id a = Text u" "av_target act = Some t" "en_id t = Text r"
      "en_object_type t = Text tt" "tt \<noteq> ''global''"
      "av_object act = Some ob" "en_id ob = Text k" "\<not> blank k" "en_summary ob = Text d"
    and "ch = (if none_or_blank (given_url ob) then c else the (given_url ob))"
  shows "\<exists>w' ans. dv E w' = dv E w \<and> on_ban (redis_req_db E now) act w = (Inr (Some (ans, act)), w') \<and>
    (ans = Accepted \<longleftrightarrow> duration_error (Some d) = None \<and> v_rooms (dv E w) ch r \<noteq> None \<and>
      (operator_view (dv E w) (Some u) \<or> \<not> operator_view (dv E w) (Some k) \<and> room_role (dv E w) r u role_owner))"
  by (rule db_env.room_ban_decided [OF assms])

lemma room_ban_decision_witness:
  "\<exists>w'. on_ban (redis_req_db memory_denv 0) demo_request demo = (Inr (Some (Accepted, demo_request)), w')"
proof -
  have d: "duration_error (Some ''5m'') = None" by code_simp
  have ch: "''c'' = (if none_or_blank (given_url (blank_entity\<lparr>en_id := Text ''2'', en_url := Text ''c'',
      en_summary := Text ''5m''\<rparr>)) then ''c'' else the (given_url (blank_entity\<lparr>en_id := Text ''2'',
      en_url := Text ''c'', en_summary := Text ''5m''\<rparr>)))"
    by (simp add: given_url_def)
  show ?thesis
    using room_ban_decision [OF memory_db.db_env_axioms demo_ok not_blank_demo(1) _ _ demo_request_parts(1) _
        demo_request_parts(3) _ _ _ demo_request_parts(2) _ not_blank_demo(3) _ ch, of "''1''" "''room''" "''5m''" 0]
    by (auto simp: d operator_view_def q_super_def q_globalmod_def room_role_def global_role_def role_in_text_def
        split_on.simps role_owner_def)
qed

text \<open>A request to ban from everything is accepted exactly when the duration is well formed, a user is
named, and the one who asks is an operator, or has the role of admin in a channel with the id
\<open>None\<close> and does not ban an operator: the validator asks for the role without a channel, so the
admin of a channel has no such right. The state is left as it was.\<close>

lemma global_ban_decision:
  assumes "db_env E agrees"
    and "av_actor act = Some a" "en_id a = Text u" "av_target act = Some t" "en_id t \<noteq> Absent"
      "en_object_type t = Text ''global''"
      "av_object act = Some ob" "en_id ob = Text k" "en_summary ob = Text d"
  shows "\<exists>ans. on_ban (redis_req_db E now) act w = (Inr (Some (ans, act)), w) \<and>
    (ans = Accepted \<longleftrightarrow> duration_error (Some d) = None \<and> \<not> blank k \<and>
      (operator_view (dv E w) (Some u) \<or>
       \<not> operator_view (dv E w) (Some k) \<and> channel_role (dv E w) ''None'' u role_admin))"
  by (rule db_env.global_ban_decided [OF assms])

definition demo_global :: activity where
  "demo_global = demo_request\<lparr>av_target := Some (blank_entity\<lparr>en_id := Text ''r'', en_object_type := Text ''global''\<rparr>)\<rparr>"

lemma global_ban_decision_witness:
  "\<exists>ans. on_ban (redis_req_db memory_denv 0) demo_global demo = (Inr (Some (ans, demo_global)), demo) \<and> ans \<noteq> Accepted"
  using global_ban_decision [OF memory_db.db_env_axioms, where act = demo_global and now = 0 and w = demo
      and u = "''1''" and k = "''2''" and d = "''5m''"]
  by (auto simp: demo_global_def demo_request_parts operator_view_def q_super_def q_globalmod_def channel_role_def
      global_role_def role_in_text_def)



subsection \<open>What joining and sending require\<close>

text \<open>C8: Whoever the validator lets join a room joins a room that exists, and is an operator, an owner of
the room, an owner of a channel, or has no ban recorded, global or from the room: a ban counts
however long it has been over, since only its entry is looked at.\<close>

theorem join_guarantees:
  assumes "on_join fuel (redis_req_db E now) env act w = (Inr (Some (Accepted, act')), w')"
    and "av_target act = Some t" "en_id t = Text r" "\<not> blank r"
    and "session_user_id env = Some u" "\<not> blank u"
    and "\<And>x. keeps same_redis (re_excluded_list env x)"
  shows "v_room_name (dv E w) r \<noteq> None \<and>
    (operator_view (dv E w) (Some u) \<or> room_role (dv E w) r u role_owner \<or>
     (\<exists>c. channel_role (dv E w) c u role_owner) \<or>
     \<not> has_ban_time (v_bans (dv E w) None u) \<and> \<not> has_ban_time (v_bans (dv E w) (Some r) u))"
  by (rule join_accepted [OF assms])

lemma join_guarantees_witness:
  "v_room_name (dv memory_denv demo_room) ''r'' \<noteq> None"
proof -
  have "accepts (fst (on_join 0 (redis_req_db memory_denv 0) demo_renv demo_request demo_room))" by code_simp
  then obtain act' w' where run: "on_join 0 (redis_req_db memory_denv 0) demo_renv demo_request demo_room =
    (Inr (Some (Accepted, act')), w')" by (rule accepted_run)
  have u: "session_user_id (demo_renv :: (store, unit) dbw renv) = Some ''1''"
    by (simp add: session_user_id_def demo_renv_def)
  have x: "keeps same_redis (re_excluded_list (demo_renv :: (store, unit) dbw renv) x)" for x
    by (simp add: demo_renv_def reads_only)
  show ?thesis
    using join_guarantees [OF run demo_request_parts(3) _ not_blank_demo(1) u not_blank_demo(2) x] by simp
qed



end
