(* ===== verification/Storage_Redis.thy ===== *)
theory Storage_Redis
  imports Config_Keys Redis_Client Base64 Activity
begin

section \<open>Messages and sessions on Redis\<close>

text \<open>
  The message storage \<open>StorageRedis\<close> of \<^verbatim>\<open>dino/storage/redis.py\<close> and the sessions of
  \<open>AuthRedis\<close> in \<^verbatim>\<open>dino/auth/redis.py\<close>. Their state is the Redis server. The identity in the
  session of the request and the configured length of the history are fields of the environment;
  a set of message ids is given as the list of its elements in the order of the iteration.
\<close>

subsection \<open>Messages\<close>

record 's stenv =
  se_redis :: "'s redis"
  se_max_history :: int
  se_session :: "string \<Rightarrow> string option"

definition history_line :: "string list \<Rightarrow> string" where
  "history_line parts = join_on (CHR '','') parts"

definition st_store_message :: "'s stenv \<Rightarrow> activity \<Rightarrow> ('s, unit) op" where
  "st_store_message E act =
     bindM (read_attr (av_target act) en_id) (\<lambda>target_id.
     bindM (read_attr (av_target act) en_display_name) (\<lambda>target_name.
     let user_id = se_session E ''user_id''; user_name = b64e (se_session E ''user_name'') in
     bindM (read_attr (av_object act) en_url) (\<lambda>channel_id.
     bindM (read_attr (av_object act) en_summary) (\<lambda>channel_name.
     bindM (read_attr (av_object act) en_content) (\<lambda>msg.
     if \<not> is_base64 msg then throw (RuntimeError ''message is not base64'')
     else
       bindM (lift_result (attr_value (av_id act))) (\<lambda>message_id.
       bindM (lift_result (attr_value (av_published act))) (\<lambda>published.
       thenM (modify (\<lambda>s. r_lpush (se_redis E) s (rk_room_history (fmt target_id))
           (history_line [fmt message_id, fmt published, fmt user_id, user_name, b64e target_name,
              fmt channel_id, b64e channel_name, fmt msg])))
         (whenM (se_max_history E > 0)
           (modify (\<lambda>s. r_ltrim (se_redis E) s (rk_room_history (fmt target_id)) 0 (se_max_history E)))))))))))"

definition st_get_all_message_ids_for_user :: "string \<Rightarrow> ('s, string list) op" where
  "st_get_all_message_ids_for_user user_id = ret []"

definition st_get_undeleted_message_ids_for_user :: "string \<Rightarrow> ('s, string list) op" where
  "st_get_undeleted_message_ids_for_user user_id = throw NotImplementedError"

definition starts_with :: "string \<Rightarrow> string \<Rightarrow> bool" where
  "starts_with p s \<longleftrightarrow> take (length p) s = p"

text \<open>\<open>LREM\<close> with \<open>None\<close> as the value is refused by the client.\<close>

definition st_delete_message :: "'s stenv \<Rightarrow> string option \<Rightarrow> string option \<Rightarrow> ('s, unit) op" where
  "st_delete_message E message_id room_id = (case room_id of
     None \<Rightarrow> throw (RuntimeError ''redis storage needs room_id parameter to delete message'')
   | Some room \<Rightarrow>
       if message_id = None \<or> message_id = Some '''' then ret ()
       else bindM (gets (\<lambda>s. r_lrange (se_redis E) s (rk_room_history room) 0 (- 1))) (\<lambda>all_history.
         case find (starts_with (the message_id @ '','')) all_history of
           None \<Rightarrow> throw RedisError
         | Some found \<Rightarrow> modify (\<lambda>s. r_lrem (se_redis E) s (rk_room_history room) found)))"

definition st_delete_messages :: "'s stenv \<Rightarrow> string option list \<Rightarrow> string option \<Rightarrow> ('s, unit) op" where
  "st_delete_messages E message_ids room_id = iterM (\<lambda>i. st_delete_message E i room_id) message_ids"

record hist_entry =
  he_message_id :: string
  he_from_user_id :: string
  he_from_user_name :: string
  he_target_id :: string
  he_target_name :: string
  he_body :: string
  he_channel_id :: string
  he_channel_name :: string
  he_timestamp :: string

definition parse_history_line :: "string \<Rightarrow> string \<Rightarrow> exc + hist_entry" where
  "parse_history_line room_id entry = (case split_max (CHR '','') 7 entry of
     [msg_id, published, user_id, user_name, target_name, channel_id, channel_name, msg] \<Rightarrow>
       Inr \<lparr>he_message_id = msg_id, he_from_user_id = user_id, he_from_user_name = b64d (Some user_name),
         he_target_id = room_id, he_target_name = b64d (Some target_name), he_body = b64d (Some msg),
         he_channel_id = channel_id, he_channel_name = b64d (Some channel_name), he_timestamp = published\<rparr>
   | _ \<Rightarrow> Inl ValueError)"

definition st_get_history :: "'s stenv \<Rightarrow> string \<Rightarrow> int option \<Rightarrow> ('s, hist_entry list) op" where
  "st_get_history E room_id limit =
     bindM (gets (\<lambda>s. r_lrange (se_redis E) s (rk_room_history room_id) 0 (case limit of None \<Rightarrow> - 1 | Some n \<Rightarrow> n)))
       (mapM (\<lambda>entry. lift_result (parse_history_line room_id entry)))"

subsection \<open>Acknowledgements\<close>

text \<open>
  The loop of \<open>_get_acks_for\<close> assigns \<open>acks[message_ids]\<close>, whose index is the whole set: the first
  acknowledgement that is found makes it raise, so the dictionary never gets an entry.
\<close>

definition int_text :: "string \<Rightarrow> exc + int" where
  "int_text s = (case py_float s of None \<Rightarrow> Inl ValueError | Some f \<Rightarrow> Inr (if f < 0 then - ((- f) div micro) else f div micro))"

definition st_get_acks_for :: "'s stenv \<Rightarrow> string list \<Rightarrow> string \<Rightarrow> ('s, (string \<times> int) list) op" where
  "st_get_acks_for E message_ids receiver_id =
     foldM (\<lambda>acks message_id.
       bindM (gets (\<lambda>s. r_hget (se_redis E) s (rk_ack_for_user receiver_id) message_id)) (\<lambda>ack.
       case ack of
         None \<Rightarrow> ret acks
       | Some a \<Rightarrow> bindM (lift_result (int_text a)) (\<lambda>_. throw TypeError))) [] message_ids"

definition st_update_acks_with_status ::
  "'s stenv \<Rightarrow> string list \<Rightarrow> string \<Rightarrow> string \<Rightarrow> int \<Rightarrow> ('s, unit) op" where
  "st_update_acks_with_status E message_ids receiver_id target_id status =
     iterM (\<lambda>message_id.
       thenM (modify (\<lambda>s. r_hset (se_redis E) s (rk_ack_for_user receiver_id) message_id (str_int status)))
         (modify (\<lambda>s. r_sadd (se_redis E) s (rk_ack_for_room target_id) message_id))) message_ids"

definition st_mark_as_status ::
  "'s stenv \<Rightarrow> string list \<Rightarrow> string \<Rightarrow> string \<Rightarrow> int \<Rightarrow> ('s, unit) op" where
  "st_mark_as_status E message_ids receiver_id target_id status =
     bindM (st_get_acks_for E message_ids receiver_id) (\<lambda>current_acks.
     let to_add = filter (\<lambda>m. map_of current_acks m = None) message_ids;
         to_update = filter (\<lambda>m. case map_of current_acks m of None \<Rightarrow> False | Some a \<Rightarrow> \<not> a \<ge> status) message_ids
     in thenM (whenM (to_update \<noteq> []) (st_update_acks_with_status E message_ids receiver_id target_id status))
          (whenM (to_add \<noteq> []) (st_update_acks_with_status E message_ids receiver_id target_id status)))"

definition st_mark_as_received :: "'s stenv \<Rightarrow> string list \<Rightarrow> string \<Rightarrow> string \<Rightarrow> ('s, unit) op" where
  "st_mark_as_received E message_ids receiver_id target_id =
     st_mark_as_status E message_ids receiver_id target_id ack_received"

definition st_mark_as_read :: "'s stenv \<Rightarrow> string list \<Rightarrow> string \<Rightarrow> string \<Rightarrow> ('s, unit) op" where
  "st_mark_as_read E message_ids receiver_id target_id =
     st_mark_as_status E message_ids receiver_id target_id ack_read"

definition st_mark_as_unacked :: "'s stenv \<Rightarrow> string \<Rightarrow> string \<Rightarrow> string \<Rightarrow> ('s, unit) op" where
  "st_mark_as_unacked E message_id receiver_id target_id =
     st_mark_as_status E [message_id] receiver_id target_id ack_not_acked"

definition st_get_unacked_history :: "string \<Rightarrow> ('s, hist_entry list) op" where
  "st_get_unacked_history user_id = ret []"

definition st_get_history_for_time_slice :: "string \<Rightarrow> int \<Rightarrow> int \<Rightarrow> ('s, hist_entry list) op" where
  "st_get_history_for_time_slice room_id from_time to_time = throw NotImplementedError"

definition st_get_unread_history :: "string \<Rightarrow> int \<Rightarrow> int \<Rightarrow> ('s, hist_entry list) op" where
  "st_get_unread_history room_id time_stamp limit = throw NotImplementedError"

subsection \<open>Sessions\<close>

text \<open>The members of the enumeration \<open>SessionKeys\<close> whose value is a text, in its order.\<close>

definition session_keys :: "string list" where
  "session_keys = [''user_id'', ''user_name'', ''age'', ''gender'', ''membership'', ''group'', ''country'',
     ''city'', ''image'', ''user_type'', ''crossgroup'', ''has_webcam'', ''fake_checked'', ''token'',
     ''is_streaming'', ''spoken_language'', ''excluded_list'', ''invisible'', ''avatar'', ''app_avatar'',
     ''app_avatar_safe'', ''enabled_safe'', ''user_agent'', ''user_agent_browser'', ''user_agent_version'',
     ''user_agent_platform'', ''user_agent_language'']"

definition au_authenticate_and_populate_session :: "'s redis \<Rightarrow> string option \<Rightarrow> string option \<Rightarrow>
    ('s, bool \<times> string option \<times> (string \<times> string) list option) op" where
  "au_authenticate_and_populate_session R user_id supplied_token =
     (if user_id = None \<or> user_id = Some '''' then ret (False, Some ''no user_id supplied'', None)
      else if supplied_token = None \<or> supplied_token = Some '''' then ret (False, Some ''no token supplied'', None)
      else bindM (gets (\<lambda>s. r_hgetall R s (rk_auth_key (the user_id)))) (\<lambda>stored_session.
        if stored_session = [] then
          ret (False, Some ''no session found for this user id, not logged in yet'', None)
        else if map_of stored_session ''token'' \<noteq> supplied_token then
          ret (False, Some (''invalid token '' @ [CHR 0x22] @ the supplied_token @ [CHR 0x22] @
            '' supplied for user id '' @ [CHR 0x22] @ the user_id @ [CHR 0x22]), None)
        else ret (True, None, Some (List.map_filter (\<lambda>key. case map_of stored_session key of
            None \<Rightarrow> None
          | Some v \<Rightarrow> if v = '''' then None else Some (key, v)) session_keys))))"

text \<open>
  \<open>get_user_info\<close>: the cached session if it has any entry, or else the stored one without the token
  and the user id, which is put into the cache. The state is that of Redis and of the cache, and
  the cache is given by its two operations.
\<close>

definition au_get_user_info :: "('w \<Rightarrow> string \<Rightarrow> (string \<times> string) list) \<Rightarrow>
    (string \<Rightarrow> ('w, (string \<times> string) list option) op) \<Rightarrow> (string \<Rightarrow> (string \<times> string) list \<Rightarrow> ('w, unit) op) \<Rightarrow>
    string \<Rightarrow> bool \<Rightarrow> ('w, (string \<times> string) list) op" where
  "au_get_user_info hgetall cached set_cached user_id skip_cache =
     bindM (if skip_cache then ret None else cached user_id) (\<lambda>session. case session of
       Some (e # es) \<Rightarrow> ret (e # es)
     | _ \<Rightarrow> bindM (gets (\<lambda>w. hgetall w (rk_auth_key user_id))) (\<lambda>stored.
         let stored_session = filter (\<lambda>(key, val). key \<notin> {''token'', ''user_id''}) stored
         in thenM (set_cached user_id stored_session) (ret stored_session)))"

text \<open>A value of the session that is a truth value is stored as a number.\<close>

datatype session_value = SessionText string | SessionBool bool | SessionTime string

definition au_update_session_for_key :: "'s redis \<Rightarrow> string \<Rightarrow> string \<Rightarrow> session_value \<Rightarrow> ('s, unit) op" where
  "au_update_session_for_key R user_id session_key session_value =
     modify (\<lambda>s. r_hset R s (rk_auth_key user_id) session_key (case session_value of
         SessionText t \<Rightarrow> t
       | SessionBool b \<Rightarrow> (if b then ''1'' else ''0'')
       | SessionTime timestamp \<Rightarrow> timestamp))"

end
