(* ===== verification/Storage_Facts.thy ===== *)
theory Storage_Facts
  imports Storage_Redis
begin

section \<open>Facts on the storage of messages\<close>

text \<open>
  The lines of a history and their parts, and what the operations of the storage do to the
  histories of all rooms, for any Redis client that satisfies its laws.
\<close>

subsection \<open>Lines of the history\<close>

definition no_comma :: "string \<Rightarrow> bool" where
  "no_comma s \<longleftrightarrow> CHR '','' \<notin> set s"

lemma b64e_no_comma: "no_comma (b64e s)"
  unfolding no_comma_def using b64e_chars [of "CHR '',''"] by (auto simp: b64_value_def Let_def)

lemma split_history_line:
  assumes "no_comma a" "no_comma b" "no_comma c" "no_comma d" "no_comma e" "no_comma f" "no_comma g"
  shows "split_max (CHR '','') 7 (history_line [a, b, c, d, e, f, g, h]) = [a, b, c, d, e, f, g, h]"
proof -
  have seven: "7 = Suc (Suc (Suc (Suc (Suc (Suc (Suc 0))))))" by simp
  show ?thesis
    unfolding seven using assms
    by (simp add: history_line_def no_comma_def split_max_append_sep del: split_max.simps(2))
qed

lemma parse_stored_line:
  assumes "no_comma i" "no_comma p" "no_comma u" "no_comma c"
    "utf8_ok (bytes_of (strip un))" "utf8_ok (bytes_of (strip tn))" "utf8_ok (bytes_of (strip cn))"
  shows "parse_history_line r (history_line [i, p, u, b64e (Some un), b64e (Some tn), c, b64e (Some cn), msg]) =
    Inr \<lparr>he_message_id = i, he_from_user_id = u, he_from_user_name = strip un, he_target_id = r,
      he_target_name = strip tn, he_body = b64d (Some msg), he_channel_id = c, he_channel_name = strip cn,
      he_timestamp = p\<rparr>"
  using assms by (simp add: parse_history_line_def split_history_line b64e_no_comma b64d_b64e_text)

subsection \<open>The history of a room\<close>

definition history_of :: "'s stenv \<Rightarrow> 's \<Rightarrow> string \<Rightarrow> string list" where
  "history_of E s r = r_lrange (se_redis E) s (rk_room_history r) 0 (- 1)"

definition kept :: "int \<Rightarrow> 'a list \<Rightarrow> 'a list" where
  "kept n xs = (if n > 0 then take (nat n + 1) xs else xs)"

lemma history_key [simp]: "rk_room_history r = rk_room_history r' \<longleftrightarrow> r = r'"
  by (simp add: rk_room_history_text)

definition sent :: "activity \<Rightarrow> string \<Rightarrow> string \<Rightarrow> string \<Rightarrow> string \<Rightarrow> string \<Rightarrow> string \<Rightarrow> string \<Rightarrow> bool" where
  "sent act i p r tn c cn msg \<longleftrightarrow> av_id act = Text i \<and> av_published act = Text p \<and>
     (\<exists>t ob. av_target act = Some t \<and> en_id t = Text r \<and> en_display_name t = Text tn \<and>
        av_object act = Some ob \<and> en_url ob = Text c \<and> en_summary ob = Text cn \<and> en_content ob = Text msg)"

lemma bindM_lift_result: "bindM (lift_result r) k w = (case r of Inl e \<Rightarrow> (Inl e, w) | Inr a \<Rightarrow> k a w)"
  by (cases r) (simp_all add: bindM_def lift_result_run)

context redis_client begin

lemmas list_laws = lrange_slice lrange_lpush lrange_ltrim lrange_lrem

lemmas map_of_hgetall_law = map_of_hgetall

lemma lrange_trimmed:
  "0 < n \<Longrightarrow> r_lrange R (r_ltrim R s k 0 n) k' 0 (- 1) =
     (if k' = k then take (nat n + 1) (r_lrange R s k 0 (- 1)) else r_lrange R s k' 0 (- 1))"
  by (simp add: lrange_ltrim list_range_prefix)

end

lemma store_message_run:
  assumes R: "redis_client (se_redis E)" and a: "sent act i p r tn c cn msg" and b: "is_base64 (Some msg)"
  shows "\<exists>s'. st_store_message E act s = (Inr (), s') \<and>
    (\<forall>r'. history_of E s' r' = (if r' = r then kept (se_max_history E)
        (history_line [i, p, fmt (se_session E ''user_id''), b64e (se_session E ''user_name''), b64e (Some tn), c,
           b64e (Some cn), msg] # history_of E s r) else history_of E s r'))"
  using a b
  by (auto simp: st_store_message_def sent_def op_simps bindM_lift_result history_of_def kept_def
      redis_client.list_laws(2) [OF R] redis_client.lrange_trimmed [OF R] fmt_def)

lemma delete_message_run:
  assumes R: "redis_client (se_redis E)" and i: "i \<noteq> ''''"
  shows "\<exists>s'. st_delete_message E (Some i) (Some r) s = (case find (starts_with (i @ '','')) (history_of E s r) of
      None \<Rightarrow> (Inl RedisError, s) | Some line \<Rightarrow> (Inr (), s')) \<and>
    (\<forall>line. find (starts_with (i @ '','')) (history_of E s r) = Some line \<longrightarrow>
      (\<forall>r'. history_of E s' r' = (if r' = r then remove1 line (history_of E s r) else history_of E s r')))"
  using i
  by (cases "find (starts_with (i @ '','')) (history_of E s r)")
    (auto simp: st_delete_message_def op_simps history_of_def redis_client.list_laws(4) [OF R])

lemma get_history_run:
  assumes "redis_client (se_redis E)"
  shows "st_get_history E r limit s = mapM (\<lambda>l. lift_result (parse_history_line r l))
    (list_range (history_of E s r) 0 (case limit of None \<Rightarrow> - 1 | Some n \<Rightarrow> n)) s"
  by (simp add: st_get_history_def op_simps history_of_def)
    (subst redis_client.list_laws(1) [OF assms], simp)

subsection \<open>Parsed histories\<close>

lemma mapM_parse:
  "mapM (\<lambda>l. lift_result (f l)) ls s = (Inr es, s') \<longleftrightarrow> s' = s \<and> list_all2 (\<lambda>l e. f l = Inr e) ls es"
proof (induction ls arbitrary: es)
  case (Cons l ls)
  show ?case
    by (cases "f l"; cases es; cases "mapM (\<lambda>l. lift_result (f l)) ls s")
      (use Cons in \<open>auto simp: bindM_lift_result bindM_def [of "mapM _ _"] ret_run split: sum.splits\<close>)
qed (auto simp: ret_run)

definition parsed :: "string \<Rightarrow> string list \<Rightarrow> hist_entry list \<Rightarrow> bool" where
  "parsed r = list_all2 (\<lambda>l e. parse_history_line r l = Inr e)"

lemma mapM_parse_fst:
  "fst (mapM (\<lambda>l. lift_result (f l)) ls s) = fst (mapM (\<lambda>l. lift_result (f l)) ls s')"
proof (induction ls)
  case (Cons l ls)
  then show ?case
    by (cases "mapM (\<lambda>l. lift_result (f l)) ls s"; cases "mapM (\<lambda>l. lift_result (f l)) ls s'")
      (auto simp: bindM_lift_result bindM_def [of "mapM _ _"] ret_run split: sum.splits)
qed (simp add: ret_run)

lemma same_history:
  "redis_client (se_redis E) \<Longrightarrow> history_of E s' r = history_of E s r \<Longrightarrow>
     fst (st_get_history E r limit s') = fst (st_get_history E r limit s)"
  by (simp add: get_history_run mapM_parse_fst)

lemma parsed_Cons: "parsed r (l # ls) (e # es) \<longleftrightarrow> parse_history_line r l = Inr e \<and> parsed r ls es"
  by (simp add: parsed_def)

lemma parsed_kept: "parsed r ls es \<Longrightarrow> parsed r (kept n ls) (kept n es)"
  by (simp add: parsed_def kept_def list_all2_takeI)

lemma get_history_parsed:
  assumes "redis_client (se_redis E)"
  shows "st_get_history E r None s = (Inr es, s) \<longleftrightarrow> parsed r (history_of E s r) es"
    "0 \<le> n \<Longrightarrow> parsed r (history_of E s r) es \<Longrightarrow>
       st_get_history E r (Some n) s = (Inr (take (nat n + 1) es), s)"
  by (auto simp: get_history_run [OF assms] mapM_parse parsed_def list_range_prefix intro: list_all2_takeI)

lemma starts_with_id:
  assumes "parse_history_line r l = Inr e" "no_comma i"
  shows "starts_with (i @ '','') l \<longleftrightarrow> he_message_id e = i"
proof -
  have "Suc 6 = 7" by simp
  from split_max.simps(2) [of "CHR '',''" 6 l, unfolded this]
  have c: "CHR '','' \<in> set l" and i: "he_message_id e = takeWhile (\<lambda>x. x \<noteq> CHR '','') l"
    using assms(1) unfolding parse_history_line_def by (auto split: list.splits if_split_asm)
  show ?thesis
  proof
    assume "starts_with (i @ '','') l"
    then obtain rest where "l = (i @ '','') @ rest"
      unfolding starts_with_def by (metis append_take_drop_id)
    moreover have "takeWhile (\<lambda>x. x \<noteq> CHR '','') ((i @ '','') @ rest) = i"
      using assms(2) by (auto simp: no_comma_def takeWhile_append)
    ultimately show "he_message_id e = i" using i by simp
  next
    assume "he_message_id e = i"
    with i have "i = takeWhile (\<lambda>x. x \<noteq> CHR '','') l" by simp
    moreover have d: "dropWhile (\<lambda>x. x \<noteq> CHR '','') l \<noteq> []"
      using c by (auto simp: dropWhile_eq_Nil_conv)
    moreover have "hd (dropWhile (\<lambda>x. x \<noteq> CHR '','') l) = CHR '',''"
      using hd_dropWhile [OF d] by simp
    ultimately have "l = i @ CHR '','' # tl (dropWhile (\<lambda>x. x \<noteq> CHR '','') l)"
      by (metis takeWhile_dropWhile_id list.collapse)
    then show "starts_with (i @ '','') l" by (metis starts_with_def append.assoc append_Cons append_Nil append_eq_conv_conj)
  qed
qed

lemma find_SomeD: "find P xs = Some x \<Longrightarrow> P x \<and> x \<in> set xs"
  by (induction xs) (auto split: if_splits)

lemma parsed_delete:
  assumes "parsed r ls es" "no_comma i" "distinct (map he_message_id es)"
  shows "case find (starts_with (i @ '','')) ls of
      None \<Rightarrow> i \<notin> he_message_id ` set es
    | Some l \<Rightarrow> i \<in> he_message_id ` set es \<and> parsed r (remove1 l ls) (filter (\<lambda>e. he_message_id e \<noteq> i) es)"
  using assms(1,3) unfolding parsed_def
proof (induction rule: list_all2_induct)
  case (Cons l ls e es)
  show ?case
  proof (cases "he_message_id e = i")
    case True
    then have "filter (\<lambda>e. he_message_id e \<noteq> i) es = es"
      using Cons.prems by (auto simp: filter_id_conv) (metis imageI)
    then show ?thesis
      using Cons True starts_with_id [OF Cons.hyps(1) assms(2)] by simp
  next
    case False
    then show ?thesis
      using Cons starts_with_id [OF Cons.hyps(1) assms(2)]
      by (auto split: option.splits dest: find_SomeD)
  qed
qed simp

subsection \<open>Acknowledgements\<close>

lemma get_acks_run:
  "st_get_acks_for E ids u s = (case find (\<lambda>m. r_hget (se_redis E) s (rk_ack_for_user u) m \<noteq> None) ids of
     None \<Rightarrow> Inr []
   | Some m \<Rightarrow> (case int_text (the (r_hget (se_redis E) s (rk_ack_for_user u) m)) of
       Inl e \<Rightarrow> Inl e | Inr _ \<Rightarrow> Inl TypeError), s)"
proof -
  have "foldM (\<lambda>acks m. bindM (gets (\<lambda>s. r_hget (se_redis E) s (rk_ack_for_user u) m)) (\<lambda>ack.
       case ack of None \<Rightarrow> ret acks | Some a \<Rightarrow> bindM (lift_result (int_text a)) (\<lambda>_. throw TypeError))) acks ids s =
    (case find (\<lambda>m. r_hget (se_redis E) s (rk_ack_for_user u) m \<noteq> None) ids of
     None \<Rightarrow> Inr acks
   | Some m \<Rightarrow> (case int_text (the (r_hget (se_redis E) s (rk_ack_for_user u) m)) of
       Inl e \<Rightarrow> Inl e | Inr _ \<Rightarrow> Inl TypeError), s)" for acks :: "(string \<times> int) list"
    by (induction ids arbitrary: acks)
      (auto simp: ret_run throw_run bindM_lift_result bindM_def [of "bindM _ _"] bindM_gets split: option.splits sum.splits)
  then show ?thesis by (simp add: st_get_acks_for_def)
qed

lemma ack_keys: "rk_ack_for_user u = rk_ack_for_user u' \<longleftrightarrow> u = u'" "rk_ack_for_room u = rk_ack_for_room u' \<longleftrightarrow> u = u'"
  by (simp_all add: key_simps)

lemma update_acks_run:
  assumes R: "redis_client (se_redis E)"
  shows "\<exists>s'. st_update_acks_with_status E ids u t status s = (Inr (), s') \<and>
    (\<forall>u' m. r_hget (se_redis E) s' (rk_ack_for_user u') m =
      (if u' = u \<and> m \<in> set ids then Some (str_int status) else r_hget (se_redis E) s (rk_ack_for_user u') m)) \<and>
    (\<forall>t' m. r_sismember (se_redis E) s' (rk_ack_for_room t') m \<longleftrightarrow>
      t' = t \<and> m \<in> set ids \<or> r_sismember (se_redis E) s (rk_ack_for_room t') m)"
  unfolding st_update_acks_with_status_def
proof (induction ids arbitrary: s)
  case (Cons m ids)
  let ?s = "r_sadd (se_redis E) (r_hset (se_redis E) s (rk_ack_for_user u) m (str_int status)) (rk_ack_for_room t) m"
  from Cons.IH [of ?s] show ?case
    by (elim exE conjE, intro exI conjI)
      (auto simp: thenM_def bindM_def modify_def redis_client.laws [OF R] ack_keys)
qed (auto simp: ret_run)

lemma int_text_str: "int_text (str_int n) = Inr n"
  by (auto simp: int_text_def micro_def)

lemma mark_unacked:
  assumes "\<forall>m\<in>set ids. r_hget (se_redis E) s (rk_ack_for_user u) m = None" "ids \<noteq> []"
  shows "st_mark_as_status E ids u t status s = st_update_acks_with_status E ids u t status s"
proof -
  have "find (\<lambda>m. r_hget (se_redis E) s (rk_ack_for_user u) m \<noteq> None) ids = None"
    using assms(1) by (simp add: find_None_iff)
  then show ?thesis
    using assms(2) by (simp add: st_mark_as_status_def bindM_def get_acks_run Let_def thenM_def whenM_def ret_run)
qed

lemma mark_acked:
  assumes "\<forall>m\<in>set ids. r_hget (se_redis E) s (rk_ack_for_user u) m = Some (str_int a)" "ids \<noteq> []"
  shows "st_mark_as_status E ids u t status s = (Inl TypeError, s)"
proof -
  obtain m ms where ids: "ids = m # ms" using assms(2) by (cases ids) auto
  then have "find (\<lambda>m. r_hget (se_redis E) s (rk_ack_for_user u) m \<noteq> None) ids = Some m"
    using assms(1) by simp
  then show ?thesis
    using assms(1) ids by (simp add: st_mark_as_status_def bindM_def get_acks_run int_text_str)
qed

subsection \<open>Sessions\<close>

lemma map_of_map_filter:
  "map_of (List.map_filter (\<lambda>k. case m k of None \<Rightarrow> None | Some v \<Rightarrow> if v = b then None else Some (k, v)) ks) =
     (\<lambda>k. if k \<in> set ks \<and> m k \<noteq> Some b then m k else None)"
  by (induction ks) (auto simp: List.map_filter_simps fun_eq_iff split: option.splits)

end
