(* ===== verification/Claims_Storage.thy ===== *)
theory Claims_Storage
  imports Storage_Facts
begin

section \<open>Properties of the storage of messages and of sessions\<close>

text \<open>The store of the examples: one message of user 1 in room \<open>r\<close>, and a session of user 1.\<close>

definition demo_stenv :: "store stenv" where
  "demo_stenv = \<lparr>se_redis = store_redis, se_max_history = 0,
     se_session = [''user_id'' \<mapsto> ''1'', ''user_name'' \<mapsto> ''One'']\<rparr>"

definition demo_message :: activity where
  "demo_message = blank_activity\<lparr>av_id := Text ''m'', av_published := Text ''t'',
     av_target := Some (blank_entity\<lparr>en_id := Text ''r'', en_display_name := Text ''Room''\<rparr>),
     av_object := Some (blank_entity\<lparr>en_url := Text ''c'', en_summary := Text ''Main'', en_content := Text ''aGk=''\<rparr>)\<rparr>"

definition demo_history :: store where
  "demo_history = empty_store\<lparr>
     st_lists := (\<lambda>_. [])(rk_room_history ''r'' := [''a,t,1,,,c,,aGk='', ''b,t,1,,,c,,aGk='']),
     st_hashes := (\<lambda>_. [])(rk_auth_key ''1'' := [(''token'', ''tok''), (''age'', ''30''), (''nonsense'', ''x'')])\<rparr>"

lemma demo_message_sent: "sent demo_message ''m'' ''t'' ''r'' ''Room'' ''c'' ''Main'' ''aGk=''"
  by (simp add: sent_def demo_message_def)

lemma demo_client: "redis_client (se_redis demo_stenv)"
  by (simp add: demo_stenv_def memory_client.redis_client_axioms)

definition demo_entry :: "string \<Rightarrow> hist_entry" where
  "demo_entry i = \<lparr>he_message_id = i, he_from_user_id = ''1'', he_from_user_name = '''', he_target_id = ''r'',
     he_target_name = '''', he_body = ''hi'', he_channel_id = ''c'', he_channel_name = '''', he_timestamp = ''t''\<rparr>"

lemma demo_history_read:
  "fst (st_get_history demo_stenv ''r'' None demo_history) = Inr [demo_entry ''a'', demo_entry ''b'']"
  by code_simp

lemma demo_history_run:
  "st_get_history demo_stenv ''r'' None demo_history = (Inr [demo_entry ''a'', demo_entry ''b''], demo_history)"
  using demo_history_read
  by (cases "st_get_history demo_stenv ''r'' None demo_history")
    (auto simp: get_history_run [OF demo_client] mapM_parse)

text \<open>C24: A message that is stored is the first one in the history of its room, with the sender from the
session, its names and its text decoded, before the messages that were there; of these, as many
are kept as are configured, and the entry of the new message beside them. No other room changes.
Ids and time must have no comma in them.\<close>

theorem stored_message_read_back:
  assumes "redis_client (se_redis E)"
    and "sent act i p r tn c cn msg" "is_base64 (Some msg)"
    and "se_session E ''user_id'' = Some u" "se_session E ''user_name'' = Some un"
    and "no_comma i" "no_comma p" "no_comma u" "no_comma c"
    and "utf8_ok (bytes_of (strip un))" "utf8_ok (bytes_of (strip tn))" "utf8_ok (bytes_of (strip cn))"
    and "st_get_history E r None s = (Inr es, s)"
  shows "\<exists>s'. st_store_message E act s = (Inr (), s') \<and>
    st_get_history E r None s' = (Inr (kept (se_max_history E) (\<lparr>he_message_id = i, he_from_user_id = u,
      he_from_user_name = strip un, he_target_id = r, he_target_name = strip tn, he_body = b64d (Some msg),
      he_channel_id = c, he_channel_name = strip cn, he_timestamp = p\<rparr> # es)), s') \<and>
    (\<forall>r' limit. r' \<noteq> r \<longrightarrow> fst (st_get_history E r' limit s') = fst (st_get_history E r' limit s))"
proof -
  note R = assms(1)
  obtain s' where s': "st_store_message E act s = (Inr (), s')"
    and h: "\<And>r'. history_of E s' r' = (if r' = r then kept (se_max_history E)
        (history_line [i, p, u, b64e (Some un), b64e (Some tn), c, b64e (Some cn), msg] # history_of E s r)
        else history_of E s r')"
    using store_message_run [OF assms(1-3), of s] assms(4,5) by auto
  have new: "parsed r (history_of E s' r) (kept (se_max_history E) (\<lparr>he_message_id = i, he_from_user_id = u,
      he_from_user_name = strip un, he_target_id = r, he_target_name = strip tn, he_body = b64d (Some msg),
      he_channel_id = c, he_channel_name = strip cn, he_timestamp = p\<rparr> # es))"
    unfolding h if_P [OF refl]
    using parse_stored_line [OF assms(6-12)] assms(13) [unfolded get_history_parsed(1) [OF R]]
    by (intro parsed_kept) (simp only: parsed_Cons simp_thms)
  have other: "fst (st_get_history E r' limit s') = fst (st_get_history E r' limit s)" if "r' \<noteq> r" for r' limit
    using that by (intro same_history [OF R]) (simp add: h)
  show ?thesis
    using s' new [folded get_history_parsed(1) [OF R]] other by blast
qed

lemma stored_message_read_back_witness:
  "\<exists>s'. st_store_message demo_stenv demo_message demo_history = (Inr (), s')"
proof -
  have "is_base64 (Some ''aGk='')" by code_simp
  moreover have "utf8_ok (bytes_of (strip ''One''))" "utf8_ok (bytes_of (strip ''Room''))" "utf8_ok (bytes_of (strip ''Main''))"
    by code_simp+
  ultimately show ?thesis
    using stored_message_read_back [OF demo_client demo_message_sent _ _ _ _ _ _ _ _ _ _ demo_history_run, of "''1''" "''One''"]
    by (auto simp: demo_stenv_def no_comma_def)
qed

text \<open>C27: Deleting a message takes exactly it out of the history of its room and changes no other room; for an
id that is not in the history the client raises, and nothing changes.\<close>

theorem deleted_message_gone:
  assumes "redis_client (se_redis E)" "i \<noteq> ''''" "no_comma i"
    and "st_get_history E r None s = (Inr es, s)" "distinct (map he_message_id es)"
  shows "if i \<in> he_message_id ` set es
    then \<exists>s'. st_delete_message E (Some i) (Some r) s = (Inr (), s') \<and>
      st_get_history E r None s' = (Inr (filter (\<lambda>e. he_message_id e \<noteq> i) es), s') \<and>
      (\<forall>r' limit. r' \<noteq> r \<longrightarrow> fst (st_get_history E r' limit s') = fst (st_get_history E r' limit s))
    else st_delete_message E (Some i) (Some r) s = (Inl RedisError, s)"
proof -
  note R = assms(1)
  have p: "parsed r (history_of E s r) es" using assms(4) by (simp add: get_history_parsed(1) [OF R])
  show ?thesis
    using parsed_delete [OF p assms(3,5)] delete_message_run [OF assms(1,2), of r s]
    by (cases "find (starts_with (i @ '','')) (history_of E s r)")
      (auto simp: get_history_parsed(1) [OF R] intro!: same_history [OF R])
qed

lemma deleted_message_gone_witness:
  "\<exists>s'. st_delete_message demo_stenv (Some ''a'') (Some ''r'') demo_history = (Inr (), s') \<and>
    fst (st_get_history demo_stenv ''r'' None s') = Inr [demo_entry ''b'']"
  using deleted_message_gone [OF demo_client _ _ demo_history_run, of "''a''"]
  by (auto simp: no_comma_def demo_entry_def)

text \<open>The acknowledgement of messages can be recorded once: when none of them has one for the user, all get
the given status and are added to those of the room, and nobody else's change. After that no
change of their status succeeds: the lookup of the present status raises, and nothing changes.\<close>

lemma acknowledged_only_once:
  assumes "redis_client (se_redis E)" "ids \<noteq> []"
    and "\<forall>m\<in>set ids. r_hget (se_redis E) s (rk_ack_for_user u) m = None"
  shows "\<exists>s'. st_mark_as_status E ids u t status s = (Inr (), s') \<and>
    (\<forall>u' m. r_hget (se_redis E) s' (rk_ack_for_user u') m =
      (if u' = u \<and> m \<in> set ids then Some (str_int status) else r_hget (se_redis E) s (rk_ack_for_user u') m)) \<and>
    (\<forall>t' m. r_sismember (se_redis E) s' (rk_ack_for_room t') m \<longleftrightarrow>
      t' = t \<and> m \<in> set ids \<or> r_sismember (se_redis E) s (rk_ack_for_room t') m) \<and>
    (\<forall>status'. st_mark_as_status E ids u t status' s' = (Inl TypeError, s'))"
proof -
  obtain s' where s': "st_update_acks_with_status E ids u t status s = (Inr (), s')"
    and h: "\<forall>u' m. r_hget (se_redis E) s' (rk_ack_for_user u') m =
      (if u' = u \<and> m \<in> set ids then Some (str_int status) else r_hget (se_redis E) s (rk_ack_for_user u') m)"
    and m: "\<forall>t' m. r_sismember (se_redis E) s' (rk_ack_for_room t') m \<longleftrightarrow>
      t' = t \<and> m \<in> set ids \<or> r_sismember (se_redis E) s (rk_ack_for_room t') m"
    using update_acks_run [OF assms(1), of ids u t status s] by blast
  have "st_mark_as_status E ids u t status s = (Inr (), s')"
    using mark_unacked [OF assms(3,2), of t status] s' by simp
  moreover have "st_mark_as_status E ids u t status' s' = (Inl TypeError, s')" for status'
    using mark_acked [of ids E s' u status t status'] h assms(2) by simp
  ultimately show ?thesis using h m by blast
qed

lemma acknowledged_only_once_witness:
  "\<exists>s'. st_mark_as_received demo_stenv [''a'', ''b''] ''2'' ''r'' demo_history = (Inr (), s') \<and>
    st_mark_as_read demo_stenv [''a'', ''b''] ''2'' ''r'' s' = (Inl TypeError, s')"
proof -
  have "\<forall>m\<in>set [''a'', ''b'']. r_hget (se_redis demo_stenv) demo_history (rk_ack_for_user ''2'') m = None"
    by (simp add: demo_stenv_def demo_history_def key_simps)
  from acknowledged_only_once [OF demo_client _ this, of "''r''" ack_received] show ?thesis
    unfolding st_mark_as_received_def st_mark_as_read_def by auto
qed

subsection \<open>Sessions\<close>

text \<open>C26: A user is authenticated exactly when the token is the one stored for the user. The session then
holds, of what is stored, the entries that are not blank under the known names, and nothing else.
Nothing changes in Redis.\<close>

theorem authentication_exact:
  assumes "redis_client R" "u \<noteq> ''''" "t \<noteq> ''''"
  shows "\<exists>ok msg session. au_authenticate_and_populate_session R (Some u) (Some t) s = (Inr (ok, msg, session), s) \<and>
    (ok \<longleftrightarrow> r_hget R s (rk_auth_key u) ''token'' = Some t) \<and>
    (if ok then msg = None \<and> (\<exists>entries. session = Some entries \<and> map_of entries = (\<lambda>k.
        if k \<in> set session_keys \<and> r_hget R s (rk_auth_key u) k \<noteq> Some '''' then r_hget R s (rk_auth_key u) k else None))
     else msg \<noteq> None \<and> session = None)"
proof -
  have g: "map_of (r_hgetall R s (rk_auth_key u)) = r_hget R s (rk_auth_key u)"
    by (rule redis_client.map_of_hgetall_law [OF assms(1)])
  have "r_hget R s (rk_auth_key u) ''token'' = None" if "r_hgetall R s (rk_auth_key u) = []"
    using that g by (metis map_of.simps(1))
  then show ?thesis
    using assms(2,3) by (auto simp: au_authenticate_and_populate_session_def op_simps g map_of_map_filter)
qed

lemma authentication_exact_witness:
  "\<exists>session. au_authenticate_and_populate_session store_redis (Some ''1'') (Some ''tok'') demo_history =
     (Inr (True, None, session), demo_history)"
  using authentication_exact [OF memory_client.redis_client_axioms, of "''1''" "''tok''" demo_history]
  by (auto simp: demo_history_def)

end
