(* ===== verification/Event_Payloads.thy ===== *)
theory Event_Payloads
  imports Activity Base64 Durations
begin

section \<open>Events that the server builds\<close>

text \<open>
  The dictionaries of \<^verbatim>\<open>dino/utils/__init__.py\<close> for what happened to a user, with the values that
  \<open>ActivityBuilder.enrich\<close> of \<^verbatim>\<open>dino/utils/activity_helper.py\<close> adds. A dictionary is an activity
  whose missing entries are \<open>Absent\<close>. The stamp has the new id, the time as a text and the name of the
  environment.
\<close>

record stamp =
  sp_id :: string
  sp_published :: string
  sp_environment :: string

definition stamped :: "stamp \<Rightarrow> activity \<Rightarrow> activity" where
  "stamped t a = a\<lparr>av_id := Text (sp_id t), av_published := Text (sp_published t)\<rparr>"

text \<open>An entry that is there is kept; the dictionaries here have none of the three.\<close>

definition enrich :: "stamp \<Rightarrow> activity \<Rightarrow> activity" where
  "enrich t a =
     (let a = (if av_id a = Absent then a\<lparr>av_id := Text (sp_id t)\<rparr> else a);
          a = (if av_published a = Absent then a\<lparr>av_published := Text (sp_published t)\<rparr> else a)
      in (if av_provider a = None then a\<lparr>av_provider := Some (blank_entity\<lparr>en_id := Text (sp_environment t)\<rparr>)\<rparr> else a))"

text \<open>A reason that is not in base64 is left out.\<close>

definition with_reason :: "string option \<Rightarrow> activity \<Rightarrow> activity" where
  "with_reason reason a =
     (if reason \<noteq> None \<and> is_base64 reason
      then a\<lparr>av_object := map_option (\<lambda>e. e\<lparr>en_content := attr_of reason\<rparr>) (av_object a)\<rparr> else a)"

definition activity_for_user_banned ::
  "stamp \<Rightarrow> string option \<Rightarrow> string \<Rightarrow> string option \<Rightarrow> string \<Rightarrow> string option \<Rightarrow> string \<Rightarrow> string option \<Rightarrow> activity" where
  "activity_for_user_banned t banner_id banner_name banned_id banned_name room_id room_name reason =
     with_reason reason (enrich t (blank_activity\<lparr>
       av_actor := Some (blank_entity\<lparr>en_id := attr_of banner_id, en_display_name := Text (b64e (Some banner_name))\<rparr>),
       av_object := Some (blank_entity\<lparr>en_id := attr_of banned_id, en_display_name := Text (b64e (Some banned_name))\<rparr>),
       av_target := Some (blank_entity\<lparr>en_id := attr_of room_id, en_display_name := Text (b64e (Some room_name))\<rparr>),
       av_verb := Text ''ban''\<rparr>))"

definition activity_for_user_kicked ::
  "stamp \<Rightarrow> string option \<Rightarrow> string \<Rightarrow> string option \<Rightarrow> string \<Rightarrow> string option \<Rightarrow> string option \<Rightarrow> string option \<Rightarrow> activity" where
  "activity_for_user_kicked t kicker_id kicker_name kicked_id kicked_name room_id room_name reason =
     with_reason reason (enrich t (blank_activity\<lparr>
       av_actor := Some (blank_entity\<lparr>en_id := attr_of kicker_id, en_display_name := Text (b64e (Some kicker_name))\<rparr>),
       av_object := Some (blank_entity\<lparr>en_id := attr_of kicked_id,
         en_display_name := Text (if is_base64 (Some kicked_name) then kicked_name else b64e (Some kicked_name))\<rparr>),
       av_target := Some (blank_entity\<lparr>en_id := attr_of room_id, en_display_name := Text (b64e room_name)\<rparr>),
       av_verb := Text ''kick''\<rparr>))"

definition activity_for_disconnect :: "stamp \<Rightarrow> string option \<Rightarrow> string \<Rightarrow> activity" where
  "activity_for_disconnect t user_id user_name =
     enrich t (blank_activity\<lparr>
       av_actor := Some (blank_entity\<lparr>en_id := attr_of user_id, en_display_name := Text (b64e (Some user_name))\<rparr>),
       av_verb := Text ''disconnect''\<rparr>)"

end
