(* ===== verification/Event_Window.thy ===== *)
theory Event_Window
  imports Prelude
begin

section \<open>Recently seen ids\<close>

text \<open>
  The publishers and the handler of the queue keep the last hundred ids that they sent or handled, as
  a list for the order and a set for the lookup. \<open>update_recently_handled_events\<close> and its like in
  \<^verbatim>\<open>dino/endpoint/queue.py\<close> add to both and then forget the oldest, \<open>update_recently_sent\<close> of
  \<^verbatim>\<open>dino/endpoint/base.py\<close> takes the oldest from the list before it removes it from the set; removing
  what is not in the set raises. The window refines the last hundred of all ids remembered.
\<close>

record 'a window =
  wi_list :: "'a list"
  wi_set :: "'a set"

definition empty_window :: "'a window" where
  "empty_window = \<lparr>wi_list = [], wi_set = {}\<rparr>"

definition WINDOW_SIZE :: nat where
  "WINDOW_SIZE = 100"

definition remember :: "'a \<Rightarrow> ('a window, unit) op" where
  "remember x =
     thenM (modify (\<lambda>W. \<lparr>wi_list = wi_list W @ [x], wi_set = insert x (wi_set W)\<rparr>))
     (bindM (gets id) (\<lambda>W.
       if length (wi_list W) \<le> WINDOW_SIZE then ret ()
       else if hd (wi_list W) \<notin> wi_set W then throw KeyError
       else modify (\<lambda>W. \<lparr>wi_list = tl (wi_list W), wi_set = wi_set W - {hd (wi_list W)}\<rparr>)))"

definition remember_sent :: "'a \<Rightarrow> ('a window, unit) op" where
  "remember_sent x =
     thenM (modify (\<lambda>W. \<lparr>wi_list = wi_list W @ [x], wi_set = insert x (wi_set W)\<rparr>))
     (bindM (gets id) (\<lambda>W.
       if length (wi_list W) \<le> WINDOW_SIZE then ret ()
       else thenM (modify (\<lambda>W. W\<lparr>wi_list := tl (wi_list W)\<rparr>))
         (if hd (wi_list W) \<notin> wi_set W then throw KeyError
          else modify (\<lambda>W'. W'\<lparr>wi_set := wi_set W' - {hd (wi_list W)}\<rparr>))))"

subsection \<open>The window is the end of a history\<close>

definition lastn :: "nat \<Rightarrow> 'a list \<Rightarrow> 'a list" where
  "lastn n xs = drop (length xs - n) xs"

text \<open>The ids of \<open>xs\<close> were remembered in this order, none while it was still known.\<close>

definition window_of :: "'a list \<Rightarrow> 'a window \<Rightarrow> bool" where
  "window_of xs W \<longleftrightarrow> wi_list W = lastn WINDOW_SIZE xs \<and> wi_set W = set (wi_list W) \<and> distinct (wi_list W)"

lemma length_lastn: "length (lastn n xs) = min n (length xs)"
  by (simp add: lastn_def)

lemma lastn_snoc:
  "length xs < n \<Longrightarrow> lastn n (xs @ [x]) = lastn n xs @ [x]"
  "n \<le> length xs \<Longrightarrow> 0 < n \<Longrightarrow> lastn n (xs @ [x]) = tl (lastn n xs) @ [x]"
  by (simp_all add: lastn_def tl_drop drop_Suc Suc_diff_le)

lemma window_of_empty: "window_of [] empty_window"
  by (simp add: window_of_def empty_window_def lastn_def)

lemma window_of_size: "window_of xs W \<Longrightarrow> length (wi_list W) \<le> WINDOW_SIZE"
  by (simp add: window_of_def length_lastn)

lemma window_of_mem: "window_of xs W \<Longrightarrow> x \<in> wi_set W \<longleftrightarrow> x \<in> set (lastn WINDOW_SIZE xs)"
  by (simp add: window_of_def)

lemma lastn_pos: "0 < n \<Longrightarrow> x \<in> set (lastn n (xs @ [x]))"
  by (cases "length xs < n") (auto simp: lastn_def)

lemma remember_window:
  assumes W: "window_of xs W" and x: "x \<notin> wi_set W"
  shows "\<exists>W'. remember x W = (Inr (), W') \<and> remember_sent x W = (Inr (), W') \<and> window_of (xs @ [x]) W'"
proof (cases "length xs < WINDOW_SIZE")
  case True
  then have l: "wi_list W @ [x] = lastn WINDOW_SIZE (xs @ [x])"
    using W by (simp add: window_of_def lastn_snoc)
  let ?W = "\<lparr>wi_list = wi_list W @ [x], wi_set = insert x (wi_set W)\<rparr>"
  have "window_of (xs @ [x]) ?W"
    using W x l [symmetric] by (auto simp: window_of_def)
  moreover have "length (wi_list W @ [x]) \<le> WINDOW_SIZE"
    unfolding l length_lastn by simp
  then have "remember x W = (Inr (), ?W)" "remember_sent x W = (Inr (), ?W)"
    by (simp_all add: remember_def remember_sent_def op_simps)
  ultimately show ?thesis by blast
next
  case False
  have n: "0 < WINDOW_SIZE" by (simp add: WINDOW_SIZE_def)
  have len: "length (wi_list W) = WINDOW_SIZE" using W False by (simp add: window_of_def length_lastn)
  then obtain o' rest where l: "wi_list W = o' # rest" using n by (cases "wi_list W") auto
  have new: "rest @ [x] = lastn WINDOW_SIZE (xs @ [x])"
    using W False l n lastn_snoc(2) [of WINDOW_SIZE xs x] by (metis list.sel(3) not_less window_of_def)
  let ?W = "\<lparr>wi_list = rest @ [x], wi_set = insert x (wi_set W) - {o'}\<rparr>"
  have set: "wi_set W = insert o' (set rest)" and d: "o' \<notin> set rest" "distinct rest"
    using W l by (auto simp: window_of_def)
  have "window_of (xs @ [x]) ?W" using x set d by (auto simp: window_of_def new [symmetric])
  moreover have "remember x W = (Inr (), ?W)" "remember_sent x W = (Inr (), ?W)"
    using l len set by (simp_all add: remember_def remember_sent_def op_simps)
  ultimately show ?thesis by blast
qed

text \<open>An id is known until a hundred others have been remembered after it.\<close>

lemma known_for_a_while:
  assumes "window_of (xs @ x # ys) W" "length ys < WINDOW_SIZE"
  shows "x \<in> wi_set W"
  using assms by (auto simp: window_of_mem lastn_def)

end
