(* ===== verification/Queue_Handler.thy ===== *)
theory Queue_Handler
  imports Event_Payloads Event_Window Presence
begin

section \<open>Events between nodes\<close>

text \<open>
  \<open>QueueHandler\<close> of \<^verbatim>\<open>dino/endpoint/queue.py\<close>: what a node does with the events that the nodes publish
  to each other. The state of a node has the database with the storage (\<open>nd_db\<close>), the socket server
  (\<open>nd_sockets\<close>), what was emitted to clients and published, and the two windows of ids. The
  operations of database, storage and socket server are arguments, as are the clock, the ids that
  are drawn, and the observers of joining and leaving. The ids of sockets are texts. Emitting and
  publishing are recorded; a mutation of the activity is a value that is passed on.
\<close>

subsection \<open>Events and the state of a node\<close>

text \<open>
  An event is the dictionary that was received with the activity parsed from it. The dictionary may
  have a revision; its id is read again when the event is sent on.
\<close>

record node_event =
  ne_id :: attr
  ne_revision :: "int option"
  ne_activity :: activity

record emission =
  em_name :: string
  em_room :: "string option"
  em_namespace :: "string option"
  em_data :: activity

record ('w, 'k) node =
  nd_db :: 'w
  nd_sockets :: 'k
  nd_emits :: "emission list"
  nd_internal :: "node_event list"
  nd_external :: "activity list"
  nd_delegated :: "string option window"
  nd_handled :: "string option window"

record ('w, 'k) nenv =
  nv_node :: string
  nv_now :: int
  nv_tz :: int
  nv_strftime :: "int \<Rightarrow> string"
  nv_stamp :: "('w, 'k) node \<Rightarrow> stamp"
  so_rooms :: "'k \<Rightarrow> string option \<Rightarrow> (string \<Rightarrow> string list option) option"
  so_connected :: "'k \<Rightarrow> string \<Rightarrow> string \<Rightarrow> bool"
  so_leave :: "string \<Rightarrow> string \<Rightarrow> string \<Rightarrow> ('k, unit) op"
  so_disconnect :: "string \<Rightarrow> ('k, unit) op"
  nv_sids :: "string option \<Rightarrow> ('w, string list) op"
  nv_user_name :: "string option \<Rightarrow> ('w, string) op"
  nv_room_name :: "string option \<Rightarrow> ('w, string) op"
  nv_channel_name :: "string option \<Rightarrow> ('w, string) op"
  nv_ban_user_global ::
    "string option \<Rightarrow> string \<Rightarrow> string option \<Rightarrow> string option \<Rightarrow> string option \<Rightarrow> ('w, unit) op"
  nv_ban_user_channel ::
    "string option \<Rightarrow> string \<Rightarrow> string option \<Rightarrow> string option \<Rightarrow> string option \<Rightarrow> string option \<Rightarrow> ('w, unit) op"
  nv_ban_user_room ::
    "string option \<Rightarrow> string \<Rightarrow> string option \<Rightarrow> string option \<Rightarrow> string option \<Rightarrow> string option \<Rightarrow> ('w, unit) op"
  nv_rooms_for_user :: "string option \<Rightarrow> ('w, string list) op"
  nv_rooms_for_channel :: "string option \<Rightarrow> ('w, string list) op"
  nv_leave_room :: "string option \<Rightarrow> string \<Rightarrow> ('w, unit) op"
  nv_user_status :: "string option \<Rightarrow> ('w, string) op"
  nv_set_user_offline :: "string option \<Rightarrow> ('w, unit) op"
  nv_remove_from_multicast :: "string option \<Rightarrow> ('w, unit) op"
  nv_message_ids :: "string option \<Rightarrow> ('w, string list) op"
  nv_message_ids_in_room :: "string option \<Rightarrow> string \<Rightarrow> ('w, string list) op"
  nv_delete_message :: "string \<Rightarrow> ('w, unit) op"
  nv_observe :: "string \<Rightarrow> node_event \<Rightarrow> ('w \<times> 'k, unit) op"

definition on_db :: "('w, 'a) op \<Rightarrow> (('w, 'k) node, 'a) op" where
  "on_db m n = (case m (nd_db n) of (r, w) \<Rightarrow> (r, n\<lparr>nd_db := w\<rparr>))"

definition on_sockets :: "('k, 'a) op \<Rightarrow> (('w, 'k) node, 'a) op" where
  "on_sockets m n = (case m (nd_sockets n) of (r, k) \<Rightarrow> (r, n\<lparr>nd_sockets := k\<rparr>))"

definition on_both :: "('w \<times> 'k, 'a) op \<Rightarrow> (('w, 'k) node, 'a) op" where
  "on_both m n = (case m (nd_db n, nd_sockets n) of (r, w, k) \<Rightarrow> (r, n\<lparr>nd_db := w, nd_sockets := k\<rparr>))"

definition on_handled :: "(string option window, 'a) op \<Rightarrow> (('w, 'k) node, 'a) op" where
  "on_handled m n = (case m (nd_handled n) of (r, v) \<Rightarrow> (r, n\<lparr>nd_handled := v\<rparr>))"

definition on_delegated :: "(string option window, 'a) op \<Rightarrow> (('w, 'k) node, 'a) op" where
  "on_delegated m n = (case m (nd_delegated n) of (r, v) \<Rightarrow> (r, n\<lparr>nd_delegated := v\<rparr>))"

definition emit :: "string \<Rightarrow> activity \<Rightarrow> string option \<Rightarrow> string option \<Rightarrow> (('w, 'k) node, unit) op" where
  "emit name data room namespace = modify (\<lambda>n. n\<lparr>nd_emits := nd_emits n @
     [\<lparr>em_name = name, em_room = room, em_namespace = namespace, em_data = data\<rparr>]\<rparr>)"

definition publish_external :: "activity \<Rightarrow> (('w, 'k) node, unit) op" where
  "publish_external a = modify (\<lambda>n. n\<lparr>nd_external := nd_external n @ [a]\<rparr>)"

definition publish_internal :: "node_event \<Rightarrow> (('w, 'k) node, unit) op" where
  "publish_internal e = modify (\<lambda>n. n\<lparr>nd_internal := nd_internal n @ [e]\<rparr>)"

text \<open>\<open>a or b\<close> for values that may be \<open>None\<close>, and \<open>except Exception\<close> with a handler that logs.\<close>

definition py_or :: "string option \<Rightarrow> string option \<Rightarrow> string option" where
  "py_or a b = (case a of None \<Rightarrow> b | Some s \<Rightarrow> if s = [] then b else a)"

definition logged_errors :: "('w, unit) op \<Rightarrow> ('w, unit) op" where
  "logged_errors m = catchM m (\<lambda>_. Some (ret ()))"

definition logged_key_error :: "('w, unit) op \<Rightarrow> ('w, unit) op" where
  "logged_key_error m = catchM m (\<lambda>e. if e = KeyError then Some (ret ()) else None)"

text \<open>
  A handler that calls \<open>traceback.format_exc\<close> with the exception as the limit: that call compares the
  exception with zero and raises \<open>TypeError\<close>.
\<close>

definition failing_handler :: "('w, unit) op \<Rightarrow> ('w, unit) op" where
  "failing_handler m = catchM m (\<lambda>_. Some (throw TypeError))"

text \<open>\<open>reason = activity.object.content\<close>, if it is there.\<close>

definition reason_of :: "activity \<Rightarrow> string option" where
  "reason_of act = (if has_attr (av_object act) en_content
     then (case part_attr (av_object act) en_content of Inr v \<Rightarrow> v | Inl _ \<Rightarrow> None) else None)"

subsection \<open>Is the user on this node?\<close>

definition user_of :: "activity \<Rightarrow> (('w, 'k) node, string option) op" where
  "user_of act =
     bindM (read_attr (av_object act) en_id) (\<lambda>oid.
     if py_or oid None \<noteq> None then ret oid else read_attr (av_target act) en_id)"

definition user_is_on_this_node_ignore_rooms :: "('w, 'k) nenv \<Rightarrow> activity \<Rightarrow> (('w, 'k) node, bool) op" where
  "user_is_on_this_node_ignore_rooms E act =
     (if nv_node E \<notin> {''app'', ''wio''} then ret False
      else bindM (read_attr (av_target act) en_url) (\<lambda>url.
        let namespace = the (py_or url (Some ''/ws'')) in
        bindM (user_of act) (\<lambda>user_id.
        bindM (if has_attr (av_actor act) en_content \<and>
                  (case part_attr (av_actor act) en_content of Inr (Some c) \<Rightarrow> c \<noteq> [] | _ \<Rightarrow> False)
               then ret (case part_attr (av_actor act) en_content of Inr (Some c) \<Rightarrow> split_on (CHR '','') c | _ \<Rightarrow> [])
               else if av_actor act = None then throw AttributeError
               else on_db (nv_sids E user_id)) (\<lambda>user_sids.
        gets (\<lambda>n. \<exists>sid\<in>set user_sids. so_connected E (nd_sockets n) sid namespace)))))"

definition user_is_on_this_node :: "('w, 'k) nenv \<Rightarrow> activity \<Rightarrow> (('w, 'k) node, bool) op" where
  "user_is_on_this_node E act =
     (if nv_node E \<notin> {''app'', ''wio''} then ret False
      else bindM (read_attr (av_target act) en_id) (\<lambda>room_id.
        bindM (read_attr (av_target act) en_url) (\<lambda>url.
        let namespace = py_or url (Some ''/ws'') in
        bindM (user_of act) (\<lambda>user_id.
        bindM (on_db (nv_sids E user_id)) (\<lambda>user_sids.
        gets (\<lambda>n. case so_rooms E (nd_sockets n) namespace of
           None \<Rightarrow> False
         | Some rooms \<Rightarrow> (case room_id of
             None \<Rightarrow> \<exists>sid\<in>set user_sids. rooms sid \<noteq> None
           | Some r \<Rightarrow> (case rooms r of None \<Rightarrow> False | Some users \<Rightarrow> \<exists>sid\<in>set user_sids. sid \<in> set users))))))))"

subsection \<open>Events for the external queue\<close>

text \<open>A blank reason is left out.\<close>

definition with_content :: "string option \<Rightarrow> entity \<Rightarrow> entity" where
  "with_content reason e = (case reason of None \<Rightarrow> e | Some s \<Rightarrow> if blank s then e else e\<lparr>en_content := Text s\<rparr>)"

definition get_ban_activity :: "('w, 'k) nenv \<Rightarrow> activity \<Rightarrow> string option \<Rightarrow> (('w, 'k) node, activity) op" where
  "get_ban_activity E act target_type =
     bindM (read_attr (av_actor act) en_id) (\<lambda>actor_id.
     bindM (read_attr (av_actor act) en_display_name) (\<lambda>actor_name.
     bindM (read_attr (av_object act) en_id) (\<lambda>object_id.
     bindM (read_attr (av_object act) en_display_name) (\<lambda>object_name.
     bindM (read_attr (av_object act) en_summary) (\<lambda>summary.
     bindM (read_attr (av_object act) en_updated) (\<lambda>updated.
     bindM (gets (nv_stamp E)) (\<lambda>t.
     bindM (read_attr (av_object act) en_content) (\<lambda>reason.
     bindM (read_attr (av_target act) en_id) (\<lambda>target_id.
     bindM (read_attr (av_target act) en_display_name) (\<lambda>target_name.
     bindM (read_attr (av_target act) en_object_type) (\<lambda>object_type.
     ret (stamped t (blank_activity\<lparr>
       av_actor := Some (blank_entity\<lparr>en_id := attr_of actor_id, en_display_name := attr_of actor_name\<rparr>),
       av_verb := Text ''ban'',
       av_object := Some (with_content reason (blank_entity\<lparr>en_id := attr_of object_id,
         en_display_name := attr_of object_name, en_summary := attr_of summary, en_updated := attr_of updated\<rparr>)),
       av_target := Some (blank_entity\<lparr>en_id := attr_of target_id, en_display_name := attr_of target_name,
         en_object_type := attr_of object_type\<rparr>)\<rparr>)))))))))))))"

definition send_ban_event_to_external_queue :: "('w, 'k) nenv \<Rightarrow> activity \<Rightarrow> string option \<Rightarrow> (('w, 'k) node, unit) op" where
  "send_ban_event_to_external_queue E act target_type =
     bindM (get_ban_activity E act target_type) publish_external"

definition send_kick_event_to_external_queue :: "('w, 'k) nenv \<Rightarrow> activity \<Rightarrow> (('w, 'k) node, unit) op" where
  "send_kick_event_to_external_queue E act =
     bindM (read_attr (av_actor act) en_id) (\<lambda>actor_id.
     bindM (read_attr (av_actor act) en_display_name) (\<lambda>actor_name.
     bindM (read_attr (av_object act) en_id) (\<lambda>object_id.
     bindM (read_attr (av_object act) en_display_name) (\<lambda>object_name.
     bindM (gets (nv_stamp E)) (\<lambda>t.
     bindM (read_attr (av_target act) en_id) (\<lambda>target_id.
     bindM (read_attr (av_target act) en_display_name) (\<lambda>target_name.
     publish_external (stamped t (blank_activity\<lparr>
       av_actor := Some (blank_entity\<lparr>en_id := attr_of actor_id, en_display_name := attr_of actor_name\<rparr>),
       av_verb := Text ''kick'',
       av_object := Some (with_content (reason_of act) (blank_entity\<lparr>en_id := attr_of object_id,
         en_display_name := attr_of object_name\<rparr>)),
       av_target := Some (blank_entity\<lparr>en_id := attr_of target_id, en_display_name := attr_of target_name\<rparr>)\<rparr>)))))))))"

subsection \<open>Recording a ban\<close>

text \<open>
  \<open>create_ban_even_if_not_on_this_node\<close>, with the activity after it, whose object has the end of
  the ban. A \<open>KeyError\<close> is logged; it can come from the database alone.
\<close>

definition with_updated :: "string \<Rightarrow> activity \<Rightarrow> activity" where
  "with_updated s act = act\<lparr>av_object := map_option (\<lambda>e. e\<lparr>en_updated := Text s\<rparr>) (av_object act)\<rparr>"

definition ban_target :: "activity \<Rightarrow> (('w, 'k) node, string \<times> string option) op" where
  "ban_target act =
     bindM (read_attr (av_target act) en_object_type) (\<lambda>target_type.
     if target_type = Some ''room'' \<or> target_type = Some ''channel''
     then bindM (read_attr (av_target act) en_id) (\<lambda>target_id. ret (the target_type, target_id))
     else ret (''global'', Some []))"

definition create_ban_even_if_not_on_this_node :: "('w, 'k) nenv \<Rightarrow> activity \<Rightarrow> (('w, 'k) node, activity) op" where
  "create_ban_even_if_not_on_this_node E act =
     bindM (read_attr (av_object act) en_id) (\<lambda>banned_id.
     bindM (ban_target act) (\<lambda>(target_type, target_id).
     let reason = reason_of act in
     bindM (read_attr (av_object act) en_summary) (\<lambda>ban_duration.
     bindM (lift_result (ban_duration_to_timestamp (nv_tz E) (nv_now E) ban_duration)) (\<lambda>ban_timestamp.
     bindM (lift_result (ban_duration_to_datetime (nv_now E) ban_duration)) (\<lambda>end.
     let act = with_updated (nv_strftime E end) act in
     bindM (read_attr (av_actor act) en_id) (\<lambda>banner_id.
     thenM (logged_key_error
       (thenM (whenM (nv_node E = ''rest'') (send_ban_event_to_external_queue E act (Some target_type)))
       (on_db (if target_type = ''global'' then nv_ban_user_global E banned_id ban_timestamp ban_duration reason banner_id
               else if target_type = ''channel''
               then nv_ban_user_channel E banned_id ban_timestamp ban_duration target_id reason banner_id
               else nv_ban_user_room E banned_id ban_timestamp ban_duration target_id reason banner_id))))
       (ret act)))))))"

subsection \<open>Deleting messages\<close>

text \<open>The numbers of successes and failures, which are logged.\<close>

fun try_to_delete_messages :: "('w, 'k) nenv \<Rightarrow> string list \<Rightarrow> (('w, 'k) node, nat \<times> nat) op" where
  "try_to_delete_messages E [] = ret (0, 0)"
| "try_to_delete_messages E (m # ms) =
     bindM (catchM (thenM (on_db (nv_delete_message E m)) (ret True)) (\<lambda>_. Some (ret False))) (\<lambda>ok.
     bindM (try_to_delete_messages E ms) (\<lambda>(successes, failures).
     ret (if ok then (Suc successes, failures) else (successes, Suc failures))))"

definition delete_messages :: "('w, 'k) nenv \<Rightarrow> string list \<Rightarrow> (('w, 'k) node, unit) op" where
  "delete_messages E messages =
     (if messages = [] then ret () else bindM (try_to_delete_messages E messages) (\<lambda>_. ret ()))"

definition delete_for_user_in_room :: "('w, 'k) nenv \<Rightarrow> string option \<Rightarrow> string \<Rightarrow> (('w, 'k) node, unit) op" where
  "delete_for_user_in_room E user_id room_id =
     bindM (catchM (bindM (on_db (nv_message_ids_in_room E user_id room_id)) (\<lambda>ms. ret (Some ms)))
              (\<lambda>_. Some (ret None))) (\<lambda>messages.
     case messages of None \<Rightarrow> ret () | Some ms \<Rightarrow> delete_messages E ms)"

subsection \<open>Kicking\<close>

text \<open>
  The users of the room are those of the socket server, as its live table: a socket that has left is no
  longer in it.
\<close>

definition sockets_in :: "('w, 'k) nenv \<Rightarrow> 'k \<Rightarrow> string option \<Rightarrow> string \<Rightarrow> string list" where
  "sockets_in E k namespace room_id =
     (case so_rooms E k namespace of None \<Rightarrow> [] | Some rooms \<Rightarrow> (case rooms room_id of None \<Rightarrow> [] | Some users \<Rightarrow> users))"

definition kick_sid :: "('w, 'k) nenv \<Rightarrow> string option \<Rightarrow> string \<Rightarrow> string option \<Rightarrow> string \<Rightarrow> (('w, 'k) node, unit) op" where
  "kick_sid E user_id room_id namespace user_sid =
     bindM (gets (\<lambda>n. user_sid \<in> set (sockets_in E (nd_sockets n) namespace room_id))) (\<lambda>here.
     whenM here
       (thenM (logged_errors (on_db (nv_leave_room E user_id room_id)))
              (logged_errors (on_sockets (so_leave E user_sid room_id ''/ws'')))))"

definition kick ::
  "('w, 'k) nenv \<Rightarrow> activity \<Rightarrow> activity \<Rightarrow> string \<Rightarrow> string option \<Rightarrow> string list \<Rightarrow> string option \<Rightarrow> (('w, 'k) node, unit) op" where
  "kick E orig_data act room_id user_id user_sids namespace =
     (let data = orig_data\<lparr>av_target := Some (blank_entity\<lparr>en_id := Text room_id\<rparr>)\<rparr> in
     thenM (emit ''gn_user_kicked'' data user_id namespace)
     (thenM (send_kick_event_to_external_queue E act)
     (thenM (iterM (kick_sid E user_id room_id namespace) user_sids)
     (thenM (emit ''gn_user_kicked'' data (Some room_id) namespace)
            (delete_for_user_in_room E user_id room_id)))))"

definition handle_kick :: "('w, 'k) nenv \<Rightarrow> activity \<Rightarrow> (('w, 'k) node, unit) op" where
  "handle_kick E act =
     bindM (read_attr (av_actor act) en_id) (\<lambda>kicker_id.
     bindM (if kicker_id = Some ''0'' then ret (Some ''admin'')
            else catchM
              (bindM (read_attr (av_actor act) en_display_name) (\<lambda>name.
               if py_or name None \<noteq> None then ret name
               else bindM (on_db (nv_user_name E kicker_id)) (\<lambda>n. ret (Some n))))
              (\<lambda>e. case e of NoSuchUserException _ \<Rightarrow> Some (ret None) | _ \<Rightarrow> None)) (\<lambda>kicker_name.
     case kicker_name of None \<Rightarrow> ret () | Some kicker_name \<Rightarrow>
     bindM (read_attr (av_object act) en_id) (\<lambda>kicked_id.
     bindM (bindM (read_attr (av_object act) en_display_name) (\<lambda>name.
            if py_or name None \<noteq> None then ret (the name) else on_db (nv_user_name E kicked_id))) (\<lambda>kicked_name.
     bindM (on_db (nv_sids E kicked_id)) (\<lambda>kicked_sids.
     bindM (read_attr (av_target act) en_id) (\<lambda>room_id.
     bindM (if room_id \<noteq> None then bindM (on_db (nv_room_name E room_id)) (\<lambda>n. ret (Some n))
            else read_attr (av_target act) en_display_name) (\<lambda>room_name.
     bindM (read_attr (av_target act) en_url) (\<lambda>namespace.
     if kicked_sids = [] \<or> hd kicked_sids = [] then ret ()
     else bindM (gets (nv_stamp E)) (\<lambda>t.
       let data = activity_for_user_kicked t kicker_id kicker_name kicked_id kicked_name room_id room_name (reason_of act) in
       logged_key_error
         (if room_id = None \<or> room_id = Some []
          then bindM (on_db (nv_rooms_for_user E kicked_id))
            (iterM (\<lambda>room. kick E data act room kicked_id kicked_sids namespace))
          else kick E data act (the room_id) kicked_id kicked_sids namespace))))))))))"

subsection \<open>Banning\<close>

definition emit_to_banner :: "activity \<Rightarrow> activity \<Rightarrow> string option \<Rightarrow> (('w, 'k) node, unit) op" where
  "emit_to_banner data act namespace =
     bindM (read_attr (av_actor act) en_id) (\<lambda>banner.
     whenM (banner \<noteq> Some ''0'') (emit ''gn_user_banned'' data banner namespace))"

definition ban_room ::
  "('w, 'k) nenv \<Rightarrow> activity \<Rightarrow> activity \<Rightarrow> string \<Rightarrow> string option \<Rightarrow> string list \<Rightarrow> string option \<Rightarrow> (('w, 'k) node, unit) op" where
  "ban_room E data act room_id user_id user_sids namespace =
     thenM (emit ''gn_user_banned'' data (Some room_id) namespace)
     (thenM (emit_to_banner data act namespace)
     (bindM (catchM (thenM (kick E data act room_id user_id user_sids namespace) (ret True)) (\<lambda>_. Some (ret False))) (\<lambda>ok.
      whenM ok (delete_for_user_in_room E user_id room_id))))"

definition ban_channel ::
  "('w, 'k) nenv \<Rightarrow> activity \<Rightarrow> activity \<Rightarrow> string list \<Rightarrow> string option \<Rightarrow> string list \<Rightarrow> string option \<Rightarrow> (('w, 'k) node, unit) op" where
  "ban_channel E data act rooms_in_channel user_id user_sids namespace =
     thenM (failing_handler
       (thenM (emit_to_banner data act namespace)
       (iterM (\<lambda>room_id.
          thenM (emit ''gn_user_banned'' data (Some room_id) namespace)
                (kick E data act room_id user_id user_sids namespace)) rooms_in_channel)))
     (iterM (delete_for_user_in_room E user_id) rooms_in_channel)"

definition ban_globally ::
  "('w, 'k) nenv \<Rightarrow> activity \<Rightarrow> activity \<Rightarrow> string list \<Rightarrow> string option \<Rightarrow> string list \<Rightarrow> string option \<Rightarrow> (('w, 'k) node, unit) op" where
  "ban_globally E data act rooms user_id user_sids namespace =
     thenM (failing_handler
       (bindM (on_db (nv_message_ids E user_id)) (iterM (\<lambda>m. on_db (nv_delete_message E m)))))
     (bindM (catchM (thenM (iterM (\<lambda>room_id.
          thenM (emit ''gn_user_banned'' data (Some room_id) namespace)
                (kick E data act room_id user_id user_sids namespace)) rooms) (ret True)) (\<lambda>_. Some (ret False))) (\<lambda>ok.
      whenM ok (logged_errors (iterM (\<lambda>sid. on_sockets (so_disconnect E sid)) user_sids))))"

definition handle_ban :: "('w, 'k) nenv \<Rightarrow> activity \<Rightarrow> (('w, 'k) node, unit) op" where
  "handle_ban E act =
     bindM (read_attr (av_actor act) en_id) (\<lambda>actor_id.
     let banner_id = (if actor_id = None then Some ''0'' else actor_id) in
     bindM (if banner_id = Some ''0'' then ret (Some ''admin'')
            else catchM (bindM (on_db (nv_user_name E banner_id)) (\<lambda>n. ret (Some n)))
              (\<lambda>e. case e of NoSuchUserException _ \<Rightarrow> Some (ret None) | _ \<Rightarrow> None)) (\<lambda>banner_name.
     case banner_name of None \<Rightarrow> ret () | Some banner_name \<Rightarrow>
     bindM (read_attr (av_object act) en_id) (\<lambda>banned_id.
     if \<not> is_valid_id banned_id then ret ()
     else
     bindM (on_db (nv_user_name E banned_id)) (\<lambda>banned_name.
     bindM (on_db (nv_sids E banned_id)) (\<lambda>banned_sids.
     bindM (read_attr (av_target act) en_url) (\<lambda>url.
     let namespace = py_or url (Some ''/ws'') in
     bindM (read_attr (av_target act) en_object_type) (\<lambda>target_type.
     bindM (if target_type = Some ''room'' \<or> target_type = Some ''channel''
            then read_attr (av_target act) en_id else ret (Some [])) (\<lambda>target_id.
     bindM (if target_type = Some ''room'' then on_db (nv_room_name E target_id)
            else if target_type = Some ''channel'' then on_db (nv_channel_name E target_id)
            else ret []) (\<lambda>target_name.
     if banned_sids = [] \<or> hd banned_sids = [] then ret ()
     else bindM (gets (nv_stamp E)) (\<lambda>t.
       let data = activity_for_user_banned t banner_id banner_name banned_id banned_name target_id target_name (reason_of act) in
       logged_key_error
         (bindM (get_ban_activity E act target_type) (\<lambda>ban_activity.
          thenM (emit ''gn_banned'' ban_activity banned_id namespace)
          (if target_id = None \<or> target_id = Some []
           then bindM (on_db (nv_rooms_for_user E banned_id)) (\<lambda>rooms_for_user.
             thenM (ban_globally E data act rooms_for_user banned_id banned_sids namespace)
             (bindM (on_db (nv_user_status E banned_id)) (\<lambda>status.
              thenM (on_db (if status = status_invisible then nv_remove_from_multicast E banned_id
                            else nv_set_user_offline E banned_id))
              (bindM (gets (nv_stamp E)) (\<lambda>t.
               publish_external (activity_for_disconnect t banned_id banned_name))))))
           else if target_type = Some ''channel''
           then bindM (on_db (nv_rooms_for_channel E target_id)) (\<lambda>rooms_in_channel.
             ban_channel E data act rooms_in_channel banned_id banned_sids namespace)
           else ban_room E data act (the target_id) banned_id banned_sids namespace)))))))))))))"

subsection \<open>Handling an event\<close>

definition send_event_to_other_node :: "node_event \<Rightarrow> (('w, 'k) node, unit) op" where
  "send_event_to_other_node e =
     bindM (case ne_id e of Absent \<Rightarrow> throw KeyError | Null \<Rightarrow> ret None | Text s \<Rightarrow> ret (Some s)) (\<lambda>i.
     thenM (on_delegated (remember i))
       (publish_internal (e\<lparr>ne_revision := Some (case ne_revision e of None \<Rightarrow> 0 | Some r \<Rightarrow> r + 1)\<rparr>)))"

definition handle_local_node_events :: "('w, 'k) nenv \<Rightarrow> node_event \<Rightarrow> string option \<Rightarrow> (('w, 'k) node, unit) op" where
  "handle_local_node_events E e verb =
     (let act = ne_activity e in
     if verb = Some ''ban'' then
       bindM (user_is_on_this_node E act) (\<lambda>here.
       thenM (whenM (\<not> here) (send_event_to_other_node e))
       (bindM (create_ban_even_if_not_on_this_node E act) (\<lambda>act.
        whenM here (logged_errors (handle_ban E act)))))
     else if verb = Some ''kick'' then logged_errors (handle_kick E act)
     else if verb = Some ''remove'' then logged_errors
       (bindM (read_attr (av_target act) en_url) (\<lambda>url. emit ''gn_room_removed'' act None url))
     else ret ())"

definition handle_send_event :: "('w, 'k) nenv \<Rightarrow> node_event \<Rightarrow> (('w, 'k) node, unit) op" where
  "handle_send_event E e =
     bindM (user_is_on_this_node E (ne_activity e)) (\<lambda>here.
     if \<not> here then ret ()
     else bindM (read_attr (av_target (ne_activity e)) en_id) (\<lambda>target_id.
       emit ''message'' (ne_activity e) target_id (Some ''/ws'')))"

definition handle_leave :: "('w, 'k) nenv \<Rightarrow> node_event \<Rightarrow> (('w, 'k) node, unit) op" where
  "handle_leave E e =
     bindM (user_is_on_this_node E (ne_activity e)) (\<lambda>here. whenM here (on_both (nv_observe E ''on_leave'' e)))"

definition handle_created :: "('w, 'k) nenv \<Rightarrow> node_event \<Rightarrow> (('w, 'k) node, unit) op" where
  "handle_created E e =
     bindM (user_is_on_this_node_ignore_rooms E (ne_activity e)) (\<lambda>here. whenM here (on_both (nv_observe E ''created'' e)))"

definition handle_join :: "('w, 'k) nenv \<Rightarrow> node_event \<Rightarrow> (('w, 'k) node, unit) op" where
  "handle_join E e =
     bindM (user_is_on_this_node_ignore_rooms E (ne_activity e)) (\<lambda>here. whenM here (on_both (nv_observe E ''on_join'' e)))"

text \<open>
  An event is dropped when it was delegated or handled lately, and when it has a revision: the
  \<open>return\<close> stands outside of the test for a revision over three.
\<close>

definition dispatch :: "('w, 'k) nenv \<Rightarrow> node_event \<Rightarrow> (('w, 'k) node, unit) op" where
  "dispatch E e =
     bindM (lift_result (attr_value (av_verb (ne_activity e)))) (\<lambda>verb.
     if verb \<in> {Some ''ban'', Some ''kick'', Some ''remove''} then handle_local_node_events E e verb
     else if verb = Some ''created'' then thenM (handle_join E e) (handle_created E e)
     else if verb = Some ''join'' then handle_join E e
     else if verb = Some ''leave'' then handle_leave E e
     else if verb = Some ''send'' then handle_send_event E e
     else publish_external (ne_activity e))"

definition handle_new_event :: "('w, 'k) nenv \<Rightarrow> node_event \<Rightarrow> (('w, 'k) node, unit) op" where
  "handle_new_event E e =
     bindM (lift_result (attr_value (av_id (ne_activity e)))) (\<lambda>i.
     bindM (gets (\<lambda>n. i \<in> wi_set (nd_delegated n) \<or> i \<in> wi_set (nd_handled n))) (\<lambda>known.
     if known \<or> ne_revision e \<noteq> None then ret ()
     else thenM (bindM (lift_result (attr_value (av_verb (ne_activity e)))) (\<lambda>_. on_handled (remember i)))
            (dispatch E e)))"

definition handle_server_activity :: "('w, 'k) nenv \<Rightarrow> node_event \<Rightarrow> (('w, 'k) node, unit) op" where
  "handle_server_activity E e = logged_errors (handle_new_event E e)"

end
