(* ===== verification/Queue_Facts.thy ===== *)
theory Queue_Facts
  imports Queue_Handler Keeps
begin

section \<open>Facts on the events between nodes\<close>

text \<open>
  An event is acted upon once, whatever the database, the storage and the socket server do; what a
  kick and a ban do to the sockets of the user, given the contract of the socket server; and an event
  that was sent on to other nodes is dropped by all of them.
\<close>

lemmas node_defs = on_db_def on_sockets_def on_both_def on_handled_def on_delegated_def emit_def
  publish_external_def publish_internal_def

subsection \<open>Running on the parts of a node\<close>

lemma bindM_on_db: "bindM (on_db m) f n = (case m (nd_db n) of
    (Inl e, w) \<Rightarrow> (Inl e, n\<lparr>nd_db := w\<rparr>) | (Inr a, w) \<Rightarrow> f a (n\<lparr>nd_db := w\<rparr>))"
  by (simp add: bindM_def on_db_def split: prod.splits sum.splits)

lemma bindM_lift_run: "bindM (lift_result r) f n = (case r of Inl e \<Rightarrow> (Inl e, n) | Inr a \<Rightarrow> f a n)"
  by (simp add: bindM_def lift_result_def)

lemma bindM_emit: "bindM (emit x a r s) f n = f () (n\<lparr>nd_emits := nd_emits n @
    [\<lparr>em_name = x, em_room = r, em_namespace = s, em_data = a\<rparr>]\<rparr>)"
  by (simp add: emit_def op_simps)

lemma logged_errors_run: "logged_errors m n = (Inr (), snd (m n))"
  by (cases "m n"; cases "fst (m n)") (auto simp: logged_errors_def catchM_def ret_def)

lemma handle_server_activity_run: "handle_server_activity E e n = (Inr (), snd (handle_new_event E e n))"
  by (simp add: handle_server_activity_def logged_errors_run)

subsection \<open>What handling leaves alone\<close>

text \<open>
  A relation of states of a node through which emitting and publishing pass, then one through which
  kicking passes, then one through which all handlers do.
\<close>

locale node_relation = state_relation R for R :: "('w, 'k) node \<Rightarrow> ('w, 'k) node \<Rightarrow> bool" +
  assumes outputs: "keeps R (emit x a r ns)" "keeps R (publish_external a)"
begin

lemma keeps_gets: "keeps R (gets g)"
  by (simp add: keeps_def gets_def R_refl)

lemma keeps_whenM: "keeps R m \<Longrightarrow> keeps R (whenM b m)"
  by (simp add: whenM_def keeps_basic)

lemma keeps_loggers:
  assumes "keeps R m"
  shows "keeps R (logged_errors m)" "keeps R (logged_key_error m)" "keeps R (failing_handler m)"
  using assms by (auto simp: logged_errors_def logged_key_error_def failing_handler_def keeps_basic
      intro!: keeps_catchM split: if_splits)

lemma keeps_iterM: "(\<And>x. keeps R (f x)) \<Longrightarrow> keeps R (iterM f xs)"
  by (induction xs) (auto simp: keeps_basic intro: keeps_bindM)

lemmas keeps_rules = keeps_bindM keeps_thenM keeps_catchM keeps_if keeps_option keeps_whenM keeps_loggers keeps_iterM
  keeps_basic keeps_gets outputs

lemma keeps_external:
  "keeps R (send_ban_event_to_external_queue E act t)" "keeps R (get_ban_activity E act t)"
  "keeps R (send_kick_event_to_external_queue E act)"
  unfolding send_ban_event_to_external_queue_def get_ban_activity_def send_kick_event_to_external_queue_def
  by (intro keeps_rules)+

end

locale kick_relation = node_relation R for R :: "('w, 'k) node \<Rightarrow> ('w, 'k) node \<Rightarrow> bool" +
  fixes E :: "('w, 'k) nenv"
  assumes leaving: "keeps R (on_sockets (so_leave E sid r ns))" "keeps R (on_db (nv_leave_room E u r))"
    and deleting: "keeps R (on_db (nv_message_ids_in_room E u r))" "keeps R (on_db (nv_delete_message E m))"
begin

lemma keeps_try_delete: "keeps R (try_to_delete_messages E ms)"
proof (induction ms)
  case (Cons m ms)
  then show ?case
    unfolding try_to_delete_messages.simps split_def
    by (intro keeps_rules deleting) (auto split: if_splits intro: keeps_rules)
qed (simp add: keeps_basic)

lemma keeps_delete: "keeps R (delete_for_user_in_room E u r)"
  unfolding delete_for_user_in_room_def delete_messages_def
  by (intro keeps_rules deleting keeps_try_delete) (auto intro: keeps_rules)

lemma keeps_kick: "keeps R (kick E data act r u sids ns)"
  unfolding kick_def kick_sid_def Let_def by (intro keeps_rules keeps_external leaving keeps_delete)

end

locale handler_relation = kick_relation R E for R :: "('w, 'k) node \<Rightarrow> ('w, 'k) node \<Rightarrow> bool" and E :: "('w, 'k) nenv" +
  assumes sending: "keeps R (publish_internal e)" "keeps R (on_delegated (remember i))"
    and disconnecting: "keeps R (on_sockets (so_disconnect E sid))"
    and observing: "keeps R (on_both (nv_observe E h e))"
    and looking_up: "keeps R (on_db (nv_sids E v))" "keeps R (on_db (nv_user_name E v))" "keeps R (on_db (nv_room_name E v))"
      "keeps R (on_db (nv_channel_name E v))" "keeps R (on_db (nv_rooms_for_user E v))" "keeps R (on_db (nv_rooms_for_channel E v))"
      "keeps R (on_db (nv_user_status E v))" "keeps R (on_db (nv_message_ids E v))"
    and writing: "keeps R (on_db (nv_ban_user_global E v ts d re b))" "keeps R (on_db (nv_ban_user_channel E v ts d c re b))"
      "keeps R (on_db (nv_ban_user_room E v ts d c re b))" "keeps R (on_db (nv_set_user_offline E v))"
      "keeps R (on_db (nv_remove_from_multicast E v))"
begin

lemma on_db_if: "on_db (if b then m else k) = (if b then on_db m else on_db k)"
  by simp

lemmas handler_rules = keeps_rules looking_up writing sending disconnecting observing deleting keeps_external keeps_kick
  keeps_delete

lemma keeps_user_of: "keeps R (user_of act)"
  unfolding user_of_def by (intro keeps_rules)

lemma keeps_here: "keeps R (user_is_on_this_node E act)" "keeps R (user_is_on_this_node_ignore_rooms E act)"
  unfolding user_is_on_this_node_def user_is_on_this_node_ignore_rooms_def Let_def
  by (intro handler_rules keeps_user_of)+

lemma keeps_create_ban: "keeps R (create_ban_even_if_not_on_this_node E act)"
  unfolding create_ban_even_if_not_on_this_node_def ban_target_def Let_def split_def on_db_if
  by (intro handler_rules)

lemma keeps_bans:
  "keeps R (ban_room E data act r u sids ns)" "keeps R (ban_channel E data act rs u sids ns)"
  "keeps R (ban_globally E data act rs u sids ns)"
  unfolding ban_room_def ban_channel_def ban_globally_def emit_to_banner_def
  by (intro handler_rules; auto intro: keeps_rules)+

lemma keeps_handle_kick: "keeps R (handle_kick E act)"
  unfolding handle_kick_def Let_def
  by (intro handler_rules; auto intro: keeps_rules split: exc.splits)

lemma keeps_handle_ban: "keeps R (handle_ban E act)"
  unfolding handle_ban_def Let_def on_db_if
  by (intro handler_rules keeps_bans; auto intro: keeps_rules split: exc.splits)

lemma keeps_send: "keeps R (send_event_to_other_node e)"
  unfolding send_event_to_other_node_def by (intro handler_rules) (simp split: attr.split add: keeps_basic)

lemma keeps_local: "keeps R (handle_local_node_events E e v)"
  unfolding handle_local_node_events_def Let_def
  by (intro handler_rules keeps_here keeps_send keeps_create_ban keeps_handle_ban keeps_handle_kick)

lemma keeps_dispatch: "keeps R (dispatch E e)"
  unfolding dispatch_def handle_join_def handle_created_def handle_leave_def handle_send_event_def
  by (intro handler_rules keeps_here keeps_local)

end

text \<open>No handler touches the window of the handled events.\<close>

definition same_handled :: "('w, 'k) node \<Rightarrow> ('w, 'k) node \<Rightarrow> bool" where
  "same_handled n n' \<longleftrightarrow> nd_handled n' = nd_handled n"

interpretation handled: handler_relation same_handled E for E
  by unfold_locales (simp_all add: keeps_def same_handled_def node_defs modify_def split: prod.split)

subsection \<open>An event is acted upon once\<close>

text \<open>Whether an event is new to a node: then its id is remembered, otherwise nothing happens.\<close>

definition is_new :: "('w, 'k) node \<Rightarrow> node_event \<Rightarrow> string option \<Rightarrow> bool" where
  "is_new n e i \<longleftrightarrow> attr_value (av_id (ne_activity e)) = Inr i \<and> av_verb (ne_activity e) \<noteq> Absent \<and>
     ne_revision e = None \<and> i \<notin> wi_set (nd_delegated n) \<and> i \<notin> wi_set (nd_handled n)"

lemma handled_not_new:
  assumes "\<nexists>i. is_new n e i"
  shows "handle_server_activity E e n = (Inr (), n)"
proof (cases "attr_value (av_id (ne_activity e))")
  case (Inl x)
  then show ?thesis by (simp add: handle_server_activity_run handle_new_event_def bindM_def lift_result_def)
next
  case (Inr i)
  with assms show ?thesis
    by (cases "av_verb (ne_activity e)")
      (auto simp: handle_server_activity_run handle_new_event_def is_new_def op_simps bindM_def lift_result_def)
qed

lemma handled_new:
  assumes "is_new n e i" "window_of xs (nd_handled n)"
  shows "\<exists>W. window_of (xs @ [i]) W \<and>
    handle_server_activity E e n = (Inr (), snd (dispatch E e (n\<lparr>nd_handled := W\<rparr>)))"
proof -
  obtain W where W: "remember i (nd_handled n) = (Inr (), W)" "window_of (xs @ [i]) W"
    using remember_window assms by (metis is_new_def)
  have "attr_value (av_verb (ne_activity e)) \<noteq> Inl x" for x
    using assms(1) by (simp add: is_new_def attr_value_Inl)
  then obtain v where v: "attr_value (av_verb (ne_activity e)) = Inr v" by (metis sumE)
  have "handle_new_event E e n = dispatch E e (n\<lparr>nd_handled := W\<rparr>)"
    using assms(1) W(1) v
    by (simp add: handle_new_event_def is_new_def op_simps bindM_def [of "lift_result _"] thenM_def
        bindM_def [of "on_handled _"] on_handled_def lift_result_def ret_def)
  with W(2) show ?thesis by (auto simp: handle_server_activity_run)
qed

lemma dispatch_handled: "nd_handled (snd (dispatch E e n)) = nd_handled n"
  using handled.keeps_dispatch [of E e] by (simp add: keeps_def same_handled_def)

fun handle_all :: "('w, 'k) nenv \<Rightarrow> node_event list \<Rightarrow> ('w, 'k) node \<Rightarrow> ('w, 'k) node" where
  "handle_all E [] n = n"
| "handle_all E (e # es) n = handle_all E es (snd (handle_server_activity E e n))"

lemma handle_all_window:
  "window_of xs (nd_handled n) \<Longrightarrow> \<exists>ys. length ys \<le> length es \<and> window_of (xs @ ys) (nd_handled (handle_all E es n))"
proof (induction es arbitrary: n xs)
  case Nil
  then show ?case by (intro exI [of _ "[]"]) simp
next
  case (Cons e es)
  show ?case
  proof (cases "\<exists>i. is_new n e i")
    case True
    then obtain i W where "window_of (xs @ [i]) W"
      "handle_server_activity E e n = (Inr (), snd (dispatch E e (n\<lparr>nd_handled := W\<rparr>)))"
      using handled_new Cons.prems by blast
    then have "window_of (xs @ [i]) (nd_handled (snd (handle_server_activity E e n)))" by (simp add: dispatch_handled)
    from Cons.IH [OF this] obtain ys where "length ys \<le> length es"
      "window_of (xs @ (i # ys)) (nd_handled (handle_all E es (snd (handle_server_activity E e n))))" by auto
    then show ?thesis by (intro exI [of _ "i # ys"]) simp
  next
    case False
    with Cons show ?thesis by (simp add: handled_not_new) (meson le_Suc_eq le_trans)
  qed
qed

lemma acted_upon_once:
  assumes "is_new n e i" "window_of xs (nd_handled n)" "length es < WINDOW_SIZE"
  shows "handle_server_activity E e (handle_all E es (snd (handle_server_activity E e n))) =
    (Inr (), handle_all E es (snd (handle_server_activity E e n)))"
proof -
  obtain W where W: "window_of (xs @ [i]) W"
      "handle_server_activity E e n = (Inr (), snd (dispatch E e (n\<lparr>nd_handled := W\<rparr>)))"
    using handled_new assms(1,2) by blast
  then have "window_of (xs @ [i]) (nd_handled (snd (handle_server_activity E e n)))" by (simp add: dispatch_handled)
  from handle_all_window [OF this, of es E] obtain ys where
    "length ys \<le> length es" "window_of (xs @ i # ys) (nd_handled (handle_all E es (snd (handle_server_activity E e n))))"
    by auto
  with known_for_a_while assms(3) have "i \<in> wi_set (nd_handled (handle_all E es (snd (handle_server_activity E e n))))"
    by fastforce
  with assms(1) show ?thesis by (intro handled_not_new) (auto simp: is_new_def)
qed

subsection \<open>The contract of the socket server\<close>

text \<open>
  Leaving takes a socket out of one room of the namespace and disconnecting out of all; neither raises,
  and no other socket moves.
\<close>

definition members :: "('w, 'k) nenv \<Rightarrow> 'k \<Rightarrow> string option \<Rightarrow> string \<Rightarrow> string set" where
  "members E k ns r = set (sockets_in E k ns r)"

locale socket_server =
  fixes E :: "('w, 'k) nenv"
  assumes leave: "\<exists>k'. so_leave E sid room ''/ws'' k = (Inr (), k') \<and>
      members E k' = (\<lambda>ns r. if ns = Some ''/ws'' \<and> r = room then members E k ns r - {sid} else members E k ns r)"
    and disconnect: "\<exists>k'. so_disconnect E sid k = (Inr (), k') \<and>
      members E k' = (\<lambda>ns r. if ns = Some ''/ws'' then members E k ns r - {sid} else members E k ns r)"

text \<open>Everything but the database: what a deletion of messages leaves alone, though it may fail.\<close>

definition only_db :: "('w, 'k) node \<Rightarrow> ('w, 'k) node \<Rightarrow> bool" where
  "only_db n n' \<longleftrightarrow> (\<exists>w. n' = n\<lparr>nd_db := w\<rparr>)"

lemma only_db_refl [simp]: "only_db n n"
  unfolding only_db_def by (intro exI [of _ "nd_db n"]) simp

lemma only_db_trans: "only_db n n1 \<Longrightarrow> only_db n1 n2 \<Longrightarrow> only_db n n2"
  by (auto simp: only_db_def)

interpretation in_db: state_relation only_db
  by unfold_locales (auto intro: only_db_trans)

lemma on_db_only: "keeps only_db (on_db m)"
  by (auto simp: keeps_def only_db_def on_db_def split: prod.split)

lemma delete_never_raises: "\<exists>n'. delete_for_user_in_room E u r n = (Inr (), n') \<and> only_db n n'"
proof -
  have try_ok: "\<exists>c n'. try_to_delete_messages E ms n = (Inr c, n')" for ms n
  proof (induction ms arbitrary: n)
    case (Cons m ms)
    obtain b n1 where "catchM (thenM (on_db (nv_delete_message E m)) (ret True)) (\<lambda>_. Some (ret False)) n = (Inr b, n1)"
      by (cases "on_db (nv_delete_message E m) n"; cases "fst (on_db (nv_delete_message E m) n)")
        (auto simp: catchM_def thenM_def bindM_def ret_def)
    then show ?case using Cons.IH [of n1] by (auto simp: bindM_def ret_def split_def)
  qed (simp add: ret_def)
  have keep: "keeps only_db (try_to_delete_messages E ms)" for ms
  proof (induction ms)
    case (Cons m ms)
    then show ?case
      unfolding try_to_delete_messages.simps split_def
      by (intro in_db.keeps_bindM in_db.keeps_catchM in_db.keeps_thenM on_db_only in_db.keeps_basic in_db.keeps_if)
        (auto intro: in_db.keeps_basic)
  qed (simp add: in_db.keeps_basic)
  let ?g = "catchM (bindM (on_db (nv_message_ids_in_room E u r)) (\<lambda>ms. ret (Some ms))) (\<lambda>_. Some (ret None))"
  obtain o1 n1 where o1: "?g n = (Inr o1, n1)"
    by (cases "on_db (nv_message_ids_in_room E u r) n"; cases "fst (on_db (nv_message_ids_in_room E u r) n)")
      (auto simp: catchM_def bindM_def ret_def)
  have "keeps only_db ?g"
    by (intro in_db.keeps_bindM in_db.keeps_catchM on_db_only in_db.keeps_basic) (auto intro: in_db.keeps_basic)
  with o1 have n1: "only_db n n1" by (auto dest: keepsD)
  show ?thesis
  proof (cases o1)
    case None
    with o1 n1 show ?thesis by (simp add: delete_for_user_in_room_def bindM_def [of ?g] ret_def)
  next
    case (Some ms)
    obtain c n2 where n2: "try_to_delete_messages E ms n1 = (Inr c, n2)" using try_ok by blast
    then have "only_db n1 n2" using keep [of ms] by (auto dest: keepsD)
    then have "only_db n n2" by (rule only_db_trans [OF n1])
    with o1 n1 n2 Some show ?thesis
      by (auto simp: delete_for_user_in_room_def bindM_def [of ?g] delete_messages_def ret_def bindM_def)
  qed
qed

subsection \<open>Kicking takes the sockets out of the room\<close>

text \<open>An activity whose actor, object and target can be asked for their ids and names.\<close>

definition named_part :: "entity option \<Rightarrow> bool" where
  "named_part p \<longleftrightarrow> has_attr p en_id \<and> has_attr p en_display_name"

definition named_parts :: "activity \<Rightarrow> bool" where
  "named_parts act \<longleftrightarrow> named_part (av_actor act) \<and> named_part (av_object act) \<and> named_part (av_target act)"

definition without_sids :: "('w, 'k) nenv \<Rightarrow> string set \<Rightarrow> string \<Rightarrow> ('w, 'k) node \<Rightarrow> ('w, 'k) node \<Rightarrow> bool" where
  "without_sids E sids room n n' \<longleftrightarrow> members E (nd_sockets n') = (\<lambda>ns r.
     if ns = Some ''/ws'' \<and> r = room then members E (nd_sockets n) ns r - sids else members E (nd_sockets n) ns r)"

text \<open>What is emitted and published, and the windows.\<close>

definition same_outputs :: "('w, 'k) node \<Rightarrow> ('w, 'k) node \<Rightarrow> bool" where
  "same_outputs n n' \<longleftrightarrow> nd_emits n' = nd_emits n \<and> nd_internal n' = nd_internal n \<and> nd_external n' = nd_external n"

lemma same_outputs_trans: "same_outputs n n1 \<Longrightarrow> same_outputs n1 n2 \<Longrightarrow> same_outputs n n2"
  by (simp add: same_outputs_def)

lemma only_db_outputs: "only_db n n' \<Longrightarrow> same_outputs n n' \<and> nd_sockets n' = nd_sockets n"
  by (auto simp: only_db_def same_outputs_def)

lemma read_named:
  "has_attr p f \<Longrightarrow> \<exists>v. \<forall>(k :: string option \<Rightarrow> ('w, 'a) op) w. bindM (read_attr p f) k w = k v w"
  by (auto simp: has_attr_reads bindM_read_attr)

lemma send_kick_run:
  assumes "named_parts act"
  shows "\<exists>a. send_kick_event_to_external_queue E act n = (Inr (), n\<lparr>nd_external := nd_external n @ [a]\<rparr>)"
proof -
  have p: "has_attr (av_actor act) en_id" "has_attr (av_actor act) en_display_name" "has_attr (av_object act) en_id"
    "has_attr (av_object act) en_display_name" "has_attr (av_target act) en_id" "has_attr (av_target act) en_display_name"
    using assms by (simp_all add: named_parts_def named_part_def)
  then show ?thesis
    by (auto simp: has_attr_reads send_kick_event_to_external_queue_def bindM_read_attr op_simps publish_external_def)
qed

definition kicked :: "activity \<Rightarrow> string \<Rightarrow> string option \<Rightarrow> emission" where
  "kicked data room r = \<lparr>em_name = ''gn_user_kicked'', em_room = r, em_namespace = Some ''/ws'',
     em_data = data\<lparr>av_target := Some (blank_entity\<lparr>en_id := Text room\<rparr>)\<rparr>\<rparr>"

context socket_server begin

lemma kick_sid_run:
  "\<exists>n'. kick_sid E u room (Some ''/ws'') sid n = (Inr (), n') \<and> without_sids E {sid} room n n' \<and> same_outputs n n'"
proof (cases "sid \<in> members E (nd_sockets n) (Some ''/ws'') room")
  case False
  then show ?thesis
    by (auto simp: kick_sid_def op_simps members_def [symmetric] without_sids_def same_outputs_def fun_eq_iff)
next
  case True
  obtain n1 where n1: "logged_errors (on_db (nv_leave_room E u room)) n = (Inr (), n1)" "only_db n n1"
    using on_db_only by (auto simp: logged_errors_run keeps_def)
  obtain k where k: "so_leave E sid room ''/ws'' (nd_sockets n1) = (Inr (), k)"
    "members E k = (\<lambda>ns r. if ns = Some ''/ws'' \<and> r = room then members E (nd_sockets n1) ns r - {sid}
       else members E (nd_sockets n1) ns r)" using leave by blast
  have "kick_sid E u room (Some ''/ws'') sid n = (Inr (), n1\<lparr>nd_sockets := k\<rparr>)"
    using True n1(1) k(1) by (simp add: kick_sid_def op_simps members_def [symmetric] bindM_def [of "logged_errors _"]
        logged_errors_run on_sockets_def)
  moreover have "without_sids E {sid} room n (n1\<lparr>nd_sockets := k\<rparr>)" "same_outputs n (n1\<lparr>nd_sockets := k\<rparr>)"
    using only_db_outputs [OF n1(2)] by (simp_all add: without_sids_def same_outputs_def k(2) fun_eq_iff)
  ultimately show ?thesis by blast
qed

lemma kick_sids_run:
  "\<exists>n'. iterM (kick_sid E u room (Some ''/ws'')) sids n = (Inr (), n') \<and> without_sids E (set sids) room n n' \<and> same_outputs n n'"
proof -
  have "\<exists>n2. kick_sid E u room (Some ''/ws'') x n1 = (Inr (), n2) \<and> without_sids E (set (ys @ [x])) room n n2 \<and> same_outputs n n2"
    if "without_sids E (set ys) room n n1 \<and> same_outputs n n1" for ys x n1
    using kick_sid_run [of u room x n1] that
    by (auto simp: without_sids_def fun_eq_iff intro: same_outputs_trans)
  then show ?thesis
    by (intro iterM_rule [where I = "\<lambda>ys m. without_sids E (set ys) room n m \<and> same_outputs n m"])
      (auto simp: without_sids_def same_outputs_def fun_eq_iff)
qed

lemma kick_run:
  assumes "named_parts act"
  shows "\<exists>n' a. kick E data act room u sids (Some ''/ws'') n = (Inr (), n') \<and> without_sids E (set sids) room n n' \<and>
    nd_emits n' = nd_emits n @ [kicked data room u, kicked data room (Some room)] \<and>
    nd_external n' = nd_external n @ [a] \<and> nd_internal n' = nd_internal n"
proof -
  let ?data = "data\<lparr>av_target := Some (blank_entity\<lparr>en_id := Text room\<rparr>)\<rparr>"
  let ?n1 = "n\<lparr>nd_emits := nd_emits n @ [kicked data room u]\<rparr>"
  obtain a where a: "send_kick_event_to_external_queue E act ?n1 = (Inr (), ?n1\<lparr>nd_external := nd_external n @ [a]\<rparr>)"
    (is "_ = (_, ?n2)") using send_kick_run [OF assms, of E ?n1] by auto
  obtain n3 where n3: "iterM (kick_sid E u room (Some ''/ws'')) sids ?n2 = (Inr (), n3)"
    "without_sids E (set sids) room ?n2 n3" "same_outputs ?n2 n3" using kick_sids_run by blast
  let ?n4 = "n3\<lparr>nd_emits := nd_emits n3 @ [kicked data room (Some room)]\<rparr>"
  obtain n5 where n5: "delete_for_user_in_room E u room ?n4 = (Inr (), n5)" "only_db ?n4 n5"
    using delete_never_raises by blast
  have "kick E data act room u sids (Some ''/ws'') n = (Inr (), n5)"
    using a n3(1) n5(1) unfolding kick_def Let_def kicked_def
    by (simp add: thenM_def bindM_emit bindM_def [of "send_kick_event_to_external_queue _ _"] bindM_def [of "iterM _ _"])
  moreover have "without_sids E (set sids) room n n5"
    using n3(2) only_db_outputs [OF n5(2)] by (simp add: without_sids_def fun_eq_iff)
  moreover have "nd_emits n5 = nd_emits n @ [kicked data room u, kicked data room (Some room)]"
    "nd_external n5 = nd_external n @ [a]" "nd_internal n5 = nd_internal n"
    using n3(3) only_db_outputs [OF n5(2)] by (simp_all add: same_outputs_def)
  ultimately show ?thesis by blast
qed

end

end
