(* ===== verification/Queue_Bans.thy ===== *)
theory Queue_Bans
  imports Queue_Facts
begin

section \<open>Bans that arrive from another node\<close>

text \<open>
  A ban from everything, from the event to the sockets of the user: on the node that has them, with a
  storage that knows which messages the user sent and with one that does not; and on a node that
  does not have them. What the operations of the database have to answer is asked only in states
  with an invariant \<open>I\<close> of the database that they preserve, so that it may depend on what is stored.
\<close>

subsection \<open>Operations that answer\<close>

definition answers :: "('w \<Rightarrow> bool) \<Rightarrow> ('w, 'a) op \<Rightarrow> bool" where
  "answers I m \<longleftrightarrow> (\<forall>w. I w \<longrightarrow> (\<exists>a w'. m w = (Inr a, w') \<and> I w'))"

lemma answersE:
  assumes "answers I m" "I w"
  obtains a w' where "m w = (Inr a, w')" "I w'"
  using assms unfolding answers_def by blast

definition stays :: "('w \<Rightarrow> bool) \<Rightarrow> ('w, 'k) node \<Rightarrow> ('w, 'k) node \<Rightarrow> bool" where
  "stays I n n' \<longleftrightarrow> only_db n n' \<and> I (nd_db n')"

lemma stays_trans: "stays I n n1 \<Longrightarrow> stays I n1 n2 \<Longrightarrow> stays I n n2"
  by (auto simp: stays_def intro: only_db_trans)

lemma stays_outputs: "stays I n n' \<Longrightarrow> same_outputs n n' \<and> nd_sockets n' = nd_sockets n \<and> I (nd_db n')"
  by (simp add: stays_def only_db_outputs)

lemma stays_db: "I w \<Longrightarrow> stays I n (n\<lparr>nd_db := w\<rparr>)"
  by (auto simp: stays_def only_db_def)

lemma on_db_answers:
  assumes "answers I m" "I (nd_db n)"
  shows "\<exists>a n'. on_db m n = (Inr a, n') \<and> stays I n n'"
proof -
  obtain a w where "m (nd_db n) = (Inr a, w)" "I w" using answersE [OF assms] by blast
  then show ?thesis by (auto simp: on_db_def intro: stays_db)
qed

definition preserves :: "('w \<Rightarrow> bool) \<Rightarrow> ('w, 'a) op \<Rightarrow> bool" where
  "preserves I m \<longleftrightarrow> (\<forall>w. I w \<longrightarrow> I (snd (m w)))"

definition inv_kept :: "('w \<Rightarrow> bool) \<Rightarrow> ('w, 'k) node \<Rightarrow> ('w, 'k) node \<Rightarrow> bool" where
  "inv_kept I n n' \<longleftrightarrow> (I (nd_db n) \<longrightarrow> I (nd_db n'))"

lemma inv_kept_on_db: "preserves I m \<Longrightarrow> keeps (inv_kept I) (on_db m)"
  by (auto simp: preserves_def keeps_def inv_kept_def on_db_def split: prod.split)

lemma answers_preserves: "answers I m \<Longrightarrow> preserves I m"
  unfolding answers_def preserves_def by (metis snd_conv)

subsection \<open>The event\<close>

text \<open>
  An event for a ban from everything of the user \<open>u\<close>, by nobody, the admin interface or one of \<open>B\<close>. The
  entries that the handlers read are there.
\<close>

definition global_ban_event :: "activity \<Rightarrow> string \<Rightarrow> string option set \<Rightarrow> bool" where
  "global_ban_event act u B \<longleftrightarrow> named_parts act \<and> part_attr (av_object act) en_id = Inr (Some u) \<and> is_valid_id (Some u) \<and>
     (\<exists>b\<in>{None, Some ''0''} \<union> B. part_attr (av_actor act) en_id = Inr b) \<and>
     has_attr (av_object act) en_summary \<and> has_attr (av_object act) en_content \<and>
     (\<exists>t. part_attr (av_target act) en_object_type = Inr t \<and> t \<notin> {Some ''room'', Some ''channel''}) \<and>
     (\<exists>url. part_attr (av_target act) en_url = Inr url \<and> py_or url (Some ''/ws'') = Some ''/ws'')"

lemma get_ban_activity_run:
  assumes "global_ban_event act u B" "has_attr (av_object act) en_updated"
  shows "\<exists>a. get_ban_activity E act t n = (Inr a, n)"
proof -
  have "has_attr (av_actor act) en_id" "has_attr (av_actor act) en_display_name" "has_attr (av_object act) en_id"
    "has_attr (av_object act) en_display_name" "has_attr (av_target act) en_id" "has_attr (av_target act) en_display_name"
    "has_attr (av_object act) en_summary" "has_attr (av_object act) en_updated" "has_attr (av_object act) en_content"
    "has_attr (av_target act) en_object_type"
    using assms by (auto simp: global_ban_event_def named_parts_def named_part_def has_attr_reads)
  then show ?thesis
    by (auto simp: has_attr_reads get_ban_activity_def bindM_read_attr op_simps)
qed

lemma user_of_run: "part_attr (av_object act) en_id = Inr (Some u) \<Longrightarrow> u \<noteq> [] \<Longrightarrow> user_of act n = (Inr (Some u), n)"
  by (simp add: user_of_def bindM_read_attr py_or_def ret_def)

definition with_end :: "('w, 'k) nenv \<Rightarrow> int \<Rightarrow> activity \<Rightarrow> activity" where
  "with_end E t act = with_updated (nv_strftime E t) act"

lemma with_end_event: "global_ban_event act u B \<Longrightarrow> global_ban_event (with_end E t act) u B"
  by (auto simp: global_ban_event_def with_end_def with_updated_def named_parts_def named_part_def has_attr_def
      part_attr_def split: option.splits)

lemma with_end_updated: "global_ban_event act u B \<Longrightarrow> has_attr (av_object (with_end E t act)) en_updated"
  by (auto simp: global_ban_event_def with_end_def with_updated_def has_attr_def split: option.splits)

text \<open>The sockets of \<open>sids\<close> are in no room of the namespace of the server, the others where they were.\<close>

definition sids_out :: "('w, 'k) nenv \<Rightarrow> string set \<Rightarrow> ('w, 'k) node \<Rightarrow> ('w, 'k) node \<Rightarrow> bool" where
  "sids_out E sids n n' \<longleftrightarrow>
     (\<forall>r. members E (nd_sockets n') (Some ''/ws'') r = members E (nd_sockets n) (Some ''/ws'') r - sids)"

text \<open>The node has a socket of the user (any, or one in the room that the target names), or has none.\<close>

definition reached :: "('w, 'k) nenv \<Rightarrow> 'k \<Rightarrow> activity \<Rightarrow> string list \<Rightarrow> bool" where
  "reached E k act sids \<longleftrightarrow> (case so_rooms E k (Some ''/ws'') of None \<Rightarrow> False
     | Some rooms \<Rightarrow> (case part_attr (av_target act) en_id of
         Inr None \<Rightarrow> \<exists>sid\<in>set sids. rooms sid \<noteq> None
       | Inr (Some r) \<Rightarrow> (case rooms r of None \<Rightarrow> False | Some users \<Rightarrow> \<exists>sid\<in>set sids. sid \<in> set users)
       | Inl _ \<Rightarrow> False))"

text \<open>The handler up to the decision on the target, which is everything.\<close>

definition ban_rest :: "('w, 'k) nenv \<Rightarrow> activity \<Rightarrow> activity \<Rightarrow> string \<Rightarrow> string list \<Rightarrow> activity \<Rightarrow> string \<Rightarrow> (('w, 'k) node, unit) op" where
  "ban_rest E data act u sids a name = logged_key_error
    (thenM (emit ''gn_banned'' a (Some u) (Some ''/ws''))
       (bindM (on_db (nv_rooms_for_user E (Some u))) (\<lambda>rooms_for_user.
          thenM (ban_globally E data act rooms_for_user (Some u) sids (Some ''/ws''))
          (bindM (on_db (nv_user_status E (Some u))) (\<lambda>status.
           thenM (on_db (if status = status_invisible then nv_remove_from_multicast E (Some u)
                         else nv_set_user_offline E (Some u)))
           (bindM (gets (nv_stamp E)) (\<lambda>t. publish_external (activity_for_disconnect t (Some u) name))))))))"

subsection \<open>What a ban needs of the database, the storage and the socket server\<close>

locale ban_db =
  fixes E :: "('w, 'k) nenv" and I :: "'w \<Rightarrow> bool" and u :: string and sids :: "string list" and B :: "string option set"
    and K :: "string \<Rightarrow> string option \<Rightarrow> bool"
  assumes node: "nv_node E \<in> {''app'', ''wio''}"
    and name: "answers I (nv_user_name E (Some u))"
    and banner: "b \<in> B \<Longrightarrow> answers I (nv_user_name E b)"
    and sids: "I w \<Longrightarrow> \<exists>w'. nv_sids E (Some u) w = (Inr sids, w') \<and> I w'"
    and rooms: "answers I (nv_rooms_for_user E (Some u))"
    and recorded: "K ts d \<Longrightarrow> answers I (nv_ban_user_global E (Some u) ts d r b)"
begin

lemma here_run:
  assumes act: "global_ban_event act u B" and I: "I (nd_db n)"
  shows "\<exists>n'. user_is_on_this_node E act n = (Inr (reached E (nd_sockets n) act sids), n') \<and> stays I n n'"
proof -
  obtain url where url: "part_attr (av_target act) en_url = Inr url" "py_or url (Some ''/ws'') = Some ''/ws''"
    and u: "part_attr (av_object act) en_id = Inr (Some u)" and v: "is_valid_id (Some u)"
    and t: "has_attr (av_target act) en_id"
    using act by (auto simp: global_ban_event_def named_parts_def named_part_def)
  from v have "u \<noteq> []" by (auto simp: is_valid_id_def)
  note u = u this
  obtain r where r: "part_attr (av_target act) en_id = Inr r" using t by (auto simp: has_attr_reads)
  obtain w where w: "nv_sids E (Some u) (nd_db n) = (Inr sids, w)" "I w" using sids [OF I] by blast
  have "user_is_on_this_node E act n = (Inr (reached E (nd_sockets n) act sids), n\<lparr>nd_db := w\<rparr>)"
    using node r url w(1)
    by (auto simp: user_is_on_this_node_def bindM_read_attr Let_def bindM_Inr [OF user_of_run [OF u]] bindM_on_db gets_def
        reached_def split: option.splits)
  with w(2) show ?thesis by (auto intro: stays_db)
qed

lemma create_global_ban_run:
  assumes act: "global_ban_event act u B" and d: "part_attr (av_object act) en_summary = Inr d"
    and t: "ban_duration_to_datetime (nv_now E) d = Inr t" and K: "K (datetime_to_timestamp (nv_tz E) t) d" and I: "I (nd_db n)"
  shows "\<exists>n' b. create_ban_even_if_not_on_this_node E act n = (Inr (with_end E t act), n') \<and> stays I n n' \<and>
    nd_db n' = snd (nv_ban_user_global E (Some u) (datetime_to_timestamp (nv_tz E) t) d (reason_of act) b (nd_db n))"
proof -
  obtain ty b where ty: "part_attr (av_target act) en_object_type = Inr ty" "ty \<notin> {Some ''room'', Some ''channel''}"
    and u: "part_attr (av_object act) en_id = Inr (Some u)" and b: "part_attr (av_actor act) en_id = Inr b"
    using act by (auto simp: global_ban_event_def)
  have b': "part_attr (av_actor (with_updated x act)) f = part_attr (av_actor act) f" for x f by (simp add: with_updated_def)
  have target: "ban_target act n = (Inr (''global'', Some []), n)" for n :: "('w, 'k) node"
    using ty by (simp add: ban_target_def bindM_read_attr ret_def)
  have ts: "ban_duration_to_timestamp (nv_tz E) (nv_now E) d = Inr (datetime_to_timestamp (nv_tz E) t)"
    using t by (simp add: ban_duration_to_timestamp_def)
  let ?ban = "nv_ban_user_global E (Some u) (datetime_to_timestamp (nv_tz E) t) d (reason_of act) b"
  obtain x w where w: "?ban (nd_db n) = (Inr x, w)" "I w" by (rule answersE [OF recorded [OF K] I])
  have log: "logged_key_error (thenM (whenM (nv_node E = ''rest'') m) (on_db ?ban)) n = (Inr (), n\<lparr>nd_db := w\<rparr>)" for m
    using node w(1) by (auto simp: logged_key_error_def catchM_def thenM_def bindM_def whenM_def ret_def on_db_def)
  have "create_ban_even_if_not_on_this_node E act n = (Inr (with_end E t act), n\<lparr>nd_db := w\<rparr>)"
    using u d t ts b
    by (simp add: create_ban_even_if_not_on_this_node_def bindM_read_attr bindM_Inr [OF target] Let_def bindM_lift_run b'
        thenM_def [of "logged_key_error _"] bindM_def [of "logged_key_error _"] log ret_def with_end_def)
  with w show ?thesis by (intro exI [of _ "n\<lparr>nd_db := w\<rparr>"] exI [of _ b]) (auto intro: stays_db)
qed

lemma handle_ban_prefix:
  assumes act: "global_ban_event act u B" "has_attr (av_object act) en_updated" and s: "sids \<noteq> []" "hd sids \<noteq> []"
    and I: "I (nd_db n)"
  shows "\<exists>n1 data name a. stays I n n1 \<and> handle_ban E act n = ban_rest E data act u sids a name n1"
proof -
  obtain b t url where b: "part_attr (av_actor act) en_id = Inr b" "b \<in> {None, Some ''0''} \<union> B"
    and t: "part_attr (av_target act) en_object_type = Inr t" "t \<notin> {Some ''room'', Some ''channel''}"
    and url: "part_attr (av_target act) en_url = Inr url" "py_or url (Some ''/ws'') = Some ''/ws''"
    using act by (auto simp: global_ban_event_def)
  obtain bid where bid: "bid = (if b = None then Some ''0'' else b)" by blast
  let ?name = "if bid = Some ''0'' then ret (Some ''admin'')
            else catchM (bindM (on_db (nv_user_name E bid)) (\<lambda>n. ret (Some n)))
              (\<lambda>e. case e of NoSuchUserException _ \<Rightarrow> Some (ret None) | _ \<Rightarrow> None)"
  have "\<exists>banner n1. ?name n = (Inr (Some banner), n1) \<and> stays I n n1"
  proof (cases "bid = Some ''0''")
    case True
    then show ?thesis using I by (auto simp: ret_def stays_def)
  next
    case False
    with b(2) bid have "bid \<in> B" by (auto split: if_splits)
    then obtain x n1 where "on_db (nv_user_name E bid) n = (Inr x, n1)" "stays I n n1"
      using on_db_answers [OF banner I] by blast
    with False show ?thesis by (simp add: catchM_def bindM_def ret_def)
  qed
  then obtain banner n1 where n1: "?name n = (Inr (Some banner), n1)" "stays I n n1" by blast
  obtain name n2 where n2: "on_db (nv_user_name E (Some u)) n1 = (Inr name, n2)" "stays I n1 n2"
    using on_db_answers [OF name] stays_outputs [OF n1(2)] by blast
  obtain w where "nv_sids E (Some u) (nd_db n2) = (Inr sids, w)" "I w" using sids stays_outputs [OF n2(2)] by blast
  then have w: "on_db (nv_sids E (Some u)) n2 = (Inr sids, n2\<lparr>nd_db := w\<rparr>)" "stays I n2 (n2\<lparr>nd_db := w\<rparr>)"
    by (simp_all add: on_db_def stays_db)
  have "get_ban_activity E act t = get_ban_activity E act t'" for t t' by (simp add: get_ban_activity_def)
  then obtain a where a: "\<And>t. get_ban_activity E act t (n2\<lparr>nd_db := w\<rparr>) = (Inr a, n2\<lparr>nd_db := w\<rparr>)"
    using get_ban_activity_run [OF act, of E] by metis
  have u: "part_attr (av_object act) en_id = Inr (Some u)" "is_valid_id (Some u)"
    using act by (auto simp: global_ban_event_def)
  have "stays I n (n2\<lparr>nd_db := w\<rparr>)" using n1(2) n2(2) w(2) by (blast intro: stays_trans)
  moreover have "handle_ban E act n = ban_rest E
      (activity_for_user_banned (nv_stamp E (n2\<lparr>nd_db := w\<rparr>)) bid banner (Some u) name (Some []) [] (reason_of act))
      act u sids a name (n2\<lparr>nd_db := w\<rparr>)"
    unfolding handle_ban_def Let_def bindM_read_attr b sum.case bid [symmetric] bindM_Inr [of ?name, OF n1(1)] option.case u
    by (subst if_not_P) (use a t url u s in \<open>simp_all add: bindM_read_attr bindM_Inr [of "on_db (nv_user_name E (Some u))", OF n2(1)]
        bindM_Inr [of "on_db (nv_sids E (Some u))", OF w(1)] bindM_ret
        bindM_gets ban_rest_def logged_key_error_def catchM_def bindM_def [of "get_ban_activity E act _"]\<close>)
  ultimately show ?thesis by blast
qed

end

subsection \<open>The user is on this node\<close>

text \<open>The operations that a storage and a socket server need to answer for the ban to be carried out.\<close>

locale ban_node = ban_db E I u sids B K + socket_server E
  for E :: "('w, 'k) nenv" and I u sids B K +
  assumes online: "sids \<noteq> []" "hd sids \<noteq> []"
    and storage: "answers I (nv_message_ids E (Some u))" "answers I (nv_delete_message E m)"
    and may_fail: "preserves I (nv_leave_room E v r)" "preserves I (nv_message_ids_in_room E v r)"
    and status: "answers I (nv_user_status E (Some u))"
    and offline: "answers I (nv_set_user_offline E (Some u))" "answers I (nv_remove_from_multicast E (Some u))"

text \<open>A storage that cannot say which messages the user sent.\<close>

locale ban_blocked = ban_db E I u sids B K
  for E :: "('w, 'k) nenv" and I u sids B K +
  assumes online_user: "sids \<noteq> []" "hd sids \<noteq> []"
    and no_ids: "I w \<Longrightarrow> \<exists>x w'. nv_message_ids E (Some u) w = (Inl x, w')"

sublocale ban_node \<subseteq> inv: kick_relation "inv_kept I" E
proof unfold_locales
  show "keeps (inv_kept I) (on_db (nv_leave_room E v r))" "keeps (inv_kept I) (on_db (nv_message_ids_in_room E v r))"
    "keeps (inv_kept I) (on_db (nv_delete_message E m))" for v r m
    using may_fail answers_preserves [OF storage(2)] by (simp_all add: inv_kept_on_db)
qed (simp_all add: inv_kept_def keeps_def node_defs modify_def split: prod.split)

context ban_node begin

lemma deletes_run:
  assumes "I (nd_db n)"
  shows "\<exists>n'. iterM (\<lambda>m. on_db (nv_delete_message E m)) ms n = (Inr (), n') \<and> stays I n n'"
proof (rule iterM_rule [where I = "\<lambda>_ m. stays I n m"])
  show "stays I n n" using assms by (simp add: stays_def)
next
  fix ys x n1 assume n1: "stays I n n1"
  then show "\<exists>n2. on_db (nv_delete_message E x) n1 = (Inr (), n2) \<and> stays I n n2"
    using on_db_answers [OF storage(2), of n1 x] stays_outputs [OF n1] by (auto intro: stays_trans)
qed

lemma ban_rooms_run:
  assumes "named_parts act" "I (nd_db n)"
  shows "\<exists>n'. iterM (\<lambda>room. thenM (emit ''gn_user_banned'' data (Some room) (Some ''/ws''))
      (kick E data act room (Some u) sids (Some ''/ws''))) rs n = (Inr (), n') \<and> I (nd_db n') \<and>
    (\<forall>r. members E (nd_sockets n) (Some ''/ws'') r - set sids \<subseteq> members E (nd_sockets n') (Some ''/ws'') r \<and>
      members E (nd_sockets n') (Some ''/ws'') r \<subseteq> members E (nd_sockets n) (Some ''/ws'') r)"
    (is "\<exists>n'. iterM ?f rs n = (Inr (), n') \<and> I (nd_db n') \<and> ?within n n'")
proof (rule iterM_rule [where I = "\<lambda>_ m. I (nd_db m) \<and> ?within n m"])
  fix ys room n1 assume w: "I (nd_db n1) \<and> ?within n n1"
  let ?e = "\<lparr>em_name = ''gn_user_banned'', em_room = Some room, em_namespace = Some ''/ws'', em_data = data\<rparr>"
  let ?n1 = "n1\<lparr>nd_emits := nd_emits n1 @ [?e]\<rparr>"
  obtain n2 where n2: "kick E data act room (Some u) sids (Some ''/ws'') ?n1 = (Inr (), n2)"
    "without_sids E (set sids) room ?n1 n2" using kick_run [OF assms(1)] by blast
  have "I (nd_db n2)" using keepsD [OF inv.keeps_kick n2(1)] w by (simp add: inv_kept_def)
  moreover have "?within n n2" using w n2(2) by (auto simp: without_sids_def)
  ultimately show "\<exists>n2. ?f room n1 = (Inr (), n2) \<and> I (nd_db n2) \<and> ?within n n2"
    using n2(1) by (auto simp: thenM_def bindM_emit)
qed (use assms(2) in auto)

lemma disconnects_run:
  "\<exists>n'. iterM (\<lambda>sid. on_sockets (so_disconnect E sid)) xs n = (Inr (), n') \<and> sids_out E (set xs) n n' \<and>
    nd_db n' = nd_db n"
proof -
  have "\<exists>n2. on_sockets (so_disconnect E x) n1 = (Inr (), n2) \<and> sids_out E (set (ys @ [x])) n n2 \<and> nd_db n2 = nd_db n"
    if "sids_out E (set ys) n n1 \<and> nd_db n1 = nd_db n" for ys x n1
    using disconnect [of x "nd_sockets n1"] that by (auto simp: on_sockets_def sids_out_def)
  then show ?thesis
    by (intro iterM_rule [where I = "\<lambda>ys m. sids_out E (set ys) n m \<and> nd_db m = nd_db n"]) (auto simp: sids_out_def)
qed

lemma ban_globally_run:
  assumes "named_parts act" "I (nd_db n)"
  shows "\<exists>n'. ban_globally E data act rs (Some u) sids (Some ''/ws'') n = (Inr (), n') \<and> sids_out E (set sids) n n' \<and> I (nd_db n')"
proof -
  obtain ids n1 where n1: "on_db (nv_message_ids E (Some u)) n = (Inr ids, n1)" "stays I n n1"
    using on_db_answers [OF storage(1) assms(2)] by blast
  obtain n2 where n2: "iterM (\<lambda>m. on_db (nv_delete_message E m)) ids n1 = (Inr (), n2)" "stays I n1 n2"
    using deletes_run stays_outputs [OF n1(2)] by blast
  let ?kicks = "iterM (\<lambda>room. thenM (emit ''gn_user_banned'' data (Some room) (Some ''/ws''))
      (kick E data act room (Some u) sids (Some ''/ws''))) rs"
  obtain n3 where n3: "?kicks n2 = (Inr (), n3)" "I (nd_db n3)"
    "\<forall>r. members E (nd_sockets n2) (Some ''/ws'') r - set sids \<subseteq> members E (nd_sockets n3) (Some ''/ws'') r \<and>
      members E (nd_sockets n3) (Some ''/ws'') r \<subseteq> members E (nd_sockets n2) (Some ''/ws'') r"
    using ban_rooms_run [OF assms(1)] stays_outputs [OF n2(2)] by blast
  obtain n4 where n4: "iterM (\<lambda>sid. on_sockets (so_disconnect E sid)) sids n3 = (Inr (), n4)" "sids_out E (set sids) n3 n4"
    "nd_db n4 = nd_db n3" using disconnects_run by blast
  have "nd_sockets n2 = nd_sockets n" using stays_outputs [OF n1(2)] stays_outputs [OF n2(2)] by simp
  with n3(3) n4(2) have "sids_out E (set sids) n n4" by (auto simp: sids_out_def)
  moreover have "ban_globally E data act rs (Some u) sids (Some ''/ws'') n = (Inr (), n4)"
    using n1(1) n2(1) n3(1) n4(1)
    by (simp add: ban_globally_def thenM_def bindM_def failing_handler_def catchM_def logged_errors_def ret_def whenM_def)
  ultimately show ?thesis using n3(2) n4(3) by auto
qed

lemma handle_ban_global:
  assumes act: "global_ban_event act u B" "has_attr (av_object act) en_updated" and I: "I (nd_db n)"
  shows "\<exists>n' w. handle_ban E act n = (Inr (), n') \<and> sids_out E (set sids) n n' \<and> I w \<and>
    (nd_db n' = snd (nv_set_user_offline E (Some u) w) \<or> nd_db n' = snd (nv_remove_from_multicast E (Some u) w))"
proof -
  obtain n1 data name a where n1: "stays I n n1" and run: "handle_ban E act n = ban_rest E data act u sids a name n1"
    using handle_ban_prefix [OF act online I] by blast
  let ?n2 = "n1\<lparr>nd_emits := nd_emits n1 @ [\<lparr>em_name = ''gn_banned'', em_room = Some u, em_namespace = Some ''/ws'', em_data = a\<rparr>]\<rparr>"
  obtain rs n3 where n3: "on_db (nv_rooms_for_user E (Some u)) ?n2 = (Inr rs, n3)" "stays I ?n2 n3"
    using on_db_answers [OF rooms, of ?n2] stays_outputs [OF n1] by auto
  have "named_parts act" using act(1) by (simp add: global_ban_event_def)
  then obtain n4 where n4: "ban_globally E data act rs (Some u) sids (Some ''/ws'') n3 = (Inr (), n4)" "sids_out E (set sids) n3 n4"
      "I (nd_db n4)"
    using ban_globally_run stays_outputs [OF n3(2)] by blast
  obtain st n5 where n5: "on_db (nv_user_status E (Some u)) n4 = (Inr st, n5)" "stays I n4 n5"
    using on_db_answers [OF status n4(3)] by blast
  let ?off = "if st = status_invisible then nv_remove_from_multicast E (Some u) else nv_set_user_offline E (Some u)"
  have "answers I ?off" using offline by simp
  then obtain x w where w: "?off (nd_db n5) = (Inr x, w)" using stays_outputs [OF n5(2)] by (blast elim: answersE)
  let ?n6 = "n5\<lparr>nd_db := w\<rparr>"
  let ?n7 = "?n6\<lparr>nd_external := nd_external ?n6 @ [activity_for_disconnect (nv_stamp E ?n6) (Some u) name]\<rparr>"
  have off: "on_db ?off n5 = (Inr x, ?n6)" using w by (simp add: on_db_def)
  have "handle_ban E act n = (Inr (), ?n7)"
    unfolding run ban_rest_def logged_key_error_def catchM_def
    by (simp only: thenM_def bindM_emit bindM_Inr [of "on_db (nv_rooms_for_user E (Some u))", OF n3(1)]
        bindM_Inr [of "ban_globally E data act rs (Some u) sids (Some ''/ws'')", OF n4(1)]
        bindM_Inr [of "on_db (nv_user_status E (Some u))", OF n5(1)] bindM_Inr [of "on_db ?off", OF off] bindM_gets)
      (simp add: publish_external_def modify_def)
  moreover have "sids_out E (set sids) n ?n7"
    using n4(2) stays_outputs [OF n1] stays_outputs [OF n3(2)] stays_outputs [OF n5(2)] by (simp add: sids_out_def)
  moreover have "nd_db ?n7 = snd (nv_set_user_offline E (Some u) (nd_db n5)) \<or>
      nd_db ?n7 = snd (nv_remove_from_multicast E (Some u) (nd_db n5))"
    using w by (auto split: if_splits)
  ultimately show ?thesis using stays_outputs [OF n5(2)] by blast
qed

end

context ban_blocked begin

lemma handle_ban_stopped:
  assumes act: "global_ban_event act u B" "has_attr (av_object act) en_updated" and I: "I (nd_db n)"
  shows "\<exists>n' m. handle_ban E act n = (Inl TypeError, n') \<and> nd_sockets n' = nd_sockets n \<and> nd_external n' = nd_external n \<and>
    nd_emits n' = nd_emits n @ [m] \<and> em_room m = Some u"
proof -
  obtain n1 data name a where n1: "stays I n n1" and run: "handle_ban E act n = ban_rest E data act u sids a name n1"
    using handle_ban_prefix [OF act online_user I] by blast
  let ?m = "\<lparr>em_name = ''gn_banned'', em_room = Some u, em_namespace = Some ''/ws'', em_data = a\<rparr>"
  let ?n2 = "n1\<lparr>nd_emits := nd_emits n1 @ [?m]\<rparr>"
  obtain rs n3 where n3: "on_db (nv_rooms_for_user E (Some u)) ?n2 = (Inr rs, n3)" "stays I ?n2 n3"
    using on_db_answers [OF rooms, of ?n2] stays_outputs [OF n1] by auto
  obtain x w where "nv_message_ids E (Some u) (nd_db n3) = (Inl x, w)" using no_ids stays_outputs [OF n3(2)] by blast
  then have g: "ban_globally E data act rs (Some u) sids (Some ''/ws'') n3 = (Inl TypeError, n3\<lparr>nd_db := w\<rparr>)"
    by (simp add: ban_globally_def thenM_def bindM_def failing_handler_def catchM_def on_db_def throw_def)
  have "handle_ban E act n = (Inl TypeError, n3\<lparr>nd_db := w\<rparr>)"
    unfolding run ban_rest_def logged_key_error_def catchM_def
    by (simp add: thenM_def bindM_emit bindM_def [of "on_db (nv_rooms_for_user E (Some u))"] n3(1)
        bindM_Inl [of "ban_globally E data act rs (Some u) sids (Some ''/ws'')", OF g])
  with stays_outputs [OF n1] stays_outputs [OF n3(2)] show ?thesis
    by (intro exI [of _ "n3\<lparr>nd_db := w\<rparr>"] exI [of _ ?m]) (simp add: same_outputs_def)
qed

end

subsection \<open>From the event to the handler\<close>

lemma dispatch_ban:
  assumes "av_verb (ne_activity e) = Text ''ban''"
  shows "dispatch E e n = bindM (user_is_on_this_node E (ne_activity e)) (\<lambda>here.
       thenM (whenM (\<not> here) (send_event_to_other_node e))
       (bindM (create_ban_even_if_not_on_this_node E (ne_activity e)) (\<lambda>act.
        whenM here (logged_errors (handle_ban E act))))) n"
  using assms by (simp add: dispatch_def bindM_lift_run handle_local_node_events_def Let_def)

lemma dispatch_ban_here:
  assumes "av_verb (ne_activity e) = Text ''ban''" "user_is_on_this_node E (ne_activity e) n = (Inr True, n1)"
    and "create_ban_even_if_not_on_this_node E (ne_activity e) n1 = (Inr act, n2)"
  shows "dispatch E e n = (Inr (), snd (handle_ban E act n2))"
  using assms(2,3)
  by (simp add: dispatch_ban [OF assms(1)] bindM_def [of "user_is_on_this_node _ _"] thenM_def whenM_def bindM_ret
      bindM_def [of "create_ban_even_if_not_on_this_node _ _"] logged_errors_run)

definition delegated_event :: "node_event \<Rightarrow> node_event" where
  "delegated_event e = e\<lparr>ne_revision := Some (case ne_revision e of None \<Rightarrow> 0 | Some r \<Rightarrow> r + 1)\<rparr>"

lemma send_event_run:
  assumes "ne_id e = Text i" "window_of xs (nd_delegated n)" "Some i \<notin> wi_set (nd_delegated n)"
  shows "\<exists>W. window_of (xs @ [Some i]) W \<and> send_event_to_other_node e n =
    (Inr (), n\<lparr>nd_delegated := W, nd_internal := nd_internal n @ [delegated_event e]\<rparr>)"
proof -
  obtain W where W: "remember (Some i) (nd_delegated n) = (Inr (), W)" "window_of (xs @ [Some i]) W"
    using remember_window [OF assms(2,3)] by blast
  then have "send_event_to_other_node e n = (Inr (), n\<lparr>nd_delegated := W, nd_internal := nd_internal n @ [delegated_event e]\<rparr>)"
    by (simp add: send_event_to_other_node_def assms(1) bindM_ret thenM_def bindM_def [of "on_delegated _"] on_delegated_def
        publish_internal_def modify_def delegated_event_def)
  with W(2) show ?thesis by blast
qed

text \<open>An event with a revision is dropped by every node, in every state.\<close>

lemma revision_dropped: "ne_revision e \<noteq> None \<Longrightarrow> handle_server_activity E e n = (Inr (), n)"
  by (rule handled_not_new) (simp add: is_new_def)

lemma delegated_dropped: "handle_server_activity E (delegated_event e) n = (Inr (), n)"
  by (rule revision_dropped) (simp add: delegated_event_def)

text \<open>An event for a global ban of \<open>u\<close> that ends at \<open>t\<close>.\<close>

definition ban_event :: "node_event \<Rightarrow> string \<Rightarrow> string option set \<Rightarrow> ('w, 'k) nenv \<Rightarrow> string option \<Rightarrow> int \<Rightarrow> bool" where
  "ban_event e u B E d t \<longleftrightarrow> av_verb (ne_activity e) = Text ''ban'' \<and> global_ban_event (ne_activity e) u B \<and>
     part_attr (av_object (ne_activity e)) en_summary = Inr d \<and> ban_duration_to_datetime (nv_now E) d = Inr t"

definition ban_written :: "('w, 'k) nenv \<Rightarrow> activity \<Rightarrow> string \<Rightarrow> string option \<Rightarrow> int \<Rightarrow> 'w \<Rightarrow> 'w \<Rightarrow> bool" where
  "ban_written E act u d t w w' \<longleftrightarrow> (\<exists>b. w' = snd (nv_ban_user_global E (Some u) (datetime_to_timestamp (nv_tz E) t) d (reason_of act) b w))"

context ban_db begin

lemma ban_recorded:
  assumes "ban_event e u B E d t" "I (nd_db n)"
    and K: "K (datetime_to_timestamp (nv_tz E) t) d"
  shows "\<exists>n'. create_ban_even_if_not_on_this_node E (ne_activity e) n = (Inr (with_end E t (ne_activity e)), n') \<and>
    stays I n n' \<and> ban_written E (ne_activity e) u d t (nd_db n) (nd_db n')"
  using create_global_ban_run [OF _ _ _ K assms(2)] assms(1) by (auto simp: ban_event_def ban_written_def)

lemma ban_before_handler:
  assumes e: "ban_event e u B E d t" and here: "reached E (nd_sockets n) (ne_activity e) sids" and I: "I (nd_db n)"
    and K: "K (datetime_to_timestamp (nv_tz E) t) d"
  shows "\<exists>n' w. stays I n n' \<and> I w \<and> ban_written E (ne_activity e) u d t w (nd_db n') \<and> dispatch E e n = (Inr (), snd (handle_ban E (with_end E t (ne_activity e)) n'))"
proof -
  from e have v: "av_verb (ne_activity e) = Text ''ban''" and act: "global_ban_event (ne_activity e) u B"
    by (auto simp: ban_event_def)
  obtain n1 where n1: "user_is_on_this_node E (ne_activity e) n = (Inr True, n1)" "stays I n n1"
    using here_run [OF act I] here by auto
  then obtain n2 where n2: "create_ban_even_if_not_on_this_node E (ne_activity e) n1 = (Inr (with_end E t (ne_activity e)), n2)"
    "stays I n1 n2" "ban_written E (ne_activity e) u d t (nd_db n1) (nd_db n2)"
    using ban_recorded [OF e _ K, of n1] stays_outputs [OF n1(2)] by blast
  from dispatch_ban_here [OF v n1(1) n2(1)] stays_trans [OF n1(2) n2(2)] stays_outputs [OF n1(2)] n2(3) show ?thesis by blast
qed

text \<open>A node without a socket of the user sends the event on and records the ban; nobody is told.\<close>

lemma sent_on_run:
  assumes new: "is_new n e (Some i)" "window_of xs (nd_handled n)" and i: "ne_id e = Text i" and del_w: "window_of ys (nd_delegated n)"
    and e: "ban_event e u B E d t" and away: "\<not> reached E (nd_sockets n) (ne_activity e) sids" and I: "I (nd_db n)"
    and K: "K (datetime_to_timestamp (nv_tz E) t) d"
  shows "\<exists>n' w. handle_server_activity E e n = (Inr (), n') \<and> nd_internal n' = nd_internal n @ [delegated_event e] \<and>
    nd_sockets n' = nd_sockets n \<and> nd_emits n' = nd_emits n \<and> nd_external n' = nd_external n \<and>
    I w \<and> ban_written E (ne_activity e) u d t w (nd_db n')"
proof -
  from e have v: "av_verb (ne_activity e) = Text ''ban''" and act: "global_ban_event (ne_activity e) u B"
    by (auto simp: ban_event_def)
  obtain W where W: "handle_server_activity E e n = (Inr (), snd (dispatch E e (n\<lparr>nd_handled := W\<rparr>)))"
    using handled_new [OF new] by blast
  let ?n = "n\<lparr>nd_handled := W\<rparr>"
  obtain n1 where n1: "user_is_on_this_node E (ne_activity e) ?n = (Inr False, n1)" "stays I ?n n1"
    using here_run [OF act, of ?n] away I by auto
  have del: "nd_delegated n1 = nd_delegated n" using n1(2) by (auto simp: stays_def only_db_def)
  then have "Some i \<notin> wi_set (nd_delegated n1)" "window_of ys (nd_delegated n1)" using new(1) del_w by (auto simp: is_new_def)
  then obtain D where D: "send_event_to_other_node e n1 =
      (Inr (), n1\<lparr>nd_delegated := D, nd_internal := nd_internal n1 @ [delegated_event e]\<rparr>)" (is "_ = (_, ?n2)")
    using send_event_run [OF i] by blast
  have "I (nd_db ?n2)" using stays_outputs [OF n1(2)] by simp
  then obtain n3 where n3: "create_ban_even_if_not_on_this_node E (ne_activity e) ?n2 = (Inr (with_end E t (ne_activity e)), n3)"
    "stays I ?n2 n3" "ban_written E (ne_activity e) u d t (nd_db ?n2) (nd_db n3)" using ban_recorded [OF e _ K, of ?n2] by blast
  have "dispatch E e ?n = (Inr (), n3)"
    unfolding dispatch_ban [OF v]
    by (simp add: bindM_def [of "user_is_on_this_node _ _"] n1(1) thenM_def whenM_def bindM_Inr [of "send_event_to_other_node e", OF D]
        bindM_Inr [of "create_ban_even_if_not_on_this_node E _", OF n3(1)]) (simp add: ret_def)
  with W n3(3) stays_outputs [OF n1(2)] stays_outputs [OF n3(2)] show ?thesis
    by (intro exI [of _ n3] exI [of _ "nd_db ?n2"]) (simp add: same_outputs_def)
qed

end

lemma ban_carried_out:
  assumes db: "ban_db E I u sids B K" and on_node: "ban_node E J u sids B K'"
    and bridge: "\<And>w w'. I w \<Longrightarrow> ban_written E (ne_activity e) u d t w w' \<Longrightarrow> J w'"
    and new: "is_new n e i" "window_of xs (nd_handled n)" and e: "ban_event e u B E d t"
    and here: "reached E (nd_sockets n) (ne_activity e) sids" and I: "I (nd_db n)" and K: "K (datetime_to_timestamp (nv_tz E) t) d"
  shows "\<exists>n' w. handle_server_activity E e n = (Inr (), n') \<and> sids_out E (set sids) n n' \<and> J w \<and>
    (nd_db n' = snd (nv_set_user_offline E (Some u) w) \<or> nd_db n' = snd (nv_remove_from_multicast E (Some u) w))"
proof -
  obtain W where W: "handle_server_activity E e n = (Inr (), snd (dispatch E e (n\<lparr>nd_handled := W\<rparr>)))"
    using handled_new [OF new] by blast
  let ?n = "n\<lparr>nd_handled := W\<rparr>"
  have "reached E (nd_sockets ?n) (ne_activity e) sids" "I (nd_db ?n)" using here I by simp_all
  then obtain n1 w1 where n1: "stays I ?n n1" "I w1" "ban_written E (ne_activity e) u d t w1 (nd_db n1)"
    "dispatch E e ?n = (Inr (), snd (handle_ban E (with_end E t (ne_activity e)) n1))"
    using ban_db.ban_before_handler [OF db e _ _ K, of ?n] by blast
  have act: "global_ban_event (ne_activity e) u B" using e by (simp add: ban_event_def)
  obtain n2 w where n2: "handle_ban E (with_end E t (ne_activity e)) n1 = (Inr (), n2)" "sids_out E (set sids) n1 n2" "J w"
    "nd_db n2 = snd (nv_set_user_offline E (Some u) w) \<or> nd_db n2 = snd (nv_remove_from_multicast E (Some u) w)"
    using ban_node.handle_ban_global [OF on_node with_end_event [OF act] with_end_updated [OF act], of n1 E t] bridge [OF n1(2,3)] by blast
  have "nd_sockets n1 = nd_sockets n" using stays_outputs [OF n1(1)] by simp
  with n2(2) have "sids_out E (set sids) n n2" by (simp add: sids_out_def)
  with W n1(4) n2 show ?thesis by auto
qed
context ban_blocked begin

lemma global_ban_stopped:
  assumes new: "is_new n e i" "window_of xs (nd_handled n)" and e: "ban_event e u B E d t"
    and here: "reached E (nd_sockets n) (ne_activity e) sids" and I: "I (nd_db n)"
    and K: "K (datetime_to_timestamp (nv_tz E) t) d"
  shows "\<exists>n' m. handle_server_activity E e n = (Inr (), n') \<and> nd_sockets n' = nd_sockets n \<and> nd_external n' = nd_external n \<and>
    nd_emits n' = nd_emits n @ [m] \<and> em_room m = Some u"
proof -
  obtain W where W: "handle_server_activity E e n = (Inr (), snd (dispatch E e (n\<lparr>nd_handled := W\<rparr>)))"
    using handled_new [OF new] by blast
  obtain n1 where n1: "stays I (n\<lparr>nd_handled := W\<rparr>) n1"
    "dispatch E e (n\<lparr>nd_handled := W\<rparr>) = (Inr (), snd (handle_ban E (with_end E t (ne_activity e)) n1))"
    using ban_before_handler [OF e, of "n\<lparr>nd_handled := W\<rparr>"] here I K by auto
  have act: "global_ban_event (ne_activity e) u B" using e by (simp add: ban_event_def)
  obtain n2 m where "handle_ban E (with_end E t (ne_activity e)) n1 = (Inl TypeError, n2)" "nd_sockets n2 = nd_sockets n1"
    "nd_external n2 = nd_external n1" "nd_emits n2 = nd_emits n1 @ [m]" "em_room m = Some u"
    using handle_ban_stopped [OF with_end_event [OF act] with_end_updated [OF act], of n1 _ t] stays_outputs [OF n1(1)] by blast
  with W n1(2) stays_outputs [OF n1(1)] show ?thesis by (intro exI [of _ n2] exI [of _ m]) (simp add: same_outputs_def)
qed

end

end
