(* ===== verification/Cassandra_Client.thy ===== *)
theory Cassandra_Client
  imports Prelude "HOL-Library.AList"
begin

section \<open>The tables of messages and acknowledgements\<close>

text \<open>
  The statements that \<^verbatim>\<open>dino/storage/cassandra_driver.py\<close> prepares for the database Cassandra, as the
  fields of a record, and what the documentation of the query language promises of them. The laws are
  about two mappings: from the primary key of a message (target, sender, time sent, time stamp) to
  its row, and from a user and a message to the acknowledgement. \<open>INSERT\<close> and \<open>UPDATE\<close> both write the
  row of the key whether there is one or not. Keys must not be null, the first part not empty, and
  an \<open>int\<close> has 32 bits. The materialized views are taken to be up to date, and a result to
  fit in one page. At the end there are tables in memory that obey the laws.
\<close>

subsection \<open>Rows\<close>

record msg_row =
  mr_message_id :: "string option"
  mr_from_user_id :: string
  mr_from_user_name :: "string option"
  mr_target_id :: string
  mr_target_name :: "string option"
  mr_body :: "string option"
  mr_domain :: "string option"
  mr_sent_time :: string
  mr_time_stamp :: int
  mr_channel_id :: "string option"
  mr_channel_name :: "string option"
  mr_deleted :: "bool option"

record ack =
  ak_status :: int
  ak_target_id :: "string option"

record ack_row =
  ar_for_user_id :: string
  ar_message_id :: string
  ar_ack :: ack

type_synonym msg_key = "string \<times> string \<times> string \<times> int"

definition row_key :: "msg_row \<Rightarrow> msg_key" where
  "row_key r = (mr_target_id r, mr_from_user_id r, mr_sent_time r, mr_time_stamp r)"

definition fits_int :: "int \<Rightarrow> bool" where
  "fits_int x \<longleftrightarrow> - (2 ^ 31) \<le> x \<and> x < 2 ^ 31"

definition storable_key :: "msg_key \<Rightarrow> bool" where
  "storable_key k = (case k of (target, from_user, sent, stamp) \<Rightarrow> target \<noteq> [] \<and> from_user \<noteq> [] \<and> fits_int stamp)"

text \<open>The row that an update makes when there is none.\<close>

definition bare_row :: "msg_key \<Rightarrow> msg_row" where
  "bare_row k = (case k of (target, from_user, sent, stamp) \<Rightarrow>
     \<lparr>mr_message_id = None, mr_from_user_id = from_user, mr_from_user_name = None, mr_target_id = target,
      mr_target_name = None, mr_body = None, mr_domain = None, mr_sent_time = sent, mr_time_stamp = stamp,
      mr_channel_id = None, mr_channel_name = None, mr_deleted = None\<rparr>)"

definition row_at :: "(msg_key \<Rightarrow> msg_row option) \<Rightarrow> msg_key \<Rightarrow> msg_row" where
  "row_at m k = (case m k of None \<Rightarrow> bare_row k | Some r \<Rightarrow> r)"

subsection \<open>The prepared statements\<close>

record 's cql =
  cq_msg_insert :: "msg_row \<Rightarrow> ('s, unit) op"
  cq_msg_update :: "string option \<Rightarrow> bool \<Rightarrow> msg_key \<Rightarrow> ('s, unit) op"
  cq_acks_update :: "int \<Rightarrow> string \<Rightarrow> string list \<Rightarrow> ('s, unit) op"
  cq_acks_insert :: "string \<Rightarrow> string \<Rightarrow> int \<Rightarrow> string option \<Rightarrow> ('s, unit) op"
  cq_acks_get :: "'s \<Rightarrow> string \<Rightarrow> string list \<Rightarrow> ack_row list"
  cq_acks_get_for_status :: "'s \<Rightarrow> string \<Rightarrow> int \<Rightarrow> ack_row list"
  cq_msg_select_all :: "'s \<Rightarrow> string \<Rightarrow> msg_row list"
  cq_msg_select :: "'s \<Rightarrow> string \<Rightarrow> (string \<times> string \<times> string) list"
  cq_msgs_select_all_in :: "'s \<Rightarrow> string list \<Rightarrow> msg_row list"
  cq_msg_select_one :: "'s \<Rightarrow> string \<Rightarrow> string \<Rightarrow> string \<Rightarrow> msg_row list"
  cq_msgs_select :: "string \<Rightarrow> int \<Rightarrow> ('s, msg_row list) op"
  cq_msgs_select_by_time_stamp :: "string \<Rightarrow> int \<Rightarrow> ('s, msg_row list) op"
  cq_msgs_select_latest_non_deleted :: "string \<Rightarrow> int \<Rightarrow> ('s, msg_row list) op"
  cq_msgs_select_pagination :: "string \<Rightarrow> int \<Rightarrow> int \<Rightarrow> ('s, msg_row list) op"
  cq_msgs_select_time_slice :: "string \<Rightarrow> int \<Rightarrow> int \<Rightarrow> ('s, msg_row list) op"
  cq_msgs_select_from_user :: "string \<Rightarrow> int \<Rightarrow> ('s, msg_row list) op"
  cq_msgs_select_from_user_to_target_time_slice :: "string \<Rightarrow> string \<Rightarrow> int \<Rightarrow> int \<Rightarrow> int \<Rightarrow> ('s, msg_row list) op"
  cq_ids_from_user_not_deleted :: "'s \<Rightarrow> string \<Rightarrow> string list"
  cq_ids_from_user_all :: "'s \<Rightarrow> string \<Rightarrow> string list"
  cq_from_user_not_deleted_for_time :: "string \<Rightarrow> int \<Rightarrow> int \<Rightarrow> ('s, msg_row list) op"
  cq_ids_from_user_and_room_not_deleted :: "'s \<Rightarrow> string \<Rightarrow> string \<Rightarrow> string list"

subsection \<open>What the database promises\<close>

definition rows_where :: "(msg_key \<Rightarrow> msg_row option) \<Rightarrow> (msg_row \<Rightarrow> bool) \<Rightarrow> msg_row set" where
  "rows_where m P = {r \<in> ran m. P r}"

text \<open>The first \<open>n\<close> of the rows, the newest first, as the views by time are ordered.\<close>

definition newest_first :: "(msg_key \<Rightarrow> msg_row option) \<Rightarrow> (msg_row \<Rightarrow> bool) \<Rightarrow> msg_row list \<Rightarrow> bool" where
  "newest_first m P rows \<longleftrightarrow> set rows = rows_where m P \<and> distinct rows \<and>
     sorted_wrt (\<lambda>a b. mr_time_stamp b \<le> mr_time_stamp a) rows"

text \<open>Rows that have an id, and those that the views by time and by sender have.\<close>

definition in_view :: "msg_row \<Rightarrow> bool" where
  "in_view r \<longleftrightarrow> mr_message_id r \<noteq> None \<and> mr_body r \<noteq> None"

definition undeleted_from :: "string \<Rightarrow> msg_row \<Rightarrow> bool" where
  "undeleted_from user r \<longleftrightarrow> in_view r \<and> mr_from_user_id r = user \<and> mr_deleted r = Some False \<and> mr_domain r = Some ''room''"

locale cassandra =
  fixes C :: "'s cql" and M :: "'s \<Rightarrow> msg_key \<Rightarrow> msg_row option" and A :: "'s \<Rightarrow> string \<Rightarrow> string \<Rightarrow> ack option"
  assumes keyed: "M s k = Some r \<Longrightarrow> row_key r = k"
    and msg_insert: "storable_key (row_key r) \<Longrightarrow> mr_message_id r \<noteq> Some [] \<Longrightarrow>
      \<exists>s'. cq_msg_insert C r s = (Inr (), s') \<and> M s' = (M s)(row_key r \<mapsto> r) \<and> A s' = A s"
    and msg_update: "storable_key k \<Longrightarrow> \<exists>s'. cq_msg_update C bd d k s = (Inr (), s') \<and>
      M s' = (M s)(k \<mapsto> (row_at (M s) k)\<lparr>mr_body := bd, mr_deleted := Some d\<rparr>) \<and> A s' = A s"
    and acks_insert: "u \<noteq> [] \<Longrightarrow> fits_int st \<Longrightarrow> \<exists>s'. cq_acks_insert C u i st tg s = (Inr (), s') \<and>
      A s' = (A s)(u := (A s u)(i \<mapsto> \<lparr>ak_status = st, ak_target_id = tg\<rparr>)) \<and> M s' = M s"
    and acks_update: "u \<noteq> [] \<Longrightarrow> fits_int st \<Longrightarrow> \<exists>s'. cq_acks_update C st u is s = (Inr (), s') \<and>
      A s' = (A s)(u := (\<lambda>i. if i \<in> set is then Some \<lparr>ak_status = st, ak_target_id = Option.bind (A s u i) ak_target_id\<rparr>
        else A s u i)) \<and> M s' = M s"
    and acks_get: "distinct (map ar_message_id (cq_acks_get C s u is))" "ar \<in> set (cq_acks_get C s u is) \<longleftrightarrow>
        ar_for_user_id ar = u \<and> ar_message_id ar \<in> set is \<and> A s u (ar_message_id ar) = Some (ar_ack ar)"
    and acks_get_for_status: "ar \<in> set (cq_acks_get_for_status C s u st) \<longleftrightarrow> ar_for_user_id ar = u \<and>
        A s u (ar_message_id ar) = Some (ar_ack ar) \<and> ak_status (ar_ack ar) = st \<and> ak_target_id (ar_ack ar) \<noteq> None"
    and msg_select_all: "set (cq_msg_select_all C s i) = rows_where (M s) (\<lambda>r. mr_message_id r = Some i)"
    and msg_select: "set (cq_msg_select C s i) =
        (\<lambda>r. (mr_target_id r, mr_from_user_id r, mr_sent_time r)) ` rows_where (M s) (\<lambda>r. mr_message_id r = Some i)"
    and msgs_select_all_in: "set (cq_msgs_select_all_in C s is) = rows_where (M s) (\<lambda>r. mr_message_id r \<in> Some ` set is)"
    and msg_select_one: "set (cq_msg_select_one C s t f n) =
        rows_where (M s) (\<lambda>r. mr_target_id r = t \<and> mr_from_user_id r = f \<and> mr_sent_time r = n)"
    and msgs_select: "t \<noteq> [] \<Longrightarrow> 0 < l \<Longrightarrow> fits_int l \<Longrightarrow> \<exists>rows. cq_msgs_select C t l s = (Inr (take (nat l) rows), s) \<and>
        set rows = rows_where (M s) (\<lambda>r. mr_target_id r = t) \<and> distinct rows"
    and select_by_time_stamp: "t \<noteq> [] \<Longrightarrow> fits_int a \<Longrightarrow> \<exists>rows. cq_msgs_select_by_time_stamp C t a s = (Inr rows, s) \<and>
        newest_first (M s) (\<lambda>r. in_view r \<and> mr_target_id r = t \<and> a < mr_time_stamp r) rows"
    and latest_non_deleted: "t \<noteq> [] \<Longrightarrow> 0 < l \<Longrightarrow> fits_int l \<Longrightarrow>
      \<exists>rows. cq_msgs_select_latest_non_deleted C t l s = (Inr (take (nat l) rows), s) \<and>
        newest_first (M s) (\<lambda>r. in_view r \<and> mr_target_id r = t \<and> mr_deleted r = Some False) rows"
    and pagination: "t \<noteq> [] \<Longrightarrow> 0 < l \<Longrightarrow> fits_int l \<Longrightarrow> fits_int b \<Longrightarrow>
      \<exists>rows. cq_msgs_select_pagination C t b l s = (Inr (take (nat l) rows), s) \<and>
        newest_first (M s) (\<lambda>r. in_view r \<and> mr_target_id r = t \<and> mr_deleted r = Some False \<and> mr_time_stamp r < b) rows"
    and time_slice: "t \<noteq> [] \<Longrightarrow> fits_int a \<Longrightarrow> fits_int b \<Longrightarrow> \<exists>rows. cq_msgs_select_time_slice C t a b s = (Inr rows, s) \<and>
        newest_first (M s) (\<lambda>r. in_view r \<and> mr_target_id r = t \<and> a < mr_time_stamp r \<and> mr_time_stamp r < b) rows"
    and from_user: "f \<noteq> [] \<Longrightarrow> 0 < l \<Longrightarrow> fits_int l \<Longrightarrow> \<exists>rows. cq_msgs_select_from_user C f l s = (Inr (take (nat l) rows), s) \<and>
        set rows = rows_where (M s) (\<lambda>r. in_view r \<and> mr_from_user_id r = f) \<and> distinct rows"
    and from_user_to_target: "f \<noteq> [] \<Longrightarrow> 0 < l \<Longrightarrow> fits_int l \<Longrightarrow> fits_int a \<Longrightarrow> fits_int b \<Longrightarrow>
      \<exists>rows. cq_msgs_select_from_user_to_target_time_slice C f t a b l s = (Inr (take (nat l) rows), s) \<and>
        set rows = rows_where (M s) (\<lambda>r. in_view r \<and> mr_from_user_id r = f \<and> mr_target_id r = t \<and>
          a < mr_time_stamp r \<and> mr_time_stamp r < b) \<and> distinct rows"
    and ids_not_deleted: "Some ` set (cq_ids_from_user_not_deleted C s f) = mr_message_id ` rows_where (M s) (undeleted_from f)"
    and ids_all: "Some ` set (cq_ids_from_user_all C s f) =
        mr_message_id ` rows_where (M s) (\<lambda>r. in_view r \<and> mr_from_user_id r = f \<and> mr_domain r = Some ''room'')"
    and for_time: "f \<noteq> [] \<Longrightarrow> fits_int a \<Longrightarrow> fits_int b \<Longrightarrow>
      \<exists>rows. cq_from_user_not_deleted_for_time C f a b s = (Inr rows, s) \<and>
        set rows = rows_where (M s) (\<lambda>r. undeleted_from f r \<and> a < mr_time_stamp r \<and> mr_time_stamp r < b) \<and> distinct rows"
    and ids_room: "Some ` set (cq_ids_from_user_and_room_not_deleted C s f t) =
        mr_message_id ` rows_where (M s) (\<lambda>r. undeleted_from f r \<and> mr_target_id r = t)"

subsection \<open>Tables in memory\<close>

record tables =
  tb_messages :: "(msg_key \<times> msg_row) list"
  tb_acks :: "((string \<times> string) \<times> ack) list"

definition with_key :: "msg_key \<Rightarrow> msg_row \<Rightarrow> msg_row" where
  "with_key k r = (case k of (t, f, n, x) \<Rightarrow>
     r\<lparr>mr_target_id := t, mr_from_user_id := f, mr_sent_time := n, mr_time_stamp := x\<rparr>)"

definition table_rows :: "tables \<Rightarrow> msg_row list" where
  "table_rows s = map (\<lambda>(k, r). with_key k r) (AList.clearjunk (tb_messages s))"

definition table_messages :: "tables \<Rightarrow> msg_key \<Rightarrow> msg_row option" where
  "table_messages s k = map_option (with_key k) (map_of (tb_messages s) k)"

definition table_acks :: "tables \<Rightarrow> string \<Rightarrow> string \<Rightarrow> ack option" where
  "table_acks s u i = map_of (tb_acks s) (u, i)"

definition put_row :: "msg_key \<Rightarrow> msg_row \<Rightarrow> (tables, unit) op" where
  "put_row k r = modify (\<lambda>s. s\<lparr>tb_messages := (k, r) # tb_messages s\<rparr>)"

definition selected :: "(msg_row \<Rightarrow> bool) \<Rightarrow> tables \<Rightarrow> msg_row list" where
  "selected P s = filter P (table_rows s)"

definition by_time :: "(msg_row \<Rightarrow> bool) \<Rightarrow> tables \<Rightarrow> msg_row list" where
  "by_time P s = sort_key (\<lambda>r. - mr_time_stamp r) (selected P s)"

definition ack_rows :: "string \<Rightarrow> tables \<Rightarrow> ack_row list" where
  "ack_rows u s = map (\<lambda>((_, i), a). \<lparr>ar_for_user_id = u, ar_message_id = i, ar_ack = a\<rparr>)
     (filter (\<lambda>((v, _), _). v = u) (AList.clearjunk (tb_acks s)))"

definition memory_cql :: "tables cql" where
  "memory_cql = \<lparr>
     cq_msg_insert = (\<lambda>r. put_row (row_key r) r),
     cq_msg_update = (\<lambda>b d k. bindM (gets (\<lambda>s. row_at (table_messages s) k)) (\<lambda>r.
       put_row k (r\<lparr>mr_body := b, mr_deleted := Some d\<rparr>))),
     cq_acks_update = (\<lambda>st u is. iterM (\<lambda>i. modify (\<lambda>s. s\<lparr>tb_acks :=
       ((u, i), \<lparr>ak_status = st, ak_target_id = Option.bind (table_acks s u i) ak_target_id\<rparr>) # tb_acks s\<rparr>)) is),
     cq_acks_insert = (\<lambda>u i st t. modify (\<lambda>s. s\<lparr>tb_acks := ((u, i), \<lparr>ak_status = st, ak_target_id = t\<rparr>) # tb_acks s\<rparr>)),
     cq_acks_get = (\<lambda>s u is. filter (\<lambda>a. ar_message_id a \<in> set is) (ack_rows u s)),
     cq_acks_get_for_status = (\<lambda>s u st. filter (\<lambda>a. ak_status (ar_ack a) = st \<and> ak_target_id (ar_ack a) \<noteq> None) (ack_rows u s)),
     cq_msg_select_all = (\<lambda>s i. selected (\<lambda>r. mr_message_id r = Some i) s),
     cq_msg_select = (\<lambda>s i. map (\<lambda>r. (mr_target_id r, mr_from_user_id r, mr_sent_time r))
       (selected (\<lambda>r. mr_message_id r = Some i) s)),
     cq_msgs_select_all_in = (\<lambda>s is. selected (\<lambda>r. mr_message_id r \<in> Some ` set is) s),
     cq_msg_select_one = (\<lambda>s t f n. selected (\<lambda>r. mr_target_id r = t \<and> mr_from_user_id r = f \<and> mr_sent_time r = n) s),
     cq_msgs_select = (\<lambda>t l. gets (\<lambda>s. take (nat l) (selected (\<lambda>r. mr_target_id r = t) s))),
     cq_msgs_select_by_time_stamp = (\<lambda>t a. gets (by_time (\<lambda>r. in_view r \<and> mr_target_id r = t \<and> a < mr_time_stamp r))),
     cq_msgs_select_latest_non_deleted = (\<lambda>t l. gets (\<lambda>s. take (nat l)
       (by_time (\<lambda>r. in_view r \<and> mr_target_id r = t \<and> mr_deleted r = Some False) s))),
     cq_msgs_select_pagination = (\<lambda>t b l. gets (\<lambda>s. take (nat l)
       (by_time (\<lambda>r. in_view r \<and> mr_target_id r = t \<and> mr_deleted r = Some False \<and> mr_time_stamp r < b) s))),
     cq_msgs_select_time_slice = (\<lambda>t a b.
       gets (by_time (\<lambda>r. in_view r \<and> mr_target_id r = t \<and> a < mr_time_stamp r \<and> mr_time_stamp r < b))),
     cq_msgs_select_from_user = (\<lambda>f l. gets (\<lambda>s. take (nat l) (selected (\<lambda>r. in_view r \<and> mr_from_user_id r = f) s))),
     cq_msgs_select_from_user_to_target_time_slice = (\<lambda>f t a b l. gets (\<lambda>s. take (nat l) (selected (\<lambda>r. in_view r \<and>
       mr_from_user_id r = f \<and> mr_target_id r = t \<and> a < mr_time_stamp r \<and> mr_time_stamp r < b) s))),
     cq_ids_from_user_not_deleted = (\<lambda>s f. map (the \<circ> mr_message_id) (selected (undeleted_from f) s)),
     cq_ids_from_user_all = (\<lambda>s f. map (the \<circ> mr_message_id)
       (selected (\<lambda>r. in_view r \<and> mr_from_user_id r = f \<and> mr_domain r = Some ''room'') s)),
     cq_from_user_not_deleted_for_time = (\<lambda>f a b.
       gets (selected (\<lambda>r. undeleted_from f r \<and> a < mr_time_stamp r \<and> mr_time_stamp r < b))),
     cq_ids_from_user_and_room_not_deleted = (\<lambda>s f t. map (the \<circ> mr_message_id)
       (selected (\<lambda>r. undeleted_from f r \<and> mr_target_id r = t) s))\<rparr>"

lemma row_key_with_key [simp]: "row_key (with_key k r) = k"
  by (cases k) (simp add: row_key_def with_key_def)

lemma with_row_key: "row_key r = k \<Longrightarrow> with_key k r = r"
  by (auto simp: row_key_def with_key_def)

lemma row_key_row_at: "(\<And>r. m k = Some r \<Longrightarrow> row_key r = k) \<Longrightarrow> row_key (row_at m k) = k"
  by (cases k) (auto simp: row_at_def bare_row_def row_key_def split: option.split)

lemma row_key_update [simp]: "row_key (r\<lparr>mr_body := b, mr_deleted := d\<rparr>) = row_key r"
  by (simp add: row_key_def)

lemma in_clearjunk: "(k, x) \<in> set (AList.clearjunk l) \<longleftrightarrow> map_of l k = Some x"
  by (metis distinct_clearjunk map_of_clearjunk map_of_eq_Some_iff)

lemma set_table_rows: "set (table_rows s) = ran (table_messages s)"
  by (fastforce simp: ran_def table_messages_def table_rows_def in_clearjunk image_iff Bex_def split_paired_all)

lemma distinct_table_rows: "distinct (table_rows s)"
proof -
  have "map row_key (table_rows s) = map fst (AList.clearjunk (tb_messages s))"
    by (simp add: table_rows_def case_prod_beta)
  then have "distinct (map row_key (table_rows s))" by (simp add: distinct_clearjunk)
  then show ?thesis by (simp add: distinct_map)
qed

lemma set_selected [simp]: "set (selected P s) = rows_where (table_messages s) P"
  by (auto simp: selected_def rows_where_def set_table_rows)

lemma distinct_selected [simp]: "distinct (selected P s)"
  by (simp add: selected_def distinct_table_rows)

lemma by_time_newest: "newest_first (table_messages s) P (by_time P s)"
proof -
  have "sorted (map (\<lambda>r. - mr_time_stamp r) (by_time P s))" by (simp add: by_time_def)
  then have "sorted_wrt (\<lambda>a b. mr_time_stamp b \<le> mr_time_stamp a) (by_time P s)"
    by (simp add: sorted_map)
  then show ?thesis by (simp add: newest_first_def by_time_def)
qed

lemma put_row_messages:
  "row_key r = k \<Longrightarrow> put_row k r s = (Inr (), s\<lparr>tb_messages := (k, r) # tb_messages s\<rparr>)"
  "row_key r = k \<Longrightarrow> table_messages (s\<lparr>tb_messages := (k, r) # tb_messages s\<rparr>) = (table_messages s)(k \<mapsto> r)"
  by (auto simp: put_row_def op_simps table_messages_def with_row_key)

lemma set_ack_rows: "ar \<in> set (ack_rows u s) \<longleftrightarrow>
    ar_for_user_id ar = u \<and> table_acks s u (ar_message_id ar) = Some (ar_ack ar)"
  by (cases ar) (auto simp: ack_rows_def table_acks_def in_clearjunk image_iff Bex_def)

lemma distinct_ack_rows: "distinct (map ar_message_id (ack_rows u s))"
proof -
  let ?l = "filter (\<lambda>((v, _), _). v = u) (AList.clearjunk (tb_acks s))"
  have "distinct (map fst ?l)" by (rule distinct_map_filter) (rule distinct_clearjunk)
  moreover have "inj_on snd (set (map fst ?l))" by (auto simp: inj_on_def)
  ultimately have "distinct (map snd (map fst ?l))" by (simp only: distinct_map [of snd])
  also have "map snd (map fst ?l) = map ar_message_id (ack_rows u s)" by (simp add: ack_rows_def case_prod_beta)
  finally show ?thesis .
qed

lemma memory_acks_update:
  "\<exists>s'. cq_acks_update memory_cql st u is s = (Inr (), s') \<and>
    table_acks s' = (table_acks s)(u := (\<lambda>i. if i \<in> set is
      then Some \<lparr>ak_status = st, ak_target_id = Option.bind (table_acks s u i) ak_target_id\<rparr> else table_acks s u i)) \<and>
    table_messages s' = table_messages s"
proof (induction "is" arbitrary: s)
  case Nil
  then show ?case by (simp add: memory_cql_def op_simps)
next
  case (Cons i "is")
  let ?s = "s\<lparr>tb_acks := ((u, i), \<lparr>ak_status = st, ak_target_id = Option.bind (table_acks s u i) ak_target_id\<rparr>) # tb_acks s\<rparr>"
  have acks: "table_acks ?s = (table_acks s)(u := (table_acks s u)(i \<mapsto>
      \<lparr>ak_status = st, ak_target_id = Option.bind (table_acks s u i) ak_target_id\<rparr>))"
    by (auto simp: table_acks_def fun_eq_iff)
  have msgs: "table_messages ?s = table_messages s" by (simp add: table_messages_def fun_eq_iff)
  show ?case using Cons.IH [of ?s] by (auto simp: memory_cql_def op_simps acks msgs fun_eq_iff)
qed

interpretation memory_tables: cassandra memory_cql table_messages table_acks
proof unfold_locales
  fix s k r assume "table_messages s k = Some r"
  then show "row_key r = k" by (auto simp: table_messages_def)
next
  fix k b d s
  have "row_key (row_at (table_messages s) k) = k" by (rule row_key_row_at) (auto simp: table_messages_def)
  then show "\<exists>s'. cq_msg_update memory_cql b d k s = (Inr (), s') \<and>
      table_messages s' = (table_messages s)(k \<mapsto> (row_at (table_messages s) k)\<lparr>mr_body := b, mr_deleted := Some d\<rparr>) \<and>
      table_acks s' = table_acks s"
    by (auto simp: memory_cql_def op_simps put_row_messages table_acks_def fun_eq_iff)
next
  show "distinct (map ar_message_id (cq_acks_get memory_cql s u is))" for s u "is"
    by (simp add: memory_cql_def distinct_map_filter [OF distinct_ack_rows])
next
  fix C s f t
  show "Some ` set (cq_ids_from_user_and_room_not_deleted memory_cql s f t) =
      mr_message_id ` rows_where (table_messages s) (\<lambda>r. undeleted_from f r \<and> mr_target_id r = t)"
    "Some ` set (cq_ids_from_user_all memory_cql s f) =
      mr_message_id ` rows_where (table_messages s) (\<lambda>r. in_view r \<and> mr_from_user_id r = f \<and> mr_domain r = Some ''room'')"
    "Some ` set (cq_ids_from_user_not_deleted memory_cql s f) = mr_message_id ` rows_where (table_messages s) (undeleted_from f)"
    by (auto simp: memory_cql_def image_image in_view_def undeleted_from_def rows_where_def intro!: image_cong)
next
  fix r s assume "storable_key (row_key r)"
  show "\<exists>s'. cq_msg_insert memory_cql r s = (Inr (), s') \<and> table_messages s' = (table_messages s)(row_key r \<mapsto> r) \<and>
      table_acks s' = table_acks s"
    by (auto simp: memory_cql_def put_row_messages table_acks_def fun_eq_iff)
next
  show "\<exists>s'. cq_acks_update memory_cql st u is s = (Inr (), s') \<and>
    table_acks s' = (table_acks s)(u := (\<lambda>i. if i \<in> set is
      then Some \<lparr>ak_status = st, ak_target_id = Option.bind (table_acks s u i) ak_target_id\<rparr> else table_acks s u i)) \<and>
    table_messages s' = table_messages s" for st u "is" s by (rule memory_acks_update)
qed (auto simp: memory_cql_def op_simps table_acks_def table_messages_def fun_eq_iff set_ack_rows
    rows_where_def intro!: exI by_time_newest)

end
