(* ===== verification/Storage_Cassandra.thy ===== *)
theory Storage_Cassandra
  imports Cassandra_Client Config_Keys Activity Base64 Db_Bans
begin

section \<open>Messages on Cassandra\<close>

text \<open>
  The driver in \<^verbatim>\<open>dino/storage/cassandra_driver.py\<close> and the message storage \<open>CassandraStorage\<close> of
  \<^verbatim>\<open>dino/storage/cassandra.py\<close>. The state is that of the database, behind the prepared statements. A set
  of message ids is the list of its elements in the order of the iteration. Creating the keyspace,
  the tables and the views is left out.
\<close>

record 's csenv =
  cs_cql :: "'s cql"
  cs_tz :: int

subsection \<open>Time stamps\<close>

text \<open>
  \<open>datetime.strptime\<close> with \<^verbatim>\<open>%Y-%m-%dT%H:%M:%SZ\<close>: four digits, then one or two digits with values in
  range (a day may have a space in front), the separators in either case. The result is in seconds;
  a date that does not exist, and a second over 59, is refused.
\<close>

definition date_field :: "int \<Rightarrow> int \<Rightarrow> string \<Rightarrow> int option" where
  "date_field lo hi s =
     (if isdigit s \<and> length s \<le> 2 \<and> lo \<le> int (digits_val 0 s) \<and> int (digits_val 0 s) \<le> hi
      then Some (int (digits_val 0 s)) else None)"

definition days_of_date :: "int \<Rightarrow> int \<Rightarrow> int \<Rightarrow> int" where
  "days_of_date y m d =
     (let y = (if m \<le> 2 then y - 1 else y); yoe = y mod 400;
          doy = (153 * (if m > 2 then m - 3 else m + 9) + 2) div 5 + d - 1
      in (y div 400) * 146097 + yoe * 365 + yoe div 4 - yoe div 100 + doy - 719468)"

definition day_field :: "string \<Rightarrow> int option" where
  "day_field s = (case s of c # ds \<Rightarrow> if c = CHR '' '' then (if length ds = 1 then date_field 1 9 ds else None) else date_field 1 31 s
     | [] \<Rightarrow> None)"

definition parse_date :: "string \<Rightarrow> string \<Rightarrow> string \<Rightarrow> int option" where
  "parse_date y m d = (if \<not> (isdigit y \<and> length y = 4) then None
     else case (date_field 1 12 m, day_field d) of
       (Some m, Some d) \<Rightarrow>
         (let y = int (digits_val 0 y); days = days_of_date y m d
          in if 1 \<le> y \<and> civil_date days = (y, m, d) then Some days else None)
     | _ \<Rightarrow> None)"

definition parse_time :: "string \<Rightarrow> string \<Rightarrow> string \<Rightarrow> int option" where
  "parse_time h m s = (case (date_field 0 23 h, date_field 0 59 m, date_field 0 59 s) of
     (Some h, Some m, Some s) \<Rightarrow> Some (h * 3600 + m * 60 + s) | _ \<Rightarrow> None)"

definition capital_marks :: "string \<Rightarrow> string" where
  "capital_marks = map (\<lambda>c. if c = CHR ''t'' then CHR ''T'' else if c = CHR ''z'' then CHR ''Z'' else c)"

definition strptime_default :: "string \<Rightarrow> int option" where
  "strptime_default text = (case split_on (CHR ''-'') (capital_marks text) of
     [y, m, rest] \<Rightarrow> (case split_on (CHR ''T'') rest of
       [d, time] \<Rightarrow> (case split_on (CHR '':'') time of
         [h, mi, s] \<Rightarrow> (if s = [] \<or> last s \<noteq> CHR ''Z'' then None
            else (case (parse_date y m d, parse_time h mi (butlast s)) of
                (Some days, Some secs) \<Rightarrow> Some (days * 86400 + secs) | _ \<Rightarrow> None))
       | _ \<Rightarrow> None)
     | _ \<Rightarrow> None)
   | _ \<Rightarrow> None)"

text \<open>
  \<open>int(dt.astimezone(pytz.utc).strftime('%s'))\<close>, which takes the fields of the date in UTC for local
  time: it is off by the offset of the time zone.
\<close>

definition cd_time_stamp :: "'s csenv \<Rightarrow> string option \<Rightarrow> exc + int" where
  "cd_time_stamp E sent_time = (case sent_time of
     None \<Rightarrow> Inl TypeError
   | Some text \<Rightarrow> (case strptime_default text of None \<Rightarrow> Inl ValueError | Some secs \<Rightarrow> Inr (secs - cs_tz E)))"

subsection \<open>The driver\<close>

text \<open>A null in a key is refused.\<close>

definition key_value :: "string option \<Rightarrow> ('w, string) op" where
  "key_value v = (case v of None \<Rightarrow> throw CassandraError | Some s \<Rightarrow> ret s)"

definition cd_msg_insert :: "'s csenv \<Rightarrow> string option \<Rightarrow> string option \<Rightarrow> string option \<Rightarrow> string option \<Rightarrow>
    string option \<Rightarrow> string option \<Rightarrow> string option \<Rightarrow> string option \<Rightarrow> string option \<Rightarrow> string option \<Rightarrow> bool \<Rightarrow>
    ('s, unit) op" where
  "cd_msg_insert E msg_id from_user_id from_user_name target_id target_name body domain sent_time channel_id channel_name deleted =
     bindM (lift_result (cd_time_stamp E sent_time)) (\<lambda>time_stamp.
     bindM (key_value from_user_id) (\<lambda>from_user.
     bindM (key_value target_id) (\<lambda>target.
     cq_msg_insert (cs_cql E)
       \<lparr>mr_message_id = msg_id, mr_from_user_id = from_user, mr_from_user_name = from_user_name, mr_target_id = target,
        mr_target_name = target_name, mr_body = body, mr_domain = domain, mr_sent_time = the sent_time,
        mr_time_stamp = time_stamp, mr_channel_id = channel_id, mr_channel_name = channel_name, mr_deleted = Some deleted\<rparr>)))"

definition cd_msg_update :: "'s csenv \<Rightarrow> string \<Rightarrow> string \<Rightarrow> string option \<Rightarrow> string \<Rightarrow> bool \<Rightarrow> ('s, unit) op" where
  "cd_msg_update E from_user_id target_id body sent_time deleted =
     bindM (lift_result (cd_time_stamp E (Some sent_time))) (\<lambda>time_stamp.
     cq_msg_update (cs_cql E) body deleted (target_id, from_user_id, sent_time, time_stamp))"

definition cd_add_acks_with_status ::
  "'s csenv \<Rightarrow> string list \<Rightarrow> string \<Rightarrow> string option \<Rightarrow> int \<Rightarrow> ('s, unit) op" where
  "cd_add_acks_with_status E message_ids receiver_id target_id status =
     iterM (\<lambda>message_id. cq_acks_insert (cs_cql E) receiver_id message_id status target_id) message_ids"

definition cd_clear :: "bool \<Rightarrow> msg_row \<Rightarrow> string option" where
  "cd_clear clear_body message_row = (if clear_body then Some [] else mr_body message_row)"

definition cd_msg_delete_at :: "'s csenv \<Rightarrow> bool \<Rightarrow> bool \<Rightarrow> string \<times> string \<times> string \<Rightarrow> ('s, unit) op" where
  "cd_msg_delete_at E deleted clear_body = (\<lambda>(target_id, from_user_id, timestamp).
     bindM (gets (\<lambda>s. cq_msg_select_one (cs_cql E) s target_id from_user_id timestamp)) (\<lambda>message_rows.
     iterM (\<lambda>message_row. cd_msg_update E from_user_id target_id (cd_clear clear_body message_row) timestamp deleted)
       message_rows))"

definition cd_msg_delete_as :: "'s csenv \<Rightarrow> string \<Rightarrow> bool \<Rightarrow> bool \<Rightarrow> ('s, unit) op" where
  "cd_msg_delete_as E message_id deleted clear_body =
     bindM (gets (\<lambda>s. cq_msg_select (cs_cql E) s message_id)) (\<lambda>keys. iterM (cd_msg_delete_at E deleted clear_body) keys)"

definition cd_msg_undelete :: "'s csenv \<Rightarrow> string \<Rightarrow> ('s, unit) op" where
  "cd_msg_undelete E message_id = cd_msg_delete_as E message_id False True"

definition cd_msg_delete :: "'s csenv \<Rightarrow> string \<Rightarrow> bool \<Rightarrow> ('s, unit) op" where
  "cd_msg_delete E message_id clear_body = cd_msg_delete_as E message_id True clear_body"

text \<open>What \<open>msgs_delete\<close> collects before it updates anything.\<close>

definition cd_updates_at :: "'s csenv \<Rightarrow> bool \<Rightarrow> 's \<Rightarrow> string \<times> string \<times> string \<Rightarrow> (string \<times> string \<times> string option \<times> string) list" where
  "cd_updates_at E clear_body s = (\<lambda>(target_id, from_user_id, sent_time).
     map (\<lambda>message_row. (from_user_id, target_id, cd_clear clear_body message_row, sent_time))
       (cq_msg_select_one (cs_cql E) s target_id from_user_id sent_time))"

definition cd_to_update :: "'s csenv \<Rightarrow> bool \<Rightarrow> 's \<Rightarrow> string list \<Rightarrow> (string \<times> string \<times> string option \<times> string) list" where
  "cd_to_update E clear_body s message_ids =
     concat (map (\<lambda>message_id. concat (map (cd_updates_at E clear_body s) (cq_msg_select (cs_cql E) s message_id))) message_ids)"

definition cd_msgs_delete :: "'s csenv \<Rightarrow> string list \<Rightarrow> bool \<Rightarrow> ('s, unit) op" where
  "cd_msgs_delete E message_ids clear_body =
     bindM (gets (\<lambda>s. cd_to_update E clear_body s message_ids))
       (iterM (\<lambda>(from_user_id, target_id, body, sent_time).
          bindM (lift_result (cd_time_stamp E (Some sent_time))) (\<lambda>time_stamp.
          cq_msg_update (cs_cql E) body True (target_id, from_user_id, sent_time, time_stamp))))"

subsection \<open>The storage: messages\<close>

definition cs_store_message :: "'s csenv \<Rightarrow> activity \<Rightarrow> bool \<Rightarrow> ('s, unit) op" where
  "cs_store_message E act deleted =
     bindM (read_attr (av_object act) en_content) (\<lambda>content.
     bindM (read_attr (av_actor act) en_display_name) (\<lambda>display_name.
     bindM (lift_result (attr_value (av_id act))) (\<lambda>msg_id.
     bindM (read_attr (av_actor act) en_id) (\<lambda>from_user_id.
     bindM (read_attr (av_target act) en_id) (\<lambda>target_id.
     bindM (read_attr (av_target act) en_display_name) (\<lambda>target_name.
     bindM (read_attr (av_target act) en_object_type) (\<lambda>domain.
     bindM (lift_result (attr_value (av_published act))) (\<lambda>sent_time.
     bindM (read_attr (av_object act) en_url) (\<lambda>channel_id.
     bindM (read_attr (av_object act) en_display_name) (\<lambda>channel_name.
     cd_msg_insert E msg_id from_user_id (Some (b64d display_name)) target_id target_name (Some (b64d content)) domain
       sent_time channel_id channel_name deleted))))))))))"

record stored_message =
  sm_message_id :: "string option"
  sm_from_user_id :: string
  sm_from_user_name :: "string option"
  sm_target_id :: string
  sm_target_name :: "string option"
  sm_body :: "string option"
  sm_domain :: "string option"
  sm_channel_id :: "string option"
  sm_channel_name :: "string option"
  sm_timestamp :: string
  sm_deleted :: "bool option"

definition row_to_json :: "msg_row \<Rightarrow> stored_message" where
  "row_to_json row = \<lparr>sm_message_id = mr_message_id row, sm_from_user_id = mr_from_user_id row,
     sm_from_user_name = mr_from_user_name row, sm_target_id = mr_target_id row, sm_target_name = mr_target_name row,
     sm_body = mr_body row, sm_domain = mr_domain row, sm_channel_id = mr_channel_id row,
     sm_channel_name = mr_channel_name row, sm_timestamp = mr_sent_time row, sm_deleted = mr_deleted row\<rparr>"

text \<open>A dictionary, or an empty one when there is no such message.\<close>

definition cs_msg_select :: "'s csenv \<Rightarrow> string \<Rightarrow> ('s, stored_message option) op" where
  "cs_msg_select E message_id =
     bindM (gets (\<lambda>s. cq_msg_select_all (cs_cql E) s message_id)) (\<lambda>rows.
     ret (case rows of [] \<Rightarrow> None | row # _ \<Rightarrow> Some (row_to_json row)))"

definition cs_get_messages :: "'s csenv \<Rightarrow> string list \<Rightarrow> ('s, stored_message list) op" where
  "cs_get_messages E message_ids =
     bindM (gets (\<lambda>s. cq_msgs_select_all_in (cs_cql E) s message_ids)) (\<lambda>rows. ret (map row_to_json rows))"

definition cs_get_undeleted_message_ids_for_user :: "'s csenv \<Rightarrow> string \<Rightarrow> ('s, string list) op" where
  "cs_get_undeleted_message_ids_for_user E user_id = gets (\<lambda>s. cq_ids_from_user_not_deleted (cs_cql E) s user_id)"

definition cs_get_all_message_ids_for_user :: "'s csenv \<Rightarrow> string \<Rightarrow> ('s, string list) op" where
  "cs_get_all_message_ids_for_user E user_id = gets (\<lambda>s. cq_ids_from_user_all (cs_cql E) s user_id)"

definition cs_get_undeleted_message_ids_for_user_and_room :: "'s csenv \<Rightarrow> string \<Rightarrow> string \<Rightarrow> ('s, string list) op" where
  "cs_get_undeleted_message_ids_for_user_and_room E user_id room_id =
     gets (\<lambda>s. cq_ids_from_user_and_room_not_deleted (cs_cql E) s user_id room_id)"

definition cs_get_undeleted_messages_for_user_and_time ::
  "'s csenv \<Rightarrow> string \<Rightarrow> int \<Rightarrow> int \<Rightarrow> ('s, stored_message list) op" where
  "cs_get_undeleted_messages_for_user_and_time E user_id from_time to_time =
     bindM (cq_from_user_not_deleted_for_time (cs_cql E) user_id from_time to_time) (\<lambda>rows. ret (map row_to_json rows))"

definition cs_delete_message :: "'s csenv \<Rightarrow> string \<Rightarrow> bool \<Rightarrow> ('s, unit) op" where
  "cs_delete_message E message_id clear_body = cd_msg_delete E message_id clear_body"

definition cs_delete_messages :: "'s csenv \<Rightarrow> string list \<Rightarrow> bool \<Rightarrow> ('s, unit) op" where
  "cs_delete_messages E message_ids clear_body = cd_msgs_delete E message_ids clear_body"

definition cs_delete_messages_in_room :: "'s csenv \<Rightarrow> string option \<Rightarrow> bool \<Rightarrow> ('s, unit) op" where
  "cs_delete_messages_in_room E room_id clear_body =
     bindM (key_value room_id) (\<lambda>room.
     bindM (cq_msgs_select (cs_cql E) room 500) (\<lambda>rows.
     iterM (\<lambda>msg_id. bindM (key_value msg_id) (\<lambda>msg_id. cd_msg_delete E msg_id clear_body)) (map mr_message_id rows)))"

definition cs_undelete_message :: "'s csenv \<Rightarrow> string \<Rightarrow> ('s, unit) op" where
  "cs_undelete_message E message_id = cd_msg_undelete E message_id"

subsection \<open>The storage: acknowledgements\<close>

definition cs_get_statuses :: "'s csenv \<Rightarrow> string list \<Rightarrow> string \<Rightarrow> ('s, (string \<times> int) list) op" where
  "cs_get_statuses E message_ids receiver_id =
     bindM (gets (\<lambda>s. cq_acks_get (cs_cql E) s receiver_id message_ids)) (\<lambda>rows.
     ret (map (\<lambda>row. (ar_message_id row, ak_status (ar_ack row))) rows))"

definition cs_mark_as_status :: "'s csenv \<Rightarrow> string list \<Rightarrow> string \<Rightarrow> string option \<Rightarrow> int \<Rightarrow> ('s, unit) op" where
  "cs_mark_as_status E message_ids receiver_id target_id status =
     bindM (cs_get_statuses E message_ids receiver_id) (\<lambda>current_acks.
     let to_add = filter (\<lambda>i. map_of current_acks i = None) message_ids;
         to_update = filter (\<lambda>i. case map_of current_acks i of None \<Rightarrow> False | Some a \<Rightarrow> \<not> a \<ge> status) message_ids
     in thenM (whenM (to_update \<noteq> []) (cq_acks_update (cs_cql E) status receiver_id message_ids))
          (whenM (to_add \<noteq> []) (cd_add_acks_with_status E to_add receiver_id target_id status)))"

definition cs_mark_as_received :: "'s csenv \<Rightarrow> string list \<Rightarrow> string \<Rightarrow> string option \<Rightarrow> ('s, unit) op" where
  "cs_mark_as_received E message_ids receiver_id target_id = cs_mark_as_status E message_ids receiver_id target_id ack_received"

definition cs_mark_as_read :: "'s csenv \<Rightarrow> string list \<Rightarrow> string \<Rightarrow> string option \<Rightarrow> ('s, unit) op" where
  "cs_mark_as_read E message_ids receiver_id target_id = cs_mark_as_status E message_ids receiver_id target_id ack_read"

definition cs_mark_as_unacked :: "'s csenv \<Rightarrow> string \<Rightarrow> string \<Rightarrow> string option \<Rightarrow> ('s, unit) op" where
  "cs_mark_as_unacked E message_id receiver_id target_id = cs_mark_as_status E [message_id] receiver_id target_id ack_not_acked"

subsection \<open>The storage: history\<close>

definition not_deleted :: "msg_row \<Rightarrow> bool" where
  "not_deleted row \<longleftrightarrow> mr_deleted row \<noteq> Some True"

definition cs_get_unacked_history :: "'s csenv \<Rightarrow> string \<Rightarrow> (string list \<Rightarrow> string list) \<Rightarrow> ('s, stored_message list) op" where
  "cs_get_unacked_history E user_id order =
     bindM (gets (\<lambda>s. cq_acks_get_for_status (cs_cql E) s user_id ack_not_acked)) (\<lambda>rows.
     if rows = [] then ret []
     else bindM (gets (\<lambda>s. cq_msgs_select_all_in (cs_cql E) s (order (map ar_message_id rows)))) (\<lambda>message_rows.
       ret (map row_to_json (filter not_deleted message_rows))))"

definition cs_get_unread_history :: "'s csenv \<Rightarrow> string \<Rightarrow> int \<Rightarrow> ('s, stored_message list) op" where
  "cs_get_unread_history E room_id last_read =
     bindM (cq_msgs_select_by_time_stamp (cs_cql E) room_id last_read) (\<lambda>rows.
     ret (map row_to_json (filter not_deleted rows)))"

text \<open>The two methods for the history of a time slice have the same body.\<close>

definition cs_history_between :: "'s csenv \<Rightarrow> string option \<Rightarrow> string option \<Rightarrow> int \<Rightarrow> int \<Rightarrow> ('s, msg_row list) op" where
  "cs_history_between E room_id from_user_id from_time to_time =
     (if \<not> none_or_blank room_id
      then if \<not> none_or_blank from_user_id
        then cq_msgs_select_from_user_to_target_time_slice (cs_cql E) (the from_user_id) (the room_id) from_time to_time 500
        else cq_msgs_select_time_slice (cs_cql E) (the room_id) from_time to_time
      else bindM (key_value from_user_id) (\<lambda>user.
        bindM (cq_msgs_select_from_user (cs_cql E) user 500) (\<lambda>all_rows.
        ret (filter (\<lambda>row. \<not> (mr_time_stamp row < from_time \<or> mr_time_stamp row > to_time)) all_rows))))"

definition cs_get_history_for_user_no_limit ::
  "'s csenv \<Rightarrow> string option \<Rightarrow> string option \<Rightarrow> int \<Rightarrow> int \<Rightarrow> ('s, stored_message list) op" where
  "cs_get_history_for_user_no_limit E room_id from_user_id from_time to_time =
     bindM (cs_history_between E room_id from_user_id from_time to_time) (\<lambda>rows. ret (map row_to_json rows))"

definition cs_get_history_for_time_slice ::
  "'s csenv \<Rightarrow> string option \<Rightarrow> string option \<Rightarrow> int \<Rightarrow> int \<Rightarrow> ('s, stored_message list) op" where
  "cs_get_history_for_time_slice E room_id from_user_id from_time to_time =
     bindM (cs_history_between E room_id from_user_id from_time to_time) (\<lambda>rows. ret (map row_to_json rows))"

definition cs_get_history_pagination :: "'s csenv \<Rightarrow> string \<Rightarrow> int \<Rightarrow> int \<Rightarrow> ('s, stored_message list) op" where
  "cs_get_history_pagination E room_id to_time limit =
     bindM (cq_msgs_select_pagination (cs_cql E) room_id to_time limit) (\<lambda>rows. ret (map row_to_json rows))"

definition cs_get_history :: "'s csenv \<Rightarrow> string \<Rightarrow> int \<Rightarrow> ('s, stored_message list) op" where
  "cs_get_history E room_id limit =
     bindM (cq_msgs_select_latest_non_deleted (cs_cql E) room_id limit) (\<lambda>rows. ret (map row_to_json rows))"

end
