(* ===== verification/Cassandra_Facts.thy ===== *)
theory Cassandra_Facts
  imports Storage_Cassandra
begin

section \<open>Facts on the storage on Cassandra\<close>

text \<open>
  What storing, deleting and acknowledging do to the two mappings. Deleting is exact while every row
  has the time stamp that the driver computes of the time sent, which storing and deleting keep.
\<close>

text \<open>The rows have the time stamps that the driver computes, and keys that it can write.\<close>

definition well_stamped :: "'s csenv \<Rightarrow> (msg_key \<Rightarrow> msg_row option) \<Rightarrow> bool" where
  "well_stamped E m \<longleftrightarrow> (\<forall>r\<in>ran m. cd_time_stamp E (Some (mr_sent_time r)) = Inr (mr_time_stamp r) \<and> storable_key (row_key r))"

definition marked :: "bool \<Rightarrow> bool \<Rightarrow> msg_row \<Rightarrow> msg_row" where
  "marked deleted clear_body r = r\<lparr>mr_body := cd_clear clear_body r, mr_deleted := Some deleted\<rparr>"

lemma marked_simps [simp]:
  "mr_message_id (marked d c r) = mr_message_id r" "mr_sent_time (marked d c r) = mr_sent_time r"
  "mr_time_stamp (marked d c r) = mr_time_stamp r" "mr_from_user_id (marked d c r) = mr_from_user_id r"
  "mr_target_id (marked d c r) = mr_target_id r" "mr_domain (marked d c r) = mr_domain r"
  "mr_deleted (marked d c r) = Some d" "mr_body (marked d c r) = cd_clear c r"
  "row_key (marked d c r) = row_key r" "cd_clear c (marked d c r) = cd_clear c r"
  by (simp_all add: marked_def cd_clear_def row_key_def)

text \<open>The rows whose key satisfies a condition are marked, the others stay.\<close>

definition marks :: "bool \<Rightarrow> bool \<Rightarrow> (msg_key \<Rightarrow> bool) \<Rightarrow> (msg_key \<Rightarrow> msg_row option) \<Rightarrow> msg_key \<Rightarrow> msg_row option" where
  "marks d c P m = (\<lambda>k. if P k then map_option (marked d c) (m k) else m k)"

lemma marks_cong: "(\<And>k r. m k = Some r \<Longrightarrow> P k = Q k) \<Longrightarrow> marks d c P m = marks d c Q m"
  by (simp add: marks_def fun_eq_iff) (metis option.exhaust option.simps(8))

lemma marked_idem [simp]: "marked d c (marked d c r) = marked d c r"
  by (simp add: marked_def cd_clear_def)

lemma marks_marks: "marks d c Q (marks d c P m) = marks d c (\<lambda>k. P k \<or> Q k) m"
  by (auto simp: marks_def fun_eq_iff option.map_comp o_def)

lemma marks_none [simp]: "marks d c (\<lambda>k. False) m = m"
  by (simp add: marks_def)

lemma well_stamped_marks: "well_stamped E m \<Longrightarrow> well_stamped E (marks d c P m)"
  unfolding well_stamped_def
proof
  fix r assume m: "\<forall>r\<in>ran m. cd_time_stamp E (Some (mr_sent_time r)) = Inr (mr_time_stamp r) \<and> storable_key (row_key r)"
    and "r \<in> ran (marks d c P m)"
  then obtain k where "marks d c P m k = Some r" unfolding ran_def by blast
  then obtain r0 where "m k = Some r0" "r = r0 \<or> r = marked d c r0" by (auto simp: marks_def split: if_splits)
  with m ranI [of m k r0] show "cd_time_stamp E (Some (mr_sent_time r)) = Inr (mr_time_stamp r) \<and> storable_key (row_key r)"
    by auto
qed

lemma dom_marks [simp]: "dom (marks d c P m) = dom m"
proof (rule set_eqI)
  show "k \<in> dom (marks d c P m) \<longleftrightarrow> k \<in> dom m" for k by (cases "P k") (simp_all add: dom_def marks_def)
qed

definition key_prefix :: "msg_key \<Rightarrow> string \<times> string \<times> string" where
  "key_prefix k = (case k of (t, f, n, x) \<Rightarrow> (t, f, n))"

definition row_prefix :: "msg_row \<Rightarrow> string \<times> string \<times> string" where
  "row_prefix r = (mr_target_id r, mr_from_user_id r, mr_sent_time r)"

lemma key_prefix_row [simp]: "key_prefix (row_key r) = row_prefix r"
  by (simp add: key_prefix_def row_key_def row_prefix_def)

locale cassandra_storage = cassandra "cs_cql E" M A
  for E :: "'s csenv" and M :: "'s \<Rightarrow> msg_key \<Rightarrow> msg_row option" and A
begin

lemma in_rows: "r \<in> rows_where (M s) P \<longleftrightarrow> M s (row_key r) = Some r \<and> P r"
  unfolding rows_where_def ran_def by (simp only: mem_Collect_eq) (metis keyed)

lemma well_stampedD:
  assumes "well_stamped E (M s)" "M s k = Some r"
  shows "cd_time_stamp E (Some (mr_sent_time r)) = Inr (mr_time_stamp r)" "storable_key k" "row_key r = k"
  using assms(1) ranI [of "M s", OF assms(2)] keyed [OF assms(2)] by (auto simp: well_stamped_def)

lemma one_row_for_prefix:
  assumes "well_stamped E (M s)" "M s k = Some r" "M s k' = Some r'" "key_prefix k = key_prefix k'"
  shows "k = k'"
  using well_stampedD [OF assms(1,2)] well_stampedD [OF assms(1,3)] assms(4)
  by (auto simp: key_prefix_def row_key_def)

text \<open>An update by the sender, target and time of a row marks that row.\<close>

lemma update_row_run:
  assumes "well_stamped E (M s)" "M s k = Some r" "b = cd_clear c r \<or> b = cd_clear c (marked d c r)"
  shows "\<exists>s'. cd_msg_update E (mr_from_user_id r) (mr_target_id r) b (mr_sent_time r) d s = (Inr (), s') \<and>
    M s' = marks d c ((=) k) (M s) \<and> A s' = A s"
proof -
  note k = well_stampedD [OF assms(1,2)]
  have b: "b = cd_clear c r" using assms(3) by simp
  obtain s' where s': "cq_msg_update (cs_cql E) b d k s = (Inr (), s')"
    "M s' = (M s)(k \<mapsto> (row_at (M s) k)\<lparr>mr_body := b, mr_deleted := Some d\<rparr>)" "A s' = A s"
    using msg_update [OF k(2)] by blast
  have "(row_at (M s) k)\<lparr>mr_body := b, mr_deleted := Some d\<rparr> = marked d c r"
    by (simp add: row_at_def assms(2) b marked_def)
  with s'(2) have "M s' = marks d c ((=) k) (M s)" using assms(2) by (auto simp: marks_def fun_eq_iff)
  moreover have "cd_msg_update E (mr_from_user_id r) (mr_target_id r) b (mr_sent_time r) d s = (Inr (), s')"
    using s'(1) k by (simp add: cd_msg_update_def bindM_def lift_result_def row_key_def)
  ultimately show ?thesis using s'(3) by blast
qed

lemma delete_at_run:
  assumes "well_stamped E (M s)" "M s k = Some r" "key_prefix k = p"
  shows "\<exists>s'. cd_msg_delete_at E d c p s = (Inr (), s') \<and> M s' = marks d c ((=) k) (M s) \<and> A s' = A s"
proof -
  note k = well_stampedD [OF assms(1,2)]
  have p: "p = (mr_target_id r, mr_from_user_id r, mr_sent_time r)" using assms(3) k(3) by (auto simp: row_prefix_def)
  let ?rows = "cq_msg_select_one (cs_cql E) s (mr_target_id r) (mr_from_user_id r) (mr_sent_time r)"
  have set: "set ?rows = {r}"
  proof -
    have "r' = r" if "M s (row_key r') = Some r'" "row_prefix r' = row_prefix r" for r'
    proof -
      have "row_key r' = k"
        by (rule one_row_for_prefix [OF assms(1) that(1) assms(2)]) (simp add: that(2) k(3) [symmetric])
      with that(1) assms(2) show ?thesis by simp
    qed
    moreover have "r' \<in> set ?rows \<longleftrightarrow> M s (row_key r') = Some r' \<and> row_prefix r' = row_prefix r" for r'
      by (simp only: msg_select_one in_rows row_prefix_def prod.inject)
    ultimately show ?thesis using assms(2) k(3) by blast
  qed
  let ?f = "\<lambda>row. cd_msg_update E (mr_from_user_id r) (mr_target_id r) (cd_clear c row) (mr_sent_time r) d"
  have *: "\<exists>s'. iterM ?f rows s1 = (Inr (), s') \<and> M s' = marks d c ((=) k) (M s) \<and> A s' = A s"
    if "set rows \<subseteq> {r}" "rows \<noteq> [] \<or> M s1 = marks d c ((=) k) (M s)"
      "M s1 = M s \<or> M s1 = marks d c ((=) k) (M s)" "A s1 = A s" for rows s1
    using that
  proof (induction rows arbitrary: s1)
    case Nil
    then show ?case by (auto simp: ret_def)
  next
    case (Cons x rows)
    have st: "well_stamped E (M s1)" using Cons.prems(3) assms(1) well_stamped_marks by auto
    obtain r1 where r1: "M s1 k = Some r1" "r1 = r \<or> r1 = marked d c r"
      using Cons.prems(3) assms(2) by (auto simp: marks_def)
    have "cd_clear c x = cd_clear c r1" using Cons.prems(1) r1(2) by auto
    then obtain s2 where s2: "?f x s1 = (Inr (), s2)" "M s2 = marks d c ((=) k) (M s1)" "A s2 = A s1"
      using update_row_run [OF st r1(1), of "cd_clear c x" c d] r1(2) by auto
    have "M s2 = marks d c ((=) k) (M s)" using Cons.prems(3) s2(2) by (auto simp: marks_marks)
    with Cons.IH [of s2] Cons.prems s2 show ?case by (auto simp: bindM_def)
  qed
  have "?rows \<noteq> []" using set by (metis empty_set insert_not_empty)
  then show ?thesis using * [of ?rows s] set by (simp add: cd_msg_delete_at_def p bindM_gets)
qed

lemma delete_keys_run:
  assumes "well_stamped E (M s)" "set ps \<subseteq> key_prefix ` dom (M s)"
  shows "\<exists>s'. iterM (cd_msg_delete_at E d c) ps s = (Inr (), s') \<and> M s' = marks d c (\<lambda>k. key_prefix k \<in> set ps) (M s) \<and> A s' = A s"
  using assms
proof (induction ps arbitrary: s)
  case Nil
  then show ?case by (simp add: ret_def)
next
  case (Cons p ps)
  then obtain k r where k: "M s k = Some r" "key_prefix k = p" by auto
  obtain s1 where s1: "cd_msg_delete_at E d c p s = (Inr (), s1)" "M s1 = marks d c ((=) k) (M s)" "A s1 = A s"
    using delete_at_run [OF Cons.prems(1) k] by blast
  have "dom (M s1) = dom (M s)" by (simp add: s1(2))
  with Cons.IH [of s1] Cons.prems s1(2) obtain s2 where s2: "iterM (cd_msg_delete_at E d c) ps s1 = (Inr (), s2)"
    "M s2 = marks d c (\<lambda>k. key_prefix k \<in> set ps) (M s1)" "A s2 = A s1" by (auto simp: well_stamped_marks)
  have "M s2 = marks d c (\<lambda>k'. k = k' \<or> key_prefix k' \<in> set ps) (M s)" by (simp add: s2(2) s1(2) marks_marks)
  also have "\<dots> = marks d c (\<lambda>k'. key_prefix k' \<in> set (p # ps)) (M s)"
    using one_row_for_prefix [OF Cons.prems(1) k(1)] k(2) by (intro marks_cong) auto
  finally show ?case using s1 s2 by (simp add: bindM_def)
qed

text \<open>The keys of the rows with an id.\<close>

definition has_id :: "'s \<Rightarrow> string set \<Rightarrow> msg_key \<Rightarrow> bool" where
  "has_id s is k \<longleftrightarrow> (\<exists>r. M s k = Some r \<and> mr_message_id r \<in> Some ` is)"

lemma has_id_single: "has_id s {i} k \<longleftrightarrow> (\<exists>r. M s k = Some r \<and> mr_message_id r = Some i)"
  by (simp add: has_id_def)

lemma has_id_dom: "has_id s I k \<Longrightarrow> k \<in> dom (M s)"
  by (auto simp: has_id_def)

lemma select_prefixes: "set (cq_msg_select (cs_cql E) s i) = {key_prefix k |k. has_id s {i} k}"
proof -
  have "set (cq_msg_select (cs_cql E) s i) = row_prefix ` rows_where (M s) (\<lambda>r. mr_message_id r = Some i)"
    unfolding msg_select row_prefix_def by simp
  also have "\<dots> = {key_prefix k |k. has_id s {i} k}"
    unfolding set_eq_iff image_iff Bex_def in_rows mem_Collect_eq has_id_single by (metis key_prefix_row keyed)
  finally show ?thesis .
qed

lemma prefix_has_id:
  assumes "well_stamped E (M s)" "M s k = Some r"
  shows "key_prefix k \<in> {key_prefix k |k. has_id s I k} \<longleftrightarrow> has_id s I k"
  unfolding mem_Collect_eq has_id_def using one_row_for_prefix [OF assms] by metis

lemma msg_delete_run:
  assumes "well_stamped E (M s)"
  shows "\<exists>s'. cd_msg_delete_as E i d c s = (Inr (), s') \<and> M s' = marks d c (has_id s {i}) (M s) \<and> A s' = A s"
proof -
  have "set (cq_msg_select (cs_cql E) s i) \<subseteq> key_prefix ` dom (M s)"
    unfolding select_prefixes using has_id_dom by blast
  from delete_keys_run [OF assms this, of d c] obtain s' where
    "iterM (cd_msg_delete_at E d c) (cq_msg_select (cs_cql E) s i) s = (Inr (), s')"
    "M s' = marks d c (\<lambda>k. key_prefix k \<in> {key_prefix k |k. has_id s {i} k}) (M s)" "A s' = A s"
    unfolding select_prefixes by blast
  moreover have "marks d c (\<lambda>k. key_prefix k \<in> {key_prefix k |k. has_id s {i} k}) (M s) = marks d c (has_id s {i}) (M s)"
    using prefix_has_id [OF assms] by (intro marks_cong) blast
  ultimately show ?thesis by (simp add: cd_msg_delete_as_def bindM_gets)
qed

lemma has_id_marks: "M s' = marks d c P (M s) \<Longrightarrow> has_id s' I = has_id s I"
proof
  fix k assume "M s' = marks d c P (M s)"
  then show "has_id s' I k = has_id s I k"
    by (cases "P k"; cases "M s k") (simp_all add: has_id_def marks_def)
qed

text \<open>Deleting one message after the other.\<close>

lemma deletes_each_run:
  assumes "well_stamped E (M s)"
  shows "\<exists>s'. iterM (\<lambda>i. cs_delete_message E i c) is s = (Inr (), s') \<and>
    M s' = marks True c (has_id s (set is)) (M s) \<and> A s' = A s"
  using assms
proof (induction "is" arbitrary: s)
  case Nil
  then show ?case by (simp add: ret_def has_id_def)
next
  case (Cons i "is")
  obtain s1 where s1: "cs_delete_message E i c s = (Inr (), s1)" "M s1 = marks True c (has_id s {i}) (M s)" "A s1 = A s"
    unfolding cs_delete_message_def cd_msg_delete_def using msg_delete_run [OF Cons.prems] by blast
  then obtain s2 where s2: "iterM (\<lambda>i. cs_delete_message E i c) is s1 = (Inr (), s2)"
    "M s2 = marks True c (has_id s1 (set is)) (M s1)" "A s2 = A s1"
    using Cons.IH [of s1] Cons.prems by (auto simp: well_stamped_marks)
  have "M s2 = marks True c (\<lambda>k. has_id s {i} k \<or> has_id s (set is) k) (M s)"
    by (simp only: s2(2) has_id_marks [OF s1(2)]) (simp only: s1(2) marks_marks)
  also have "\<dots> = marks True c (has_id s (set (i # is))) (M s)" by (intro marks_cong) (auto simp: has_id_def)
  finally show ?case using s1 s2 by (simp add: bindM_def)
qed

end


context cassandra_storage begin

text \<open>Deleting many at once: the updates are collected first.\<close>

definition update_of :: "bool \<Rightarrow> msg_row \<Rightarrow> string \<times> string \<times> string option \<times> string" where
  "update_of c r = (mr_from_user_id r, mr_target_id r, cd_clear c r, mr_sent_time r)"

definition update_prefix :: "string \<times> string \<times> string option \<times> string \<Rightarrow> string \<times> string \<times> string" where
  "update_prefix u = (case u of (f, t, b, n) \<Rightarrow> (t, f, n))"

lemma update_prefix_of [simp]: "update_prefix (update_of c r) = row_prefix r"
  by (simp add: update_prefix_def update_of_def row_prefix_def)

definition run_update :: "string \<times> string \<times> string option \<times> string \<Rightarrow> ('s, unit) op" where
  "run_update = (\<lambda>(f, t, b, n). cd_msg_update E f t b n True)"

lemma updates_run:
  assumes "well_stamped E (M s)" "\<forall>u\<in>set us. \<exists>k r. M s k = Some r \<and> u = update_of c r" "M s1 = marks True c P (M s)"
  shows "\<exists>s'. iterM run_update us s1 = (Inr (), s') \<and>
    M s' = marks True c (\<lambda>k. P k \<or> key_prefix k \<in> update_prefix ` set us) (M s) \<and> A s' = A s1"
  using assms(2,3)
proof (induction us arbitrary: s1 P)
  case Nil
  then show ?case by (simp add: ret_def)
next
  case (Cons u us)
  then obtain k r where k: "M s k = Some r" "u = update_of c r" by auto
  obtain r1 where r1: "M s1 k = Some r1" "r1 = r \<or> r1 = marked True c r"
    using Cons.prems(2) k(1) by (cases "P k") (auto simp: marks_def)
  have st: "well_stamped E (M s1)" using Cons.prems(2) assms(1) by (simp add: well_stamped_marks)
  obtain s2 where s2: "run_update u s1 = (Inr (), s2)" "M s2 = marks True c ((=) k) (M s1)" "A s2 = A s1"
    using update_row_run [OF st r1(1), of "cd_clear c r" c True] r1(2) k(2) by (auto simp: run_update_def update_of_def)
  have "M s2 = marks True c (\<lambda>k'. P k' \<or> k = k') (M s)" by (simp only: s2(2) Cons.prems(2) marks_marks)
  moreover have "\<forall>u\<in>set us. \<exists>k r. M s k = Some r \<and> u = update_of c r" using Cons.prems(1) by simp
  ultimately obtain s' where s': "iterM run_update us s2 = (Inr (), s')"
    "M s' = marks True c (\<lambda>k'. (P k' \<or> k = k') \<or> key_prefix k' \<in> update_prefix ` set us) (M s)" "A s' = A s2"
    using Cons.IH [of s2 "\<lambda>k'. P k' \<or> k = k'"] by blast
  have p: "update_prefix u = key_prefix k" using well_stampedD(3) [OF assms(1) k(1)] k(2) by auto
  have "M s' = marks True c (\<lambda>k'. P k' \<or> key_prefix k' \<in> update_prefix ` set (u # us)) (M s)"
    unfolding s'(2)
  proof (rule marks_cong)
    fix k' r' assume "M s k' = Some r'"
    then have "key_prefix k' = update_prefix u \<longleftrightarrow> k = k'" using one_row_for_prefix [OF assms(1) k(1)] p by metis
    then show "((P k' \<or> k = k') \<or> key_prefix k' \<in> update_prefix ` set us) =
        (P k' \<or> key_prefix k' \<in> update_prefix ` set (u # us))"
      unfolding list.set image_insert insert_iff by blast
  qed
  with s2 s' show ?case by (simp add: bindM_def)
qed

lemma to_update_rows:
  "u \<in> set (cd_to_update E c s is) \<longleftrightarrow> (\<exists>k r. has_id s (set is) k \<and> M s (row_key r) = Some r \<and>
    row_prefix r = key_prefix k \<and> u = update_of c r)"
proof -
  have at: "u \<in> set (cd_updates_at E c s p) \<longleftrightarrow> (\<exists>r. M s (row_key r) = Some r \<and> row_prefix r = p \<and> u = update_of c r)" for p
  proof (cases p)
    case (fields t f n)
    have "r \<in> set (cq_msg_select_one (cs_cql E) s t f n) \<longleftrightarrow> M s (row_key r) = Some r \<and> row_prefix r = p" for r
      by (simp only: msg_select_one in_rows row_prefix_def prod.inject fields)
    moreover have "update_of c r = (f, t, cd_clear c r, n)" if "row_prefix r = p" for r
      using that fields by (simp add: update_of_def row_prefix_def)
    ultimately show ?thesis using fields by (auto simp: cd_updates_at_def)
  qed
  have "u \<in> set (cd_to_update E c s is) \<longleftrightarrow> (\<exists>i\<in>set is. \<exists>p\<in>set (cq_msg_select (cs_cql E) s i). u \<in> set (cd_updates_at E c s p))"
    by (simp add: cd_to_update_def)
  also have "\<dots> \<longleftrightarrow> (\<exists>i\<in>set is. \<exists>k. has_id s {i} k \<and> (\<exists>r. M s (row_key r) = Some r \<and> row_prefix r = key_prefix k \<and> u = update_of c r))"
    unfolding at select_prefixes by blast
  also have "\<dots> \<longleftrightarrow> (\<exists>k r. has_id s (set is) k \<and> M s (row_key r) = Some r \<and> row_prefix r = key_prefix k \<and> u = update_of c r)"
    unfolding has_id_def by blast
  finally show ?thesis .
qed

lemma deletes_at_once_run:
  assumes "well_stamped E (M s)"
  shows "\<exists>s'. cs_delete_messages E is c s = (Inr (), s') \<and> M s' = marks True c (has_id s (set is)) (M s) \<and> A s' = A s"
proof -
  let ?us = "cd_to_update E c s is"
  have "\<forall>u\<in>set ?us. \<exists>k r. M s k = Some r \<and> u = update_of c r" using to_update_rows by blast
  from updates_run [OF assms this, of s "\<lambda>_. False"] obtain s' where s': "iterM run_update ?us s = (Inr (), s')"
    "M s' = marks True c (\<lambda>k. key_prefix k \<in> update_prefix ` set ?us) (M s)" "A s' = A s" by auto
  have "marks True c (\<lambda>k. key_prefix k \<in> update_prefix ` set ?us) (M s) = marks True c (has_id s (set is)) (M s)"
  proof (rule marks_cong)
    fix k r assume k: "M s k = Some r"
    show "key_prefix k \<in> update_prefix ` set ?us \<longleftrightarrow> has_id s (set is) k"
    proof
      assume "key_prefix k \<in> update_prefix ` set ?us"
      then obtain k' where "has_id s (set is) k'" "key_prefix k = key_prefix k'"
        unfolding image_iff Bex_def to_update_rows by auto
      then show "has_id s (set is) k" using one_row_for_prefix [OF assms k] by (metis has_id_def)
    next
      assume "has_id s (set is) k"
      then have "update_of c r \<in> set ?us" unfolding to_update_rows using k keyed [OF k] by (metis key_prefix_row)
      then show "key_prefix k \<in> update_prefix ` set ?us" using keyed [OF k] by (metis image_eqI key_prefix_row update_prefix_of)
    qed
  qed
  moreover have "cs_delete_messages E is c s = iterM run_update ?us s"
    unfolding cs_delete_messages_def cd_msgs_delete_def bindM_gets run_update_def cd_msg_update_def ..
  ultimately show ?thesis using s' by simp
qed

subsection \<open>What is left after deletions\<close>

text \<open>When all messages that a user has in rooms are deleted, there is none left, and no other row changed.\<close>

lemma user_cleared:
  assumes "Some ` set is = mr_message_id ` rows_where (M s) (\<lambda>r. undeleted_from u r \<and> P r)"
    and "M s' = marks True c (has_id s (set is)) (M s)"
    and "\<And>r. P (marked True c r) = P r"
  shows "rows_where (M s') (\<lambda>r. undeleted_from u r \<and> P r) = {}"
proof -
  have "\<not> (undeleted_from u r \<and> P r)" if "M s' k = Some r" for k r
  proof (cases "has_id s (set is) k")
    case True
    then show ?thesis using that assms(2) by (auto simp: marks_def undeleted_from_def)
  next
    case False
    then have k: "M s k = Some r" using that assms(2) by (simp add: marks_def)
    show ?thesis
    proof
      assume "undeleted_from u r \<and> P r"
      then have "r \<in> rows_where (M s) (\<lambda>r. undeleted_from u r \<and> P r)" using k ranI [of "M s", OF k] by (simp add: rows_where_def)
      then have "mr_message_id r \<in> Some ` set is" unfolding assms(1) by (rule imageI)
      with k False show False unfolding has_id_def by blast
    qed
  qed
  then show ?thesis unfolding rows_where_def ran_def by blast
qed

end


subsection \<open>Storing a message\<close>

definition value_of :: "exc + string option \<Rightarrow> string option" where
  "value_of r = (case r of Inl e \<Rightarrow> None | Inr v \<Rightarrow> v)"

text \<open>The activity has what is stored: an id, a sender, a target and a time, and the attributes that may be null.\<close>

definition sends :: "activity \<Rightarrow> string \<Rightarrow> string \<Rightarrow> string \<Rightarrow> string \<Rightarrow> bool" where
  "sends act i f t n \<longleftrightarrow> attr_value (av_id act) = Inr (Some i) \<and> part_attr (av_actor act) en_id = Inr (Some f) \<and>
     part_attr (av_target act) en_id = Inr (Some t) \<and> attr_value (av_published act) = Inr (Some n) \<and>
     has_attr (av_object act) en_content \<and> has_attr (av_object act) en_url \<and> has_attr (av_object act) en_display_name \<and>
     has_attr (av_actor act) en_display_name \<and> has_attr (av_target act) en_display_name \<and> has_attr (av_target act) en_object_type"

definition sent_row :: "activity \<Rightarrow> string \<Rightarrow> string \<Rightarrow> string \<Rightarrow> string \<Rightarrow> int \<Rightarrow> bool \<Rightarrow> msg_row" where
  "sent_row act i f t n x deleted =
     \<lparr>mr_message_id = Some i, mr_from_user_id = f,
      mr_from_user_name = Some (b64d (value_of (part_attr (av_actor act) en_display_name))), mr_target_id = t,
      mr_target_name = value_of (part_attr (av_target act) en_display_name),
      mr_body = Some (b64d (value_of (part_attr (av_object act) en_content))),
      mr_domain = value_of (part_attr (av_target act) en_object_type), mr_sent_time = n, mr_time_stamp = x,
      mr_channel_id = value_of (part_attr (av_object act) en_url),
      mr_channel_name = value_of (part_attr (av_object act) en_display_name), mr_deleted = Some deleted\<rparr>"

lemma sent_row_simps [simp]:
  "row_key (sent_row act i f t n x d) = (t, f, n, x)" "mr_message_id (sent_row act i f t n x d) = Some i"
  "mr_sent_time (sent_row act i f t n x d) = n" "mr_time_stamp (sent_row act i f t n x d) = x"
  by (simp_all add: sent_row_def row_key_def)

context cassandra_storage begin

lemma store_run:
  assumes "sends act i f t n" "i \<noteq> []" "cd_time_stamp E (Some n) = Inr x" "storable_key (t, f, n, x)"
  shows "\<exists>s'. cs_store_message E act d s = (Inr (), s') \<and> M s' = (M s)((t, f, n, x) \<mapsto> sent_row act i f t n x d) \<and> A s' = A s"
proof -
  obtain s' where s': "cq_msg_insert (cs_cql E) (sent_row act i f t n x d) s = (Inr (), s')"
    "M s' = (M s)((t, f, n, x) \<mapsto> sent_row act i f t n x d)" "A s' = A s"
    using msg_insert [of "sent_row act i f t n x d" s] assms by auto
  have "cs_store_message E act d s = cq_msg_insert (cs_cql E) (sent_row act i f t n x d) s"
    using assms(1,3)
    by (auto simp: sends_def has_attr_reads cs_store_message_def bindM_read_attr bindM_def [of "lift_result _"] lift_result_def
        cd_msg_insert_def key_value_def bindM_ret sent_row_def value_of_def)
  with s' show ?thesis by simp
qed

lemma well_stamped_store:
  assumes "well_stamped E (M s)" "cd_time_stamp E (Some n) = Inr x" "storable_key (t, f, n, x)"
  shows "well_stamped E ((M s)((t, f, n, x) \<mapsto> sent_row act i f t n x d))"
proof -
  have "ran ((M s)((t, f, n, x) \<mapsto> sent_row act i f t n x d)) \<subseteq> insert (sent_row act i f t n x d) (ran (M s))"
    by (auto simp: ran_def simp del: split_paired_Ex split: if_splits)
  with assms show ?thesis unfolding well_stamped_def by (metis (no_types) insert_iff sent_row_simps(1,3,4) subsetD)
qed

lemma msg_select_run:
  "\<exists>j. cs_msg_select E i s = (Inr j, s) \<and> (case j of None \<Rightarrow> rows_where (M s) (\<lambda>r. mr_message_id r = Some i) = {}
     | Some m \<Rightarrow> \<exists>r. M s (row_key r) = Some r \<and> mr_message_id r = Some i \<and> m = row_to_json r)"
proof (cases "cq_msg_select_all (cs_cql E) s i")
  case Nil
  with msg_select_all [of s i] show ?thesis by (simp add: cs_msg_select_def op_simps)
next
  case (Cons r rows)
  have "r \<in> rows_where (M s) (\<lambda>r. mr_message_id r = Some i)" unfolding msg_select_all [symmetric] Cons by simp
  then show ?thesis unfolding in_rows by (auto simp: cs_msg_select_def op_simps Cons)
qed

text \<open>A message whose id nobody has is read back as it was stored.\<close>

lemma stored_read_back:
  assumes m: "sends act i f t n" "i \<noteq> []" "cd_time_stamp E (Some n) = Inr x" "storable_key (t, f, n, x)"
    and fresh: "rows_where (M s) (\<lambda>r. mr_message_id r = Some i) = {}"
  shows "\<exists>s'. cs_store_message E act d s = (Inr (), s') \<and>
    cs_msg_select E i s' = (Inr (Some (row_to_json (sent_row act i f t n x d))), s')"
proof -
  obtain s' where s': "cs_store_message E act d s = (Inr (), s')" "M s' = (M s)((t, f, n, x) \<mapsto> sent_row act i f t n x d)"
    using store_run [OF m] by blast
  have only: "r = sent_row act i f t n x d" if r: "M s' (row_key r) = Some r" "mr_message_id r = Some i" for r
  proof (cases "row_key r = (t, f, n, x)")
    case False
    then have "M s (row_key r) = Some r" using r(1) s'(2) by simp
    then have "r \<in> rows_where (M s) (\<lambda>r. mr_message_id r = Some i)" unfolding in_rows using r(2) by blast
    with fresh show ?thesis by blast
  qed (use r(1) s'(2) in simp)
  have "sent_row act i f t n x d \<in> rows_where (M s') (\<lambda>r. mr_message_id r = Some i)"
    unfolding in_rows by (simp add: s'(2))
  with msg_select_run [of i s'] only s'(1) show ?thesis by (auto split: option.splits)
qed

text \<open>Of two messages of one user to one target in the same second, the second takes the place of the first.\<close>

lemma same_second_lost:
  assumes m: "sends act i f t n" "i \<noteq> []" "cd_time_stamp E (Some n) = Inr x" "storable_key (t, f, n, x)"
    and m': "sends act' i' f t n" "i' \<noteq> []" "i' \<noteq> i"
    and fresh: "rows_where (M s) (\<lambda>r. mr_message_id r = Some i) = {}"
  shows "\<exists>s1 s2. cs_store_message E act d s = (Inr (), s1) \<and> cs_store_message E act' d' s1 = (Inr (), s2) \<and>
    cs_msg_select E i s2 = (Inr None, s2)"
proof -
  obtain s1 where s1: "cs_store_message E act d s = (Inr (), s1)" "M s1 = (M s)((t, f, n, x) \<mapsto> sent_row act i f t n x d)"
    using store_run [OF m] by blast
  obtain s2 where s2: "cs_store_message E act' d' s1 = (Inr (), s2)" "M s2 = (M s1)((t, f, n, x) \<mapsto> sent_row act' i' f t n x d')"
    using store_run [OF m'(1,2) m(3,4)] by blast
  have "rows_where (M s2) (\<lambda>r. mr_message_id r = Some i) = {}"
  proof -
    have False if r: "M s2 (row_key r) = Some r" "mr_message_id r = Some i" for r
    proof (cases "row_key r = (t, f, n, x)")
      case True
      then have "r = sent_row act' i' f t n x d'" using r(1) s2(2) by simp
      with r(2) m'(3) show False by simp
    next
      case False
      then have "M s (row_key r) = Some r" using r(1) s2(2) s1(2) by simp
      then have "r \<in> rows_where (M s) (\<lambda>r. mr_message_id r = Some i)" unfolding in_rows using r(2) by blast
      with fresh show False by blast
    qed
    then show ?thesis unfolding set_eq_iff in_rows by blast
  qed
  then have none: "\<not> (M s2 (row_key r) = Some r \<and> mr_message_id r = Some i)" for r
    unfolding set_eq_iff in_rows by blast
  obtain j where j: "cs_msg_select E i s2 = (Inr j, s2)" and e: "case j of None \<Rightarrow> rows_where (M s2) (\<lambda>r. mr_message_id r = Some i) = {}
     | Some m \<Rightarrow> \<exists>r. M s2 (row_key r) = Some r \<and> mr_message_id r = Some i \<and> m = row_to_json r"
    using msg_select_run [of i s2] by blast
  have "j = None"
  proof (cases j)
    case (Some m)
    with e none show ?thesis by auto
  qed simp
  with j s1(1) s2(1) show ?thesis by blast
qed

end

subsection \<open>Acknowledgements\<close>

lemma option_eqI: "(\<And>a. x = Some a \<longleftrightarrow> y = Some a) \<Longrightarrow> x = y"
  by (cases x; cases y) auto

context cassandra_storage begin

lemma statuses_run:
  "cs_get_statuses E is u s = (Inr (map (\<lambda>row. (ar_message_id row, ak_status (ar_ack row))) (cq_acks_get (cs_cql E) s u is)), s)"
  by (simp add: cs_get_statuses_def op_simps)

lemma status_of:
  "map_of (map (\<lambda>row. (ar_message_id row, ak_status (ar_ack row))) (cq_acks_get (cs_cql E) s u is)) i =
    (if i \<in> set is then map_option ak_status (A s u i) else None)" (is "map_of ?l i = ?v")
proof -
  have d: "distinct (map fst ?l)" using acks_get(1) [of s u "is"] by (simp add: o_def)
  have "map_of ?l i = Some a \<longleftrightarrow> ?v = Some a" for a
  proof -
    have "map_of ?l i = Some a \<longleftrightarrow> (i, a) \<in> set ?l" by (rule map_of_eq_Some_iff [OF d])
    also have "\<dots> \<longleftrightarrow> (\<exists>ar \<in> set (cq_acks_get (cs_cql E) s u is). ar_message_id ar = i \<and> ak_status (ar_ack ar) = a)"
      by auto
    also have "\<dots> \<longleftrightarrow> i \<in> set is \<and> (\<exists>k. A s u i = Some k \<and> ak_status k = a)"
    proof
      assume "i \<in> set is \<and> (\<exists>k. A s u i = Some k \<and> ak_status k = a)"
      then obtain k where "i \<in> set is" "A s u i = Some k" "ak_status k = a" by blast
      then show "\<exists>ar \<in> set (cq_acks_get (cs_cql E) s u is). ar_message_id ar = i \<and> ak_status (ar_ack ar) = a"
        by (intro bexI [of _ "\<lparr>ar_for_user_id = u, ar_message_id = i, ar_ack = k\<rparr>"]) (simp_all add: acks_get(2))
    qed (auto simp: acks_get(2))
    finally show ?thesis by auto
  qed
  then show ?thesis by (rule option_eqI)
qed

lemma add_acks_run:
  assumes "u \<noteq> []" "fits_int st"
  shows "\<exists>s'. cd_add_acks_with_status E is u t st s = (Inr (), s') \<and> M s' = M s \<and>
    A s' = (A s)(u := (\<lambda>i. if i \<in> set is then Some \<lparr>ak_status = st, ak_target_id = t\<rparr> else A s u i))"
  unfolding cd_add_acks_with_status_def
proof (induction "is" arbitrary: s)
  case Nil
  then show ?case by (simp add: ret_def)
next
  case (Cons i "is")
  obtain s1 where "cq_acks_insert (cs_cql E) u i st t s = (Inr (), s1)"
    "A s1 = (A s)(u := (A s u)(i \<mapsto> \<lparr>ak_status = st, ak_target_id = t\<rparr>))" "M s1 = M s"
    using acks_insert [OF assms] by blast
  with Cons.IH [of s1] show ?case by (auto simp: bindM_def fun_eq_iff)
qed

text \<open>What marking does: to all of the messages, when one of them has a lower status.\<close>

lemma mark_run:
  assumes "u \<noteq> []" "fits_int st"
  shows "\<exists>s'. cs_mark_as_status E is u t st s = (Inr (), s') \<and> M s' = M s \<and>
    A s' = (A s)(u := (\<lambda>i. if i \<notin> set is then A s u i
      else if A s u i = None then Some \<lparr>ak_status = st, ak_target_id = t\<rparr>
      else if \<exists>j\<in>set is. \<exists>a. A s u j = Some a \<and> ak_status a < st
        then Some \<lparr>ak_status = st, ak_target_id = Option.bind (A s u i) ak_target_id\<rparr>
      else A s u i))"
proof -
  let ?lower = "\<exists>j\<in>set is. \<exists>a. A s u j = Some a \<and> ak_status a < st"
  let ?add = "filter (\<lambda>i. A s u i = None) is"
  have up: "(filter (\<lambda>i. case map_option ak_status (A s u i) of None \<Rightarrow> False | Some a \<Rightarrow> \<not> st \<le> a) is \<noteq> []) \<longleftrightarrow> ?lower"
    by (force simp: filter_empty_conv not_le split: option.splits)
  have run: "cs_mark_as_status E is u t st s =
    thenM (whenM ?lower (cq_acks_update (cs_cql E) st u is)) (whenM (?add \<noteq> []) (cd_add_acks_with_status E ?add u t st)) s"
    unfolding cs_mark_as_status_def Let_def bindM_Inr [OF statuses_run] status_of up [symmetric]
    by (simp cong: filter_cong)
  obtain s1 where s1: "whenM ?lower (cq_acks_update (cs_cql E) st u is) s = (Inr (), s1)" "M s1 = M s"
    "A s1 = (A s)(u := (\<lambda>i. if ?lower \<and> i \<in> set is
       then Some \<lparr>ak_status = st, ak_target_id = Option.bind (A s u i) ak_target_id\<rparr> else A s u i))"
  proof (cases ?lower)
    case True
    with acks_update [OF assms, of "is" s] that show ?thesis by (auto simp: whenM_def)
  next
    case False
    with that show ?thesis by (simp add: whenM_def ret_def)
  qed
  obtain s2 where s2: "whenM (?add \<noteq> []) (cd_add_acks_with_status E ?add u t st) s1 = (Inr (), s2)" "M s2 = M s1"
    "A s2 = (A s1)(u := (\<lambda>i. if i \<in> set ?add then Some \<lparr>ak_status = st, ak_target_id = t\<rparr> else A s1 u i))"
  proof (cases "?add = []")
    case True
    with that show ?thesis by (simp add: whenM_def ret_def)
  next
    case False
    with add_acks_run [OF assms, of ?add t s1] that show ?thesis by (auto simp: whenM_def)
  qed
  have "A s2 = (A s)(u := (\<lambda>i. if i \<notin> set is then A s u i
      else if A s u i = None then Some \<lparr>ak_status = st, ak_target_id = t\<rparr>
      else if ?lower then Some \<lparr>ak_status = st, ak_target_id = Option.bind (A s u i) ak_target_id\<rparr>
      else A s u i))"
    by (auto simp: s2(3) s1(3) fun_eq_iff)
  with s1 s2 show ?thesis by (auto simp: run thenM_def bindM_def)
qed

end

subsection \<open>What is shown to clients\<close>

context cassandra_storage begin

text \<open>After a message is deleted, no history has it.\<close>

lemma deleted_rows:
  assumes "well_stamped E (M s)"
  shows "\<exists>s'. cs_delete_message E i c s = (Inr (), s') \<and> (\<forall>k r. M s' k = Some r \<and> mr_message_id r = Some i \<longrightarrow> mr_deleted r = Some True)"
proof -
  obtain s' where s': "cs_delete_message E i c s = (Inr (), s')" "M s' = marks True c (has_id s {i}) (M s)"
    unfolding cs_delete_message_def cd_msg_delete_def using msg_delete_run [OF assms] by blast
  have "mr_deleted r = Some True" if "M s' k = Some r" "mr_message_id r = Some i" for k r
  proof (cases "has_id s {i} k")
    case True
    then show ?thesis using that(1) by (auto simp: s'(2) marks_def)
  next
    case False
    then have "M s k = Some r" using that(1) by (simp add: s'(2) marks_def)
    with False that(2) show ?thesis by (simp add: has_id_def)
  qed
  with s'(1) show ?thesis by blast
qed

lemma history_rows:
  assumes "t \<noteq> []" "0 < l" "fits_int l"
  shows "\<exists>rows. cs_get_history E t l s = (Inr (map row_to_json rows), s) \<and> int (length rows) \<le> l \<and>
    set rows \<subseteq> rows_where (M s) (\<lambda>r. in_view r \<and> mr_target_id r = t \<and> mr_deleted r = Some False)"
proof -
  obtain rows where rows: "cq_msgs_select_latest_non_deleted (cs_cql E) t l s = (Inr (take (nat l) rows), s)"
    "newest_first (M s) (\<lambda>r. in_view r \<and> mr_target_id r = t \<and> mr_deleted r = Some False) rows"
    using latest_non_deleted [OF assms] by blast
  then show ?thesis
    by (intro exI [of _ "take (nat l) rows"])
      (use assms(2) set_take_subset in \<open>fastforce simp: cs_get_history_def bindM_def ret_def newest_first_def\<close>)
qed

lemma unread_rows:
  assumes "t \<noteq> []" "fits_int a"
  shows "\<exists>rows. cs_get_unread_history E t a s = (Inr (map row_to_json rows), s) \<and>
    set rows = rows_where (M s) (\<lambda>r. in_view r \<and> mr_target_id r = t \<and> a < mr_time_stamp r \<and> mr_deleted r \<noteq> Some True)"
proof -
  obtain rows where rows: "cq_msgs_select_by_time_stamp (cs_cql E) t a s = (Inr rows, s)"
    "newest_first (M s) (\<lambda>r. in_view r \<and> mr_target_id r = t \<and> a < mr_time_stamp r) rows"
    using select_by_time_stamp [OF assms] by blast
  then show ?thesis
    by (intro exI [of _ "filter not_deleted rows"])
      (auto simp: cs_get_unread_history_def bindM_def ret_def newest_first_def rows_where_def not_deleted_def)
qed

end

end
