(* ===== verification/Queue_Redis.thy ===== *)
theory Queue_Redis
  imports Queue_Bans Cassandra_Facts Storage_Redis Request_Redis Presence_Facts
begin

section \<open>The handler of the queue over the Redis database\<close>

text \<open>
  The environment of a node with \<open>DatabaseRedis\<close>, \<open>CacheRedis\<close> and a message storage, which is
  \<open>StorageRedis\<close> or \<open>CassandraStorage\<close>, and a socket server in memory. The state of the storage is
  beside that of database and cache.
\<close>

subsection \<open>Message storages\<close>

text \<open>
  The three operations that the handler calls. The storage on Redis cannot say which messages a user
  sent, does not have the method for those in a room, and needs the room to delete a message.
\<close>

record 'm message_ops =
  sg_ids :: "string option \<Rightarrow> ('m, string list) op"
  sg_ids_in_room :: "string option \<Rightarrow> string \<Rightarrow> ('m, string list) op"
  sg_delete :: "string \<Rightarrow> ('m, unit) op"

definition redis_messages :: "'m stenv \<Rightarrow> 'm message_ops" where
  "redis_messages SE = \<lparr>
     sg_ids = (\<lambda>u. st_get_undeleted_message_ids_for_user (fmt u)),
     sg_ids_in_room = (\<lambda>u r. throw AttributeError),
     sg_delete = (\<lambda>m. st_delete_message SE (Some m) None)\<rparr>"

definition cassandra_messages :: "'m csenv \<Rightarrow> 'm message_ops" where
  "cassandra_messages CE = \<lparr>
     sg_ids = (\<lambda>u. bindM (key_value u) (cs_get_undeleted_message_ids_for_user CE)),
     sg_ids_in_room = (\<lambda>u r. bindM (key_value u) (\<lambda>u. cs_get_undeleted_message_ids_for_user_and_room CE u r)),
     sg_delete = (\<lambda>m. cs_delete_message CE m False)\<rparr>"

text \<open>A storage that answers, in the states of an invariant that it keeps.\<close>

locale message_store =
  fixes T :: "'m message_ops" and S :: "'m \<Rightarrow> bool"
  assumes ids: "answers S (sg_ids T (Some u))"
    and in_room: "preserves S (sg_ids_in_room T v r)"
    and deletes: "answers S (sg_delete T m)"

sublocale cassandra_storage \<subseteq> messages: message_store "cassandra_messages E" "\<lambda>s. well_stamped E (M s)"
proof
  show "answers (\<lambda>s. well_stamped E (M s)) (sg_delete (cassandra_messages E) m)" for m
    unfolding answers_def cassandra_messages_def message_ops.simps cs_delete_message_def cd_msg_delete_def
    using msg_delete_run well_stamped_marks by metis
  show "preserves (\<lambda>s. well_stamped E (M s)) (sg_ids_in_room (cassandra_messages E) v r)" for v r
    by (cases v) (simp_all add: preserves_def cassandra_messages_def key_value_def op_simps
        cs_get_undeleted_message_ids_for_user_and_room_def)
qed (simp_all add: answers_def cassandra_messages_def key_value_def op_simps cs_get_undeleted_message_ids_for_user_def)

subsection \<open>The environment\<close>

definition on_pw :: "('s pw, 'a) op \<Rightarrow> ('s pw \<times> 'm, 'a) op" where
  "on_pw m w = (case m (fst w) of (r, p) \<Rightarrow> (r, (p, snd w)))"

definition on_store :: "('m, 'a) op \<Rightarrow> ('s pw \<times> 'm, 'a) op" where
  "on_store m w = (case m (snd w) of (r, x) \<Rightarrow> (r, (fst w, x)))"

text \<open>An operation of the database, which has the cache behind it.\<close>

definition on_dr :: "(('s, 's cw) dbw, 'a) op \<Rightarrow> ('s pw \<times> 'm, 'a) op" where
  "on_dr m = on_pw (\<lambda>w. case m \<lparr>db_redis = pw_db w, db_cache = pw_cw w\<rparr> of
     (r, d) \<Rightarrow> (r, w\<lparr>pw_db := db_redis d, pw_cw := db_cache d\<rparr>))"

definition node_denv :: "'s penv \<Rightarrow> (string list \<Rightarrow> string list) \<Rightarrow> int \<Rightarrow> ('s, 's cw) denv" where
  "node_denv P order tz = \<lparr>de_redis = pe_db P, de_cache = redis_icache (pe_cache P), de_order = order, de_tz = tz\<rparr>"

text \<open>\<open>N\<close> gives the node, the clock, the socket server and the observers.\<close>

definition redis_nenv :: "'s penv \<Rightarrow> (string list \<Rightarrow> string list) \<Rightarrow> 'm message_ops \<Rightarrow> ('s pw \<times> 'm, 'k) nenv \<Rightarrow>
    ('s pw \<times> 'm, 'k) nenv" where
  "redis_nenv P order T N = (let D = node_denv P order (nv_tz N) in N\<lparr>
     nv_sids := (\<lambda>u. on_dr (dr_get_sids_for_user D u)),
     nv_user_name := (\<lambda>u. need u (\<lambda>u. on_dr (dr_get_user_name D u))),
     nv_room_name := (\<lambda>r. need r (\<lambda>r. on_dr (dr_get_room_name D r))),
     nv_channel_name := (\<lambda>c. need c (\<lambda>c. on_dr (dr_get_channel_name D c))),
     nv_ban_user_global := (\<lambda>u ts d reason b. need u (\<lambda>u. on_dr (dr_ban_user_global D u ts (fmt d)))),
     nv_ban_user_channel := (\<lambda>u ts d c reason b. need u (\<lambda>u. on_dr (dr_ban_user_channel D u ts (fmt d) (fmt c)))),
     nv_ban_user_room := (\<lambda>u ts d r reason b. need u (\<lambda>u. on_dr (dr_ban_user_room D u ts (fmt d) (fmt r)))),
     nv_rooms_for_user := (\<lambda>u. bindM (on_dr (dr_rooms_for_user D (fmt u))) (\<lambda>rs. ret (map fst rs))),
     nv_rooms_for_channel := (\<lambda>c. bindM (on_dr (dr_rooms_for_channel D (fmt c))) (\<lambda>rs. ret (map fst rs))),
     nv_leave_room := (\<lambda>u r. need u (\<lambda>u. on_dr (dr_leave_room D u r))),
     nv_user_status := (\<lambda>u. on_pw (db_get_user_status P (fmt u))),
     nv_set_user_offline := (\<lambda>u. need u (\<lambda>u. on_pw (db_set_user_offline P u))),
     nv_remove_from_multicast := (\<lambda>u. need u (\<lambda>u. on_pw (cr_remove_from_multicast_on_disconnect P u))),
     nv_message_ids := (\<lambda>u. on_store (sg_ids T u)),
     nv_message_ids_in_room := (\<lambda>u r. on_store (sg_ids_in_room T u r)),
     nv_delete_message := (\<lambda>m. on_store (sg_delete T m))\<rparr>)"

lemma redis_nenv_simps [simp]:
  "nv_node (redis_nenv P order T N) = nv_node N" "nv_now (redis_nenv P order T N) = nv_now N"
  "nv_tz (redis_nenv P order T N) = nv_tz N" "nv_strftime (redis_nenv P order T N) = nv_strftime N"
  "so_rooms (redis_nenv P order T N) = so_rooms N" "so_leave (redis_nenv P order T N) = so_leave N"
  "so_disconnect (redis_nenv P order T N) = so_disconnect N"
  "nv_sids (redis_nenv P order T N) u = on_dr (dr_get_sids_for_user (node_denv P order (nv_tz N)) u)"
  "nv_user_name (redis_nenv P order T N) (Some x) = on_dr (dr_get_user_name (node_denv P order (nv_tz N)) x)"
  "nv_ban_user_global (redis_nenv P order T N) (Some x) ts d re b =
     on_dr (dr_ban_user_global (node_denv P order (nv_tz N)) x ts (fmt d))"
  "nv_rooms_for_user (redis_nenv P order T N) (Some x) =
     bindM (on_dr (dr_rooms_for_user (node_denv P order (nv_tz N)) x)) (\<lambda>rs. ret (map fst rs))"
  "nv_leave_room (redis_nenv P order T N) (Some x) r = on_dr (dr_leave_room (node_denv P order (nv_tz N)) x r)"
  "nv_leave_room (redis_nenv P order T N) None r = throw RedisError"
  "nv_user_status (redis_nenv P order T N) (Some x) = on_pw (db_get_user_status P x)"
  "nv_set_user_offline (redis_nenv P order T N) (Some x) = on_pw (db_set_user_offline P x)"
  "nv_remove_from_multicast (redis_nenv P order T N) (Some x) = on_pw (cr_remove_from_multicast_on_disconnect P x)"
  "nv_message_ids (redis_nenv P order T N) u = on_store (sg_ids T u)"
  "nv_message_ids_in_room (redis_nenv P order T N) u r = on_store (sg_ids_in_room T u r)"
  "nv_delete_message (redis_nenv P order T N) m = on_store (sg_delete T m)"
  by (simp_all add: redis_nenv_def Let_def need_def fmt_def)

lemma members_redis [simp]: "members (redis_nenv P order T N) = members N"
  by (simp add: members_def sockets_in_def fun_eq_iff)

lemma reached_redis [simp]: "reached (redis_nenv P order T N) = reached N"
  by (simp add: reached_def fun_eq_iff)

lemma sids_out_redis [simp]: "sids_out (redis_nenv P order T N) = sids_out N"
  by (simp add: sids_out_def fun_eq_iff)

subsection \<open>A known user\<close>

text \<open>
  The users of \<open>names\<close> are known, the user \<open>i\<close> has the socket \<open>sid\<close>, what the process has in memory about
  statuses agrees with Redis, the storage is in a state it can work in, and the ban of the user from
  everything, if one is asked for, is stored.
\<close>

definition node_view :: "'s penv \<Rightarrow> 's pw \<times> 'm \<Rightarrow> dbv" where
  "node_view P w = view (pe_db P) (pw_db (fst w))"

definition node_inv :: "'s penv \<Rightarrow> ('m \<Rightarrow> bool) \<Rightarrow> (string \<Rightarrow> string option) \<Rightarrow> int \<Rightarrow> string \<Rightarrow> string option \<Rightarrow>
    's pw \<times> 'm \<Rightarrow> bool" where
  "node_inv P S names i sid ban w \<longleftrightarrow> status_ok P (fst w) \<and> S (snd w) \<and> names \<subseteq>\<^sub>m v_user_names (node_view P w) \<and>
     v_sids (node_view P w) (str_int i) = Some sid \<and>
     (ban \<noteq> None \<longrightarrow> v_bans (node_view P w) None (str_int i) = ban)"

lemma node_inv_pw:
  assumes "node_inv P S names i sid ban w" "status_ok P p" "pw_db p = pw_db (fst w)"
  shows "node_inv P S names i sid ban (p, snd w)"
  using assms by (simp add: node_inv_def node_view_def)

lemma node_inv_store: "node_inv P S names i sid ban w \<Longrightarrow> S x \<Longrightarrow> node_inv P S names i sid ban (fst w, x)"
  by (simp add: node_inv_def node_view_def)

lemma on_store_answers: "answers S m \<Longrightarrow> answers (node_inv P S names i sid ban) (on_store m)"
  unfolding answers_def on_store_def
proof (intro allI impI)
  fix w assume m: "\<forall>w. S w \<longrightarrow> (\<exists>a w'. m w = (Inr a, w') \<and> S w')" and I: "node_inv P S names i sid ban w"
  then obtain a x where "m (snd w) = (Inr a, x)" "S x" by (auto simp: node_inv_def)
  with node_inv_store [OF I] show "\<exists>a w'. (case m (snd w) of (r, x) \<Rightarrow> (r, (fst w, x))) = (Inr a, w') \<and>
      node_inv P S names i sid ban w'" by auto
qed

lemma str_int_valid: "str_int i \<noteq> []" "\<not> none_or_blank (Some (str_int i))"
  using not_blank_str_int [of i] by (auto simp: none_or_blank_def blank_def)

text \<open>Operations of the database that do not touch the cache.\<close>

lemma on_dr_same:
  "m \<lparr>db_redis = pw_db (fst w), db_cache = pw_cw (fst w)\<rparr> = (r, \<lparr>db_redis = s, db_cache = pw_cw (fst w)\<rparr>) \<Longrightarrow>
    on_dr m w = (r, ((fst w)\<lparr>pw_db := s\<rparr>, snd w))"
  by (simp add: on_dr_def on_pw_def)

lemma node_denv_simps [simp]: "de_redis (node_denv P order tz) = pe_db P"
  by (simp add: node_denv_def)

lemma dv_node [simp]: "dv (node_denv P order tz) \<lparr>db_redis = s, db_cache = c\<rparr> = view (pe_db P) s"
  by (simp add: dv_def)


lemma on_dr_read: "(\<And>d. m d = (Inr a, d)) \<Longrightarrow> on_dr m w = (Inr a, w)"
  by (simp add: on_dr_def on_pw_def)

context redis_client begin

lemma view_leave:
  "v_user_names (view R (r_hdel R s (rk_users_in_room r) f)) = v_user_names (view R s)"
  "v_sids (view R (r_hdel R s (rk_users_in_room r) f)) = v_sids (view R s)"
  "v_bans (view R (r_hdel R s (rk_users_in_room r) f)) = v_bans (view R s)"
  by (auto simp: view_def laws view_key_simps fun_eq_iff banned_key_text split: option.split)

end

subsection \<open>The contract of the database is met\<close>

locale redis_node = presence_env P
  for P :: "'s penv" +
  fixes order :: "string list \<Rightarrow> string list" and T :: "'m message_ops" and N :: "('s pw \<times> 'm, 'k) nenv" and S :: "'m \<Rightarrow> bool"
    and names :: "string \<Rightarrow> string option" and i :: int and sid :: string and ban :: "string option"
  assumes a_node: "nv_node N \<in> {''app'', ''wio''}" and user_named: "names (str_int i) \<noteq> None" and user_bit: "bit_offset i"
begin

lemma user_name_answers:
  assumes "names x \<noteq> None"
  shows "answers (node_inv P S names i sid ban) (nv_user_name (redis_nenv P order T N) (Some x))"
  unfolding answers_def
proof (intro allI impI)
  fix w :: "'s pw \<times> 'm" assume I: "node_inv P S names i sid ban w"
  obtain n where "names x = Some n" using assms by auto
  with I have "v_user_names (node_view P w) x = Some n" by (auto simp: node_inv_def map_le_def dom_def)
  then have "nv_user_name (redis_nenv P order T N) (Some x) w = (Inr n, w)"
    by (simp add: on_dr_def on_pw_def get_user_name_run node_view_def)
  with I show "\<exists>a w'. nv_user_name (redis_nenv P order T N) (Some x) w = (Inr a, w') \<and> node_inv P S names i sid ban w'"
    by blast
qed

lemma sids_run:
  assumes "node_inv P S names i sid ban w"
  shows "nv_sids (redis_nenv P order T N) (Some (str_int i)) w = (Inr [sid], w)"
  using assms str_int_valid(2) [of i]
  by (simp add: on_dr_def on_pw_def dr_get_sids_for_user_def dr_require_user_id_def db_run node_inv_def node_view_def)

lemma rooms_answers: "answers (node_inv P S names i sid ban) (nv_rooms_for_user (redis_nenv P order T N) (Some x))"
  by (auto simp: answers_def on_dr_def on_pw_def dr_rooms_for_user_def db_run bindM_def)

lemma ban_written_run:
  "nv_ban_user_global (redis_nenv P order T N) (Some u) ts d r b w =
    (Inr (), ((fst w)\<lparr>pw_db := r_hset (pe_db P) (pw_db (fst w)) (rk_banned_users None) u
      (ban_entry (fmt d) ts (case v_user_names (node_view P w) u of None \<Rightarrow> [] | Some n \<Rightarrow> n))\<rparr>, snd w))"
  by (simp add: on_dr_def on_pw_def dr_ban_user_global_def op_simps d_defs node_view_def)

lemma inv_ban_written:
  assumes "node_inv P S names i sid ban w" "ban = None"
  shows "node_inv P S names i sid ban (snd (nv_ban_user_global (redis_nenv P order T N) (Some u) ts d r b w))"
  unfolding ban_written_run using assms
  by (simp add: node_inv_def node_view_def redis_client.view_hset [OF db_client])

lemma leave_preserves: "preserves (node_inv P S names i sid ban) (nv_leave_room (redis_nenv P order T N) v r)"
proof (cases v)
  case None
  then show ?thesis by (simp add: preserves_def throw_def)
next
  case (Some x)
  then show ?thesis
    by (auto simp: preserves_def on_dr_def on_pw_def dr_leave_room_def op_simps d_defs node_inv_def node_view_def
        redis_client.view_leave [OF db_client] redis_client.view_hdel [OF db_client] split: option.splits)
qed

lemma status_answers: "answers (node_inv P S names i sid ban) (nv_user_status (redis_nenv P order T N) (Some (str_int i)))"
  unfolding answers_def
proof (intro allI impI)
  fix w :: "'s pw \<times> 'm" assume I: "node_inv P S names i sid ban w"
  then obtain m where "db_get_user_status P (str_int i) (fst w) =
      (Inr (ps_status (presence P (fst w) i)), (fst w)\<lparr>pw_cw := (pw_cw (fst w))\<lparr>cw_mem := m\<rparr>\<rparr>)"
    "status_ok P ((fst w)\<lparr>pw_cw := (pw_cw (fst w))\<lparr>cw_mem := m\<rparr>\<rparr>)"
    using status_known by (meson node_inv_def)
  with node_inv_pw [OF I this(2)] show "\<exists>a w'. nv_user_status (redis_nenv P order T N) (Some (str_int i)) w = (Inr a, w') \<and>
      node_inv P S names i sid ban w'" by (simp add: on_pw_def)
qed

end

definition same_db :: "'s pw \<Rightarrow> 's pw \<Rightarrow> bool" where
  "same_db w w' \<longleftrightarrow> pw_db w' = pw_db w"

interpretation db_kept: state_relation same_db
  by unfold_locales (simp_all add: same_db_def)

lemma in_cache_same_db: "keeps same_db (in_cache m)" "keeps same_db (publish u v t x)" "keeps same_db (gets g)"
  by (simp_all add: keeps_def same_db_def in_cache_def publish_def modify_def gets_def split: prod.split)

lemma offline_same_db: "keeps same_db (db_set_user_offline P u)"
proof -
  note rules = db_kept.keeps_bindM db_kept.keeps_thenM db_kept.keeps_if db_kept.keeps_option db_kept.keeps_basic in_cache_same_db
  have 1: "keeps same_db (publish_status P u v)" for u v unfolding publish_status_def by (intro rules)
  have 2: "keeps same_db (trim_user_changed_at P)"
    unfolding trim_user_changed_at_def now_of_def whenM_def pipeline_def by (intro rules)
  have 3: "keeps same_db (set_last_online_now P u)" for u
    unfolding set_last_online_now_def now_of_def Let_def by (intro rules 1)
  have 4: "keeps same_db (db_get_user_status P u)" for u unfolding db_get_user_status_def by (intro rules)
  show ?thesis
    unfolding db_set_user_offline_def cr_set_user_offline_def Let_def now_of_def run_status_pipeline_def set_status_in_memory_def
      pipeline_def
    by (intro rules 1 2 3 4)
qed

context redis_node begin

lemma offline_run:
  assumes "node_inv P S names i sid ban w"
  shows "\<exists>w'. nv_set_user_offline (redis_nenv P order T N) (Some (str_int i)) w = (Inr (), w') \<and>
    node_inv P S names i sid ban w' \<and> presence P (fst w') i = is_offline"
proof -
  have "status_ok P (fst w)" using assms by (simp add: node_inv_def)
  then obtain p where p: "db_set_user_offline P (str_int i) (fst w) = (Inr (), p)" "makes P i (\<lambda>_. is_offline) (fst w) p"
    using set_offline_run user_bit by (metis db_set_user_offline_def)
  have "pw_db p = pw_db (fst w)" using keepsD [OF offline_same_db p(1)] by (simp add: same_db_def)
  with p node_inv_pw [OF assms, of p] show ?thesis by (auto simp: on_pw_def makes_def)
qed

lemma multicast_run:
  assumes "node_inv P S names i sid ban w"
  shows "\<exists>w'. nv_remove_from_multicast (redis_nenv P order T N) (Some (str_int i)) w = (Inr (), w') \<and>
    node_inv P S names i sid ban w' \<and> \<not> ps_multicast (presence P (fst w') i)"
proof -
  let ?p = "(fst w)\<lparr>pw_cw := (pw_cw (fst w))\<lparr>cw_redis := r_srem (ce_redis (pe_cache P)) (cw_redis (pw_cw (fst w)))
    rk_users_multi_cast (str_int i)\<rparr>\<rparr>"
  have run: "nv_remove_from_multicast (redis_nenv P order T N) (Some (str_int i)) w = (Inr (), (?p, snd w))"
    by (simp add: on_pw_def cr_remove_from_multicast_on_disconnect_def presence_runs)
  have "status_ok P ?p" using assms by (simp add: node_inv_def status_ok_def presence_laws)
  moreover have "\<not> ps_multicast (presence P ?p i)" by (simp add: presence_def Let_def presence_laws)
  ultimately show ?thesis using node_inv_pw [OF assms, of ?p] run by auto
qed

end

sublocale redis_node \<subseteq> db: ban_db "redis_nenv P order T N" "node_inv P S names i sid ban" "str_int i" "[sid]"
  "{Some b |b. names b \<noteq> None}" "\<lambda>_ _. ban = None"
proof
  show "answers (node_inv P S names i sid ban) (nv_user_name (redis_nenv P order T N) b)" if "b \<in> {Some b |b. names b \<noteq> None}" for b
    using that user_name_answers by auto
  show "answers (node_inv P S names i sid ban) (nv_ban_user_global (redis_nenv P order T N) (Some (str_int i)) ts d r b)"
    if "ban = None" for ts d r b
    using inv_ban_written [OF _ that] by (simp add: answers_def ban_written_run del: redis_nenv_simps)
qed (use a_node user_named user_name_answers rooms_answers sids_run in \<open>auto simp del: redis_nenv_simps(7-)\<close>)

text \<open>With the storage on Redis the ban stops at the messages of the user.\<close>

locale redis_storage_node = redis_node P order "redis_messages SE" N S names i sid ban
  for P :: "'s penv" and order and SE :: "'m stenv" and N :: "('s pw \<times> 'm, 'k) nenv" and S names i sid ban +
  assumes has_sid: "sid \<noteq> []"

sublocale redis_storage_node \<subseteq> blocked: ban_blocked "redis_nenv P order (redis_messages SE) N"
  "node_inv P S names i sid ban" "str_int i" "[sid]" "{Some b |b. names b \<noteq> None}" "\<lambda>_ _. ban = None"
  by unfold_locales (simp_all add: has_sid on_store_def redis_messages_def st_get_undeleted_message_ids_for_user_def throw_def)

text \<open>With a storage that answers and a socket server that keeps its contract it is carried out.\<close>

locale full_node = redis_node P order T N S names i sid ban + socket_server N + message_store T S
  for P :: "'s penv" and order and T :: "'m message_ops" and N :: "('s pw \<times> 'm, 'k) nenv" and S names i sid ban +
  assumes sid: "sid \<noteq> []"

lemma answersI: "(\<And>w. I w \<Longrightarrow> \<exists>a w'. m w = (Inr a, w') \<and> I w') \<Longrightarrow> answers I m"
  by (simp add: answers_def)

sublocale full_node \<subseteq> carried: ban_node "redis_nenv P order T N"
  "node_inv P S names i sid ban" "str_int i" "[sid]" "{Some b |b. names b \<noteq> None}" "\<lambda>_ _. ban = None"
proof
  show "answers (node_inv P S names i sid ban) (nv_message_ids (redis_nenv P order T N) (Some (str_int i)))"
    "answers (node_inv P S names i sid ban) (nv_delete_message (redis_nenv P order T N) m)" for m
    by (simp_all add: on_store_answers ids deletes)
  show "preserves (node_inv P S names i sid ban) (nv_message_ids_in_room (redis_nenv P order T N) v r)" for v r
    using in_room [of v r] node_inv_store
    by (auto simp: preserves_def on_store_def node_inv_def node_view_def split: prod.split)
  show "answers (node_inv P S names i sid ban) (nv_set_user_offline (redis_nenv P order T N) (Some (str_int i)))"
    using offline_run by (intro answersI) blast
  show "answers (node_inv P S names i sid ban) (nv_remove_from_multicast (redis_nenv P order T N) (Some (str_int i)))"
    using multicast_run by (intro answersI) blast
  show "\<exists>k'. so_leave (redis_nenv P order T N) x room ''/ws'' k = (Inr (), k') \<and> members (redis_nenv P order T N) k' =
      (\<lambda>ns r. if ns = Some ''/ws'' \<and> r = room then members (redis_nenv P order T N) k ns r - {x}
         else members (redis_nenv P order T N) k ns r)" for x room k
    using leave [of x room k] unfolding members_redis by simp
  show "\<exists>k'. so_disconnect (redis_nenv P order T N) x k = (Inr (), k') \<and> members (redis_nenv P order T N) k' =
      (\<lambda>ns r. if ns = Some ''/ws'' then members (redis_nenv P order T N) k ns r - {x} else members (redis_nenv P order T N) k ns r)"
    for x k using disconnect [of x k] unfolding members_redis by simp
qed (use sid leave_preserves status_answers in \<open>simp_all del: redis_nenv_simps\<close>)

text \<open>What the later statements, which are outside of the locales, need of them.\<close>

context redis_node begin

lemma is_ban_db: "ban_db (redis_nenv P order T N) (node_inv P S names i sid ban) (str_int i) [sid] {Some b |b. names b \<noteq> None}
    (\<lambda>_ _. ban = None)"
  by unfold_locales

end

context redis_storage_node begin

lemma is_ban_blocked: "ban_blocked (redis_nenv P order (redis_messages SE) N) (node_inv P S names i sid ban) (str_int i) [sid]
    {Some b |b. names b \<noteq> None} (\<lambda>_ _. ban = None)"
  by unfold_locales

end

context full_node begin

lemma is_ban_node: "ban_node (redis_nenv P order T N) (node_inv P S names i sid ban) (str_int i) [sid] {Some b |b. names b \<noteq> None}
    (\<lambda>_ _. ban = None)"
  by unfold_locales

end

subsection \<open>A ban from everything, over Redis\<close>

definition recorded_ban :: "(string \<Rightarrow> string option) \<Rightarrow> int \<Rightarrow> int \<Rightarrow> string option \<Rightarrow> int \<Rightarrow> string" where
  "recorded_ban names i tz d t = ban_entry (fmt d) (datetime_to_timestamp tz t) (the (names (str_int i)))"

lemma written_entry:
  assumes node: "redis_node P N names i" and I: "node_inv P S names i sid None w"
    and w: "ban_written (redis_nenv P order T N) act (str_int i) d t w w'"
  shows "node_inv P S names i sid (Some (recorded_ban names i (nv_tz N) d t)) w'"
proof -
  note hset = redis_client.view_hset [OF presence_env.db_client [OF redis_node.axioms(1) [OF node]]]
  obtain n where n: "names (str_int i) = Some n" using redis_node_axioms_def node by (auto simp: redis_node_def redis_node_axioms_def)
  then have "v_user_names (node_view P w) (str_int i) = Some n" using I by (auto simp: node_inv_def map_le_def dom_def)
  with I w n show ?thesis
    by (auto simp: ban_written_def redis_node.ban_written_run [OF node] node_inv_def node_view_def recorded_ban_def hset
        simp del: redis_nenv_simps(5-))
qed

lemma global_ban_over_redis:
  assumes node: "full_node P T N S names i sid" and new: "is_new n e x" "window_of xs (nd_handled n)"
    and e: "ban_event e (str_int i) {Some b |b. names b \<noteq> None} (redis_nenv P order T N) d t"
    and here: "reached N (nd_sockets n) (ne_activity e) [sid]" and I: "node_inv P S names i sid None (nd_db n)"
  shows "\<exists>n'. handle_server_activity (redis_nenv P order T N) e n = (Inr (), n') \<and> sids_out N {sid} n n' \<and>
    \<not> ps_multicast (presence P (fst (nd_db n')) i) \<and>
    v_bans (node_view P (nd_db n')) None (str_int i) = Some (recorded_ban names i (nv_tz N) d t)"
proof -
  let ?E = "redis_nenv P order T N" and ?u = "str_int i"
  let ?J = "node_inv P S names i sid (Some (recorded_ban names i (nv_tz N) d t))"
  have r: "redis_node P N names i" using node by (simp add: full_node_def)
  have on_node: "ban_node ?E ?J ?u [sid] {Some b |b. names b \<noteq> None} (\<lambda>_ _. Some (recorded_ban names i (nv_tz N) d t) = None)"
    by (rule full_node.is_ban_node [OF node])
  have bridge: "?J w'" if "node_inv P S names i sid None w" "ban_written ?E (ne_activity e) ?u d t w w'" for w w'
    by (rule written_entry [OF r that])
  have here': "reached ?E (nd_sockets n) (ne_activity e) [sid]" using here by simp
  have "\<exists>n' w. handle_server_activity ?E e n = (Inr (), n') \<and> sids_out ?E (set [sid]) n n' \<and> ?J w \<and>
      (nd_db n' = snd (nv_set_user_offline ?E (Some ?u) w) \<or> nd_db n' = snd (nv_remove_from_multicast ?E (Some ?u) w))"
    by (rule ban_carried_out [OF redis_node.is_ban_db [OF r] on_node _ new e here' I]) (rule bridge, assumption+, rule refl)
  then obtain n' w where n': "handle_server_activity ?E e n = (Inr (), n')" "sids_out ?E (set [sid]) n n'" "?J w"
    "nd_db n' = snd (nv_set_user_offline ?E (Some ?u) w) \<or> nd_db n' = snd (nv_remove_from_multicast ?E (Some ?u) w)"
    by blast
  have "?J (nd_db n') \<and> \<not> ps_multicast (presence P (fst (nd_db n')) i)"
    using n'(4)
  proof
    assume "nd_db n' = snd (nv_set_user_offline ?E (Some ?u) w)"
    moreover obtain w' where "nv_set_user_offline ?E (Some ?u) w = (Inr (), w')" "?J w'" "presence P (fst w') i = is_offline"
      using redis_node.offline_run [OF r n'(3)] by blast
    ultimately show ?thesis by (simp add: is_offline_def)
  next
    assume "nd_db n' = snd (nv_remove_from_multicast ?E (Some ?u) w)"
    moreover obtain w' where "nv_remove_from_multicast ?E (Some ?u) w = (Inr (), w')" "?J w'" "\<not> ps_multicast (presence P (fst w') i)"
      using redis_node.multicast_run [OF r n'(3)] by blast
    ultimately show ?thesis by simp
  qed
  with n'(1,2) show ?thesis by (auto simp: node_inv_def)
qed

lemma global_ban_stops_over_redis:
  assumes node: "redis_storage_node P N names i sid" and new: "is_new n e x" "window_of xs (nd_handled n)"
    and e: "ban_event e (str_int i) {Some b |b. names b \<noteq> None} (redis_nenv P order (redis_messages SE) N) d t"
    and here: "reached N (nd_sockets n) (ne_activity e) [sid]" and I: "node_inv P S names i sid None (nd_db n)"
  shows "\<exists>n' m. handle_server_activity (redis_nenv P order (redis_messages SE) N) e n = (Inr (), n') \<and>
    nd_sockets n' = nd_sockets n \<and> nd_external n' = nd_external n \<and> nd_emits n' = nd_emits n @ [m] \<and> em_room m = Some (str_int i)"
  using ban_blocked.global_ban_stopped [OF redis_storage_node.is_ban_blocked [OF node] new e _ I] here by simp

text \<open>A node without the socket sends the event on, records the ban, and every node drops what was sent on.\<close>

lemma ban_sent_on_over_redis:
  assumes node: "redis_node P N names i" and new: "is_new n e (Some x)" "window_of xs (nd_handled n)" and x: "ne_id e = Text x"
    and del: "window_of ys (nd_delegated n)"
    and e: "ban_event e (str_int i) {Some b |b. names b \<noteq> None} (redis_nenv P order T N) d t"
    and away: "\<not> reached N (nd_sockets n) (ne_activity e) [sid]" and I: "node_inv P S names i sid None (nd_db n)"
  shows "\<exists>n'. handle_server_activity (redis_nenv P order T N) e n = (Inr (), n') \<and>
    nd_internal n' = nd_internal n @ [delegated_event e] \<and> nd_sockets n' = nd_sockets n \<and> nd_emits n' = nd_emits n \<and>
    v_bans (node_view P (nd_db n')) None (str_int i) = Some (recorded_ban names i (nv_tz N) d t)"
proof -
  let ?E = "redis_nenv P order T N"
  have "\<not> reached ?E (nd_sockets n) (ne_activity e) [sid]" using away by simp
  from ban_db.sent_on_run [OF redis_node.is_ban_db [OF node] new x del e this I]
  obtain n' w where n': "handle_server_activity ?E e n = (Inr (), n')" "nd_internal n' = nd_internal n @ [delegated_event e]"
    "nd_sockets n' = nd_sockets n" "nd_emits n' = nd_emits n" "node_inv P S names i sid None w"
    "ban_written ?E (ne_activity e) (str_int i) d t w (nd_db n')" by auto
  from written_entry [OF node n'(5,6)] n'(1-4) show ?thesis by (auto simp: node_inv_def)
qed

subsection \<open>A socket server in memory\<close>

type_synonym socket_rooms = "string \<Rightarrow> string list option"

definition memory_leave :: "string \<Rightarrow> string \<Rightarrow> string \<Rightarrow> (socket_rooms, unit) op" where
  "memory_leave sid room namespace = modify (\<lambda>k. if namespace = ''/ws''
     then k(room := map_option (removeAll sid) (k room)) else k)"

definition memory_disconnect :: "string \<Rightarrow> (socket_rooms, unit) op" where
  "memory_disconnect sid = modify (\<lambda>k r. map_option (removeAll sid) (k r))"

text \<open>A node at the time \<open>now\<close> with this socket server; the database is filled in by \<open>redis_nenv\<close>.\<close>

definition memory_node :: "int \<Rightarrow> ('w, socket_rooms) nenv" where
  "memory_node now = \<lparr>nv_node = ''wio'', nv_now = now, nv_tz = 0, nv_strftime = date_text,
     nv_stamp = (\<lambda>n. \<lparr>sp_id = ''id'', sp_published = ''now'', sp_environment = ''test''\<rparr>),
     so_rooms = (\<lambda>k ns. if ns = Some ''/ws'' then Some k else None),
     so_connected = (\<lambda>k sid ns. ns = ''/ws'' \<and> k sid \<noteq> None),
     so_leave = memory_leave, so_disconnect = memory_disconnect,
     nv_sids = (\<lambda>_. dr_not_implemented), nv_user_name = (\<lambda>_. dr_not_implemented), nv_room_name = (\<lambda>_. dr_not_implemented),
     nv_channel_name = (\<lambda>_. dr_not_implemented), nv_ban_user_global = (\<lambda>_ _ _ _ _. dr_not_implemented),
     nv_ban_user_channel = (\<lambda>_ _ _ _ _ _. dr_not_implemented), nv_ban_user_room = (\<lambda>_ _ _ _ _ _. dr_not_implemented),
     nv_rooms_for_user = (\<lambda>_. dr_not_implemented), nv_rooms_for_channel = (\<lambda>_. dr_not_implemented),
     nv_leave_room = (\<lambda>_ _. dr_not_implemented), nv_user_status = (\<lambda>_. dr_not_implemented),
     nv_set_user_offline = (\<lambda>_. dr_not_implemented), nv_remove_from_multicast = (\<lambda>_. dr_not_implemented),
     nv_message_ids = (\<lambda>_. dr_not_implemented), nv_message_ids_in_room = (\<lambda>_ _. dr_not_implemented),
     nv_delete_message = (\<lambda>_. dr_not_implemented), nv_observe = (\<lambda>_ _. ret ())\<rparr>"

definition listed :: "string list option \<Rightarrow> string set" where
  "listed v = (case v of None \<Rightarrow> {} | Some l \<Rightarrow> set l)"

lemma listed_remove [simp]: "listed (map_option (removeAll x) v) = listed v - {x}"
  by (auto simp: listed_def split: option.split)

lemma memory_members: "members (memory_node now) k ns r = (if ns = Some ''/ws'' then listed (k r) else {})"
  by (simp add: listed_def members_def sockets_in_def memory_node_def split: option.split)

lemma memory_leave_run: "so_leave (memory_node now) x room ''/ws'' k = (Inr (), k(room := map_option (removeAll x) (k room)))"
  by (simp add: memory_node_def memory_leave_def op_simps)

lemma memory_disconnect_run: "so_disconnect (memory_node now) x k = (Inr (), \<lambda>r. map_option (removeAll x) (k r))"
  by (simp add: memory_node_def memory_disconnect_def op_simps)

interpretation memory_sockets: socket_server "memory_node now" for now
proof
  fix x room :: string and k
  show "\<exists>k'. so_leave (memory_node now) x room ''/ws'' k = (Inr (), k') \<and> members (memory_node now) k' =
      (\<lambda>ns r. if ns = Some ''/ws'' \<and> r = room then members (memory_node now) k ns r - {x} else members (memory_node now) k ns r)"
    by (intro exI conjI, rule memory_leave_run) (auto simp: memory_members fun_eq_iff)
  show "\<exists>k'. so_disconnect (memory_node now) x k = (Inr (), k') \<and> members (memory_node now) k' =
      (\<lambda>ns r. if ns = Some ''/ws'' then members (memory_node now) k ns r - {x} else members (memory_node now) k ns r)"
    by (intro exI conjI, rule memory_disconnect_run) (auto simp: memory_members fun_eq_iff)
qed

end
