(* ===== verification/Queue_Memory.thy ===== *)
theory Queue_Memory
  imports Queue_Redis
begin

section \<open>A node in memory\<close>

text \<open>
  Nodes over stores and tables in memory, with the one user Bob, on which the contracts of the
  earlier theories hold; and the event that bans him from everything for five minutes.
\<close>

definition memory_csenv :: "tables csenv" where
  "memory_csenv = \<lparr>cs_cql = memory_cql, cs_tz = 0\<rparr>"

interpretation memory_storage: cassandra_storage memory_csenv table_messages table_acks
  unfolding cassandra_storage_def memory_csenv_def csenv.simps by (rule memory_tables.cassandra_axioms)

interpretation memory_messages: message_store "cassandra_messages memory_csenv" "\<lambda>s. well_stamped memory_csenv (table_messages s)"
  by (rule memory_storage.messages.message_store_axioms)

definition bob_names :: "string \<Rightarrow> string option" where
  "bob_names = [''7'' \<mapsto> ''Bob'']"

lemma str_int_7: "str_int 7 = ''7''"
  by code_simp

lemma memory_redis_node: "redis_node memory_penv (memory_node now) bob_names 7"
  unfolding redis_node_def redis_node_axioms_def
  by (simp add: memory_presence.presence_env_axioms memory_node_def bob_names_def str_int_7 bit_offset_def)

interpretation memory_redis: redis_node memory_penv order T "memory_node now" S bob_names 7 "''s''" ban for order T now S ban
  by (rule memory_redis_node)

interpretation memory_stopped: redis_storage_node memory_penv order SE "memory_node now" S bob_names 7 "''s''" ban
  for order SE now S ban
  by unfold_locales simp

interpretation memory_full: full_node memory_penv order "cassandra_messages memory_csenv" "memory_node now"
  "\<lambda>s. well_stamped memory_csenv (table_messages s)" bob_names 7 "''s''" ban for order now ban
  by unfold_locales simp

subsection \<open>Bob and his ban\<close>

definition bob_db :: "store pw" where
  "bob_db = \<lparr>pw_cw = \<lparr>cw_redis = empty_store, cw_mem = [], cw_now = 0\<rparr>,
     pw_db = empty_store\<lparr>st_hashes := (\<lambda>_. [])(rk_user_names := [(''7'', ''Bob'')], rk_sid_for_user_id := [(''7'', ''s'')])\<rparr>,
     pw_events = []\<rparr>"

definition no_messages :: tables where
  "no_messages = \<lparr>tb_messages = [], tb_acks = []\<rparr>"

text \<open>The rooms of the socket server; a socket is in the room of its own id.\<close>

definition bob_sockets :: socket_rooms where
  "bob_sockets = [''s'' \<mapsto> [''s''], ''7'' \<mapsto> [''s''], ''r'' \<mapsto> [''t'', ''s'']]"

definition bob_node :: "socket_rooms \<Rightarrow> 'm \<Rightarrow> (store pw \<times> 'm, socket_rooms) node" where
  "bob_node sockets m = \<lparr>nd_db = (bob_db, m), nd_sockets = sockets, nd_emits = [], nd_internal = [], nd_external = [],
     nd_delegated = empty_window, nd_handled = empty_window\<rparr>"

definition bob_ban :: node_event where
  "bob_ban = \<lparr>ne_id = Text ''e'', ne_revision = None, ne_activity = blank_activity\<lparr>av_id := Text ''e'', av_verb := Text ''ban'',
     av_actor := Some (blank_entity\<lparr>en_id := Text ''0'', en_display_name := Null\<rparr>),
     av_object := Some (blank_entity\<lparr>en_id := Text ''7'', en_display_name := Text ''Bob'', en_summary := Text ''5m'', en_content := Null\<rparr>),
     av_target := Some (blank_entity\<lparr>en_id := Null, en_display_name := Null, en_object_type := Null, en_url := Null\<rparr>)\<rparr>\<rparr>"

lemma bob_is_new: "is_new (bob_node k m) bob_ban (Some ''e'')" "window_of [] (nd_handled (bob_node k m))"
    "window_of [] (nd_delegated (bob_node k m))"
  using window_of_empty by (simp_all add: is_new_def bob_node_def bob_ban_def empty_window_def window_of_def)

lemma bob_ban_event:
  "ban_event bob_ban (str_int 7) {Some b |b. bob_names b \<noteq> None} (redis_nenv memory_penv order T (memory_node 0)) (Some ''5m'') 300000000"
  unfolding ban_event_def redis_nenv_simps str_int_7
proof (intro conjI)
  have "is_valid_id (Some ''7'')" "ban_duration_to_datetime 0 (Some ''5m'') = Inr 300000000" by code_simp+
  then show "global_ban_event (ne_activity bob_ban) ''7'' {Some b |b. bob_names b \<noteq> None}"
    "ban_duration_to_datetime (nv_now (memory_node 0)) (Some ''5m'') = Inr 300000000"
    by (simp_all add: bob_ban_def global_ban_event_def named_parts_def named_part_def has_attr_def memory_node_def py_or_def)
qed (simp_all add: bob_ban_def)

lemma bob_state:
  assumes "S m"
  shows "node_inv memory_penv S bob_names 7 ''s'' None (nd_db (bob_node k m))"
  using assms by (auto simp: node_inv_def bob_node_def bob_db_def status_ok_def entry_agrees_def node_view_def view_def bob_names_def
      memory_penv_def store_redis_def str_int_7 map_le_def key_simps)

lemma bob_reached: "reached (memory_node now) bob_sockets (ne_activity bob_ban) [''s'']"
  by (simp add: reached_def memory_node_def bob_sockets_def bob_ban_def)

lemma bob_away: "\<not> reached (memory_node now) Map.empty (ne_activity bob_ban) [''s'']"
  by (simp add: reached_def memory_node_def bob_ban_def)

end
