(* ===== verification/Heartbeats.thy ===== *)
theory Heartbeats
  imports Queue_Handler Keeps "HOL-Library.AList"
begin

section \<open>Heartbeats and disconnecting\<close>

text \<open>
  \<open>HeartbeatManager\<close> of \<^verbatim>\<open>dino/heartbeat/manager.py\<close>, which looks every few seconds for users whose
  last heartbeat is too old, and what \<open>OnDisconnectHooks.handle_disconnect\<close> of
  \<^verbatim>\<open>dino/hooks/disconnect.py\<close> does for a session of heartbeats. Such a session has the id
  \<open>hb-\<close> with the id of the user. Then what a heartbeat does: \<open>HeartbeatResource\<close> of
  \<^verbatim>\<open>dino/rest/resources/heartbeat.py\<close> and \<open>OnHeartbeatHooks\<close> of \<^verbatim>\<open>dino/hooks/heartbeat.py\<close>.
  The operations of database and cache are arguments. What is published is recorded, with the time of
  the last activity if it is added.
\<close>

subsection \<open>The hook\<close>

definition activity_for_sid_disconnect :: "stamp \<Rightarrow> string option \<Rightarrow> string \<Rightarrow> string \<Rightarrow> activity" where
  "activity_for_sid_disconnect t user_id user_name current_sid =
     enrich t (blank_activity\<lparr>
       av_actor := Some (blank_entity\<lparr>en_id := attr_of user_id, en_display_name := Text (b64e (Some user_name)),
         en_content := Text current_sid\<rparr>),
       av_verb := Text ''ended''\<rparr>)"

record published =
  pb_activity :: activity
  pb_updated :: "int option"

record 'w hookw =
  hk_world :: 'w
  hk_published :: "published list"

record 'w hook_env =
  hk_node :: "string option"
  hk_now :: "'w \<Rightarrow> int"
  hk_stamp :: "'w hookw \<Rightarrow> stamp"
  hk_status :: "string option \<Rightarrow> ('w, string) op"
  hk_user_name :: "string option \<Rightarrow> ('w, string) op"
  hk_sids :: "string option \<Rightarrow> ('w, string list) op"
  hk_user_for_sid :: "string \<Rightarrow> ('w, string option) op"
  hk_remove_sid :: "string option \<Rightarrow> string \<Rightarrow> ('w, unit) op"
  hk_db_set_last_online :: "string option \<Rightarrow> ('w, unit) op"
  hk_cache_set_last_online :: "string option \<Rightarrow> ('w, unit) op"
  hk_get_last_online :: "string option \<Rightarrow> ('w, int option) op"
  hk_remove_from_multicast :: "string option \<Rightarrow> ('w, unit) op"
  hk_set_user_offline :: "string option \<Rightarrow> ('w, unit) op"
  hk_create_user :: "string \<Rightarrow> string \<Rightarrow> ('w, unit) op"
  hk_set_user_name :: "string \<Rightarrow> string \<Rightarrow> ('w, unit) op"
  hk_add_sid :: "string \<Rightarrow> string \<Rightarrow> ('w, unit) op"
  hk_check_heartbeat :: "string \<Rightarrow> ('w, bool) op"
  hk_is_super_user :: "string \<Rightarrow> ('w, bool) op"
  hk_is_global_moderator :: "string \<Rightarrow> ('w, bool) op"
  hk_set_user_online :: "string \<Rightarrow> ('w, unit) op"
  hk_set_user_invisible :: "string \<Rightarrow> ('w, unit) op"
  hk_login_activity :: "string \<Rightarrow> string \<Rightarrow> ('w, activity) op"

definition on_world :: "('w, 'a) op \<Rightarrow> ('w hookw, 'a) op" where
  "on_world m h = (case m (hk_world h) of (r, w) \<Rightarrow> (r, h\<lparr>hk_world := w\<rparr>))"

definition hook_publish :: "activity \<Rightarrow> int option \<Rightarrow> ('w hookw, unit) op" where
  "hook_publish a t = modify (\<lambda>h. h\<lparr>hk_published := hk_published h @ [\<lparr>pb_activity = a, pb_updated = t\<rparr>]\<rparr>)"

definition known_name :: "'w hook_env \<Rightarrow> string option \<Rightarrow> ('w hookw, string) op" where
  "known_name E user_id = catchM (on_world (hk_user_name E user_id))
     (\<lambda>e. case e of NoSuchUserException _ \<Rightarrow> Some (ret ''<unknown>'') | _ \<Rightarrow> None)"

text \<open>The list without the session that ends; the database may fail to remove it.\<close>

definition make_sure_current_sid_removed ::
  "'w hook_env \<Rightarrow> string list \<Rightarrow> string option \<Rightarrow> string \<Rightarrow> ('w hookw, string list) op" where
  "make_sure_current_sid_removed E all_sids user_id current_sid =
     (if \<not> is_valid_id user_id \<or> current_sid \<notin> set all_sids then ret all_sids
      else thenM (logged_errors (on_world (hk_remove_sid E user_id current_sid))) (ret (remove1 current_sid all_sids)))"

text \<open>The id for the events: that of the session when there is none, \<open>-1\<close> when that is not known either.\<close>

definition id_of_session :: "'w hook_env \<Rightarrow> string option \<Rightarrow> string \<Rightarrow> ('w hookw, string option option) op" where
  "id_of_session E user_id current_sid =
     (if user_id \<noteq> None \<and> user_id \<noteq> Some ''None'' then ret (Some user_id)
      else if current_sid = ''None'' \<or> current_sid = '''' then ret None
      else bindM (catchM (on_world (hk_user_for_sid E current_sid)) (\<lambda>_. Some (ret (Some ''-1'')))) (\<lambda>u.
        ret (Some (if none_or_blank u then Some ''-1'' else u))))"

definition last_online_at :: "'w hook_env \<Rightarrow> string option \<Rightarrow> bool \<Rightarrow> ('w hookw, int option) op" where
  "last_online_at E user_id use_now =
     (if use_now then gets (\<lambda>h. Some (hk_now E (hk_world h)))
      else catchM (on_world (hk_get_last_online E user_id)) (\<lambda>_. Some (ret None)))"

definition emit_disconnect_event :: "'w hook_env \<Rightarrow> string option \<Rightarrow> string \<Rightarrow> string \<Rightarrow> ('w hookw, unit) op" where
  "emit_disconnect_event E user_id current_sid user_status = logged_errors
     (bindM (known_name E user_id) (\<lambda>user_name.
      bindM (on_world (hk_sids E user_id)) (\<lambda>all_sids.
      bindM (make_sure_current_sid_removed E all_sids user_id current_sid) (\<lambda>all_sids.
      bindM (id_of_session E user_id current_sid) (\<lambda>i. case i of None \<Rightarrow> ret () | Some user_id \<Rightarrow>
      thenM (whenM (user_id \<noteq> Some ''-1'')
        (bindM (gets (hk_stamp E)) (\<lambda>t. hook_publish (activity_for_sid_disconnect t user_id user_name current_sid) None)))
      (whenM (all_sids = [] \<and> user_id \<noteq> Some ''-1'')
        (bindM (gets (hk_stamp E)) (\<lambda>t.
         bindM (last_online_at E user_id (user_status \<noteq> status_invisible)) (\<lambda>updated.
         hook_publish (activity_for_disconnect t user_id user_name) updated)))))))))"

definition set_user_offline :: "'w hook_env \<Rightarrow> string option \<Rightarrow> string \<Rightarrow> string \<Rightarrow> ('w hookw, unit) op" where
  "set_user_offline E user_id current_sid user_status =
     bindM (on_world (hk_sids E user_id)) (\<lambda>all_sids.
     thenM (whenM (user_status \<noteq> status_invisible) (logged_errors
       (thenM (on_world (hk_db_set_last_online E user_id)) (on_world (hk_cache_set_last_online E user_id)))))
     (if length all_sids > 1 then ret ()
      else logged_errors
        (if \<not> is_valid_id user_id then ret ()
         else thenM (on_world (hk_remove_sid E user_id current_sid))
           (bindM (on_world (hk_sids E user_id)) (\<lambda>all_sids.
            if all_sids \<noteq> [] then ret ()
            else on_world (if user_status = status_invisible then hk_remove_from_multicast E user_id
                           else hk_set_user_offline E user_id))))))"

definition handle_heartbeat_disconnect :: "'w hook_env \<Rightarrow> string option \<Rightarrow> ('w hookw, unit) op" where
  "handle_heartbeat_disconnect E user_id =
     bindM (on_world (hk_status E user_id)) (\<lambda>user_status.
     let current_sid = ''hb-'' @ fmt user_id in
     thenM (emit_disconnect_event E user_id current_sid user_status)
           (set_user_offline E user_id current_sid user_status))"

subsection \<open>The manager\<close>

record 'w manager =
  hm_to_check :: "(string \<times> int) list"
  hm_connected :: "string \<Rightarrow> string option"
  hm_world :: 'w

record 'w manager_env =
  hm_expire_second :: int
  hm_testing :: bool
  hm_check :: "string \<Rightarrow> ('w, bool) op"
  hm_observe :: "string \<Rightarrow> ('w, unit) op"

definition on_manager :: "('w, 'a) op \<Rightarrow> ('w manager, 'a) op" where
  "on_manager m h = (case m (hm_world h) of (r, w) \<Rightarrow> (r, h\<lparr>hm_world := w\<rparr>))"

definition has_heartbeat :: "string \<Rightarrow> 'w manager \<Rightarrow> bool" where
  "has_heartbeat user_id h \<longleftrightarrow> user_id \<in> fst ` set (hm_to_check h)"

definition add_heartbeat :: "int \<Rightarrow> string \<Rightarrow> ('w manager, unit) op" where
  "add_heartbeat now user_id = modify (\<lambda>h. h\<lparr>hm_to_check := AList.update user_id now (hm_to_check h)\<rparr>)"

text \<open>The users whose time is over are taken out of the dictionary.\<close>

definition get_all_expired_user_ids :: "'w manager_env \<Rightarrow> int \<Rightarrow> ('w manager, string list) op" where
  "get_all_expired_user_ids E now =
     bindM (gets (\<lambda>h. map fst (filter (\<lambda>(u, t). t < now - hm_expire_second E * micro) (hm_to_check h)))) (\<lambda>expired.
     thenM (modify (\<lambda>h. h\<lparr>hm_to_check := filter (\<lambda>(u, t). \<not> t < now - hm_expire_second E * micro) (hm_to_check h)\<rparr>))
       (ret expired))"

definition check_one :: "'w manager_env \<Rightarrow> int \<Rightarrow> string \<Rightarrow> ('w manager, unit) op" where
  "check_one E now user_id =
     bindM (on_manager (hm_check E user_id)) (\<lambda>still_online.
     if still_online then add_heartbeat now user_id
     else thenM (whenM (\<not> hm_testing E) (modify (\<lambda>h.
            if hm_connected h user_id = Some (''hb-'' @ user_id) then h\<lparr>hm_connected := (hm_connected h)(user_id := None)\<rparr> else h)))
          (on_manager (hm_observe E user_id)))"

definition check_heartbeats :: "'w manager_env \<Rightarrow> int \<Rightarrow> string list \<Rightarrow> ('w manager, unit) op" where
  "check_heartbeats E now user_ids = iterM (check_one E now) user_ids"

text \<open>One round of the loop; an exception is logged.\<close>

definition loop_round :: "'w manager_env \<Rightarrow> int \<Rightarrow> ('w manager, unit) op" where
  "loop_round E now = logged_errors (bindM (get_all_expired_user_ids E now) (check_heartbeats E now))"

subsection \<open>A heartbeat\<close>

definition create_or_update_user :: "'w hook_env \<Rightarrow> string \<Rightarrow> string \<Rightarrow> ('w, unit) op" where
  "create_or_update_user E user_id user_name =
     (if (case hk_node E of None \<Rightarrow> False | Some node \<Rightarrow> contains ''wio'' node) then ret ()
      else thenM (catchM (hk_create_user E user_id user_name)
             (\<lambda>e. case e of UserExistsException _ \<Rightarrow> Some (ret ()) | _ \<Rightarrow> None))
           (hk_set_user_name E user_id user_name))"

definition update_session :: "'w hook_env \<Rightarrow> string \<Rightarrow> string \<Rightarrow> ('w, unit) op" where
  "update_session E user_id user_name =
     thenM (create_or_update_user E user_id user_name) (hk_add_sid E user_id (''hb-'' @ user_id))"

definition publish_first_heartbeat :: "'w hook_env \<Rightarrow> string \<Rightarrow> string \<Rightarrow> ('w hookw manager, unit) op" where
  "publish_first_heartbeat E user_id user_name =
     bindM (gets (has_heartbeat user_id)) (\<lambda>b.
     if b then ret ()
     else on_manager (bindM (on_world (hk_login_activity E user_id user_name)) (\<lambda>a. hook_publish a None)))"

definition set_user_online_if_not_previously_invisible :: "'w hook_env \<Rightarrow> string \<Rightarrow> ('w, unit) op" where
  "set_user_online_if_not_previously_invisible E user_id =
     bindM (hk_status E (Some user_id)) (\<lambda>user_status.
     thenM (hk_check_heartbeat E user_id)
     (bindM (hk_is_super_user E user_id) (\<lambda>super.
      bindM (if super then ret True else hk_is_global_moderator E user_id) (\<lambda>is_op.
      thenM (whenM is_op (logged_errors (thenM (hk_user_name E (Some user_id)) (ret ()))))
       (if user_status \<noteq> status_invisible then hk_set_user_online E user_id else hk_set_user_invisible E user_id)))))"

definition on_heartbeat :: "'w hook_env \<Rightarrow> string \<Rightarrow> string \<Rightarrow> ('w hookw manager, unit) op" where
  "on_heartbeat E user_id user_name =
     thenM (on_manager (on_world (update_session E user_id user_name)))
     (thenM (publish_first_heartbeat E user_id user_name)
            (on_manager (on_world (set_user_online_if_not_previously_invisible E user_id))))"

definition heartbeat_user :: "'w hook_env \<Rightarrow> int \<Rightarrow> string \<Rightarrow> ('w hookw manager, unit) op" where
  "heartbeat_user E now user_id =
     bindM (catchM (on_manager (on_world (hk_user_name E (Some user_id))))
       (\<lambda>e. case e of NoSuchUserException _ \<Rightarrow> Some (ret user_id) | _ \<Rightarrow> None)) (\<lambda>user_name.
     logged_errors (thenM (add_heartbeat now user_id) (on_heartbeat E user_id user_name)))"

text \<open>A request with the ids of users; what fails for one does not stop the others.\<close>

definition heartbeat_request :: "'w hook_env \<Rightarrow> int \<Rightarrow> string list \<Rightarrow> ('w hookw manager, unit) op" where
  "heartbeat_request E now user_ids = iterM (\<lambda>u. logged_errors (heartbeat_user E now u)) user_ids"

text \<open>What updating the dictionary does to its entries.\<close>

lemma in_update: "x \<noteq> v \<Longrightarrow> (x, t) \<in> set (AList.update v n xs) \<longleftrightarrow> (x, t) \<in> set xs"
  by (induction xs) auto

lemma keys_update: "fst ` set (AList.update v n xs) = insert v (fst ` set xs)"
  by (induction xs) auto

text \<open>
  The user is entered into the dictionary before the hook asks whether this is the first heartbeat,
  so that no login is ever published.
\<close>

definition same_published :: "'w hookw manager \<Rightarrow> 'w hookw manager \<Rightarrow> bool" where
  "same_published h h' \<longleftrightarrow> hk_published (hm_world h') = hk_published (hm_world h)"

interpretation published_kept: state_relation same_published
  by unfold_locales (simp_all add: same_published_def)

lemma on_world_published: "keeps same_published (on_manager (on_world m))"
  by (simp add: keeps_def same_published_def on_manager_def on_world_def split: prod.split)

lemma add_heartbeat_published: "keeps same_published (add_heartbeat now u)"
  by (simp add: keeps_def same_published_def add_heartbeat_def modify_def)

lemma beat_known: "has_heartbeat u (snd (add_heartbeat now u h))"
  by (simp add: has_heartbeat_def add_heartbeat_def modify_def keys_update)

lemma on_world_beats: "has_heartbeat u (snd (on_manager (on_world m) h)) \<longleftrightarrow> has_heartbeat u h"
  by (simp add: has_heartbeat_def on_manager_def on_world_def split: prod.split)

lemma no_login_published: "keeps same_published (thenM (add_heartbeat now u) (on_heartbeat E u n))"
proof -
  have first: "same_published h (snd (thenM (publish_first_heartbeat E u n) k h))" if "has_heartbeat u h" "keeps same_published k" for h k
    using that by (simp add: publish_first_heartbeat_def keeps_def thenM_def bindM_def gets_def ret_def)
  have "same_published h (snd (on_heartbeat E u n h))" if "has_heartbeat u h" for h
  proof (cases "on_manager (on_world (update_session E u n)) h")
    case (Pair r h1)
    then have "same_published h h1" "has_heartbeat u h1"
      using keepsD [OF on_world_published Pair] on_world_beats [of u "update_session E u n" h] that by simp_all
    then show ?thesis
      using first [OF \<open>has_heartbeat u h1\<close> on_world_published] Pair published_kept.R_trans
      by (cases r) (auto simp: on_heartbeat_def thenM_def [of "on_manager _"] bindM_def [of "on_manager _"])
  qed
  note known = this
  show ?thesis
    unfolding keeps_def
  proof
    fix h :: "'a hookw manager"
    obtain h1 where h1: "add_heartbeat now u h = (Inr (), h1)" by (simp add: add_heartbeat_def modify_def)
    have "same_published h h1" by (rule keepsD [OF add_heartbeat_published h1])
    moreover have "same_published h1 (snd (on_heartbeat E u n h1))"
      using known [of h1] beat_known [of u now h] h1 by simp
    moreover have "thenM (add_heartbeat now u) (on_heartbeat E u n) h = on_heartbeat E u n h1"
      using h1 by (simp add: thenM_def bindM_def)
    ultimately show "same_published h (snd (thenM (add_heartbeat now u) (on_heartbeat E u n) h))"
      using published_kept.R_trans by simp
  qed
qed

lemma heartbeat_publishes_nothing: "keeps same_published (heartbeat_request E now us)"
proof -
  have "keeps same_published (logged_errors (heartbeat_user E now u))" for u
    unfolding logged_errors_def heartbeat_user_def
    by (intro published_kept.keeps_catchM published_kept.keeps_bindM on_world_published no_login_published)
      (auto simp: published_kept.keeps_basic split: exc.splits)
  then show ?thesis unfolding heartbeat_request_def
    by (induction us) (simp_all add: published_kept.keeps_basic published_kept.keeps_bindM)
qed

subsection \<open>Whoever stops sending is disconnected\<close>

text \<open>What happens in turn: rounds of the loop at given times, and heartbeats of users.\<close>

datatype turn = Round int | Beat int string

fun take_turns :: "'w manager_env \<Rightarrow> (int \<Rightarrow> string \<Rightarrow> ('w manager, unit) op) \<Rightarrow> turn list \<Rightarrow> 'w manager \<Rightarrow> 'w manager" where
  "take_turns E beat [] h = h"
| "take_turns E beat (Round now # ts) h = take_turns E beat ts (snd (loop_round E now h))"
| "take_turns E beat (Beat now v # ts) h = take_turns E beat ts (snd (beat now v h))"

text \<open>
  The contract of cache and hook: for the users of \<open>U\<close>, in the states of \<open>I\<close>, they do not raise;
  the cache has no heartbeat of \<open>u\<close>, the hook makes \<open>u\<close> be gone, and nothing brings \<open>u\<close> back, the
  heartbeats of the other users included.
\<close>

locale heartbeat_env =
  fixes E :: "'w manager_env" and I :: "'w \<Rightarrow> bool" and gone :: "'w \<Rightarrow> bool" and U :: "string set" and u :: string
    and beat :: "int \<Rightarrow> string \<Rightarrow> ('w manager, unit) op"
  assumes check: "I w \<Longrightarrow> v \<in> U \<Longrightarrow> \<exists>b w'. hm_check E v w = (Inr b, w') \<and> I w' \<and> (gone w \<longrightarrow> gone w') \<and> (v = u \<longrightarrow> \<not> b)"
    and observe: "I w \<Longrightarrow> v \<in> U \<Longrightarrow> \<exists>w'. hm_observe E v w = (Inr (), w') \<and> I w' \<and> (v = u \<or> gone w \<longrightarrow> gone w')"
    and beat: "I (hm_world h) \<Longrightarrow> v \<in> U \<Longrightarrow> v \<noteq> u \<Longrightarrow> beat now v h = (r, h') \<Longrightarrow>
      I (hm_world h') \<and> (gone (hm_world h) \<longrightarrow> gone (hm_world h')) \<and>
      hm_to_check h' \<in> {hm_to_check h, AList.update v now (hm_to_check h)}"
begin

definition sound :: "'w manager \<Rightarrow> bool" where
  "sound h \<longleftrightarrow> I (hm_world h) \<and> distinct (map fst (hm_to_check h)) \<and> fst ` set (hm_to_check h) \<subseteq> U"

definition has_left :: "'w manager \<Rightarrow> bool" where
  "has_left h \<longleftrightarrow> u \<notin> fst ` set (hm_to_check h) \<and> gone (hm_world h)"

lemma check_one_run:
  assumes "sound h" "v \<in> U"
  shows "\<exists>h'. check_one E now v h = (Inr (), h') \<and> sound h' \<and> (v = u \<or> gone (hm_world h) \<longrightarrow> gone (hm_world h')) \<and>
    (\<forall>t. (u, t) \<in> set (hm_to_check h') \<longleftrightarrow> (u, t) \<in> set (hm_to_check h))"
proof -
  have I: "I (hm_world h)" using assms by (simp add: sound_def)
  obtain b w1 where c: "hm_check E v (hm_world h) = (Inr b, w1)" "I w1" "gone (hm_world h) \<longrightarrow> gone w1" "v = u \<longrightarrow> \<not> b"
    using check [OF I assms(2)] by blast
  show ?thesis
  proof (cases b)
    case True
    with c have "v \<noteq> u" by blast
    then show ?thesis using True c assms in_update [of u v _ now "hm_to_check h"]
      by (auto simp: check_one_def bindM_def on_manager_def add_heartbeat_def modify_def sound_def keys_update distinct_update)
  next
    case False
    obtain w2 where "hm_observe E v w1 = (Inr (), w2)" "I w2" "v = u \<or> gone w1 \<longrightarrow> gone w2" using observe [OF c(2) assms(2)] by blast
    with False c assms show ?thesis
      by (auto simp: check_one_def bindM_def on_manager_def thenM_def whenM_def modify_def ret_def sound_def)
  qed
qed

lemma check_all_run:
  assumes "sound h" "set vs \<subseteq> U"
  shows "\<exists>h'. check_heartbeats E now vs h = (Inr (), h') \<and> sound h' \<and> (u \<in> set vs \<or> gone (hm_world h) \<longrightarrow> gone (hm_world h')) \<and>
    (\<forall>t. (u, t) \<in> set (hm_to_check h') \<longleftrightarrow> (u, t) \<in> set (hm_to_check h))"
  using assms
proof (induction vs arbitrary: h)
  case Nil
  then show ?case by (simp add: check_heartbeats_def ret_def)
next
  case (Cons v vs)
  have v: "v \<in> U" "set vs \<subseteq> U" using Cons.prems(2) by auto
  obtain h1 where h1: "check_one E now v h = (Inr (), h1)" "sound h1" "v = u \<or> gone (hm_world h) \<longrightarrow> gone (hm_world h1)"
      "\<forall>t. (u, t) \<in> set (hm_to_check h1) \<longleftrightarrow> (u, t) \<in> set (hm_to_check h)"
    using check_one_run [OF Cons.prems(1) v(1)] by blast
  obtain h2 where h2: "check_heartbeats E now vs h1 = (Inr (), h2)" "sound h2" "u \<in> set vs \<or> gone (hm_world h1) \<longrightarrow> gone (hm_world h2)"
      "\<forall>t. (u, t) \<in> set (hm_to_check h2) \<longleftrightarrow> (u, t) \<in> set (hm_to_check h1)"
    using Cons.IH [OF h1(2) v(2)] by blast
  have "check_heartbeats E now (v # vs) h = (Inr (), h2)"
    using h1(1) h2(1) by (simp add: check_heartbeats_def thenM_def bindM_def)
  with h1 h2 show ?case by auto
qed

text \<open>A round: who has waited too long leaves, who has not still waits, who has left stays away.\<close>

lemma round_run:
  assumes "sound h"
  shows "\<exists>h'. loop_round E now h = (Inr (), h') \<and> sound h' \<and>
    (\<forall>t. (u, t) \<in> set (hm_to_check h) \<longrightarrow>
       (if t + hm_expire_second E * micro < now then has_left h' else (u, t) \<in> set (hm_to_check h'))) \<and>
    (has_left h \<longrightarrow> has_left h')"
proof -
  let ?old = "\<lambda>(v :: string, t). t < now - hm_expire_second E * micro"
  let ?vs = "map fst (filter ?old (hm_to_check h))"
  let ?h = "h\<lparr>hm_to_check := filter (\<lambda>(v, t). \<not> t < now - hm_expire_second E * micro) (hm_to_check h)\<rparr>"
  have s: "sound ?h" using assms by (auto simp: sound_def distinct_map inj_on_def)
  have vs: "set ?vs \<subseteq> U" using assms by (auto simp: sound_def)
  obtain h' where h': "check_heartbeats E now ?vs ?h = (Inr (), h')" "sound h'" "u \<in> set ?vs \<or> gone (hm_world h) \<longrightarrow> gone (hm_world h')"
      "\<forall>t. (u, t) \<in> set (hm_to_check h') \<longleftrightarrow> (u, t) \<in> set (hm_to_check ?h)"
    using check_all_run [OF s vs] by (metis (no_types, lifting) manager.select_convs(3) manager.surjective manager.update_convs(1))
  have run: "loop_round E now h = (Inr (), h')"
    using h'(1) by (simp add: loop_round_def logged_errors_def catchM_def get_all_expired_user_ids_def bindM_def gets_def thenM_def modify_def ret_def)
  have one: "t' = t" if "(u, t) \<in> set (hm_to_check h)" "(u, t') \<in> set (hm_to_check h)" for t t'
    using that assms eq_key_imp_eq_value by (fastforce simp: sound_def)
  have "if t + hm_expire_second E * micro < now then has_left h' else (u, t) \<in> set (hm_to_check h')"
    if t: "(u, t) \<in> set (hm_to_check h)" for t
  proof (cases "t + hm_expire_second E * micro < now")
    case True
    have "u \<in> set ?vs" using t True by force
    moreover have "(u, t') \<notin> set (hm_to_check h')" for t'
      using h'(4) one [OF t] True by auto
    ultimately show ?thesis using True h'(3) by (auto simp: has_left_def)
  next
    case False
    with t h'(4) show ?thesis by auto
  qed
  moreover have "has_left h'" if "has_left h"
    using that h'(3,4) by (force simp: has_left_def)
  ultimately show ?thesis using run h'(2) by blast
qed

lemma beat_run:
  assumes "sound h" "v \<in> U" "v \<noteq> u"
  shows "sound (snd (beat now v h))" "has_left h \<Longrightarrow> has_left (snd (beat now v h))"
    "(u, t) \<in> set (hm_to_check (snd (beat now v h))) \<longleftrightarrow> (u, t) \<in> set (hm_to_check h)"
proof -
  obtain r h' where run: "beat now v h = (r, h')" by (cases "beat now v h")
  have h': "I (hm_world h')" "gone (hm_world h) \<longrightarrow> gone (hm_world h')"
      "hm_to_check h' \<in> {hm_to_check h, AList.update v now (hm_to_check h)}"
    using beat [OF _ assms(2,3) run] assms(1) by (simp_all add: sound_def)
  have "distinct (map fst (hm_to_check h')) \<and> fst ` set (hm_to_check h') \<subseteq> U"
    using h'(3) assms(1,2) keys_update [of v now "hm_to_check h"] distinct_update [of "hm_to_check h" v now]
    by (simp only: sound_def insert_iff singleton_iff) (elim disjE; simp)
  then show "sound (snd (beat now v h))" using h'(1) run by (simp add: sound_def)
  have "u \<notin> fst ` set (hm_to_check h')" if "u \<notin> fst ` set (hm_to_check h)"
    using h'(3) that assms(3) keys_update [of v now "hm_to_check h"] by (elim insertE; simp)
  then show "has_left (snd (beat now v h))" if "has_left h" using h'(2) that run by (simp add: has_left_def)
  show "(u, t) \<in> set (hm_to_check (snd (beat now v h))) \<longleftrightarrow> (u, t) \<in> set (hm_to_check h)"
    using h'(3) run in_update [of u v t now "hm_to_check h"] assms(3) by auto
qed

definition without :: "turn list \<Rightarrow> bool" where
  "without ts \<longleftrightarrow> (\<forall>now v. Beat now v \<in> set ts \<longrightarrow> v \<in> U \<and> v \<noteq> u)"

lemma left_for_good: "sound h \<Longrightarrow> has_left h \<Longrightarrow> without ts \<Longrightarrow> has_left (take_turns E beat ts h)"
proof (induction ts arbitrary: h)
  case (Cons turn ts)
  have ts: "without ts" using Cons.prems(3) by (auto simp: without_def)
  show ?case
  proof (cases turn)
    case (Round now)
    then show ?thesis using round_run [OF Cons.prems(1), of now] Cons.prems(2) Cons.IH [OF _ _ ts] by auto
  next
    case (Beat now v)
    then have "v \<in> U" "v \<noteq> u" using Cons.prems(3) by (auto simp: without_def)
    with Beat show ?thesis using beat_run(1,2) [OF Cons.prems(1)] Cons.prems(2) Cons.IH [OF _ _ ts] by simp
  qed
qed simp

text \<open>Eventually: as soon as a round comes later than the time to expire, the user has left.\<close>

lemma leaves:
  assumes "sound h" "(u, t) \<in> set (hm_to_check h)" "without ts" "Round now \<in> set ts" "t + hm_expire_second E * micro < now"
  shows "has_left (take_turns E beat ts h)"
  using assms
proof (induction ts arbitrary: h)
  case (Cons turn ts)
  have ts: "without ts" using Cons.prems(3) by (auto simp: without_def)
  show ?case
  proof (cases turn)
    case (Round n)
    obtain h' where h': "loop_round E n h = (Inr (), h')" "sound h'"
        "if t + hm_expire_second E * micro < n then has_left h' else (u, t) \<in> set (hm_to_check h')"
      using round_run [OF Cons.prems(1), of n] Cons.prems(2) by blast
    show ?thesis
    proof (cases "t + hm_expire_second E * micro < n")
      case True
      with h' Round show ?thesis using left_for_good [OF h'(2) _ ts] by simp
    next
      case False
      with h' Cons.prems(4,5) Round show ?thesis using Cons.IH [OF h'(2) _ ts] by auto
    qed
  next
    case (Beat n v)
    then have "v \<in> U" "v \<noteq> u" using Cons.prems(3) by (auto simp: without_def)
    note b = beat_run [OF Cons.prems(1) this]
    show ?thesis using Cons.IH [OF b(1) _ ts] b(3) Cons.prems(2,4,5) Beat by simp
  qed
qed simp

lemma leaves_eventually:
  assumes "I (hm_world h)" "distinct (map fst (hm_to_check h))" "fst ` set (hm_to_check h) \<subseteq> U" "(u, t) \<in> set (hm_to_check h)"
    and "\<forall>now v. Beat now v \<in> set ts \<longrightarrow> v \<in> U - {u}" "Round now \<in> set ts" "t + hm_expire_second E * micro < now"
  shows "\<not> has_heartbeat u (take_turns E beat ts h) \<and> gone (hm_world (take_turns E beat ts h))"
  using leaves [of h t ts now] assms by (auto simp: sound_def without_def has_left_def has_heartbeat_def)

end

end
