(* ===== verification/Heartbeat_Redis.thy ===== *)
theory Heartbeat_Redis
  imports Heartbeats Queue_Redis
begin

section \<open>Heartbeats over the Redis database\<close>

text \<open>
  The environment of the hooks with \<open>DatabaseRedis\<close> and \<open>CacheRedis\<close>, and that it meets the contract
  of the manager: a user with a number as id who sends no heartbeats has no session and gets no
  broadcasts once the loop has run after the time to expire, whatever the heartbeats of others.
  \<open>DatabaseRedis\<close> does not have \<open>_set_last_online\<close>, raises for the time of the last activity, and knows
  no user for a session.
\<close>

subsection \<open>The environment\<close>

definition redis_henv :: "'s penv \<Rightarrow> (string list \<Rightarrow> string list) \<Rightarrow> int \<Rightarrow> string option \<Rightarrow> (('s pw \<times> 'm) hookw \<Rightarrow> stamp) \<Rightarrow>
    (string \<Rightarrow> string \<Rightarrow> ('s pw \<times> 'm, activity) op) \<Rightarrow> ('s pw \<times> 'm) hook_env" where
  "redis_henv P order tz node stamp login = (let D = node_denv P order tz in \<lparr>
     hk_node = node, hk_now = (\<lambda>w. cw_now (pw_cw (fst w))), hk_stamp = stamp,
     hk_status = (\<lambda>u. on_pw (db_get_user_status P (fmt u))),
     hk_user_name = (\<lambda>u. need u (\<lambda>u. on_dr (dr_get_user_name D u))),
     hk_sids = (\<lambda>u. on_dr (dr_get_sids_for_user D u)),
     hk_user_for_sid = (\<lambda>sid. ret None),
     hk_remove_sid = (\<lambda>u sid. on_dr (dr_remove_sid_for_user D u sid)),
     hk_db_set_last_online = (\<lambda>u. throw AttributeError),
     hk_cache_set_last_online = (\<lambda>u. on_pw (set_last_online_now P (fmt u))),
     hk_get_last_online = (\<lambda>u. dr_not_implemented),
     hk_remove_from_multicast = (\<lambda>u. on_pw (cr_remove_from_multicast_on_disconnect P (fmt u))),
     hk_set_user_offline = (\<lambda>u. on_pw (db_set_user_offline P (fmt u))),
     hk_create_user = (\<lambda>u n. on_dr (dr_create_user D (Some u) (Some n))),
     hk_set_user_name = (\<lambda>u n. on_dr (dr_set_user_name D u n)),
     hk_add_sid = (\<lambda>u sid. on_dr (dr_add_sid_for_user D (Some u) sid)),
     hk_check_heartbeat = (\<lambda>u. on_pw (in_cache (cr_check_heartbeat (pe_cache P) u))),
     hk_is_super_user = (\<lambda>u. on_dr (dr_is_super_user D (Some u))),
     hk_is_global_moderator = (\<lambda>u. on_dr (dr_is_global_moderator D (Some u))),
     hk_set_user_online = (\<lambda>u. on_pw (db_set_user_online P u)),
     hk_set_user_invisible = (\<lambda>u. on_pw (cr_set_user_invisible P u True)),
     hk_login_activity = login\<rparr>)"

definition hook_menv :: "int \<Rightarrow> bool \<Rightarrow> 'w hook_env \<Rightarrow> 'w hookw manager_env" where
  "hook_menv expire testing H = \<lparr>hm_expire_second = expire, hm_testing = testing,
     hm_check = (\<lambda>u. on_world (hk_check_heartbeat H u)),
     hm_observe = (\<lambda>u. handle_heartbeat_disconnect H (Some u))\<rparr>"

lemma redis_henv_simps [simp]:
  "hk_status (redis_henv P order tz node st lg) u = on_pw (db_get_user_status P (fmt u))"
  "hk_sids (redis_henv P order tz node st lg) u = on_dr (dr_get_sids_for_user (node_denv P order tz) u)"
  "hk_remove_sid (redis_henv P order tz node st lg) u sid = on_dr (dr_remove_sid_for_user (node_denv P order tz) u sid)"
  "hk_remove_from_multicast (redis_henv P order tz node st lg) u = on_pw (cr_remove_from_multicast_on_disconnect P (fmt u))"
  "hk_set_user_offline (redis_henv P order tz node st lg) u = on_pw (db_set_user_offline P (fmt u))"
  "hk_check_heartbeat (redis_henv P order tz node st lg) v = on_pw (in_cache (cr_check_heartbeat (pe_cache P) v))"
  "hk_db_set_last_online (redis_henv P order tz node st lg) u = throw AttributeError"
  "hk_cache_set_last_online (redis_henv P order tz node st lg) u = on_pw (set_last_online_now P (fmt u))"
  "hk_get_last_online (redis_henv P order tz node st lg) u = dr_not_implemented"
  "hk_user_for_sid (redis_henv P order tz node st lg) v = ret None"
  "hk_user_name (redis_henv P order tz node st lg) (Some v) = on_dr (dr_get_user_name (node_denv P order tz) v)"
  "hk_create_user (redis_henv P order tz node st lg) v n = on_dr (dr_create_user (node_denv P order tz) (Some v) (Some n))"
  "hk_set_user_name (redis_henv P order tz node st lg) v n = on_dr (dr_set_user_name (node_denv P order tz) v n)"
  "hk_add_sid (redis_henv P order tz node st lg) v sid = on_dr (dr_add_sid_for_user (node_denv P order tz) (Some v) sid)"
  "hk_is_super_user (redis_henv P order tz node st lg) v = on_dr (dr_is_super_user (node_denv P order tz) (Some v))"
  "hk_is_global_moderator (redis_henv P order tz node st lg) v = on_dr (dr_is_global_moderator (node_denv P order tz) (Some v))"
  "hk_set_user_online (redis_henv P order tz node st lg) v = on_pw (db_set_user_online P v)"
  "hk_set_user_invisible (redis_henv P order tz node st lg) v = on_pw (cr_set_user_invisible P v True)"
  "hk_login_activity (redis_henv P order tz node st lg) v n = lg v n"
  by (simp_all add: redis_henv_def Let_def need_def)

subsection \<open>What the operations leave alone\<close>

text \<open>The key with the heartbeat of a user, and who has which session.\<close>

definition same_beat :: "'s penv \<Rightarrow> string \<Rightarrow> 's pw \<Rightarrow> 's pw \<Rightarrow> bool" where
  "same_beat P u w w' \<longleftrightarrow> r_get (ce_redis (pe_cache P)) (cw_redis (pw_cw w')) (rk_heartbeat_user u) =
     r_get (ce_redis (pe_cache P)) (cw_redis (pw_cw w)) (rk_heartbeat_user u) \<and>
     v_sids (view (pe_db P) (pw_db w')) = v_sids (view (pe_db P) (pw_db w))"

interpretation beat_kept: state_relation "same_beat P u" for P u
  by unfold_locales (simp_all add: same_beat_def)

lemma heartbeat_keys [simp]:
  "rk_heartbeat_user u \<noteq> rk_user_status v" "rk_user_status v \<noteq> rk_heartbeat_user u"
  "rk_heartbeat_user u \<noteq> rk_user_last_online v" "rk_user_last_online v \<noteq> rk_heartbeat_user u"
  "rk_heartbeat_user u \<noteq> rk_online_bitmap" "rk_online_bitmap \<noteq> rk_heartbeat_user u"
  "rk_heartbeat_user u = rk_heartbeat_user v \<longleftrightarrow> u = v"
  by (simp_all add: key_simps)

lemma same_beat_db: "keeps (same_beat P u) (publish a b c d)"
  "keeps (same_beat P u) (gets g)" "keeps (same_beat P u) (in_cache (mem_set k v t))"
  by (simp_all add: keeps_def same_beat_def publish_def op_simps in_cache_def mem_set_run)

context presence_env begin

lemma same_beat_set: "keeps (same_beat E u) (modify (\<lambda>w. w\<lparr>pw_db := r_set (pe_db E) (pw_db w) k t\<rparr>))"
  by (simp add: keeps_def same_beat_def op_simps redis_client.view_others [OF db_client])

lemma same_beat_status: "keeps (same_beat E u) (db_get_user_status E v)"
proof -
  have "keeps (same_beat E u) (in_cache (cr_get_user_status (pe_cache E) v))"
    by (auto simp: keeps_def same_beat_def in_cache_def cr_get_user_status_def x_defs op_simps split: option.split prod.split)
  then show ?thesis unfolding db_get_user_status_def
    by (intro beat_kept.keeps_bindM beat_kept.keeps_option beat_kept.keeps_basic same_beat_db)
qed

lemma same_beat_presence:
  "keeps (same_beat E u) (cr_set_user_offline E v)" "keeps (same_beat E u) (db_set_user_online E v)"
  "keeps (same_beat E u) (cr_set_user_invisible E v b)" "keeps (same_beat E u) (set_last_online_now E v)"
  "keeps (same_beat E u) (cr_remove_from_multicast_on_disconnect E v)"
proof -
  note rules = beat_kept.keeps_bindM beat_kept.keeps_thenM beat_kept.keeps_if beat_kept.keeps_option beat_kept.keeps_basic
    beat_kept.keeps_catchM same_beat_db
  have status: "keeps (same_beat E u) (publish_status E v t)" for v t unfolding publish_status_def by (intro rules)
  have trim: "keeps (same_beat E u) (trim_user_changed_at E)"
    by (auto simp: keeps_def same_beat_def trim_user_changed_at_def presence_runs presence_laws)
  have redis: "keeps (same_beat E u) (in_cache (x_set (pe_cache E) (rk_user_last_online v) t))"
    "keeps (same_beat E u) (in_cache (x_expire (pe_cache E) (rk_user_last_online v) n))" for v t n
    by (simp_all add: keeps_def same_beat_def presence_runs presence_laws)
  show last: "keeps (same_beat E u) (set_last_online_now E v)" for v
    unfolding set_last_online_now_def now_of_def Let_def by (intro rules status redis)
  have pipe: "keeps (same_beat E u) (run_status_pipeline E v i on mc st n)" for v i on mc st n
  proof -
    have "keeps (same_beat E u) (pipeline (status_pipeline E v i on mc st n))"
      by (auto simp: keeps_def same_beat_def presence_runs status_pipeline_def presence_laws)
    then show ?thesis unfolding run_status_pipeline_def by (intro rules)
  qed
  show "keeps (same_beat E u) (cr_set_user_offline E v)"
    unfolding cr_set_user_offline_def Let_def now_of_def set_status_in_memory_def
    by (intro rules status trim last pipe same_beat_status)
  show "keeps (same_beat E u) (db_set_user_online E v)"
    unfolding db_set_user_online_def cr_set_user_online_def swallow_def Let_def now_of_def set_status_in_memory_def
    by (intro rules status trim pipe same_beat_set) (auto intro!: rules)
  show "keeps (same_beat E u) (cr_set_user_invisible E v b)"
    unfolding cr_set_user_invisible_def swallow_def Let_def now_of_def set_status_in_memory_def whenM_def
    by (intro rules status trim pipe last) (auto intro!: rules)
  show "keeps (same_beat E u) (cr_remove_from_multicast_on_disconnect E v)"
    by (simp add: keeps_def same_beat_def cr_remove_from_multicast_on_disconnect_def presence_runs presence_laws)
qed

end

subsection \<open>Who is away stays away\<close>

definition beat_ok :: "'s penv \<Rightarrow> int \<Rightarrow> 's pw \<times> 'm \<Rightarrow> bool" where
  "beat_ok P i w \<longleftrightarrow> status_ok P (fst w) \<and>
     r_get (ce_redis (pe_cache P)) (cw_redis (pw_cw (fst w))) (rk_heartbeat_user (str_int i)) = None"

definition user_away :: "'s penv \<Rightarrow> int \<Rightarrow> 's pw \<times> 'm \<Rightarrow> bool" where
  "user_away P i w \<longleftrightarrow> v_sids (node_view P w) (str_int i) = None \<and> \<not> ps_multicast (presence P (fst w) i)"

definition away_stays :: "'s penv \<Rightarrow> int \<Rightarrow> 's pw \<times> 'm \<Rightarrow> 's pw \<times> 'm \<Rightarrow> bool" where
  "away_stays P i w w' \<longleftrightarrow> (beat_ok P i w \<longrightarrow> beat_ok P i w' \<and> (user_away P i w \<longrightarrow> user_away P i w'))"

interpretation away_kept: state_relation "away_stays P i" for P i
  by unfold_locales (auto simp: away_stays_def)

lemma on_pw_stays:
  assumes "keeps (same_beat P (str_int i)) m"
    and "\<And>w. status_ok P w \<Longrightarrow> status_ok P (snd (m w)) \<and>
      (ps_multicast (presence P (snd (m w)) i) \<longrightarrow> ps_multicast (presence P w i))"
  shows "keeps (away_stays P i) (on_pw m)"
  unfolding keeps_def
proof
  fix w
  obtain r p where run: "m (fst w) = (r, p)" by fastforce
  have "same_beat P (str_int i) (fst w) p" using keepsD [OF assms(1) run] .
  moreover have "status_ok P (fst w) \<Longrightarrow> status_ok P p \<and> (ps_multicast (presence P p i) \<longrightarrow> ps_multicast (presence P (fst w) i))"
    using assms(2) [of "fst w"] run by simp
  ultimately show "away_stays P i w (snd (on_pw m w))"
    by (auto simp: away_stays_def on_pw_def beat_ok_def user_away_def node_view_def same_beat_def run)
qed

text \<open>Operations on the database alone, which may drop sessions but not add one for the user.\<close>

definition drops_sids :: "'s redis \<Rightarrow> string \<Rightarrow> ('s, 'c) dbw \<Rightarrow> ('s, 'c) dbw \<Rightarrow> bool" where
  "drops_sids R u d d' \<longleftrightarrow> db_cache d' = db_cache d \<and>
     (v_sids (view R (db_redis d)) u = None \<longrightarrow> v_sids (view R (db_redis d')) u = None)"

interpretation sids_dropped: state_relation "drops_sids R u" for R u
  by unfold_locales (simp_all add: drops_sids_def)

lemma on_dr_stays:
  fixes P :: "'a penv" and m :: "(('a, 'a cw) dbw, 'b) op"
  shows "keeps (drops_sids (pe_db P) (str_int i)) m \<Longrightarrow> keeps (away_stays P i :: 'a pw \<times> 'c \<Rightarrow> _) (on_dr m)"
proof (unfold keeps_def, rule allI)
  fix w :: "'a pw \<times> 'c" assume m: "\<forall>d. drops_sids (pe_db P) (str_int i) d (snd (m d))"
  obtain r d where d: "m \<lparr>db_redis = pw_db (fst w), db_cache = pw_cw (fst w)\<rparr> = (r, d)" by fastforce
  with m have "drops_sids (pe_db P) (str_int i) \<lparr>db_redis = pw_db (fst w), db_cache = pw_cw (fst w)\<rparr> d" by (metis snd_conv)
  then show "away_stays P i w (snd (on_dr m w))"
    by (auto simp: away_stays_def on_dr_def on_pw_def d drops_sids_def beat_ok_def user_away_def node_view_def status_ok_def presence_def Let_def)
qed

lemma drops_reads: "keeps (drops_sids R u) (d_hget D k f)"
  by (simp add: keeps_def drops_sids_def d_hget_def d_ask_def gets_def)

context redis_client begin

lemma drops_writes:
  "de_redis D = R \<Longrightarrow> keeps (drops_sids R u) (d_hset D (rk_auth_key v) f x)"
  "de_redis D = R \<Longrightarrow> keeps (drops_sids R u) (d_hset D rk_user_names f x)"
  "de_redis D = R \<Longrightarrow> f \<noteq> u \<Longrightarrow> keeps (drops_sids R u) (d_hset D rk_sid_for_user_id f x)"
  "de_redis D = R \<Longrightarrow> keeps (drops_sids R u) (d_hdel D rk_sid_for_user_id f)"
  by (auto simp: keeps_def drops_sids_def d_defs op_simps views)

end

text \<open>Reading the roles of a user changes nothing.\<close>

lemma drops_same: "(\<And>d. snd (m d) = d) \<Longrightarrow> keeps (drops_sids R u) m"
  by (simp add: keeps_def drops_sids_def)

context presence_env begin

lemma makes_stays:
  assumes "makes E j f w w'" "j = i \<longrightarrow> \<not> ps_multicast (f (presence E w j))"
  shows "status_ok E w' \<and> (ps_multicast (presence E w' i) \<longrightarrow> ps_multicast (presence E w i))"
  using assms by (cases "j = i") (simp_all add: makes_def)

lemma status_stays: "keeps (away_stays E i) (on_pw (db_get_user_status E (str_int j)))"
proof (rule on_pw_stays [OF same_beat_status])
  fix w :: "'s pw" assume "status_ok E w"
  from status_known [OF this, of j] show "status_ok E (snd (db_get_user_status E (str_int j) w)) \<and>
    (ps_multicast (presence E (snd (db_get_user_status E (str_int j) w)) i) \<longrightarrow> ps_multicast (presence E w i))" by auto
qed

lemma offline_stays: "bit_offset j \<Longrightarrow> keeps (away_stays E i) (on_pw (db_set_user_offline E (str_int j)))"
proof (rule on_pw_stays)
  fix w :: "'s pw" assume j: "bit_offset j" and "status_ok E w"
  from set_offline_run [OF this(2,1)] obtain w' where "cr_set_user_offline E (str_int j) w = (Inr (), w')" "makes E j (\<lambda>_. is_offline) w w'"
    by blast
  with makes_stays [OF this(2), of i] show "status_ok E (snd (db_set_user_offline E (str_int j) w)) \<and>
    (ps_multicast (presence E (snd (db_set_user_offline E (str_int j) w)) i) \<longrightarrow> ps_multicast (presence E w i))"
    by (simp add: db_set_user_offline_def is_offline_def)
qed (simp add: db_set_user_offline_def same_beat_presence)

lemma online_stays: "bit_offset j \<Longrightarrow> j \<noteq> i \<Longrightarrow> keeps (away_stays E i) (on_pw (db_set_user_online E (str_int j)))"
proof (rule on_pw_stays [OF same_beat_presence(2)])
  fix w :: "'s pw" assume j: "bit_offset j" "j \<noteq> i" and "status_ok E w"
  from db_set_online_run [OF this(3) j(1)] obtain w' where "db_set_user_online E (str_int j) w = (Inr (), w')" "makes E j (\<lambda>_. is_online) w w'"
    by blast
  with makes_stays [OF this(2), of i] j show "status_ok E (snd (db_set_user_online E (str_int j) w)) \<and>
    (ps_multicast (presence E (snd (db_set_user_online E (str_int j) w)) i) \<longrightarrow> ps_multicast (presence E w i))" by simp
qed

lemma invisible_stays: "bit_offset j \<Longrightarrow> j \<noteq> i \<Longrightarrow> keeps (away_stays E i) (on_pw (cr_set_user_invisible E (str_int j) b))"
proof (rule on_pw_stays [OF same_beat_presence(3)])
  fix w :: "'s pw" assume j: "bit_offset j" "j \<noteq> i" and "status_ok E w"
  from set_invisible_run [OF this(3) j(1)] obtain w' where "cr_set_user_invisible E (str_int j) b w = (Inr (), w')" "makes E j (\<lambda>_. is_hidden) w w'"
    by blast
  with makes_stays [OF this(2), of i] j show "status_ok E (snd (cr_set_user_invisible E (str_int j) b w)) \<and>
    (ps_multicast (presence E (snd (cr_set_user_invisible E (str_int j) b w)) i) \<longrightarrow> ps_multicast (presence E w i))" by simp
qed

lemma last_online_stays: "keeps (away_stays E i) (on_pw (set_last_online_now E v))"
proof (rule on_pw_stays [OF same_beat_presence(4)])
  fix w :: "'s pw" assume "status_ok E w"
  with quiet_last_online [of v] show "status_ok E (snd (set_last_online_now E v w)) \<and>
    (ps_multicast (presence E (snd (set_last_online_now E v w)) i) \<longrightarrow> ps_multicast (presence E w i))"
    unfolding quiet_def by (metis snd_conv)
qed

lemma multicast_stays: "keeps (away_stays E i) (on_pw (cr_remove_from_multicast_on_disconnect E v))"
  by (rule on_pw_stays [OF same_beat_presence(5)])
    (auto simp: cr_remove_from_multicast_on_disconnect_def presence_runs status_ok_def presence_def presence_laws)

lemma check_stays:
  "j \<noteq> i \<or> beat_ok E i w \<Longrightarrow> away_stays E i w (snd (on_pw (in_cache (cr_check_heartbeat (pe_cache E) (str_int j))) w))"
  "on_pw (in_cache (cr_check_heartbeat (pe_cache E) v)) w = (Inr b, w') \<Longrightarrow>
    b \<longleftrightarrow> r_get (ce_redis (pe_cache E)) (cw_redis (pw_cw (fst w))) (rk_heartbeat_user v) \<noteq> None"
  by (auto simp: away_stays_def beat_ok_def user_away_def node_view_def on_pw_def presence_runs cr_check_heartbeat_def cr_has_heartbeat_def
      cr_add_heartbeat_def status_ok_def presence_laws presence_def split: option.splits if_splits)

lemma check_returns: "\<exists>b. fst (on_pw (in_cache (cr_check_heartbeat (pe_cache E) v)) w) = Inr b"
  by (cases "r_get (ce_redis (pe_cache E)) (cw_redis (pw_cw (fst w))) (rk_heartbeat_user v)")
    (auto simp: on_pw_def presence_runs cr_check_heartbeat_def cr_has_heartbeat_def cr_add_heartbeat_def)

text \<open>The operations of the database.\<close>

lemma dr_stays:
  "keeps (away_stays E i) (on_dr (dr_get_user_name (node_denv E order tz) v))"
  "keeps (away_stays E i) (on_dr (dr_get_sids_for_user (node_denv E order tz) w))"
  "keeps (away_stays E i) (on_dr (dr_remove_sid_for_user (node_denv E order tz) w sid))"
  "keeps (away_stays E i) (on_dr (dr_create_user (node_denv E order tz) (Some v) (Some n)))"
  "keeps (away_stays E i) (on_dr (dr_set_user_name (node_denv E order tz) v n))"
  "v \<noteq> str_int i \<Longrightarrow> keeps (away_stays E i) (on_dr (dr_add_sid_for_user (node_denv E order tz) (Some v) sid))"
  "keeps (away_stays E i) (on_dr (dr_is_super_user (node_denv E order tz) (Some v)))"
  "keeps (away_stays E i) (on_dr (dr_is_global_moderator (node_denv E order tz) (Some v)))"
proof -
  note rules = sids_dropped.keeps_bindM sids_dropped.keeps_thenM sids_dropped.keeps_if sids_dropped.keeps_option
    sids_dropped.keeps_basic sids_dropped.keeps_catchM drops_reads
  note writes = redis_client.drops_writes [OF db_client node_denv_simps]
  have name: "keeps (drops_sids (pe_db E) (str_int i)) (dr_get_user_name (node_denv E order tz) v)" for v
    unfolding dr_get_user_name_def by (intro rules)
  show "keeps (away_stays E i) (on_dr (dr_get_user_name (node_denv E order tz) v))" by (intro on_dr_stays name)
  show "keeps (away_stays E i) (on_dr (dr_get_sids_for_user (node_denv E order tz) w))"
    unfolding dr_get_sids_for_user_def dr_require_user_id_def by (intro on_dr_stays rules)
  show "keeps (away_stays E i) (on_dr (dr_remove_sid_for_user (node_denv E order tz) w sid))"
    unfolding dr_remove_sid_for_user_def dr_reset_sids_for_user_def dr_require_user_id_def by (intro on_dr_stays rules writes)
  show "keeps (away_stays E i) (on_dr (dr_create_user (node_denv E order tz) (Some v) (Some n)))"
    unfolding dr_create_user_def Let_def
    by (intro on_dr_stays rules writes name) (auto simp: sids_dropped.keeps_basic split: exc.splits)
  show "keeps (away_stays E i) (on_dr (dr_set_user_name (node_denv E order tz) v n))"
    unfolding dr_set_user_name_def by (intro on_dr_stays rules writes)
  show "keeps (away_stays E i) (on_dr (dr_add_sid_for_user (node_denv E order tz) (Some v) sid))" if "v \<noteq> str_int i"
    using that unfolding dr_add_sid_for_user_def dr_require_user_id_def
    by (intro on_dr_stays) (auto simp: none_or_blank_def bindM_def ret_def throw_def keeps_def drops_sids_def d_defs op_simps
        redis_client.views [OF db_client])
  show "keeps (away_stays E i) (on_dr (dr_is_super_user (node_denv E order tz) (Some v)))"
    "keeps (away_stays E i) (on_dr (dr_is_global_moderator (node_denv E order tz) (Some v)))"
    by (intro on_dr_stays drops_same; simp add: role_queries_pure)+
qed

end

subsection \<open>The hooks\<close>

definition hook_stays :: "'s penv \<Rightarrow> int \<Rightarrow> ('s pw \<times> 'm) hookw \<Rightarrow> ('s pw \<times> 'm) hookw \<Rightarrow> bool" where
  "hook_stays P i h h' \<longleftrightarrow> away_stays P i (hk_world h) (hk_world h')"

interpretation hook_kept: state_relation "hook_stays P i" for P i
  by unfold_locales (auto simp: hook_stays_def intro: away_kept.R_trans away_kept.R_refl)

lemma on_world_stays: "keeps (away_stays P i) m \<Longrightarrow> keeps (hook_stays P i) (on_world m)"
  unfolding keeps_def hook_stays_def on_world_def by (metis (mono_tags, lifting) case_prod_unfold hookw.select_convs(1)
    hookw.surjective hookw.update_convs(1) snd_conv)

lemma hook_plain_stays: "keeps (hook_stays P i) (hook_publish a t)" "keeps (hook_stays P i) (gets g)"
  by (simp_all add: keeps_def hook_stays_def hook_publish_def op_simps away_kept.R_refl)

lemma str_int_not_None: "str_int i \<noteq> ''None''"
proof
  assume "str_int i = ''None''"
  then have "py_int ''None'' = Some i" by (metis py_int_str_int)
  moreover have "py_int ''None'' = None" by code_simp
  ultimately show False by simp
qed

context presence_env begin

lemma disconnect_stays:
  assumes "bit_offset j"
  shows "keeps (hook_stays E i) (emit_disconnect_event (redis_henv E order tz node st lg) (Some (str_int j)) sid us)"
    "keeps (hook_stays E i) (set_user_offline (redis_henv E order tz node st lg) (Some (str_int j)) sid us)"
proof -
  note rules = hook_kept.keeps_bindM hook_kept.keeps_thenM hook_kept.keeps_if hook_kept.keeps_option
    hook_kept.keeps_basic hook_plain_stays
  let ?H = "redis_henv E order tz node st lg"
  have logged: "keeps (hook_stays E i) (logged_errors m)" if "keeps (hook_stays E i) m" for m
    unfolding logged_errors_def using that by (intro hook_kept.keeps_catchM) (auto simp: hook_kept.keeps_basic)
  have sids: "keeps (hook_stays E i) (on_world (hk_sids ?H u))" "keeps (hook_stays E i) (on_world (hk_remove_sid ?H u sid))" for u sid
    by (simp_all add: on_world_stays dr_stays)
  have name: "keeps (hook_stays E i) (known_name ?H (Some (str_int j)))"
    unfolding known_name_def
    by (intro hook_kept.keeps_catchM) (auto simp: on_world_stays dr_stays hook_kept.keeps_basic split: exc.splits)
  have some: "id_of_session ?H (Some (str_int j)) sid = ret (Some (Some (str_int j)))"
    by (simp add: id_of_session_def str_int_not_None)
  have pure: "keeps (hook_stays E i) (on_world (throw e))" "keeps (hook_stays E i) (on_world dr_not_implemented)" for e
    by (simp_all add: on_world_stays away_kept.keeps_basic dr_not_implemented_def)
  have last: "keeps (hook_stays E i) (last_online_at ?H v b)" for v b
    unfolding last_online_at_def redis_henv_simps
    by (intro rules hook_kept.keeps_catchM pure) (auto simp: hook_kept.keeps_basic)
  show "keeps (hook_stays E i) (emit_disconnect_event ?H (Some (str_int j)) sid us)"
    unfolding emit_disconnect_event_def make_sure_current_sid_removed_def some whenM_def
    by (intro logged rules name sids last)
  have pres: "keeps (hook_stays E i) (on_world (hk_cache_set_last_online ?H (Some (str_int j))))"
    "keeps (hook_stays E i) (on_world (hk_remove_from_multicast ?H (Some (str_int j))))"
    "keeps (hook_stays E i) (on_world (hk_set_user_offline ?H (Some (str_int j))))"
    by (simp_all add: on_world_stays last_online_stays multicast_stays offline_stays assms fmt_def)
  have "keeps (hook_stays E i) (on_world (if b then hk_remove_from_multicast ?H (Some (str_int j)) else hk_set_user_offline ?H (Some (str_int j))))" for b
    using pres by (cases b) simp_all
  then show "keeps (hook_stays E i) (set_user_offline ?H (Some (str_int j)) sid us)"
    unfolding set_user_offline_def whenM_def redis_henv_simps(7) using sids pres
    by (intro logged rules pure) simp_all
qed

lemma remove_sid_run: "on_dr (dr_remove_sid_for_user (node_denv E order tz) (Some (str_int j)) sid) w =
    (Inr (), ((fst w)\<lparr>pw_db := r_hdel (pe_db E) (pw_db (fst w)) rk_sid_for_user_id (str_int j)\<rparr>, snd w))"
  using str_int_valid(2) [of j]
  by (simp add: on_dr_def on_pw_def dr_remove_sid_for_user_def dr_reset_sids_for_user_def dr_require_user_id_def op_simps d_defs)

lemma sids_of_run: "on_dr (dr_get_sids_for_user (node_denv E order tz) (Some (str_int j))) w =
    (Inr (case v_sids (node_view E w) (str_int j) of None \<Rightarrow> [] | Some s \<Rightarrow> [s]), w)"
  using str_int_valid(2) [of j]
  by (simp add: on_dr_def on_pw_def dr_get_sids_for_user_def dr_require_user_id_def db_run node_view_def)

text \<open>Without its session the user is taken out of the broadcasts, whatever the status was.\<close>

lemma ended_run:
  assumes ok: "beat_ok E i w" and i: "bit_offset i" and none: "v_sids (node_view E w) (str_int i) = None"
  shows "\<exists>w'. on_pw (if b then cr_remove_from_multicast_on_disconnect E (str_int i) else db_set_user_offline E (str_int i)) w =
    (Inr (), w') \<and> user_away E i w'"
proof -
  have s: "status_ok E (fst w)" using ok by (simp add: beat_ok_def)
  show ?thesis
  proof (cases b)
    case True
    have "on_pw (cr_remove_from_multicast_on_disconnect E (str_int i)) w = (Inr (), ((fst w)\<lparr>pw_cw := (pw_cw (fst w))\<lparr>cw_redis :=
        r_srem (ce_redis (pe_cache E)) (cw_redis (pw_cw (fst w))) rk_users_multi_cast (str_int i)\<rparr>\<rparr>, snd w))" (is "_ = (_, ?w)")
      by (simp add: on_pw_def cr_remove_from_multicast_on_disconnect_def presence_runs)
    moreover have "user_away E i ?w" using none by (simp add: user_away_def node_view_def presence_def Let_def presence_laws)
    ultimately show ?thesis using True by simp
  next
    case False
    obtain p where p: "db_set_user_offline E (str_int i) (fst w) = (Inr (), p)" "makes E i (\<lambda>_. is_offline) (fst w) p"
      using set_offline_run [OF s i] by (auto simp: db_set_user_offline_def)
    have "pw_db p = pw_db (fst w)" using keepsD [OF offline_same_db p(1)] by (simp add: same_db_def)
    with p none False show ?thesis by (auto simp: on_pw_def user_away_def node_view_def makes_def is_offline_def)
  qed
qed

end

text \<open>What is logged does not stop anything.\<close>

lemma logged_errors_returns: "fst (logged_errors m h) = Inr ()"
  by (cases "m h"; cases "fst (m h)") (simp_all add: logged_errors_def catchM_def ret_def)

lemma logged_run: "m h = (Inr (), h') \<Longrightarrow> logged_errors m h = (Inr (), h')"
  by (simp add: logged_errors_def catchM_def)

lemma emit_returns: "fst (emit_disconnect_event H u sid us h) = Inr ()"
  by (simp add: emit_disconnect_event_def logged_errors_returns)

context presence_env begin

lemma offline_returns:
  fixes h :: "('s pw \<times> 'm) hookw"
  shows "fst (set_user_offline (redis_henv E order tz node st lg) (Some (str_int j)) sid us h) = Inr ()"
proof -
  have two: "fst (thenM (whenM b (logged_errors m)) (if c then ret () else logged_errors k) h) = Inr ()"
    for b c and m k :: "(('s pw \<times> 'm) hookw, unit) op" and h
  proof -
    have "fst (whenM b (logged_errors m) h) = Inr ()" by (simp add: whenM_def logged_errors_returns ret_def)
    then obtain h' where "whenM b (logged_errors m) h = (Inr (), h')" by (metis prod.collapse)
    then show ?thesis by (simp add: thenM_def bindM_def ret_def logged_errors_returns)
  qed
  have "on_world (hk_sids (redis_henv E order tz node st lg) (Some (str_int j))) h =
      (Inr (case v_sids (node_view E (hk_world h)) (str_int j) of None \<Rightarrow> [] | Some s \<Rightarrow> [s]), h)"
    by (simp add: on_world_def sids_of_run)
  then show ?thesis unfolding set_user_offline_def bindM_def [of "on_world (hk_sids _ _)"] using two by simp
qed

lemma offline_away:
  fixes h :: "('s pw \<times> 'm) hookw"
  assumes h: "beat_ok E i (hk_world h)" and i: "bit_offset i"
  shows "user_away E i (hk_world (snd (set_user_offline (redis_henv E order tz node st lg) (Some (str_int i)) sid us h)))"
proof -
  let ?H = "redis_henv E order tz node st lg :: ('s pw \<times> 'm) hook_env" and ?u = "Some (str_int i)"
  let ?A = "whenM (us \<noteq> status_invisible) (logged_errors (thenM (on_world (hk_db_set_last_online ?H ?u)) (on_world (hk_cache_set_last_online ?H ?u))))"
  let ?B = "thenM (on_world (hk_remove_sid ?H ?u sid)) (bindM (on_world (hk_sids ?H ?u)) (\<lambda>all_sids.
    if all_sids \<noteq> [] then ret () else on_world (if us = status_invisible then hk_remove_from_multicast ?H ?u else hk_set_user_offline ?H ?u)))"
  let ?sids = "case v_sids (node_view E (hk_world h)) (str_int i) of None \<Rightarrow> [] | Some s \<Rightarrow> [s]"
  have sids: "on_world (hk_sids ?H ?u) h = (Inr ?sids, h)" by (simp add: on_world_def sids_of_run)
  have A: "?A h = (Inr (), h)"
    by (simp add: whenM_def logged_errors_def catchM_def ret_def on_world_def throw_def thenM_def bindM_def)
  let ?w = "((fst (hk_world h))\<lparr>pw_db := r_hdel (pe_db E) (pw_db (fst (hk_world h))) rk_sid_for_user_id (str_int i)\<rparr>, snd (hk_world h))"
  have w: "beat_ok E i ?w" "v_sids (node_view E ?w) (str_int i) = None"
    using h by (simp_all add: beat_ok_def node_view_def redis_client.views [OF db_client])
  obtain w' where w': "on_pw (if us = status_invisible then cr_remove_from_multicast_on_disconnect E (str_int i)
      else db_set_user_offline E (str_int i)) ?w = (Inr (), w')" "user_away E i w'"
    using ended_run [OF w(1) i w(2)] by blast
  have B: "?B h = (Inr (), h\<lparr>hk_world := w'\<rparr>)"
    using w'(1) w(2) by (auto simp: thenM_def bindM_def on_world_def remove_sid_run sids_of_run fmt_def split: if_splits)
  have valid: "is_valid_id ?u" by (simp add: is_valid_id_def)
  have len: "\<not> length ?sids > 1" by (simp split: option.split)
  have "set_user_offline ?H ?u sid us h = logged_errors ?B h"
    unfolding set_user_offline_def using A sids valid len
    by (simp only: bindM_def thenM_def prod.case sum.case if_False not_True_eq_False)
  with logged_run [of ?B, OF B] w'(2) show ?thesis by simp
qed

text \<open>The hook of a disconnect returns, and the user it is for is away then.\<close>

lemma disconnect_run:
  fixes h :: "('s pw \<times> 'm) hookw"
  assumes w: "beat_ok E i (hk_world h)" and j: "bit_offset j"
  shows "\<exists>h'. handle_heartbeat_disconnect (redis_henv E order tz node st lg) (Some (str_int j)) h = (Inr (), h') \<and>
    hook_stays E i h h' \<and> (j = i \<longrightarrow> user_away E i (hk_world h'))"
proof -
  let ?H = "redis_henv E order tz node st lg :: ('s pw \<times> 'm) hook_env" and ?u = "Some (str_int j)" and ?s = "''hb-'' @ str_int j"
  obtain us h1 where h1: "on_world (hk_status ?H ?u) h = (Inr us, h1)" "hook_stays E i h h1"
  proof -
    obtain m where "db_get_user_status E (str_int j) (fst (hk_world h)) = (Inr (ps_status (presence E (fst (hk_world h)) j)),
        (fst (hk_world h))\<lparr>pw_cw := (pw_cw (fst (hk_world h)))\<lparr>cw_mem := m\<rparr>\<rparr>)"
      using status_known w unfolding beat_ok_def by blast
    then obtain h1 where run: "on_world (hk_status ?H ?u) h = (Inr (ps_status (presence E (fst (hk_world h)) j)), h1)"
      by (simp add: on_world_def on_pw_def fmt_def)
    moreover have "keeps (hook_stays E i) (on_world (hk_status ?H ?u))" by (simp add: on_world_stays status_stays fmt_def)
    ultimately show ?thesis using that keepsD by fastforce
  qed
  obtain h2 where h2: "emit_disconnect_event ?H ?u ?s us h1 = (Inr (), h2)" by (metis emit_returns prod.collapse)
  obtain h3 where h3: "set_user_offline ?H ?u ?s us h2 = (Inr (), h3)" by (metis offline_returns prod.collapse)
  have run: "handle_heartbeat_disconnect ?H ?u h = (Inr (), h3)"
    using h1(1) h2 h3 by (simp add: handle_heartbeat_disconnect_def Let_def bindM_def thenM_def fmt_def del: redis_henv_simps)
  have s2: "hook_stays E i h1 h2" by (rule keepsD [OF disconnect_stays(1) [OF j] h2])
  have s3: "hook_stays E i h2 h3" by (rule keepsD [OF disconnect_stays(2) [OF j] h3])
  have "user_away E i (hk_world h3)" if "j = i"
  proof -
    have "beat_ok E i (hk_world h2)" using w h1(2) s2 by (auto simp: hook_stays_def away_stays_def)
    from offline_away [OF this] show ?thesis using h3 that j by (metis snd_conv)
  qed
  with run hook_kept.R_trans [OF hook_kept.R_trans [OF h1(2) s2] s3] show ?thesis by blast
qed

text \<open>A heartbeat of another user.\<close>

lemma update_session_stays:
  assumes "v \<noteq> str_int i"
  shows "keeps (away_stays E i) (update_session (redis_henv E order tz node st lg) v n)"
  unfolding update_session_def create_or_update_user_def redis_henv_simps
  by (intro away_kept.keeps_thenM away_kept.keeps_if away_kept.keeps_basic away_kept.keeps_catchM dr_stays assms)
    (auto simp: away_kept.keeps_basic split: exc.splits)

lemma set_online_stays:
  assumes j: "bit_offset j" "j \<noteq> i"
  shows "keeps (away_stays E i) (set_user_online_if_not_previously_invisible (redis_henv E order tz node st lg) (str_int j))"
proof -
  note rules = away_kept.keeps_bindM away_kept.keeps_thenM away_kept.keeps_if away_kept.keeps_basic
  have logged: "keeps (away_stays E i) (logged_errors m)" if "keeps (away_stays E i) m" for m :: "('s pw \<times> 'm, unit) op"
    unfolding logged_errors_def using that by (intro away_kept.keeps_catchM) (auto simp: away_kept.keeps_basic)
  have check: "keeps (away_stays E i) (on_pw (in_cache (cr_check_heartbeat (pe_cache E) (str_int j))))"
    by (simp add: keeps_def check_stays(1) j(2) del: split_paired_All)
  have status: "keeps (away_stays E i) (on_pw (db_get_user_status E (fmt (Some (str_int j)))))" by (simp add: status_stays fmt_def)
  show ?thesis
    unfolding set_user_online_if_not_previously_invisible_def whenM_def redis_henv_simps
    by (intro rules logged status check dr_stays online_stays invisible_stays j)
qed

end

subsection \<open>The contract is met\<close>

definition manager_stays :: "'s penv \<Rightarrow> int \<Rightarrow> ('s pw \<times> 'm) hookw manager \<Rightarrow> ('s pw \<times> 'm) hookw manager \<Rightarrow> bool" where
  "manager_stays P i h h' \<longleftrightarrow> away_stays P i (hk_world (hm_world h)) (hk_world (hm_world h')) \<and> hm_to_check h' = hm_to_check h"

interpretation manager_kept: state_relation "manager_stays P i" for P i
  by unfold_locales (auto simp: manager_stays_def intro: away_kept.R_trans away_kept.R_refl)

lemma on_manager_stays:
  assumes "keeps (away_stays P i) m"
  shows "keeps (manager_stays P i) (on_manager (on_world m))"
proof -
  have "keeps (hook_stays P i) (on_world m)" by (rule on_world_stays [OF assms])
  then show ?thesis
    unfolding keeps_def manager_stays_def hook_stays_def on_manager_def
    by (metis (mono_tags, lifting) case_prod_unfold manager.select_convs(1,3) manager.surjective manager.update_convs(3) snd_conv)
qed

lemma first_heartbeat_known: "has_heartbeat v h \<Longrightarrow> publish_first_heartbeat E v n h = (Inr (), h)"
  by (simp add: publish_first_heartbeat_def bindM_def gets_def ret_def)

context presence_env begin

lemma on_heartbeat_stays:
  fixes h :: "('s pw \<times> 'm) hookw manager"
  assumes j: "bit_offset j" "j \<noteq> i" and known: "has_heartbeat (str_int j) h"
  shows "manager_stays E i h (snd (on_heartbeat (redis_henv E order tz node st lg) (str_int j) n h))"
proof -
  let ?H = "redis_henv E order tz node st lg :: ('s pw \<times> 'm) hook_env" and ?v = "str_int j"
  have session: "keeps (manager_stays E i) (on_manager (on_world (update_session ?H ?v n)))"
    by (intro on_manager_stays update_session_stays) (simp add: j)
  have online: "keeps (manager_stays E i) (on_manager (on_world (set_user_online_if_not_previously_invisible ?H ?v)))"
    by (intro on_manager_stays set_online_stays j)
  obtain r h1 where run: "on_manager (on_world (update_session ?H ?v n)) h = (r, h1)" by fastforce
  have h1: "manager_stays E i h h1" by (rule keepsD [OF session run])
  then have k: "has_heartbeat ?v h1" using known by (simp add: has_heartbeat_def manager_stays_def)
  obtain r2 h2 where run2: "on_manager (on_world (set_user_online_if_not_previously_invisible ?H ?v)) h1 = (r2, h2)" by fastforce
  have h2: "manager_stays E i h1 h2" by (rule keepsD [OF online run2])
  show ?thesis
  proof (cases r)
    case (Inl e)
    then show ?thesis using run h1 by (simp add: on_heartbeat_def thenM_def bindM_def)
  next
    case (Inr a)
    then have "on_heartbeat ?H ?v n h = (r2, h2)"
      using run run2 first_heartbeat_known [OF k] by (simp add: on_heartbeat_def thenM_def bindM_def)
    with manager_kept.R_trans [OF h1 h2] show ?thesis by simp
  qed
qed

lemma heartbeat_user_stays:
  fixes h :: "('s pw \<times> 'm) hookw manager"
  assumes j: "bit_offset j" "j \<noteq> i" and run: "heartbeat_user (redis_henv E order tz node st lg) now (str_int j) h = (r, h')"
  shows "away_stays E i (hk_world (hm_world h)) (hk_world (hm_world h')) \<and>
    hm_to_check h' \<in> {hm_to_check h, AList.update (str_int j) now (hm_to_check h)}"
proof -
  let ?H = "redis_henv E order tz node st lg :: ('s pw \<times> 'm) hook_env" and ?v = "str_int j"
  let ?name = "catchM (on_manager (on_world (hk_user_name ?H (Some ?v)))) (\<lambda>e. case e of NoSuchUserException _ \<Rightarrow> Some (ret ?v) | _ \<Rightarrow> None)"
  have name: "keeps (manager_stays E i) ?name"
    unfolding redis_henv_simps
    by (intro manager_kept.keeps_catchM on_manager_stays dr_stays) (auto simp: manager_kept.keeps_basic split: exc.splits)
  obtain q h1 where h1: "?name h = (q, h1)" by fastforce
  have s1: "manager_stays E i h h1" by (rule keepsD [OF name h1])
  show ?thesis
  proof (cases q)
    case (Inl e)
    then show ?thesis using run h1 s1 by (simp add: heartbeat_user_def bindM_def manager_stays_def)
  next
    case (Inr n)
    let ?h = "h1\<lparr>hm_to_check := AList.update ?v now (hm_to_check h1)\<rparr>"
    obtain r2 h2 where h2: "on_heartbeat ?H ?v n ?h = (r2, h2)" by fastforce
    have "has_heartbeat ?v ?h" by (simp add: has_heartbeat_def keys_update)
    from on_heartbeat_stays [OF j this, of order tz node st lg n] h2
    have s2: "manager_stays E i ?h h2" by simp
    have "thenM (add_heartbeat now ?v) (on_heartbeat ?H ?v n) h1 = (r2, h2)"
      using h2 by (simp add: thenM_def bindM_def add_heartbeat_def modify_def)
    then have "h' = h2"
      using run h1 Inr by (cases r2) (simp_all add: heartbeat_user_def bindM_def logged_errors_def catchM_def ret_def)
    with s1 s2 show ?thesis
      by (auto simp: manager_stays_def dest: away_kept.R_trans)
  qed
qed

lemma is_heartbeat_env:
  fixes order tz node st and lg :: "string \<Rightarrow> string \<Rightarrow> ('s pw \<times> 'm, activity) op"
  assumes i: "bit_offset i"
  defines "H \<equiv> redis_henv E order tz node st lg"
  shows "heartbeat_env (hook_menv expire testing H) (\<lambda>h. beat_ok E i (hk_world h)) (\<lambda>h. user_away E i (hk_world h))
    {str_int j |j. bit_offset j} (str_int i) (heartbeat_user H)"
proof
  fix w :: "('s pw \<times> 'm) hookw" and v assume w: "beat_ok E i (hk_world w)" and v: "v \<in> {str_int j |j. bit_offset j}"
  obtain j where j: "v = str_int j" "bit_offset j" using v by auto
  show "\<exists>b w'. hm_check (hook_menv expire testing H) v w = (Inr b, w') \<and> beat_ok E i (hk_world w') \<and>
      (user_away E i (hk_world w) \<longrightarrow> user_away E i (hk_world w')) \<and> (v = str_int i \<longrightarrow> \<not> b)"
  proof -
    let ?m = "on_pw (in_cache (cr_check_heartbeat (pe_cache E) v))"
    obtain b x where run: "?m (hk_world w) = (Inr b, x)" using check_returns [of v "hk_world w"] by (metis prod.collapse)
    have "away_stays E i (hk_world w) x" using check_stays(1) [of j i "hk_world w"] w run j by simp
    moreover have "v = str_int i \<Longrightarrow> \<not> b" using check_stays(2) [OF run] w by (simp add: beat_ok_def)
    moreover have "hm_check (hook_menv expire testing H) v w = (Inr b, w\<lparr>hk_world := x\<rparr>)"
      using run by (simp add: hook_menv_def H_def on_world_def)
    ultimately show ?thesis using w by (auto simp: away_stays_def)
  qed
  show "\<exists>w'. hm_observe (hook_menv expire testing H) v w = (Inr (), w') \<and> beat_ok E i (hk_world w') \<and>
      (v = str_int i \<or> user_away E i (hk_world w) \<longrightarrow> user_away E i (hk_world w'))"
    using disconnect_run [OF w j(2), of order tz node st lg] w j by (auto simp: hook_menv_def H_def hook_stays_def away_stays_def)
next
  fix h h' :: "('s pw \<times> 'm) hookw manager" and v now r
  assume h: "beat_ok E i (hk_world (hm_world h))" and v: "v \<in> {str_int j |j. bit_offset j}" "v \<noteq> str_int i"
    and run: "heartbeat_user H now v h = (r, h')"
  obtain j where "v = str_int j" "bit_offset j" "j \<noteq> i" using v by auto
  with heartbeat_user_stays [OF this(2,3)] run h
  show "beat_ok E i (hk_world (hm_world h')) \<and>
      (user_away E i (hk_world (hm_world h)) \<longrightarrow> user_away E i (hk_world (hm_world h'))) \<and>
      hm_to_check h' \<in> {hm_to_check h, AList.update v now (hm_to_check h)}"
    unfolding H_def away_stays_def by blast
qed

end

interpretation memory_heartbeats: heartbeat_env "hook_menv expire testing (redis_henv memory_penv order tz node st lg)"
  "\<lambda>h. beat_ok memory_penv 7 (hk_world h)" "\<lambda>h. user_away memory_penv 7 (hk_world h)" "{str_int j |j. bit_offset j}" "str_int 7"
  "heartbeat_user (redis_henv memory_penv order tz node st lg)" for expire testing order tz node st lg
  by (rule memory_presence.is_heartbeat_env) (simp add: bit_offset_def)

text \<open>A user who sends no more heartbeats is disconnected by the first round after the time to expire.\<close>

lemma silent_user_leaves:
  assumes P: "presence_env P" and i: "bit_offset i" "beat_ok P i (hk_world (hm_world h))"
    and h: "distinct (map fst (hm_to_check h))" "fst ` set (hm_to_check h) \<subseteq> {str_int j |j. bit_offset j}" "(str_int i, t) \<in> set (hm_to_check h)"
    and ts: "\<forall>now v. Beat now v \<in> set ts \<longrightarrow> (\<exists>j. v = str_int j \<and> bit_offset j \<and> j \<noteq> i)" "Round now \<in> set ts" "t + expire * micro < now"
    and H: "H = redis_henv P order tz node st lg"
  shows "\<not> has_heartbeat (str_int i) (take_turns (hook_menv expire testing H) (heartbeat_user H) ts h) \<and>
    user_away P i (hk_world (hm_world (take_turns (hook_menv expire testing H) (heartbeat_user H) ts h)))"
proof -
  have "\<forall>now v. Beat now v \<in> set ts \<longrightarrow> v \<in> {str_int j |j. bit_offset j} - {str_int i}" using ts(1) by fastforce
  moreover have "t + hm_expire_second (hook_menv expire testing H) * micro < now" using ts(3) by (simp add: hook_menv_def)
  ultimately show ?thesis
    using heartbeat_env.leaves_eventually [OF presence_env.is_heartbeat_env [OF P i(1)], where h = h and t = t and ts = ts and now = now]
      i(2) h ts(2) unfolding H by blast
qed

end
