(* ===== verification/Publisher.thy ===== *)
theory Publisher
  imports Event_Window
begin

section \<open>Publishing\<close>

text \<open>
  \<open>BasePublisher.publish\<close> of \<^verbatim>\<open>dino/endpoint/base.py\<close>, with three attempts and the window of what was
  sent, and the choice between the queues in \<^verbatim>\<open>dino/endpoint/pubsub.py\<close>. What an attempt does to the
  broker, and whether it raises, is the parameter \<open>send\<close>. A message is a dictionary; the model
  has the two entries that are read here and the rest of it.
\<close>

record 'b message =
  ms_id :: "string option"
  ms_verb :: "string option"
  ms_body :: 'b

record 's publisher =
  pb_broker :: 's
  pb_window :: "string window"

type_synonym ('s, 'b) sender = "'b message \<Rightarrow> string option \<Rightarrow> 's \<Rightarrow> bool \<times> 's"

subsection \<open>One publisher\<close>

definition topic_msg_hash :: "string option \<Rightarrow> string \<Rightarrow> string" where
  "topic_msg_hash topic msg_id =
     (case topic of None \<Rightarrow> ''default'' | Some t \<Rightarrow> if t = [] then ''default'' else t) @ ''|'' @ msg_id"

definition entry :: "string option \<Rightarrow> ('w, string) op" where
  "entry v = (case v of None \<Rightarrow> throw KeyError | Some s \<Rightarrow> ret s)"

definition recently_sent_has :: "string option \<Rightarrow> string \<Rightarrow> ('s publisher, bool) op" where
  "recently_sent_has topic msg_id = gets (\<lambda>p. topic_msg_hash topic msg_id \<in> wi_set (pb_window p))"

definition update_recently_sent :: "string option \<Rightarrow> string \<Rightarrow> ('s publisher, unit) op" where
  "update_recently_sent topic msg_id p =
     (case remember_sent (topic_msg_hash topic msg_id) (pb_window p) of (r, W) \<Rightarrow> (r, p\<lparr>pb_window := W\<rparr>))"

definition try_publish :: "('s, 'b) sender \<Rightarrow> 'b message \<Rightarrow> string option \<Rightarrow> ('s publisher, bool) op" where
  "try_publish send message topic =
     stateM (\<lambda>p. case send message topic (pb_broker p) of (ok, s) \<Rightarrow> (ok, p\<lparr>pb_broker := s\<rparr>))"

text \<open>
  The loop over the attempts: it ends with the number of the attempt that went through, or with \<open>None\<close>
  when all have failed. An attempt fails when sending raises, and when the update of the
  window does.
\<close>

fun attempts :: "('s, 'b) sender \<Rightarrow> 'b message \<Rightarrow> string option \<Rightarrow> string \<Rightarrow> nat \<Rightarrow> nat \<Rightarrow> ('s publisher, nat option) op" where
  "attempts send message topic msg_id current 0 = ret None"
| "attempts send message topic msg_id current (Suc n) =
     bindM (try_publish send message topic) (\<lambda>ok.
     bindM (if ok then catchM (thenM (update_recently_sent topic msg_id) (ret True)) (\<lambda>_. Some (ret False))
            else ret False) (\<lambda>ok.
     if ok then ret (Some current) else attempts send message topic msg_id (Suc current) n))"

definition N_TRIES :: nat where
  "N_TRIES = 3"

text \<open>The text of the log entry reads the verb, after a first attempt that went through.\<close>

definition publish_message :: "('s, 'b) sender \<Rightarrow> 'b message \<Rightarrow> string option \<Rightarrow> ('s publisher, unit) op" where
  "publish_message send message topic =
     bindM (entry (ms_id message)) (\<lambda>msg_id.
     bindM (recently_sent_has topic msg_id) (\<lambda>sent.
     if sent then bindM (entry (ms_verb message)) (\<lambda>_. ret ())
     else bindM (attempts send message topic msg_id 0 N_TRIES) (\<lambda>attempt.
       case attempt of
         None \<Rightarrow> throw PublishException
       | Some n \<Rightarrow> if n > 0 then ret () else bindM (entry (ms_verb message)) (\<lambda>_. ret ()))))"

subsection \<open>Internal and external queue\<close>

record ('i, 'e) buses =
  bu_internal :: "'i publisher"
  bu_external :: "'e publisher"

definition on_internal :: "('i publisher, 'a) op \<Rightarrow> (('i, 'e) buses, 'a) op" where
  "on_internal m b = (case m (bu_internal b) of (r, p) \<Rightarrow> (r, b\<lparr>bu_internal := p\<rparr>))"

definition on_external :: "('e publisher, 'a) op \<Rightarrow> (('i, 'e) buses, 'a) op" where
  "on_external m b = (case m (bu_external b) of (r, p) \<Rightarrow> (r, b\<lparr>bu_external := p\<rparr>))"

text \<open>
  A message that the external queue does not take goes to the internal one; what is raised there is
  not caught. Other exceptions are logged.
\<close>

definition do_publish_external ::
  "('i, 'b) sender \<Rightarrow> ('e, 'b) sender \<Rightarrow> 'b message \<Rightarrow> string option \<Rightarrow> (('i, 'e) buses, unit) op" where
  "do_publish_external send_internal send_external message topic =
     catchM (on_external (publish_message send_external message topic))
       (\<lambda>e. if e = PublishException then Some (on_internal (publish_message send_internal message None))
            else Some (ret ()))"

definition do_publish_internal :: "('i, 'b) sender \<Rightarrow> 'b message \<Rightarrow> (('i, 'e) buses, unit) op" where
  "do_publish_internal send_internal message =
     catchM (on_internal (publish_message send_internal message None)) (\<lambda>_. Some (ret ()))"

definition do_publish_async ::
  "('i, 'b) sender \<Rightarrow> ('e, 'b) sender \<Rightarrow> 'b message \<Rightarrow> bool \<Rightarrow> string option \<Rightarrow> (('i, 'e) buses, unit) op" where
  "do_publish_async send_internal send_external message external topic =
     (if external then do_publish_external send_internal send_external message topic
      else do_publish_internal send_internal message)"

text \<open>
  \<open>do_publish\<close> writes a log entry with the verb and the id before it spawns the rest, whose exceptions
  nobody sees.
\<close>

definition do_publish ::
  "('i, 'b) sender \<Rightarrow> ('e, 'b) sender \<Rightarrow> 'b message \<Rightarrow> bool \<Rightarrow> string option \<Rightarrow> (('i, 'e) buses, unit) op" where
  "do_publish send_internal send_external message external topic =
     bindM (entry (ms_verb message)) (\<lambda>_.
     bindM (entry (ms_id message)) (\<lambda>_.
     catchM (do_publish_async send_internal send_external message external topic) (\<lambda>_. Some (ret ()))))"

subsection \<open>What publishing does\<close>

text \<open>The attempts as the broker sees them: up to \<open>n\<close>, and none after one that went through.\<close>

fun tries :: "(('s \<Rightarrow> bool \<times> 's)) \<Rightarrow> nat \<Rightarrow> 's \<Rightarrow> nat option \<times> 's" where
  "tries f 0 s = (None, s)"
| "tries f (Suc n) s = (case f s of (ok, s') \<Rightarrow> if ok then (Some 0, s')
     else (case tries f n s' of (r, s'') \<Rightarrow> (map_option Suc r, s'')))"

lemma attempts_run:
  assumes "window_of xs (pb_window p)" "topic_msg_hash topic i \<notin> wi_set (pb_window p)"
  shows "\<exists>W. window_of (xs @ [topic_msg_hash topic i]) W \<and>
    attempts send m topic i k n p = (case tries (send m topic) n (pb_broker p) of
       (None, s) \<Rightarrow> (Inr None, p\<lparr>pb_broker := s\<rparr>)
     | (Some j, s) \<Rightarrow> (Inr (Some (k + j)), p\<lparr>pb_broker := s, pb_window := W\<rparr>))"
  using assms
proof (induction n arbitrary: k p)
  case 0
  then show ?case using remember_window [OF 0] by (auto simp: op_simps)
next
  case (Suc n)
  obtain W where W: "remember_sent (topic_msg_hash topic i) (pb_window p) = (Inr (), W)"
      "window_of (xs @ [topic_msg_hash topic i]) W"
    using remember_window [OF Suc.prems] by blast
  obtain ok s where s: "send m topic (pb_broker p) = (ok, s)" by force
  show ?case
  proof (cases ok)
    case True
    with W s show ?thesis
      by (auto simp: op_simps try_publish_def update_recently_sent_def catchM_def bindM_def intro!: exI [of _ W])
  next
    case False
    from Suc.IH [of "p\<lparr>pb_broker := s\<rparr>" "Suc k"] Suc.prems s False show ?thesis
      by (auto simp: op_simps try_publish_def split: prod.split option.split)
  qed
qed

lemma publish_known:
  assumes "window_of xs (pb_window p)" "ms_id m = Some i" "ms_verb m = Some v"
    and "topic_msg_hash topic i \<in> set (lastn WINDOW_SIZE xs)"
  shows "publish_message send m topic p = (Inr (), p)"
  using assms by (simp add: publish_message_def entry_def recently_sent_has_def window_of_mem op_simps)

lemma publish_new:
  assumes "window_of xs (pb_window p)" "ms_id m = Some i" "ms_verb m = Some v"
    and "topic_msg_hash topic i \<notin> set (lastn WINDOW_SIZE xs)"
  shows "\<exists>W. window_of (xs @ [topic_msg_hash topic i]) W \<and>
    publish_message send m topic p = (case tries (send m topic) N_TRIES (pb_broker p) of
       (None, s) \<Rightarrow> (Inl PublishException, p\<lparr>pb_broker := s\<rparr>)
     | (Some j, s) \<Rightarrow> (Inr (), p\<lparr>pb_broker := s, pb_window := W\<rparr>))"
proof -
  have "topic_msg_hash topic i \<notin> wi_set (pb_window p)" using assms(1,4) by (simp add: window_of_mem)
  from attempts_run [OF assms(1) this, of send m 0 N_TRIES] obtain W where
    W: "window_of (xs @ [topic_msg_hash topic i]) W" and a: "attempts send m topic i 0 N_TRIES p =
      (case tries (send m topic) N_TRIES (pb_broker p) of
         (None, s) \<Rightarrow> (Inr None, p\<lparr>pb_broker := s\<rparr>)
       | (Some j, s) \<Rightarrow> (Inr (Some (0 + j)), p\<lparr>pb_broker := s, pb_window := W\<rparr>))" by blast
  have "publish_message send m topic p = (case tries (send m topic) N_TRIES (pb_broker p) of
      (None, s) \<Rightarrow> (Inl PublishException, p\<lparr>pb_broker := s\<rparr>)
    | (Some j, s) \<Rightarrow> (Inr (), p\<lparr>pb_broker := s, pb_window := W\<rparr>))"
    using assms a
    by (simp add: publish_message_def entry_def recently_sent_has_def window_of_mem op_simps bindM_def [of "attempts _ _ _ _ _ _"]
        split: prod.split option.split)
  with W show ?thesis by blast
qed

subsection \<open>A log of what the broker took\<close>

definition logged :: "('s, 'b) sender \<Rightarrow> (string list \<times> 's, 'b) sender" where
  "logged send m topic = (\<lambda>(log, s). case send m topic s of (ok, s') \<Rightarrow>
     (ok, (if ok then log @ [topic_msg_hash topic (case ms_id m of None \<Rightarrow> [] | Some i \<Rightarrow> i)] else log, s')))"

fun publish_all :: "('s, 'b) sender \<Rightarrow> ('b message \<times> string option) list \<Rightarrow> 's publisher \<Rightarrow> 's publisher" where
  "publish_all send [] p = p"
| "publish_all send ((m, topic) # ms) p = publish_all send ms (snd (publish_message send m topic p))"

lemma tries_logged:
  "ms_id m = Some i \<Longrightarrow> tries (logged send m topic) n (log, s) = (r, (log', s')) \<Longrightarrow>
    log' = (case r of None \<Rightarrow> log | Some _ \<Rightarrow> log @ [topic_msg_hash topic i])"
proof (induction n arbitrary: s r)
  case (Suc n)
  obtain ok s1 where s1: "send m topic s = (ok, s1)" by force
  show ?case
  proof (cases ok)
    case True
    with Suc.prems s1 show ?thesis by (auto simp: logged_def)
  next
    case False
    with Suc.prems s1 obtain r' where r': "tries (logged send m topic) n (log, s1) = (r', (log', s'))" "r = map_option Suc r'"
      by (auto simp: logged_def split: prod.splits)
    from Suc.IH [OF Suc.prems(1) r'(1)] r'(2) show ?thesis by (simp split: option.split)
  qed
qed simp

definition spaced :: "nat \<Rightarrow> 'a list \<Rightarrow> bool" where
  "spaced n xs \<longleftrightarrow> (\<forall>i j. i < j \<longrightarrow> j < length xs \<longrightarrow> xs ! i = xs ! j \<longrightarrow> n < j - i)"

lemma spaced_snoc:
  assumes "spaced n xs" "x \<notin> set (lastn n xs)"
  shows "spaced n (xs @ [x])"
  unfolding spaced_def
proof (intro allI impI)
  fix i j assume ij: "i < j" "j < length (xs @ [x])" "(xs @ [x]) ! i = (xs @ [x]) ! j"
  show "n < j - i"
  proof (cases "j < length xs")
    case True
    with ij assms(1) show ?thesis by (simp add: spaced_def nth_append)
  next
    case False
    with ij have j: "j = length xs" and x: "xs ! i = x" "i < length xs" by (auto simp: nth_append)
    have "xs ! i \<in> set (drop k xs)" if "k \<le> i" for k
      using nth_mem [of "i - k" "drop k xs"] that x(2) by simp
    from this [of "length xs - n"] assms(2) x have "\<not> length xs - n \<le> i" by (auto simp: lastn_def)
    with x(2) show ?thesis unfolding j by linarith
  qed
qed

lemma publish_step_spaced:
  assumes "window_of log (pb_window p)" "spaced WINDOW_SIZE log" "fst (pb_broker p) = log"
    and "ms_id m = Some i" "ms_verb m = Some v" "publish_message (logged send) m topic p = (r, p')"
  shows "window_of (fst (pb_broker p')) (pb_window p') \<and> spaced WINDOW_SIZE (fst (pb_broker p'))"
proof (cases "topic_msg_hash topic i \<in> set (lastn WINDOW_SIZE log)")
  case True
  from publish_known [OF assms(1,4,5) True, of "logged send"] assms show ?thesis by simp
next
  case False
  from publish_new [OF assms(1,4,5) False, of "logged send"] obtain W where
    W: "window_of (log @ [topic_msg_hash topic i]) W" and run: "publish_message (logged send) m topic p =
      (case tries (logged send m topic) N_TRIES (pb_broker p) of
         (None, s) \<Rightarrow> (Inl PublishException, p\<lparr>pb_broker := s\<rparr>)
       | (Some j, s) \<Rightarrow> (Inr (), p\<lparr>pb_broker := s, pb_window := W\<rparr>))" by blast
  obtain t log' s' where t: "tries (logged send m topic) N_TRIES (pb_broker p) = (t, (log', s'))"
    by (metis surj_pair)
  have "log' = (case t of None \<Rightarrow> log | Some _ \<Rightarrow> log @ [topic_msg_hash topic i])"
    by (rule tries_logged [OF assms(4), of send topic N_TRIES _ "snd (pb_broker p)"]) (use t assms(3) in auto)
  with t run W assms False spaced_snoc [OF assms(2) False] show ?thesis
    by (auto split: option.splits)
qed

lemma publish_all_spaced:
  assumes "\<forall>(m, topic)\<in>set ms. ms_id m \<noteq> None \<and> ms_verb m \<noteq> None"
    and "window_of (fst (pb_broker p)) (pb_window p)" "spaced WINDOW_SIZE (fst (pb_broker p))"
  shows "window_of (fst (pb_broker (publish_all (logged send) ms p))) (pb_window (publish_all (logged send) ms p)) \<and>
    spaced WINDOW_SIZE (fst (pb_broker (publish_all (logged send) ms p)))"
  using assms
proof (induction ms arbitrary: p)
  case (Cons e ms)
  obtain m topic where e: "e = (m, topic)" by force
  obtain i v where m: "ms_id m = Some i" "ms_verb m = Some v" using Cons.prems(1) e by auto
  obtain r p1 where r: "publish_message (logged send) m topic p = (r, p1)" by force
  from publish_step_spaced [OF Cons.prems(2,3) refl m r] Cons.IH [of p1] Cons.prems(1) e r show ?case by simp
qed simp

text \<open>
  Two greenlets that publish the same message at the same time both find it unsent, so that the window
  has it twice. When the first of the two is forgotten the set forgets both, and when the second
  is due the removal raises inside the attempt, which is then repeated: the message is sent twice.
\<close>

lemma stale_entry_sends_twice:
  assumes "wi_list W = o' # o'' # rest" "length rest = 98" "o' \<notin> wi_set W" "o'' \<in> wi_set W"
    and "topic_msg_hash topic i \<notin> wi_set W" "o' \<noteq> topic_msg_hash topic i"
    and "ms_id m = Some i" "send m topic s = (True, s')" "send m topic s' = (True, s'')"
  shows "\<exists>W'. publish_message send m topic \<lparr>pb_broker = s, pb_window = W\<rparr> =
    (Inr (), \<lparr>pb_broker = s'', pb_window = W'\<rparr>)"
proof -
  let ?h = "topic_msg_hash topic i"
  let ?W1 = "\<lparr>wi_list = o'' # rest @ [?h], wi_set = insert ?h (wi_set W)\<rparr>"
  let ?W2 = "\<lparr>wi_list = rest @ [?h, ?h], wi_set = insert ?h (wi_set W) - {o''}\<rparr>"
  have 1: "remember_sent ?h W = (Inl KeyError, ?W1)" and 2: "remember_sent ?h ?W1 = (Inr (), ?W2)"
    using assms by (simp_all add: remember_sent_def op_simps WINDOW_SIZE_def)
  have "attempts send m topic i 0 N_TRIES \<lparr>pb_broker = s, pb_window = W\<rparr> =
      (Inr (Some 1), \<lparr>pb_broker = s'', pb_window = ?W2\<rparr>)"
    using assms(8,9) 1 2
    by (simp add: N_TRIES_def numeral_3_eq_3 try_publish_def update_recently_sent_def bindM_def thenM_def catchM_def
        stateM_def ret_def)
  with assms(5,7) show ?thesis
    by (simp add: publish_message_def entry_def recently_sent_has_def op_simps bindM_def [of "attempts _ _ _ _ _ _"])
qed

end
