(* ===== verification/Claims_Queue.thy ===== *)
theory Claims_Queue
  imports Queue_Memory Heartbeat_Redis Publisher
begin

section \<open>Properties of publishing, of the queue, and of heartbeats\<close>

text \<open>
  Which events a node acts upon, what becomes of a ban from everything on the node that has the
  socket of the user and on the others, which messages are delivered twice, and what heartbeats do.
\<close>

text \<open>C14: An event that a node has acted upon is not acted upon again when it is delivered once more,
  as long as fewer than a hundred other events came in between: the second delivery changes nothing.\<close>

theorem event_acted_upon_once:
  assumes "is_new n e i" "window_of xs (nd_handled n)" "length es < WINDOW_SIZE"
  shows "handle_server_activity E e (handle_all E es (snd (handle_server_activity E e n))) =
    (Inr (), handle_all E es (snd (handle_server_activity E e n)))"
  using assms by (rule acted_upon_once)

theorem event_acted_upon_once_witness:
  "handle_server_activity (memory_node 0 :: (store pw \<times> unit, _) nenv) bob_ban
     (handle_all (memory_node 0) [] (snd (handle_server_activity (memory_node 0) bob_ban (bob_node bob_sockets ())))) =
   (Inr (), handle_all (memory_node 0) [] (snd (handle_server_activity (memory_node 0) bob_ban (bob_node bob_sockets ()))))"
  by (rule event_acted_upon_once [OF bob_is_new(1,2)]) (simp add: WINDOW_SIZE_def)

text \<open>C7: A ban from everything reaches the user on the node that has one of the user's sockets. With
  the Redis database, a message storage and a socket server that keep their contracts, the event is
  handled without an error; then the socket of the user is in no room of the node, every other socket
  is where it was, the user gets no more broadcasts, and the ban is in the database with its end.\<close>

theorem global_ban_takes_out:
  assumes "full_node P T N S names i sid" "is_new n e x" "window_of xs (nd_handled n)"
    and "ban_event e (str_int i) {Some b |b. names b \<noteq> None} (redis_nenv P order T N) d t"
    and "reached N (nd_sockets n) (ne_activity e) [sid]" "node_inv P S names i sid None (nd_db n)"
  shows "\<exists>n'. handle_server_activity (redis_nenv P order T N) e n = (Inr (), n') \<and> sids_out N {sid} n n' \<and>
    \<not> ps_multicast (presence P (fst (nd_db n')) i) \<and>
    v_bans (node_view P (nd_db n')) None (str_int i) = Some (recorded_ban names i (nv_tz N) d t)"
  using assms by (rule global_ban_over_redis)

theorem global_ban_takes_out_witness:
  "\<exists>n'. handle_server_activity (redis_nenv memory_penv (\<lambda>xs. xs) (cassandra_messages memory_csenv) (memory_node 0)) bob_ban
      (bob_node bob_sockets no_messages) = (Inr (), n') \<and>
    sids_out (memory_node 0 :: (store pw \<times> tables, _) nenv) {''s''} (bob_node bob_sockets no_messages) n' \<and>
    \<not> ps_multicast (presence memory_penv (fst (nd_db n')) 7) \<and>
    v_bans (node_view memory_penv (nd_db n')) None (str_int 7) =
      Some (recorded_ban bob_names 7 (nv_tz (memory_node 0 :: (store pw \<times> tables, socket_rooms) nenv)) (Some ''5m'') 300000000)"
proof (rule global_ban_takes_out)
  show "full_node memory_penv (cassandra_messages memory_csenv) (memory_node 0) (\<lambda>s. well_stamped memory_csenv (table_messages s))
      bob_names 7 ''s''"
    by (rule memory_full.full_node_axioms)
  show "is_new (bob_node bob_sockets no_messages) bob_ban (Some ''e'')" "window_of [] (nd_handled (bob_node bob_sockets no_messages))"
    by (rule bob_is_new)+
  show "reached (memory_node 0) (nd_sockets (bob_node bob_sockets no_messages)) (ne_activity bob_ban) [''s'']"
    using bob_reached by (simp add: bob_node_def)
  show "node_inv memory_penv (\<lambda>s. well_stamped memory_csenv (table_messages s)) bob_names 7 ''s'' None
      (nd_db (bob_node bob_sockets no_messages))"
    by (rule bob_state) (simp add: well_stamped_def no_messages_def table_messages_def ran_def)
qed (rule bob_ban_event)

text \<open>C19: On a node that has none of the user's sockets, a ban from everything is recorded and the
  event is sent on to the other nodes. It has a revision then, and the handler of every node drops an
  event that has one, so that the user is not thrown out anywhere on account of it.\<close>

theorem ban_sent_on_is_dropped:
  assumes "redis_node P N names i" "is_new n e (Some x)" "window_of xs (nd_handled n)" "ne_id e = Text x"
    and "window_of ys (nd_delegated n)"
    and "ban_event e (str_int i) {Some b |b. names b \<noteq> None} (redis_nenv P order T N) d t"
    and "\<not> reached N (nd_sockets n) (ne_activity e) [sid]" "node_inv P S names i sid None (nd_db n)"
  shows "\<exists>n'. handle_server_activity (redis_nenv P order T N) e n = (Inr (), n') \<and>
    nd_internal n' = nd_internal n @ [delegated_event e] \<and> nd_sockets n' = nd_sockets n \<and> nd_emits n' = nd_emits n \<and>
    v_bans (node_view P (nd_db n')) None (str_int i) = Some (recorded_ban names i (nv_tz N) d t) \<and>
    (\<forall>other. handle_server_activity (redis_nenv P order T N') (delegated_event e) other = (Inr (), other))"
  using ban_sent_on_over_redis [OF assms] delegated_dropped by blast

theorem ban_sent_on_is_dropped_witness:
  fixes E :: "(store pw \<times> tables, socket_rooms) nenv"
  defines "E \<equiv> redis_nenv memory_penv (\<lambda>xs. xs) (cassandra_messages memory_csenv) (memory_node 0)"
  shows "\<exists>n'. handle_server_activity E bob_ban (bob_node Map.empty no_messages) = (Inr (), n') \<and>
    nd_internal n' = [delegated_event bob_ban] \<and> nd_sockets n' = Map.empty \<and> nd_emits n' = [] \<and>
    v_bans (node_view memory_penv (nd_db n')) None (str_int 7) =
      Some (recorded_ban bob_names 7 (nv_tz (memory_node 0 :: (store pw \<times> tables, socket_rooms) nenv)) (Some ''5m'') 300000000) \<and>
    (\<forall>other. handle_server_activity E (delegated_event bob_ban) other = (Inr (), other))"
proof -
  have s: "node_inv memory_penv (\<lambda>_. True) bob_names 7 ''s'' None (nd_db (bob_node Map.empty no_messages))"
    by (rule bob_state) simp
  have a: "\<not> reached (memory_node 0 :: (store pw \<times> tables, _) nenv) (nd_sockets (bob_node Map.empty no_messages)) (ne_activity bob_ban) [''s'']"
    using bob_away by (simp add: bob_node_def)
  have i: "ne_id bob_ban = Text ''e''" by (simp add: bob_ban_def)
  show ?thesis
    using ban_sent_on_is_dropped [OF memory_redis_node bob_is_new(1,2) i bob_is_new(3) bob_ban_event a s, where N' = "memory_node 0"]
    unfolding E_def by (simp add: bob_node_def)
qed

text \<open>C20: With the message storage on Redis a ban from everything does not throw the user out. The
  storage cannot list the messages of a user and raises, and the handler logs the error: the room of
  the user is told of the ban, but no socket leaves a room and no event is published.\<close>

theorem ban_stops_at_the_messages:
  assumes "redis_storage_node P N names i sid" "is_new n e x" "window_of xs (nd_handled n)"
    and "ban_event e (str_int i) {Some b |b. names b \<noteq> None} (redis_nenv P order (redis_messages SE) N) d t"
    and "reached N (nd_sockets n) (ne_activity e) [sid]" "node_inv P S names i sid None (nd_db n)"
  shows "\<exists>n' m. handle_server_activity (redis_nenv P order (redis_messages SE) N) e n = (Inr (), n') \<and>
    nd_sockets n' = nd_sockets n \<and> nd_external n' = nd_external n \<and> nd_emits n' = nd_emits n @ [m] \<and> em_room m = Some (str_int i)"
  using assms by (rule global_ban_stops_over_redis)

theorem ban_stops_at_the_messages_witness:
  "\<exists>n' m. handle_server_activity (redis_nenv memory_penv (\<lambda>xs. xs)
      (redis_messages \<lparr>se_redis = store_redis, se_max_history = 0, se_session = (\<lambda>_. None)\<rparr>) (memory_node 0)) bob_ban
      (bob_node bob_sockets empty_store) = (Inr (), n') \<and>
    nd_sockets n' = bob_sockets \<and> nd_external n' = [] \<and> nd_emits n' = [m] \<and> em_room m = Some (str_int 7)"
proof -
  let ?SE = "\<lparr>se_redis = store_redis, se_max_history = 0, se_session = (\<lambda>_. None)\<rparr>"
  have s: "node_inv memory_penv (\<lambda>_. True) bob_names 7 ''s'' None (nd_db (bob_node bob_sockets empty_store))"
    by (rule bob_state) simp
  have r: "reached (memory_node 0 :: (store pw \<times> store, _) nenv) (nd_sockets (bob_node bob_sockets empty_store)) (ne_activity bob_ban) [''s'']"
    using bob_reached by (simp add: bob_node_def)
  show ?thesis
    using ban_stops_at_the_messages [OF memory_stopped.redis_storage_node_axioms bob_is_new(1,2) bob_ban_event r s, where SE = ?SE]
    by (simp add: bob_node_def)
qed



text \<open>C12: A user who no longer sends heartbeats is disconnected in the end. Whatever rounds of the
  manager and heartbeats of other users follow, once a round comes later than the time to expire
  after the last heartbeat, the user is no longer waited for, has no session in the database, and
  gets no more broadcasts; and it stays so.\<close>

theorem silent_user_is_disconnected:
  assumes "presence_env P" "bit_offset i" "beat_ok P i (hk_world (hm_world h))"
    and "distinct (map fst (hm_to_check h))" "fst ` set (hm_to_check h) \<subseteq> {str_int j |j. bit_offset j}"
    and "(str_int i, t) \<in> set (hm_to_check h)"
    and "\<forall>now v. Beat now v \<in> set ts \<longrightarrow> (\<exists>j. v = str_int j \<and> bit_offset j \<and> j \<noteq> i)"
    and "Round now \<in> set ts" "t + expire * micro < now"
    and "H = redis_henv P order tz node st lg"
  shows "\<not> has_heartbeat (str_int i) (take_turns (hook_menv expire testing H) (heartbeat_user H) ts h) \<and>
    user_away P i (hk_world (hm_world (take_turns (hook_menv expire testing H) (heartbeat_user H) ts h)))"
  using assms by (rule silent_user_leaves)

theorem silent_user_is_disconnected_witness:
  fixes H :: "(store pw \<times> unit) hook_env" and h :: "(store pw \<times> unit) hookw manager"
  defines "H \<equiv> redis_henv memory_penv (\<lambda>xs. xs) 0 None (\<lambda>_. \<lparr>sp_id = ''id'', sp_published = ''now'', sp_environment = ''test''\<rparr>)
      (\<lambda>_ _. throw AttributeError)"
    and "h \<equiv> \<lparr>hm_to_check = [(''7'', 0)], hm_connected = Map.empty, hm_world = \<lparr>hk_world = (bob_db, ()), hk_published = []\<rparr>\<rparr>"
  shows "\<not> has_heartbeat ''7'' (take_turns (hook_menv 300 True H) (heartbeat_user H) [Beat 100000000 ''8'', Round 320000000] h) \<and>
    user_away memory_penv 7 (hk_world (hm_world (take_turns (hook_menv 300 True H) (heartbeat_user H)
      [Beat 100000000 ''8'', Round 320000000] h)))"
proof -
  have 8: "str_int 8 = ''8''" by code_simp
  have ids: "\<exists>j. ''8'' = str_int j \<and> bit_offset j \<and> j \<noteq> 7" "\<exists>j. ''7'' = str_int j \<and> bit_offset j"
    using 8 by (intro exI [of _ 8]) (simp add: bit_offset_def, intro exI [of _ 7], simp add: str_int_7 bit_offset_def)
  have "beat_ok memory_penv 7 (hk_world (hm_world h))"
    by (simp add: h_def beat_ok_def bob_db_def status_ok_def entry_agrees_def memory_penv_def store_redis_def)
  then show ?thesis
    using silent_user_is_disconnected [OF memory_presence.presence_env_axioms, of 7 h 0 "[Beat 100000000 ''8'', Round 320000000]" 320000000 300 H]
      ids by (auto simp: h_def H_def str_int_7 bit_offset_def micro_def)
qed


end
