(* ===== verification/Cassandra_Runs.thy ===== *)
theory Cassandra_Runs
  imports Cassandra_Facts
begin

section \<open>Sequences of operations on the message storage on Cassandra\<close>

text \<open>
  The operations of \<open>CassandraStorage\<close> that write, as steps of a sequence, that the table of messages
  stays well formed through them, and what deleting all messages of a user leaves.
\<close>

subsection \<open>Whatever is done to it, the table stays well formed\<close>

datatype storage_op = Store activity bool | Delete string bool | Delete_All "string list" bool | Undelete string
  | Mark "string list" string "string option" int

fun storage_step :: "'s csenv \<Rightarrow> storage_op \<Rightarrow> ('s, unit) op" where
  "storage_step E (Store act deleted) = cs_store_message E act deleted"
| "storage_step E (Delete i clear_body) = cs_delete_message E i clear_body"
| "storage_step E (Delete_All is clear_body) = cs_delete_messages E is clear_body"
| "storage_step E (Undelete i) = cs_undelete_message E i"
| "storage_step E (Mark is u t st) = cs_mark_as_status E is u t st"

text \<open>What can be stored: with an id, a sender, a target, and a time in the format of the server.\<close>

fun acceptable :: "'s csenv \<Rightarrow> storage_op \<Rightarrow> bool" where
  "acceptable E (Store act d) \<longleftrightarrow> (\<exists>i f t n x. sends act i f t n \<and> i \<noteq> [] \<and> cd_time_stamp E (Some n) = Inr x \<and> storable_key (t, f, n, x))"
| "acceptable E (Mark is u t st) \<longleftrightarrow> u \<noteq> [] \<and> fits_int st"
| "acceptable E _ \<longleftrightarrow> True"

context cassandra_storage begin

lemma step_run:
  assumes w: "well_stamped E (M s)" and a: "acceptable E x"
  shows "\<exists>s'. storage_step E x s = (Inr (), s') \<and> well_stamped E (M s')"
proof (cases x)
  case (Store act d)
  then obtain i f t n y where m: "sends act i f t n" "i \<noteq> []" "cd_time_stamp E (Some n) = Inr y" "storable_key (t, f, n, y)"
    using a by auto
  then obtain s' where "cs_store_message E act d s = (Inr (), s')" "M s' = (M s)((t, f, n, y) \<mapsto> sent_row act i f t n y d)"
    using store_run [of act i f t n y d s] by blast
  then show ?thesis using well_stamped_store [OF w m(3,4)] Store by simp
next
  case (Delete i c)
  obtain s' where "cd_msg_delete_as E i True c s = (Inr (), s')" "M s' = marks True c (has_id s {i}) (M s)"
    using msg_delete_run [OF w] by blast
  with Delete show ?thesis by (simp add: cs_delete_message_def cd_msg_delete_def well_stamped_marks [OF w])
next
  case (Delete_All "is" c)
  obtain s' where "cs_delete_messages E is c s = (Inr (), s')" "M s' = marks True c (has_id s (set is)) (M s)"
    using deletes_at_once_run [OF w] by blast
  with Delete_All show ?thesis by (simp add: well_stamped_marks [OF w])
next
  case (Undelete i)
  obtain s' where "cd_msg_delete_as E i False True s = (Inr (), s')" "M s' = marks False True (has_id s {i}) (M s)"
    using msg_delete_run [OF w] by blast
  with Undelete show ?thesis by (simp add: cs_undelete_message_def cd_msg_undelete_def well_stamped_marks [OF w])
next
  case (Mark "is" u t st)
  obtain s' where "cs_mark_as_status E is u t st s = (Inr (), s')" "M s' = M s"
    using mark_run [of u st "is" t s] a Mark by auto
  with Mark w show ?thesis by simp
qed

lemma steps_run:
  "well_stamped E (M s) \<Longrightarrow> list_all (acceptable E) xs \<Longrightarrow> \<exists>s'. iterM (storage_step E) xs s = (Inr (), s') \<and> well_stamped E (M s')"
proof (induction xs arbitrary: s)
  case Nil
  then show ?case by (simp add: ret_def)
next
  case (Cons x xs)
  obtain s1 where s1: "storage_step E x s = (Inr (), s1)" "well_stamped E (M s1)" using step_run [of s x] Cons.prems by auto
  with Cons.IH [OF s1(2)] Cons.prems(2) show ?case by (simp add: bindM_def)
qed

text \<open>Deleting the messages that a user has in rooms, one by one, as the handler of a ban does.\<close>

lemma clearing_run:
  assumes w: "well_stamped E (M s)"
  shows "\<exists>ids s'. cs_get_undeleted_message_ids_for_user E u s = (Inr ids, s) \<and>
    iterM (\<lambda>i. cs_delete_message E i False) ids s = (Inr (), s') \<and>
    cs_get_undeleted_message_ids_for_user E u s' = (Inr [], s') \<and>
    (\<forall>k r. M s k = Some r \<and> mr_message_id r \<notin> Some ` set ids \<longrightarrow> M s' k = Some r) \<and> A s' = A s"
proof -
  let ?ids = "cq_ids_from_user_not_deleted (cs_cql E) s u"
  obtain s' where s': "iterM (\<lambda>i. cs_delete_message E i False) ?ids s = (Inr (), s')"
    "M s' = marks True False (has_id s (set ?ids)) (M s)" "A s' = A s"
    using deletes_each_run [OF w] by blast
  have "rows_where (M s') (\<lambda>r. undeleted_from u r \<and> True) = {}"
    by (rule user_cleared [OF _ s'(2)]) (simp_all add: ids_not_deleted)
  then have "cq_ids_from_user_not_deleted (cs_cql E) s' u = []" using ids_not_deleted [of s' u] by simp
  moreover have "M s' k = Some r" if "M s k = Some r" "mr_message_id r \<notin> Some ` set ?ids" for k r
    using that unfolding s'(2) marks_def has_id_def by auto
  ultimately show ?thesis using s' by (simp add: cs_get_undeleted_message_ids_for_user_def op_simps)
qed

end

end
