(* ===== verification/Claims_Cassandra.thy ===== *)
theory Claims_Cassandra
  imports Cassandra_Runs Queue_Memory
begin

section \<open>Properties of the message storage on Cassandra\<close>

text \<open>
  That the table of messages stays well formed, that a message is read back as it was stored, what
  deletions and acknowledgements do exactly, and when a message is lost.
\<close>

definition demo_sent :: "string \<Rightarrow> string \<Rightarrow> activity" where
  "demo_sent i text = blank_activity\<lparr>av_id := Text i, av_published := Text ''2020-01-01T00:00:00Z'',
     av_actor := Some (blank_entity\<lparr>en_id := Text ''7'', en_display_name := Text (b64e (Some ''Bob''))\<rparr>),
     av_object := Some (blank_entity\<lparr>en_content := Text (b64e (Some text)), en_url := Text ''c'', en_display_name := Text ''Channel''\<rparr>),
     av_target := Some (blank_entity\<lparr>en_id := Text ''r'', en_display_name := Text ''Room'', en_object_type := Text ''room''\<rparr>)\<rparr>"

lemma demo_sends: "sends (demo_sent i text) i ''7'' ''r'' ''2020-01-01T00:00:00Z''"
  by (simp add: sends_def demo_sent_def has_attr_def)

lemma demo_stamp: "cd_time_stamp memory_csenv (Some ''2020-01-01T00:00:00Z'') = Inr 1577836800"
  by (simp add: cd_time_stamp_def memory_csenv_def) code_simp

lemma demo_key: "storable_key (''r'', ''7'', ''2020-01-01T00:00:00Z'', 1577836800)"
  by (simp add: storable_key_def fits_int_def)

lemma no_rows: "table_messages no_messages = Map.empty" "rows_where (\<lambda>_. None) P = {}"
  by (auto simp: table_messages_def no_messages_def rows_where_def ran_def)

text \<open>C13: The table of messages stays well formed, and nothing gets stuck: after any sequence of
  storing, deleting, undeleting and marking, with messages that have an id, a sender, a target and a
  time in the server's format, every operation has succeeded and every row has a key that can be stored,
  with the time stamp that belongs to its time.\<close>

theorem table_stays_well_formed:
  assumes "cassandra_storage E M A" "well_stamped E (M s)" "list_all (acceptable E) xs"
  shows "\<exists>s'. iterM (storage_step E) xs s = (Inr (), s') \<and> well_stamped E (M s')"
  using cassandra_storage.steps_run [OF assms] .

theorem table_stays_well_formed_witness:
  "\<exists>s'. iterM (storage_step memory_csenv) [Store (demo_sent ''a'' ''Hello'') False, Mark [''a''] ''8'' (Some ''r'') 2, Delete ''a'' True,
     Undelete ''a'', Delete_All [''a'', ''b''] False] no_messages = (Inr (), s') \<and> well_stamped memory_csenv (table_messages s')"
proof (rule table_stays_well_formed [OF memory_storage.cassandra_storage_axioms])
  show "well_stamped memory_csenv (table_messages no_messages)" by (simp add: no_rows well_stamped_def)
  have "acceptable memory_csenv (Store (demo_sent ''a'' ''Hello'') False)"
    using demo_sends demo_stamp demo_key by (simp add: exI) blast
  then show "list_all (acceptable memory_csenv) [Store (demo_sent ''a'' ''Hello'') False, Mark [''a''] ''8'' (Some ''r'') 2, Delete ''a'' True,
      Undelete ''a'', Delete_All [''a'', ''b''] False]" by (simp add: fits_int_def)
qed

text \<open>C25: A message with an id that no other has is read back as it was stored: with its names and its
  text decoded, its room, channel, time, and whether it was deleted when it was stored.\<close>

theorem cassandra_message_read_back:
  assumes "cassandra_storage E M A" "sends act i f t n" "i \<noteq> []" "cd_time_stamp E (Some n) = Inr x" "storable_key (t, f, n, x)"
    and "rows_where (M s) (\<lambda>r. mr_message_id r = Some i) = {}"
  shows "\<exists>s'. cs_store_message E act d s = (Inr (), s') \<and>
    cs_msg_select E i s' = (Inr (Some (row_to_json (sent_row act i f t n x d))), s')"
  using cassandra_storage.stored_read_back [OF assms] .

theorem cassandra_message_read_back_witness:
  "\<exists>s'. cs_store_message memory_csenv (demo_sent ''a'' ''Hello'') False no_messages = (Inr (), s') \<and>
    cs_msg_select memory_csenv ''a'' s' = (Inr (Some (row_to_json (sent_row (demo_sent ''a'' ''Hello'') ''a'' ''7'' ''r''
      ''2020-01-01T00:00:00Z'' 1577836800 False))), s')"
  by (rule cassandra_message_read_back [OF memory_storage.cassandra_storage_axioms demo_sends _ demo_stamp demo_key])
    (simp_all add: no_rows)

text \<open>C18: Deleting the messages that a user has in rooms one by one leaves none: the list of them is
  empty afterwards, and no message with another id and no acknowledgement has changed.\<close>

theorem messages_of_user_cleared:
  assumes "cassandra_storage E M A" "well_stamped E (M s)"
  shows "\<exists>ids s'. cs_get_undeleted_message_ids_for_user E u s = (Inr ids, s) \<and>
    iterM (\<lambda>i. cs_delete_message E i False) ids s = (Inr (), s') \<and>
    cs_get_undeleted_message_ids_for_user E u s' = (Inr [], s') \<and>
    (\<forall>k r. M s k = Some r \<and> mr_message_id r \<notin> Some ` set ids \<longrightarrow> M s' k = Some r) \<and> A s' = A s"
  using cassandra_storage.clearing_run [OF assms] .

theorem messages_of_user_cleared_witness:
  "\<exists>ids s'. cs_get_undeleted_message_ids_for_user memory_csenv ''7'' no_messages = (Inr ids, no_messages) \<and>
    iterM (\<lambda>i. cs_delete_message memory_csenv i False) ids no_messages = (Inr (), s') \<and>
    cs_get_undeleted_message_ids_for_user memory_csenv ''7'' s' = (Inr [], s') \<and>
    (\<forall>k r. table_messages no_messages k = Some r \<and> mr_message_id r \<notin> Some ` set ids \<longrightarrow> table_messages s' k = Some r) \<and>
    table_acks s' = table_acks no_messages"
  by (rule messages_of_user_cleared [OF memory_storage.cassandra_storage_axioms]) (simp add: no_rows well_stamped_def)

text \<open>C28: What marking messages with a status does exactly: the messages without an acknowledgement of
  the user get the status; of those that have one, either all keep it, or, as soon as one of them has a
  lower status than the new one, all get the new one. So a message that was read goes back to
  received when it is marked together with one that was not received yet.\<close>

theorem marking_exact:
  assumes "cassandra_storage E M A" "u \<noteq> []" "fits_int st"
  shows "\<exists>s'. cs_mark_as_status E is u t st s = (Inr (), s') \<and> M s' = M s \<and>
    A s' = (A s)(u := (\<lambda>i. if i \<notin> set is then A s u i
      else if A s u i = None then Some \<lparr>ak_status = st, ak_target_id = t\<rparr>
      else if \<exists>j\<in>set is. \<exists>a. A s u j = Some a \<and> ak_status a < st
        then Some \<lparr>ak_status = st, ak_target_id = Option.bind (A s u i) ak_target_id\<rparr>
      else A s u i))"
  using cassandra_storage.mark_run [OF assms] .

theorem marking_exact_witness:
  fixes s :: tables
  defines "s \<equiv> no_messages\<lparr>tb_acks := [((''8'', ''a''), \<lparr>ak_status = 2, ak_target_id = Some ''r''\<rparr>),
      ((''8'', ''b''), \<lparr>ak_status = 0, ak_target_id = Some ''r''\<rparr>)]\<rparr>"
  shows "\<exists>s'. cs_mark_as_received memory_csenv [''a'', ''b''] ''8'' (Some ''r'') s = (Inr (), s') \<and>
    table_acks s ''8'' ''a'' = Some \<lparr>ak_status = ack_read, ak_target_id = Some ''r''\<rparr> \<and>
    table_acks s' ''8'' ''a'' = Some \<lparr>ak_status = ack_received, ak_target_id = Some ''r''\<rparr>"
proof -
  have a: "table_acks s ''8'' ''a'' = Some \<lparr>ak_status = 2, ak_target_id = Some ''r''\<rparr>"
    and b: "table_acks s ''8'' ''b'' = Some \<lparr>ak_status = 0, ak_target_id = Some ''r''\<rparr>"
    by (simp_all add: s_def no_messages_def table_acks_def)
  have lower: "\<exists>j\<in>set [''a'', ''b'']. \<exists>a. table_acks s ''8'' j = Some a \<and> ak_status a < 1" using b by simp
  have one: "''8'' \<noteq> []" "fits_int 1" by (simp_all add: fits_int_def)
  obtain s' where "cs_mark_as_status memory_csenv [''a'', ''b''] ''8'' (Some ''r'') 1 s = (Inr (), s')"
    "table_acks s' ''8'' ''a'' = Some \<lparr>ak_status = 1, ak_target_id = Some ''r''\<rparr>"
    using marking_exact [OF memory_storage.cassandra_storage_axioms one, of "[''a'', ''b'']" "Some ''r''" s] lower a by auto
  with a show ?thesis by (simp add: cs_mark_as_received_def ack_received_def ack_read_def)
qed

text \<open>Of two messages that a user sends to the same target in the same second, the second takes the
  place of the first: both are stored without an error, and the first cannot be found any more.\<close>

lemma second_message_replaces_first:
  assumes "cassandra_storage E M A" "sends act i f t n" "i \<noteq> []" "cd_time_stamp E (Some n) = Inr x" "storable_key (t, f, n, x)"
    and "sends act' i' f t n" "i' \<noteq> []" "i' \<noteq> i" "rows_where (M s) (\<lambda>r. mr_message_id r = Some i) = {}"
  shows "\<exists>s1 s2. cs_store_message E act d s = (Inr (), s1) \<and> cs_store_message E act' d' s1 = (Inr (), s2) \<and>
    cs_msg_select E i s2 = (Inr None, s2)"
  using cassandra_storage.same_second_lost [OF assms] .

theorem second_message_replaces_first_witness:
  "\<exists>s1 s2. cs_store_message memory_csenv (demo_sent ''a'' ''Hello'') False no_messages = (Inr (), s1) \<and>
    cs_store_message memory_csenv (demo_sent ''b'' ''you'') False s1 = (Inr (), s2) \<and>
    cs_msg_select memory_csenv ''a'' s2 = (Inr None, s2)"
  by (rule second_message_replaces_first [OF memory_storage.cassandra_storage_axioms demo_sends _ demo_stamp demo_key demo_sends])
    (simp_all add: no_rows)

end
