(* ===== verification/Rdb_Tables.thy ===== *)
theory Rdb_Tables
  imports Prelude
begin

section \<open>The tables of the relational database\<close>

text \<open>
  The classes of \<^verbatim>\<open>dino/db/rdbms/models.py\<close> as records, one for each table, and a session of the
  library SQLAlchemy as a record of what the code asks of it: the rows that the session sees, to
  add, change and delete one, to commit, to roll back and to give the session back. The locale
  \<open>sql_session\<close> says what its documentation promises. Rows that are added get a primary key that no
  row of their table has; unique columns are enforced; a row that goes takes its memberships with
  it and leaves null behind in the rows that refer to it, which is an error for a column that must
  not be null; what was not committed is lost when the session is given back. Statements are sent at
  once, and no other node writes at the same time. At the end there is such a database in memory.
  Dates are naive times in microseconds. The column of users that the source marks as deprecated is
  left out.
\<close>

subsection \<open>Rows\<close>

record user_status_row =
  ut_id :: nat
  ut_uuid :: string
  ut_status :: int

record user_info_row =
  ui_id :: nat
  ui_user_id :: string
  ui_fields :: "(string \<times> string option) list"
  ui_last_login :: int

record channel_row =
  ch_id :: nat
  ch_uuid :: string
  ch_name :: string
  ch_created :: int
  ch_sort_order :: int
  ch_tags :: "string option"

record room_row =
  ro_id :: nat
  ro_uuid :: string
  ro_name :: string
  ro_created :: int
  ro_admin :: bool
  ro_ephemeral :: bool
  ro_sort_order :: int
  ro_channel_id :: nat

record member_row =
  me_room_id :: nat
  me_user_id :: nat

record room_sid_row =
  rs_user_id :: string
  rs_room_id :: string
  rs_session_id :: string

record default_room_row =
  df_id :: nat
  df_uuid :: string

record mute_row =
  mt_id :: nat
  mt_user_id :: string
  mt_duration :: string
  mt_timestamp :: int
  mt_reason :: "string option"
  mt_muter_id :: "string option"
  mt_room_id :: string
  mt_room_name :: "string option"

record ban_row =
  bn_id :: nat
  bn_uuid :: string
  bn_user_id :: string
  bn_user_name :: "string option"
  bn_duration :: string
  bn_timestamp :: int
  bn_reason :: "string option"
  bn_banner_id :: "string option"
  bn_room_id :: "nat option"
  bn_channel_id :: "nat option"
  bn_is_global :: bool

record user_row =
  us_id :: nat
  us_uuid :: string
  us_name :: string

record sid_row =
  si_user_uuid :: string
  si_sid :: string

record last_read_row =
  lr_id :: nat
  lr_room_uuid :: string
  lr_user_id :: string
  lr_time_stamp :: int

record last_online_row =
  lo_id :: nat
  lo_uuid :: string
  lo_at :: int

record config_row =
  cf_id :: nat
  cf_spam_enabled :: bool
  cf_spam_should_delete :: bool
  cf_spam_should_save :: bool
  cf_spam_min_length :: int
  cf_spam_max_length :: int
  cf_spam_threshold :: int
  cf_spam_ignore_emoji :: bool

record spam_row =
  spm_id :: nat
  spm_message :: string
  spm_message_id :: "string option"
  spm_message_deleted :: bool
  spm_from_uid :: string
  spm_from_name :: string
  spm_to_uid :: string
  spm_to_name :: string
  spm_object_type :: string
  spm_probability :: string
  spm_correct :: bool
  spm_time_stamp :: int

record acl_row =
  al_id :: nat
  al_room_id :: "nat option"
  al_channel_id :: "nat option"
  al_action :: string
  al_type :: string
  al_value :: string

record acl_config_row =
  af_id :: nat
  af_method :: string
  af_type :: string
  af_value :: string

record join_row =
  jo_room_id :: string
  jo_room_name :: string
  jo_amount :: int

record black_row =
  bl_id :: nat
  bl_word :: string

text \<open>The roles of a user in one room or in one channel, and the global ones.\<close>

record role_row =
  rl_id :: nat
  rl_place_id :: nat
  rl_user_id :: string
  rl_roles :: string

record global_role_row =
  gr_id :: nat
  gr_user_id :: string
  gr_roles :: string

datatype db_row =
    is_user_status: E_user_status (the_user_status: user_status_row)
  | is_user_info: E_user_info (the_user_info: user_info_row)
  | is_channel: E_channel (the_channel: channel_row)
  | is_room: E_room (the_room: room_row)
  | is_member: E_member (the_member: member_row)
  | is_room_sid: E_room_sid (the_room_sid: room_sid_row)
  | is_default_room: E_default_room (the_default_room: default_room_row)
  | is_mute: E_mute (the_mute: mute_row)
  | is_ban: E_ban (the_ban: ban_row)
  | is_user: E_user (the_user: user_row)
  | is_sid: E_sid (the_sid: sid_row)
  | is_last_read: E_last_read (the_last_read: last_read_row)
  | is_last_online: E_last_online (the_last_online: last_online_row)
  | is_config: E_config (the_config: config_row)
  | is_spam: E_spam (the_spam: spam_row)
  | is_acl: E_acl (the_acl: acl_row)
  | is_acl_config: E_acl_config (the_acl_config: acl_config_row)
  | is_join: E_join (the_join: join_row)
  | is_black: E_black (the_black: black_row)
  | is_room_role: E_room_role (the_room_role: role_row)
  | is_channel_role: E_channel_role (the_channel_role: role_row)
  | is_global_role: E_global_role (the_global_role: global_role_row)

text \<open>The generated key of a row, and the row with such a key; three tables have no such key.\<close>

fun entity_id :: "db_row \<Rightarrow> nat" where
  "entity_id (E_user_status r) = ut_id r"
| "entity_id (E_user_info r) = ui_id r"
| "entity_id (E_channel r) = ch_id r"
| "entity_id (E_room r) = ro_id r"
| "entity_id (E_member r) = 0"
| "entity_id (E_room_sid r) = 0"
| "entity_id (E_default_room r) = df_id r"
| "entity_id (E_mute r) = mt_id r"
| "entity_id (E_ban r) = bn_id r"
| "entity_id (E_user r) = us_id r"
| "entity_id (E_sid r) = 0"
| "entity_id (E_last_read r) = lr_id r"
| "entity_id (E_last_online r) = lo_id r"
| "entity_id (E_config r) = cf_id r"
| "entity_id (E_spam r) = spm_id r"
| "entity_id (E_acl r) = al_id r"
| "entity_id (E_acl_config r) = af_id r"
| "entity_id (E_join r) = 0"
| "entity_id (E_black r) = bl_id r"
| "entity_id (E_room_role r) = rl_id r"
| "entity_id (E_channel_role r) = rl_id r"
| "entity_id (E_global_role r) = gr_id r"

fun with_id :: "nat \<Rightarrow> db_row \<Rightarrow> db_row" where
  "with_id k (E_user_status r) = E_user_status (r\<lparr>ut_id := k\<rparr>)"
| "with_id k (E_user_info r) = E_user_info (r\<lparr>ui_id := k\<rparr>)"
| "with_id k (E_channel r) = E_channel (r\<lparr>ch_id := k\<rparr>)"
| "with_id k (E_room r) = E_room (r\<lparr>ro_id := k\<rparr>)"
| "with_id k (E_member r) = E_member r"
| "with_id k (E_room_sid r) = E_room_sid r"
| "with_id k (E_default_room r) = E_default_room (r\<lparr>df_id := k\<rparr>)"
| "with_id k (E_mute r) = E_mute (r\<lparr>mt_id := k\<rparr>)"
| "with_id k (E_ban r) = E_ban (r\<lparr>bn_id := k\<rparr>)"
| "with_id k (E_user r) = E_user (r\<lparr>us_id := k\<rparr>)"
| "with_id k (E_sid r) = E_sid r"
| "with_id k (E_last_read r) = E_last_read (r\<lparr>lr_id := k\<rparr>)"
| "with_id k (E_last_online r) = E_last_online (r\<lparr>lo_id := k\<rparr>)"
| "with_id k (E_config r) = E_config (r\<lparr>cf_id := k\<rparr>)"
| "with_id k (E_spam r) = E_spam (r\<lparr>spm_id := k\<rparr>)"
| "with_id k (E_acl r) = E_acl (r\<lparr>al_id := k\<rparr>)"
| "with_id k (E_acl_config r) = E_acl_config (r\<lparr>af_id := k\<rparr>)"
| "with_id k (E_join r) = E_join r"
| "with_id k (E_black r) = E_black (r\<lparr>bl_id := k\<rparr>)"
| "with_id k (E_room_role r) = E_room_role (r\<lparr>rl_id := k\<rparr>)"
| "with_id k (E_channel_role r) = E_channel_role (r\<lparr>rl_id := k\<rparr>)"
| "with_id k (E_global_role r) = E_global_role (r\<lparr>gr_id := k\<rparr>)"

text \<open>Two rows of the same table.\<close>

definition same_table :: "db_row \<Rightarrow> db_row \<Rightarrow> bool" where
  "same_table a b \<longleftrightarrow> (case a of
     E_user_status _ \<Rightarrow> is_user_status b | E_user_info _ \<Rightarrow> is_user_info b | E_channel _ \<Rightarrow> is_channel b
   | E_room _ \<Rightarrow> is_room b | E_member _ \<Rightarrow> is_member b | E_room_sid _ \<Rightarrow> is_room_sid b
   | E_default_room _ \<Rightarrow> is_default_room b | E_mute _ \<Rightarrow> is_mute b | E_ban _ \<Rightarrow> is_ban b | E_user _ \<Rightarrow> is_user b
   | E_sid _ \<Rightarrow> is_sid b | E_last_read _ \<Rightarrow> is_last_read b | E_last_online _ \<Rightarrow> is_last_online b
   | E_config _ \<Rightarrow> is_config b | E_spam _ \<Rightarrow> is_spam b | E_acl _ \<Rightarrow> is_acl b | E_acl_config _ \<Rightarrow> is_acl_config b
   | E_join _ \<Rightarrow> is_join b | E_black _ \<Rightarrow> is_black b | E_room_role _ \<Rightarrow> is_room_role b
   | E_channel_role _ \<Rightarrow> is_channel_role b | E_global_role _ \<Rightarrow> is_global_role b)"

text \<open>The unique columns: two rows that the tables do not hold together.\<close>

definition clashes :: "db_row \<Rightarrow> db_row \<Rightarrow> bool" where
  "clashes a b \<longleftrightarrow> (case (a, b) of
     (E_user_status r, E_user_status q) \<Rightarrow> ut_uuid r = ut_uuid q
   | (E_user_info r, E_user_info q) \<Rightarrow> ui_user_id r = ui_user_id q
   | (E_member r, E_member q) \<Rightarrow> r = q
   | (E_room_sid r, E_room_sid q) \<Rightarrow> r = q
   | (E_ban r, E_ban q) \<Rightarrow> bn_uuid r = bn_uuid q
   | (E_sid r, E_sid q) \<Rightarrow> r = q
   | (E_join r, E_join q) \<Rightarrow> jo_room_id r = jo_room_id q
   | _ \<Rightarrow> False)"

text \<open>What becomes of another row \<open>e\<close> when \<open>d\<close> is deleted: gone, changed, or in the way.\<close>

definition after_delete :: "db_row \<Rightarrow> db_row \<Rightarrow> db_row option" where
  "after_delete d e = (case (d, e) of
     (E_room r, E_member m) \<Rightarrow> if me_room_id m = ro_id r then None else Some e
   | (E_user u, E_member m) \<Rightarrow> if me_user_id m = us_id u then None else Some e
   | (E_room r, E_ban b) \<Rightarrow> if bn_room_id b = Some (ro_id r) then Some (E_ban (b\<lparr>bn_room_id := None\<rparr>)) else Some e
   | (E_channel c, E_ban b) \<Rightarrow>
       if bn_channel_id b = Some (ch_id c) then Some (E_ban (b\<lparr>bn_channel_id := None\<rparr>)) else Some e
   | (E_room r, E_acl a) \<Rightarrow> if al_room_id a = Some (ro_id r) then Some (E_acl (a\<lparr>al_room_id := None\<rparr>)) else Some e
   | (E_channel c, E_acl a) \<Rightarrow>
       if al_channel_id a = Some (ch_id c) then Some (E_acl (a\<lparr>al_channel_id := None\<rparr>)) else Some e
   | _ \<Rightarrow> Some e)"

definition needs :: "db_row \<Rightarrow> db_row \<Rightarrow> bool" where
  "needs e d \<longleftrightarrow> (case (e, d) of
     (E_room r, E_channel c) \<Rightarrow> ro_channel_id r = ch_id c
   | (E_room_role q, E_room r) \<Rightarrow> rl_place_id q = ro_id r
   | (E_channel_role q, E_channel c) \<Rightarrow> rl_place_id q = ch_id c
   | _ \<Rightarrow> False)"

subsection \<open>A session\<close>

record 's sqla =
  sq_rows :: "'s \<Rightarrow> db_row list"
  sq_add :: "db_row \<Rightarrow> ('s, nat) op"
  sq_save :: "db_row \<Rightarrow> db_row \<Rightarrow> ('s, unit) op"
  sq_delete :: "db_row \<Rightarrow> ('s, unit) op"
  sq_commit :: "('s, unit) op"
  sq_rollback :: "'s \<Rightarrow> 's"
  sq_remove :: "'s \<Rightarrow> 's"

text \<open>\<open>T s\<close> is the set of rows that are committed.\<close>

locale sql_session =
  fixes S :: "'s sqla" and T :: "'s \<Rightarrow> db_row set"
  assumes add: "(\<And>e'. e' \<in> set (sq_rows S s) \<Longrightarrow> \<not> clashes e e') \<Longrightarrow>
      \<exists>k s'. sq_add S e s = (Inr k, s') \<and> set (sq_rows S s') = insert (with_id k e) (set (sq_rows S s)) \<and> T s' = T s \<and>
        (\<forall>e' \<in> set (sq_rows S s). same_table e e' \<longrightarrow> entity_id e' < k)"
    and add_clash: "e' \<in> set (sq_rows S s) \<Longrightarrow> clashes e e' \<Longrightarrow>
      \<exists>s'. sq_add S e s = (Inl IntegrityError, s') \<and> T s' = T s"
    and save: "e \<in> set (sq_rows S s) \<Longrightarrow> \<exists>s'. sq_save S e e' s = (Inr (), s') \<and>
      set (sq_rows S s') = insert e' (set (sq_rows S s) - {e}) \<and> T s' = T s"
    and delete: "d \<in> set (sq_rows S s) \<Longrightarrow> (\<And>e. e \<in> set (sq_rows S s) \<Longrightarrow> \<not> needs e d) \<Longrightarrow>
      \<exists>s'. sq_delete S d s = (Inr (), s') \<and> T s' = T s \<and>
        set (sq_rows S s') = {e'. \<exists>e \<in> set (sq_rows S s) - {d}. after_delete d e = Some e'}"
    and delete_needed: "d \<in> set (sq_rows S s) \<Longrightarrow> e \<in> set (sq_rows S s) \<Longrightarrow> needs e d \<Longrightarrow>
      \<exists>s'. sq_delete S d s = (Inl IntegrityError, s') \<and> T s' = T s"
    and stale: "e \<notin> set (sq_rows S s) \<Longrightarrow> sq_save S e e' s = (Inl StaleDataError, s)"
      "e \<notin> set (sq_rows S s) \<Longrightarrow> sq_delete S e s = (Inl StaleDataError, s)"
    and commit: "\<exists>s'. sq_commit S s = (Inr (), s') \<and> set (sq_rows S s') = set (sq_rows S s) \<and> T s' = set (sq_rows S s)"
    and rollback: "set (sq_rows S (sq_rollback S s)) = T s" "T (sq_rollback S s) = T s"
    and remove: "set (sq_rows S (sq_remove S s)) = T s" "T (sq_remove S s) = T s"

subsection \<open>Queries\<close>

text \<open>\<open>query(X).all()\<close> for every table; \<open>filter\<close> and \<open>find\<close> give \<open>.filter(..).all()\<close> and \<open>.first()\<close>.\<close>

definition all_user_status :: "db_row list \<Rightarrow> user_status_row list" where
  "all_user_status es = map the_user_status (filter is_user_status es)"
definition all_user_info :: "db_row list \<Rightarrow> user_info_row list" where
  "all_user_info es = map the_user_info (filter is_user_info es)"
definition all_channels :: "db_row list \<Rightarrow> channel_row list" where
  "all_channels es = map the_channel (filter is_channel es)"
definition all_rooms :: "db_row list \<Rightarrow> room_row list" where
  "all_rooms es = map the_room (filter is_room es)"
definition all_members :: "db_row list \<Rightarrow> member_row list" where
  "all_members es = map the_member (filter is_member es)"
definition all_room_sids :: "db_row list \<Rightarrow> room_sid_row list" where
  "all_room_sids es = map the_room_sid (filter is_room_sid es)"
definition all_default_rooms :: "db_row list \<Rightarrow> default_room_row list" where
  "all_default_rooms es = map the_default_room (filter is_default_room es)"
definition all_mutes :: "db_row list \<Rightarrow> mute_row list" where
  "all_mutes es = map the_mute (filter is_mute es)"
definition all_ban_rows :: "db_row list \<Rightarrow> ban_row list" where
  "all_ban_rows es = map the_ban (filter is_ban es)"
definition all_users :: "db_row list \<Rightarrow> user_row list" where
  "all_users es = map the_user (filter is_user es)"
definition all_sids :: "db_row list \<Rightarrow> sid_row list" where
  "all_sids es = map the_sid (filter is_sid es)"
definition all_last_reads :: "db_row list \<Rightarrow> last_read_row list" where
  "all_last_reads es = map the_last_read (filter is_last_read es)"
definition all_last_online :: "db_row list \<Rightarrow> last_online_row list" where
  "all_last_online es = map the_last_online (filter is_last_online es)"
definition all_config :: "db_row list \<Rightarrow> config_row list" where
  "all_config es = map the_config (filter is_config es)"
definition all_spams :: "db_row list \<Rightarrow> spam_row list" where
  "all_spams es = map the_spam (filter is_spam es)"
definition all_acls :: "db_row list \<Rightarrow> acl_row list" where
  "all_acls es = map the_acl (filter is_acl es)"
definition all_acl_configs :: "db_row list \<Rightarrow> acl_config_row list" where
  "all_acl_configs es = map the_acl_config (filter is_acl_config es)"
definition all_joins :: "db_row list \<Rightarrow> join_row list" where
  "all_joins es = map the_join (filter is_join es)"
definition all_black :: "db_row list \<Rightarrow> black_row list" where
  "all_black es = map the_black (filter is_black es)"
definition all_room_roles :: "db_row list \<Rightarrow> role_row list" where
  "all_room_roles es = map the_room_role (filter is_room_role es)"
definition all_channel_roles :: "db_row list \<Rightarrow> role_row list" where
  "all_channel_roles es = map the_channel_role (filter is_channel_role es)"
definition all_global_roles :: "db_row list \<Rightarrow> global_role_row list" where
  "all_global_roles es = map the_global_role (filter is_global_role es)"

text \<open>A row is in the result of a query when the session sees it.\<close>

lemma in_pick:
  assumes "\<And>x. isx x \<Longrightarrow> C (un x) = x" and "\<And>r. isx (C r)" and "\<And>r. un (C r) = r"
  shows "r \<in> set (map un (filter isx es)) \<longleftrightarrow> C r \<in> set es"
  using assms by (force simp: image_iff)

lemma in_all_user_status: "r \<in> set (all_user_status es) \<longleftrightarrow> E_user_status r \<in> set es"
  unfolding all_user_status_def by (rule in_pick [of is_user_status E_user_status the_user_status]) simp_all

lemma in_all_user_info: "r \<in> set (all_user_info es) \<longleftrightarrow> E_user_info r \<in> set es"
  unfolding all_user_info_def by (rule in_pick [of is_user_info E_user_info the_user_info]) simp_all

lemma in_all_channels: "r \<in> set (all_channels es) \<longleftrightarrow> E_channel r \<in> set es"
  unfolding all_channels_def by (rule in_pick [of is_channel E_channel the_channel]) simp_all

lemma in_all_rooms: "r \<in> set (all_rooms es) \<longleftrightarrow> E_room r \<in> set es"
  unfolding all_rooms_def by (rule in_pick [of is_room E_room the_room]) simp_all

lemma in_all_members: "r \<in> set (all_members es) \<longleftrightarrow> E_member r \<in> set es"
  unfolding all_members_def by (rule in_pick [of is_member E_member the_member]) simp_all

lemma in_all_room_sids: "r \<in> set (all_room_sids es) \<longleftrightarrow> E_room_sid r \<in> set es"
  unfolding all_room_sids_def by (rule in_pick [of is_room_sid E_room_sid the_room_sid]) simp_all

lemma in_all_default_rooms: "r \<in> set (all_default_rooms es) \<longleftrightarrow> E_default_room r \<in> set es"
  unfolding all_default_rooms_def by (rule in_pick [of is_default_room E_default_room the_default_room]) simp_all

lemma in_all_mutes: "r \<in> set (all_mutes es) \<longleftrightarrow> E_mute r \<in> set es"
  unfolding all_mutes_def by (rule in_pick [of is_mute E_mute the_mute]) simp_all

lemma in_all_ban_rows: "r \<in> set (all_ban_rows es) \<longleftrightarrow> E_ban r \<in> set es"
  unfolding all_ban_rows_def by (rule in_pick [of is_ban E_ban the_ban]) simp_all

lemma in_all_users: "r \<in> set (all_users es) \<longleftrightarrow> E_user r \<in> set es"
  unfolding all_users_def by (rule in_pick [of is_user E_user the_user]) simp_all

lemma in_all_sids: "r \<in> set (all_sids es) \<longleftrightarrow> E_sid r \<in> set es"
  unfolding all_sids_def by (rule in_pick [of is_sid E_sid the_sid]) simp_all

lemma in_all_last_reads: "r \<in> set (all_last_reads es) \<longleftrightarrow> E_last_read r \<in> set es"
  unfolding all_last_reads_def by (rule in_pick [of is_last_read E_last_read the_last_read]) simp_all

lemma in_all_last_online: "r \<in> set (all_last_online es) \<longleftrightarrow> E_last_online r \<in> set es"
  unfolding all_last_online_def by (rule in_pick [of is_last_online E_last_online the_last_online]) simp_all

lemma in_all_config: "r \<in> set (all_config es) \<longleftrightarrow> E_config r \<in> set es"
  unfolding all_config_def by (rule in_pick [of is_config E_config the_config]) simp_all

lemma in_all_spams: "r \<in> set (all_spams es) \<longleftrightarrow> E_spam r \<in> set es"
  unfolding all_spams_def by (rule in_pick [of is_spam E_spam the_spam]) simp_all

lemma in_all_acls: "r \<in> set (all_acls es) \<longleftrightarrow> E_acl r \<in> set es"
  unfolding all_acls_def by (rule in_pick [of is_acl E_acl the_acl]) simp_all

lemma in_all_acl_configs: "r \<in> set (all_acl_configs es) \<longleftrightarrow> E_acl_config r \<in> set es"
  unfolding all_acl_configs_def by (rule in_pick [of is_acl_config E_acl_config the_acl_config]) simp_all

lemma in_all_joins: "r \<in> set (all_joins es) \<longleftrightarrow> E_join r \<in> set es"
  unfolding all_joins_def by (rule in_pick [of is_join E_join the_join]) simp_all

lemma in_all_black: "r \<in> set (all_black es) \<longleftrightarrow> E_black r \<in> set es"
  unfolding all_black_def by (rule in_pick [of is_black E_black the_black]) simp_all

lemma in_all_room_roles: "r \<in> set (all_room_roles es) \<longleftrightarrow> E_room_role r \<in> set es"
  unfolding all_room_roles_def by (rule in_pick [of is_room_role E_room_role the_room_role]) simp_all

lemma in_all_channel_roles: "r \<in> set (all_channel_roles es) \<longleftrightarrow> E_channel_role r \<in> set es"
  unfolding all_channel_roles_def by (rule in_pick [of is_channel_role E_channel_role the_channel_role]) simp_all

lemma in_all_global_roles: "r \<in> set (all_global_roles es) \<longleftrightarrow> E_global_role r \<in> set es"
  unfolding all_global_roles_def by (rule in_pick [of is_global_role E_global_role the_global_role]) simp_all

lemmas in_queries [simp] =
  in_all_user_status in_all_user_info in_all_channels in_all_rooms in_all_members
  in_all_room_sids in_all_default_rooms in_all_mutes in_all_ban_rows in_all_users in_all_sids
  in_all_last_reads in_all_last_online in_all_config in_all_spams in_all_acls in_all_acl_configs
  in_all_joins in_all_black in_all_room_roles in_all_channel_roles in_all_global_roles

subsection \<open>A database in memory\<close>

record mem_sql =
  ms_rows :: "db_row list"
  ms_saved :: "db_row list"

definition next_id :: "db_row list \<Rightarrow> nat" where
  "next_id es = Suc (foldr (\<lambda>e n. max (entity_id e) n) es 0)"

definition mem_add :: "db_row \<Rightarrow> (mem_sql, nat) op" where
  "mem_add e s = (if list_ex (clashes e) (ms_rows s) then (Inl IntegrityError, s)
     else (Inr (next_id (ms_rows s)), s\<lparr>ms_rows := ms_rows s @ [with_id (next_id (ms_rows s)) e]\<rparr>))"

definition mem_save :: "db_row \<Rightarrow> db_row \<Rightarrow> (mem_sql, unit) op" where
  "mem_save e e' s = (if e \<in> set (ms_rows s)
     then (Inr (), s\<lparr>ms_rows := map (\<lambda>x. if x = e then e' else x) (ms_rows s)\<rparr>)
     else (Inl StaleDataError, s))"

definition mem_delete :: "db_row \<Rightarrow> (mem_sql, unit) op" where
  "mem_delete d s = (if d \<notin> set (ms_rows s) then (Inl StaleDataError, s)
     else if list_ex (\<lambda>e. needs e d) (ms_rows s) then (Inl IntegrityError, s)
     else (Inr (), s\<lparr>ms_rows := List.map_filter (after_delete d) (filter (\<lambda>e. e \<noteq> d) (ms_rows s))\<rparr>))"

definition memory_sql :: "mem_sql sqla" where
  "memory_sql = \<lparr>
     sq_rows = ms_rows,
     sq_add = mem_add,
     sq_save = mem_save,
     sq_delete = mem_delete,
     sq_commit = modify (\<lambda>s. s\<lparr>ms_saved := ms_rows s\<rparr>),
     sq_rollback = (\<lambda>s. s\<lparr>ms_rows := ms_saved s\<rparr>),
     sq_remove = (\<lambda>s. s\<lparr>ms_rows := ms_saved s\<rparr>)\<rparr>"

definition mem_saved :: "mem_sql \<Rightarrow> db_row set" where
  "mem_saved s = set (ms_saved s)"

lemma entity_id_less_next: "e \<in> set es \<Longrightarrow> entity_id e < next_id es"
  by (induction es) (auto simp: next_id_def less_Suc_eq_le le_max_iff_disj)

lemma set_map_filter: "set (List.map_filter f xs) = {y. \<exists>x \<in> set xs. f x = Some y}"
  by (induction xs) (auto simp: List.map_filter_simps split: option.splits)

interpretation memory_sql: sql_session memory_sql mem_saved
proof unfold_locales
  fix e e' s assume "e \<in> set (sq_rows memory_sql s)"
  then show "\<exists>s'. sq_save memory_sql e e' s = (Inr (), s') \<and>
      set (sq_rows memory_sql s') = insert e' (set (sq_rows memory_sql s) - {e}) \<and> mem_saved s' = mem_saved s"
    by (auto simp: memory_sql_def mem_save_def mem_saved_def)
qed (auto simp: memory_sql_def mem_add_def mem_save_def mem_delete_def mem_saved_def list_ex_iff
    entity_id_less_next set_map_filter op_simps)

end
