(* ===== verification/Rdb_Cache.thy ===== *)
theory Rdb_Cache
  imports Db_Roles
begin

section \<open>The cache, as the relational database uses it\<close>

text \<open>
  The methods of \<open>ICache\<close> (\<^verbatim>\<open>dino/cache/__init__.py\<close>) that \<open>DatabaseRdbms\<close> calls, as the fields of
  records, one for each topic: names, rooms, roles, rules, bans, presence and the rest. A getter
  answers \<open>None\<close> when it has nothing. A getter of bans answers the value \<open>None\<close> or a list of parts,
  which are null when there is no ban. What a setter of bans is given is written into a text. A
  status is a text, or the number that the column of the database has. At the end there is the
  cache that always misses, \<^verbatim>\<open>dino/cache/miss.py\<close>, whose every method answers \<open>None\<close>.
\<close>

type_synonym dict = "(string \<times> string) list"
type_synonym acl_dict = "(string \<times> (string \<times> string) list) list"

datatype status_value = StText string | StNum int

record room_entry =
  re_name :: string
  re_sort_order :: int
  re_ephemeral :: bool
  re_admin :: bool
  re_users :: nat

record listed_room =
  li_id :: string
  li_status :: string
  li_name :: string
  li_channel :: string
  li_channel_id :: string

record 'c names_cache =
  nc_get_room_name :: "string \<Rightarrow> ('c, string option) op"
  nc_set_room_name :: "string \<Rightarrow> string \<Rightarrow> ('c, unit) op"
  nc_get_channel_name :: "string \<Rightarrow> ('c, string option) op"
  nc_set_channel_name :: "string \<Rightarrow> string \<Rightarrow> ('c, unit) op"
  nc_get_user_name :: "string \<Rightarrow> ('c, string option) op"
  nc_set_user_name :: "string \<Rightarrow> string \<Rightarrow> ('c, unit) op"
  nc_get_user_id :: "string \<Rightarrow> ('c, string option) op"
  nc_set_user_id :: "string \<Rightarrow> string \<Rightarrow> ('c, unit) op"
  nc_get_user_name_exists :: "string \<Rightarrow> ('c, bool option) op"
  nc_set_user_name_exists :: "string \<Rightarrow> ('c, unit) op"
  nc_get_channel_for_room :: "string \<Rightarrow> ('c, string option) op"
  nc_set_channel_for_room :: "string \<Rightarrow> string \<Rightarrow> ('c, unit) op"
  nc_get_room_exists :: "string \<Rightarrow> string \<Rightarrow> ('c, bool option) op"
  nc_set_room_exists :: "string \<Rightarrow> string \<Rightarrow> string \<Rightarrow> ('c, unit) op"
  nc_remove_room_exists :: "string \<Rightarrow> string \<Rightarrow> ('c, unit) op"
  nc_get_channel_exists :: "string \<Rightarrow> ('c, bool option) op"
  nc_set_channel_exists :: "string \<Rightarrow> ('c, unit) op"
  nc_remove_channel_exists :: "string \<Rightarrow> ('c, unit) op"
  nc_get_room_id_for_name :: "string \<Rightarrow> string \<Rightarrow> ('c, string option) op"
  nc_set_room_id_for_name :: "string \<Rightarrow> string \<Rightarrow> string \<Rightarrow> ('c, unit) op"
  nc_remove_room_id_for_name :: "string \<Rightarrow> string \<Rightarrow> ('c, unit) op"
  nc_get_default_channel_id :: "('c, string option) op"
  nc_set_default_channel_id :: "string \<Rightarrow> ('c, unit) op"

record 'c rooms_cache =
  oc_get_all_permanent_rooms :: "('c, (string \<times> acl_dict) list option) op"
  oc_set_all_permanent_rooms :: "(string \<times> acl_dict) list \<Rightarrow> ('c, unit) op"
  oc_is_room_ephemeral :: "string \<Rightarrow> ('c, bool option) op"
  oc_set_is_room_ephemeral :: "string \<Rightarrow> bool \<Rightarrow> ('c, unit) op"
  oc_get_rooms_for_user :: "string \<Rightarrow> ('c, dict option) op"
  oc_set_rooms_for_user :: "string \<Rightarrow> dict \<Rightarrow> ('c, unit) op"
  oc_remove_rooms_for_user :: "string \<Rightarrow> ('c, unit) op"
  oc_leave_room_for_user :: "string \<Rightarrow> string \<Rightarrow> ('c, unit) op"
  oc_set_user_in_room :: "string \<Rightarrow> string \<Rightarrow> string \<Rightarrow> ('c, unit) op"
  oc_get_type_of_rooms_in_channel :: "string \<Rightarrow> ('c, string option) op"
  oc_set_type_of_rooms_in_channel :: "string \<Rightarrow> string \<Rightarrow> ('c, unit) op"
  oc_get_all_rooms :: "('c, listed_room list option) op"
  oc_set_all_rooms :: "listed_room list \<Rightarrow> ('c, unit) op"
  oc_get_rooms_for_channel :: "string \<Rightarrow> ('c, (string \<times> room_entry) list option) op"
  oc_set_rooms_for_channel :: "string \<Rightarrow> (string \<times> room_entry) list \<Rightarrow> ('c, unit) op"
  oc_get_rooms_without_info :: "string \<Rightarrow> ('c, (string \<times> bool \<times> string) list option) op"
  oc_set_rooms_without_info :: "string \<Rightarrow> (string \<times> bool \<times> string) list \<Rightarrow> ('c, unit) op"
  oc_reset_rooms_for_channel :: "string \<Rightarrow> ('c, unit) op"
  oc_get_users_in_room :: "string \<Rightarrow> bool \<Rightarrow> ('c, dict option) op"
  oc_set_users_in_room :: "string \<Rightarrow> dict \<Rightarrow> bool \<Rightarrow> ('c, unit) op"
  oc_get_users_in_room_by_name :: "string \<Rightarrow> bool \<Rightarrow> ('c, dict option) op"
  oc_set_users_in_room_by_name :: "string \<Rightarrow> dict \<Rightarrow> bool \<Rightarrow> ('c, unit) op"
  oc_get_default_rooms :: "('c, string list option) op"
  oc_set_default_rooms :: "string list \<Rightarrow> ('c, unit) op"
  oc_clear_default_rooms :: "('c, unit) op"
  oc_get_channels_with_sort :: "('c, (string \<times> string \<times> int \<times> string option) list option) op"
  oc_set_channels_with_sort :: "(string \<times> string \<times> int \<times> string option) list \<Rightarrow> ('c, unit) op"
  oc_reset_channels_with_sort :: "('c, unit) op"
  oc_set_admin_room :: "string \<Rightarrow> ('c, unit) op"
  oc_remove_admin_room :: "('c, unit) op"

record 'c roles_cache =
  rc_get_user_roles :: "string \<Rightarrow> ('c, user_roles option) op"
  rc_set_user_roles :: "string \<Rightarrow> user_roles \<Rightarrow> ('c, unit) op"
  rc_reset_user_roles :: "string \<Rightarrow> ('c, unit) op"
  rc_get_room_owners :: "string \<Rightarrow> ('c, string list option) op"
  rc_set_room_owners :: "string \<Rightarrow> string list \<Rightarrow> ('c, unit) op"
  rc_get_users_in_room_for_role :: "string \<Rightarrow> string \<Rightarrow> ('c, dict option) op"
  rc_set_users_in_room_for_role :: "string \<Rightarrow> string \<Rightarrow> dict \<Rightarrow> ('c, unit) op"
  rc_reset_users_in_room_for_role :: "string \<Rightarrow> string \<Rightarrow> ('c, unit) op"
  rc_get_users_in_channel_for_role :: "string \<Rightarrow> string \<Rightarrow> ('c, dict option) op"
  rc_set_users_in_channel_for_role :: "string \<Rightarrow> string \<Rightarrow> dict \<Rightarrow> ('c, unit) op"
  rc_reset_users_in_channel_for_role :: "string \<Rightarrow> string \<Rightarrow> ('c, unit) op"

record 'c acls_cache =
  kc_get_all_acls_for_room :: "string \<Rightarrow> ('c, acl_dict option) op"
  kc_set_all_acls_for_room :: "string \<Rightarrow> acl_dict \<Rightarrow> ('c, unit) op"
  kc_get_all_acls_for_channel :: "string \<Rightarrow> ('c, acl_dict option) op"
  kc_set_all_acls_for_channel :: "string \<Rightarrow> acl_dict \<Rightarrow> ('c, unit) op"
  kc_get_room_acls_for_action :: "string \<Rightarrow> ('c, (string \<times> dict) list option) op"
  kc_set_room_acls_for_action :: "string \<Rightarrow> (string \<times> dict) list \<Rightarrow> ('c, unit) op"
  kc_get_acls_in_room_for_action :: "string \<Rightarrow> string \<Rightarrow> ('c, dict option) op"
  kc_set_acls_in_room_for_action :: "string \<Rightarrow> string \<Rightarrow> dict \<Rightarrow> ('c, unit) op"
  kc_get_acls_in_channel_for_action :: "string \<Rightarrow> string \<Rightarrow> ('c, dict option) op"
  kc_set_acls_in_channel_for_action :: "string \<Rightarrow> string \<Rightarrow> dict \<Rightarrow> ('c, unit) op"
  kc_reset_acls_in_room_for_action :: "string \<Rightarrow> string \<Rightarrow> ('c, unit) op"
  kc_reset_acls_in_channel_for_action :: "string \<Rightarrow> string \<Rightarrow> ('c, unit) op"
  kc_reset_acls_in_room :: "string \<Rightarrow> ('c, unit) op"
  kc_reset_acls_in_channel :: "string \<Rightarrow> ('c, unit) op"

record 'c bans_cache =
  bc_get_global_ban :: "string \<Rightarrow> ('c, string option list option) op"
  bc_set_global_ban :: "string \<Rightarrow> string \<Rightarrow> string \<Rightarrow> string \<Rightarrow> ('c, unit) op"
  bc_get_channel_ban :: "string \<Rightarrow> string \<Rightarrow> ('c, string option list option) op"
  bc_set_channel_ban :: "string \<Rightarrow> string \<Rightarrow> string \<Rightarrow> string \<Rightarrow> string \<Rightarrow> ('c, unit) op"
  bc_get_room_ban :: "string \<Rightarrow> string \<Rightarrow> ('c, string option list option) op"
  bc_set_room_ban :: "string \<Rightarrow> string \<Rightarrow> string \<Rightarrow> string \<Rightarrow> string \<Rightarrow> ('c, unit) op"
  bc_get_room_mute :: "string \<Rightarrow> string \<Rightarrow> ('c, string option list option) op"
  bc_set_room_mute :: "string \<Rightarrow> string \<Rightarrow> string \<Rightarrow> string \<Rightarrow> ('c, unit) op"

record 'c presence_cache =
  pc_get_user_status :: "string \<Rightarrow> ('c, status_value option) op"
  pc_set_user_status :: "string \<Rightarrow> status_value \<Rightarrow> ('c, unit) op"
  pc_set_user_status_invisible :: "string \<Rightarrow> ('c, unit) op"
  pc_set_user_invisible :: "string \<Rightarrow> bool \<Rightarrow> ('c, unit) op"
  pc_set_user_offline :: "string \<Rightarrow> ('c, unit) op"
  pc_set_user_online :: "string \<Rightarrow> ('c, unit) op"
  pc_get_last_online :: "string \<Rightarrow> ('c, string option) op"
  pc_set_last_online :: "(string \<times> int) list \<Rightarrow> ('c, unit) op"
  pc_add_sid_for_user :: "string \<Rightarrow> string \<Rightarrow> ('c, unit) op"
  pc_remove_sid_for_user :: "string \<Rightarrow> string option \<Rightarrow> ('c, unit) op"
  pc_reset_sids_for_user :: "string \<Rightarrow> ('c, unit) op"
  pc_get_sids_for_user :: "string \<Rightarrow> ('c, string option list option) op"
  pc_set_sids_for_user :: "string \<Rightarrow> string list \<Rightarrow> ('c, unit) op"
  pc_get_user_for_sid :: "string \<Rightarrow> ('c, string option) op"

record 'c misc_cache =
  ic_get_black_list :: "('c, string list option) op"
  ic_set_black_list :: "string list \<Rightarrow> ('c, unit) op"
  ic_reset_black_list :: "('c, unit) op"
  ic_get_join_count_by_id :: "string \<Rightarrow> ('c, int option) op"
  ic_set_join_count_by_id :: "string \<Rightarrow> int \<Rightarrow> ('c, unit) op"
  ic_get_join_count_by_name :: "string \<Rightarrow> ('c, int option) op"
  ic_set_join_count_by_name :: "string \<Rightarrow> int \<Rightarrow> ('c, unit) op"
  ic_get_avatar_for :: "string \<Rightarrow> ('c, (string option \<times> string option \<times> string option) option) op"
  ic_set_avatar_for :: "string \<Rightarrow> string option \<times> string option \<times> string option \<Rightarrow> ('c, unit) op"

record 'c rcache =
  ca_names :: "'c names_cache"
  ca_rooms :: "'c rooms_cache"
  ca_roles :: "'c roles_cache"
  ca_acls :: "'c acls_cache"
  ca_bans :: "'c bans_cache"
  ca_presence :: "'c presence_cache"
  ca_misc :: "'c misc_cache"

subsection \<open>The cache that always misses\<close>

abbreviation "answers_none \<equiv> always_returns_none"

definition miss_names :: "unit names_cache" where
  "miss_names = \<lparr>
     nc_get_room_name = (\<lambda>_. answers_none), nc_set_room_name = (\<lambda>_ _. ret ()),
     nc_get_channel_name = (\<lambda>_. answers_none), nc_set_channel_name = (\<lambda>_ _. ret ()),
     nc_get_user_name = (\<lambda>_. answers_none), nc_set_user_name = (\<lambda>_ _. ret ()),
     nc_get_user_id = (\<lambda>_. answers_none), nc_set_user_id = (\<lambda>_ _. ret ()),
     nc_get_user_name_exists = (\<lambda>_. answers_none), nc_set_user_name_exists = (\<lambda>_. ret ()),
     nc_get_channel_for_room = (\<lambda>_. answers_none), nc_set_channel_for_room = (\<lambda>_ _. ret ()),
     nc_get_room_exists = (\<lambda>_ _. answers_none), nc_set_room_exists = (\<lambda>_ _ _. ret ()),
     nc_remove_room_exists = (\<lambda>_ _. ret ()),
     nc_get_channel_exists = (\<lambda>_. answers_none), nc_set_channel_exists = (\<lambda>_. ret ()),
     nc_remove_channel_exists = (\<lambda>_. ret ()),
     nc_get_room_id_for_name = (\<lambda>_ _. answers_none), nc_set_room_id_for_name = (\<lambda>_ _ _. ret ()),
     nc_remove_room_id_for_name = (\<lambda>_ _. ret ()),
     nc_get_default_channel_id = answers_none, nc_set_default_channel_id = (\<lambda>_. ret ())\<rparr>"

definition miss_rooms :: "unit rooms_cache" where
  "miss_rooms = \<lparr>
     oc_get_all_permanent_rooms = answers_none, oc_set_all_permanent_rooms = (\<lambda>_. ret ()),
     oc_is_room_ephemeral = (\<lambda>_. answers_none), oc_set_is_room_ephemeral = (\<lambda>_ _. ret ()),
     oc_get_rooms_for_user = (\<lambda>_. answers_none), oc_set_rooms_for_user = (\<lambda>_ _. ret ()),
     oc_remove_rooms_for_user = (\<lambda>_. ret ()), oc_leave_room_for_user = (\<lambda>_ _. ret ()),
     oc_set_user_in_room = (\<lambda>_ _ _. ret ()),
     oc_get_type_of_rooms_in_channel = (\<lambda>_. answers_none), oc_set_type_of_rooms_in_channel = (\<lambda>_ _. ret ()),
     oc_get_all_rooms = answers_none, oc_set_all_rooms = (\<lambda>_. ret ()),
     oc_get_rooms_for_channel = (\<lambda>_. answers_none), oc_set_rooms_for_channel = (\<lambda>_ _. ret ()),
     oc_get_rooms_without_info = (\<lambda>_. answers_none), oc_set_rooms_without_info = (\<lambda>_ _. ret ()),
     oc_reset_rooms_for_channel = (\<lambda>_. ret ()),
     oc_get_users_in_room = (\<lambda>_ _. answers_none), oc_set_users_in_room = (\<lambda>_ _ _. ret ()),
     oc_get_users_in_room_by_name = (\<lambda>_ _. answers_none), oc_set_users_in_room_by_name = (\<lambda>_ _ _. ret ()),
     oc_get_default_rooms = answers_none, oc_set_default_rooms = (\<lambda>_. ret ()), oc_clear_default_rooms = ret (),
     oc_get_channels_with_sort = answers_none, oc_set_channels_with_sort = (\<lambda>_. ret ()),
     oc_reset_channels_with_sort = ret (), oc_set_admin_room = (\<lambda>_. ret ()), oc_remove_admin_room = ret ()\<rparr>"

definition miss_roles :: "unit roles_cache" where
  "miss_roles = \<lparr>
     rc_get_user_roles = (\<lambda>_. answers_none), rc_set_user_roles = (\<lambda>_ _. ret ()), rc_reset_user_roles = (\<lambda>_. ret ()),
     rc_get_room_owners = (\<lambda>_. answers_none), rc_set_room_owners = (\<lambda>_ _. ret ()),
     rc_get_users_in_room_for_role = (\<lambda>_ _. answers_none), rc_set_users_in_room_for_role = (\<lambda>_ _ _. ret ()),
     rc_reset_users_in_room_for_role = (\<lambda>_ _. ret ()),
     rc_get_users_in_channel_for_role = (\<lambda>_ _. answers_none), rc_set_users_in_channel_for_role = (\<lambda>_ _ _. ret ()),
     rc_reset_users_in_channel_for_role = (\<lambda>_ _. ret ())\<rparr>"

definition miss_acls :: "unit acls_cache" where
  "miss_acls = \<lparr>
     kc_get_all_acls_for_room = (\<lambda>_. answers_none), kc_set_all_acls_for_room = (\<lambda>_ _. ret ()),
     kc_get_all_acls_for_channel = (\<lambda>_. answers_none), kc_set_all_acls_for_channel = (\<lambda>_ _. ret ()),
     kc_get_room_acls_for_action = (\<lambda>_. answers_none), kc_set_room_acls_for_action = (\<lambda>_ _. ret ()),
     kc_get_acls_in_room_for_action = (\<lambda>_ _. answers_none), kc_set_acls_in_room_for_action = (\<lambda>_ _ _. ret ()),
     kc_get_acls_in_channel_for_action = (\<lambda>_ _. answers_none), kc_set_acls_in_channel_for_action = (\<lambda>_ _ _. ret ()),
     kc_reset_acls_in_room_for_action = (\<lambda>_ _. ret ()), kc_reset_acls_in_channel_for_action = (\<lambda>_ _. ret ()),
     kc_reset_acls_in_room = (\<lambda>_. ret ()), kc_reset_acls_in_channel = (\<lambda>_. ret ())\<rparr>"

definition miss_bans :: "unit bans_cache" where
  "miss_bans = \<lparr>
     bc_get_global_ban = (\<lambda>_. answers_none), bc_set_global_ban = (\<lambda>_ _ _ _. ret ()),
     bc_get_channel_ban = (\<lambda>_ _. answers_none), bc_set_channel_ban = (\<lambda>_ _ _ _ _. ret ()),
     bc_get_room_ban = (\<lambda>_ _. answers_none), bc_set_room_ban = (\<lambda>_ _ _ _ _. ret ()),
     bc_get_room_mute = (\<lambda>_ _. answers_none), bc_set_room_mute = (\<lambda>_ _ _ _. ret ())\<rparr>"

definition miss_presence :: "unit presence_cache" where
  "miss_presence = \<lparr>
     pc_get_user_status = (\<lambda>_. answers_none), pc_set_user_status = (\<lambda>_ _. ret ()),
     pc_set_user_status_invisible = (\<lambda>_. ret ()), pc_set_user_invisible = (\<lambda>_ _. ret ()),
     pc_set_user_offline = (\<lambda>_. ret ()), pc_set_user_online = (\<lambda>_. ret ()),
     pc_get_last_online = (\<lambda>_. answers_none), pc_set_last_online = (\<lambda>_. ret ()),
     pc_add_sid_for_user = (\<lambda>_ _. ret ()), pc_remove_sid_for_user = (\<lambda>_ _. ret ()),
     pc_reset_sids_for_user = (\<lambda>_. ret ()), pc_get_sids_for_user = (\<lambda>_. answers_none),
     pc_set_sids_for_user = (\<lambda>_ _. ret ()), pc_get_user_for_sid = (\<lambda>_. answers_none)\<rparr>"

definition miss_misc :: "unit misc_cache" where
  "miss_misc = \<lparr>
     ic_get_black_list = answers_none, ic_set_black_list = (\<lambda>_. ret ()), ic_reset_black_list = ret (),
     ic_get_join_count_by_id = (\<lambda>_. answers_none), ic_set_join_count_by_id = (\<lambda>_ _. ret ()),
     ic_get_join_count_by_name = (\<lambda>_. answers_none), ic_set_join_count_by_name = (\<lambda>_ _. ret ()),
     ic_get_avatar_for = (\<lambda>_. answers_none), ic_set_avatar_for = (\<lambda>_ _. ret ())\<rparr>"

definition miss_rcache :: "unit rcache" where
  "miss_rcache = \<lparr>ca_names = miss_names, ca_rooms = miss_rooms, ca_roles = miss_roles, ca_acls = miss_acls,
     ca_bans = miss_bans, ca_presence = miss_presence, ca_misc = miss_misc\<rparr>"

lemmas miss_defs = miss_rcache_def miss_names_def miss_rooms_def miss_roles_def miss_acls_def miss_bans_def
  miss_presence_def miss_misc_def always_returns_none_def

subsection \<open>What the database relies on\<close>

text \<open>
  \<open>agrees c R nm\<close>: the roles that the cache can answer for a user satisfy \<open>R\<close>, and a name of a room
  is one in \<open>nm\<close>. After a reset the roles of the user may be anything.
\<close>

locale role_cache =
  fixes C :: "'c rcache" and agrees :: "'c \<Rightarrow> (string \<Rightarrow> user_roles \<Rightarrow> bool) \<Rightarrow> (string \<Rightarrow> string option) \<Rightarrow> bool"
  assumes get_user_roles: "agrees c R nm \<Longrightarrow>
      \<exists>v c'. rc_get_user_roles (ca_roles C) u c = (Inr v, c') \<and> (v = None \<or> (\<exists>r. v = Some r \<and> R u r)) \<and> agrees c' R nm"
    and set_user_roles: "agrees c R nm \<Longrightarrow> R u r \<Longrightarrow>
      \<exists>c'. rc_set_user_roles (ca_roles C) u r c = (Inr (), c') \<and> agrees c' R nm"
    and reset_user_roles: "agrees c R nm \<Longrightarrow>
      \<exists>c'. rc_reset_user_roles (ca_roles C) u c = (Inr (), c') \<and> (\<forall>P. agrees c' (R(u := P)) nm)"
    and get_room_name: "agrees c R nm \<Longrightarrow>
      \<exists>v c'. nc_get_room_name (ca_names C) x c = (Inr v, c') \<and> (v = None \<or> v = nm x) \<and> agrees c' R nm"
    and set_room_name: "agrees c R nm \<Longrightarrow> nm x = Some n \<Longrightarrow>
      \<exists>c'. nc_set_room_name (ca_names C) x n c = (Inr (), c') \<and> agrees c' R nm"
    and reset_users_for_role: "agrees c R nm \<Longrightarrow>
      \<exists>c'. rc_reset_users_in_room_for_role (ca_roles C) x role c = (Inr (), c') \<and> agrees c' R nm"
      "agrees c R nm \<Longrightarrow> \<exists>c'. rc_reset_users_in_channel_for_role (ca_roles C) x role c = (Inr (), c') \<and> agrees c' R nm"

interpretation miss_role_cache: role_cache miss_rcache "\<lambda>_ _ _. True"
  by unfold_locales (auto simp: miss_defs op_simps)

end
