(* ===== verification/Rdb_Core.thy ===== *)
theory Rdb_Core
  imports Rdb_Tables Rdb_Cache
begin

section \<open>The relational database: sessions, names and existence\<close>

text \<open>
  \<open>DatabaseRdbms\<close> of \<^verbatim>\<open>dino/db/rdbms/handler.py\<close>, first part. A state is that of the session of
  the thread and that of the cache; a method is an operation on it. \<open>with_session\<close> wraps a function:
  its exceptions roll the session back, and at its end the session is given back in any case. The
  session belongs to the thread, so a method called inside gives it back as well.
\<close>

record ('s, 'c) rw =
  rw_sql :: 's
  rw_cache :: 'c

record ('s, 'c) rdenv =
  rv_sql :: "'s sqla"
  rv_cache :: "'c rcache"
  rv_order :: "string list \<Rightarrow> string list"
  rv_tz :: int
  rv_count_joins :: bool
  rv_node :: "string option"

subsection \<open>Sessions\<close>

definition on_sql :: "('s, 'a) op \<Rightarrow> (('s, 'c) rw, 'a) op" where
  "on_sql m w = (case m (rw_sql w) of (r, s) \<Rightarrow> (r, w\<lparr>rw_sql := s\<rparr>))"

definition on_cache :: "('c, 'a) op \<Rightarrow> (('s, 'c) rw, 'a) op" where
  "on_cache m w = (case m (rw_cache w) of (r, c) \<Rightarrow> (r, w\<lparr>rw_cache := c\<rparr>))"

definition query :: "('s, 'c) rdenv \<Rightarrow> (db_row list \<Rightarrow> 'a) \<Rightarrow> (('s, 'c) rw, 'a) op" where
  "query E f = gets (\<lambda>w. f (sq_rows (rv_sql E) (rw_sql w)))"

definition s_add :: "('s, 'c) rdenv \<Rightarrow> db_row \<Rightarrow> (('s, 'c) rw, nat) op" where
  "s_add E e = on_sql (sq_add (rv_sql E) e)"

definition s_save :: "('s, 'c) rdenv \<Rightarrow> db_row \<Rightarrow> db_row \<Rightarrow> (('s, 'c) rw, unit) op" where
  "s_save E e e' = on_sql (sq_save (rv_sql E) e e')"

definition s_delete :: "('s, 'c) rdenv \<Rightarrow> db_row \<Rightarrow> (('s, 'c) rw, unit) op" where
  "s_delete E e = on_sql (sq_delete (rv_sql E) e)"

definition s_commit :: "('s, 'c) rdenv \<Rightarrow> (('s, 'c) rw, unit) op" where
  "s_commit E = on_sql (sq_commit (rv_sql E))"

definition s_rollback :: "('s, 'c) rdenv \<Rightarrow> (('s, 'c) rw, unit) op" where
  "s_rollback E = modify (\<lambda>w. w\<lparr>rw_sql := sq_rollback (rv_sql E) (rw_sql w)\<rparr>)"

definition with_session :: "('s, 'c) rdenv \<Rightarrow> (('s, 'c) rw, 'a) op \<Rightarrow> (('s, 'c) rw, 'a) op" where
  "with_session E m w = (case m w of
     (Inl e, w') \<Rightarrow> (Inl e, w'\<lparr>rw_sql := sq_remove (rv_sql E) (sq_rollback (rv_sql E) (rw_sql w'))\<rparr>)
   | (Inr a, w') \<Rightarrow> (Inr a, w'\<lparr>rw_sql := sq_remove (rv_sql E) (rw_sql w')\<rparr>))"

text \<open>The topics of the cache.\<close>

abbreviation "c_names E \<equiv> ca_names (rv_cache E)"
abbreviation "c_rooms E \<equiv> ca_rooms (rv_cache E)"
abbreviation "c_roles E \<equiv> ca_roles (rv_cache E)"
abbreviation "c_acls E \<equiv> ca_acls (rv_cache E)"
abbreviation "c_bans E \<equiv> ca_bans (rv_cache E)"
abbreviation "c_presence E \<equiv> ca_presence (rv_cache E)"
abbreviation "c_misc E \<equiv> ca_misc (rv_cache E)"

text \<open>A value from the cache, else one from the database.\<close>

definition or_else :: "(('s, 'c) rw, 'a option) op \<Rightarrow> (('s, 'c) rw, 'a) op \<Rightarrow> (('s, 'c) rw, 'a) op" where
  "or_else cached load = bindM cached (\<lambda>v. case v of Some x \<Rightarrow> ret x | None \<Rightarrow> load)"

text \<open>\<open>filter(X.uuid == i).first()\<close>, and the rows that a foreign key names.\<close>

definition room_by_uuid :: "db_row list \<Rightarrow> string \<Rightarrow> room_row option" where
  "room_by_uuid es i = find (\<lambda>r. ro_uuid r = i) (all_rooms es)"

definition channel_by_uuid :: "db_row list \<Rightarrow> string \<Rightarrow> channel_row option" where
  "channel_by_uuid es i = find (\<lambda>c. ch_uuid c = i) (all_channels es)"

definition user_by_uuid :: "db_row list \<Rightarrow> string \<Rightarrow> user_row option" where
  "user_by_uuid es i = find (\<lambda>u. us_uuid u = i) (all_users es)"

definition channel_of :: "db_row list \<Rightarrow> room_row \<Rightarrow> channel_row option" where
  "channel_of es r = find (\<lambda>c. ch_id c = ro_channel_id r) (all_channels es)"

subsection \<open>Names\<close>

definition sql_get_room_name :: "('s, 'c) rdenv \<Rightarrow> string \<Rightarrow> (('s, 'c) rw, string) op" where
  "sql_get_room_name E room_id =
     or_else (on_cache (nc_get_room_name (c_names E) room_id))
     (bindM (with_session E (bindM (query E (\<lambda>es. room_by_uuid es room_id)) (\<lambda>room.
        case room of None \<Rightarrow> throw (NoSuchRoomException room_id) | Some r \<Rightarrow> ret (ro_name r)))) (\<lambda>value.
      thenM (on_cache (nc_set_room_name (c_names E) room_id value)) (ret value)))"

definition sql_get_channel_name :: "('s, 'c) rdenv \<Rightarrow> string \<Rightarrow> (('s, 'c) rw, string) op" where
  "sql_get_channel_name E channel_id =
     or_else (on_cache (nc_get_channel_name (c_names E) channel_id))
     (bindM (with_session E (bindM (query E (\<lambda>es. channel_by_uuid es channel_id)) (\<lambda>channel.
        case channel of None \<Rightarrow> throw (NoSuchChannelException channel_id) | Some c \<Rightarrow> ret (ch_name c)))) (\<lambda>name.
      thenM (on_cache (nc_set_channel_name (c_names E) channel_id name)) (ret name)))"

definition sql_user_name_row :: "('s, 'c) rdenv \<Rightarrow> string \<Rightarrow> (('s, 'c) rw, string option) op" where
  "sql_user_name_row E user_id =
     with_session E (bindM (query E (\<lambda>es. user_by_uuid es user_id)) (\<lambda>user. ret (map_option us_name user)))"

definition sql_get_user_name :: "('s, 'c) rdenv \<Rightarrow> string \<Rightarrow> bool \<Rightarrow> (('s, 'c) rw, string) op" where
  "sql_get_user_name E user_id skip_cache =
     (if skip_cache
      then bindM (sql_user_name_row E user_id) (\<lambda>user_name.
           if none_or_blank user_name then throw (NoSuchUserException user_id) else ret (the user_name))
      else bindM (on_cache (nc_get_user_name (c_names E) user_id)) (\<lambda>cached.
           if \<not> none_or_blank cached then ret (the cached)
           else bindM (sql_user_name_row E user_id) (\<lambda>user_name.
                if none_or_blank user_name then throw (NoSuchUserException user_id)
                else thenM (on_cache (nc_set_user_name (c_names E) user_id (the user_name))) (ret (the user_name)))))"

definition sql_get_user_id :: "('s, 'c) rdenv \<Rightarrow> string \<Rightarrow> (('s, 'c) rw, string) op" where
  "sql_get_user_id E user_name =
     bindM (on_cache (nc_get_user_id (c_names E) user_name)) (\<lambda>cached.
     if \<not> none_or_blank cached then ret (the cached)
     else bindM (with_session E (bindM (query E (\<lambda>es. find (\<lambda>u. us_name u = user_name) (all_users es)))
            (\<lambda>user. ret (map_option us_uuid user)))) (\<lambda>user_id.
          if none_or_blank user_id then throw (NoSuchUserException user_name)
          else thenM (on_cache (nc_set_user_id (c_names E) (the user_id) user_name)) (ret (the user_id))))"

definition sql_user_name_exists :: "('s, 'c) rdenv \<Rightarrow> string \<Rightarrow> (('s, 'c) rw, bool) op" where
  "sql_user_name_exists E user_name =
     bindM (on_cache (nc_get_user_name_exists (c_names E) user_name)) (\<lambda>cached.
     if cached = Some True then ret True
     else bindM (with_session E (query E (\<lambda>es. find (\<lambda>u. us_name u = user_name) (all_users es) \<noteq> None))) (\<lambda>exists.
          thenM (whenM exists (on_cache (nc_set_user_name_exists (c_names E) user_name))) (ret exists)))"

definition sql_channel_for_room :: "('s, 'c) rdenv \<Rightarrow> string option \<Rightarrow> (('s, 'c) rw, string) op" where
  "sql_channel_for_room E room_id =
     (if none_or_blank room_id then throw (NoSuchRoomException (fmt room_id))
      else (let room_id = the room_id in
        or_else (on_cache (nc_get_channel_for_room (c_names E) room_id))
        (thenM (sql_get_room_name E room_id)
         (bindM (with_session E (bindM (query E (\<lambda>es.
              Option.bind (find (\<lambda>r. ro_uuid r = room_id \<and> channel_of es r \<noteq> None) (all_rooms es)) (channel_of es))) (\<lambda>channel.
            case channel of None \<Rightarrow> throw (NoSuchRoomException room_id) | Some c \<Rightarrow> ret (ch_uuid c)))) (\<lambda>channel_id.
          thenM (on_cache (nc_set_channel_for_room (c_names E) channel_id room_id)) (ret channel_id))))))"

subsection \<open>Existence\<close>

definition sql_room_exists :: "('s, 'c) rdenv \<Rightarrow> string \<Rightarrow> string \<Rightarrow> (('s, 'c) rw, bool) op" where
  "sql_room_exists E channel_id room_id =
     or_else (on_cache (nc_get_room_exists (c_names E) channel_id room_id))
     (with_session E (bindM (query E (\<lambda>es. filter (\<lambda>r. ro_uuid r = room_id) (all_rooms es))) (\<lambda>rooms.
        case rooms of [] \<Rightarrow> ret False
        | r # _ \<Rightarrow> thenM (on_cache (nc_set_room_exists (c_names E) channel_id room_id (ro_name r))) (ret True))))"

definition sql_channel_exists :: "('s, 'c) rdenv \<Rightarrow> string option \<Rightarrow> (('s, 'c) rw, bool) op" where
  "sql_channel_exists E channel_id = (case channel_id of
     None \<Rightarrow> ret False
   | Some i \<Rightarrow>
       or_else (on_cache (nc_get_channel_exists (c_names E) i))
       (with_session E (bindM (query E (\<lambda>es. channel_by_uuid es i)) (\<lambda>channel.
          case channel of None \<Rightarrow> ret False
          | Some _ \<Rightarrow> thenM (on_cache (nc_set_channel_exists (c_names E) i)) (ret True)))))"

definition sql_channel_name_exists :: "('s, 'c) rdenv \<Rightarrow> string \<Rightarrow> (('s, 'c) rw, bool) op" where
  "sql_channel_name_exists E channel_name =
     with_session E (query E (\<lambda>es. filter (\<lambda>c. ch_name c = channel_name) (all_channels es) \<noteq> []))"

text \<open>The id of the room stands for the answer when the cache has one; all channels are searched.\<close>

definition sql_room_name_exists :: "('s, 'c) rdenv \<Rightarrow> string \<Rightarrow> string \<Rightarrow> (('s, 'c) rw, bool) op" where
  "sql_room_name_exists E channel_id room_name =
     bindM (on_cache (nc_get_room_id_for_name (c_names E) channel_id room_name)) (\<lambda>exists.
     case exists of
       Some i \<Rightarrow> ret (i \<noteq> [])
     | None \<Rightarrow> with_session E (bindM (query E (\<lambda>es. filter (\<lambda>r. ro_name r = room_name) (all_rooms es))) (\<lambda>rows.
         case rows of [] \<Rightarrow> ret False
         | r # _ \<Rightarrow> thenM (on_cache (nc_set_room_id_for_name (c_names E) channel_id room_name (ro_uuid r))) (ret True))))"

subsection \<open>Users\<close>

definition new_user :: "string \<Rightarrow> string \<Rightarrow> user_row" where
  "new_user user_id user_name = \<lparr>us_id = 0, us_uuid = user_id, us_name = user_name\<rparr>"

definition sql_create_user :: "('s, 'c) rdenv \<Rightarrow> string option \<Rightarrow> string option \<Rightarrow> (('s, 'c) rw, unit) op" where
  "sql_create_user E user_id user_name =
     (if none_or_blank user_name then throw (EmptyUserNameException (fmt user_id))
      else if none_or_blank user_id then throw EmptyUserIdException
      else thenM
        (catchM (bindM (sql_get_user_name E (the user_id) True) (\<lambda>_. throw (UserExistsException (the user_id))))
          (\<lambda>e. case e of NoSuchUserException _ \<Rightarrow> Some (ret ()) | _ \<Rightarrow> None))
        (with_session E (thenM (s_add E (E_user (new_user (the user_id) (the user_name)))) (s_commit E))))"

definition sql_set_user_name :: "('s, 'c) rdenv \<Rightarrow> string \<Rightarrow> string \<Rightarrow> (('s, 'c) rw, unit) op" where
  "sql_set_user_name E user_id user_name =
     bindM (with_session E (bindM (query E (\<lambda>es. user_by_uuid es user_id)) (\<lambda>user.
        case user of None \<Rightarrow> ret False
        | Some u \<Rightarrow> thenM (s_save E (E_user u) (E_user (u\<lparr>us_name := user_name\<rparr>))) (thenM (s_commit E) (ret True))))) (\<lambda>updated.
     thenM (whenM (\<not> updated) (sql_create_user E (Some user_id) (Some user_name)))
           (on_cache (nc_set_user_name (c_names E) user_id user_name)))"

text \<open>\<open>LIKE\<close>: a percent sign matches any text, an underscore any character. \<open>ilike\<close> does not mind the case.\<close>

fun like :: "string \<Rightarrow> string \<Rightarrow> bool" where
  "like [] s = (s = [])"
| "like (p # ps) [] = (p = CHR ''%'' \<and> like ps [])"
| "like (p # ps) (c # cs) =
     (if p = CHR ''%'' then like ps (c # cs) \<or> like (p # ps) cs
      else (p = CHR ''_'' \<or> p = c) \<and> like ps cs)"

definition ilike :: "string \<Rightarrow> string \<Rightarrow> bool" where
  "ilike pattern s = like (lower pattern) (lower s)"

text \<open>The users whose id or name has the text in it, of which at most 101 are taken.\<close>

definition sql_search_for_users :: "('s, 'c) rdenv \<Rightarrow> string \<Rightarrow> (('s, 'c) rw, (string \<times> string) list) op" where
  "sql_search_for_users E text = with_session E (query E (\<lambda>es.
     map (\<lambda>u. (us_uuid u, us_name u)) (take 101 (filter (\<lambda>u.
       ilike (''%'' @ text @ ''%'') (us_uuid u) \<or> ilike (''%'' @ text @ ''%'') (us_name u)) (all_users es)))))"

definition sql_get_all_user_ids :: "('s, 'c) rdenv \<Rightarrow> (('s, 'c) rw, string list) op" where
  "sql_get_all_user_ids E = with_session E (query E (\<lambda>es.
     map us_uuid (filter (\<lambda>u. us_uuid u \<in> ut_uuid ` set (all_user_status es)) (all_users es))))"

end
