(* ===== verification/Rdb_Facts.thy ===== *)
theory Rdb_Facts
  imports Rdb_Core
begin

section \<open>Facts on sessions\<close>

text \<open>
  What a step of a session does to two sets of rows: those that the session sees and those that
  are committed. Between two methods both are the same, the session is \<open>clean\<close>. A query is a
  function of a list of the rows in some order.
\<close>

named_theorems session_simps "steps of a session that only read"

lemma on_cache_ret [session_simps]: "on_cache (ret a) = ret a"
  by (rule ext) (simp add: on_cache_def ret_def)

locale rdb_session = sql_session "rv_sql E" T for E :: "('s, 'c) rdenv" and T :: "'s \<Rightarrow> db_row set"
begin

text \<open>The rows that are seen and the rows that are committed.\<close>

abbreviation seen :: "('s, 'c) rw \<Rightarrow> db_row set" where
  "seen w \<equiv> set (sq_rows (rv_sql E) (rw_sql w))"

abbreviation stored :: "('s, 'c) rw \<Rightarrow> db_row set" where
  "stored w \<equiv> T (rw_sql w)"

definition clean :: "('s, 'c) rw \<Rightarrow> bool" where
  "clean w \<longleftrightarrow> seen w = stored w"

lemma query_run [session_simps]: "query E f w = (Inr (f (sq_rows (rv_sql E) (rw_sql w))), w)"
  by (simp add: query_def op_simps)

lemma bindM_query [session_simps]: "bindM (query E f) g w = g (f (sq_rows (rv_sql E) (rw_sql w))) w"
  by (simp add: bindM_def query_run)

lemma session_ok:
  assumes "m w = (Inr a, w1)"
  shows "\<exists>w'. with_session E m w = (Inr a, w') \<and> clean w' \<and> stored w' = stored w1 \<and> rw_cache w' = rw_cache w1"
  using assms remove [of "rw_sql w1"] by (auto simp: with_session_def clean_def)

lemma session_fails:
  assumes "m w = (Inl e, w1)"
  shows "\<exists>w'. with_session E m w = (Inl e, w') \<and> clean w' \<and> stored w' = stored w1 \<and> rw_cache w' = rw_cache w1"
  using assms remove [of "sq_rollback (rv_sql E) (rw_sql w1)"] rollback [of "rw_sql w1"]
  by (auto simp: with_session_def clean_def)

lemma session_reads:
  assumes "clean w"
  shows "\<exists>es w'. set es = stored w \<and> with_session E (query E f) w = (Inr (f es), w') \<and> clean w' \<and>
    stored w' = stored w \<and> rw_cache w' = rw_cache w"
proof -
  obtain w' where "with_session E (query E f) w = (Inr (f (sq_rows (rv_sql E) (rw_sql w))), w')" "clean w'"
    "stored w' = stored w" "rw_cache w' = rw_cache w"
    using session_ok [of "query E f" w, OF query_run] by blast
  then show ?thesis using assms unfolding clean_def by blast
qed

lemma add_step:
  assumes "\<And>e'. e' \<in> seen w \<Longrightarrow> \<not> clashes e e'"
  shows "\<exists>k w'. s_add E e w = (Inr k, w') \<and> seen w' = insert (with_id k e) (seen w) \<and> stored w' = stored w \<and>
    rw_cache w' = rw_cache w \<and> (\<forall>e' \<in> seen w. same_table e e' \<longrightarrow> entity_id e' < k)"
  using add [of "rw_sql w" e, OF assms] by (auto simp: s_add_def on_sql_def)

lemma save_step:
  assumes "e \<in> seen w"
  shows "\<exists>w'. s_save E e e' w = (Inr (), w') \<and> seen w' = insert e' (seen w - {e}) \<and> stored w' = stored w \<and>
    rw_cache w' = rw_cache w"
  using save [OF assms, of e'] by (auto simp: s_save_def on_sql_def)

lemma delete_step:
  assumes "d \<in> seen w" "\<And>e. e \<in> seen w \<Longrightarrow> \<not> needs e d"
  shows "\<exists>w'. s_delete E d w = (Inr (), w') \<and> stored w' = stored w \<and> rw_cache w' = rw_cache w \<and>
    seen w' = {e'. \<exists>e \<in> seen w - {d}. after_delete d e = Some e'}"
  using delete [OF assms] by (auto simp: s_delete_def on_sql_def)

lemma commit_step:
  "\<exists>w'. s_commit E w = (Inr (), w') \<and> seen w' = seen w \<and> stored w' = seen w \<and> rw_cache w' = rw_cache w"
  using commit [of "rw_sql w"] by (auto simp: s_commit_def on_sql_def)

text \<open>One row is written and committed: the usual body of a session.\<close>

lemma saved_in_session:
  assumes "e \<in> seen w"
  shows "\<exists>w'. thenM (s_save E e e') (s_commit E) w = (Inr (), w') \<and> stored w' = insert e' (seen w - {e}) \<and>
    rw_cache w' = rw_cache w"
proof -
  obtain w1 where w1: "s_save E e e' w = (Inr (), w1)" "seen w1 = insert e' (seen w - {e})" "rw_cache w1 = rw_cache w"
    using save_step [OF assms] by blast
  obtain w2 where "s_commit E w1 = (Inr (), w2)" "stored w2 = seen w1" "rw_cache w2 = rw_cache w1"
    using commit_step by blast
  with w1 show ?thesis by (auto simp: thenM_def bindM_def)
qed

lemma added_in_session:
  assumes "\<And>e'. e' \<in> seen w \<Longrightarrow> \<not> clashes e e'"
  shows "\<exists>k w'. thenM (s_add E e) (s_commit E) w = (Inr (), w') \<and> stored w' = insert (with_id k e) (seen w) \<and>
    rw_cache w' = rw_cache w \<and> (\<forall>e' \<in> seen w. same_table e e' \<longrightarrow> entity_id e' < k)"
proof -
  obtain k w1 where w1: "s_add E e w = (Inr k, w1)" "seen w1 = insert (with_id k e) (seen w)" "rw_cache w1 = rw_cache w"
    "\<forall>e' \<in> seen w. same_table e e' \<longrightarrow> entity_id e' < k"
    using add_step [OF assms] by blast
  obtain w2 where "s_commit E w1 = (Inr (), w2)" "stored w2 = seen w1" "rw_cache w2 = rw_cache w1"
    using commit_step by blast
  with w1 show ?thesis by (intro exI [of _ k]) (auto simp: thenM_def bindM_def)
qed

lemma deleted_in_session:
  assumes "d \<in> seen w" "\<And>e. e \<in> seen w \<Longrightarrow> \<not> needs e d" "\<And>e. e \<in> seen w \<Longrightarrow> after_delete d e = Some e"
  shows "\<exists>w'. thenM (s_delete E d) (s_commit E) w = (Inr (), w') \<and> stored w' = seen w - {d} \<and> rw_cache w' = rw_cache w"
proof -
  obtain w1 where w1: "s_delete E d w = (Inr (), w1)" "seen w1 = {e'. \<exists>e \<in> seen w - {d}. after_delete d e = Some e'}"
    "rw_cache w1 = rw_cache w"
    using delete_step [OF assms(1,2)] by blast
  have s: "seen w1 = seen w - {d}" using w1(2) assms(3) by auto
  obtain w2 where "s_commit E w1 = (Inr (), w2)" "stored w2 = seen w1" "rw_cache w2 = rw_cache w1"
    using commit_step by blast
  with w1 s show ?thesis by (auto simp: thenM_def bindM_def)
qed

lemma on_cache_run:
  assumes "m (rw_cache w) = (r, c)"
  shows "on_cache m w = (r, w\<lparr>rw_cache := c\<rparr>)"
  using assms by (simp add: on_cache_def)

lemma clean_cache [simp]: "clean (w\<lparr>rw_cache := c\<rparr>) = clean w"
  by (simp add: clean_def)

end

text \<open>\<open>first()\<close> of a query whose rows are given up to their order.\<close>

lemma find_in_rows: "find P xs = Some x \<Longrightarrow> x \<in> set xs \<and> P x"
  by (induction xs) (auto split: if_splits)

lemma find_none: "find P xs = None \<longleftrightarrow> (\<forall>x \<in> set xs. \<not> P x)"
  by (induction xs) auto

lemma find_unique:
  assumes "x \<in> set xs" "P x" "\<And>y. y \<in> set xs \<Longrightarrow> P y \<Longrightarrow> y = x"
  shows "find P xs = Some x"
proof (cases "find P xs")
  case None
  with assms(1,2) show ?thesis by (auto simp: find_none)
next
  case (Some y)
  with assms(3) show ?thesis by (auto dest: find_in_rows)
qed

text \<open>The database in memory, with the cache that always misses.\<close>

definition memory_rdenv :: "(mem_sql, unit) rdenv" where
  "memory_rdenv = \<lparr>rv_sql = memory_sql, rv_cache = miss_rcache, rv_order = (\<lambda>xs. xs), rv_tz = 0,
     rv_count_joins = False, rv_node = None\<rparr>"

definition rdb_of :: "db_row list \<Rightarrow> (mem_sql, unit) rw" where
  "rdb_of es = \<lparr>rw_sql = \<lparr>ms_rows = es, ms_saved = es\<rparr>, rw_cache = ()\<rparr>"

interpretation memory_rdb: rdb_session memory_rdenv mem_saved
proof -
  have "rv_sql memory_rdenv = memory_sql" by (simp add: memory_rdenv_def)
  then show "rdb_session memory_rdenv mem_saved"
    using memory_sql.sql_session_axioms by (simp add: rdb_session_def)
qed

end
