(* ===== verification/Rdb_Roles.thy ===== *)
theory Rdb_Roles
  imports Rdb_Core
begin

section \<open>The relational database: roles\<close>

text \<open>
  Second part of \<open>DatabaseRdbms\<close>: the roles of users in rooms, in channels and globally. A row holds
  the roles of one user as a comma separated text. All roles of a user are kept in the cache as
  one value, which every change resets and loads again.
\<close>

subsection \<open>All roles of a user\<close>

text \<open>\<open>[a for a in roles.split(',') if len(a) > 0]\<close>.\<close>

definition role_list :: "string \<Rightarrow> string list" where
  "role_list s = filter (\<lambda>a. a \<noteq> []) (split_on (CHR '','') s)"

definition room_roles_of :: "db_row list \<Rightarrow> string \<Rightarrow> (string \<times> role_row) list" where
  "room_roles_of es user_id =
     [(ro_uuid room, r). r \<leftarrow> all_room_roles es, rl_user_id r = user_id, room \<leftarrow> all_rooms es, ro_id room = rl_place_id r]"

definition channel_roles_of :: "db_row list \<Rightarrow> string \<Rightarrow> (string \<times> role_row) list" where
  "channel_roles_of es user_id =
     [(ch_uuid c, r). r \<leftarrow> all_channel_roles es, rl_user_id r = user_id, c \<leftarrow> all_channels es, ch_id c = rl_place_id r]"

definition format_places :: "(string \<times> role_row) list \<Rightarrow> (string \<times> string list) list" where
  "format_places rows = fold (\<lambda>(place, r) out. AList.update place (role_list (rl_roles r)) out) rows []"

definition format_user_roles ::
  "global_role_row option \<Rightarrow> (string \<times> role_row) list \<Rightarrow> (string \<times> role_row) list \<Rightarrow> user_roles" where
  "format_user_roles g c r =
     \<lparr>ur_global = (case g of None \<Rightarrow> [] | Some row \<Rightarrow> role_list (gr_roles row)),
      ur_channel = format_places c, ur_room = format_places r\<rparr>"

definition stored_roles :: "db_row list \<Rightarrow> string \<Rightarrow> user_roles" where
  "stored_roles es user_id =
     format_user_roles (find (\<lambda>g. gr_user_id g = user_id) (all_global_roles es))
       (channel_roles_of es user_id) (room_roles_of es user_id)"

text \<open>A cached value with a room that is gone is dropped.\<close>

fun rooms_known :: "('s, 'c) rdenv \<Rightarrow> string list \<Rightarrow> (('s, 'c) rw, bool) op" where
  "rooms_known E [] = ret True"
| "rooms_known E (room_id # rest) =
     bindM (catchM (thenM (sql_get_room_name E room_id) (ret True))
       (\<lambda>e. case e of NoSuchRoomException _ \<Rightarrow> Some (ret False) | _ \<Rightarrow> None))
     (\<lambda>known. if known then rooms_known E rest else ret False)"

definition sql_load_user_roles :: "('s, 'c) rdenv \<Rightarrow> string \<Rightarrow> (('s, 'c) rw, user_roles) op" where
  "sql_load_user_roles E user_id =
     bindM (with_session E (query E (\<lambda>es. stored_roles es user_id))) (\<lambda>roles.
     thenM (on_cache (rc_set_user_roles (c_roles E) user_id roles)) (ret roles))"

definition sql_get_user_roles :: "('s, 'c) rdenv \<Rightarrow> string \<Rightarrow> bool \<Rightarrow> (('s, 'c) rw, user_roles) op" where
  "sql_get_user_roles E user_id skip_cache =
     (if skip_cache then sql_load_user_roles E user_id
      else bindM (on_cache (rc_get_user_roles (c_roles E) user_id)) (\<lambda>output.
        case output of
          None \<Rightarrow> sql_load_user_roles E user_id
        | Some out \<Rightarrow> bindM (rooms_known E (map fst (ur_room out))) (\<lambda>known.
            if known then ret out
            else thenM (on_cache (rc_reset_user_roles (c_roles E) user_id)) (sql_load_user_roles E user_id))))"

definition sql_update_user_roles_in_cache :: "('s, 'c) rdenv \<Rightarrow> string \<Rightarrow> (('s, 'c) rw, unit) op" where
  "sql_update_user_roles_in_cache E user_id =
     thenM (on_cache (rc_reset_user_roles (c_roles E) user_id))
     (thenM (sql_get_user_roles E user_id True) (ret ()))"

text \<open>For many users at once; of several global rows of a user the last one counts.\<close>

definition sql_get_users_roles :: "('s, 'c) rdenv \<Rightarrow> string list \<Rightarrow> (('s, 'c) rw, unit) op" where
  "sql_get_users_roles E user_ids = with_session E
     (bindM (query E (\<lambda>es. map (\<lambda>u. (u, format_user_roles (find (\<lambda>g. gr_user_id g = u) (rev (all_global_roles es)))
        (channel_roles_of es u) (room_roles_of es u))) user_ids)) (\<lambda>formatted.
      iterM (\<lambda>(u, roles). on_cache (rc_set_user_roles (c_roles E) u roles)) formatted))"

text \<open>The test for the cached global roles looks for the room among the names of roles.\<close>

definition sql_get_user_roles_in_room :: "('s, 'c) rdenv \<Rightarrow> string \<Rightarrow> string \<Rightarrow> (('s, 'c) rw, string list) op" where
  "sql_get_user_roles_in_room E user_id room_id =
     bindM (on_cache (rc_get_user_roles (c_roles E) user_id)) (\<lambda>output.
     bindM (case Option.bind output (\<lambda>out. map_of (ur_room out) room_id) of
         Some rs \<Rightarrow> ret rs
       | None \<Rightarrow> with_session E (query E (\<lambda>es.
           case find (\<lambda>(place, _). place = room_id) (room_roles_of es user_id) of
             None \<Rightarrow> [] | Some (_, r) \<Rightarrow> role_list (rl_roles r)))) (\<lambda>room_roles.
     bindM (case output of
         Some out \<Rightarrow> if room_id \<in> set (ur_global out) then ret (Some (ur_global out)) else ret None
       | None \<Rightarrow> ret None) (\<lambda>cached.
     bindM (case cached of Some rs \<Rightarrow> ret rs
       | None \<Rightarrow> with_session E (query E (\<lambda>es.
           case find (\<lambda>g. gr_user_id g = user_id) (all_global_roles es) of
             None \<Rightarrow> [] | Some g \<Rightarrow> role_list (gr_roles g)))) (\<lambda>global_roles.
     ret (room_roles @ global_roles)))))"

subsection \<open>Global roles\<close>

definition sql_add_global_role :: "('s, 'c) rdenv \<Rightarrow> string \<Rightarrow> string \<Rightarrow> (('s, 'c) rw, unit) op" where
  "sql_add_global_role E user_id role =
     thenM (with_session E (bindM (query E (\<lambda>es. find (\<lambda>g. gr_user_id g = user_id) (all_global_roles es))) (\<lambda>found.
       case found of
         None \<Rightarrow> thenM (s_add E (E_global_role \<lparr>gr_id = 0, gr_user_id = user_id, gr_roles = role\<rparr>)) (s_commit E)
       | Some g \<Rightarrow>
           if role \<in> set (split_on (CHR '','') (gr_roles g)) then ret ()
           else thenM (s_save E (E_global_role g)
                    (E_global_role (g\<lparr>gr_roles := add_role_text (rv_order E) role (Some (gr_roles g))\<rparr>)))
                (s_commit E))))
     (sql_update_user_roles_in_cache E user_id)"

definition sql_remove_global_role :: "('s, 'c) rdenv \<Rightarrow> string \<Rightarrow> string \<Rightarrow> (('s, 'c) rw, unit) op" where
  "sql_remove_global_role E user_id role =
     thenM (with_session E (bindM (query E (\<lambda>es. find (\<lambda>g. gr_user_id g = user_id) (all_global_roles es))) (\<lambda>found.
       case found of
         None \<Rightarrow> ret ()
       | Some g \<Rightarrow>
           if role \<notin> set (split_on (CHR '','') (gr_roles g)) then ret ()
           else thenM (s_save E (E_global_role g)
                    (E_global_role (g\<lparr>gr_roles := remove_role_text (rv_order E) role (gr_roles g)\<rparr>)))
                (s_commit E))))
     (sql_update_user_roles_in_cache E user_id)"

definition sql_has_global_role :: "('s, 'c) rdenv \<Rightarrow> string \<Rightarrow> string \<Rightarrow> (('s, 'c) rw, bool) op" where
  "sql_has_global_role E user_id role =
     bindM (sql_get_user_roles E user_id False) (\<lambda>roles. ret (role \<in> set (ur_global roles)))"

subsection \<open>Roles in rooms and channels\<close>

definition role_at :: "string \<Rightarrow> string \<Rightarrow> (string \<times> string list) list \<Rightarrow> bool" where
  "role_at role place m = (case map_of m place of None \<Rightarrow> False | Some rs \<Rightarrow> role \<in> set rs)"

definition sql_room_has_role_for_user :: "('s, 'c) rdenv \<Rightarrow> string \<Rightarrow> string \<Rightarrow> string \<Rightarrow> (('s, 'c) rw, bool) op" where
  "sql_room_has_role_for_user E role room_id user_id =
     bindM (sql_get_user_roles E user_id False) (\<lambda>roles. ret (role_at role room_id (ur_room roles)))"

definition sql_channel_has_role_for_user :: "('s, 'c) rdenv \<Rightarrow> string \<Rightarrow> string \<Rightarrow> string \<Rightarrow> (('s, 'c) rw, bool) op" where
  "sql_channel_has_role_for_user E role channel_id user_id =
     bindM (sql_get_user_roles E user_id False) (\<lambda>roles. ret (role_at role channel_id (ur_channel roles)))"

text \<open>
  The loop over the rows of the place: the first row of the user with the role in its text, a
  substring, is changed. A role that is only part of another one raises \<open>KeyError\<close>.
\<close>

definition drop_place_role ::
  "('s, 'c) rdenv \<Rightarrow> (role_row \<Rightarrow> db_row) \<Rightarrow> string \<Rightarrow> string \<Rightarrow> role_row list \<Rightarrow> (('s, 'c) rw, unit) op" where
  "drop_place_role E C role user_id rows = (case find (\<lambda>r. rl_user_id r = user_id \<and> contains role (rl_roles r)) rows of
     None \<Rightarrow> ret ()
   | Some r \<Rightarrow>
       let roles = remdups (split_on (CHR '','') (rl_roles r))
       in if role \<notin> set roles then throw KeyError
          else if remove1 role roles \<noteq> []
          then thenM (s_save E (C r) (C (r\<lparr>rl_roles := join_on (CHR '','') (rv_order E (remove1 role roles))\<rparr>))) (s_commit E)
          else thenM (s_delete E (C r)) (s_commit E))"

definition sql_remove_role_on_room_for_user ::
  "('s, 'c) rdenv \<Rightarrow> string \<Rightarrow> string \<Rightarrow> string \<Rightarrow> (('s, 'c) rw, unit) op" where
  "sql_remove_role_on_room_for_user E role room_id user_id =
     thenM (with_session E (bindM (query E (\<lambda>es. room_by_uuid es room_id)) (\<lambda>room.
       case room of
         None \<Rightarrow> throw (NoSuchRoomException room_id)
       | Some r \<Rightarrow> bindM (query E (\<lambda>es. filter (\<lambda>q. rl_place_id q = ro_id r) (all_room_roles es)))
           (drop_place_role E E_room_role role user_id))))
     (sql_update_user_roles_in_cache E user_id)"

definition sql_remove_role_on_channel_for_user ::
  "('s, 'c) rdenv \<Rightarrow> string \<Rightarrow> string \<Rightarrow> string \<Rightarrow> (('s, 'c) rw, unit) op" where
  "sql_remove_role_on_channel_for_user E role channel_id user_id =
     thenM (with_session E (bindM (query E (\<lambda>es. channel_by_uuid es channel_id)) (\<lambda>channel.
       case channel of
         None \<Rightarrow> throw (NoSuchChannelException channel_id)
       | Some c \<Rightarrow> bindM (query E (\<lambda>es. filter (\<lambda>q. rl_place_id q = ch_id c) (all_channel_roles es)))
           (drop_place_role E E_channel_role role user_id))))
     (sql_update_user_roles_in_cache E user_id)"

text \<open>A row of the user that has the role already ends the call; else the last row of the user is extended.\<close>

definition put_place_role ::
  "('s, 'c) rdenv \<Rightarrow> (role_row \<Rightarrow> db_row) \<Rightarrow> nat \<Rightarrow> string \<Rightarrow> string \<Rightarrow> role_row list \<Rightarrow> (('s, 'c) rw, unit) op" where
  "put_place_role E C place role user_id rows =
     (let own = filter (\<lambda>r. rl_user_id r = user_id) rows
      in if list_ex (\<lambda>r. contains role (rl_roles r)) own then ret ()
         else if own = []
         then thenM (s_add E (C \<lparr>rl_id = 0, rl_place_id = place, rl_user_id = user_id, rl_roles = role\<rparr>)) (s_commit E)
         else thenM (s_save E (C (last own))
                  (C ((last own)\<lparr>rl_roles := add_role_text (rv_order E) role (Some (rl_roles (last own)))\<rparr>)))
              (s_commit E))"

definition sql_set_role_on_room_for_user ::
  "('s, 'c) rdenv \<Rightarrow> string \<Rightarrow> string \<Rightarrow> string \<Rightarrow> (('s, 'c) rw, unit) op" where
  "sql_set_role_on_room_for_user E role room_id user_id =
     thenM (with_session E (bindM (query E (\<lambda>es. room_by_uuid es room_id)) (\<lambda>room.
       case room of
         None \<Rightarrow> throw (NoSuchRoomException room_id)
       | Some r \<Rightarrow> bindM (query E (\<lambda>es. filter (\<lambda>q. rl_place_id q = ro_id r) (all_room_roles es)))
           (put_place_role E E_room_role (ro_id r) role user_id))))
     (thenM (sql_update_user_roles_in_cache E user_id)
            (on_cache (rc_reset_users_in_room_for_role (c_roles E) room_id role)))"

definition sql_set_role_on_channel_for_user ::
  "('s, 'c) rdenv \<Rightarrow> string \<Rightarrow> string \<Rightarrow> string \<Rightarrow> (('s, 'c) rw, unit) op" where
  "sql_set_role_on_channel_for_user E role channel_id user_id =
     thenM (with_session E (bindM (query E (\<lambda>es. channel_by_uuid es channel_id)) (\<lambda>channel.
       case channel of
         None \<Rightarrow> throw (NoSuchChannelException channel_id)
       | Some c \<Rightarrow> bindM (query E (\<lambda>es. filter (\<lambda>q. rl_place_id q = ch_id c) (all_channel_roles es)))
           (put_place_role E E_channel_role (ch_id c) role user_id))))
     (thenM (sql_update_user_roles_in_cache E user_id)
            (on_cache (rc_reset_users_in_channel_for_role (c_roles E) channel_id role)))"

subsection \<open>The named roles\<close>

definition sql_set_super_user :: "('s, 'c) rdenv \<Rightarrow> string \<Rightarrow> (('s, 'c) rw, unit) op" where
  "sql_set_super_user E user_id = sql_add_global_role E user_id role_super_user"

definition sql_remove_super_user :: "('s, 'c) rdenv \<Rightarrow> string \<Rightarrow> (('s, 'c) rw, unit) op" where
  "sql_remove_super_user E user_id = sql_remove_global_role E user_id role_super_user"

definition sql_is_super_user :: "('s, 'c) rdenv \<Rightarrow> string \<Rightarrow> (('s, 'c) rw, bool) op" where
  "sql_is_super_user E user_id = sql_has_global_role E user_id role_super_user"

definition sql_is_moderator :: "('s, 'c) rdenv \<Rightarrow> string \<Rightarrow> string \<Rightarrow> (('s, 'c) rw, bool) op" where
  "sql_is_moderator E room_id user_id = sql_room_has_role_for_user E role_moderator room_id user_id"

definition sql_is_global_moderator :: "('s, 'c) rdenv \<Rightarrow> string \<Rightarrow> (('s, 'c) rw, bool) op" where
  "sql_is_global_moderator E user_id = sql_has_global_role E user_id role_global_moderator"

definition sql_is_admin :: "('s, 'c) rdenv \<Rightarrow> string \<Rightarrow> string \<Rightarrow> (('s, 'c) rw, bool) op" where
  "sql_is_admin E channel_id user_id = sql_channel_has_role_for_user E role_admin channel_id user_id"

definition sql_is_owner :: "('s, 'c) rdenv \<Rightarrow> string \<Rightarrow> string \<Rightarrow> (('s, 'c) rw, bool) op" where
  "sql_is_owner E room_id user_id = sql_room_has_role_for_user E role_owner room_id user_id"

definition sql_is_owner_channel :: "('s, 'c) rdenv \<Rightarrow> string \<Rightarrow> string \<Rightarrow> (('s, 'c) rw, bool) op" where
  "sql_is_owner_channel E channel_id user_id = sql_channel_has_role_for_user E role_owner channel_id user_id"

definition sql_set_admin :: "('s, 'c) rdenv \<Rightarrow> string \<Rightarrow> string \<Rightarrow> (('s, 'c) rw, unit) op" where
  "sql_set_admin E channel_id user_id = sql_set_role_on_channel_for_user E role_admin channel_id user_id"

definition sql_set_moderator :: "('s, 'c) rdenv \<Rightarrow> string \<Rightarrow> string \<Rightarrow> (('s, 'c) rw, unit) op" where
  "sql_set_moderator E room_id user_id = sql_set_role_on_room_for_user E role_moderator room_id user_id"

definition sql_set_global_moderator :: "('s, 'c) rdenv \<Rightarrow> string \<Rightarrow> (('s, 'c) rw, unit) op" where
  "sql_set_global_moderator E user_id = sql_add_global_role E user_id role_global_moderator"

definition sql_set_owner :: "('s, 'c) rdenv \<Rightarrow> string \<Rightarrow> string \<Rightarrow> (('s, 'c) rw, unit) op" where
  "sql_set_owner E room_id user_id = sql_set_role_on_room_for_user E role_owner room_id user_id"

definition sql_set_owner_channel :: "('s, 'c) rdenv \<Rightarrow> string \<Rightarrow> string \<Rightarrow> (('s, 'c) rw, unit) op" where
  "sql_set_owner_channel E channel_id user_id = sql_set_role_on_channel_for_user E role_owner channel_id user_id"

definition sql_remove_admin :: "('s, 'c) rdenv \<Rightarrow> string \<Rightarrow> string \<Rightarrow> (('s, 'c) rw, unit) op" where
  "sql_remove_admin E channel_id user_id = sql_remove_role_on_channel_for_user E role_admin channel_id user_id"

definition sql_remove_owner_channel :: "('s, 'c) rdenv \<Rightarrow> string \<Rightarrow> string \<Rightarrow> (('s, 'c) rw, unit) op" where
  "sql_remove_owner_channel E channel_id user_id = sql_remove_role_on_channel_for_user E role_owner channel_id user_id"

definition sql_remove_moderator :: "('s, 'c) rdenv \<Rightarrow> string \<Rightarrow> string \<Rightarrow> (('s, 'c) rw, unit) op" where
  "sql_remove_moderator E room_id user_id = sql_remove_role_on_room_for_user E role_moderator room_id user_id"

definition sql_remove_global_moderator :: "('s, 'c) rdenv \<Rightarrow> string \<Rightarrow> (('s, 'c) rw, unit) op" where
  "sql_remove_global_moderator E user_id = sql_remove_global_role E user_id role_global_moderator"

definition sql_remove_owner :: "('s, 'c) rdenv \<Rightarrow> string \<Rightarrow> string \<Rightarrow> (('s, 'c) rw, unit) op" where
  "sql_remove_owner E room_id user_id = sql_remove_role_on_room_for_user E role_owner room_id user_id"

subsection \<open>The users of a role\<close>

definition sql_get_super_users :: "('s, 'c) rdenv \<Rightarrow> (('s, 'c) rw, dict) op" where
  "sql_get_super_users E = with_session E
     (bindM (query E (\<lambda>es. filter (\<lambda>g. like (''%'' @ role_super_user @ ''%'') (gr_roles g)) (all_global_roles es))) (\<lambda>roles.
      foldM (\<lambda>users g. bindM (sql_get_user_name E (gr_user_id g) False) (\<lambda>n.
        ret (AList.update (gr_user_id g) n users))) [] roles))"

definition sql_users_with_role :: "('s, 'c) rdenv \<Rightarrow> role_row list \<Rightarrow> string \<Rightarrow> (('s, 'c) rw, dict) op" where
  "sql_users_with_role E roles role_key =
     foldM (\<lambda>found r.
       if role_key \<notin> set (split_on (CHR '','') (rl_roles r)) then ret found
       else catchM (bindM (sql_get_user_name E (rl_user_id r) False) (\<lambda>n. ret (AList.update (rl_user_id r) n found)))
              (\<lambda>e. case e of NoSuchUserException _ \<Rightarrow> Some (ret found) | _ \<Rightarrow> None)) [] roles"

definition sql_users_with_role_in_channel :: "('s, 'c) rdenv \<Rightarrow> string \<Rightarrow> string \<Rightarrow> (('s, 'c) rw, dict) op" where
  "sql_users_with_role_in_channel E channel_id role_key =
     or_else (on_cache (rc_get_users_in_channel_for_role (c_roles E) channel_id role_key))
     (bindM (with_session E (query E (\<lambda>es.
        [r. r \<leftarrow> all_channel_roles es, c \<leftarrow> all_channels es, ch_id c = rl_place_id r \<and> ch_uuid c = channel_id]))) (\<lambda>rows.
      bindM (sql_users_with_role E rows role_key) (\<lambda>roles.
      thenM (on_cache (rc_set_users_in_channel_for_role (c_roles E) channel_id role_key roles)) (ret roles))))"

definition sql_users_with_role_in_room :: "('s, 'c) rdenv \<Rightarrow> string \<Rightarrow> string \<Rightarrow> (('s, 'c) rw, dict) op" where
  "sql_users_with_role_in_room E room_id role_key =
     or_else (on_cache (rc_get_users_in_room_for_role (c_roles E) room_id role_key))
     (bindM (with_session E (query E (\<lambda>es.
        [r. r \<leftarrow> all_room_roles es, q \<leftarrow> all_rooms es, ro_id q = rl_place_id r \<and> ro_uuid q = room_id]))) (\<lambda>rows.
      bindM (sql_users_with_role E rows role_key) (\<lambda>roles.
      thenM (on_cache (rc_set_users_in_room_for_role (c_roles E) room_id role_key roles)) (ret roles))))"

definition sql_get_owners_channel :: "('s, 'c) rdenv \<Rightarrow> string \<Rightarrow> (('s, 'c) rw, dict) op" where
  "sql_get_owners_channel E channel_id = sql_users_with_role_in_channel E channel_id role_owner"

definition sql_get_admins_channel :: "('s, 'c) rdenv \<Rightarrow> string \<Rightarrow> (('s, 'c) rw, dict) op" where
  "sql_get_admins_channel E channel_id = sql_users_with_role_in_channel E channel_id role_admin"

definition sql_get_owners_room :: "('s, 'c) rdenv \<Rightarrow> string \<Rightarrow> (('s, 'c) rw, dict) op" where
  "sql_get_owners_room E room_id = sql_users_with_role_in_room E room_id role_owner"

definition sql_get_moderators_room :: "('s, 'c) rdenv \<Rightarrow> string \<Rightarrow> (('s, 'c) rw, dict) op" where
  "sql_get_moderators_room E room_id = sql_users_with_role_in_room E room_id role_moderator"

definition sql_get_room_owners :: "('s, 'c) rdenv \<Rightarrow> string \<Rightarrow> (('s, 'c) rw, string list) op" where
  "sql_get_room_owners E room_id =
     or_else (on_cache (rc_get_room_owners (c_roles E) room_id))
     (bindM (with_session E (query E (\<lambda>es. rv_order E (remdups
        [rl_user_id r. r \<leftarrow> all_room_roles es, q \<leftarrow> all_rooms es, ro_id q = rl_place_id r \<and> ro_uuid q = room_id \<and>
           like (''%'' @ role_owner @ ''%'') (rl_roles r)])))) (\<lambda>owners.
      thenM (on_cache (rc_set_room_owners (c_roles E) room_id owners)) (ret owners)))"

text \<open>The numbers of the statuses in the column, and the admins that are online in one of them.\<close>

definition sql_get_online_admins :: "('s, 'c) rdenv \<Rightarrow> (('s, 'c) rw, string list) op" where
  "sql_get_online_admins E = with_session E
     (bindM (query E (\<lambda>es. map gr_user_id (filter (\<lambda>g.
        ilike (''%'' @ role_super_user @ ''%'') (gr_roles g) \<or>
        ilike (''%'' @ role_global_moderator @ ''%'') (gr_roles g)) (all_global_roles es)))) (\<lambda>admin_ids.
      if admin_ids = [] then ret []
      else query E (\<lambda>es. map ut_uuid (filter (\<lambda>t.
        Some (ut_status t) \<in> set (map py_int [status_invisible, status_available, status_away, status_chat]) \<and>
        ut_uuid t \<in> set admin_ids) (all_user_status es)))))"

end
