(* ===== verification/Role_Store.thy ===== *)
theory Role_Store
  imports Db_Role_Facts
begin

section \<open>Roles in rooms: one contract, two databases\<close>

text \<open>
  The contract of a store of roles of users in rooms (\<open>room_role_store\<close>): giving a role, taking it
  away and asking for it act on a set of triples of room, user and role. Whatever sequence of
  changes is carried out, a question is answered by the last change of that role. The Redis database meets the contract, here, and so does
  the relational one, in the theory \<open>Rdb_Role_Facts\<close>.
\<close>

subsection \<open>The contract\<close>

definition room_role_names :: "string set" where
  "room_role_names = {role_owner, role_moderator}"

locale room_role_store =
  fixes ok :: "'w \<Rightarrow> bool" and known :: "'w \<Rightarrow> string \<Rightarrow> bool"
    and holds :: "'w \<Rightarrow> string \<Rightarrow> string \<Rightarrow> string \<Rightarrow> bool"
    and grant revoke :: "string \<Rightarrow> string \<Rightarrow> string \<Rightarrow> ('w, unit) op"
    and ask :: "string \<Rightarrow> string \<Rightarrow> string \<Rightarrow> ('w, bool) op"
  assumes ask: "ok w \<Longrightarrow> role \<in> room_role_names \<Longrightarrow> \<exists>w'. ask role x u w = (Inr (holds w x u role), w') \<and> ok w' \<and>
      holds w' = holds w \<and> known w' = known w"
    and grant: "ok w \<Longrightarrow> role \<in> room_role_names \<Longrightarrow> known w x \<Longrightarrow> \<exists>w'. grant role x u w = (Inr (), w') \<and> ok w' \<and>
      known w' = known w \<and> (\<forall>y v r. r \<in> room_role_names \<longrightarrow>
        holds w' y v r = (holds w y v r \<or> (y = x \<and> v = u \<and> r = role)))"
    and revoke: "ok w \<Longrightarrow> role \<in> room_role_names \<Longrightarrow> known w x \<Longrightarrow> \<exists>w'. revoke role x u w = (Inr (), w') \<and> ok w' \<and>
      known w' = known w \<and> (\<forall>y v r. r \<in> room_role_names \<longrightarrow>
        holds w' y v r = (holds w y v r \<and> \<not> (y = x \<and> v = u \<and> r = role)))"

text \<open>A change, and what it does to a set of triples.\<close>

datatype role_change = Grant string string string | Revoke string string string

fun changed_room :: "role_change \<Rightarrow> string" where
  "changed_room (Grant role x u) = x"
| "changed_room (Revoke role x u) = x"

fun changed_role :: "role_change \<Rightarrow> string" where
  "changed_role (Grant role x u) = role"
| "changed_role (Revoke role x u) = role"

fun after_change :: "(string \<Rightarrow> string \<Rightarrow> string \<Rightarrow> bool) \<Rightarrow> role_change \<Rightarrow> string \<Rightarrow> string \<Rightarrow> string \<Rightarrow> bool" where
  "after_change h (Grant role x u) = (\<lambda>y v r. h y v r \<or> (y = x \<and> v = u \<and> r = role))"
| "after_change h (Revoke role x u) = (\<lambda>y v r. h y v r \<and> \<not> (y = x \<and> v = u \<and> r = role))"

fun run_change :: "(string \<Rightarrow> string \<Rightarrow> string \<Rightarrow> ('w, unit) op) \<Rightarrow> (string \<Rightarrow> string \<Rightarrow> string \<Rightarrow> ('w, unit) op) \<Rightarrow>
    role_change \<Rightarrow> ('w, unit) op" where
  "run_change g v (Grant role x u) = g role x u"
| "run_change g v (Revoke role x u) = v role x u"

definition valid_change :: "(string \<Rightarrow> bool) \<Rightarrow> role_change \<Rightarrow> bool" where
  "valid_change k c \<longleftrightarrow> changed_role c \<in> room_role_names \<and> k (changed_room c)"

definition same_on_names :: "(string \<Rightarrow> string \<Rightarrow> string \<Rightarrow> bool) \<Rightarrow> (string \<Rightarrow> string \<Rightarrow> string \<Rightarrow> bool) \<Rightarrow> bool" where
  "same_on_names h h' \<longleftrightarrow> (\<forall>y v. \<forall>r \<in> room_role_names. h y v r = h' y v r)"

lemma after_change_same: "same_on_names h h' \<Longrightarrow> same_on_names (after_change h c) (after_change h' c)"
  by (cases c) (auto simp: same_on_names_def)

context room_role_store begin

lemma change_run:
  assumes "ok w" "valid_change (known w) c"
  shows "\<exists>w'. run_change grant revoke c w = (Inr (), w') \<and> ok w' \<and> known w' = known w \<and>
    same_on_names (holds w') (after_change (holds w) c)"
proof (cases c)
  case (Grant role x u)
  with grant [OF assms(1), of role x u] assms(2) show ?thesis by (auto simp: valid_change_def same_on_names_def)
next
  case (Revoke role x u)
  with revoke [OF assms(1), of role x u] assms(2) show ?thesis by (auto simp: valid_change_def same_on_names_def)
qed

lemma changes_run:
  assumes "ok w" "list_all (valid_change (known w)) cs" "same_on_names (holds w) h"
  shows "\<exists>w'. iterM (run_change grant revoke) cs w = (Inr (), w') \<and> ok w' \<and> known w' = known w \<and>
    same_on_names (holds w') (fold (\<lambda>c h. after_change h c) cs h)"
  using assms
proof (induction cs arbitrary: w h)
  case Nil
  then show ?case by (simp add: op_simps)
next
  case (Cons c cs)
  from Cons.prems(1,2) obtain w1 where w1: "run_change grant revoke c w = (Inr (), w1)" "ok w1" "known w1 = known w"
    "same_on_names (holds w1) (after_change (holds w) c)"
    using change_run [of w c] by auto
  have "same_on_names (holds w1) (after_change h c)"
    using w1(4) after_change_same [OF Cons.prems(3), of c] by (simp add: same_on_names_def)
  then show ?case using Cons.IH [of w1 "after_change h c"] w1 Cons.prems(2) by (simp add: bindM_def)
qed

text \<open>Asking after any sequence of changes.\<close>

lemma asked_after_changes:
  assumes "ok w" "list_all (valid_change (known w)) cs" "role \<in> room_role_names"
  shows "\<exists>w'. thenM (iterM (run_change grant revoke) cs) (ask role x u) w =
    (Inr (fold (\<lambda>c h. after_change h c) cs (holds w) x u role), w')"
proof -
  obtain w1 where w1: "iterM (run_change grant revoke) cs w = (Inr (), w1)" "ok w1"
    "same_on_names (holds w1) (fold (\<lambda>c h. after_change h c) cs (holds w))"
    using changes_run [OF assms(1,2), of "holds w"] by (auto simp: same_on_names_def)
  obtain w2 where "ask role x u w1 = (Inr (holds w1 x u role), w2)" using ask [OF w1(2) assms(3)] by blast
  then show ?thesis using w1 assms(3) by (auto simp: thenM_def bindM_def same_on_names_def)
qed

end

subsection \<open>The Redis database\<close>

lemma room_role_names_are_names: "role \<in> room_role_names \<Longrightarrow> role_name role"
  by (auto simp: room_role_names_def)

context db_env begin

lemma room_names_kept:
  "v_room_name (dv E w) x \<noteq> None \<Longrightarrow> v_room_name (dv E (snd (dr_add_room_role E role x u w))) = v_room_name (dv E w)"
  "v_room_name (dv E (snd (dr_remove_room_role E role x u w))) = v_room_name (dv E w)"
  by (auto simp: dr_add_room_role_def dr_remove_room_role_def op_simps db_views db_reads split: option.splits)

lemma redis_role_store:
  "room_role_store (\<lambda>_. True) (\<lambda>w x. v_room_name (dv E w) x \<noteq> None) (\<lambda>w. room_role (dv E w))
     (dr_add_room_role E) (dr_remove_room_role E) (\<lambda>role x u. dr_has_role_in_room E role x (Some u))"
proof
  fix w role x u
  assume r: "role \<in> room_role_names" and k: "v_room_name (dv E w) x \<noteq> None"
  obtain w' where w': "dr_add_room_role E role x u w = (Inr (), w')" "\<forall>y v r. role_name r \<longrightarrow>
      room_role (dv E w') y v r = (room_role (dv E w) y v r \<or> (y = x \<and> v = u \<and> r = role))"
    using set_room_role_spec [OF k room_role_names_are_names [OF r], of u] by blast
  moreover have "v_room_name (dv E w') = v_room_name (dv E w)"
    using room_names_kept(1) [OF k, where role = role and u = u] w'(1) by simp
  ultimately show "\<exists>w'. dr_add_room_role E role x u w = (Inr (), w') \<and> True \<and>
      (\<lambda>x. v_room_name (dv E w') x \<noteq> None) = (\<lambda>x. v_room_name (dv E w) x \<noteq> None) \<and>
      (\<forall>y v r. r \<in> room_role_names \<longrightarrow>
        room_role (dv E w') y v r = (room_role (dv E w) y v r \<or> (y = x \<and> v = u \<and> r = role)))"
    using room_role_names_are_names by auto
next
  fix w role x u
  assume r: "role \<in> room_role_names"
  obtain w' where w': "dr_remove_room_role E role x u w = (Inr (), w')" "\<forall>y v r. role_name r \<longrightarrow>
      room_role (dv E w') y v r = (room_role (dv E w) y v r \<and> \<not> (y = x \<and> v = u \<and> r = role))"
    using remove_room_role_spec [OF room_role_names_are_names [OF r], of x u w] by blast
  moreover have "v_room_name (dv E w') = v_room_name (dv E w)"
    using room_names_kept(2) [where role = role and x = x and u = u and w = w] w'(1) by simp
  ultimately show "\<exists>w'. dr_remove_room_role E role x u w = (Inr (), w') \<and> True \<and>
      (\<lambda>x. v_room_name (dv E w') x \<noteq> None) = (\<lambda>x. v_room_name (dv E w) x \<noteq> None) \<and>
      (\<forall>y v r. r \<in> room_role_names \<longrightarrow>
        room_role (dv E w') y v r = (room_role (dv E w) y v r \<and> \<not> (y = x \<and> v = u \<and> r = role)))"
    using room_role_names_are_names by auto
qed (simp add: op_simps)

end

interpretation memory_role_store: room_role_store "\<lambda>_. True" "\<lambda>w x. v_room_name (dv memory_denv w) x \<noteq> None"
    "\<lambda>w. room_role (dv memory_denv w)" "dr_add_room_role memory_denv" "dr_remove_room_role memory_denv"
    "\<lambda>role x u. dr_has_role_in_room memory_denv role x (Some u)"
  by (rule memory_db.redis_role_store)

end
