(* ===== verification/Rdb_Role_Facts.thy ===== *)
theory Rdb_Role_Facts
  imports Rdb_Facts Rdb_Roles Role_Store
begin

section \<open>Roles in rooms in the relational database\<close>

text \<open>
  The relational database meets the contract of a store of roles. The rows have to be well formed
  (\<open>roles_ok\<close>): the ids and keys of rooms are unique, a row of roles belongs to a room, a user has at most one row for a room, and its
  text consists of roles that are no part of each other, so that the test for a substring, which
  the code does, is the test for a role. The cache may hold the roles of a user if they are those of
  the rows.
\<close>

subsection \<open>Texts of roles\<close>

abbreviation role_words :: "string \<Rightarrow> string set" where
  "role_words t \<equiv> set (split_on (CHR '','') t)"

definition plain_roles :: "string \<Rightarrow> bool" where
  "plain_roles t \<longleftrightarrow> (\<forall>x \<in> role_words t. \<forall>r \<in> room_role_names. contains r x \<longrightarrow> x = r)"

lemma contains_in_part:
  assumes "contains p s" "c \<notin> set p" "p \<noteq> []"
  shows "\<exists>x \<in> set (split_on c s). contains p x"
  using assms(1)
proof (induction s)
  case Nil
  with assms(3) show ?case by simp
next
  case (Cons a s)
  obtain y ys where s: "split_on c s = y # ys" by (cases "split_on c s") auto
  have pre: "prefix q s \<Longrightarrow> c \<notin> set q \<Longrightarrow> prefix q y" for q
    using s
  proof (induction q arbitrary: s y ys)
    case (Cons b q)
    then obtain s' where s': "s = b # s'" by (cases s) auto
    obtain z zs where z: "split_on c s' = z # zs" by (cases "split_on c s'") auto
    then show ?case using Cons.IH [of s' z zs] Cons.prems s' by (auto simp: split_on.simps)
  qed simp
  show ?case
  proof (cases "prefix p (a # s)")
    case True
    then obtain p' where p: "p = a # p'" "prefix p' s" using assms(3) by (cases p) auto
    with assms(2) pre s show ?thesis by (auto simp: split_on.simps)
  next
    case False
    with Cons.prems Cons.IH obtain x where "x \<in> set (split_on c s)" "contains p x" by auto
    with s show ?thesis by (cases "x = y") (auto simp: split_on.simps)
  qed
qed

lemma part_contained: "x \<in> set (split_on c s) \<Longrightarrow> contains x s"
proof -
  assume "x \<in> set (split_on c s)"
  moreover have "x \<in> set xs \<Longrightarrow> sublist x (join_on c xs)" for xs
    by (induction c xs rule: join_on.induct) (auto simp: sublist_append sublist_Cons_right)
  ultimately show ?thesis using join_on_split_on [of c s] by (metis contains_iff_sublist)
qed

lemma contains_plain:
  assumes "plain_roles t" "role \<in> room_role_names"
  shows "contains role t \<longleftrightarrow> role \<in> role_words t"
proof -
  have "role_name role" by (rule room_role_names_are_names [OF assms(2)])
  then show ?thesis
    using contains_in_part [of role t "CHR '',''"] part_contained [of role "CHR '',''" t] assms
    by (auto simp: plain_roles_def role_name_def)
qed

lemma plain_role: "role \<in> room_role_names \<Longrightarrow> plain_roles role"
  "role \<in> room_role_names \<Longrightarrow> role_words role = {role}"
  by (auto simp: plain_roles_def room_role_names_def role_owner_def role_moderator_def split_on_no_sep)

lemma plain_parts:
  assumes "role_words t' \<subseteq> insert role (role_words t)" "plain_roles t" "role \<in> room_role_names"
  shows "plain_roles t'"
  unfolding plain_roles_def
proof (intro ballI impI)
  fix x r assume x: "x \<in> role_words t'" and r: "r \<in> room_role_names" and c: "contains r x"
  from x assms(1) consider "x = role" | "x \<in> role_words t" by blast
  then show "x = r"
  proof cases
    case 1
    with plain_role [OF assms(3)] r c show ?thesis unfolding plain_roles_def by blast
  next
    case 2
    with assms(2) r c show ?thesis unfolding plain_roles_def by blast
  qed
qed

lemma words_join:
  assumes "\<forall>x \<in> set xs. CHR '','' \<notin> set x" "xs \<noteq> []"
  shows "role_words (join_on (CHR '','') xs) = set xs"
  using assms by (simp add: split_on_join_on)

lemma words_added:
  assumes "role \<in> room_role_names" "\<And>xs. set (order xs) = set xs"
  shows "role_words (add_role_text order role (Some t)) = insert role (role_words t)"
proof -
  let ?xs = "order (List.insert role (remdups (split_on (CHR '','') t)))"
  have s: "set ?xs = insert role (role_words t)" by (simp add: assms(2))
  then have "?xs \<noteq> []" by auto
  moreover have "\<forall>x \<in> set ?xs. CHR '','' \<notin> set x"
    using room_role_names_are_names [OF assms(1)] parts_no_comma unfolding s by (auto simp: role_name_def)
  ultimately show ?thesis unfolding add_role_text_def using words_join s by simp
qed

lemma words_removed:
  assumes "\<And>xs. set (order xs) = set xs" "remove1 role (remdups (split_on (CHR '','') t)) \<noteq> []"
  shows "role_words (join_on (CHR '','') (order (remove1 role (remdups (split_on (CHR '','') t))))) = role_words t - {role}"
proof -
  let ?xs = "order (remove1 role (remdups (split_on (CHR '','') t)))"
  have s: "set ?xs = role_words t - {role}" by (simp add: assms(1))
  then have "?xs \<noteq> []" using assms by (metis set_empty)
  moreover have "\<forall>x \<in> set ?xs. CHR '','' \<notin> set x" using parts_no_comma unfolding s by auto
  ultimately show ?thesis using words_join s by simp
qed

subsection \<open>Rows of roles\<close>

definition roles_ok :: "db_row set \<Rightarrow> bool" where
  "roles_ok D \<longleftrightarrow>
     (\<forall>r q. E_room r \<in> D \<and> E_room q \<in> D \<and> (ro_uuid r = ro_uuid q \<or> ro_id r = ro_id q) \<longrightarrow> r = q) \<and>
     (\<forall>a b. E_room_role a \<in> D \<and> E_room_role b \<in> D \<and> rl_place_id a = rl_place_id b \<and> rl_user_id a = rl_user_id b \<longrightarrow> a = b) \<and>
     (\<forall>a. E_room_role a \<in> D \<longrightarrow> plain_roles (rl_roles a)) \<and>
     (\<forall>a. E_room_role a \<in> D \<longrightarrow> (\<exists>r. E_room r \<in> D \<and> ro_id r = rl_place_id a))"

definition holds_room :: "db_row set \<Rightarrow> string \<Rightarrow> string \<Rightarrow> string \<Rightarrow> bool" where
  "holds_room D x u role \<longleftrightarrow> (\<exists>r q. E_room r \<in> D \<and> ro_uuid r = x \<and> E_room_role q \<in> D \<and> rl_place_id q = ro_id r \<and>
     rl_user_id q = u \<and> role \<in> role_words (rl_roles q))"

definition has_room :: "db_row set \<Rightarrow> string \<Rightarrow> bool" where
  "has_room D x \<longleftrightarrow> (\<exists>r. E_room r \<in> D \<and> ro_uuid r = x)"

definition same_rooms :: "db_row set \<Rightarrow> db_row set \<Rightarrow> bool" where
  "same_rooms D D' \<longleftrightarrow> (\<forall>r. E_room r \<in> D' \<longleftrightarrow> E_room r \<in> D)"

lemma roles_okD:
  assumes "roles_ok D"
  shows "E_room r \<in> D \<Longrightarrow> E_room q \<in> D \<Longrightarrow> ro_uuid r = ro_uuid q \<Longrightarrow> r = q"
    and "E_room r \<in> D \<Longrightarrow> E_room q \<in> D \<Longrightarrow> ro_id r = ro_id q \<Longrightarrow> r = q"
    and "E_room_role a \<in> D \<Longrightarrow> E_room_role b \<in> D \<Longrightarrow> rl_place_id a = rl_place_id b \<Longrightarrow> rl_user_id a = rl_user_id b \<Longrightarrow> a = b"
    and "E_room_role a \<in> D \<Longrightarrow> plain_roles (rl_roles a)"
    and "E_room_role a \<in> D \<Longrightarrow> \<exists>r. E_room r \<in> D \<and> ro_id r = rl_place_id a"
  using assms unfolding roles_ok_def by blast+

lemma roles_okI:
  assumes "\<And>r q. E_room r \<in> D \<Longrightarrow> E_room q \<in> D \<Longrightarrow> ro_uuid r = ro_uuid q \<Longrightarrow> r = q"
    and "\<And>r q. E_room r \<in> D \<Longrightarrow> E_room q \<in> D \<Longrightarrow> ro_id r = ro_id q \<Longrightarrow> r = q"
    and "\<And>a b. E_room_role a \<in> D \<Longrightarrow> E_room_role b \<in> D \<Longrightarrow> rl_place_id a = rl_place_id b \<Longrightarrow> rl_user_id a = rl_user_id b \<Longrightarrow> a = b"
    and "\<And>a. E_room_role a \<in> D \<Longrightarrow> plain_roles (rl_roles a)"
    and "\<And>a. E_room_role a \<in> D \<Longrightarrow> \<exists>r. E_room r \<in> D \<and> ro_id r = rl_place_id a"
  shows "roles_ok D"
  using assms unfolding roles_ok_def by blast

lemma holds_in_row:
  assumes "roles_ok D" "E_room r \<in> D" "E_room_role q \<in> D" "rl_place_id q = ro_id r"
  shows "holds_room D (ro_uuid r) (rl_user_id q) role \<longleftrightarrow> role \<in> role_words (rl_roles q)"
  using assms roles_okD [OF assms(1)] unfolding holds_room_def by metis

lemma holds_without_row:
  assumes "roles_ok D" "E_room r \<in> D" "\<And>q. E_room_role q \<in> D \<Longrightarrow> rl_place_id q = ro_id r \<Longrightarrow> rl_user_id q \<noteq> u"
  shows "\<not> holds_room D (ro_uuid r) u role"
  using assms roles_okD [OF assms(1)] unfolding holds_room_def by metis

lemma holds_elsewhere:
  assumes "roles_ok D" "E_room r \<in> D" "\<not> (y = ro_uuid r \<and> v = u)"
    and "\<And>p. E_room p \<in> D' \<longleftrightarrow> E_room p \<in> D"
    and other: "\<And>q. \<not> (rl_place_id q = ro_id r \<and> rl_user_id q = u) \<Longrightarrow> E_room_role q \<in> D' \<longleftrightarrow> E_room_role q \<in> D"
  shows "holds_room D' y v role = holds_room D y v role"
proof -
  have "E_room_role q \<in> D' \<longleftrightarrow> E_room_role q \<in> D"
    if "E_room p \<in> D" "ro_uuid p = y" "rl_place_id q = ro_id p" "rl_user_id q = v" for p q
  proof (rule other)
    show "\<not> (rl_place_id q = ro_id r \<and> rl_user_id q = u)"
      using that roles_okD(2) [OF assms(1) that(1) assms(2)] assms(3) by auto
  qed
  then show ?thesis unfolding holds_room_def assms(4) by blast
qed

lemma found_room:
  assumes "has_room (set es) x"
  shows "\<exists>r. room_by_uuid es x = Some r \<and> E_room r \<in> set es \<and> ro_uuid r = x"
proof (cases "room_by_uuid es x")
  case None
  with assms show ?thesis by (auto simp: room_by_uuid_def has_room_def find_none)
next
  case (Some r)
  then show ?thesis by (auto simp: room_by_uuid_def dest: find_in_rows)
qed

text \<open>The effects of the three ways to write a row: one more, another text, one less.\<close>

lemma row_inserted:
  assumes "roles_ok D" "E_room r \<in> D" "plain_roles (rl_roles a)" "rl_place_id a = ro_id r" "rl_user_id a = u"
    and none: "\<And>q. E_room_role q \<in> D \<Longrightarrow> rl_place_id q = ro_id r \<Longrightarrow> rl_user_id q \<noteq> u"
    and D': "D' = insert (E_room_role a) D"
  shows "roles_ok D' \<and> same_rooms D D' \<and> (\<forall>y v role. holds_room D' y v role =
    (if y = ro_uuid r \<and> v = u then role \<in> role_words (rl_roles a) else holds_room D y v role))"
proof -
  have rows: "E_room_role q \<in> D' \<longleftrightarrow> q = a \<or> E_room_role q \<in> D" "E_room p \<in> D' \<longleftrightarrow> E_room p \<in> D" for q p
    by (auto simp: D')
  have ok: "roles_ok D'"
    by (rule roles_okI; unfold rows) (use roles_okD [OF assms(1)] none assms(2-5) in metis)+
  have "holds_room D' y v role = (if y = ro_uuid r \<and> v = u then role \<in> role_words (rl_roles a) else holds_room D y v role)" for y v role
  proof (cases "y = ro_uuid r \<and> v = u")
    case True
    with holds_in_row [OF ok, of r a role] rows assms(2,4,5) show ?thesis by simp
  next
    case False
    with holds_elsewhere [OF assms(1,2), of y v u D' role] rows assms(4,5) show ?thesis by auto
  qed
  with ok rows show ?thesis by (simp add: same_rooms_def)
qed

lemma row_removed:
  assumes "roles_ok D" "E_room r \<in> D" "E_room_role q \<in> D" "rl_place_id q = ro_id r" "rl_user_id q = u"
    and D': "D' = D - {E_room_role q}"
  shows "roles_ok D' \<and> same_rooms D D' \<and> (\<forall>y v role. holds_room D' y v role =
    (if y = ro_uuid r \<and> v = u then False else holds_room D y v role)) \<and>
    (\<forall>a. E_room_role a \<in> D' \<longrightarrow> rl_place_id a = ro_id r \<longrightarrow> rl_user_id a \<noteq> u)"
proof -
  have rows: "E_room_role a \<in> D' \<longleftrightarrow> a \<noteq> q \<and> E_room_role a \<in> D" "E_room p \<in> D' \<longleftrightarrow> E_room p \<in> D" for a p
    by (auto simp: D')
  have ok: "roles_ok D'"
    unfolding roles_ok_def rows using roles_okD [OF assms(1)] by blast
  have none: "E_room_role a \<in> D' \<Longrightarrow> rl_place_id a = ro_id r \<Longrightarrow> rl_user_id a \<noteq> u" for a
    unfolding rows using roles_okD(3) [OF assms(1), of a q] assms(3-5) by metis
  have "holds_room D' y v role = (if y = ro_uuid r \<and> v = u then False else holds_room D y v role)" for y v role
  proof (cases "y = ro_uuid r \<and> v = u")
    case True
    with holds_without_row [OF ok, of r u role] none rows assms(2) show ?thesis by metis
  next
    case False
    with holds_elsewhere [OF assms(1,2), of y v u D' role] rows assms(4,5) show ?thesis by auto
  qed
  with ok rows none show ?thesis by (simp add: same_rooms_def)
qed

lemma row_replaced:
  assumes "roles_ok D" "E_room r \<in> D" "E_room_role q \<in> D" "rl_place_id q = ro_id r" "rl_user_id q = u" "plain_roles t"
    and D': "D' = insert (E_room_role (q\<lparr>rl_roles := t\<rparr>)) (D - {E_room_role q})"
  shows "roles_ok D' \<and> same_rooms D D' \<and> (\<forall>y v role. holds_room D' y v role =
    (if y = ro_uuid r \<and> v = u then role \<in> role_words t else holds_room D y v role))"
proof -
  let ?D = "D - {E_room_role q}"
  have a: "roles_ok ?D" "same_rooms D ?D" and h: "\<And>y v role. holds_room ?D y v role =
    (if y = ro_uuid r \<and> v = u then False else holds_room D y v role)" and n: "\<And>a. E_room_role a \<in> ?D \<Longrightarrow>
      rl_place_id a = ro_id r \<Longrightarrow> rl_user_id a \<noteq> u"
    using row_removed [OF assms(1-5) refl] by blast+
  have "E_room r \<in> ?D" using assms(2) by simp
  from row_inserted [OF a(1) this, of "q\<lparr>rl_roles := t\<rparr>" u D'] n assms(4-6) D'
  have D: "roles_ok D'" "same_rooms ?D D'" and h': "\<And>y v role. holds_room D' y v role =
    (if y = ro_uuid r \<and> v = u then role \<in> role_words t else holds_room ?D y v role)" by simp_all
  have "holds_room D' y v role = (if y = ro_uuid r \<and> v = u then role \<in> role_words t else holds_room D y v role)" for y v role
    using h [of y v role] h' [of y v role] by presburger
  with D a(2) show ?thesis by (simp add: same_rooms_def)
qed

subsection \<open>The cached roles\<close>

lemma map_of_format_places:
  "map_of (fold (\<lambda>(place, r) out. AList.update place (role_list (rl_roles r)) out) rows acc) x =
    (case find (\<lambda>(place, _). place = x) (rev rows) of None \<Rightarrow> map_of acc x | Some (_, r) \<Rightarrow> Some (role_list (rl_roles r)))"
proof (induction rows rule: rev_induct)
  case (snoc row rows)
  then show ?case by (cases row) (simp add: AList.update_conv')
qed simp

lemma keys_format_places:
  "fst ` set (fold (\<lambda>(place, r) out. AList.update place (role_list (rl_roles r)) out) rows acc) =
    fst ` set rows \<union> fst ` set acc"
  by (induction rows arbitrary: acc) (auto simp: dom_update split: prod.splits)

lemma in_role_list: "role \<in> room_role_names \<Longrightarrow> role \<in> set (role_list s) \<longleftrightarrow> role \<in> role_words s"
  using room_role_names_are_names by (auto simp: role_list_def role_name_def)

lemma in_room_roles_of:
  "(x, q) \<in> set (room_roles_of es u) \<longleftrightarrow>
    (\<exists>r. E_room r \<in> set es \<and> ro_uuid r = x \<and> E_room_role q \<in> set es \<and> rl_user_id q = u \<and> ro_id r = rl_place_id q)"
  by (auto simp: room_roles_of_def)

lemma role_at_stored:
  assumes "roles_ok (set es)" "role \<in> room_role_names"
  shows "role_at role x (ur_room (stored_roles es u)) \<longleftrightarrow> holds_room (set es) x u role"
proof (cases "find (\<lambda>(place, _). place = x) (rev (room_roles_of es u))")
  case None
  then have "(x, q) \<notin> set (room_roles_of es u)" for q by (auto simp: find_none)
  then have "\<not> holds_room (set es) x u role" by (auto simp: in_room_roles_of holds_room_def) metis
  with None show ?thesis
    by (simp add: role_at_def stored_roles_def format_user_roles_def format_places_def map_of_format_places)
next
  case (Some xq)
  then obtain q where q: "xq = (x, q)" "(x, q) \<in> set (room_roles_of es u)" by (cases xq) (auto dest!: find_in_rows)
  then obtain r where r: "E_room r \<in> set es" "ro_uuid r = x" "E_room_role q \<in> set es" "rl_user_id q = u"
    "rl_place_id q = ro_id r" by (auto simp: in_room_roles_of)
  have "role_at role x (ur_room (stored_roles es u)) \<longleftrightarrow> role \<in> role_words (rl_roles q)"
    using Some q(1) in_role_list [OF assms(2)]
    by (simp add: role_at_def stored_roles_def format_user_roles_def format_places_def map_of_format_places)
  with holds_in_row [OF assms(1) r(1,3,5)] r show ?thesis by simp
qed

text \<open>Roles that may be cached for a user, and names of rooms.\<close>

definition cacheable :: "db_row set \<Rightarrow> string \<Rightarrow> user_roles \<Rightarrow> bool" where
  "cacheable D u out \<longleftrightarrow>
     (\<forall>x. \<forall>role \<in> room_role_names. role_at role x (ur_room out) = holds_room D x u role) \<and>
     (\<forall>x \<in> set (map fst (ur_room out)). has_room D x)"

definition names_rooms :: "db_row set \<Rightarrow> (string \<Rightarrow> string option) \<Rightarrow> bool" where
  "names_rooms D nm \<longleftrightarrow> (\<forall>r. E_room r \<in> D \<longrightarrow> nm (ro_uuid r) = Some (ro_name r))"

lemma cacheable_stored: "roles_ok (set es) \<Longrightarrow> cacheable (set es) u (stored_roles es u)"
  unfolding cacheable_def
proof (intro conjI ballI)
  fix x assume "x \<in> set (map fst (ur_room (stored_roles es u)))"
  then have "x \<in> fst ` set (room_roles_of es u)"
    by (simp add: stored_roles_def format_user_roles_def format_places_def keys_format_places)
  then show "has_room (set es) x" by (auto simp: in_room_roles_of has_room_def)
qed (simp add: role_at_stored)

lemma cacheable_cong:
  assumes "same_rooms D D'" "\<And>x role. role \<in> room_role_names \<Longrightarrow> holds_room D' x u role = holds_room D x u role"
  shows "cacheable D' u = cacheable D u"
  using assms by (auto simp: cacheable_def has_room_def same_rooms_def fun_eq_iff)

text \<open>What a change of roles leads to.\<close>

definition role_effect :: "db_row set \<Rightarrow> db_row set \<Rightarrow> (string \<Rightarrow> string \<Rightarrow> string \<Rightarrow> bool) \<Rightarrow> bool" where
  "role_effect D D' h \<longleftrightarrow> roles_ok D' \<and> same_rooms D D' \<and>
     (\<forall>y v. \<forall>role \<in> room_role_names. holds_room D' y v role = h y v role)"

lemma no_effect: "roles_ok D \<Longrightarrow> (\<And>y v role. role \<in> room_role_names \<Longrightarrow> h y v role = holds_room D y v role) \<Longrightarrow> role_effect D D h"
  by (simp add: role_effect_def same_rooms_def)

lemma with_id_room_role [simp]: "with_id k (E_room_role q) = E_room_role (q\<lparr>rl_id := k\<rparr>)"
  "clashes (E_room_role q) e = False" "after_delete (E_room_role q) e = Some e" "needs e (E_room_role q) = False"
  by (simp_all add: clashes_def after_delete_def needs_def split: db_row.split)

subsection \<open>The operations\<close>

locale rdb_roles = rdb_session E T + role_cache "rv_cache E" agrees
  for E :: "('s, 'c) rdenv" and T agrees +
  assumes order: "set (rv_order E xs) = set xs"
begin

text \<open>Between two methods: the rows \<open>D\<close> are committed, and the cache goes with \<open>R\<close> and \<open>nm\<close>.\<close>

definition at_rows :: "db_row set \<Rightarrow> (string \<Rightarrow> user_roles \<Rightarrow> bool) \<Rightarrow> (string \<Rightarrow> string option) \<Rightarrow> ('s, 'c) rw \<Rightarrow> bool" where
  "at_rows D R nm w \<longleftrightarrow> clean w \<and> stored w = D \<and> agrees (rw_cache w) R nm"

definition roles_world :: "('s, 'c) rw \<Rightarrow> bool" where
  "roles_world w \<longleftrightarrow> roles_ok (stored w) \<and>
     (\<exists>nm. names_rooms (stored w) nm \<and> at_rows (stored w) (cacheable (stored w)) nm w)"

lemma at_rows_cache: "at_rows D R nm w \<Longrightarrow> agrees c R' nm' \<Longrightarrow> at_rows D R' nm' (w\<lparr>rw_cache := c\<rparr>)"
  by (simp add: at_rows_def)

lemma session_at_rows:
  assumes "at_rows D R nm w" "m w = (Inr a, w1)" "stored w1 = D'" "rw_cache w1 = rw_cache w"
  shows "\<exists>w'. with_session E m w = (Inr a, w') \<and> at_rows D' R nm w'"
proof -
  obtain w' where "with_session E m w = (Inr a, w')" "clean w'" "stored w' = stored w1" "rw_cache w' = rw_cache w1"
    using session_ok [of m w a w1, OF assms(2)] by blast
  with assms show ?thesis by (auto simp: at_rows_def)
qed

lemma rows_at: "at_rows D R nm w \<Longrightarrow> seen w = D"
  by (simp add: at_rows_def clean_def)

lemma room_name_run:
  assumes "at_rows D R nm w" "names_rooms D nm" "has_room D x"
  shows "\<exists>n w'. sql_get_room_name E x w = (Inr n, w') \<and> at_rows D R nm w'"
proof -
  obtain v c where v: "nc_get_room_name (c_names E) x (rw_cache w) = (Inr v, c)" "agrees c R nm"
    using get_room_name [of "rw_cache w" R nm x] assms(1) by (auto simp: at_rows_def)
  have get: "on_cache (nc_get_room_name (c_names E) x) w = (Inr v, w\<lparr>rw_cache := c\<rparr>)"
    using v(1) by (rule on_cache_run)
  have w1: "at_rows D R nm (w\<lparr>rw_cache := c\<rparr>)" using at_rows_cache [OF assms(1) v(2)] .
  show ?thesis
  proof (cases v)
    case (Some n)
    with get w1 show ?thesis by (simp add: sql_get_room_name_def or_else_def bindM_def op_simps)
  next
    case None
    let ?w = "w\<lparr>rw_cache := c\<rparr>"
    let ?es = "sq_rows (rv_sql E) (rw_sql ?w)"
    have es: "set ?es = D" using w1 by (rule rows_at)
    then obtain r where r: "room_by_uuid ?es x = Some r" "E_room r \<in> D" "ro_uuid r = x"
      using found_room assms(3) by metis
    let ?m = "bindM (query E (\<lambda>es. room_by_uuid es x)) (\<lambda>room.
        case room of None \<Rightarrow> throw (NoSuchRoomException x) | Some r \<Rightarrow> ret (ro_name r))"
    have m: "?m ?w = (Inr (ro_name r), ?w)" using r(1) by (simp add: session_simps op_simps)
    obtain w2 where w2: "with_session E ?m ?w = (Inr (ro_name r), w2)" and at2: "at_rows D R nm w2"
      using session_at_rows [where m = ?m, OF w1 m] w1 by (auto simp: at_rows_def)
    have "nm x = Some (ro_name r)" using assms(2) r(2,3) by (auto simp: names_rooms_def)
    then obtain c2 where c2: "nc_set_room_name (c_names E) x (ro_name r) (rw_cache w2) = (Inr (), c2)" "agrees c2 R nm"
      using set_room_name [of "rw_cache w2" R nm x "ro_name r"] at2 by (auto simp: at_rows_def)
    have "on_cache (nc_set_room_name (c_names E) x (ro_name r)) w2 = (Inr (), w2\<lparr>rw_cache := c2\<rparr>)"
      using c2(1) by (rule on_cache_run)
    then have "sql_get_room_name E x w = (Inr (ro_name r), w2\<lparr>rw_cache := c2\<rparr>)"
      using get w2 None by (simp add: sql_get_room_name_def or_else_def bindM_def thenM_def op_simps)
    with at_rows_cache [OF at2 c2(2)] show ?thesis by blast
  qed
qed

lemma rooms_known_run:
  assumes "at_rows D R nm w" "names_rooms D nm" "\<forall>x \<in> set xs. has_room D x"
  shows "\<exists>w'. rooms_known E xs w = (Inr True, w') \<and> at_rows D R nm w'"
  using assms(1,3)
proof (induction xs arbitrary: w)
  case Nil
  then show ?case by (simp add: op_simps)
next
  case (Cons x xs)
  then obtain n w1 where "sql_get_room_name E x w = (Inr n, w1)" "at_rows D R nm w1"
    using room_name_run [OF _ assms(2), of R w x] by auto
  with Cons.IH [of w1] Cons.prems show ?case by (simp add: bindM_def thenM_def catchM_def op_simps)
qed

lemma load_roles_run:
  assumes "at_rows D R nm w" "roles_ok D" "\<And>out. cacheable D u out \<Longrightarrow> R u out"
  shows "\<exists>out w'. sql_load_user_roles E u w = (Inr out, w') \<and> cacheable D u out \<and> at_rows D R nm w'"
proof -
  let ?m = "query E (\<lambda>es. stored_roles es u)"
  let ?out = "stored_roles (sq_rows (rv_sql E) (rw_sql w)) u"
  have m: "?m w = (Inr ?out, w)" by (rule query_run)
  obtain w1 where w1: "with_session E ?m w = (Inr ?out, w1)" and at1: "at_rows D R nm w1"
    using session_at_rows [where m = ?m, OF assms(1) m] assms(1) by (auto simp: at_rows_def)
  have a: "cacheable D u ?out" using cacheable_stored rows_at [OF assms(1)] assms(2) by metis
  obtain c where c: "rc_set_user_roles (c_roles E) u ?out (rw_cache w1) = (Inr (), c)" "agrees c R nm"
    using set_user_roles [of "rw_cache w1" R nm u ?out] at1 assms(3) [OF a] by (auto simp: at_rows_def)
  have "on_cache (rc_set_user_roles (c_roles E) u ?out) w1 = (Inr (), w1\<lparr>rw_cache := c\<rparr>)"
    using c(1) by (rule on_cache_run)
  then have "sql_load_user_roles E u w = (Inr ?out, w1\<lparr>rw_cache := c\<rparr>)"
    using w1 by (simp add: sql_load_user_roles_def bindM_def thenM_def op_simps)
  with a at_rows_cache [OF at1 c(2)] show ?thesis by blast
qed

lemma get_roles_run:
  assumes "at_rows D (cacheable D) nm w" "roles_ok D" "names_rooms D nm"
  shows "\<exists>out w'. sql_get_user_roles E u False w = (Inr out, w') \<and> cacheable D u out \<and> at_rows D (cacheable D) nm w'"
proof -
  obtain v c where v: "rc_get_user_roles (c_roles E) u (rw_cache w) = (Inr v, c)"
    "v = None \<or> (\<exists>out. v = Some out \<and> cacheable D u out)" "agrees c (cacheable D) nm"
    using get_user_roles [of "rw_cache w" "cacheable D" nm u] assms(1) by (auto simp: at_rows_def)
  let ?w = "w\<lparr>rw_cache := c\<rparr>"
  have get: "on_cache (rc_get_user_roles (c_roles E) u) w = (Inr v, ?w)" using v(1) by (rule on_cache_run)
  have w1: "at_rows D (cacheable D) nm ?w" using at_rows_cache [OF assms(1) v(3)] .
  show ?thesis
  proof (cases v)
    case None
    with get load_roles_run [OF w1 assms(2)] show ?thesis by (simp add: sql_get_user_roles_def bindM_def)
  next
    case (Some out)
    with v(2) have a: "cacheable D u out" by simp
    then have "\<forall>x \<in> set (map fst (ur_room out)). has_room D x" by (simp add: cacheable_def)
    from rooms_known_run [OF w1 assms(3) this] obtain w2 where
      "rooms_known E (map fst (ur_room out)) ?w = (Inr True, w2)" "at_rows D (cacheable D) nm w2" by blast
    with get Some a show ?thesis by (simp add: sql_get_user_roles_def bindM_def op_simps)
  qed
qed

text \<open>After a change of the rows of a user, the cache goes with the new rows.\<close>

lemma update_cache_run:
  assumes "at_rows D' (cacheable D) nm w" "role_effect D D' h"
    and "\<And>y v role. v \<noteq> u \<Longrightarrow> role \<in> room_role_names \<Longrightarrow> h y v role = holds_room D y v role"
  shows "\<exists>w'. sql_update_user_roles_in_cache E u w = (Inr (), w') \<and> at_rows D' (cacheable D') nm w'"
proof -
  obtain c where c: "rc_reset_user_roles (c_roles E) u (rw_cache w) = (Inr (), c)"
    "\<And>P. agrees c ((cacheable D)(u := P)) nm"
    using reset_user_roles [of "rw_cache w" "cacheable D" nm u] assms(1) by (auto simp: at_rows_def)
  have "cacheable D' v = cacheable D v" if "v \<noteq> u" for v
    using cacheable_cong [of D D' v] assms(2) assms(3) [OF that] by (simp add: role_effect_def)
  then have "(cacheable D)(u := cacheable D' u) = cacheable D'" by auto
  then have "agrees c (cacheable D') nm" using c(2) [of "cacheable D' u"] by simp
  then have w1: "at_rows D' (cacheable D') nm (w\<lparr>rw_cache := c\<rparr>)" by (rule at_rows_cache [OF assms(1)])
  have "on_cache (rc_reset_user_roles (c_roles E) u) w = (Inr (), w\<lparr>rw_cache := c\<rparr>)" using c(1) by (rule on_cache_run)
  moreover obtain out w2 where "sql_load_user_roles E u (w\<lparr>rw_cache := c\<rparr>) = (Inr out, w2)"
    "at_rows D' (cacheable D') nm w2"
    using load_roles_run [OF w1, of u] assms(2) by (auto simp: role_effect_def)
  ultimately show ?thesis by (simp add: sql_update_user_roles_in_cache_def sql_get_user_roles_def bindM_def thenM_def op_simps)
qed

text \<open>The two ways to change the rows of a place.\<close>

lemma put_row_run:
  assumes D: "seen w = D" "stored w = D" "roles_ok D" and r: "E_room r \<in> D" and role: "role \<in> room_role_names"
    and rows: "\<And>q. q \<in> set rows \<longleftrightarrow> E_room_role q \<in> D \<and> rl_place_id q = ro_id r"
  shows "\<exists>w'. put_place_role E E_room_role (ro_id r) role u rows w = (Inr (), w') \<and> rw_cache w' = rw_cache w \<and>
    role_effect D (stored w') (\<lambda>y v a. holds_room D y v a \<or> (y = ro_uuid r \<and> v = u \<and> a = role))"
proof -
  let ?own = "filter (\<lambda>q. rl_user_id q = u) rows"
  have own: "q \<in> set ?own \<longleftrightarrow> E_room_role q \<in> D \<and> rl_place_id q = ro_id r \<and> rl_user_id q = u" for q
    using rows by auto
  have has: "contains role (rl_roles q) \<longleftrightarrow> holds_room D (ro_uuid r) u role" if "q \<in> set ?own" for q
    using holds_in_row [OF D(3) r, of q role] contains_plain [OF _ role] roles_okD(4) [OF D(3)] that own by metis
  show ?thesis
  proof (cases "?own = []")
    case True
    then have none: "E_room_role q \<in> D \<Longrightarrow> rl_place_id q = ro_id r \<Longrightarrow> rl_user_id q \<noteq> u" for q
      using own [of q] by auto
    let ?a = "\<lparr>rl_id = 0, rl_place_id = ro_id r, rl_user_id = u, rl_roles = role\<rparr>"
    obtain k w1 where w1: "thenM (s_add E (E_room_role ?a)) (s_commit E) w = (Inr (), w1)"
      "stored w1 = insert (with_id k (E_room_role ?a)) (seen w)" "rw_cache w1 = rw_cache w"
      using added_in_session [of w "E_room_role ?a"] by auto
    have "put_place_role E E_room_role (ro_id r) role u rows w = (Inr (), w1)"
      using w1(1) True by (simp add: put_place_role_def)
    moreover have "role_effect D (stored w1) (\<lambda>y v a. holds_room D y v a \<or> (y = ro_uuid r \<and> v = u \<and> a = role))"
      using row_inserted [OF D(3) r, of "?a\<lparr>rl_id := k\<rparr>" u "stored w1"] none w1(2) D(1) plain_role [OF role]
        holds_without_row [OF D(3) r, of u] by (auto simp: role_effect_def)
    ultimately show ?thesis using w1(3) by blast
  next
    case False
    then have last: "last ?own \<in> set ?own" by (rule last_in_set)
    let ?q = "last ?own"
    have q: "E_room_role ?q \<in> D" "rl_place_id ?q = ro_id r" "rl_user_id ?q = u" using last own by blast+
    have ex: "list_ex (\<lambda>q. contains role (rl_roles q)) ?own \<longleftrightarrow> holds_room D (ro_uuid r) u role"
      using has last by (auto simp: list_ex_iff)
    show ?thesis
    proof (cases "holds_room D (ro_uuid r) u role")
      case True
      with ex have "put_place_role E E_room_role (ro_id r) role u rows w = (Inr (), w)"
        by (simp add: put_place_role_def op_simps)
      moreover have "role_effect D (stored w) (\<lambda>y v a. holds_room D y v a \<or> (y = ro_uuid r \<and> v = u \<and> a = role))"
        unfolding D(2) using True by (intro no_effect [OF D(3)]) auto
      ultimately show ?thesis by blast
    next
      case new: False
      let ?t = "add_role_text (rv_order E) role (Some (rl_roles ?q))"
      have t: "role_words ?t = insert role (role_words (rl_roles ?q))" by (rule words_added [OF role order])
      obtain w1 where w1: "thenM (s_save E (E_room_role ?q) (E_room_role (?q\<lparr>rl_roles := ?t\<rparr>))) (s_commit E) w = (Inr (), w1)"
        "stored w1 = insert (E_room_role (?q\<lparr>rl_roles := ?t\<rparr>)) (seen w - {E_room_role ?q})" "rw_cache w1 = rw_cache w"
        using saved_in_session [of "E_room_role ?q" w] q(1) D(1) by blast
      have put: "put_place_role E E_room_role (ro_id r) role u rows w = (Inr (), w1)"
        using w1(1) new ex False by (simp add: put_place_role_def Let_def)
      have "plain_roles ?t" using plain_parts [OF _ roles_okD(4) [OF D(3) q(1)] role, of ?t] t by blast
      from row_replaced [OF D(3) r q this, of "stored w1"] w1(2) D(1)
      have "roles_ok (stored w1)" "same_rooms D (stored w1)" and h: "\<And>y v a. holds_room (stored w1) y v a =
          (if y = ro_uuid r \<and> v = u then a \<in> role_words ?t else holds_room D y v a)" by simp_all
      moreover have "holds_room (stored w1) y v a = (holds_room D y v a \<or> (y = ro_uuid r \<and> v = u \<and> a = role))" for y v a
        unfolding h t using holds_in_row [OF D(3) r q(1,2), of a] q(3) by auto
      ultimately show ?thesis using put w1(3) by (auto simp: role_effect_def)
    qed
  qed
qed

lemma drop_row_run:
  assumes D: "seen w = D" "stored w = D" "roles_ok D" and r: "E_room r \<in> D" and role: "role \<in> room_role_names"
    and rows: "\<And>q. q \<in> set rows \<longleftrightarrow> E_room_role q \<in> D \<and> rl_place_id q = ro_id r"
  shows "\<exists>w'. drop_place_role E E_room_role role u rows w = (Inr (), w') \<and> rw_cache w' = rw_cache w \<and>
    role_effect D (stored w') (\<lambda>y v a. holds_room D y v a \<and> \<not> (y = ro_uuid r \<and> v = u \<and> a = role))"
proof (cases "find (\<lambda>q. rl_user_id q = u \<and> contains role (rl_roles q)) rows")
  case None
  have "\<not> holds_room D (ro_uuid r) u role"
  proof (cases "\<exists>q. E_room_role q \<in> D \<and> rl_place_id q = ro_id r \<and> rl_user_id q = u")
    case True
    then obtain q where q: "E_room_role q \<in> D" "rl_place_id q = ro_id r" "rl_user_id q = u" by blast
    with None rows have "\<not> contains role (rl_roles q)" by (auto simp: find_none)
    with holds_in_row [OF D(3) r q(1,2), of role] q(3) contains_plain [OF roles_okD(4) [OF D(3) q(1)] role]
    show ?thesis by simp
  qed (use holds_without_row [OF D(3) r] in blast)
  then have "role_effect D (stored w) (\<lambda>y v a. holds_room D y v a \<and> \<not> (y = ro_uuid r \<and> v = u \<and> a = role))"
    unfolding D(2) by (intro no_effect [OF D(3)]) auto
  moreover have "drop_place_role E E_room_role role u rows w = (Inr (), w)"
    using None by (simp add: drop_place_role_def op_simps)
  ultimately show ?thesis by blast
next
  case (Some q)
  then have q: "E_room_role q \<in> D" "rl_place_id q = ro_id r" "rl_user_id q = u" and c: "contains role (rl_roles q)"
    using rows by (auto dest!: find_in_rows)
  then have has: "role \<in> role_words (rl_roles q)" using contains_plain [OF roles_okD(4) [OF D(3) q(1)] role] by blast
  let ?left = "remove1 role (remdups (split_on (CHR '','') (rl_roles q)))"
  have left: "set ?left = role_words (rl_roles q) - {role}" by simp
  have here: "holds_room D (ro_uuid r) u a \<longleftrightarrow> a \<in> role_words (rl_roles q)" for a
    using holds_in_row [OF D(3) r q(1,2), of a] q(3) by simp
  show ?thesis
  proof (cases "?left = []")
    case True
    obtain w1 where w1: "thenM (s_delete E (E_room_role q)) (s_commit E) w = (Inr (), w1)"
      "stored w1 = seen w - {E_room_role q}" "rw_cache w1 = rw_cache w"
      using deleted_in_session [of "E_room_role q" w] q(1) D(1) by auto
    have "drop_place_role E E_room_role role u rows w = (Inr (), w1)"
      using w1(1) Some has True by (simp add: drop_place_role_def Let_def)
    moreover from row_removed [OF D(3) r q, of "stored w1"] w1(2) D(1)
    have "roles_ok (stored w1)" "same_rooms D (stored w1)" and h: "\<And>y v a. holds_room (stored w1) y v a =
        (if y = ro_uuid r \<and> v = u then False else holds_room D y v a)" by simp_all
    moreover have "holds_room (stored w1) y v a = (holds_room D y v a \<and> \<not> (y = ro_uuid r \<and> v = u \<and> a = role))" for y v a
      unfolding h using here left True by auto
    ultimately show ?thesis using w1(3) by (auto simp: role_effect_def)
  next
    case False
    let ?t = "join_on (CHR '','') (rv_order E ?left)"
    have t: "role_words ?t = role_words (rl_roles q) - {role}" by (rule words_removed [OF order False])
    obtain w1 where w1: "thenM (s_save E (E_room_role q) (E_room_role (q\<lparr>rl_roles := ?t\<rparr>))) (s_commit E) w = (Inr (), w1)"
      "stored w1 = insert (E_room_role (q\<lparr>rl_roles := ?t\<rparr>)) (seen w - {E_room_role q})" "rw_cache w1 = rw_cache w"
      using saved_in_session [of "E_room_role q" w] q(1) D(1) by blast
    have drop: "drop_place_role E E_room_role role u rows w = (Inr (), w1)"
      using w1(1) Some has False by (simp add: drop_place_role_def Let_def)
    have "plain_roles ?t" using plain_parts [OF _ roles_okD(4) [OF D(3) q(1)] role, of ?t] t by blast
    from row_replaced [OF D(3) r q this, of "stored w1"] w1(2) D(1)
    have "roles_ok (stored w1)" "same_rooms D (stored w1)" and h: "\<And>y v a. holds_room (stored w1) y v a =
        (if y = ro_uuid r \<and> v = u then a \<in> role_words ?t else holds_room D y v a)" by simp_all
    moreover have "holds_room (stored w1) y v a = (holds_room D y v a \<and> \<not> (y = ro_uuid r \<and> v = u \<and> a = role))" for y v a
      unfolding h t using here by auto
    ultimately show ?thesis using drop w1(3) by (auto simp: role_effect_def)
  qed
qed

text \<open>A whole change: the rows in a session, then the cache.\<close>

abbreviation in_room_rows :: "string \<Rightarrow> (room_row \<Rightarrow> role_row list \<Rightarrow> (('s, 'c) rw, unit) op) \<Rightarrow> (('s, 'c) rw, unit) op" where
  "in_room_rows x B \<equiv> bindM (query E (\<lambda>es. room_by_uuid es x)) (\<lambda>room.
     case room of
       None \<Rightarrow> throw (NoSuchRoomException x)
     | Some r \<Rightarrow> bindM (query E (\<lambda>es. filter (\<lambda>q. rl_place_id q = ro_id r) (all_room_roles es))) (B r))"

lemma change_in_session:
  assumes w: "at_rows D R nm w" "has_room D x"
    and step: "\<And>r rows. E_room r \<in> D \<Longrightarrow> ro_uuid r = x \<Longrightarrow>
      (\<And>q. q \<in> set rows \<longleftrightarrow> E_room_role q \<in> D \<and> rl_place_id q = ro_id r) \<Longrightarrow>
      \<exists>w'. B r rows w = (Inr (), w') \<and> rw_cache w' = rw_cache w \<and> role_effect D (stored w') h"
  shows "\<exists>w' D'. with_session E (in_room_rows x B) w = (Inr (), w') \<and> at_rows D' R nm w' \<and> role_effect D D' h"
proof -
  let ?es = "sq_rows (rv_sql E) (rw_sql w)"
  have es: "set ?es = D" by (rule rows_at [OF w(1)])
  then obtain r where r: "room_by_uuid ?es x = Some r" "E_room r \<in> D" "ro_uuid r = x"
    using found_room w(2) by metis
  let ?rows = "filter (\<lambda>q. rl_place_id q = ro_id r) (all_room_roles ?es)"
  obtain w1 where w1: "B r ?rows w = (Inr (), w1)" "rw_cache w1 = rw_cache w" "role_effect D (stored w1) h"
    using step [OF r(2,3), of ?rows] es by auto
  have m: "in_room_rows x B w = (Inr (), w1)" using r(1) w1(1) by (simp add: session_simps)
  obtain w2 where "with_session E (in_room_rows x B) w = (Inr (), w2)" "at_rows (stored w1) R nm w2"
    using session_at_rows [where m = "in_room_rows x B", OF w(1) m refl w1(2)] by blast
  with w1(3) show ?thesis by blast
qed

lemma rows_cleanD: "at_rows D R nm w \<Longrightarrow> seen w = D" "at_rows D R nm w \<Longrightarrow> stored w = D"
  by (auto simp: at_rows_def clean_def)

lemma names_kept: "role_effect D D' h \<Longrightarrow> names_rooms D nm \<Longrightarrow> names_rooms D' nm"
  by (auto simp: role_effect_def same_rooms_def names_rooms_def)

lemma roles_worldI: "at_rows D (cacheable D) nm w \<Longrightarrow> roles_ok D \<Longrightarrow> names_rooms D nm \<Longrightarrow> roles_world w"
  using rows_cleanD(2) unfolding roles_world_def by blast

lemma set_room_role_run:
  assumes w: "at_rows D (cacheable D) nm w" "roles_ok D" "names_rooms D nm" "has_room D x" "role \<in> room_role_names"
  shows "\<exists>w' D'. sql_set_role_on_room_for_user E role x u w = (Inr (), w') \<and> at_rows D' (cacheable D') nm w' \<and>
    role_effect D D' (\<lambda>y v a. holds_room D y v a \<or> (y = x \<and> v = u \<and> a = role))"
proof -
  let ?h = "\<lambda>y v a. holds_room D y v a \<or> (y = x \<and> v = u \<and> a = role)"
  obtain w1 D' where w1: "with_session E (in_room_rows x (\<lambda>r. put_place_role E E_room_role (ro_id r) role u)) w = (Inr (), w1)"
    "at_rows D' (cacheable D) nm w1" "role_effect D D' ?h"
    using change_in_session [OF w(1,4), of "\<lambda>r. put_place_role E E_room_role (ro_id r) role u" ?h]
      put_row_run [OF rows_cleanD [OF w(1)] w(2) _ w(5)] by blast
  obtain w2 where w2: "sql_update_user_roles_in_cache E u w1 = (Inr (), w2)" "at_rows D' (cacheable D') nm w2"
    using update_cache_run [OF w1(2,3), of u] by auto
  obtain c where c: "rc_reset_users_in_room_for_role (c_roles E) x role (rw_cache w2) = (Inr (), c)"
    "agrees c (cacheable D') nm"
    using reset_users_for_role(1) [of "rw_cache w2" "cacheable D'" nm x role] w2(2) by (auto simp: at_rows_def)
  have "on_cache (rc_reset_users_in_room_for_role (c_roles E) x role) w2 = (Inr (), w2\<lparr>rw_cache := c\<rparr>)"
    using c(1) by (rule on_cache_run)
  then have "sql_set_role_on_room_for_user E role x u w = (Inr (), w2\<lparr>rw_cache := c\<rparr>)"
    using w1(1) w2(1) by (simp add: sql_set_role_on_room_for_user_def bindM_def [of "with_session E m" for m]
        bindM_def [of "sql_update_user_roles_in_cache E u"] thenM_def)
  with at_rows_cache [OF w2(2) c(2)] w1(3) show ?thesis by blast
qed

lemma remove_room_role_run:
  assumes w: "at_rows D (cacheable D) nm w" "roles_ok D" "names_rooms D nm" "has_room D x" "role \<in> room_role_names"
  shows "\<exists>w' D'. sql_remove_role_on_room_for_user E role x u w = (Inr (), w') \<and> at_rows D' (cacheable D') nm w' \<and>
    role_effect D D' (\<lambda>y v a. holds_room D y v a \<and> \<not> (y = x \<and> v = u \<and> a = role))"
proof -
  let ?h = "\<lambda>y v a. holds_room D y v a \<and> \<not> (y = x \<and> v = u \<and> a = role)"
  obtain w1 D' where w1: "with_session E (in_room_rows x (\<lambda>r. drop_place_role E E_room_role role u)) w = (Inr (), w1)"
    "at_rows D' (cacheable D) nm w1" "role_effect D D' ?h"
    using change_in_session [OF w(1,4), of "\<lambda>r. drop_place_role E E_room_role role u" ?h]
      drop_row_run [OF rows_cleanD [OF w(1)] w(2) _ w(5)] by blast
  obtain w2 where w2: "sql_update_user_roles_in_cache E u w1 = (Inr (), w2)" "at_rows D' (cacheable D') nm w2"
    using update_cache_run [OF w1(2,3), of u] by auto
  have "sql_remove_role_on_room_for_user E role x u w = (Inr (), w2)"
    using w1(1) w2(1) by (simp add: sql_remove_role_on_room_for_user_def bindM_def [of "with_session E m" for m] thenM_def)
  with w2(2) w1(3) show ?thesis by blast
qed

lemma has_room_kept: "role_effect D D' h \<Longrightarrow> has_room D' = has_room D"
  by (auto simp: role_effect_def same_rooms_def has_room_def fun_eq_iff)

lemma sql_role_store:
  "room_role_store roles_world (\<lambda>w. has_room (stored w)) (\<lambda>w. holds_room (stored w))
     (sql_set_role_on_room_for_user E) (sql_remove_role_on_room_for_user E) (sql_room_has_role_for_user E)"
proof
  fix w role x u
  assume "roles_world w" and role: "role \<in> room_role_names"
  then obtain nm where w: "at_rows (stored w) (cacheable (stored w)) nm w" "roles_ok (stored w)" "names_rooms (stored w) nm"
    by (auto simp: roles_world_def)
  obtain out w1 where w1: "sql_get_user_roles E u False w = (Inr out, w1)" "cacheable (stored w) u out"
    "at_rows (stored w) (cacheable (stored w)) nm w1"
    using get_roles_run [OF w] by blast
  have "sql_room_has_role_for_user E role x u w = (Inr (holds_room (stored w) x u role), w1)"
    using w1(1,2) role by (simp add: sql_room_has_role_for_user_def bindM_def op_simps cacheable_def)
  moreover have "roles_world w1" "stored w1 = stored w"
    using roles_worldI [OF w1(3) w(2,3)] rows_cleanD(2) [OF w1(3)] by blast+
  ultimately show "\<exists>w'. sql_room_has_role_for_user E role x u w = (Inr (holds_room (stored w) x u role), w') \<and> roles_world w' \<and>
      holds_room (stored w') = holds_room (stored w) \<and> has_room (stored w') = has_room (stored w)" by auto
next
  fix w role x u
  assume "roles_world w" and role: "role \<in> room_role_names" and x: "has_room (stored w) x"
  then obtain nm where w: "at_rows (stored w) (cacheable (stored w)) nm w" "roles_ok (stored w)" "names_rooms (stored w) nm"
    by (auto simp: roles_world_def)
  obtain w' D' where w': "sql_set_role_on_room_for_user E role x u w = (Inr (), w')" "at_rows D' (cacheable D') nm w'"
    "role_effect (stored w) D' (\<lambda>y v a. holds_room (stored w) y v a \<or> (y = x \<and> v = u \<and> a = role))"
    using set_room_role_run [OF w x role] by blast
  then have "roles_world w'" using roles_worldI [OF w'(2) _ names_kept [OF w'(3) w(3)]] by (simp add: role_effect_def)
  with w' show "\<exists>w'. sql_set_role_on_room_for_user E role x u w = (Inr (), w') \<and> roles_world w' \<and>
      has_room (stored w') = has_room (stored w) \<and> (\<forall>y v r. r \<in> room_role_names \<longrightarrow>
        holds_room (stored w') y v r = (holds_room (stored w) y v r \<or> (y = x \<and> v = u \<and> r = role)))"
    using has_room_kept [OF w'(3)] rows_cleanD(2) [OF w'(2)] by (auto simp: role_effect_def)
next
  fix w role x u
  assume "roles_world w" and role: "role \<in> room_role_names" and x: "has_room (stored w) x"
  then obtain nm where w: "at_rows (stored w) (cacheable (stored w)) nm w" "roles_ok (stored w)" "names_rooms (stored w) nm"
    by (auto simp: roles_world_def)
  obtain w' D' where w': "sql_remove_role_on_room_for_user E role x u w = (Inr (), w')" "at_rows D' (cacheable D') nm w'"
    "role_effect (stored w) D' (\<lambda>y v a. holds_room (stored w) y v a \<and> \<not> (y = x \<and> v = u \<and> a = role))"
    using remove_room_role_run [OF w x role] by blast
  then have "roles_world w'" using roles_worldI [OF w'(2) _ names_kept [OF w'(3) w(3)]] by (simp add: role_effect_def)
  with w' show "\<exists>w'. sql_remove_role_on_room_for_user E role x u w = (Inr (), w') \<and> roles_world w' \<and>
      has_room (stored w') = has_room (stored w) \<and> (\<forall>y v r. r \<in> room_role_names \<longrightarrow>
        holds_room (stored w') y v r = (holds_room (stored w) y v r \<and> \<not> (y = x \<and> v = u \<and> r = role)))"
    using has_room_kept [OF w'(3)] rows_cleanD(2) [OF w'(2)] by (auto simp: role_effect_def)
qed

end

interpretation memory_rdb_roles: rdb_roles memory_rdenv mem_saved "\<lambda>_ _ _. True"
proof -
  have "rv_cache memory_rdenv = miss_rcache" by (simp add: memory_rdenv_def)
  then have "role_cache (rv_cache memory_rdenv) (\<lambda>_ _ _. True)" using miss_role_cache.role_cache_axioms by simp
  moreover have "rdb_roles_axioms memory_rdenv" by unfold_locales (simp add: memory_rdenv_def)
  ultimately show "rdb_roles memory_rdenv mem_saved (\<lambda>_ _ _. True)"
    using memory_rdb.rdb_session_axioms by (simp add: rdb_roles_def)
qed

interpretation memory_sql_roles: room_role_store memory_rdb_roles.roles_world
    "\<lambda>w. has_room (mem_saved (rw_sql w))" "\<lambda>w. holds_room (mem_saved (rw_sql w))"
    "sql_set_role_on_room_for_user memory_rdenv" "sql_remove_role_on_room_for_user memory_rdenv"
    "sql_room_has_role_for_user memory_rdenv"
  by (rule memory_rdb_roles.sql_role_store)

end
