(* ===== verification/Rdb_Presence.thy ===== *)
theory Rdb_Presence
  imports Rdb_Core Cache_Redis
begin

section \<open>The relational database: statuses and sessions of users\<close>

text \<open>
  Third part of \<open>DatabaseRdbms\<close>: the status of a user, the time of the last visit, and the ids of the
  sockets of a user, as a whole and by room. The column for the status holds a number, and the
  texts that the code writes into it are read back as numbers. \<open>now\<close> is \<open>datetime.utcnow()\<close> in
  microseconds.
\<close>

subsection \<open>Attempts\<close>

text \<open>A second attempt when the first one fails with one of these errors; the second may fail.\<close>

definition stale_or_integrity :: "exc \<Rightarrow> bool" where
  "stale_or_integrity e \<longleftrightarrow> e = StaleDataError \<or> e = IntegrityError"

definition swallow_all :: "('w, unit) op \<Rightarrow> ('w, unit) op" where
  "swallow_all m = catchM m (\<lambda>_. Some (ret ()))"

definition try_twice :: "(exc \<Rightarrow> bool) \<Rightarrow> ('w, unit) op \<Rightarrow> ('w, unit) op" where
  "try_twice again m = catchM m (\<lambda>e. if again e then Some (swallow_all m) else None)"

subsection \<open>Statuses\<close>

definition sql_get_user_status :: "('s, 'c) rdenv \<Rightarrow> string \<Rightarrow> bool \<Rightarrow> (('s, 'c) rw, status_value) op" where
  "sql_get_user_status E user_id skip_cache =
     or_else (if skip_cache then ret None else on_cache (pc_get_user_status (c_presence E) user_id))
     (bindM (with_session E (query E (\<lambda>es.
        case find (\<lambda>t. ut_uuid t = user_id) (all_user_status es) of
          None \<Rightarrow> StText status_unavailable | Some t \<Rightarrow> StNum (ut_status t)))) (\<lambda>status.
      thenM (on_cache (pc_set_user_status (c_presence E) user_id status)) (ret status)))"

text \<open>Writing a status: the text becomes a number.\<close>

definition column_of_status :: "string \<Rightarrow> int" where
  "column_of_status s = (case py_int s of None \<Rightarrow> 0 | Some n \<Rightarrow> n)"

definition put_status :: "('s, 'c) rdenv \<Rightarrow> string \<Rightarrow> string \<Rightarrow> (('s, 'c) rw, unit) op" where
  "put_status E user_id status =
     bindM (query E (\<lambda>es. find (\<lambda>t. ut_uuid t = user_id) (all_user_status es))) (\<lambda>found.
     thenM (case found of
         None \<Rightarrow> thenM (s_add E (E_user_status \<lparr>ut_id = 0, ut_uuid = user_id, ut_status = column_of_status status\<rparr>)) (ret ())
       | Some t \<Rightarrow> s_save E (E_user_status t) (E_user_status (t\<lparr>ut_status := column_of_status status\<rparr>)))
     (s_commit E))"

definition sql_set_user_status_invisible :: "('s, 'c) rdenv \<Rightarrow> string \<Rightarrow> (('s, 'c) rw, unit) op" where
  "sql_set_user_status_invisible E user_id = with_session E (put_status E user_id status_invisible)"

definition sql_set_user_invisible :: "('s, 'c) rdenv \<Rightarrow> string \<Rightarrow> bool \<Rightarrow> (('s, 'c) rw, unit) op" where
  "sql_set_user_invisible E user_id is_offline =
     thenM (if is_offline then on_cache (pc_set_user_status_invisible (c_presence E) user_id)
            else on_cache (pc_set_user_invisible (c_presence E) user_id True))
     (try_twice stale_or_integrity (sql_set_user_status_invisible E user_id))"

subsection \<open>Last visits\<close>

definition sql_get_last_online_since :: "('s, 'c) rdenv \<Rightarrow> int \<Rightarrow> int \<Rightarrow> (('s, 'c) rw, (string \<times> int) list) op" where
  "sql_get_last_online_since E now days = with_session E (query E (\<lambda>es.
     map (\<lambda>l. (lo_uuid l, lo_at l))
       (if days > 0 then filter (\<lambda>l. lo_at l > trunc_seconds (now - days * 86400 * micro)) (all_last_online es)
        else all_last_online es)))"

definition sql_get_last_online :: "('s, 'c) rdenv \<Rightarrow> string \<Rightarrow> (('s, 'c) rw, int option) op" where
  "sql_get_last_online E user_id =
     bindM (on_cache (pc_get_last_online (c_presence E) user_id)) (\<lambda>online_at.
     case online_at of
       Some t \<Rightarrow> bindM (lift_result (int_of_float t)) (\<lambda>n. ret (Some n))
     | None \<Rightarrow> bindM (with_session E (query E (\<lambda>es.
         map_option lo_at (find (\<lambda>l. lo_uuid l = user_id) (all_last_online es))))) (\<lambda>at.
         thenM (case at of None \<Rightarrow> ret () | Some n \<Rightarrow> on_cache (pc_set_last_online (c_presence E) [(user_id, n)]))
               (ret at)))"

definition sql_set_last_online :: "('s, 'c) rdenv \<Rightarrow> int \<Rightarrow> string \<Rightarrow> (('s, 'c) rw, int) op" where
  "sql_set_last_online E now user_id = with_session E
     (let unix_time = trunc_seconds now
      in bindM (query E (\<lambda>es. find (\<lambda>l. lo_uuid l = user_id) (all_last_online es))) (\<lambda>found.
         thenM (case found of
             None \<Rightarrow> thenM (s_add E (E_last_online \<lparr>lo_id = 0, lo_uuid = user_id, lo_at = unix_time\<rparr>)) (ret ())
           | Some l \<Rightarrow> s_save E (E_last_online l) (E_last_online (l\<lparr>lo_at := unix_time\<rparr>)))
         (thenM (s_commit E) (ret unix_time))))"

definition sql_delete_status :: "('s, 'c) rdenv \<Rightarrow> string \<Rightarrow> (('s, 'c) rw, unit) op" where
  "sql_delete_status E user_id = with_session E
     (bindM (query E (\<lambda>es. find (\<lambda>t. ut_uuid t = user_id) (all_user_status es))) (\<lambda>status.
      case status of None \<Rightarrow> ret ()
      | Some t \<Rightarrow> thenM (s_delete E (E_user_status t)) (s_commit E)))"

definition sql_set_user_offline :: "('s, 'c) rdenv \<Rightarrow> int \<Rightarrow> string \<Rightarrow> (('s, 'c) rw, unit) op" where
  "sql_set_user_offline E now user_id =
     thenM (on_cache (pc_set_user_offline (c_presence E) user_id))
     (thenM (swallow_all (thenM (sql_set_last_online E now user_id) (ret ())))
            (try_twice stale_or_integrity (sql_delete_status E user_id)))"

definition sql_set_user_online :: "('s, 'c) rdenv \<Rightarrow> int \<Rightarrow> string \<Rightarrow> bool \<Rightarrow> (('s, 'c) rw, unit) op" where
  "sql_set_user_online E now user_id update_last_online =
     thenM (on_cache (pc_set_user_online (c_presence E) user_id))
     (thenM (whenM update_last_online (swallow_all
         (bindM (sql_set_last_online E now user_id) (\<lambda>unix_time.
          on_cache (pc_set_last_online (c_presence E) [(user_id, unix_time)])))))
       (try_twice stale_or_integrity (with_session E (put_status E user_id status_available))))"

subsection \<open>Sockets in rooms\<close>

definition sql_get_rooms_with_sid :: "('s, 'c) rdenv \<Rightarrow> string \<Rightarrow> (('s, 'c) rw, dict) op" where
  "sql_get_rooms_with_sid E user_id = with_session E (query E (\<lambda>es.
     fold (\<lambda>r d. AList.update (rs_session_id r) (rs_room_id r) d)
       (filter (\<lambda>r. rs_user_id r = user_id) (all_room_sids es)) []))"

definition sql_sids_for_user_in_room :: "('s, 'c) rdenv \<Rightarrow> string \<Rightarrow> string \<Rightarrow> (('s, 'c) rw, string list) op" where
  "sql_sids_for_user_in_room E user_id room_id = with_session E (query E (\<lambda>es.
     remdups (map rs_session_id (filter (\<lambda>r. rs_room_id r = room_id \<and> rs_user_id r = user_id) (all_room_sids es)))))"

text \<open>At most \<open>n\<close> in_attempts, whatever goes wrong.\<close>

fun in_attempts :: "nat \<Rightarrow> ('w, unit) op \<Rightarrow> ('w, unit) op" where
  "in_attempts 0 m = ret ()"
| "in_attempts (Suc n) m = catchM m (\<lambda>_. Some (in_attempts n m))"

definition sql_remove_sid_for_user_in_room ::
  "('s, 'c) rdenv \<Rightarrow> string \<Rightarrow> string option \<Rightarrow> string option \<Rightarrow> (('s, 'c) rw, unit) op" where
  "sql_remove_sid_for_user_in_room E user_id room_id sid_to_remove =
     thenM (in_attempts 3 (with_session E
       (bindM (query E (\<lambda>es. filter (\<lambda>r. rs_user_id r = user_id \<and> (room_id = None \<or> room_id = Some (rs_room_id r)))
          (all_room_sids es))) (\<lambda>sids.
        thenM (iterM (\<lambda>r. if sid_to_remove = None \<or> sid_to_remove = Some (rs_session_id r)
                          then s_delete E (E_room_sid r) else ret ()) sids)
              (s_commit E)))))
     (on_cache (pc_remove_sid_for_user (c_presence E) user_id sid_to_remove))"

subsection \<open>Sockets of users\<close>

definition sql_reset_sids_for_user :: "('s, 'c) rdenv \<Rightarrow> string option \<Rightarrow> (('s, 'c) rw, unit) op" where
  "sql_reset_sids_for_user E user_id =
     (if none_or_blank user_id then throw EmptyUserIdException
      else thenM (on_cache (pc_reset_sids_for_user (c_presence E) (the user_id)))
        (with_session E (bindM (query E (\<lambda>es. filter (\<lambda>r. si_user_uuid r = the user_id) (all_sids es))) (\<lambda>sids.
          if sids = [] then ret ()
          else thenM (iterM (\<lambda>r. swallow_all (s_delete E (E_sid r))) sids) (s_commit E)))))"

definition sql_remove_sid_for_user :: "('s, 'c) rdenv \<Rightarrow> string \<Rightarrow> string \<Rightarrow> (('s, 'c) rw, unit) op" where
  "sql_remove_sid_for_user E user_id sid =
     thenM (on_cache (pc_remove_sid_for_user (c_presence E) user_id (Some sid)))
     (thenM (swallow_all (with_session E (bindM (query E (\<lambda>es. find (\<lambda>r. si_sid r = sid) (all_sids es))) (\<lambda>found.
         case found of None \<Rightarrow> ret () | Some r \<Rightarrow> thenM (s_delete E (E_sid r)) (s_commit E)))))
       (swallow_all (with_session E (bindM (query E (\<lambda>es. filter (\<lambda>r. rs_session_id r = sid) (all_room_sids es))) (\<lambda>rows.
         if rows = [] then ret ()
         else thenM (iterM (\<lambda>r. s_delete E (E_room_sid r)) rows) (s_commit E))))))"

definition sql_add_sid_for_user :: "('s, 'c) rdenv \<Rightarrow> string option \<Rightarrow> string \<Rightarrow> (('s, 'c) rw, unit) op" where
  "sql_add_sid_for_user E user_id sid =
     (if none_or_blank user_id then throw EmptyUserIdException
      else thenM (on_cache (pc_add_sid_for_user (c_presence E) (the user_id) sid))
        (with_session E (bindM (query E (\<lambda>es.
            find (\<lambda>r. si_user_uuid r = the user_id \<and> si_sid r = sid) (all_sids es))) (\<lambda>found.
          case found of
            Some _ \<Rightarrow> ret ()
          | None \<Rightarrow> thenM (s_add E (E_sid \<lparr>si_user_uuid = the user_id, si_sid = sid\<rparr>)) (s_commit E)))))"

definition sql_get_user_for_sid :: "('s, 'c) rdenv \<Rightarrow> string option \<Rightarrow> (('s, 'c) rw, string option) op" where
  "sql_get_user_for_sid E sid =
     (if none_or_blank sid then throw EmptyUserIdException
      else bindM (on_cache (pc_get_user_for_sid (c_presence E) (the sid))) (\<lambda>cached.
        if cached \<noteq> None then ret cached
        else bindM (with_session E (query E (\<lambda>es. map_option si_user_uuid (find (\<lambda>r. si_sid r = the sid) (all_sids es))))) (\<lambda>user_id.
          thenM (if user_id \<noteq> None \<and> user_id \<noteq> Some []
                 then on_cache (pc_add_sid_for_user (c_presence E) (the user_id) (the sid)) else ret ())
                (ret user_id))))"

definition sql_get_sids_for_user :: "('s, 'c) rdenv \<Rightarrow> string option \<Rightarrow> (('s, 'c) rw, string list) op" where
  "sql_get_sids_for_user E user_id =
     (if none_or_blank user_id then throw EmptyUserIdException
      else bindM (on_cache (pc_get_sids_for_user (c_presence E) (the user_id))) (\<lambda>cached.
        let all_sids' = (case cached of None \<Rightarrow> [] | Some l \<Rightarrow> [s. Some s \<leftarrow> l, s \<noteq> []])
        in if all_sids' \<noteq> [] then ret all_sids'
           else bindM (with_session E (query E (\<lambda>es.
                  [si_sid r. r \<leftarrow> all_sids es, si_user_uuid r = the user_id \<and> si_sid r \<noteq> []]))) (\<lambda>sids.
                thenM (on_cache (pc_set_sids_for_user (c_presence E) (the user_id) sids)) (ret sids))))"

end
