(* ===== verification/Rdb_Rooms.thy ===== *)
theory Rdb_Rooms
  imports Rdb_Roles Rdb_Presence Presence
begin

section \<open>The relational database: channels, rooms and members\<close>

text \<open>
  Fourth part of \<open>DatabaseRdbms\<close>: channels and rooms are made, renamed and removed, users join and
  leave, and the lists of rooms and of users. A random identifier (\<open>uuid4\<close>) and the time are
  arguments. The table between rooms and users has a row for every member.
\<close>

subsection \<open>Creating\<close>

definition new_channel :: "string \<Rightarrow> string \<Rightarrow> int \<Rightarrow> channel_row" where
  "new_channel uuid name now =
     \<lparr>ch_id = 0, ch_uuid = uuid, ch_name = name, ch_created = now, ch_sort_order = 1, ch_tags = None\<rparr>"

definition new_place_role :: "nat \<Rightarrow> string \<Rightarrow> role_row" where
  "new_place_role place user_id = \<lparr>rl_id = 0, rl_place_id = place, rl_user_id = user_id, rl_roles = role_owner\<rparr>"

definition sql_create_channel ::
  "('s, 'c) rdenv \<Rightarrow> int \<Rightarrow> string option \<Rightarrow> string \<Rightarrow> string \<Rightarrow> (('s, 'c) rw, unit) op" where
  "sql_create_channel E now channel_name channel_id user_id =
     (if none_or_blank channel_name then throw (EmptyChannelNameException channel_id)
      else bindM (sql_channel_exists E (Some channel_id)) (\<lambda>known.
        if known then throw (ChannelExistsException channel_id)
        else thenM (with_session E
            (bindM (s_add E (E_channel (new_channel channel_id (the channel_name) now))) (\<lambda>k.
             thenM (s_add E (E_channel_role (new_place_role k user_id)))
             (thenM (s_commit E)
                    (on_cache (nc_set_channel_exists (c_names E) channel_id))))))
          (if rv_node E = None \<or> contains ''wio'' (the (rv_node E)) then ret ()
           else on_cache (oc_reset_channels_with_sort (c_rooms E)))))"

definition sql_get_or_create_default_channel ::
  "('s, 'c) rdenv \<Rightarrow> int \<Rightarrow> string \<Rightarrow> (('s, 'c) rw, string) op" where
  "sql_get_or_create_default_channel E now new_uuid =
     or_else (on_cache (nc_get_default_channel_id (c_names E)))
     (bindM (with_session E (query E (\<lambda>es.
        map_option ch_uuid (find (\<lambda>c. ch_name c = ''_DEFAULT'') (all_channels es))))) (\<lambda>found.
      bindM (case found of Some i \<Rightarrow> ret i
        | None \<Rightarrow> thenM (sql_create_channel E now (Some ''_DEFAULT'') new_uuid ''0'') (ret new_uuid)) (\<lambda>channel_id.
      thenM (on_cache (nc_set_default_channel_id (c_names E) channel_id)) (ret channel_id))))"

definition new_room :: "string \<Rightarrow> string \<Rightarrow> nat \<Rightarrow> int \<Rightarrow> int \<Rightarrow> bool \<Rightarrow> room_row" where
  "new_room uuid name channel sort_order now ephemeral =
     \<lparr>ro_id = 0, ro_uuid = uuid, ro_name = name, ro_created = now, ro_admin = False, ro_ephemeral = ephemeral,
      ro_sort_order = sort_order, ro_channel_id = channel\<rparr>"

definition sql_create_room ::
  "('s, 'c) rdenv \<Rightarrow> int \<Rightarrow> string option \<Rightarrow> string \<Rightarrow> string \<Rightarrow> string \<Rightarrow> bool \<Rightarrow> int \<Rightarrow> bool \<Rightarrow> (('s, 'c) rw, unit) op" where
  "sql_create_room E now room_name room_id channel_id user_id ephemeral sort_order is_sid_room =
     (if none_or_blank room_name then throw (EmptyRoomNameException room_id)
      else bindM (sql_room_exists E channel_id room_id) (\<lambda>known.
        if known then throw (RoomExistsException room_id)
        else bindM (sql_room_name_exists E channel_id (the room_name)) (\<lambda>taken.
        if taken then throw (RoomNameExistsForChannelException channel_id (the room_name))
        else thenM (with_session E (bindM (query E (\<lambda>es. channel_by_uuid es channel_id)) (\<lambda>channel.
            case channel of
              None \<Rightarrow> throw (NoSuchChannelException channel_id)
            | Some c \<Rightarrow>
                bindM (s_add E (E_room (new_room room_id (the room_name) (ch_id c) sort_order now ephemeral))) (\<lambda>k.
                thenM (whenM (rv_count_joins E) (thenM (s_add E (E_join
                         \<lparr>jo_room_id = room_id, jo_room_name = the room_name, jo_amount = 0\<rparr>)) (ret ())))
                (thenM (s_add E (E_room_role (new_place_role k user_id)))
                       (s_commit E))))))
          (if is_sid_room then ret ()
           else thenM (on_cache (oc_reset_rooms_for_channel (c_rooms E) channel_id))
                      (sql_set_owner E room_id user_id)))))"

subsection \<open>Renaming and ordering\<close>

definition sql_rename_channel :: "('s, 'c) rdenv \<Rightarrow> string \<Rightarrow> string option \<Rightarrow> (('s, 'c) rw, unit) op" where
  "sql_rename_channel E channel_id channel_name =
     (if none_or_blank channel_name then throw (EmptyChannelNameException channel_id)
      else thenM (sql_get_channel_name E channel_id)
        (let name = strip (the channel_name)
         in bindM (sql_channel_name_exists E name) (\<lambda>taken.
            if taken then throw (ChannelNameExistsException name)
            else thenM (with_session E (bindM (query E (\<lambda>es. channel_by_uuid es channel_id)) (\<lambda>channel.
                 case channel of None \<Rightarrow> throw AttributeError
                 | Some c \<Rightarrow> thenM (s_save E (E_channel c) (E_channel (c\<lparr>ch_name := name\<rparr>))) (s_commit E))))
               (on_cache (nc_set_channel_name (c_names E) channel_id name)))))"

definition sql_rename_room :: "('s, 'c) rdenv \<Rightarrow> string \<Rightarrow> string \<Rightarrow> string option \<Rightarrow> (('s, 'c) rw, unit) op" where
  "sql_rename_room E channel_id room_id room_name =
     (if none_or_blank room_name then throw (EmptyRoomNameException room_id)
      else thenM (sql_get_channel_name E channel_id)
        (thenM (sql_get_room_name E room_id)
        (let name = strip (the room_name)
         in bindM (sql_room_name_exists E channel_id name) (\<lambda>taken.
            if taken then throw (RoomNameExistsForChannelException channel_id name)
            else thenM (with_session E (bindM (query E (\<lambda>es. room_by_uuid es room_id)) (\<lambda>room.
                 case room of None \<Rightarrow> throw AttributeError
                 | Some r \<Rightarrow> thenM (s_save E (E_room r) (E_room (r\<lparr>ro_name := name\<rparr>))) (s_commit E))))
               (on_cache (nc_set_room_name (c_names E) room_id name))))))"

definition change_channel :: "('s, 'c) rdenv \<Rightarrow> string \<Rightarrow> (channel_row \<Rightarrow> channel_row) \<Rightarrow> (('s, 'c) rw, unit) op" where
  "change_channel E channel_id f = with_session E (bindM (query E (\<lambda>es. channel_by_uuid es channel_id)) (\<lambda>channel.
     case channel of None \<Rightarrow> ret ()
     | Some c \<Rightarrow> thenM (s_save E (E_channel c) (E_channel (f c))) (s_commit E)))"

definition change_room :: "('s, 'c) rdenv \<Rightarrow> string \<Rightarrow> (room_row \<Rightarrow> room_row) \<Rightarrow> (('s, 'c) rw, unit) op" where
  "change_room E room_id f = with_session E (bindM (query E (\<lambda>es. room_by_uuid es room_id)) (\<lambda>room.
     case room of None \<Rightarrow> ret ()
     | Some r \<Rightarrow> thenM (s_save E (E_room r) (E_room (f r))) (s_commit E)))"

definition sql_update_channel_sort_order :: "('s, 'c) rdenv \<Rightarrow> string \<Rightarrow> int \<Rightarrow> (('s, 'c) rw, unit) op" where
  "sql_update_channel_sort_order E channel_id sort_order =
     thenM (sql_get_channel_name E channel_id)
     (thenM (change_channel E channel_id (\<lambda>c. c\<lparr>ch_sort_order := sort_order\<rparr>))
            (on_cache (oc_reset_channels_with_sort (c_rooms E))))"

definition sql_update_room_sort_order :: "('s, 'c) rdenv \<Rightarrow> string \<Rightarrow> int \<Rightarrow> (('s, 'c) rw, unit) op" where
  "sql_update_room_sort_order E room_id sort_order =
     thenM (sql_get_room_name E room_id) (change_room E room_id (\<lambda>r. r\<lparr>ro_sort_order := sort_order\<rparr>))"

text \<open>The two last steps are inside the session, after its commit.\<close>

definition sql_set_ephemeral_on_room_to :: "('s, 'c) rdenv \<Rightarrow> string \<Rightarrow> bool \<Rightarrow> (('s, 'c) rw, unit) op" where
  "sql_set_ephemeral_on_room_to E room_id is_ephemeral =
     with_session E (bindM (query E (\<lambda>es. room_by_uuid es room_id)) (\<lambda>room.
       case room of None \<Rightarrow> ret ()
       | Some r \<Rightarrow>
           thenM (s_save E (E_room r) (E_room (r\<lparr>ro_ephemeral := is_ephemeral\<rparr>)))
           (thenM (s_commit E)
           (bindM (sql_channel_for_room E (Some room_id)) (\<lambda>channel_id.
            on_cache (oc_reset_rooms_for_channel (c_rooms E) channel_id))))))"

definition sql_set_ephemeral_room :: "('s, 'c) rdenv \<Rightarrow> string \<Rightarrow> (('s, 'c) rw, unit) op" where
  "sql_set_ephemeral_room E room_id = sql_set_ephemeral_on_room_to E room_id True"

definition sql_unset_ephemeral_room :: "('s, 'c) rdenv \<Rightarrow> string \<Rightarrow> (('s, 'c) rw, unit) op" where
  "sql_unset_ephemeral_room E room_id = sql_set_ephemeral_on_room_to E room_id False"

definition sql_is_room_ephemeral :: "('s, 'c) rdenv \<Rightarrow> string \<Rightarrow> (('s, 'c) rw, bool) op" where
  "sql_is_room_ephemeral E room_id =
     or_else (on_cache (oc_is_room_ephemeral (c_rooms E) room_id))
     (bindM (with_session E (bindM (query E (\<lambda>es. room_by_uuid es room_id)) (\<lambda>room.
        case room of None \<Rightarrow> throw (NoSuchRoomException room_id) | Some r \<Rightarrow> ret (ro_ephemeral r)))) (\<lambda>value.
      thenM (on_cache (oc_set_is_room_ephemeral (c_rooms E) room_id value)) (ret value)))"

subsection \<open>Removing\<close>

text \<open>The members go in a part of its own, whose errors are only logged.\<close>

definition do_remove_room :: "('s, 'c) rdenv \<Rightarrow> string \<Rightarrow> string \<Rightarrow> (('s, 'c) rw, unit) op" where
  "do_remove_room E channel_id room_id = with_session E
     (bindM (query E (\<lambda>es. find (\<lambda>r. ro_uuid r = room_id \<and>
         (case channel_of es r of None \<Rightarrow> False | Some c \<Rightarrow> ch_uuid c = channel_id)) (all_rooms es))) (\<lambda>room.
      case room of
        None \<Rightarrow> throw (NoSuchRoomException room_id)
      | Some r \<Rightarrow>
          bindM (query E (\<lambda>es. [q. q \<leftarrow> all_room_roles es, p \<leftarrow> all_rooms es, ro_id p = rl_place_id q \<and> ro_uuid p = room_id])) (\<lambda>roles.
          thenM (if roles = [] then ret ()
                 else thenM (iterM (\<lambda>q. s_delete E (E_room_role q)) roles) (s_commit E))
          (thenM (swallow_all (bindM (query E (\<lambda>es. filter (\<lambda>m. me_room_id m = ro_id r) (all_members es))) (\<lambda>ms.
                   thenM (iterM (\<lambda>m. s_delete E (E_member m)) ms) (s_commit E))))
          (thenM (s_delete E (E_room r)) (s_commit E))))))"

definition sql_remove_room :: "('s, 'c) rdenv \<Rightarrow> string \<Rightarrow> string \<Rightarrow> (('s, 'c) rw, unit) op" where
  "sql_remove_room E channel_id room_id =
     bindM (sql_get_room_name E room_id) (\<lambda>room_name.
     thenM (catchM (try_twice stale_or_integrity (do_remove_room E channel_id room_id))
              (\<lambda>e. case e of NoSuchRoomException _ \<Rightarrow> Some (ret ()) | _ \<Rightarrow> None))
     (thenM (on_cache (nc_remove_room_exists (c_names E) channel_id room_id))
     (thenM (on_cache (oc_reset_rooms_for_channel (c_rooms E) channel_id))
            (on_cache (nc_remove_room_id_for_name (c_names E) room_id room_name)))))"

definition do_remove_channel :: "('s, 'c) rdenv \<Rightarrow> string \<Rightarrow> (('s, 'c) rw, unit) op" where
  "do_remove_channel E channel_id = with_session E
     (bindM (query E (\<lambda>es. [q. q \<leftarrow> all_channel_roles es, c \<leftarrow> all_channels es,
         ch_id c = rl_place_id q \<and> ch_uuid c = channel_id])) (\<lambda>roles.
      thenM (if roles = [] then ret ()
             else thenM (iterM (\<lambda>q. s_delete E (E_channel_role q)) roles) (s_commit E))
      (bindM (query E (\<lambda>es. channel_by_uuid es channel_id)) (\<lambda>channel.
       case channel of None \<Rightarrow> throw UnmappedInstanceError
       | Some c \<Rightarrow> thenM (s_delete E (E_channel c)) (s_commit E)))))"

definition sql_remove_channel :: "('s, 'c) rdenv \<Rightarrow> string \<Rightarrow> (('s, 'c) rw, unit) op" where
  "sql_remove_channel E channel_id =
     thenM (sql_get_channel_name E channel_id)
     (bindM (with_session E (query E (\<lambda>es. [ro_uuid r. r \<leftarrow> all_rooms es,
         (case channel_of es r of None \<Rightarrow> False | Some c \<Rightarrow> ch_uuid c = channel_id)]))) (\<lambda>room_uuids.
      thenM (iterM (sql_remove_room E channel_id) room_uuids)
      (thenM (try_twice (\<lambda>e. e = StaleDataError) (do_remove_channel E channel_id))
      (thenM (on_cache (nc_remove_channel_exists (c_names E) channel_id))
      (thenM (on_cache (oc_reset_rooms_for_channel (c_rooms E) channel_id))
             (on_cache (oc_reset_channels_with_sort (c_rooms E))))))))"

subsection \<open>Members\<close>

definition sql_leave_room :: "('s, 'c) rdenv \<Rightarrow> string option \<Rightarrow> string \<Rightarrow> (('s, 'c) rw, unit) op" where
  "sql_leave_room E user_id room_id =
     (if none_or_blank user_id then throw EmptyUserIdException
      else thenM (on_cache (oc_leave_room_for_user (c_rooms E) (the user_id) room_id))
        (catchM (with_session E (bindM (query E (\<lambda>es. room_by_uuid es room_id)) (\<lambda>room.
            case room of
              None \<Rightarrow> throw (NoSuchRoomException room_id)
            | Some r \<Rightarrow> bindM (query E (\<lambda>es. [m. m \<leftarrow> all_members es, u \<leftarrow> all_users es, q \<leftarrow> all_rooms es,
                    us_uuid u = the user_id \<and> us_id u = me_user_id m \<and> ro_uuid q = room_id \<and> ro_id q = me_room_id m])) (\<lambda>found.
                case find (\<lambda>m. me_room_id m = ro_id r) found of
                  None \<Rightarrow> ret ()
                | Some m \<Rightarrow> thenM (s_delete E (E_member m)) (s_commit E)))))
          (\<lambda>e. if e = ValueError \<or> stale_or_integrity e then Some (ret ()) else None)))"

definition sql_kick_user :: "('s, 'c) rdenv \<Rightarrow> string \<Rightarrow> string \<Rightarrow> (('s, 'c) rw, unit) op" where
  "sql_kick_user E room_id user_id = sql_leave_room E (Some user_id) room_id"

text \<open>Adding a user to the members of a room changes nothing when the user is one already.\<close>

definition add_member :: "('s, 'c) rdenv \<Rightarrow> string \<Rightarrow> string \<Rightarrow> string \<Rightarrow> (('s, 'c) rw, unit) op" where
  "add_member E user_id user_name room_id = with_session E
     (bindM (query E (\<lambda>es. room_by_uuid es room_id)) (\<lambda>room.
      bindM (query E (\<lambda>es. user_by_uuid es user_id)) (\<lambda>user.
      bindM (case user of Some u \<Rightarrow> ret (us_id u) | None \<Rightarrow> s_add E (E_user (new_user user_id user_name))) (\<lambda>k.
      case room of
        None \<Rightarrow> throw (NoSuchRoomException room_id)
      | Some r \<Rightarrow>
          let m = \<lparr>me_room_id = ro_id r, me_user_id = k\<rparr>
          in bindM (query E (\<lambda>es. E_member m \<in> set es)) (\<lambda>already.
             thenM (if already then ret () else thenM (s_add E (E_member m)) (ret ())) (s_commit E))))))"

definition sql_join_room ::
  "('s, 'c) rdenv \<Rightarrow> string option \<Rightarrow> string \<Rightarrow> string \<Rightarrow> string \<Rightarrow> string \<Rightarrow> string option \<Rightarrow> (('s, 'c) rw, unit) op" where
  "sql_join_room E request_sid user_id user_name room_id room_name sid =
     thenM (sql_get_room_name E room_id)
     (thenM (case (if sid = None then request_sid else sid) of
         None \<Rightarrow> ret ()
       | Some i \<Rightarrow> swallow_all (with_session E (thenM (s_add E (E_room_sid
           \<lparr>rs_user_id = user_id, rs_room_id = room_id, rs_session_id = i\<rparr>)) (s_commit E))))
     (thenM (catchM (add_member E user_id user_name room_id) (\<lambda>e.
         if e = UnmappedInstanceError then Some (ret ())
         else if e = IntegrityError then Some (catchM (add_member E user_id user_name room_id) (\<lambda>e1.
           if e1 = UnmappedInstanceError then Some (ret ())
           else if e1 = IntegrityError then Some (throw (NoSuchRoomException room_id)) else None))
         else None))
       (on_cache (oc_set_user_in_room (c_rooms E) user_id room_id room_name))))"

text \<open>Rooms where another socket of the user is are kept; a commit that is stale is taken back.\<close>

definition remove_memberships ::
  "('s, 'c) rdenv \<Rightarrow> string \<Rightarrow> string list \<Rightarrow> (('s, 'c) rw, unit) op" where
  "remove_memberships E user_id kept =
     bindM (query E (\<lambda>es. user_by_uuid es user_id)) (\<lambda>user.
     case user of
       None \<Rightarrow> ret ()
     | Some u \<Rightarrow>
         bindM (query E (\<lambda>es. [(r, m). r \<leftarrow> all_rooms es, m \<leftarrow> all_members es, me_room_id m = ro_id r \<and> me_user_id m = us_id u])) (\<lambda>rooms.
         if rooms = [] then ret ()
         else thenM (iterM (\<lambda>(r, m). if ro_uuid r \<in> set kept then ret () else s_delete E (E_member m)) rooms)
              (thenM (catchM (s_commit E) (\<lambda>e. if e = StaleDataError then Some (s_rollback E) else None))
                     (on_cache (oc_remove_rooms_for_user (c_rooms E) user_id)))))"

fun retry_stale :: "nat \<Rightarrow> ('w, unit) op \<Rightarrow> ('w, unit) op" where
  "retry_stale 0 m = ret ()"
| "retry_stale (Suc n) m = catchM m (\<lambda>e. if e = StaleDataError then Some (retry_stale n m) else None)"

definition sql_remove_current_rooms_for_user :: "('s, 'c) rdenv \<Rightarrow> string \<Rightarrow> (('s, 'c) rw, unit) op" where
  "sql_remove_current_rooms_for_user E user_id =
     bindM (sql_get_rooms_with_sid E user_id) (\<lambda>sids_to_rooms.
     with_session E (retry_stale 3 (remove_memberships E user_id (map snd sids_to_rooms))))"

definition sql_rooms_for_user :: "('s, 'c) rdenv \<Rightarrow> string \<Rightarrow> bool \<Rightarrow> (('s, 'c) rw, dict) op" where
  "sql_rooms_for_user E user_id skip_cache =
     bindM (if skip_cache then ret None else on_cache (oc_get_rooms_for_user (c_rooms E) user_id)) (\<lambda>cached.
     case cached of
       Some (x # xs) \<Rightarrow> ret (x # xs)
     | _ \<Rightarrow> bindM (with_session E (query E (\<lambda>es.
           fold (\<lambda>r d. AList.update (ro_uuid r) (ro_name r) d)
             [r. r \<leftarrow> all_rooms es, m \<leftarrow> all_members es, u \<leftarrow> all_users es,
              me_room_id m = ro_id r \<and> me_user_id m = us_id u \<and> us_uuid u = user_id] []))) (\<lambda>rooms.
         thenM (on_cache (oc_set_rooms_for_user (c_rooms E) user_id rooms)) (ret rooms)))"

definition sql_room_contains :: "('s, 'c) rdenv \<Rightarrow> string \<Rightarrow> string \<Rightarrow> (('s, 'c) rw, bool) op" where
  "sql_room_contains E room_id user_id =
     thenM (sql_get_room_name E room_id)
     (thenM (sql_channel_for_room E (Some room_id))
     (bindM (sql_rooms_for_user E user_id False) (\<lambda>rooms. ret (room_id \<in> set (map fst rooms)))))"

text \<open>The members of a room, in the order of their rows.\<close>

definition users_of_room :: "db_row list \<Rightarrow> room_row \<Rightarrow> user_row list" where
  "users_of_room es r = [u. m \<leftarrow> all_members es, me_room_id m = ro_id r, u \<leftarrow> all_users es, us_id u = me_user_id m]"

text \<open>The status is compared with a text, so that a number from the database is never equal to it.\<close>

definition sql_users_in_room ::
  "('s, 'c) rdenv \<Rightarrow> string option \<Rightarrow> string option \<Rightarrow> bool \<Rightarrow> string option \<Rightarrow> (('s, 'c) rw, dict) op" where
  "sql_users_in_room E room_id this_user_id skip_cache room_name =
     bindM (case this_user_id of None \<Rightarrow> ret False
       | Some u \<Rightarrow> bindM (sql_is_super_user E u) (\<lambda>b. if b then ret True else sql_is_global_moderator E u)) (\<lambda>is_super_user.
     or_else (if skip_cache then ret None
       else case room_id of
         None \<Rightarrow> on_cache (oc_get_users_in_room_by_name (c_rooms E) (fmt room_name) is_super_user)
       | Some i \<Rightarrow> on_cache (oc_get_users_in_room (c_rooms E) i is_super_user))
     (bindM (with_session E (query E (\<lambda>es.
        case find (\<lambda>r. case room_id of Some i \<Rightarrow> ro_uuid r = i | None \<Rightarrow> Some (ro_name r) = room_name) (all_rooms es) of
          None \<Rightarrow> []
        | Some r \<Rightarrow> fold (\<lambda>u d. AList.update (us_uuid u) (us_name u) d) (users_of_room es r) []))) (\<lambda>all_users'.
      bindM (mapM (\<lambda>(u, _). sql_get_user_status E u False) all_users') (\<lambda>statuses.
      let users = map fst (filter (\<lambda>(_, st). is_super_user \<or> st \<noteq> StText status_invisible) (zip all_users' statuses))
      in thenM (case room_id of
             None \<Rightarrow> on_cache (oc_set_users_in_room_by_name (c_rooms E) (fmt room_name) users is_super_user)
           | Some i \<Rightarrow> on_cache (oc_set_users_in_room (c_rooms E) i users is_super_user))
         (ret users)))))"

definition sql_get_admins_in_room :: "('s, 'c) rdenv \<Rightarrow> string \<Rightarrow> string option \<Rightarrow> (('s, 'c) rw, string list) op" where
  "sql_get_admins_in_room E room_id this_user_id =
     bindM (sql_users_in_room E (Some room_id) this_user_id True None) (\<lambda>users.
     foldM (\<lambda>mods (u, _).
       bindM (bindM (sql_is_super_user E u) (\<lambda>b. if b then ret True else sql_is_global_moderator E u)) (\<lambda>privileged.
       ret (if privileged then mods @ [u] else mods))) [] users)"

subsection \<open>Lists of rooms and channels\<close>

definition sql_get_channels :: "('s, 'c) rdenv \<Rightarrow> (('s, 'c) rw, (string \<times> string \<times> int \<times> string option) list) op" where
  "sql_get_channels E =
     or_else (on_cache (oc_get_channels_with_sort (c_rooms E)))
     (bindM (with_session E (query E (\<lambda>es.
        fold (\<lambda>c d. AList.update (ch_uuid c) (ch_name c, ch_sort_order c, ch_tags c) d)
          (filter (\<lambda>c. ch_name c \<noteq> ''_DEFAULT'') (all_channels es)) []))) (\<lambda>channels.
      thenM (on_cache (oc_set_channels_with_sort (c_rooms E) channels)) (ret channels)))"

text \<open>The rooms that have a channel, with it.\<close>

definition rooms_with_channel :: "db_row list \<Rightarrow> (room_row \<times> channel_row) list" where
  "rooms_with_channel es = [(r, c). r \<leftarrow> all_rooms es, c \<leftarrow> all_channels es, ch_id c = ro_channel_id r]"

definition sql_get_all_rooms :: "('s, 'c) rdenv \<Rightarrow> (('s, 'c) rw, listed_room list) op" where
  "sql_get_all_rooms E =
     or_else (on_cache (oc_get_all_rooms (c_rooms E)))
     (bindM (catchM (bindM (with_session E (query E (\<lambda>es. map (\<lambda>(r, c).
            \<lparr>li_id = ro_uuid r, li_status = (if ro_ephemeral r then ''temporary'' else ''static''), li_name = ro_name r,
             li_channel = ch_name c, li_channel_id = ch_uuid c\<rparr>) (rooms_with_channel es)))) (\<lambda>rooms. ret (Some rooms)))
          (\<lambda>_. Some (ret None))) (\<lambda>rooms.
      case rooms of None \<Rightarrow> ret []
      | Some rs \<Rightarrow> thenM (on_cache (oc_set_all_rooms (c_rooms E) rs)) (ret rs)))"

definition sql_rooms_for_channel_without_info ::
  "('s, 'c) rdenv \<Rightarrow> string \<Rightarrow> (('s, 'c) rw, (string \<times> bool \<times> string) list) op" where
  "sql_rooms_for_channel_without_info E channel_id =
     or_else (on_cache (oc_get_rooms_without_info (c_rooms E) channel_id))
     (bindM (catchM (bindM (with_session E (query E (\<lambda>es.
            fold (\<lambda>(r, c) d. AList.update (ro_uuid r) (ro_ephemeral r, ro_name r) d)
              (filter (\<lambda>(r, c). ch_uuid c = channel_id) (rooms_with_channel es)) []))) (\<lambda>rooms. ret (Some rooms)))
          (\<lambda>_. Some (ret None))) (\<lambda>rooms.
      case rooms of None \<Rightarrow> ret []
      | Some rs \<Rightarrow> thenM (on_cache (oc_set_rooms_without_info (c_rooms E) channel_id rs)) (ret rs)))"

text \<open>When some member of a room has an id that is not a number, looking into the statuses raises \<open>TypeError\<close>.\<close>

definition sql_rooms_for_channel ::
  "('s, 'c) rdenv \<Rightarrow> string \<Rightarrow> (('s, 'c) rw, (string \<times> room_entry) list) op" where
  "sql_rooms_for_channel E channel_id =
     or_else (on_cache (oc_get_rooms_for_channel (c_rooms E) channel_id))
     (bindM (with_session E (query E (\<lambda>es.
        fold (\<lambda>(r, c) d. AList.update (ro_uuid r) (r, map us_uuid (users_of_room es r)) d)
          (filter (\<lambda>(r, c). ch_uuid c = channel_id) (rooms_with_channel es)) []))) (\<lambda>room_data.
      let user_ids = remdups (concat (map (\<lambda>(_, _, us). us) room_data))
      in bindM (foldM (\<lambda>statuses u. case statuses of None \<Rightarrow> ret None
             | Some d \<Rightarrow> if \<not> is_valid_id (Some u) then ret None
                 else bindM (sql_get_user_status E u False) (\<lambda>st. ret (Some (d @ [(u, st)]))))
           (Some []) (rv_order E user_ids)) (\<lambda>statuses.
         bindM (case statuses of
             None \<Rightarrow> throw TypeError
           | Some d \<Rightarrow> ret (map (\<lambda>(i, r, us). (i, \<lparr>re_name = ro_name r, re_sort_order = ro_sort_order r,
               re_ephemeral = ro_ephemeral r, re_admin = ro_admin r,
               re_users = length (remdups (filter (\<lambda>u. map_of d u \<noteq> Some (StText status_invisible)) us))\<rparr>)) room_data)) (\<lambda>rooms.
         thenM (on_cache (oc_set_rooms_for_channel (c_rooms E) channel_id rooms)) (ret rooms)))))"

definition sql_type_of_rooms_in_channel :: "('s, 'c) rdenv \<Rightarrow> string \<Rightarrow> (('s, 'c) rw, string) op" where
  "sql_type_of_rooms_in_channel E channel_id =
     or_else (on_cache (oc_get_type_of_rooms_in_channel (c_rooms E) channel_id))
     (bindM (sql_rooms_for_channel E channel_id) (\<lambda>rooms.
      let ephemeral = length (filter (\<lambda>(_, r). re_ephemeral r) rooms);
          static = length (filter (\<lambda>(_, r). \<not> re_ephemeral r) rooms);
          object_type = (if static = 0 then ''temporary''
            else if ephemeral = 0 \<and> static > 0 then ''static'' else ''mix'')
      in thenM (on_cache (oc_set_type_of_rooms_in_channel (c_rooms E) channel_id object_type)) (ret object_type)))"

definition sql_get_room_id_for_name ::
  "('s, 'c) rdenv \<Rightarrow> int \<Rightarrow> string \<Rightarrow> string \<Rightarrow> bool \<Rightarrow> (('s, 'c) rw, string) op" where
  "sql_get_room_id_for_name E now new_uuid room_name use_default_channel =
     bindM (if use_default_channel
            then bindM (sql_get_or_create_default_channel E now new_uuid) (\<lambda>c. ret (Some c)) else ret None) (\<lambda>channel.
     or_else (case channel of None \<Rightarrow> ret None
         | Some c \<Rightarrow> on_cache (nc_get_room_id_for_name (c_names E) c room_name))
     (bindM (with_session E (query E (\<lambda>es. filter (\<lambda>r. ro_name r = room_name) (all_rooms es)))) (\<lambda>rooms.
      case rooms of
        [] \<Rightarrow> throw (NoSuchRoomException room_name)
      | [r] \<Rightarrow> thenM (case channel of None \<Rightarrow> ret ()
            | Some c \<Rightarrow> on_cache (nc_set_room_id_for_name (c_names E) c room_name (ro_uuid r)))
          (ret (ro_uuid r))
      | _ \<Rightarrow> throw (MultipleRoomsFoundForNameException room_name))))"

definition sql_get_temp_rooms_user_is_owner_for :: "('s, 'c) rdenv \<Rightarrow> string \<Rightarrow> (('s, 'c) rw, string list) op" where
  "sql_get_temp_rooms_user_is_owner_for E user_id = with_session E (query E (\<lambda>es.
     [ro_uuid r. q \<leftarrow> all_room_roles es, r \<leftarrow> all_rooms es, ro_id r = rl_place_id q \<and> ro_ephemeral r \<and>
        rl_user_id q = user_id \<and> ilike ''%owner%'' (rl_roles q)]))"

subsection \<open>Rooms that everybody joins, and the room of the admins\<close>

definition sql_get_default_rooms :: "('s, 'c) rdenv \<Rightarrow> (('s, 'c) rw, string list) op" where
  "sql_get_default_rooms E =
     or_else (on_cache (oc_get_default_rooms (c_rooms E)))
     (bindM (with_session E (query E (\<lambda>es. map df_uuid (all_default_rooms es)))) (\<lambda>rooms.
      thenM (on_cache (oc_set_default_rooms (c_rooms E) rooms)) (ret rooms)))"

definition sql_add_default_room :: "('s, 'c) rdenv \<Rightarrow> string \<Rightarrow> (('s, 'c) rw, unit) op" where
  "sql_add_default_room E room_id =
     thenM (with_session E (bindM (query E (\<lambda>es. find (\<lambda>d. df_uuid d = room_id) (all_default_rooms es))) (\<lambda>found.
       case found of Some _ \<Rightarrow> ret ()
       | None \<Rightarrow> thenM (s_add E (E_default_room \<lparr>df_id = 0, df_uuid = room_id\<rparr>)) (s_commit E))))
     (thenM (on_cache (oc_clear_default_rooms (c_rooms E)))
     (thenM (sql_get_default_rooms E) (ret ())))"

definition sql_remove_default_room :: "('s, 'c) rdenv \<Rightarrow> string \<Rightarrow> (('s, 'c) rw, unit) op" where
  "sql_remove_default_room E room_id =
     thenM (with_session E (bindM (query E (\<lambda>es. find (\<lambda>d. df_uuid d = room_id) (all_default_rooms es))) (\<lambda>found.
       case found of None \<Rightarrow> ret ()
       | Some d \<Rightarrow> thenM (s_delete E (E_default_room d)) (s_commit E))))
     (thenM (on_cache (oc_clear_default_rooms (c_rooms E)))
     (thenM (sql_get_default_rooms E) (ret ())))"

definition admin_acl :: "nat \<Rightarrow> string \<Rightarrow> acl_row" where
  "admin_acl room action =
     \<lparr>al_id = 0, al_room_id = Some room, al_channel_id = None, al_action = action, al_type = role_admin, al_value = []\<rparr>"

definition sql_set_admin_room :: "('s, 'c) rdenv \<Rightarrow> string \<Rightarrow> (('s, 'c) rw, unit) op" where
  "sql_set_admin_room E room_id = with_session E (bindM (query E (\<lambda>es. room_by_uuid es room_id)) (\<lambda>room.
     case room of
       None \<Rightarrow> ret ()
     | Some r \<Rightarrow>
         thenM (s_save E (E_room r) (E_room (r\<lparr>ro_admin := True\<rparr>)))
         (bindM (query E (\<lambda>es. map al_action (filter (\<lambda>a. al_room_id a = Some (ro_id r) \<and> al_type a = role_admin) (all_acls es)))) (\<lambda>actions.
          thenM (if action_list \<in> set actions then ret ()
                 else thenM (s_add E (E_acl (admin_acl (ro_id r) action_list))) (ret ()))
          (thenM (if action_join \<in> set actions then ret ()
                 else thenM (s_add E (E_acl (admin_acl (ro_id r) action_join))) (ret ()))
          (thenM (on_cache (oc_set_admin_room (c_rooms E) room_id))
                 (s_commit E)))))))"

definition sql_unset_admin_room :: "('s, 'c) rdenv \<Rightarrow> string \<Rightarrow> (('s, 'c) rw, unit) op" where
  "sql_unset_admin_room E room_id = with_session E (bindM (query E (\<lambda>es. room_by_uuid es room_id)) (\<lambda>room.
     case room of
       None \<Rightarrow> ret ()
     | Some r \<Rightarrow>
         thenM (s_save E (E_room r) (E_room (r\<lparr>ro_admin := False\<rparr>)))
         (thenM (on_cache (oc_remove_admin_room (c_rooms E)))
                (s_commit E))))"

definition sql_get_admin_room :: "('s, 'c) rdenv \<Rightarrow> (('s, 'c) rw, string option) op" where
  "sql_get_admin_room E = with_session E (query E (\<lambda>es. map_option ro_uuid (find ro_admin (all_rooms es))))"

definition sql_create_admin_room :: "('s, 'c) rdenv \<Rightarrow> int \<Rightarrow> string \<Rightarrow> string \<Rightarrow> (('s, 'c) rw, string) op" where
  "sql_create_admin_room E now channel_uuid room_uuid =
     thenM (catchM (thenM (sql_create_user E (Some ''0'') (Some ''Admin'')) (sql_set_super_user E ''0''))
              (\<lambda>e. case e of UserExistsException _ \<Rightarrow> Some (ret ()) | _ \<Rightarrow> None))
     (or_else (sql_get_admin_room E)
      (thenM (sql_create_channel E now (Some ''Admins'') channel_uuid ''0'')
       (with_session E (bindM (query E (\<lambda>es. channel_by_uuid es channel_uuid)) (\<lambda>channel.
          case channel of
            None \<Rightarrow> throw IntegrityError
          | Some c \<Rightarrow>
              bindM (s_add E (E_room ((new_room room_uuid ''Admins'' (ch_id c) 1 now False)\<lparr>ro_admin := True\<rparr>))) (\<lambda>k.
              thenM (s_add E (E_acl (admin_acl k action_join)))
              (thenM (s_add E (E_acl (admin_acl k action_list)))
              (thenM (s_commit E) (ret room_uuid)))))))))"

end
