(* ===== verification/Rdb_Room_Facts.thy ===== *)
theory Rdb_Room_Facts
  imports Rdb_Role_Facts Rdb_Rooms
begin

section \<open>Creating a room in the relational database\<close>

text \<open>
  \<open>create_room\<close> with the cache that always misses: the first of its errors that applies, with the rows as they
  were, or the rows with a room, a row for the owner and, when joins are counted, one for their
  number. The rows stay well formed, so the contract of roles goes on from there.
\<close>

definition sql_create_room_error :: "db_row set \<Rightarrow> string option \<Rightarrow> string \<Rightarrow> string \<Rightarrow> exc option" where
  "sql_create_room_error D name r c =
     (if none_or_blank name then Some (EmptyRoomNameException r)
      else if has_room D r then Some (RoomExistsException r)
      else if \<exists>q. E_room q \<in> D \<and> ro_name q = the name then Some (RoomNameExistsForChannelException c (the name))
      else if \<nexists>ch. E_channel ch \<in> D \<and> ch_uuid ch = c then Some (NoSuchChannelException c)
      else None)"

definition join_counter :: "('s, 'c) rdenv \<Rightarrow> string \<Rightarrow> string \<Rightarrow> db_row set" where
  "join_counter E r name =
     (if rv_count_joins E then {E_join \<lparr>jo_room_id = r, jo_room_name = name, jo_amount = 0\<rparr>} else {})"

lemma with_id_room [simp]: "with_id k (E_room r) = E_room (r\<lparr>ro_id := k\<rparr>)" "clashes (E_room r) e = False"
  "with_id k (E_join j) = E_join j" "clashes (E_join j) e \<longleftrightarrow> (\<exists>i. e = E_join i \<and> jo_room_id j = jo_room_id i)"
  by (auto simp: clashes_def split: db_row.splits)

lemma found_channel: "channel_by_uuid es c = Some ch \<Longrightarrow> E_channel ch \<in> set es \<and> ch_uuid ch = c"
  unfolding channel_by_uuid_def by (drule find_in_rows) simp

lemma same_table_room: "same_table (E_room r) (E_room q)"
  by (simp add: same_table_def)

text \<open>The new rows are well formed: the key of the room is new, so that no row of roles refers to it.\<close>

lemma roles_ok_new_room:
  assumes "roles_ok D" "\<not> has_room D (ro_uuid r)" "\<And>q. E_room q \<in> D \<Longrightarrow> ro_id q \<noteq> ro_id r"
    and "rl_place_id a = ro_id r" "rl_roles a = role_owner" "rl_user_id a = u"
    and D': "\<And>q. E_room q \<in> D' \<longleftrightarrow> q = r \<or> E_room q \<in> D" "\<And>q. E_room_role q \<in> D' \<longleftrightarrow> q = a \<or> E_room_role q \<in> D"
  shows "roles_ok D'" "holds_room D' (ro_uuid r) u role_owner"
proof -
  have fresh: "E_room_role q \<in> D \<Longrightarrow> rl_place_id q \<noteq> ro_id r" for q
    using roles_okD(5) [OF assms(1), of q] assms(3) by metis
  have new: "E_room q \<in> D \<Longrightarrow> ro_uuid q \<noteq> ro_uuid r" for q using assms(2) unfolding has_room_def by blast
  have plain: "plain_roles role_owner" by (rule plain_role) (simp add: room_role_names_def)
  show "roles_ok D'"
  proof (rule roles_okI; unfold D')
    fix p q assume "p = r \<or> E_room p \<in> D" "q = r \<or> E_room q \<in> D" "ro_uuid p = ro_uuid q"
    then show "p = q" using new roles_okD(1) [OF assms(1)] by metis
  next
    fix p q assume "p = r \<or> E_room p \<in> D" "q = r \<or> E_room q \<in> D" "ro_id p = ro_id q"
    then show "p = q" using assms(3) roles_okD(2) [OF assms(1)] by metis
  next
    fix p q assume "p = a \<or> E_room_role p \<in> D" "q = a \<or> E_room_role q \<in> D" "rl_place_id p = rl_place_id q" "rl_user_id p = rl_user_id q"
    then show "p = q" using fresh assms(4) roles_okD(3) [OF assms(1)] by metis
  next
    fix p assume "p = a \<or> E_room_role p \<in> D"
    then show "plain_roles (rl_roles p)" using plain assms(5) roles_okD(4) [OF assms(1)] by auto
  next
    fix p assume "p = a \<or> E_room_role p \<in> D"
    then show "\<exists>q. (q = r \<or> E_room q \<in> D) \<and> ro_id q = rl_place_id p" using assms(4) roles_okD(5) [OF assms(1)] by metis
  qed
  have "role_owner \<in> role_words role_owner" using plain_role(2) [of role_owner] by (simp add: room_role_names_def)
  then show "holds_room D' (ro_uuid r) u role_owner" unfolding holds_room_def D' using assms(4-6) by metis
qed

lemma names_exist: "roles_ok D \<Longrightarrow> \<exists>nm. names_rooms D nm"
proof
  assume ok: "roles_ok D"
  show "names_rooms D (\<lambda>x. Some (ro_name (THE r. E_room r \<in> D \<and> ro_uuid r = x)))"
    unfolding names_rooms_def
  proof (intro allI impI)
    fix r assume r: "E_room r \<in> D"
    then have "(THE q. E_room q \<in> D \<and> ro_uuid q = ro_uuid r) = r"
      using roles_okD(1) [OF ok] by (intro the_equality) auto
    then show "Some (ro_name (THE q. E_room q \<in> D \<and> ro_uuid q = ro_uuid r)) = Some (ro_name r)" by simp
  qed
qed

lemma rw_cache_unit [simp]: "(w :: ('s, unit) rw)\<lparr>rw_cache := c\<rparr> = w"
  by simp

locale rdb_uncached = rdb_roles E T "\<lambda>_ _ _. True" for E :: "('s, unit) rdenv" and T +
  assumes uncached: "rv_cache E = miss_rcache"
begin

lemma world_iff: "roles_world w \<longleftrightarrow> clean w \<and> roles_ok (stored w)"
  using names_exist by (auto simp: roles_world_def at_rows_def)

text \<open>The room, the counter and the owner.\<close>

lemma room_rows_added:
  assumes w: "seen w = D" "roles_ok D" "\<not> has_room D r"
    and joins: "rv_count_joins E \<Longrightarrow> \<forall>j. E_join j \<in> D \<longrightarrow> jo_room_id j \<noteq> r"
  shows "\<exists>k i w'. bindM (s_add E (E_room (new_room r name ch so now eph))) (\<lambda>k.
      thenM (whenM (rv_count_joins E) (thenM (s_add E (E_join
               \<lparr>jo_room_id = r, jo_room_name = name, jo_amount = 0\<rparr>)) (ret ())))
      (thenM (s_add E (E_room_role (new_place_role k u))) (s_commit E))) w = (Inr (), w') \<and>
    stored w' = D \<union> {E_room ((new_room r name ch so now eph)\<lparr>ro_id := k\<rparr>), E_room_role ((new_place_role k u)\<lparr>rl_id := i\<rparr>)} \<union>
      join_counter E r name \<and> rw_cache w' = rw_cache w \<and> (\<forall>q. E_room q \<in> D \<longrightarrow> ro_id q \<noteq> k)"
proof -
  let ?r = "new_room r name ch so now eph"
  let ?j = "E_join \<lparr>jo_room_id = r, jo_room_name = name, jo_amount = 0\<rparr>"
  obtain k w1 where w1: "s_add E (E_room ?r) w = (Inr k, w1)" "seen w1 = insert (E_room (?r\<lparr>ro_id := k\<rparr>)) D"
    "rw_cache w1 = rw_cache w" and new: "\<forall>e' \<in> D. same_table (E_room ?r) e' \<longrightarrow> entity_id e' < k"
    using add_step [of w "E_room ?r"] w(1) by auto
  have fresh: "\<forall>q. E_room q \<in> D \<longrightarrow> ro_id q \<noteq> k" using new same_table_room by fastforce
  obtain w2 where w2: "whenM (rv_count_joins E) (thenM (s_add E ?j) (ret ())) w1 = (Inr (), w2)"
    "seen w2 = seen w1 \<union> join_counter E r name" "rw_cache w2 = rw_cache w1"
  proof (cases "rv_count_joins E")
    case False
    with that show thesis by (simp add: op_simps join_counter_def)
  next
    case True
    with joins have "\<And>e'. e' \<in> seen w1 \<Longrightarrow> \<not> clashes ?j e'" unfolding w1(2) by auto
    then obtain k' w2 where "s_add E ?j w1 = (Inr k', w2)" "seen w2 = insert (with_id k' ?j) (seen w1)" "rw_cache w2 = rw_cache w1"
      using add_step [of w1 ?j] by blast
    with True that show thesis by (simp add: join_counter_def whenM_def thenM_def bindM_def op_simps)
  qed
  obtain i w3 where w3: "thenM (s_add E (E_room_role (new_place_role k u))) (s_commit E) w2 = (Inr (), w3)"
    "stored w3 = insert (E_room_role ((new_place_role k u)\<lparr>rl_id := i\<rparr>)) (seen w2)" "rw_cache w3 = rw_cache w2"
    using added_in_session [of w2 "E_room_role (new_place_role k u)"] by auto
  let ?rest = "\<lambda>k. thenM (whenM (rv_count_joins E) (thenM (s_add E ?j) (ret ())))
    (thenM (s_add E (E_room_role (new_place_role k u))) (s_commit E))"
  have "?rest k w1 = (Inr (), w3)" unfolding thenM_def [of "whenM b m" for b m] bindM_def [of "whenM b m" for b m] w2(1)
    using w3(1) by simp
  with w1(1) have "bindM (s_add E (E_room ?r)) ?rest w = (Inr (), w3)" by (simp add: bindM_def [of "s_add E e" for e])
  moreover have "stored w3 = D \<union> {E_room (?r\<lparr>ro_id := k\<rparr>), E_room_role ((new_place_role k u)\<lparr>rl_id := i\<rparr>)} \<union>
      join_counter E r name"
    unfolding w3(2) w2(2) w1(2) by blast
  moreover have "rw_cache w3 = rw_cache w" using w1(3) w2(3) w3(3) by simp
  ultimately show ?thesis using fresh by blast
qed

lemma nothing_cached:
  "on_cache (nc_get_room_exists (c_names E) c r) = ret None" "on_cache (nc_get_room_id_for_name (c_names E) c n) = ret None"
  "on_cache (oc_reset_rooms_for_channel (c_rooms E) c) = ret ()"
  by (simp_all add: uncached miss_defs session_simps)

lemma create_checks_run:
  assumes "clean w" "seen w = D"
  shows "\<exists>w'. sql_room_exists E c r w = (Inr (has_room D r), w') \<and> clean w' \<and> seen w' = D"
    "\<exists>w'. sql_room_name_exists E c n w = (Inr (\<exists>q. E_room q \<in> D \<and> ro_name q = n), w') \<and> clean w' \<and> seen w' = D"
proof -
  let ?es = "sq_rows (rv_sql E) (rw_sql w)"
  have s: "stored w = D" using assms by (simp add: clean_def)
  let ?m = "bindM (query E (\<lambda>es. filter (\<lambda>r'. ro_uuid r' = r) (all_rooms es))) (\<lambda>rooms.
        case rooms of [] \<Rightarrow> ret False
        | r' # _ \<Rightarrow> thenM (on_cache (nc_set_room_exists (c_names E) c r (ro_name r'))) (ret True))"
  have eq: "sql_room_exists E c r w = with_session E ?m w"
    by (simp add: sql_room_exists_def or_else_def nothing_cached bindM_ret)
  have "filter (\<lambda>r'. ro_uuid r' = r) (all_rooms ?es) = [] \<longleftrightarrow> \<not> has_room D r"
    using assms(2) by (auto simp: filter_empty_conv has_room_def)
  then have m: "?m w = (Inr (has_room D r), w)"
    by (auto simp: session_simps op_simps uncached miss_defs split: list.split)
  obtain w1 where "with_session E ?m w = (Inr (has_room D r), w1)" "clean w1" "stored w1 = stored w"
    using session_ok [of ?m, OF m] by blast
  then show "\<exists>w'. sql_room_exists E c r w = (Inr (has_room D r), w') \<and> clean w' \<and> seen w' = D"
    using s eq by (auto simp: clean_def)
next
  let ?es = "sq_rows (rv_sql E) (rw_sql w)"
  have s: "stored w = D" using assms by (simp add: clean_def)
  let ?m = "bindM (query E (\<lambda>es. filter (\<lambda>q. ro_name q = n) (all_rooms es))) (\<lambda>rows.
         case rows of [] \<Rightarrow> ret False
         | q # _ \<Rightarrow> thenM (on_cache (nc_set_room_id_for_name (c_names E) c n (ro_uuid q))) (ret True))"
  have eq: "sql_room_name_exists E c n w = with_session E ?m w"
    by (simp add: sql_room_name_exists_def nothing_cached bindM_ret)
  let ?b = "\<exists>q. E_room q \<in> D \<and> ro_name q = n"
  have "filter (\<lambda>q. ro_name q = n) (all_rooms ?es) = [] \<longleftrightarrow> \<not> ?b"
    using assms(2) by (auto simp: filter_empty_conv)
  then have m: "?m w = (Inr ?b, w)"
    by (auto simp: session_simps op_simps uncached miss_defs split: list.split)
  obtain w1 where "with_session E ?m w = (Inr ?b, w1)" "clean w1" "stored w1 = stored w"
    using session_ok [of ?m, OF m] by blast
  then show "\<exists>w'. sql_room_name_exists E c n w = (Inr ?b, w') \<and> clean w' \<and> seen w' = D"
    using s eq by (auto simp: clean_def)
qed

text \<open>Setting a role that is there already leaves the rows as they are.\<close>

lemma set_owner_again:
  assumes "roles_world w" "has_room (stored w) x" "holds_room (stored w) x u role_owner"
  shows "\<exists>w'. sql_set_owner E x u w = (Inr (), w') \<and> roles_world w' \<and> stored w' = stored w"
proof -
  let ?D = "stored w"
  from assms(1) obtain nm where w: "at_rows ?D (cacheable ?D) nm w" "roles_ok ?D"
    by (auto simp: roles_world_def)
  have own: "role_owner \<in> room_role_names" by (simp add: room_role_names_def)
  let ?m = "in_room_rows x (\<lambda>r. put_place_role E E_room_role (ro_id r) role_owner u)"
  let ?es = "sq_rows (rv_sql E) (rw_sql w)"
  have es: "set ?es = ?D" by (rule rows_at [OF w(1)])
  obtain r where r: "room_by_uuid ?es x = Some r" "E_room r \<in> ?D" "ro_uuid r = x"
    using found_room [of ?es x] assms(2) es by auto
  obtain p q where q: "E_room p \<in> ?D" "ro_uuid p = x" "E_room_role q \<in> ?D" "rl_place_id q = ro_id p" "rl_user_id q = u"
    "role_owner \<in> role_words (rl_roles q)"
    using assms(3) unfolding holds_room_def by blast
  have "p = r" using roles_okD(1) [OF w(2) q(1) r(2)] q(2) r(3) by simp
  moreover have "contains role_owner (rl_roles q)" using contains_plain [OF roles_okD(4) [OF w(2) q(3)] own] q(6) by blast
  ultimately have "list_ex (\<lambda>q. contains role_owner (rl_roles q)) (filter (\<lambda>q. rl_user_id q = u)
      (filter (\<lambda>q. rl_place_id q = ro_id r) (all_room_roles ?es)))"
    using q es by (auto simp: list_ex_iff)
  then have "put_place_role E E_room_role (ro_id r) role_owner u
      (filter (\<lambda>q. rl_place_id q = ro_id r) (all_room_roles ?es)) w = (Inr (), w)"
    by (simp only: put_place_role_def Let_def if_True ret_run)
  then have "?m w = (Inr (), w)" using r(1) by (simp add: session_simps)
  then obtain w1 where w1: "with_session E ?m w = (Inr (), w1)" "at_rows ?D (cacheable ?D) nm w1"
    using session_at_rows [where m = ?m, OF w(1)] by blast
  have "role_effect ?D ?D (holds_room ?D)" by (rule no_effect [OF w(2)]) simp
  then obtain w2 where w2: "sql_update_user_roles_in_cache E u w1 = (Inr (), w2)" "at_rows ?D (cacheable ?D) nm w2"
    using update_cache_run [OF w1(2), of "holds_room ?D" u] by blast
  have "on_cache (rc_reset_users_in_room_for_role (c_roles E) x role_owner) w2 = (Inr (), w2)"
    by (simp add: uncached miss_defs session_simps op_simps)
  then have "sql_set_owner E x u w = (Inr (), w2)"
    using w1(1) w2(1) by (simp add: sql_set_owner_def sql_set_role_on_room_for_user_def bindM_def [of "with_session E m" for m]
        bindM_def [of "sql_update_user_roles_in_cache E u"] thenM_def op_simps)
  with w2(2) w(2) show ?thesis unfolding world_iff at_rows_def by auto
qed

abbreviation create_body :: "int \<Rightarrow> string \<Rightarrow> string \<Rightarrow> string \<Rightarrow> string \<Rightarrow> bool \<Rightarrow> int \<Rightarrow> (('s, unit) rw, unit) op" where
  "create_body now n r c u eph so \<equiv> bindM (query E (\<lambda>es. channel_by_uuid es c)) (\<lambda>channel.
            case channel of
              None \<Rightarrow> throw (NoSuchChannelException c)
            | Some ch \<Rightarrow>
                bindM (s_add E (E_room (new_room r n (ch_id ch) so now eph))) (\<lambda>k.
                thenM (whenM (rv_count_joins E) (thenM (s_add E (E_join
                         \<lparr>jo_room_id = r, jo_room_name = n, jo_amount = 0\<rparr>)) (ret ())))
                (thenM (s_add E (E_room_role (new_place_role k u)))
                       (s_commit E))))"

abbreviation create_session :: "int \<Rightarrow> string \<Rightarrow> string \<Rightarrow> string \<Rightarrow> string \<Rightarrow> bool \<Rightarrow> int \<Rightarrow> (('s, unit) rw, unit) op" where
  "create_session now n r c u eph so \<equiv> with_session E (create_body now n r c u eph so)"

lemma session_without_channel:
  assumes "roles_world w" "\<nexists>ch. E_channel ch \<in> stored w \<and> ch_uuid ch = c"
  shows "\<exists>w'. create_session now n r c u eph so w = (Inl (NoSuchChannelException c), w') \<and> roles_world w' \<and> stored w' = stored w"
proof -
  have w: "clean w" "roles_ok (stored w)" using assms(1) by (simp_all add: world_iff)
  let ?es = "sq_rows (rv_sql E) (rw_sql w)"
  have none: "channel_by_uuid ?es c = None"
    using assms(2) found_channel [of ?es c] w(1) unfolding clean_def by (cases "channel_by_uuid ?es c") auto
  let ?m = "create_body now n r c u eph so"
  have m: "?m w = (Inl (NoSuchChannelException c), w)" using none by (simp add: session_simps op_simps)
  obtain w1 where "with_session E ?m w = (Inl (NoSuchChannelException c), w1)" "clean w1" "stored w1 = stored w"
    using session_fails [of ?m, OF m] by blast
  then show ?thesis using w by (auto simp: world_iff)
qed

lemma session_with_channel:
  assumes w: "roles_world w" "\<not> has_room (stored w) r" and ch: "E_channel ch \<in> stored w" "ch_uuid ch = c"
    and joins: "rv_count_joins E \<Longrightarrow> \<forall>j. E_join j \<in> stored w \<longrightarrow> jo_room_id j \<noteq> r"
  shows "\<exists>ch k i w'. create_session now n r c u eph so w = (Inr (), w') \<and> roles_world w' \<and>
    E_channel ch \<in> stored w \<and> ch_uuid ch = c \<and> (\<forall>q. E_room q \<in> stored w \<longrightarrow> ro_id q \<noteq> k) \<and>
    stored w' = stored w \<union> {E_room ((new_room r n (ch_id ch) so now eph)\<lparr>ro_id := k\<rparr>),
      E_room_role ((new_place_role k u)\<lparr>rl_id := i\<rparr>)} \<union> join_counter E r n \<and>
    has_room (stored w') r \<and> holds_room (stored w') r u role_owner"
proof -
  let ?D = "stored w" and ?es = "sq_rows (rv_sql E) (rw_sql w)"
  have D: "clean w" "roles_ok ?D" "seen w = ?D" using w(1) by (auto simp: world_iff clean_def)
  then obtain ch where some: "channel_by_uuid ?es c = Some ch"
    using ch by (cases "channel_by_uuid ?es c") (auto simp: channel_by_uuid_def find_none)
  then have ch: "E_channel ch \<in> ?D" "ch_uuid ch = c" using found_channel [OF some] D(3) by simp_all
  let ?r = "\<lambda>k. (new_room r n (ch_id ch) so now eph)\<lparr>ro_id := k\<rparr>" and ?a = "\<lambda>k i. (new_place_role k u)\<lparr>rl_id := i\<rparr>"
  let ?fill = "\<lambda>ch. bindM (s_add E (E_room (new_room r n (ch_id ch) so now eph))) (\<lambda>k.
    thenM (whenM (rv_count_joins E) (thenM (s_add E (E_join \<lparr>jo_room_id = r, jo_room_name = n, jo_amount = 0\<rparr>)) (ret ())))
    (thenM (s_add E (E_room_role (new_place_role k u))) (s_commit E)))"
  obtain k i w3 where w3: "?fill ch w = (Inr (), w3)"
    "stored w3 = ?D \<union> {E_room (?r k), E_room_role (?a k i)} \<union> join_counter E r n" "\<forall>q. E_room q \<in> ?D \<longrightarrow> ro_id q \<noteq> k"
    using room_rows_added [OF D(3,2) w(2), of n "ch_id ch" so now eph u] joins by blast
  let ?m = "create_body now n r c u eph so"
  have m: "?m w = (Inr (), w3)" using some w3(1) by (simp add: session_simps)
  obtain w4 where w4: "create_session now n r c u eph so w = (Inr (), w4)" "clean w4" "stored w4 = stored w3"
    using session_ok [of ?m, OF m] by blast
  have ru: "ro_uuid (?r k) = r" by (simp add: new_room_def)
  have rows: "E_room q \<in> stored w3 \<longleftrightarrow> q = ?r k \<or> E_room q \<in> ?D"
    "E_room_role p \<in> stored w3 \<longleftrightarrow> p = ?a k i \<or> E_room_role p \<in> ?D" for q p
    unfolding w3(2) join_counter_def by auto
  have "roles_ok (stored w3)" and owner: "holds_room (stored w3) r u role_owner"
    using roles_ok_new_room [OF D(2), of "?r k" "?a k i" u "stored w3"] w(2) w3(3) rows
    by (auto simp: ru new_room_def new_place_role_def)
  then have world: "roles_world w4" using w4(2,3) by (simp add: world_iff)
  have known: "has_room (stored w4) r" unfolding w4(3) has_room_def using rows ru by blast
  show ?thesis
    by (rule exI [of _ ch], rule exI [of _ k], rule exI [of _ i], rule exI [of _ w4])
      (intro conjI w4(1) world ch w3(3) trans [OF w4(3) w3(2)] known owner [folded w4(3)])
qed

lemma create_room_steps:
  assumes w: "roles_world w" and named: "\<not> none_or_blank name"
  shows "\<exists>w1. clean w1 \<and> seen w1 = stored w \<and> sql_create_room E now name r c u eph so hidden w =
    (if has_room (stored w) r then throw (RoomExistsException r)
     else if \<exists>q. E_room q \<in> stored w \<and> ro_name q = the name then throw (RoomNameExistsForChannelException c (the name))
     else thenM (create_session now (the name) r c u eph so) (if hidden then ret () else thenM (ret ()) (sql_set_owner E r u))) w1"
proof -
  let ?D = "stored w" and ?n = "the name"
  have D: "clean w" "seen w = ?D" using w by (auto simp: world_iff clean_def)
  obtain w1 where w1: "sql_room_exists E c r w = (Inr (has_room ?D r), w1)" "clean w1" "seen w1 = ?D"
    using create_checks_run(1) [OF D] by blast
  obtain w2 where w2: "sql_room_name_exists E c ?n w1 = (Inr (\<exists>q. E_room q \<in> ?D \<and> ro_name q = ?n), w2)" "clean w2" "seen w2 = ?D"
    using create_checks_run(2) [OF w1(2,3)] by blast
  show ?thesis
  proof (cases "has_room ?D r")
    case True
    then have "sql_create_room E now name r c u eph so hidden w = throw (RoomExistsException r) w1"
      by (simp only: sql_create_room_def bindM_def [of "sql_room_exists E c r"] named w1(1) if_False if_True prod.case sum.case)
    with True w1(2,3) show ?thesis by (intro exI [of _ w1]) simp
  next
    case False
    show ?thesis
      by (rule exI [of _ w2], intro conjI w2(2,3))
        (simp only: sql_create_room_def nothing_cached bindM_def [of "sql_room_exists E c r"] named w1(1) False
          bindM_def [of "sql_room_name_exists E c n" for n] w2(1) if_False prod.case sum.case)
  qed
qed

lemma create_room_rows:
  assumes w: "roles_world w" and joins: "rv_count_joins E \<Longrightarrow> \<forall>j. E_join j \<in> stored w \<longrightarrow> jo_room_id j \<noteq> r"
  shows "case sql_create_room_error (stored w) name r c of
      Some e \<Rightarrow> \<exists>w'. sql_create_room E now name r c u eph so hidden w = (Inl e, w') \<and> roles_world w' \<and> stored w' = stored w
    | None \<Rightarrow> \<exists>ch k i w'. sql_create_room E now name r c u eph so hidden w = (Inr (), w') \<and> roles_world w' \<and>
        E_channel ch \<in> stored w \<and> ch_uuid ch = c \<and> (\<forall>q. E_room q \<in> stored w \<longrightarrow> ro_id q \<noteq> k) \<and>
        stored w' = stored w \<union> {E_room ((new_room r (the name) (ch_id ch) so now eph)\<lparr>ro_id := k\<rparr>),
          E_room_role ((new_place_role k u)\<lparr>rl_id := i\<rparr>)} \<union> join_counter E r (the name) \<and>
        holds_room (stored w') r u role_owner"
proof (cases "none_or_blank name")
  case True
  with w show ?thesis by (simp add: sql_create_room_error_def sql_create_room_def op_simps)
next
  case named: False
  let ?D = "stored w" and ?n = "the name"
  let ?last = "if hidden then ret () else thenM (ret ()) (sql_set_owner E r u)"
  obtain w1 where w1: "clean w1" "seen w1 = ?D" and run: "sql_create_room E now name r c u eph so hidden w =
    (if has_room (stored w) r then throw (RoomExistsException r)
     else if \<exists>q. E_room q \<in> stored w \<and> ro_name q = ?n then throw (RoomNameExistsForChannelException c ?n)
     else thenM (create_session now ?n r c u eph so) ?last) w1"
    using create_room_steps [OF w named] by blast
  have s1: "stored w1 = ?D" and world1: "roles_world w1" using w1 w by (auto simp: world_iff clean_def)
  consider "has_room ?D r \<or> (\<exists>q. E_room q \<in> ?D \<and> ro_name q = ?n)"
    | "\<not> has_room ?D r" "\<not> (\<exists>q. E_room q \<in> ?D \<and> ro_name q = ?n)" "\<nexists>ch. E_channel ch \<in> ?D \<and> ch_uuid ch = c"
    | ch where "\<not> has_room ?D r" "\<not> (\<exists>q. E_room q \<in> ?D \<and> ro_name q = ?n)" "E_channel ch \<in> ?D" "ch_uuid ch = c" by blast
  then show ?thesis
  proof cases
    case 1
    with run named s1 world1 show ?thesis by (auto simp: sql_create_room_error_def throw_run)
  next
    case 2
    obtain w2 where w2: "create_session now ?n r c u eph so w1 = (Inl (NoSuchChannelException c), w2)" "roles_world w2" "stored w2 = ?D"
      using session_without_channel [OF world1, of c] 2(3) unfolding s1 by blast
    have "sql_create_room E now name r c u eph so hidden w = (Inl (NoSuchChannelException c), w2)"
      unfolding run by (simp only: 2(1,2) if_False thenM_def [of "with_session E m" for m]
          bindM_def [of "with_session E m" for m] w2(1) prod.case sum.case)
    moreover have "sql_create_room_error ?D name r c = Some (NoSuchChannelException c)"
      using named 2 by (auto simp: sql_create_room_error_def)
    ultimately show ?thesis using w2(2,3) by simp
  next
    case 3
    obtain ch k i w4 where w4: "create_session now ?n r c u eph so w1 = (Inr (), w4)" "roles_world w4"
      "E_channel ch \<in> ?D" "ch_uuid ch = c" "\<forall>q. E_room q \<in> ?D \<longrightarrow> ro_id q \<noteq> k"
      "stored w4 = ?D \<union> {E_room ((new_room r ?n (ch_id ch) so now eph)\<lparr>ro_id := k\<rparr>),
        E_room_role ((new_place_role k u)\<lparr>rl_id := i\<rparr>)} \<union> join_counter E r ?n"
      "has_room (stored w4) r" "holds_room (stored w4) r u role_owner"
      using session_with_channel [where r = r and ch = ch and c = c and now = now and n = ?n and u = u and eph = eph and so = so, OF world1] 3 joins unfolding s1 by blast
    obtain w5 where w5: "?last w4 = (Inr (), w5)" "roles_world w5" "stored w5 = stored w4"
    proof (cases hidden)
      case True
      with that w4(2) show thesis by (simp add: ret_run)
    next
      case False
      with set_owner_again [OF w4(2,7,8)] that show thesis by (auto simp: thenM_def bindM_ret)
    qed
    have run': "sql_create_room E now name r c u eph so hidden w = (Inr (), w5)"
      unfolding run by (simp only: 3(1,2) if_False thenM_def [of "with_session E m" for m]
          bindM_def [of "with_session E m" for m] w4(1) w5(1) prod.case sum.case)
    have none: "sql_create_room_error ?D name r c = None" using named 3 by (auto simp: sql_create_room_error_def)
    show ?thesis unfolding none option.case
      by (rule exI [of _ ch], rule exI [of _ k], rule exI [of _ i], rule exI [of _ w5])
        (intro conjI run' w5(2) w4(3,4,5) trans [OF w5(3) w4(6)] w4(8) [folded w5(3)])
  qed
qed

end

interpretation memory_uncached: rdb_uncached memory_rdenv mem_saved
  using memory_rdb_roles.rdb_roles_axioms by (simp add: rdb_uncached_def rdb_uncached_axioms_def memory_rdenv_def)

end
