(* ===== verification/Rdb_Acls.thy ===== *)
theory Rdb_Acls
  imports Rdb_Rooms Acl_Rules
begin

section \<open>The relational database: access control lists\<close>

text \<open>
  Fifth part of \<open>DatabaseRdbms\<close>: the rules of rooms and channels, a row for each, with the action, the
  type and the value, and the validation values of the configuration table. As for the Redis
  database the validators come from the configuration, and running out of the fuel of the evaluator of patterns
  is the result \<open>None\<close>.
\<close>

subsection \<open>The rules of the configuration\<close>

definition acls_for_target_and_action :: "acl_config \<Rightarrow> string \<Rightarrow> string \<Rightarrow> exc + string list" where
  "acls_for_target_and_action cfg target action = (case map_of (ac_targets cfg) target of
     None \<Rightarrow> Inr []
   | Some for_target \<Rightarrow> (case map_of for_target action of
       None \<Rightarrow> Inl (InvalidApiActionException action)
     | Some for_action \<Rightarrow> (case map_of for_action ''acls'' of None \<Rightarrow> Inr [] | Some acls \<Rightarrow> Inr acls)))"

text \<open>Whether a new value is valid, else the message.\<close>

definition sql_validate_acl :: "nat \<Rightarrow> acl_config \<Rightarrow> string \<Rightarrow> string \<Rightarrow> ('w, string option option) op" where
  "sql_validate_acl fuel cfg acl_type acl_value =
     catchM (bindM (lift_result (validator_of cfg acl_type)) (\<lambda>v.
         bindO (case v of ValidatorValue f \<Rightarrow> validate_new_acl fuel cfg f (Some acl_value)
                | _ \<Rightarrow> throw AttributeError) (\<lambda>_. ret (Some None))))
       (\<lambda>e. case e of ValidationException msg \<Rightarrow> Some (ret (Some (Some msg))) | _ \<Rightarrow> None)"

subsection \<open>Adding\<close>

text \<open>The rules of the action that are there already get their new value, which is not validated.\<close>

definition to_update :: "acl_row list \<Rightarrow> string \<Rightarrow> dict \<Rightarrow> (acl_row \<times> string) list" where
  "to_update existing action new_acls = [(a, v). a \<leftarrow> existing, al_action a = action, Some v \<leftarrow> [map_of new_acls (al_type a)]]"

text \<open>The loop over the rules that are new.\<close>

fun new_rules :: "nat \<Rightarrow> acl_config \<Rightarrow> string \<Rightarrow> string \<Rightarrow> dict \<Rightarrow> ('w, dict option) op" where
  "new_rules fuel cfg target action [] = ret (Some [])"
| "new_rules fuel cfg target action ((acl_type, acl_value) # rest) =
     bindM (lift_result (acls_for_target_and_action cfg target action)) (\<lambda>allowed.
     if acl_type \<notin> set allowed then throw (InvalidAclTypeException acl_type)
     else bindO (sql_validate_acl fuel cfg acl_type acl_value) (\<lambda>invalid.
       case invalid of
         Some msg \<Rightarrow> throw (ValidationException msg)
       | None \<Rightarrow> bindO (new_rules fuel cfg target action rest) (\<lambda>more. ret (Some ((acl_type, acl_value) # more)))))"

definition sql_add_acls :: "nat \<Rightarrow> acl_config \<Rightarrow> ('s, 'c) rdenv \<Rightarrow> acl_row list \<Rightarrow> string \<Rightarrow> string \<Rightarrow> dict \<Rightarrow>
    (('s, 'c) rw, dict option) op" where
  "sql_add_acls fuel cfg E existing target action new_acls =
     (let updates = to_update existing action new_acls
      in thenM (iterM (\<lambda>(a, v). s_save E (E_acl a) (E_acl (a\<lparr>al_value := v\<rparr>))) updates)
         (new_rules fuel cfg target action
            (filter (\<lambda>(t, _). t \<notin> set (map (al_type \<circ> fst) updates)) new_acls)))"

definition new_acl :: "nat option \<Rightarrow> nat option \<Rightarrow> string \<Rightarrow> string \<times> string \<Rightarrow> acl_row" where
  "new_acl room channel action tv = \<lparr>al_id = 0, al_room_id = room, al_channel_id = channel, al_action = action,
     al_type = fst tv, al_value = snd tv\<rparr>"

definition sql_add_acls_in_room_for_action :: "nat \<Rightarrow> acl_config \<Rightarrow> ('s, 'c) rdenv \<Rightarrow> string \<Rightarrow> string \<Rightarrow> dict \<Rightarrow>
    (('s, 'c) rw, unit option) op" where
  "sql_add_acls_in_room_for_action fuel cfg E room_id action new_acls =
     (if new_acls = [] then ret (Some ())
      else thenM (sql_get_room_name E room_id)
        (bindO (with_session E (bindM (query E (\<lambda>es. room_by_uuid es room_id)) (\<lambda>room.
            case room of
              None \<Rightarrow> throw AttributeError
            | Some r \<Rightarrow> bindM (query E (\<lambda>es. filter (\<lambda>a. al_room_id a = Some (ro_id r)) (all_acls es))) (\<lambda>existing.
                bindO (sql_add_acls fuel cfg E existing ''room'' action new_acls) (\<lambda>to_add.
                thenM (iterM (\<lambda>tv. thenM (s_add E (E_acl (new_acl (Some (ro_id r)) None action tv))) (ret ())) to_add)
                (thenM (s_commit E) (ret (Some ()))))))))
          (\<lambda>_. thenM (on_cache (kc_reset_acls_in_room_for_action (c_acls E) room_id action))
               (thenM (on_cache (kc_reset_acls_in_room (c_acls E) room_id)) (ret (Some ()))))))"

definition sql_add_acls_in_channel_for_action :: "nat \<Rightarrow> acl_config \<Rightarrow> ('s, 'c) rdenv \<Rightarrow> string \<Rightarrow> string \<Rightarrow> dict \<Rightarrow>
    (('s, 'c) rw, unit option) op" where
  "sql_add_acls_in_channel_for_action fuel cfg E channel_id action new_acls =
     (if new_acls = [] then ret (Some ())
      else thenM (sql_get_channel_name E channel_id)
        (bindO (with_session E (bindM (query E (\<lambda>es. channel_by_uuid es channel_id)) (\<lambda>channel.
            case channel of
              None \<Rightarrow> throw AttributeError
            | Some c \<Rightarrow> bindM (query E (\<lambda>es. filter (\<lambda>a. al_channel_id a = Some (ch_id c)) (all_acls es))) (\<lambda>existing.
                bindO (sql_add_acls fuel cfg E existing ''channel'' action new_acls) (\<lambda>to_add.
                thenM (iterM (\<lambda>tv. thenM (s_add E (E_acl (new_acl None (Some (ch_id c)) action tv))) (ret ())) to_add)
                (thenM (s_commit E) (ret (Some ()))))))))
          (\<lambda>_. thenM (on_cache (kc_reset_acls_in_channel_for_action (c_acls E) channel_id action))
               (thenM (on_cache (kc_reset_acls_in_channel (c_acls E) channel_id)) (ret (Some ()))))))"

definition sql_update_acl_in_room_for_action :: "nat \<Rightarrow> acl_config \<Rightarrow> ('s, 'c) rdenv \<Rightarrow> string \<Rightarrow> string \<Rightarrow> string \<Rightarrow>
    string \<Rightarrow> string \<Rightarrow> (('s, 'c) rw, unit option) op" where
  "sql_update_acl_in_room_for_action fuel cfg E channel_id room_id action acl_type acl_value =
     thenM (sql_get_channel_name E channel_id)
           (sql_add_acls_in_room_for_action fuel cfg E room_id action [(acl_type, acl_value)])"

definition sql_update_acl_in_channel_for_action :: "nat \<Rightarrow> acl_config \<Rightarrow> ('s, 'c) rdenv \<Rightarrow> string \<Rightarrow> string \<Rightarrow>
    string \<Rightarrow> string \<Rightarrow> (('s, 'c) rw, unit option) op" where
  "sql_update_acl_in_channel_for_action fuel cfg E channel_id action acl_type acl_value =
     sql_add_acls_in_channel_for_action fuel cfg E channel_id action [(acl_type, acl_value)]"

subsection \<open>Deleting\<close>

text \<open>The first rule of the type goes, whatever its action is.\<close>

definition sql_delete_acl_in_room_for_action ::
  "('s, 'c) rdenv \<Rightarrow> string \<Rightarrow> string \<Rightarrow> string \<Rightarrow> (('s, 'c) rw, unit) op" where
  "sql_delete_acl_in_room_for_action E room_id acl_type action =
     (if action \<notin> set all_api_actions then throw (InvalidApiActionException action)
      else thenM (with_session E (bindM (query E (\<lambda>es. room_by_uuid es room_id)) (\<lambda>room.
          case room of
            None \<Rightarrow> throw (NoSuchRoomException room_id)
          | Some _ \<Rightarrow> bindM (query E (\<lambda>es. find (\<lambda>a. al_type a = acl_type \<and>
                (\<exists>r \<in> set (all_rooms es). ro_uuid r = room_id \<and> al_room_id a = Some (ro_id r))) (all_acls es))) (\<lambda>found.
              case found of None \<Rightarrow> ret ()
              | Some a \<Rightarrow> thenM (s_delete E (E_acl a)) (s_commit E)))))
        (thenM (on_cache (kc_reset_acls_in_room_for_action (c_acls E) room_id action))
               (on_cache (kc_reset_acls_in_room (c_acls E) room_id))))"

definition sql_delete_acl_in_channel_for_action ::
  "('s, 'c) rdenv \<Rightarrow> string \<Rightarrow> string \<Rightarrow> string \<Rightarrow> (('s, 'c) rw, unit) op" where
  "sql_delete_acl_in_channel_for_action E channel_id acl_type action =
     (if action \<notin> set all_api_actions then throw (InvalidApiActionException action)
      else thenM (with_session E (bindM (query E (\<lambda>es. channel_by_uuid es channel_id)) (\<lambda>channel.
          case channel of
            None \<Rightarrow> throw (NoSuchChannelException channel_id)
          | Some _ \<Rightarrow> bindM (query E (\<lambda>es. find (\<lambda>a. al_type a = acl_type \<and>
                (\<exists>c \<in> set (all_channels es). ch_uuid c = channel_id \<and> al_channel_id a = Some (ch_id c))) (all_acls es))) (\<lambda>found.
              case found of None \<Rightarrow> ret ()
              | Some a \<Rightarrow> thenM (s_delete E (E_acl a)) (s_commit E)))))
        (thenM (on_cache (kc_reset_acls_in_channel_for_action (c_acls E) channel_id action))
               (on_cache (kc_reset_acls_in_channel (c_acls E) channel_id))))"

subsection \<open>Reading\<close>

text \<open>\<open>acls[action][type] = value\<close> for one rule after the other.\<close>

definition group_rules :: "acl_row list \<Rightarrow> acl_dict" where
  "group_rules rows = fold (\<lambda>a out. AList.update (al_action a)
     (AList.update (al_type a) (al_value a) (case map_of out (al_action a) of None \<Rightarrow> [] | Some d \<Rightarrow> d)) out) rows []"

definition rules_for_action :: "string \<Rightarrow> acl_row list \<Rightarrow> dict" where
  "rules_for_action action rows =
     fold (\<lambda>a d. AList.update (al_type a) (al_value a) d) (filter (\<lambda>a. al_action a = action) rows) []"

definition acls_of_room :: "db_row list \<Rightarrow> room_row \<Rightarrow> acl_row list" where
  "acls_of_room es r = filter (\<lambda>a. al_room_id a = Some (ro_id r)) (all_acls es)"

definition acls_of_channel :: "db_row list \<Rightarrow> channel_row \<Rightarrow> acl_row list" where
  "acls_of_channel es c = filter (\<lambda>a. al_channel_id a = Some (ch_id c)) (all_acls es)"

definition room_acls_else ::
  "('s, 'c) rdenv \<Rightarrow> string \<Rightarrow> (acl_row list \<Rightarrow> 'a) \<Rightarrow> (('s, 'c) rw, 'a) op" where
  "room_acls_else E room_id f = with_session E (bindM (query E (\<lambda>es. room_by_uuid es room_id)) (\<lambda>room.
     case room of None \<Rightarrow> throw (NoSuchRoomException room_id)
     | Some r \<Rightarrow> query E (\<lambda>es. f (acls_of_room es r))))"

definition channel_acls_else ::
  "('s, 'c) rdenv \<Rightarrow> string \<Rightarrow> (acl_row list \<Rightarrow> 'a) \<Rightarrow> (('s, 'c) rw, 'a) op" where
  "channel_acls_else E channel_id f = with_session E (bindM (query E (\<lambda>es. channel_by_uuid es channel_id)) (\<lambda>channel.
     case channel of None \<Rightarrow> throw (NoSuchChannelException channel_id)
     | Some c \<Rightarrow> query E (\<lambda>es. f (acls_of_channel es c))))"

definition sql_get_all_acls_room :: "('s, 'c) rdenv \<Rightarrow> string \<Rightarrow> (('s, 'c) rw, acl_dict) op" where
  "sql_get_all_acls_room E room_id =
     or_else (on_cache (kc_get_all_acls_for_room (c_acls E) room_id))
     (bindM (room_acls_else E room_id group_rules) (\<lambda>value.
      thenM (on_cache (kc_set_all_acls_for_room (c_acls E) room_id value)) (ret value)))"

definition sql_get_all_acls_channel :: "('s, 'c) rdenv \<Rightarrow> string \<Rightarrow> (('s, 'c) rw, acl_dict) op" where
  "sql_get_all_acls_channel E channel_id =
     or_else (on_cache (kc_get_all_acls_for_channel (c_acls E) channel_id))
     (bindM (channel_acls_else E channel_id group_rules) (\<lambda>value.
      thenM (on_cache (kc_set_all_acls_for_channel (c_acls E) channel_id value)) (ret value)))"

definition sql_get_acls_in_room_for_action :: "('s, 'c) rdenv \<Rightarrow> string \<Rightarrow> string \<Rightarrow> (('s, 'c) rw, dict) op" where
  "sql_get_acls_in_room_for_action E room_id action =
     or_else (on_cache (kc_get_acls_in_room_for_action (c_acls E) room_id action))
     (bindM (room_acls_else E room_id (rules_for_action action)) (\<lambda>value.
      thenM (on_cache (kc_set_acls_in_room_for_action (c_acls E) room_id action value)) (ret value)))"

definition sql_get_acls_in_channel_for_action :: "('s, 'c) rdenv \<Rightarrow> string \<Rightarrow> string \<Rightarrow> (('s, 'c) rw, dict) op" where
  "sql_get_acls_in_channel_for_action E channel_id action =
     or_else (on_cache (kc_get_acls_in_channel_for_action (c_acls E) channel_id action))
     (bindM (channel_acls_else E channel_id (rules_for_action action)) (\<lambda>value.
      thenM (on_cache (kc_set_acls_in_channel_for_action (c_acls E) channel_id action value)) (ret value)))"

definition sql_get_room_acls_for_action :: "('s, 'c) rdenv \<Rightarrow> string \<Rightarrow> (('s, 'c) rw, (string \<times> dict) list) op" where
  "sql_get_room_acls_for_action E action =
     or_else (on_cache (kc_get_room_acls_for_action (c_acls E) action))
     (bindM (with_session E (query E (\<lambda>es. fold (\<lambda>r d. AList.update (ro_uuid r) (rules_for_action action (acls_of_room es r)) d)
        (filter (\<lambda>r. list_ex (\<lambda>a. al_action a = action) (acls_of_room es r)) (all_rooms es)) []))) (\<lambda>value.
      thenM (on_cache (kc_set_room_acls_for_action (c_acls E) action value)) (ret value)))"

definition sql_get_all_permanent_rooms :: "('s, 'c) rdenv \<Rightarrow> (('s, 'c) rw, (string \<times> acl_dict) list) op" where
  "sql_get_all_permanent_rooms E =
     or_else (on_cache (oc_get_all_permanent_rooms (c_rooms E)))
     (bindM (with_session E (bindM (query E (\<lambda>es. filter (\<lambda>r. \<not> ro_ephemeral r) (all_rooms es))) (\<lambda>rooms.
        foldM (\<lambda>d r. bindM (sql_get_all_acls_room E (ro_uuid r)) (\<lambda>acls. ret (AList.update (ro_uuid r) acls d))) [] rooms))) (\<lambda>all.
      thenM (on_cache (oc_set_all_permanent_rooms (c_rooms E) all)) (ret all)))"

subsection \<open>Values of the configuration table\<close>

definition sql_get_acl_validation_value ::
  "('s, 'c) rdenv \<Rightarrow> string option \<Rightarrow> string option \<Rightarrow> (('s, 'c) rw, string) op" where
  "sql_get_acl_validation_value E acl_type validation_method =
     (if none_or_blank acl_type then throw (InvalidAclTypeException (fmt acl_type))
      else if none_or_blank validation_method
      then throw (InvalidAclValueException (the acl_type) (fmt validation_method))
      else bindM (with_session E (query E (\<lambda>es.
          find (\<lambda>a. af_type a = the acl_type \<and> af_method a = the validation_method) (all_acl_configs es)))) (\<lambda>found.
        case found of
          None \<Rightarrow> throw (AclValueNotFoundException (the acl_type) (the validation_method))
        | Some a \<Rightarrow> if blank (af_value a) then throw (AclValueNotFoundException (the acl_type) (the validation_method))
            else ret (af_value a)))"

end
