(* ===== verification/Rdb_Bans.thy ===== *)
theory Rdb_Bans
  imports Rdb_Rooms Db_Bans
begin

section \<open>The relational database: bans and mutes\<close>

text \<open>
  Sixth part of \<open>DatabaseRdbms\<close>: bans from everything, from a channel and from a room are rows of one
  table, mutes rows of another one, and both are kept in the cache as texts. \<open>now\<close> is
  \<open>datetime.utcnow()\<close> in microseconds; a stored time is a naive local time. What the source writes
  into a text of the cache is given as that text: \<open>None\<close>, a number or a date as Python prints them.
\<close>

subsection \<open>Values as Python prints them\<close>

fun unpack3 :: "'a list option \<Rightarrow> exc + 'a \<times> 'a \<times> 'a" where
  "unpack3 None = Inl TypeError"
| "unpack3 (Some [x, y, z]) = Inr (x, y, z)"
| "unpack3 (Some _) = Inl ValueError"

fun unpack2 :: "'a list option \<Rightarrow> exc + 'a \<times> 'a" where
  "unpack2 None = Inl TypeError"
| "unpack2 (Some [x, y]) = Inr (x, y)"
| "unpack2 (Some _) = Inl ValueError"

definition pad_to :: "nat \<Rightarrow> int \<Rightarrow> string" where
  "pad_to n i = (let s = str_int i in replicate (n - length s) (CHR ''0'') @ s)"

text \<open>\<open>str\<close> of a \<open>float\<close> of whole microseconds, and of a \<open>datetime\<close>.\<close>

definition float_text :: "int \<Rightarrow> string" where
  "float_text us = (let a = \<bar>us\<bar>; f = rev (dropWhile (\<lambda>c. c = CHR ''0'') (rev (pad_to 6 (a mod micro))))
     in (if us < 0 then ''-'' else []) @ str_int (a div micro) @ ''.'' @ (if f = [] then ''0'' else f))"

definition datetime_text :: "int \<Rightarrow> string" where
  "datetime_text us = (let secs = us div micro; (y, m, d) = civil_date (secs div 86400); s = secs mod 86400; f = us mod micro
     in pad_to 4 y @ ''-'' @ pad2 m @ ''-'' @ pad2 d @ '' '' @ pad2 (s div 3600) @ '':'' @ pad2 (s mod 3600 div 60) @ '':'' @
        pad2 (s mod 60) @ (if f = 0 then [] else ''.'' @ pad_to 6 f))"

text \<open>\<open>str((time - now).seconds)\<close>: the days are not part of it.\<close>

definition seconds_left :: "int \<Rightarrow> int \<Rightarrow> string" where
  "seconds_left now time = str_int ((time - now) div micro mod 86400)"

text \<open>\<open>datetime.fromtimestamp(float(s))\<close> and \<open>datetime.fromtimestamp(int(s))\<close>.\<close>

definition time_of_float :: "int \<Rightarrow> string \<Rightarrow> exc + int" where
  "time_of_float tz s = (case py_float s of None \<Rightarrow> Inl ValueError | Some us \<Rightarrow> naive_from_timestamp tz us)"

definition time_of_int :: "int \<Rightarrow> string \<Rightarrow> exc + int" where
  "time_of_int tz s = (case py_int s of None \<Rightarrow> Inl ValueError | Some n \<Rightarrow> naive_from_timestamp tz (n * micro))"

subsection \<open>Rows\<close>

definition in_channel :: "db_row list \<Rightarrow> string \<Rightarrow> ban_row \<Rightarrow> bool" where
  "in_channel es channel_id b \<longleftrightarrow> list_ex (\<lambda>c. ch_uuid c = channel_id \<and> bn_channel_id b = Some (ch_id c)) (all_channels es)"

definition in_room :: "db_row list \<Rightarrow> string \<Rightarrow> ban_row \<Rightarrow> bool" where
  "in_room es room_id b \<longleftrightarrow> list_ex (\<lambda>r. ro_uuid r = room_id \<and> bn_room_id b = Some (ro_id r)) (all_rooms es)"

definition find_global_ban :: "db_row list \<Rightarrow> string \<Rightarrow> ban_row option" where
  "find_global_ban es user_id = find (\<lambda>b. bn_is_global b \<and> bn_user_id b = user_id) (all_ban_rows es)"

definition find_channel_ban :: "db_row list \<Rightarrow> string \<Rightarrow> string \<Rightarrow> ban_row option" where
  "find_channel_ban es channel_id user_id =
     find (\<lambda>b. in_channel es channel_id b \<and> \<not> bn_is_global b \<and> bn_user_id b = user_id) (all_ban_rows es)"

definition find_room_ban :: "db_row list \<Rightarrow> string \<Rightarrow> string \<Rightarrow> ban_row option" where
  "find_room_ban es room_id user_id =
     find (\<lambda>b. in_room es room_id b \<and> \<not> bn_is_global b \<and> bn_user_id b = user_id) (all_ban_rows es)"

definition find_mute :: "db_row list \<Rightarrow> string \<Rightarrow> string \<Rightarrow> mute_row option" where
  "find_mute es room_id user_id = find (\<lambda>m. mt_room_id m = room_id \<and> mt_user_id m = user_id) (all_mutes es)"

type_synonym ban_triple = "string option \<times> int option \<times> string option"

definition ban_triple :: "ban_row option \<Rightarrow> ban_triple" where
  "ban_triple b = (case b of None \<Rightarrow> (None, None, None)
     | Some r \<Rightarrow> (Some (bn_duration r), Some (bn_timestamp r), bn_user_name r))"

definition sql_get_global_ban_timestamp :: "('s, 'c) rdenv \<Rightarrow> string \<Rightarrow> (('s, 'c) rw, ban_triple) op" where
  "sql_get_global_ban_timestamp E user_id = with_session E (query E (\<lambda>es. ban_triple (find_global_ban es user_id)))"

definition sql_get_channel_ban_timestamp ::
  "('s, 'c) rdenv \<Rightarrow> string \<Rightarrow> string \<Rightarrow> (('s, 'c) rw, ban_triple) op" where
  "sql_get_channel_ban_timestamp E channel_id user_id =
     with_session E (query E (\<lambda>es. ban_triple (find_channel_ban es channel_id user_id)))"

definition sql_get_room_ban_timestamp ::
  "('s, 'c) rdenv \<Rightarrow> string \<Rightarrow> string \<Rightarrow> (('s, 'c) rw, ban_triple) op" where
  "sql_get_room_ban_timestamp E room_id user_id =
     with_session E (query E (\<lambda>es. ban_triple (find_room_ban es room_id user_id)))"

definition sql_get_room_mute_timestamp ::
  "('s, 'c) rdenv \<Rightarrow> string \<Rightarrow> string \<Rightarrow> (('s, 'c) rw, string option \<times> int option) op" where
  "sql_get_room_mute_timestamp E room_id user_id =
     with_session E (query E (\<lambda>es. case find_mute es room_id user_id of None \<Rightarrow> (None, None)
       | Some m \<Rightarrow> (Some (mt_duration m), Some (mt_timestamp m))))"

subsection \<open>Lifting\<close>

text \<open>The entry of the cache is emptied inside the session, before the row is looked for.\<close>

definition delete_ban :: "('s, 'c) rdenv \<Rightarrow> (('s, 'c) rw, unit) op \<Rightarrow> (db_row list \<Rightarrow> ban_row option) \<Rightarrow> (('s, 'c) rw, unit) op" where
  "delete_ban E clear pick = with_session E (thenM clear (bindM (query E pick) (\<lambda>ban.
     case ban of None \<Rightarrow> ret () | Some b \<Rightarrow> thenM (s_delete E (E_ban b)) (s_commit E))))"

definition sql_remove_global_ban :: "('s, 'c) rdenv \<Rightarrow> string \<Rightarrow> (('s, 'c) rw, unit) op" where
  "sql_remove_global_ban E user_id =
     delete_ban E (on_cache (bc_set_global_ban (c_bans E) user_id [] [] [])) (\<lambda>es. find_global_ban es user_id)"

definition sql_remove_channel_ban :: "('s, 'c) rdenv \<Rightarrow> string \<Rightarrow> string \<Rightarrow> (('s, 'c) rw, unit) op" where
  "sql_remove_channel_ban E channel_id user_id =
     delete_ban E (on_cache (bc_set_channel_ban (c_bans E) channel_id user_id [] [] []))
       (\<lambda>es. find_channel_ban es channel_id user_id)"

definition sql_remove_room_ban :: "('s, 'c) rdenv \<Rightarrow> string \<Rightarrow> string \<Rightarrow> (('s, 'c) rw, unit) op" where
  "sql_remove_room_ban E room_id user_id =
     delete_ban E (on_cache (bc_set_room_ban (c_bans E) room_id user_id [] [] []))
       (\<lambda>es. find_room_ban es room_id user_id)"

definition sql_remove_room_mute :: "('s, 'c) rdenv \<Rightarrow> string \<Rightarrow> string \<Rightarrow> (('s, 'c) rw, bool) op" where
  "sql_remove_room_mute E room_id user_id = with_session E
     (thenM (on_cache (bc_set_room_mute (c_bans E) room_id user_id [] []))
     (bindM (query E (\<lambda>es. find_mute es room_id user_id)) (\<lambda>mute.
      case mute of None \<Rightarrow> ret False
      | Some m \<Rightarrow> thenM (s_delete E (E_mute m)) (thenM (s_commit E) (ret True)))))"

subsection \<open>Asking\<close>

text \<open>
  The three checks have the same shape: a time of the cache is read as a number of seconds; else the
  row is asked for, and its time written to the cache as \<open>shown\<close> says. Only the global check writes
  the number of seconds; the other two write the date.
\<close>

definition check_banned :: "('s, 'c) rdenv \<Rightarrow> int \<Rightarrow> (('s, 'c) rw, string option list option) op \<Rightarrow>
    (string \<Rightarrow> string \<Rightarrow> string \<Rightarrow> (('s, 'c) rw, unit) op) \<Rightarrow> (('s, 'c) rw, ban_triple) op \<Rightarrow>
    (('s, 'c) rw, unit) op \<Rightarrow> (int \<Rightarrow> string) \<Rightarrow> (('s, 'c) rw, bool \<times> string option) op" where
  "check_banned E now cached store load lift shown =
     bindM cached (\<lambda>entry.
     bindM (lift_result (unpack3 entry)) (\<lambda>(_, time, _).
     if \<not> none_or_blank time
     then bindM (lift_result (time_of_float (rv_tz E) (the time))) (\<lambda>end.
          if now > end then thenM lift (ret (False, None))
          else ret (True, Some (seconds_left now end)))
     else bindM load (\<lambda>(duration, time, username).
          case time of
            None \<Rightarrow> thenM (store [] [] []) (ret (False, None))
          | Some end \<Rightarrow>
              if now > end then thenM lift (ret (False, None))
              else thenM (store (fmt duration) (shown end) (fmt username))
                     (ret (True, Some (seconds_left now end))))))"

definition sql_is_banned_globally :: "('s, 'c) rdenv \<Rightarrow> int \<Rightarrow> string \<Rightarrow> (('s, 'c) rw, bool \<times> string option) op" where
  "sql_is_banned_globally E now user_id =
     check_banned E now (on_cache (bc_get_global_ban (c_bans E) user_id))
       (\<lambda>d t n. on_cache (bc_set_global_ban (c_bans E) user_id d t n))
       (sql_get_global_ban_timestamp E user_id) (sql_remove_global_ban E user_id)
       (datetime_to_timestamp (rv_tz E))"

definition sql_is_banned_from_channel ::
  "('s, 'c) rdenv \<Rightarrow> int \<Rightarrow> string \<Rightarrow> string \<Rightarrow> (('s, 'c) rw, bool \<times> string option) op" where
  "sql_is_banned_from_channel E now channel_id user_id =
     check_banned E now (on_cache (bc_get_channel_ban (c_bans E) channel_id user_id))
       (\<lambda>d t n. on_cache (bc_set_channel_ban (c_bans E) channel_id user_id d t n))
       (sql_get_channel_ban_timestamp E channel_id user_id) (sql_remove_channel_ban E channel_id user_id)
       datetime_text"

definition sql_is_banned_from_room ::
  "('s, 'c) rdenv \<Rightarrow> int \<Rightarrow> string \<Rightarrow> string \<Rightarrow> (('s, 'c) rw, bool \<times> string option) op" where
  "sql_is_banned_from_room E now room_id user_id =
     check_banned E now (on_cache (bc_get_room_ban (c_bans E) room_id user_id))
       (\<lambda>d t n. on_cache (bc_set_room_ban (c_bans E) room_id user_id d t n))
       (sql_get_room_ban_timestamp E room_id user_id) (sql_remove_room_ban E room_id user_id)
       datetime_text"

text \<open>A time on its way through \<open>get_user_ban_status\<close>: a text of the cache, or seconds as a number.\<close>

datatype time_value = TimeText string | TimeNum int

fun time_text :: "time_value \<Rightarrow> string" where
  "time_text (TimeText s) = s"
| "time_text (TimeNum us) = float_text us"

definition no_time :: "time_value \<Rightarrow> bool" where
  "no_time t \<longleftrightarrow> t = TimeText [] \<or> t = TimeNum 0"

text \<open>\<open>now > datetime.fromtimestamp(int(float(the_time)))\<close>.\<close>

definition has_passed :: "int \<Rightarrow> int \<Rightarrow> time_value \<Rightarrow> exc + bool" where
  "has_passed tz now t = (case (case t of TimeText s \<Rightarrow> py_float s | TimeNum us \<Rightarrow> Some us) of
     None \<Rightarrow> Inl ValueError
   | Some us \<Rightarrow> (case naive_from_timestamp tz (trunc_seconds us * micro) of Inl e \<Rightarrow> Inl e | Inr end \<Rightarrow> Inr (now > end)))"

text \<open>
  The two steps for each kind of ban: a time that the cache does not have is loaded and stored, with
  \<open>absent\<close> for duration and name when there is no ban; a time that has passed lifts the ban.
\<close>

definition load_time :: "('s, 'c) rdenv \<Rightarrow> string option \<Rightarrow> (('s, 'c) rw, ban_triple) op \<Rightarrow> string option \<Rightarrow>
    (string \<Rightarrow> string \<Rightarrow> string \<Rightarrow> (('s, 'c) rw, unit) op) \<Rightarrow> (('s, 'c) rw, time_value) op" where
  "load_time E cached load absent store = (case cached of
     Some s \<Rightarrow> ret (TimeText s)
   | None \<Rightarrow> bindM load (\<lambda>(duration, time, username). case time of
       None \<Rightarrow> thenM (store (fmt absent) [] (fmt absent)) (ret (TimeText []))
     | Some t \<Rightarrow> let v = TimeNum (naive_to_timestamp (rv_tz E) t)
         in thenM (store (fmt duration) (time_text v) (fmt username)) (ret v)))"

definition lift_if_passed :: "('s, 'c) rdenv \<Rightarrow> int \<Rightarrow> (('s, 'c) rw, unit) op \<Rightarrow> time_value \<Rightarrow> (('s, 'c) rw, time_value) op" where
  "lift_if_passed E now lift t =
     bindM (if t = TimeText [] then ret t
            else bindM (lift_result (has_passed (rv_tz E) now t)) (\<lambda>passed.
                 if passed then thenM lift (ret (TimeText [])) else ret t)) (\<lambda>t.
     ret (if no_time t then TimeText [] else t))"

definition sql_get_user_ban_status ::
  "('s, 'c) rdenv \<Rightarrow> int \<Rightarrow> string \<Rightarrow> string \<Rightarrow> (('s, 'c) rw, time_value \<times> time_value \<times> time_value) op" where
  "sql_get_user_ban_status E now room_id user_id =
     bindM (sql_channel_for_room E (Some room_id)) (\<lambda>channel_id.
     bindM (on_cache (bc_get_global_ban (c_bans E) user_id)) (\<lambda>g.
     bindM (lift_result (unpack3 g)) (\<lambda>(_, gtime, _).
     bindM (on_cache (bc_get_channel_ban (c_bans E) channel_id user_id)) (\<lambda>c.
     bindM (lift_result (unpack3 c)) (\<lambda>(_, ctime, _).
     bindM (on_cache (bc_get_room_ban (c_bans E) room_id user_id)) (\<lambda>r.
     bindM (lift_result (unpack3 r)) (\<lambda>(_, rtime, _).
     bindM (load_time E gtime (sql_get_global_ban_timestamp E user_id) (Some [])
              (\<lambda>d t n. on_cache (bc_set_global_ban (c_bans E) user_id d t n))) (\<lambda>gtime.
     bindM (load_time E ctime (sql_get_channel_ban_timestamp E channel_id user_id) (Some [])
              (\<lambda>d t n. on_cache (bc_set_channel_ban (c_bans E) channel_id user_id d t n))) (\<lambda>ctime.
     bindM (load_time E rtime (sql_get_room_ban_timestamp E room_id user_id) None
              (\<lambda>d t n. on_cache (bc_set_room_ban (c_bans E) room_id user_id d t n))) (\<lambda>rtime.
     bindM (lift_if_passed E now (sql_remove_global_ban E user_id) gtime) (\<lambda>gtime.
     bindM (lift_if_passed E now (sql_remove_channel_ban E channel_id user_id) ctime) (\<lambda>ctime.
     bindM (lift_if_passed E now (sql_remove_room_ban E room_id user_id) rtime) (\<lambda>rtime.
     ret (gtime, ctime, rtime))))))))))))))"

definition sql_get_user_mute_status ::
  "('s, 'c) rdenv \<Rightarrow> int \<Rightarrow> string \<Rightarrow> string \<Rightarrow> (('s, 'c) rw, time_value) op" where
  "sql_get_user_mute_status E now room_id user_id =
     bindM (on_cache (bc_get_room_mute (c_bans E) room_id user_id)) (\<lambda>entry.
     bindM (lift_result (unpack2 entry)) (\<lambda>(_, rtime).
     bindM (load_time E rtime
              (bindM (sql_get_room_mute_timestamp E room_id user_id) (\<lambda>(d, t). ret (d, t, None))) None
              (\<lambda>d t n. on_cache (bc_set_room_mute (c_bans E) room_id user_id d t))) (\<lambda>rtime.
     lift_if_passed E now (thenM (sql_remove_room_mute E room_id user_id) (ret ())) rtime)))"

subsection \<open>Reasons and lists\<close>

definition reason_of_ban :: "ban_row option \<Rightarrow> string option" where
  "reason_of_ban b = (case b of None \<Rightarrow> Some [] | Some r \<Rightarrow> bn_reason r)"

definition sql_get_reason_for_ban_global :: "('s, 'c) rdenv \<Rightarrow> string \<Rightarrow> (('s, 'c) rw, string option) op" where
  "sql_get_reason_for_ban_global E user_id =
     thenM (sql_get_user_name E user_id False)
           (with_session E (query E (\<lambda>es. reason_of_ban (find_global_ban es user_id))))"

text \<open>
  The ban is joined with its room and the channel is not joined at all, so any ban of the user from
  a room will do as soon as there is a channel with the id.
\<close>

definition sql_get_reason_for_ban_channel :: "('s, 'c) rdenv \<Rightarrow> string \<Rightarrow> string \<Rightarrow> (('s, 'c) rw, string option) op" where
  "sql_get_reason_for_ban_channel E user_id channel_id =
     thenM (sql_get_user_name E user_id False)
           (with_session E (query E (\<lambda>es. reason_of_ban (find (\<lambda>b. bn_user_id b = user_id \<and> \<not> bn_is_global b \<and>
              list_ex (\<lambda>r. bn_room_id b = Some (ro_id r)) (all_rooms es) \<and>
              list_ex (\<lambda>c. ch_uuid c = channel_id) (all_channels es)) (all_ban_rows es)))))"

definition sql_get_reason_for_ban_room :: "('s, 'c) rdenv \<Rightarrow> string \<Rightarrow> string \<Rightarrow> (('s, 'c) rw, string option) op" where
  "sql_get_reason_for_ban_room E user_id room_id =
     thenM (sql_get_user_name E user_id False)
           (with_session E (query E (\<lambda>es. reason_of_ban (find_room_ban es room_id user_id))))"

record shown_mute =
  mq_room_id :: string
  mq_room_name :: "string option"
  mq_muter :: "string option"
  mq_duration :: string
  mq_reason :: "string option"
  mq_timestamp :: string

record shown_ban =
  sb_name :: "string option"
  sb_duration :: string
  sb_reason :: "string option"
  sb_timestamp :: string

definition encoded :: "bool \<Rightarrow> string option \<Rightarrow> string option" where
  "encoded encode s = (if encode \<and> s \<noteq> None \<and> s \<noteq> Some [] then Some (b64e s) else s)"

definition shown_of_mute :: "bool \<Rightarrow> mute_row \<Rightarrow> shown_mute" where
  "shown_of_mute encode m = \<lparr>mq_room_id = mt_room_id m, mq_room_name = encoded encode (mt_room_name m),
     mq_muter = mt_muter_id m, mq_duration = mt_duration m, mq_reason = encoded encode (mt_reason m),
     mq_timestamp = date_text (mt_timestamp m)\<rparr>"

definition shown_of_ban :: "bool \<Rightarrow> ban_row \<Rightarrow> shown_ban" where
  "shown_of_ban encode b = \<lparr>sb_name = encoded encode (bn_user_name b), sb_duration = bn_duration b,
     sb_reason = encoded encode (bn_reason b), sb_timestamp = date_text (bn_timestamp b)\<rparr>"

text \<open>Rows that are over are deleted on the way, and that is committed at the end.\<close>

definition unexpired :: "('s, 'c) rdenv \<Rightarrow> int \<Rightarrow> ('r \<Rightarrow> db_row) \<Rightarrow> ('r \<Rightarrow> int) \<Rightarrow> ('r \<Rightarrow> string) \<Rightarrow> ('r \<Rightarrow> 'v) \<Rightarrow> 'r list \<Rightarrow>
    (('s, 'c) rw, (string \<times> 'v) list) op" where
  "unexpired E now C time user shown rows =
     bindM (foldM (\<lambda>(out, should_commit) r.
         if now > time r then thenM (s_delete E (C r)) (ret (out, True))
         else ret (AList.update (user r) (shown r) out, should_commit)) ([], False) rows) (\<lambda>(out, should_commit).
     thenM (whenM should_commit (s_commit E)) (ret out))"

definition sql_get_banned_users_global :: "('s, 'c) rdenv \<Rightarrow> int \<Rightarrow> (('s, 'c) rw, (string \<times> shown_ban) list) op" where
  "sql_get_banned_users_global E now = with_session E
     (bindM (query E (\<lambda>es. filter bn_is_global (all_ban_rows es)))
       (unexpired E now E_ban bn_timestamp bn_user_id (shown_of_ban False)))"

definition sql_get_banned_users_for_channel ::
  "('s, 'c) rdenv \<Rightarrow> int \<Rightarrow> string \<Rightarrow> (('s, 'c) rw, (string \<times> shown_ban) list) op" where
  "sql_get_banned_users_for_channel E now channel_id = with_session E
     (bindM (query E (\<lambda>es. filter (in_channel es channel_id) (all_ban_rows es)))
       (unexpired E now E_ban bn_timestamp bn_user_id (shown_of_ban False)))"

definition sql_get_banned_users_for_room ::
  "('s, 'c) rdenv \<Rightarrow> int \<Rightarrow> string \<Rightarrow> bool \<Rightarrow> (('s, 'c) rw, (string \<times> shown_ban) list) op" where
  "sql_get_banned_users_for_room E now room_id encode = with_session E
     (bindM (query E (\<lambda>es. filter (in_room es room_id) (all_ban_rows es)))
       (unexpired E now E_ban bn_timestamp bn_user_id (shown_of_ban encode)))"

definition sql_get_muted_users_for_room ::
  "('s, 'c) rdenv \<Rightarrow> int \<Rightarrow> string \<Rightarrow> bool \<Rightarrow> (('s, 'c) rw, (string \<times> shown_mute) list) op" where
  "sql_get_muted_users_for_room E now room_id encode = with_session E
     (bindM (query E (\<lambda>es. filter (\<lambda>m. mt_room_id m = room_id) (all_mutes es)))
       (unexpired E now E_mute mt_timestamp mt_user_id (shown_of_mute encode)))"

definition sql_get_mutes_for_user :: "('s, 'c) rdenv \<Rightarrow> string \<Rightarrow> (('s, 'c) rw, (string \<times> shown_mute) list) op" where
  "sql_get_mutes_for_user E user_id = with_session E (query E (\<lambda>es.
     fold (\<lambda>m d. AList.update (mt_room_id m) \<lparr>mq_room_id = mt_room_id m, mq_room_name = Some (b64e (mt_room_name m)),
         mq_muter = mt_muter_id m, mq_duration = mt_duration m, mq_reason = Some (b64e (mt_reason m)),
         mq_timestamp = date_text (mt_timestamp m)\<rparr> d) (filter (\<lambda>m. mt_user_id m = user_id) (all_mutes es)) []))"

text \<open>The room and the channel of a ban, when they are there.\<close>

definition room_of_ban :: "db_row list \<Rightarrow> ban_row \<Rightarrow> room_row option" where
  "room_of_ban es b = find (\<lambda>r. bn_room_id b = Some (ro_id r)) (all_rooms es)"

definition channel_of_ban :: "db_row list \<Rightarrow> ban_row \<Rightarrow> channel_row option" where
  "channel_of_ban es b = find (\<lambda>c. bn_channel_id b = Some (ch_id c)) (all_channels es)"

record 'v bans_of =
  bo_global :: 'v
  bo_channel :: "(string \<times> string \<times> 'v) list"
  bo_room :: "(string \<times> string \<times> 'v) list"

definition sql_get_bans_for_user ::
  "('s, 'c) rdenv \<Rightarrow> string \<Rightarrow> (('s, 'c) rw, (string \<times> string) option bans_of) op" where
  "sql_get_bans_for_user E user_id = with_session E (query E (\<lambda>es.
     fold (\<lambda>b out. let info = Some (bn_duration b, date_text (bn_timestamp b)) in
         case room_of_ban es b of
           Some r \<Rightarrow> out\<lparr>bo_room := AList.update (ro_uuid r) (b64e (Some (ro_name r)), info) (bo_room out)\<rparr>
         | None \<Rightarrow> (case channel_of_ban es b of
             Some c \<Rightarrow> out\<lparr>bo_channel := AList.update (ch_uuid c) (b64e (Some (ch_name c)), info) (bo_channel out)\<rparr>
           | None \<Rightarrow> if bn_is_global b then out\<lparr>bo_global := info\<rparr> else out))
       (filter (\<lambda>b. bn_user_id b = user_id) (all_ban_rows es)) \<lparr>bo_global = None, bo_channel = [], bo_room = []\<rparr>))"

text \<open>
  All bans, with the names of the users: looking up a name that the cache does not have gives the
  session back in the middle of the loop, and with it what was deleted so far.
\<close>

type_synonym user_bans = "(string \<times> string \<times> string \<times> string) list"

definition add_user_ban :: "string \<Rightarrow> string \<Rightarrow> string \<Rightarrow> ban_row \<Rightarrow> (string \<times> string \<times> user_bans) list \<Rightarrow>
    (string \<times> string \<times> user_bans) list" where
  "add_user_ban place place_name user_name b out =
     (let (name, users) = (case map_of out place of None \<Rightarrow> (b64e (Some place_name), []) | Some x \<Rightarrow> x)
      in AList.update place (name, AList.update (bn_user_id b) (user_name, bn_duration b, date_text (bn_timestamp b)) users) out)"

definition sql_get_banned_users :: "('s, 'c) rdenv \<Rightarrow> int \<Rightarrow> (('s, 'c) rw, user_bans bans_of) op" where
  "sql_get_banned_users E now = with_session E
     (bindM (query E (\<lambda>es. map (\<lambda>b. (b, room_of_ban es b, channel_of_ban es b)) (all_ban_rows es))) (\<lambda>bans.
      bindM (foldM (\<lambda>(out, should_commit) (b, room, channel).
          if now > bn_timestamp b then thenM (s_delete E (E_ban b)) (ret (out, True))
          else (case room of
            Some r \<Rightarrow> bindM (sql_get_user_name E (bn_user_id b) False) (\<lambda>n.
              ret (out\<lparr>bo_room := add_user_ban (ro_uuid r) (ro_name r) (b64e (Some n)) b (bo_room out)\<rparr>, should_commit))
          | None \<Rightarrow> (case channel of
              Some c \<Rightarrow> bindM (sql_get_user_name E (bn_user_id b) False) (\<lambda>n.
                ret (out\<lparr>bo_channel := add_user_ban (ch_uuid c) (ch_name c) (b64e (Some n)) b (bo_channel out)\<rparr>, should_commit))
            | None \<Rightarrow>
                if bn_is_global b
                then bindM (catchM (sql_get_user_name E (bn_user_id b) False)
                       (\<lambda>e. case e of NoSuchUserException _ \<Rightarrow> Some (ret ''[unknown]'') | _ \<Rightarrow> None)) (\<lambda>n.
                  ret (out\<lparr>bo_global := AList.update (bn_user_id b)
                    (b64e (Some n), bn_duration b, date_text (bn_timestamp b)) (bo_global out)\<rparr>, should_commit))
                else ret (out, should_commit))))
        (\<lparr>bo_global = [], bo_channel = [], bo_room = []\<rparr>, False) bans) (\<lambda>(out, should_commit).
      thenM (whenM should_commit (s_commit E)) (ret out))))"

subsection \<open>Banning and muting\<close>

definition decode_reason :: "string option \<Rightarrow> string" where
  "decode_reason reason = (if none_or_blank reason then [] else b64d reason)"

definition name_or_empty :: "('s, 'c) rdenv \<Rightarrow> string \<Rightarrow> (('s, 'c) rw, string) op" where
  "name_or_empty E user_id = catchM (sql_get_user_name E user_id False)
     (\<lambda>e. case e of NoSuchUserException _ \<Rightarrow> Some (ret []) | _ \<Rightarrow> None)"

definition new_ban :: "string \<Rightarrow> string \<Rightarrow> string \<Rightarrow> string option \<Rightarrow> string option \<Rightarrow> nat option \<Rightarrow> nat option \<Rightarrow> bool \<Rightarrow>
    string \<Rightarrow> int \<Rightarrow> ban_row" where
  "new_ban uuid user_id username reason banner_id room channel global duration time =
     \<lparr>bn_id = 0, bn_uuid = uuid, bn_user_id = user_id, bn_user_name = Some username, bn_duration = duration,
      bn_timestamp = time, bn_reason = Some (decode_reason reason), bn_banner_id = banner_id,
      bn_room_id = room, bn_channel_id = channel, bn_is_global = global\<rparr>"

text \<open>A new row, or the new end of the ban that is there.\<close>

definition put_ban :: "('s, 'c) rdenv \<Rightarrow> ban_row option \<Rightarrow> string \<Rightarrow> int \<Rightarrow> ban_row \<Rightarrow> (('s, 'c) rw, unit) op" where
  "put_ban E found duration time fresh = (case found of
     None \<Rightarrow> thenM (s_add E (E_ban fresh)) (ret ())
   | Some b \<Rightarrow> s_save E (E_ban b) (E_ban (b\<lparr>bn_timestamp := time, bn_duration := duration\<rparr>)))"

definition sql_ban_user_global :: "('s, 'c) rdenv \<Rightarrow> string \<Rightarrow> string \<Rightarrow> string \<Rightarrow> string \<Rightarrow> string option \<Rightarrow>
    string option \<Rightarrow> (('s, 'c) rw, unit) op" where
  "sql_ban_user_global E new_uuid user_id ban_timestamp ban_duration reason banner_id = with_session E
     (bindM (query E (\<lambda>es. find_global_ban es user_id)) (\<lambda>ban.
      bindM (name_or_empty E user_id) (\<lambda>username.
      bindM (sql_get_user_name E user_id False) (\<lambda>name.
      thenM (on_cache (bc_set_global_ban (c_bans E) user_id ban_duration ban_timestamp name))
      (bindM (lift_result (time_of_int (rv_tz E) ban_timestamp)) (\<lambda>time.
       thenM (put_ban E ban ban_duration time
                (new_ban new_uuid user_id username reason banner_id None None True ban_duration time))
             (s_commit E)))))))"

definition sql_mute_user :: "('s, 'c) rdenv \<Rightarrow> string \<Rightarrow> string \<Rightarrow> string \<Rightarrow> string \<Rightarrow> string option \<Rightarrow> string option \<Rightarrow>
    string option \<Rightarrow> (('s, 'c) rw, unit) op" where
  "sql_mute_user E room_id user_id mute_duration mute_timestamp room_name muter_id reason =
     thenM (on_cache (bc_set_room_mute (c_bans E) room_id user_id mute_duration mute_timestamp))
     (with_session E (bindM (query E (\<lambda>es. find_mute es room_id user_id)) (\<lambda>mute.
      bindM (lift_result (time_of_int (rv_tz E) mute_timestamp)) (\<lambda>time.
      thenM (case mute of
          None \<Rightarrow> thenM (s_add E (E_mute \<lparr>mt_id = 0, mt_user_id = user_id, mt_duration = mute_duration, mt_timestamp = time,
              mt_reason = Some (decode_reason reason), mt_muter_id = muter_id, mt_room_id = room_id, mt_room_name = room_name\<rparr>))
            (ret ())
        | Some m \<Rightarrow> s_save E (E_mute m) (E_mute (m\<lparr>mt_timestamp := time, mt_duration := mute_duration\<rparr>)))
        (s_commit E)))))"

text \<open>The membership of the user in the first room with the id where a user of that id is.\<close>

definition membership_to_end :: "db_row list \<Rightarrow> string \<Rightarrow> string \<Rightarrow> member_row option" where
  "membership_to_end es room_id user_id =
     Option.bind (find (\<lambda>r. ro_uuid r = room_id \<and> user_id \<in> set (map us_uuid (users_of_room es r))) (all_rooms es)) (\<lambda>r.
     Option.bind (user_by_uuid es user_id) (\<lambda>u.
     find (\<lambda>m. m = \<lparr>me_room_id = ro_id r, me_user_id = us_id u\<rparr>) (all_members es)))"

text \<open>Any ban of the user from the room is taken up, and the user leaves the room.\<close>

definition put_room_ban :: "('s, 'c) rdenv \<Rightarrow> string \<Rightarrow> string \<Rightarrow> string \<Rightarrow> string \<Rightarrow> string \<Rightarrow> string \<Rightarrow> string option \<Rightarrow>
    string option \<Rightarrow> (('s, 'c) rw, unit) op" where
  "put_room_ban E new_uuid username user_id ban_timestamp ban_duration room_id reason banner_id = with_session E
     (bindM (query E (\<lambda>es. find (\<lambda>b. bn_user_id b = user_id \<and> in_room es room_id b) (all_ban_rows es))) (\<lambda>ban.
      bindM (query E (\<lambda>es. map_option ro_id (room_by_uuid es room_id))) (\<lambda>room.
      bindM (lift_result (time_of_int (rv_tz E) ban_timestamp)) (\<lambda>time.
      bindM (query E (\<lambda>es. membership_to_end es room_id user_id)) (\<lambda>membership.
      thenM (case membership of None \<Rightarrow> ret () | Some m \<Rightarrow> s_delete E (E_member m))
      (thenM (put_ban E ban ban_duration time
                (new_ban new_uuid user_id username reason banner_id room None False ban_duration time))
             (s_commit E)))))))"

definition sql_ban_user_room :: "('s, 'c) rdenv \<Rightarrow> string \<Rightarrow> string \<Rightarrow> string \<Rightarrow> string \<Rightarrow> string \<Rightarrow> string option \<Rightarrow>
    string option \<Rightarrow> (('s, 'c) rw, unit) op" where
  "sql_ban_user_room E new_uuid user_id ban_timestamp ban_duration room_id reason banner_id =
     thenM (catchM (sql_channel_for_room E (Some room_id))
       (\<lambda>e. case e of NoChannelFoundException _ \<Rightarrow> Some (throw (NoSuchRoomException room_id)) | _ \<Rightarrow> None))
     (bindM (name_or_empty E user_id) (\<lambda>username.
      thenM (on_cache (oc_leave_room_for_user (c_rooms E) user_id room_id))
      (bindM (sql_get_user_name E user_id False) (\<lambda>name.
       thenM (on_cache (bc_set_room_ban (c_bans E) room_id user_id ban_duration ban_timestamp name))
             (retry_stale 2 (put_room_ban E new_uuid username user_id ban_timestamp ban_duration room_id reason banner_id))))))"

text \<open>Removing elements of a list in a loop over it: the one after a removed one is passed over.\<close>

fun removed_in_loop :: "('a \<Rightarrow> bool) \<Rightarrow> 'a list \<Rightarrow> 'a list" where
  "removed_in_loop P [] = []"
| "removed_in_loop P [x] = (if P x then [x] else [])"
| "removed_in_loop P (x # y # xs) = (if P x then x # removed_in_loop P xs else removed_in_loop P (y # xs))"

definition memberships_in_channel :: "db_row list \<Rightarrow> string \<Rightarrow> string \<Rightarrow> member_row list" where
  "memberships_in_channel es channel_id user_id = (case channel_by_uuid es channel_id of
     None \<Rightarrow> []
   | Some c \<Rightarrow> concat (map (\<lambda>r. map fst (removed_in_loop (\<lambda>(_, u). us_uuid u = user_id)
       [(m, u). m \<leftarrow> all_members es, me_room_id m = ro_id r, u \<leftarrow> all_users es, us_id u = me_user_id m]))
     (filter (\<lambda>r. ro_channel_id r = ch_id c) (all_rooms es))))"

definition put_channel_ban :: "('s, 'c) rdenv \<Rightarrow> string \<Rightarrow> string \<Rightarrow> string \<Rightarrow> string \<Rightarrow> string \<Rightarrow> string \<Rightarrow> string option \<Rightarrow>
    string option \<Rightarrow> (('s, 'c) rw, unit) op" where
  "put_channel_ban E new_uuid username user_id ban_timestamp ban_duration channel_id reason banner_id = with_session E
     (bindM (query E (\<lambda>es. find (\<lambda>b. bn_user_id b = user_id \<and> in_channel es channel_id b) (all_ban_rows es))) (\<lambda>ban.
      bindM (query E (\<lambda>es. map_option ch_id (channel_by_uuid es channel_id))) (\<lambda>channel.
      bindM (lift_result (time_of_int (rv_tz E) ban_timestamp)) (\<lambda>time.
      bindM (query E (\<lambda>es. memberships_in_channel es channel_id user_id)) (\<lambda>memberships.
      thenM (iterM (\<lambda>m. s_delete E (E_member m)) memberships)
      (thenM (put_ban E ban ban_duration time
                (new_ban new_uuid user_id username reason banner_id None channel False ban_duration time))
             (s_commit E)))))))"

definition sql_ban_user_channel :: "('s, 'c) rdenv \<Rightarrow> string \<Rightarrow> string \<Rightarrow> string \<Rightarrow> string \<Rightarrow> string \<Rightarrow> string option \<Rightarrow>
    string option \<Rightarrow> (('s, 'c) rw, unit) op" where
  "sql_ban_user_channel E new_uuid user_id ban_timestamp ban_duration channel_id reason banner_id =
     bindM (sql_channel_exists E (Some channel_id)) (\<lambda>known.
     if \<not> known then throw (NoSuchChannelException channel_id)
     else bindM (name_or_empty E user_id) (\<lambda>username.
       bindM (sql_get_user_name E user_id False) (\<lambda>name.
       thenM (on_cache (bc_set_channel_ban (c_bans E) channel_id user_id ban_duration ban_timestamp name))
             (put_channel_ban E new_uuid username user_id ban_timestamp ban_duration channel_id reason banner_id))))"

end
