(* ===== verification/Rdb_Misc.thy ===== *)
theory Rdb_Misc
  imports Rdb_Bans
begin

section \<open>The relational database: spam, black list, counters and information on users\<close>

text \<open>
  Seventh part of \<open>DatabaseRdbms\<close>. The configuration of the classifier of spam is one row; every
  prediction is a row. \<open>setattr\<close> of a name that is not a column changes nothing in the database: so
  do the switch of the classifier (\<open>config.spam\<close>) and the maximal length in \<open>update_spam_config\<close>
  (\<open>config.spam_spam_max_length\<close>).
\<close>

subsection \<open>Configuration of the classifier\<close>

definition default_config :: config_row where
  "default_config = \<lparr>cf_id = 0, cf_spam_enabled = True, cf_spam_should_delete = False, cf_spam_should_save = False,
     cf_spam_min_length = 10, cf_spam_max_length = 250, cf_spam_threshold = 80, cf_spam_ignore_emoji = True\<rparr>"

definition the_config_row :: "db_row list \<Rightarrow> config_row option" where
  "the_config_row es = (case all_config es of [] \<Rightarrow> None | c # _ \<Rightarrow> Some c)"

definition sql_init_config :: "('s, 'c) rdenv \<Rightarrow> (('s, 'c) rw, unit) op" where
  "sql_init_config E = with_session E (bindM (query E the_config_row) (\<lambda>config.
     case config of Some _ \<Rightarrow> ret ()
     | None \<Rightarrow> thenM (s_add E (E_config default_config)) (s_commit E)))"

definition sql_get_service_config :: "('s, 'c) rdenv \<Rightarrow> (('s, 'c) rw, config_row) op" where
  "sql_get_service_config E = with_session E (bindM (query E the_config_row) (\<lambda>config.
     case config of None \<Rightarrow> throw AttributeError | Some c \<Rightarrow> ret c))"

text \<open>An assignment to an attribute of the row, which may be missing.\<close>

definition assign :: "config_row option \<Rightarrow> 'a option \<Rightarrow> (('s, 'c) rw, unit) op" where
  "assign config v = (if v \<noteq> None \<and> config = None then throw AttributeError else ret ())"

definition given :: "'a option \<Rightarrow> 'a \<Rightarrow> 'a" where
  "given v old = (case v of None \<Rightarrow> old | Some x \<Rightarrow> x)"

definition sql_update_spam_config :: "('s, 'c) rdenv \<Rightarrow> bool option \<Rightarrow> int option \<Rightarrow> int option \<Rightarrow> bool option \<Rightarrow> bool option \<Rightarrow>
    int option \<Rightarrow> bool option \<Rightarrow> (('s, 'c) rw, unit) op" where
  "sql_update_spam_config E enabled max_length min_length should_delete should_save threshold ignore_emoji =
     with_session E (bindM (query E the_config_row) (\<lambda>config.
       thenM (assign config enabled)
       (thenM (if \<exists>n. max_length = Some n \<and> n \<le> 0 then throw ValueError else assign config max_length)
       (thenM (if \<exists>n. min_length = Some n \<and> n < 0 then throw ValueError else assign config min_length)
       (thenM (assign config ignore_emoji)
       (thenM (assign config threshold)
       (thenM (assign config should_delete)
       (thenM (assign config should_save)
       (case config of
          None \<Rightarrow> throw UnmappedInstanceError
        | Some c \<Rightarrow> thenM (s_save E (E_config c) (E_config (c\<lparr>
              cf_spam_enabled := given enabled (cf_spam_enabled c),
              cf_spam_min_length := given min_length (cf_spam_min_length c),
              cf_spam_ignore_emoji := given ignore_emoji (cf_spam_ignore_emoji c),
              cf_spam_threshold := given threshold (cf_spam_threshold c),
              cf_spam_should_delete := given should_delete (cf_spam_should_delete c),
              cf_spam_should_save := given should_save (cf_spam_should_save c)\<rparr>)))
            (s_commit E))))))))))"

definition change_config :: "('s, 'c) rdenv \<Rightarrow> (config_row \<Rightarrow> config_row) \<Rightarrow> (('s, 'c) rw, unit) op" where
  "change_config E f = bindM (query E the_config_row) (\<lambda>config. case config of
     None \<Rightarrow> throw AttributeError
   | Some c \<Rightarrow> thenM (s_save E (E_config c) (E_config (f c))) (s_commit E))"

definition sql_disable_spam_classifier :: "('s, 'c) rdenv \<Rightarrow> (('s, 'c) rw, unit) op" where
  "sql_disable_spam_classifier E = with_session E (change_config E (\<lambda>c. c))"

definition sql_enable_spam_classifier :: "('s, 'c) rdenv \<Rightarrow> (('s, 'c) rw, unit) op" where
  "sql_enable_spam_classifier E = with_session E (change_config E (\<lambda>c. c))"

definition sql_set_spam_min_length :: "('s, 'c) rdenv \<Rightarrow> int \<Rightarrow> (('s, 'c) rw, unit) op" where
  "sql_set_spam_min_length E min_length = with_session E
     (if min_length < 0 then throw ValueError else change_config E (\<lambda>c. c\<lparr>cf_spam_min_length := min_length\<rparr>))"

definition sql_set_spam_max_length :: "('s, 'c) rdenv \<Rightarrow> int \<Rightarrow> (('s, 'c) rw, unit) op" where
  "sql_set_spam_max_length E max_length = with_session E
     (if max_length \<le> 0 then throw ValueError else change_config E (\<lambda>c. c\<lparr>cf_spam_max_length := max_length\<rparr>))"

definition sql_enable_spam_delete :: "('s, 'c) rdenv \<Rightarrow> (('s, 'c) rw, unit) op" where
  "sql_enable_spam_delete E = with_session E (change_config E (\<lambda>c. c\<lparr>cf_spam_should_delete := True\<rparr>))"

definition sql_disable_spam_delete :: "('s, 'c) rdenv \<Rightarrow> (('s, 'c) rw, unit) op" where
  "sql_disable_spam_delete E = with_session E (change_config E (\<lambda>c. c\<lparr>cf_spam_should_delete := False\<rparr>))"

definition sql_enable_spam_save :: "('s, 'c) rdenv \<Rightarrow> (('s, 'c) rw, unit) op" where
  "sql_enable_spam_save E = with_session E (change_config E (\<lambda>c. c\<lparr>cf_spam_should_save := True\<rparr>))"

definition sql_disable_spam_save :: "('s, 'c) rdenv \<Rightarrow> (('s, 'c) rw, unit) op" where
  "sql_disable_spam_save E = with_session E (change_config E (\<lambda>c. c\<lparr>cf_spam_should_save := False\<rparr>))"

subsection \<open>Predictions\<close>

definition change_spam :: "('s, 'c) rdenv \<Rightarrow> string \<Rightarrow> (spam_row \<Rightarrow> spam_row) \<Rightarrow> (('s, 'c) rw, unit) op" where
  "change_spam E message_id f =
     bindM (query E (\<lambda>es. find (\<lambda>p. spm_message_id p = Some message_id) (all_spams es))) (\<lambda>spam.
     case spam of None \<Rightarrow> ret ()
     | Some p \<Rightarrow> thenM (s_save E (E_spam p) (E_spam (f p))) (s_commit E))"

definition sql_mark_spam_deleted_if_exists :: "('s, 'c) rdenv \<Rightarrow> string \<Rightarrow> (('s, 'c) rw, unit) op" where
  "sql_mark_spam_deleted_if_exists E message_id =
     with_session E (change_spam E message_id (\<lambda>p. p\<lparr>spm_message_deleted := True\<rparr>))"

definition sql_mark_spam_not_deleted_if_exists :: "('s, 'c) rdenv \<Rightarrow> string \<Rightarrow> (('s, 'c) rw, unit) op" where
  "sql_mark_spam_not_deleted_if_exists E message_id =
     with_session E (change_spam E message_id (\<lambda>p. p\<lparr>spm_message_deleted := False\<rparr>))"

text \<open>\<open>split_into_chunks\<close>, for a positive size.\<close>

function split_into_chunks :: "nat \<Rightarrow> 'a list \<Rightarrow> 'a list list" where
  "split_into_chunks n xs = (if xs = [] \<or> n = 0 then [] else take n xs # split_into_chunks n (drop n xs))"
  by auto
termination by (relation "measure (length \<circ> snd)") auto

declare split_into_chunks.simps [simp del]

text \<open>The updates of all chunks; there is no commit.\<close>

definition sql_mark_spams_deleted_if_exists :: "('s, 'c) rdenv \<Rightarrow> string list \<Rightarrow> (('s, 'c) rw, unit) op" where
  "sql_mark_spams_deleted_if_exists E message_ids = with_session E (iterM (\<lambda>chunk.
     bindM (query E (\<lambda>es. filter (\<lambda>p. case spm_message_id p of None \<Rightarrow> False | Some i \<Rightarrow> i \<in> set chunk) (all_spams es))) (\<lambda>spams.
     iterM (\<lambda>p. s_save E (E_spam p) (E_spam (p\<lparr>spm_message_deleted := True\<rparr>))) spams)) (split_into_chunks 500 message_ids))"

definition sql_get_spam :: "('s, 'c) rdenv \<Rightarrow> nat \<Rightarrow> (('s, 'c) rw, spam_row option) op" where
  "sql_get_spam E spam_id = with_session E (query E (\<lambda>es. find (\<lambda>p. spm_id p = spam_id) (all_spams es)))"

definition sql_get_latest_spam :: "('s, 'c) rdenv \<Rightarrow> nat \<Rightarrow> (('s, 'c) rw, spam_row list) op" where
  "sql_get_latest_spam E limit =
     with_session E (query E (\<lambda>es. take limit (sort_key (\<lambda>p. - spm_time_stamp p) (all_spams es))))"

text \<open>Without a room the bounds are chained, which asks for the truth of an expression of SQL.\<close>

definition sql_get_spam_for_time_slice ::
  "('s, 'c) rdenv \<Rightarrow> string option \<Rightarrow> string option \<Rightarrow> int \<Rightarrow> int \<Rightarrow> (('s, 'c) rw, spam_row list) op" where
  "sql_get_spam_for_time_slice E room_id user_id from_time to_time = with_session E (case room_id of
     Some r \<Rightarrow> query E (\<lambda>es. filter (\<lambda>p. from_time \<le> spm_time_stamp p \<and> spm_time_stamp p \<le> to_time \<and> spm_to_uid p = r)
         (all_spams es))
   | None \<Rightarrow> throw TypeError)"

definition sql_get_spam_from :: "('s, 'c) rdenv \<Rightarrow> string \<Rightarrow> (('s, 'c) rw, spam_row list) op" where
  "sql_get_spam_from E user_id = with_session E (query E (\<lambda>es. filter (\<lambda>p. spm_from_uid p = user_id) (all_spams es)))"

definition sql_set_spam_correct_or_not :: "('s, 'c) rdenv \<Rightarrow> nat \<Rightarrow> bool \<Rightarrow> (('s, 'c) rw, unit) op" where
  "sql_set_spam_correct_or_not E spam_id correct = with_session E
     (bindM (query E (\<lambda>es. find (\<lambda>p. spm_id p = spam_id) (all_spams es))) (\<lambda>spam.
      case spam of None \<Rightarrow> throw AttributeError
      | Some p \<Rightarrow> thenM (s_save E (E_spam p) (E_spam (p\<lparr>spm_correct := correct\<rparr>))) (s_commit E)))"

definition plain_name :: "string \<Rightarrow> string" where
  "plain_name n = (if is_base64 (Some n) then b64d (Some n) else n)"

text \<open>\<open>spam_enabled\<close> is \<open>env.service_config.is_spam_classifier_enabled()\<close>; the numbers come as texts.\<close>

definition sql_save_spam_prediction :: "('s, 'c) rdenv \<Rightarrow> int \<Rightarrow> bool \<Rightarrow> string \<Rightarrow> string \<times> string \<Rightarrow> string \<times> string \<Rightarrow> string \<Rightarrow>
    string \<Rightarrow> string list \<Rightarrow> (('s, 'c) rw, unit) op" where
  "sql_save_spam_prediction E now spam_enabled activity_id actor target object_type message y_hats = with_session E
     (thenM (s_add E (E_spam \<lparr>spm_id = 0, spm_message = message, spm_message_id = Some activity_id,
          spm_message_deleted = spam_enabled, spm_from_uid = fst actor, spm_from_name = plain_name (snd actor),
          spm_to_uid = fst target, spm_to_name = plain_name (snd target), spm_object_type = object_type,
          spm_probability = join_on (CHR '','') y_hats, spm_correct = True,
          spm_time_stamp = trunc_seconds (naive_to_timestamp (rv_tz E) now)\<rparr>))
      (s_commit E))"

subsection \<open>Black list\<close>

definition sql_get_black_list :: "('s, 'c) rdenv \<Rightarrow> (('s, 'c) rw, string list) op" where
  "sql_get_black_list E =
     or_else (on_cache (ic_get_black_list (c_misc E)))
     (bindM (with_session E (query E (\<lambda>es. rv_order E (remdups (map (\<lambda>b. strip (lower (bl_word b))) (all_black es)))))) (\<lambda>words.
      thenM (whenM (words \<noteq> []) (on_cache (ic_set_black_list (c_misc E) words))) (ret words)))"

definition delete_words :: "('s, 'c) rdenv \<Rightarrow> (black_row \<Rightarrow> bool) \<Rightarrow> (('s, 'c) rw, unit) op" where
  "delete_words E P = with_session E (bindM (query E (\<lambda>es. filter P (all_black es))) (\<lambda>rows.
     thenM (iterM (\<lambda>b. s_delete E (E_black b)) rows) (s_commit E)))"

definition sql_remove_matching_word_from_blacklist :: "('s, 'c) rdenv \<Rightarrow> string option \<Rightarrow> (('s, 'c) rw, unit) op" where
  "sql_remove_matching_word_from_blacklist E word =
     (if none_or_blank word then throw ValueError
      else thenM (delete_words E (\<lambda>b. lower (bl_word b) = lower (the word)))
                 (on_cache (ic_reset_black_list (c_misc E))))"

definition sql_remove_word_from_blacklist :: "('s, 'c) rdenv \<Rightarrow> string option \<Rightarrow> (('s, 'c) rw, unit) op" where
  "sql_remove_word_from_blacklist E word_id =
     (if none_or_blank word_id then throw ValueError
      else (case py_int (the word_id) of
          None \<Rightarrow> throw ValueError
        | Some i \<Rightarrow> thenM (delete_words E (\<lambda>b. int (bl_id b) = i)) (on_cache (ic_reset_black_list (c_misc E)))))"

definition sql_add_words_to_blacklist :: "('s, 'c) rdenv \<Rightarrow> string option list \<Rightarrow> (('s, 'c) rw, unit) op" where
  "sql_add_words_to_blacklist E words = with_session E
     (bindM (query E (\<lambda>es. map (\<lambda>b. lower (bl_word b)) (all_black es))) (\<lambda>all_words.
      thenM (iterM (\<lambda>word. if none_or_blank word \<or> lower (strip (the word)) \<in> set all_words then ret ()
               else thenM (s_add E (E_black \<lparr>bl_id = 0, bl_word = the word\<rparr>)) (ret ())) words)
      (thenM (s_commit E) (on_cache (ic_reset_black_list (c_misc E))))))"

definition sql_get_black_list_with_ids :: "('s, 'c) rdenv \<Rightarrow> (('s, 'c) rw, (nat \<times> string) list) op" where
  "sql_get_black_list_with_ids E = with_session E (query E (\<lambda>es. map (\<lambda>b. (bl_id b, bl_word b)) (all_black es)))"

subsection \<open>Counters and times of reading\<close>

definition sql_increase_join_count :: "('s, 'c) rdenv \<Rightarrow> string \<Rightarrow> string \<Rightarrow> (('s, 'c) rw, unit) op" where
  "sql_increase_join_count E room_id room_name = with_session E
     (bindM (query E (\<lambda>es. find (\<lambda>j. jo_room_id j = room_id) (all_joins es))) (\<lambda>found.
      let amount = (case found of None \<Rightarrow> 1 | Some j \<Rightarrow> jo_amount j + 1)
      in thenM (on_cache (ic_set_join_count_by_id (c_misc E) room_id amount))
         (thenM (on_cache (ic_set_join_count_by_name (c_misc E) room_name amount))
         (thenM (case found of
             None \<Rightarrow> thenM (s_add E (E_join \<lparr>jo_room_id = room_id, jo_room_name = room_name, jo_amount = amount\<rparr>)) (ret ())
           | Some j \<Rightarrow> s_save E (E_join j) (E_join (j\<lparr>jo_amount := amount\<rparr>)))
           (s_commit E)))))"

definition sql_get_joins_in_room :: "('s, 'c) rdenv \<Rightarrow> string \<Rightarrow> (('s, 'c) rw, int) op" where
  "sql_get_joins_in_room E room_id =
     or_else (on_cache (ic_get_join_count_by_id (c_misc E) room_id))
     (bindM (with_session E (query E (\<lambda>es.
        case find (\<lambda>j. jo_room_id j = room_id) (all_joins es) of None \<Rightarrow> 0 | Some j \<Rightarrow> jo_amount j))) (\<lambda>n.
      thenM (on_cache (ic_set_join_count_by_id (c_misc E) room_id n)) (ret n)))"

definition sql_get_joins_in_room_by_name :: "('s, 'c) rdenv \<Rightarrow> string \<Rightarrow> (('s, 'c) rw, int) op" where
  "sql_get_joins_in_room_by_name E room_name =
     or_else (on_cache (ic_get_join_count_by_name (c_misc E) room_name))
     (bindM (with_session E (query E (\<lambda>es.
        case find (\<lambda>j. jo_room_name j = room_name) (all_joins es) of None \<Rightarrow> 0 | Some j \<Rightarrow> jo_amount j))) (\<lambda>n.
      thenM (on_cache (ic_set_join_count_by_name (c_misc E) room_name n)) (ret n)))"

definition sql_update_last_read_for :: "('s, 'c) rdenv \<Rightarrow> string list \<Rightarrow> string \<Rightarrow> int \<Rightarrow> (('s, 'c) rw, unit) op" where
  "sql_update_last_read_for E users room_id time_stamp = with_session E
     (thenM (iterM (\<lambda>user_id.
        bindM (query E (\<lambda>es. find (\<lambda>l. lr_user_id l = user_id \<and> lr_room_uuid l = room_id) (all_last_reads es))) (\<lambda>found.
        case found of
          None \<Rightarrow> thenM (s_add E (E_last_read
            \<lparr>lr_id = 0, lr_room_uuid = room_id, lr_user_id = user_id, lr_time_stamp = time_stamp\<rparr>)) (ret ())
        | Some l \<Rightarrow> s_save E (E_last_read l) (E_last_read (l\<lparr>lr_time_stamp := time_stamp\<rparr>)))) (rv_order E users))
      (s_commit E))"

definition sql_get_last_read_timestamp :: "('s, 'c) rdenv \<Rightarrow> string \<Rightarrow> string \<Rightarrow> (('s, 'c) rw, int option) op" where
  "sql_get_last_read_timestamp E room_id user_id = with_session E (query E (\<lambda>es.
     map_option lr_time_stamp (find (\<lambda>l. lr_user_id l = user_id \<and> lr_room_uuid l = room_id) (all_last_reads es))))"

subsection \<open>Information on users\<close>

text \<open>What \<open>to_dict\<close> shows, and what \<open>set_user_info\<close> stores; the two lists are not the same.\<close>

definition info_shown :: "string list" where
  "info_shown = [''avatar'', ''app_avatar'', ''app_avatar_safe'', ''age'', ''gender'', ''membership'', ''group'', ''city'',
     ''has_webcam'', ''fake_checked'', ''is_streaming'', ''enabled_safe'']"

definition info_stored :: "string list" where
  "info_stored = [''avatar'', ''app_avatar'', ''app_avatar_safe'', ''age'', ''gender'', ''membership'', ''group'', ''country'',
     ''has_webcam'', ''fake_checked'', ''is_streaming'', ''enabled_safe'']"

definition info_value :: "user_info_row \<Rightarrow> string \<Rightarrow> string option" where
  "info_value r k = Option.bind (map_of (ui_fields r) k) (\<lambda>v. v)"

definition info_to_dict :: "user_info_row \<Rightarrow> dict" where
  "info_to_dict r = (''user_id'', ui_user_id r) # map (\<lambda>k. (k, case info_value r k of None \<Rightarrow> [] | Some s \<Rightarrow> s)) info_shown"

text \<open>\<open>auth\<close> is \<open>env.auth.get_user_info\<close>.\<close>

definition sql_get_user_infos :: "('s, 'c) rdenv \<Rightarrow> (string \<Rightarrow> dict) \<Rightarrow> string list \<Rightarrow> (('s, 'c) rw, (string \<times> dict) list) op" where
  "sql_get_user_infos E auth user_ids =
     (let not_found = filter (\<lambda>u. auth u = []) user_ids;
          infos = map (\<lambda>u. (u, auth u)) (filter (\<lambda>u. auth u \<noteq> []) user_ids) @ map (\<lambda>u. (u, [])) not_found
      in if not_found = [] then ret infos
         else bindM (catchM (with_session E (query E (\<lambda>es.
                map (\<lambda>r. (ui_user_id r, info_to_dict r)) (filter (\<lambda>r. ui_user_id r \<in> set not_found) (all_user_info es)))))
              (\<lambda>_. Some (ret (map (\<lambda>u. (u, [])) not_found)))) (\<lambda>found.
            ret (fold (\<lambda>(u, d) out. AList.update u d out) found infos)))"

text \<open>A column must not be null: \<open>last_login\<close>. Every error is only logged.\<close>

definition sql_set_user_info :: "('s, 'c) rdenv \<Rightarrow> string \<Rightarrow> dict \<Rightarrow> int option \<Rightarrow> (('s, 'c) rw, unit) op" where
  "sql_set_user_info E user_id user_info last_login = swallow_all (with_session E
     (bindM (query E (\<lambda>es. find (\<lambda>r. ui_user_id r = user_id) (all_user_info es))) (\<lambda>found.
      let stored = map (\<lambda>k. (k, map_of user_info k)) info_stored
      in case last_login of
           None \<Rightarrow> throw IntegrityError
         | Some t \<Rightarrow>
             thenM (case found of
                 None \<Rightarrow> thenM (s_add E (E_user_info \<lparr>ui_id = 0, ui_user_id = user_id, ui_fields = stored, ui_last_login = t\<rparr>)) (ret ())
               | Some r \<Rightarrow> s_save E (E_user_info r) (E_user_info (r\<lparr>
                   ui_fields := stored @ filter (\<lambda>(k, _). k \<notin> set info_stored) (ui_fields r), ui_last_login := t\<rparr>)))
             (s_commit E))))"

definition sql_get_avatars_for :: "('s, 'c) rdenv \<Rightarrow> string list \<Rightarrow>
    (('s, 'c) rw, (string \<times> string option \<times> string option \<times> string option) list) op" where
  "sql_get_avatars_for E user_ids = mapM (\<lambda>user_id.
     bindM (on_cache (ic_get_avatar_for (c_misc E) user_id)) (\<lambda>avatars.
     case avatars of
       Some a \<Rightarrow> ret (user_id, a)
     | None \<Rightarrow> bindM (with_session E (query E (\<lambda>es. find (\<lambda>r. ui_user_id r = user_id) (all_user_info es)))) (\<lambda>found.
         case found of
           None \<Rightarrow> ret (user_id, (Some [], Some [], Some []))
         | Some r \<Rightarrow> let a = (info_value r ''avatar'', info_value r ''app_avatar'', info_value r ''app_avatar_safe'')
             in thenM (on_cache (ic_set_avatar_for (c_misc E) user_id a)) (ret (user_id, a))))) user_ids"

end
