(* ===== verification/Rdb_Ban_Facts.thy ===== *)
theory Rdb_Ban_Facts
  imports Rdb_Room_Facts Rdb_Acls Rdb_Misc Keeps
begin

section \<open>Bans, rules and spam in the relational database\<close>

text \<open>
  What a global ban, the deletion of a rule and the changes of the configuration and of the
  predictions of the classifier do to the committed rows.
\<close>

lemma with_id_ban [simp]: "with_id k (E_ban b) = E_ban (b\<lparr>bn_id := k\<rparr>)"
  "clashes (E_ban b) e \<longleftrightarrow> (\<exists>b'. e = E_ban b' \<and> bn_uuid b = bn_uuid b')"
  "after_delete (E_acl a) e = Some e" "needs e (E_acl a) = False"
  by (auto simp: clashes_def after_delete_def needs_def split: db_row.splits)

subsection \<open>Spam\<close>

context rdb_session begin

text \<open>Nothing but a commit changes the committed rows.\<close>

abbreviation same_stored :: "('s, 'c) rw \<Rightarrow> ('s, 'c) rw \<Rightarrow> bool" where
  "same_stored w w' \<equiv> stored w' = stored w"

lemma same_stored_relation: "state_relation same_stored"
  by unfold_locales auto

lemmas stored_basic = state_relation.keeps_basic [OF same_stored_relation]
lemmas stored_bindM = state_relation.keeps_bindM [OF same_stored_relation]

lemma stored_query: "keeps same_stored (query E f)"
  by (simp add: keeps_def query_run)

lemma stored_save: "keeps same_stored (s_save E e e')"
  unfolding keeps_def
proof
  fix w
  show "stored (snd (s_save E e e' w)) = stored w"
  proof (cases "e \<in> seen w")
    case True
    then show ?thesis using save_step [of e w e'] by auto
  next
    case False
    then show ?thesis using stale(1) [of e "rw_sql w" e'] by (simp add: s_save_def on_sql_def)
  qed
qed

lemma stored_iterM: "(\<And>x. keeps same_stored (f x)) \<Longrightarrow> keeps same_stored (iterM f xs)"
  by (induction xs) (auto simp: stored_basic intro: stored_bindM)

lemma stored_session: "keeps same_stored m \<Longrightarrow> keeps same_stored (with_session E m)"
  unfolding keeps_def
proof
  fix w assume m: "\<forall>w. stored (snd (m w)) = stored w"
  show "stored (snd (with_session E m w)) = stored w"
  proof (cases "m w")
    case (Pair r w1)
    then have s: "stored w1 = stored w" using m [rule_format, of w] by simp
    show ?thesis
    proof (cases r)
      case (Inl e)
      with Pair session_fails [of m w e w1] s show ?thesis by auto
    next
      case (Inr a)
      with Pair session_ok [of m w a w1] s show ?thesis by auto
    qed
  qed
qed

lemma spams_not_stored: "keeps same_stored (sql_mark_spams_deleted_if_exists E ids)"
  unfolding sql_mark_spams_deleted_if_exists_def
  by (intro stored_session stored_iterM stored_bindM stored_query stored_save)

text \<open>Saving a row as it is.\<close>

lemma change_config_run:
  assumes "clean w"
  shows "(\<forall>c. E_config c \<notin> stored w) \<and> fst (with_session E (change_config E f) w) = Inl AttributeError \<and>
      stored (snd (with_session E (change_config E f) w)) = stored w \<or>
    (\<exists>c. E_config c \<in> stored w \<and> fst (with_session E (change_config E f) w) = Inr () \<and>
      stored (snd (with_session E (change_config E f) w)) = insert (E_config (f c)) (stored w - {E_config c}))"
proof -
  let ?es = "sq_rows (rv_sql E) (rw_sql w)"
  have es: "set ?es = stored w" using assms by (simp add: clean_def)
  show ?thesis
  proof (cases "all_config ?es")
    case Nil
    then have "\<forall>c. E_config c \<notin> stored w" unfolding es [symmetric] in_all_config [symmetric] by simp
    moreover have m: "change_config E f w = (Inl AttributeError, w)"
      using Nil by (simp add: change_config_def session_simps op_simps the_config_row_def)
    ultimately show ?thesis using session_fails [of "change_config E f", OF m] by auto
  next
    case (Cons c cs)
    then have c: "E_config c \<in> stored w" unfolding es [symmetric] in_all_config [symmetric] by simp
    obtain w1 where w1: "thenM (s_save E (E_config c) (E_config (f c))) (s_commit E) w = (Inr (), w1)"
      "stored w1 = insert (E_config (f c)) (stored w - {E_config c})"
      using saved_in_session [of "E_config c" w "E_config (f c)"] c es by auto
    then have m: "change_config E f w = (Inr (), w1)"
      using Cons by (simp add: change_config_def session_simps the_config_row_def)
    show ?thesis using session_ok [of "change_config E f", OF m] w1(2) c by auto
  qed
qed

lemma config_kept:
  assumes "clean w"
  shows "stored (snd (with_session E (change_config E (\<lambda>c. c)) w)) = stored w"
  using change_config_run [OF assms, of "\<lambda>c. c"] by (elim disjE exE conjE) (simp_all add: insert_absorb)

lemma config_row: "the_config_row es = Some c \<Longrightarrow> E_config c \<in> set es"
proof -
  assume "the_config_row es = Some c"
  then have "c \<in> set (all_config es)" by (cases "all_config es") (auto simp: the_config_row_def simp del: in_all_config)
  then show ?thesis by simp
qed

lemma max_length_kept:
  assumes "clean w" "E_config c \<in> stored (snd (sql_update_spam_config E on mx mn del sv th em w))"
  shows "\<exists>c0. E_config c0 \<in> stored w \<and> cf_spam_max_length c0 = cf_spam_max_length c"
proof -
  let ?es = "sq_rows (rv_sql E) (rw_sql w)"
  have es: "set ?es = stored w" using assms by (simp add: clean_def)
  let ?new = "\<lambda>c. c\<lparr>cf_spam_enabled := given on (cf_spam_enabled c), cf_spam_min_length := given mn (cf_spam_min_length c),
    cf_spam_ignore_emoji := given em (cf_spam_ignore_emoji c), cf_spam_threshold := given th (cf_spam_threshold c),
    cf_spam_should_delete := given del (cf_spam_should_delete c), cf_spam_should_save := given sv (cf_spam_should_save c)\<rparr>"
  obtain m where m: "sql_update_spam_config E on mx mn del sv th em = with_session E m"
    and run: "(\<exists>e. m w = (Inl e, w)) \<or> (\<exists>c. the_config_row ?es = Some c \<and>
      m w = thenM (s_save E (E_config c) (E_config (?new c))) (s_commit E) w)"
  proof
    let ?m = "bindM (query E the_config_row) (\<lambda>config.
       thenM (assign config on)
       (thenM (if \<exists>n. mx = Some n \<and> n \<le> 0 then throw ValueError else assign config mx)
       (thenM (if \<exists>n. mn = Some n \<and> n < 0 then throw ValueError else assign config mn)
       (thenM (assign config em)
       (thenM (assign config th)
       (thenM (assign config del)
       (thenM (assign config sv)
       (case config of None \<Rightarrow> throw UnmappedInstanceError
        | Some c \<Rightarrow> thenM (s_save E (E_config c) (E_config (?new c))) (s_commit E)))))))))"
    show "sql_update_spam_config E on mx mn del sv th em = with_session E ?m" by (simp only: sql_update_spam_config_def)
    show "(\<exists>e. ?m w = (Inl e, w)) \<or> (\<exists>c. the_config_row ?es = Some c \<and>
      ?m w = thenM (s_save E (E_config c) (E_config (?new c))) (s_commit E) w)"
      by (cases "the_config_row ?es") (auto simp: session_simps op_simps assign_def)
  qed
  from run show ?thesis
  proof
    assume "\<exists>e. m w = (Inl e, w)"
    then have "stored (snd (with_session E m w)) = stored w" using session_fails by fastforce
    with assms(2) m show ?thesis by auto
  next
    assume "\<exists>c. the_config_row ?es = Some c \<and> m w = thenM (s_save E (E_config c) (E_config (?new c))) (s_commit E) w"
    then obtain c0 where c0: "the_config_row ?es = Some c0" "m w = thenM (s_save E (E_config c0) (E_config (?new c0))) (s_commit E) w"
      by blast
    then have in0: "E_config c0 \<in> seen w" using config_row by blast
    then obtain w1 where w1: "m w = (Inr (), w1)" "stored w1 = insert (E_config (?new c0)) (seen w - {E_config c0})"
      using saved_in_session [OF in0, of "E_config (?new c0)"] c0(2) by auto
    obtain w2 where "with_session E m w = (Inr (), w2)" "stored w2 = stored w1" using session_ok [of m, OF w1(1)] by blast
    then have "stored (snd (with_session E m w)) = insert (E_config (?new c0)) (stored w - {E_config c0})"
      by (simp add: w1(2) es)
    with assms(2) m have "c = ?new c0 \<or> E_config c \<in> stored w" by auto
    then show ?thesis
    proof
      assume "c = ?new c0"
      then have "cf_spam_max_length c0 = cf_spam_max_length c" by simp
      with in0 es show ?thesis by auto
    qed auto
  qed
qed

end

subsection \<open>Rules\<close>

context rdb_uncached begin

text \<open>The only rule of the type in the room goes, whatever its action is.\<close>

lemma deleted_rule:
  assumes w: "clean w" "action \<in> set all_api_actions"
    and r: "E_room r \<in> stored w" "ro_uuid r = x" "\<And>q. E_room q \<in> stored w \<Longrightarrow> ro_uuid q = x \<Longrightarrow> q = r"
    and a: "\<And>b. E_acl b \<in> stored w \<and> al_room_id b = Some (ro_id r) \<and> al_type b = t \<longleftrightarrow> b = a"
  shows "\<exists>w'. sql_delete_acl_in_room_for_action E x t action w = (Inr (), w') \<and> stored w' = stored w - {E_acl a}"
proof -
  let ?es = "sq_rows (rv_sql E) (rw_sql w)"
  let ?P = "\<lambda>a. al_type a = t \<and> (\<exists>r \<in> set (all_rooms ?es). ro_uuid r = x \<and> al_room_id a = Some (ro_id r))"
  have es: "set ?es = stored w" using w(1) by (simp add: clean_def)
  obtain r' where room: "room_by_uuid ?es x = Some r'"
    using found_room [of ?es x] r(1,2) es by (auto simp: has_room_def)
  have in_a: "E_acl a \<in> stored w" and pa: "?P a" using a [of a] r(1,2) es by auto
  have one: "b = a" if "b \<in> set (all_acls ?es)" "?P b" for b
  proof -
    from that(2) obtain q where "E_room q \<in> stored w" "ro_uuid q = x" "al_room_id b = Some (ro_id q)" unfolding es [symmetric] by auto
    moreover from this have "q = r" by (intro r(3))
    moreover have "E_acl b \<in> stored w" using that(1) unfolding es [symmetric] by simp
    ultimately show ?thesis using a [of b] that(2) by simp
  qed
  have found: "find ?P (all_acls ?es) = Some a"
  proof (rule find_unique)
    show "a \<in> set (all_acls ?es)" using in_a unfolding es [symmetric] by simp
  qed (rule pa, rule one)
  obtain w1 where w1: "thenM (s_delete E (E_acl a)) (s_commit E) w = (Inr (), w1)" "stored w1 = stored w - {E_acl a}"
    using deleted_in_session [of "E_acl a" w] in_a es by auto
  let ?m = "bindM (query E (\<lambda>es. room_by_uuid es x)) (\<lambda>room.
          case room of
            None \<Rightarrow> throw (NoSuchRoomException x)
          | Some _ \<Rightarrow> bindM (query E (\<lambda>es. find (\<lambda>a. al_type a = t \<and>
                (\<exists>r \<in> set (all_rooms es). ro_uuid r = x \<and> al_room_id a = Some (ro_id r))) (all_acls es))) (\<lambda>found.
              case found of None \<Rightarrow> ret ()
              | Some a \<Rightarrow> thenM (s_delete E (E_acl a)) (s_commit E)))"
  have m: "?m w = (Inr (), w1)" using room found w1(1) by (simp only: bindM_query option.case)
  obtain w2 where w2: "with_session E ?m w = (Inr (), w2)" "stored w2 = stored w1" using session_ok [of ?m, OF m] by blast
  have c: "on_cache (kc_reset_acls_in_room_for_action (c_acls E) x action) w2 = (Inr (), w2)"
    "on_cache (kc_reset_acls_in_room (c_acls E) x) w2 = (Inr (), w2)"
    by (simp_all add: uncached miss_defs session_simps op_simps)
  have "sql_delete_acl_in_room_for_action E x t action w = (Inr (), w2)"
    by (simp only: sql_delete_acl_in_room_for_action_def w(2) not_True_eq_False if_False thenM_def [of "with_session E m" for m]
        bindM_def [of "with_session E m" for m] w2(1) thenM_def [of "on_cache m" for m] bindM_def [of "on_cache m" for m]
        c prod.case sum.case)
  with w2(2) w1(2) show ?thesis by auto
qed

end

subsection \<open>A global ban\<close>

definition named_user :: "db_row set \<Rightarrow> string \<Rightarrow> string \<Rightarrow> bool" where
  "named_user D u n \<longleftrightarrow> \<not> blank n \<and> (\<exists>r. E_user r \<in> D \<and> us_uuid r = u) \<and> (\<forall>r. E_user r \<in> D \<and> us_uuid r = u \<longrightarrow> us_name r = n)"

context rdb_uncached begin

lemma user_name_run:
  assumes "clean w" "named_user (stored w) u n"
  shows "\<exists>w'. sql_get_user_name E u False w = (Inr n, w') \<and> clean w' \<and> stored w' = stored w"
proof -
  let ?es = "sq_rows (rv_sql E) (rw_sql w)"
  have es: "set ?es = stored w" using assms(1) by (simp add: clean_def)
  have name: "map_option us_name (user_by_uuid ?es u) = Some n"
  proof (cases "user_by_uuid ?es u")
    case None
    then have "E_user r \<notin> stored w \<or> us_uuid r \<noteq> u" for r unfolding es [symmetric] by (auto simp: user_by_uuid_def find_none)
    with assms(2) show ?thesis unfolding named_user_def by blast
  next
    case (Some r)
    then have "r \<in> set (all_users ?es) \<and> us_uuid r = u" unfolding user_by_uuid_def by (rule find_in_rows)
    then have "E_user r \<in> stored w" "us_uuid r = u" unfolding es [symmetric] by simp_all
    with assms(2) Some show ?thesis unfolding named_user_def by auto
  qed
  let ?m = "bindM (query E (\<lambda>es. user_by_uuid es u)) (\<lambda>user. ret (map_option us_name user))"
  have m: "?m w = (Inr (Some n), w)" by (simp only: bindM_query name ret_run)
  obtain w1 where w1: "with_session E ?m w = (Inr (Some n), w1)" "clean w1" "stored w1 = stored w"
    using session_ok [of ?m, OF m] by blast
  have "sql_user_name_row E u w = (Inr (Some n), w1)" unfolding sql_user_name_row_def by (rule w1(1))
  moreover have "on_cache (nc_get_user_name (c_names E) u) w = (Inr None, w)"
    "on_cache (nc_set_user_name (c_names E) u n) w1 = (Inr (), w1)"
    by (simp_all add: uncached miss_defs session_simps op_simps)
  ultimately have "sql_get_user_name E u False w = (Inr n, w1)"
    using assms(2) by (simp add: sql_get_user_name_def bindM_def thenM_def op_simps named_user_def)
  with w1(2,3) show ?thesis by blast
qed

text \<open>A new row, or the row that is there with the new end.\<close>

lemma put_ban_run:
  assumes "\<And>b. found = Some b \<Longrightarrow> E_ban b \<in> seen w" "\<And>b. E_ban b \<in> seen w \<Longrightarrow> bn_uuid b \<noteq> bn_uuid fresh"
  shows "\<exists>k w'. thenM (put_ban E found d t fresh) (s_commit E) w = (Inr (), w') \<and>
    stored w' = (case found of None \<Rightarrow> insert (E_ban (fresh\<lparr>bn_id := k\<rparr>)) (seen w)
      | Some b \<Rightarrow> insert (E_ban (b\<lparr>bn_timestamp := t, bn_duration := d\<rparr>)) (seen w - {E_ban b}))"
proof (cases found)
  case None
  obtain k w1 where "thenM (s_add E (E_ban fresh)) (s_commit E) w = (Inr (), w1)"
    "stored w1 = insert (with_id k (E_ban fresh)) (seen w)"
    using added_in_session [of w "E_ban fresh"] assms(2) by force
  with None show ?thesis
    by (intro exI [of _ k] exI [of _ w1]) (auto simp: put_ban_def thenM_bind bindM_assoc bindM_ret)
next
  case (Some b)
  have b: "E_ban b \<in> seen w" by (rule assms(1) [OF Some])
  obtain w1 where w1: "thenM (s_save E (E_ban b) (E_ban (b\<lparr>bn_timestamp := t, bn_duration := d\<rparr>))) (s_commit E) w = (Inr (), w1)"
    "stored w1 = insert (E_ban (b\<lparr>bn_timestamp := t, bn_duration := d\<rparr>)) (seen w - {E_ban b})"
    using saved_in_session [OF b, of "E_ban (b\<lparr>bn_timestamp := t, bn_duration := d\<rparr>)"] by blast
  with Some show ?thesis by (intro exI [of _ 0] exI [of _ w1]) (simp add: put_ban_def)
qed

lemma global_ban_rows:
  assumes w: "clean w" "named_user (stored w) u n" "\<And>b. E_ban b \<in> stored w \<Longrightarrow> bn_uuid b \<noteq> uuid"
  shows "case time_of_int (rv_tz E) ts of
      Inl e \<Rightarrow> \<exists>w'. sql_ban_user_global E uuid u ts d reason banner w = (Inl e, w') \<and> stored w' = stored w
    | Inr t \<Rightarrow> \<exists>k w'. sql_ban_user_global E uuid u ts d reason banner w = (Inr (), w') \<and>
        ((\<nexists>b. E_ban b \<in> stored w \<and> bn_is_global b \<and> bn_user_id b = u) \<and>
           stored w' = insert (E_ban ((new_ban uuid u n reason banner None None True d t)\<lparr>bn_id := k\<rparr>)) (stored w) \<or>
         (\<exists>b. E_ban b \<in> stored w \<and> bn_is_global b \<and> bn_user_id b = u \<and>
           stored w' = insert (E_ban (b\<lparr>bn_timestamp := t, bn_duration := d\<rparr>)) (stored w - {E_ban b})))"
proof -
  let ?D = "stored w" and ?es = "sq_rows (rv_sql E) (rw_sql w)"
  have es: "set ?es = ?D" using w(1) by (simp add: clean_def)
  let ?found = "find_global_ban ?es u"
  have found: "?found = Some b \<Longrightarrow> E_ban b \<in> ?D \<and> bn_is_global b \<and> bn_user_id b = u" for b
    unfolding es [symmetric] find_global_ban_def by (drule find_in_rows) simp
  have absent: "?found = None \<Longrightarrow> \<nexists>b. E_ban b \<in> ?D \<and> bn_is_global b \<and> bn_user_id b = u"
    unfolding es [symmetric] find_global_ban_def by (auto simp: find_none)
  obtain w1 where w1: "sql_get_user_name E u False w = (Inr n, w1)" "clean w1" "stored w1 = ?D"
    using user_name_run [OF w(1,2)] by blast
  then have name: "name_or_empty E u w = (Inr n, w1)" by (simp add: name_or_empty_def catchM_def)
  obtain w2 where w2: "sql_get_user_name E u False w1 = (Inr n, w2)" "clean w2" "stored w2 = ?D"
    using user_name_run [OF w1(2)] w(2) w1(3) by metis
  have seen2: "seen w2 = ?D" using w2(2,3) by (simp add: clean_def)
  have c: "on_cache (bc_set_global_ban (c_bans E) u d ts n) w2 = (Inr (), w2)"
    by (simp add: uncached miss_defs session_simps op_simps)
  let ?rest = "bindM (lift_result (time_of_int (rv_tz E) ts)) (\<lambda>time.
       thenM (put_ban E ?found d time (new_ban uuid u n reason banner None None True d time)) (s_commit E))"
  let ?m = "bindM (query E (\<lambda>es. find_global_ban es u)) (\<lambda>ban.
      bindM (name_or_empty E u) (\<lambda>username.
      bindM (sql_get_user_name E u False) (\<lambda>name.
      thenM (on_cache (bc_set_global_ban (c_bans E) u d ts name))
      (bindM (lift_result (time_of_int (rv_tz E) ts)) (\<lambda>time.
       thenM (put_ban E ban d time
                (new_ban uuid u username reason banner None None True d time))
             (s_commit E))))))"
  have m: "?m w = ?rest w2"
    by (simp only: bindM_query bindM_def [of "name_or_empty E u"] bindM_def [of "sql_get_user_name E u False"] name w2(1)
        thenM_def [of "on_cache m" for m] bindM_def [of "on_cache m" for m] c prod.case sum.case)
  show ?thesis
  proof (cases "time_of_int (rv_tz E) ts")
    case (Inl e)
    then have "?m w = (Inl e, w2)" unfolding m by (simp add: bindM_def op_simps)
    then obtain w3 where "with_session E ?m w = (Inl e, w3)" "stored w3 = stored w2" using session_fails [of ?m] by blast
    with Inl w2(3) show ?thesis by (simp add: sql_ban_user_global_def)
  next
    case (Inr t)
    let ?fresh = "new_ban uuid u n reason banner None None True d t"
    obtain k w3 where w3: "thenM (put_ban E ?found d t ?fresh) (s_commit E) w2 = (Inr (), w3)"
      "stored w3 = (case ?found of None \<Rightarrow> insert (E_ban (?fresh\<lparr>bn_id := k\<rparr>)) (seen w2)
        | Some b \<Rightarrow> insert (E_ban (b\<lparr>bn_timestamp := t, bn_duration := d\<rparr>)) (seen w2 - {E_ban b}))"
    proof (rule exE [OF put_ban_run [of ?found w2 ?fresh d t]])
      show "\<And>b. ?found = Some b \<Longrightarrow> E_ban b \<in> seen w2" using found seen2 by simp
      show "\<And>b. E_ban b \<in> seen w2 \<Longrightarrow> bn_uuid b \<noteq> bn_uuid ?fresh" using w(3) seen2 by (simp add: new_ban_def)
    qed (use that in blast)
    have "?m w = (Inr (), w3)" unfolding m using Inr w3(1) by (simp add: bindM_def [of "lift_result r" for r] op_simps)
    then obtain w4 where w4: "with_session E ?m w = (Inr (), w4)" "stored w4 = stored w3" using session_ok [of ?m] by blast
    have "(\<nexists>b. E_ban b \<in> ?D \<and> bn_is_global b \<and> bn_user_id b = u) \<and> stored w4 = insert (E_ban (?fresh\<lparr>bn_id := k\<rparr>)) ?D \<or>
         (\<exists>b. E_ban b \<in> ?D \<and> bn_is_global b \<and> bn_user_id b = u \<and>
           stored w4 = insert (E_ban (b\<lparr>bn_timestamp := t, bn_duration := d\<rparr>)) (?D - {E_ban b}))"
    proof (cases ?found)
      case None
      with absent w3(2) w4(2) seen2 show ?thesis by simp
    next
      case (Some b)
      with found [OF Some] w3(2) w4(2) seen2 show ?thesis by auto
    qed
    moreover have "sql_ban_user_global E uuid u ts d reason banner w = (Inr (), w4)"
      unfolding sql_ban_user_global_def by (rule w4(1))
    ultimately show ?thesis unfolding Inr sum.case by blast
  qed
qed

end

end
