(* ===== verification/Claims_Rdb.thy ===== *)
theory Claims_Rdb
  imports Rdb_Ban_Facts Db_Registry
begin

section \<open>Properties of the relational database\<close>

text \<open>What is shown of \<open>DatabaseRdbms\<close>, with instances on a database in memory.\<close>

text \<open>A channel with a room, its owner, a rule, and the configuration and a prediction of the classifier.\<close>

definition demo_room_row :: room_row where
  "demo_room_row = \<lparr>ro_id = 2, ro_uuid = ''r'', ro_name = ''Room'', ro_created = 0, ro_admin = False,
     ro_ephemeral = False, ro_sort_order = 1, ro_channel_id = 1\<rparr>"

definition demo_acl_row :: acl_row where
  "demo_acl_row = \<lparr>al_id = 1, al_room_id = Some 2, al_channel_id = None, al_action = ''message'',
     al_type = ''age'', al_value = ''18''\<rparr>"

definition demo_config_row :: config_row where
  "demo_config_row = default_config\<lparr>cf_id := 1\<rparr>"

definition demo_rows :: "db_row list" where
  "demo_rows = [
     E_channel \<lparr>ch_id = 1, ch_uuid = ''c'', ch_name = ''Channel'', ch_created = 0, ch_sort_order = 1, ch_tags = None\<rparr>,
     E_room demo_room_row,
     E_room_role \<lparr>rl_id = 3, rl_place_id = 2, rl_user_id = ''1'', rl_roles = role_owner\<rparr>,
     E_user \<lparr>us_id = 4, us_uuid = ''1'', us_name = ''One''\<rparr>,
     E_acl demo_acl_row,
     E_config demo_config_row]"

definition demo_rdb :: "(mem_sql, unit) rw" where
  "demo_rdb = rdb_of demo_rows"

lemma demo_stored: "mem_saved (rw_sql demo_rdb) = set demo_rows"
  by (simp add: demo_rdb_def rdb_of_def mem_saved_def)

lemma demo_clean: "memory_rdb.clean demo_rdb"
  unfolding memory_rdb.clean_def demo_stored by (simp add: demo_rdb_def rdb_of_def memory_rdenv_def memory_sql_def)

lemma demo_rows_simps:
  "E_room q \<in> set demo_rows \<longleftrightarrow> q = demo_room_row"
  "E_room_role p \<in> set demo_rows \<longleftrightarrow> p = \<lparr>rl_id = 3, rl_place_id = 2, rl_user_id = ''1'', rl_roles = role_owner\<rparr>"
  "E_acl a \<in> set demo_rows \<longleftrightarrow> a = demo_acl_row"
  "E_config f \<in> set demo_rows \<longleftrightarrow> f = demo_config_row"
  "E_user v \<in> set demo_rows \<longleftrightarrow> v = \<lparr>us_id = 4, us_uuid = ''1'', us_name = ''One''\<rparr>"
  "E_ban b \<notin> set demo_rows" "E_join j \<notin> set demo_rows"
  by (auto simp: demo_rows_def)

lemma demo_roles_ok: "roles_ok (set demo_rows)"
  by (rule roles_okI) (auto simp: demo_rows_simps plain_role room_role_names_def demo_room_row_def)

lemma demo_world: "memory_rdb_roles.roles_world demo_rdb"
  using demo_clean demo_stored demo_roles_ok by (simp add: memory_uncached.world_iff)

subsection \<open>Roles\<close>

lemma fold_after_change:
  "same_on_names h h' \<Longrightarrow> same_on_names (fold (\<lambda>c h. after_change h c) cs h) (fold (\<lambda>c h. after_change h c) cs h')"
  by (induction cs arbitrary: h h') (auto simp: after_change_same)

text \<open>C3: The Redis database and the relational database answer alike: when they start with the same roles
of users in rooms and every room of the sequence is known to both, then after the same sequence of
granting and revoking the roles of owner and moderator both answer the same to whether a user has a
role in a room, namely what the last change of that role says. For the relational database this needs
well-formed rows, and a cache that has no roles of a user but those of the rows.\<close>

theorem both_databases_agree_on_roles:
  assumes "db_env E agrees" "rdb_roles F T agrees'" "rdb_roles.roles_world F T agrees' z"
    and "same_on_names (room_role (dv E w)) (holds_room (T (rw_sql z)))"
    and "\<forall>c \<in> set cs. changed_role c \<in> room_role_names \<and> v_room_name (dv E w) (changed_room c) \<noteq> None \<and>
      has_room (T (rw_sql z)) (changed_room c)"
    and "role \<in> room_role_names"
  shows "fst (thenM (iterM (run_change (dr_add_room_role E) (dr_remove_room_role E)) cs)
      (dr_has_role_in_room E role x (Some u)) w) = Inr (fold (\<lambda>c h. after_change h c) cs (room_role (dv E w)) x u role) \<and>
    fst (thenM (iterM (run_change (sql_set_role_on_room_for_user F) (sql_remove_role_on_room_for_user F)) cs)
      (sql_room_has_role_for_user F role x u) z) = Inr (fold (\<lambda>c h. after_change h c) cs (room_role (dv E w)) x u role)"
proof
  have cs: "list_all (valid_change (\<lambda>x. v_room_name (dv E w) x \<noteq> None)) cs" "list_all (valid_change (has_room (T (rw_sql z)))) cs"
    using assms(5) by (simp_all add: list_all_iff valid_change_def)
  show "fst (thenM (iterM (run_change (dr_add_room_role E) (dr_remove_room_role E)) cs)
      (dr_has_role_in_room E role x (Some u)) w) = Inr (fold (\<lambda>c h. after_change h c) cs (room_role (dv E w)) x u role)"
    using room_role_store.asked_after_changes [OF db_env.redis_role_store [OF assms(1)] TrueI cs(1) assms(6), of x u] by auto
  have "fold (\<lambda>c h. after_change h c) cs (holds_room (T (rw_sql z))) x u role =
      fold (\<lambda>c h. after_change h c) cs (room_role (dv E w)) x u role"
    using fold_after_change [OF assms(4), of cs] assms(6) by (simp add: same_on_names_def)
  then show "fst (thenM (iterM (run_change (sql_set_role_on_room_for_user F) (sql_remove_role_on_room_for_user F)) cs)
      (sql_room_has_role_for_user F role x u) z) = Inr (fold (\<lambda>c h. after_change h c) cs (room_role (dv E w)) x u role)"
    using room_role_store.asked_after_changes [OF rdb_roles.sql_role_store [OF assms(2)] assms(3) cs(2) assms(6), of x u] by auto
qed

lemma demo_same_roles: "same_on_names (room_role (dv memory_denv demo)) (holds_room (mem_saved (rw_sql demo_rdb)))"
  by (auto simp: same_on_names_def room_role_def holds_room_def demo_stored demo_rows_simps demo_room_row_def
      role_in_text_def room_role_names_def role_owner_def)

lemma both_databases_agree_on_roles_witness:
  "fst (thenM (iterM (run_change (sql_set_role_on_room_for_user memory_rdenv) (sql_remove_role_on_room_for_user memory_rdenv))
       [Grant role_moderator ''r'' ''2'', Revoke role_owner ''r'' ''1'']) (sql_room_has_role_for_user memory_rdenv role_moderator ''r'' ''2'') demo_rdb) =
   fst (thenM (iterM (run_change (dr_add_room_role memory_denv) (dr_remove_room_role memory_denv))
       [Grant role_moderator ''r'' ''2'', Revoke role_owner ''r'' ''1'']) (dr_has_role_in_room memory_denv role_moderator ''r'' (Some ''2'')) demo)"
  using both_databases_agree_on_roles [OF memory_db.db_env_axioms memory_rdb_roles.rdb_roles_axioms demo_world demo_same_roles,
      of "[Grant role_moderator ''r'' ''2'', Revoke role_owner ''r'' ''1'']" role_moderator "''r''" "''2''"]
  by (simp add: room_role_names_def has_room_def demo_stored demo_rows_simps demo_room_row_def)

subsection \<open>Rooms\<close>

text \<open>C4: \<open>create_room\<close> of the relational database does exactly this, with the cache that always misses: it raises the
first of its errors that applies and leaves the committed rows as they were, where a room of the same name
in any channel is in the way, or it adds a row for the room with a key that no room has, one for the
role of owner of the user, and the counter of joins when joins are counted. Either way the rows
stay well formed, the session is clean, and the creator has the role.\<close>

theorem sql_create_room_exact:
  assumes "rdb_uncached E T" "rdb_roles.roles_world E T (\<lambda>_ _ _. True) w"
    and "rv_count_joins E \<Longrightarrow> \<forall>j. E_join j \<in> T (rw_sql w) \<longrightarrow> jo_room_id j \<noteq> r"
  shows "case sql_create_room_error (T (rw_sql w)) name r c of
      Some e \<Rightarrow> \<exists>w'. sql_create_room E now name r c u eph so hidden w = (Inl e, w') \<and>
        rdb_roles.roles_world E T (\<lambda>_ _ _. True) w' \<and> T (rw_sql w') = T (rw_sql w)
    | None \<Rightarrow> \<exists>ch k i w'. sql_create_room E now name r c u eph so hidden w = (Inr (), w') \<and>
        rdb_roles.roles_world E T (\<lambda>_ _ _. True) w' \<and>
        E_channel ch \<in> T (rw_sql w) \<and> ch_uuid ch = c \<and> (\<forall>q. E_room q \<in> T (rw_sql w) \<longrightarrow> ro_id q \<noteq> k) \<and>
        T (rw_sql w') = T (rw_sql w) \<union> {E_room ((new_room r (the name) (ch_id ch) so now eph)\<lparr>ro_id := k\<rparr>),
          E_room_role ((new_place_role k u)\<lparr>rl_id := i\<rparr>)} \<union> join_counter E r (the name) \<and>
        holds_room (T (rw_sql w')) r u role_owner"
  by (rule rdb_uncached.create_room_rows [OF assms])

lemma sql_create_room_exact_witness:
  "fst (sql_create_room memory_rdenv 0 (Some ''Room'') ''n'' ''d'' ''1'' False 1 False demo_rdb) =
    Inl (RoomNameExistsForChannelException ''d'' ''Room'')"
proof -
  have b: "\<not> blank ''Room''" by (simp add: blank_iff is_space_def)
  show ?thesis
    using sql_create_room_exact [OF memory_uncached.rdb_uncached_axioms demo_world, where r = "''n''" and name = "Some ''Room''" and c = "''d''" and now = 0 and u = "''1''" and eph = False and so = 1 and hidden = False] b
    by (auto simp: memory_rdenv_def sql_create_room_error_def has_room_def demo_stored demo_rows_simps demo_room_row_def)
qed

subsection \<open>Bans\<close>

text \<open>C34: A global ban of a user with a name, in the relational database: a time stamp that is no number or out of range
raises and leaves the committed rows as they were. Else the rows have one ban more, until the given time,
when there was no global ban of the user; or the ban that is there gets the new end and duration and keeps its
reason and who banned, so that the reason of the second ban is lost.\<close>

theorem sql_global_ban_exact:
  assumes "rdb_uncached E T" "rdb_session.clean E T w" "named_user (T (rw_sql w)) u n"
    and "\<And>b. E_ban b \<in> T (rw_sql w) \<Longrightarrow> bn_uuid b \<noteq> uuid"
  shows "case time_of_int (rv_tz E) ts of
      Inl e \<Rightarrow> \<exists>w'. sql_ban_user_global E uuid u ts d reason banner w = (Inl e, w') \<and> T (rw_sql w') = T (rw_sql w)
    | Inr t \<Rightarrow> \<exists>k w'. sql_ban_user_global E uuid u ts d reason banner w = (Inr (), w') \<and>
        ((\<nexists>b. E_ban b \<in> T (rw_sql w) \<and> bn_is_global b \<and> bn_user_id b = u) \<and>
           T (rw_sql w') = insert (E_ban ((new_ban uuid u n reason banner None None True d t)\<lparr>bn_id := k\<rparr>)) (T (rw_sql w)) \<or>
         (\<exists>b. E_ban b \<in> T (rw_sql w) \<and> bn_is_global b \<and> bn_user_id b = u \<and>
           T (rw_sql w') = insert (E_ban (b\<lparr>bn_timestamp := t, bn_duration := d\<rparr>)) (T (rw_sql w) - {E_ban b})))"
  by (rule rdb_uncached.global_ban_rows [OF assms])

lemma demo_named: "named_user (set demo_rows) ''1'' ''One''"
  by (simp add: named_user_def demo_rows_simps blank_iff is_space_def)

lemma sql_global_ban_exact_witness:
  "\<exists>k w'. sql_ban_user_global memory_rdenv ''b'' ''1'' ''60'' ''1m'' None None demo_rdb = (Inr (), w') \<and>
    mem_saved (rw_sql w') = insert (E_ban ((new_ban ''b'' ''1'' ''One'' None None None None True ''1m'' 60000000)\<lparr>bn_id := k\<rparr>)) (set demo_rows)"
proof -
  have t: "time_of_int (rv_tz memory_rdenv) ''60'' = Inr 60000000"
    unfolding memory_rdenv_def rdenv.simps by code_simp
  show ?thesis
    using sql_global_ban_exact [OF memory_uncached.rdb_uncached_axioms demo_clean, of "''1''" "''One''" "''b''" "''60''" "''1m''" None None]
    unfolding demo_stored t by (simp add: demo_named demo_rows_simps)
qed

lemma no_ban_cached:
  "on_cache (bc_get_global_ban (ca_bans miss_rcache) u) = ret None"
  "on_cache (bc_get_channel_ban (ca_bans miss_rcache) c u) = ret None"
  "on_cache (bc_get_room_ban (ca_bans miss_rcache) r u) = ret None"
  by (simp_all add: miss_defs session_simps)

lemma check_without_entry: "check_banned E now (ret None) store load lift shown w = (Inl TypeError, w)"
  by (simp add: check_banned_def bindM_def op_simps)

text \<open>C35: With the cache that always misses, which is the one without Redis, every question whether a user is banned,
globally, from a channel or from a room, raises a \<open>TypeError\<close>, whatever the rows are: the answer of
the cache is unpacked into three values, and it is none.\<close>

theorem ban_checks_fail_without_cache:
  assumes "rv_cache E = miss_rcache"
  shows "fst (sql_is_banned_globally E now u w) = Inl TypeError \<and>
    fst (sql_is_banned_from_channel E now c u w) = Inl TypeError \<and>
    fst (sql_is_banned_from_room E now r u w) = Inl TypeError"
  by (simp add: sql_is_banned_globally_def sql_is_banned_from_channel_def sql_is_banned_from_room_def assms
      no_ban_cached check_without_entry)

lemma ban_checks_fail_without_cache_witness:
  "fst (sql_is_banned_globally memory_rdenv 0 ''1'' demo_rdb) = Inl TypeError"
  using ban_checks_fail_without_cache [of memory_rdenv 0 "''1''" demo_rdb "''c''" "''r''"] by (simp add: memory_rdenv_def)

subsection \<open>Rules and spam\<close>

text \<open>C36: \<open>delete_acl_in_room_for_action\<close> deletes the only rule of the type in the room whatever its action is: the
query compares the type and the room, but not the action.\<close>

theorem deletes_rule_of_other_action:
  assumes "rdb_uncached E T" "rdb_session.clean E T w" "action \<in> set all_api_actions"
    and "E_room r \<in> T (rw_sql w)" "ro_uuid r = x" "\<And>q. E_room q \<in> T (rw_sql w) \<Longrightarrow> ro_uuid q = x \<Longrightarrow> q = r"
    and "\<And>b. E_acl b \<in> T (rw_sql w) \<and> al_room_id b = Some (ro_id r) \<and> al_type b = t \<longleftrightarrow> b = a"
  shows "\<exists>w'. sql_delete_acl_in_room_for_action E x t action w = (Inr (), w') \<and> T (rw_sql w') = T (rw_sql w) - {E_acl a}"
  by (rule rdb_uncached.deleted_rule [OF assms])

lemma deletes_rule_of_other_action_witness:
  "al_action demo_acl_row \<noteq> ''join'' \<and>
    (\<exists>w'. sql_delete_acl_in_room_for_action memory_rdenv ''r'' ''age'' ''join'' demo_rdb = (Inr (), w') \<and>
      mem_saved (rw_sql w') = set demo_rows - {E_acl demo_acl_row})"
proof
  show "al_action demo_acl_row \<noteq> ''join''" by (simp add: demo_acl_row_def)
  have "''join'' \<in> set all_api_actions" by (simp add: all_api_actions_def action_join_def)
  moreover have "E_acl b \<in> set demo_rows \<and> al_room_id b = Some (ro_id demo_room_row) \<and> al_type b = ''age'' \<longleftrightarrow> b = demo_acl_row" for b
    by (auto simp: demo_rows_simps demo_acl_row_def demo_room_row_def)
  ultimately show "\<exists>w'. sql_delete_acl_in_room_for_action memory_rdenv ''r'' ''age'' ''join'' demo_rdb = (Inr (), w') \<and>
      mem_saved (rw_sql w') = set demo_rows - {E_acl demo_acl_row}"
    using deletes_rule_of_other_action [OF memory_uncached.rdb_uncached_axioms demo_clean, of "''join''" demo_room_row "''r''" "''age''" demo_acl_row]
    unfolding demo_stored by (simp add: demo_rows_simps) (simp add: demo_room_row_def)
qed

text \<open>C37: \<open>mark_spams_deleted_if_exists\<close> changes no committed row, whatever happens: its updates are not committed, and
are gone when the session is given back.\<close>

theorem marked_spam_is_not_stored:
  assumes "rdb_session E T"
  shows "T (rw_sql (snd (sql_mark_spams_deleted_if_exists E message_ids w))) = T (rw_sql w)"
  using rdb_session.spams_not_stored [OF assms, of message_ids] unfolding keeps_def by blast

lemma marked_spam_is_not_stored_witness:
  "mem_saved (rw_sql (snd (sql_mark_spams_deleted_if_exists memory_rdenv [''m''] demo_rdb))) = set demo_rows"
  using marked_spam_is_not_stored [OF memory_rdb.rdb_session_axioms] by (simp add: demo_stored)



end
