(* ===== verification/Spec2Isabelle.thy ===== *)
theory Spec2Isabelle
  imports Claims_Values Claims_Acl Claims_Config Claims_Db Claims_Presence Claims_Requests Claims_Storage
    Claims_Queue Claims_Cassandra Claims_Rdb
begin

section \<open>The chat server dino\<close>

text \<open>
  This development models the core of \<^verbatim>\<open>dino\<close>, a chat server written in Python: how a request of a
  client is checked, what it does to the database, and how the access control lists that guard it are
  written, checked and evaluated.

  \<^bold>\<open>The program.\<close> A client sends an activity (actor, verb, object, target). The decorator
  \<open>pre_process\<close> (\<^verbatim>\<open>src/dino/utils/decorators.py\<close>) puts the user of the session into it, lets a
  validator of \<open>RequestValidator\<close> (\<^verbatim>\<open>src/dino/validation/request.py\<close>) decide, runs the checks that
  are configured for the event, and calls the handler (\<^verbatim>\<open>src/dino/api.py\<close>), whose hooks change the
  database. The validators ask the database (\<^verbatim>\<open>src/dino/db/redis.py\<close>), which stands behind a cache
  (\<^verbatim>\<open>src/dino/cache/redis.py\<close>), and the access control lists (\<^verbatim>\<open>src/dino/validation/acl.py\<close>).
  Instead of Redis the database can be a relational one (\<^verbatim>\<open>src/dino/db/rdbms/handler.py\<close>).
  Messages are kept by \<^verbatim>\<open>src/dino/storage/redis.py\<close> or \<^verbatim>\<open>src/dino/storage/cassandra.py\<close> and
  sessions by \<^verbatim>\<open>src/dino/auth/redis.py\<close>. Bans and kicks are published (\<^verbatim>\<open>src/dino/endpoint/base.py\<close>,
  \<^verbatim>\<open>pubsub.py\<close>), and every node handles the events of the queue (\<^verbatim>\<open>src/dino/endpoint/queue.py\<close>):
  the one that has the sockets of the user throws the user out. Users without a socket send heartbeats
  (\<^verbatim>\<open>src/dino/rest/resources/heartbeat.py\<close>), and a manager (\<^verbatim>\<open>src/dino/heartbeat/manager.py\<close>)
  disconnects those who stop.

  \<^bold>\<open>The model.\<close> An operation is a function from a state to a result or an exception and the state
  after it (\<open>op\<close> of Prelude); what was written before an exception stays. Texts are lists of bytes
  in UTF-8, times are whole microseconds, activities are records whose attributes can be absent,
  null or a text. The Redis client is a parameter: a record of its commands with the locales
  \<open>redis_strings\<close>, \<open>redis_hashes\<close>, \<open>redis_sets\<close>, \<open>redis_lists\<close> for what the documentation
  promises of them, interpreted on a store in memory. So are the order in which a Python set is
  iterated, the clock, the random part of a time to live, and the cache of the database, which can
  be the modelled \<open>CacheRedis\<close> or the cache that always misses. The prepared statements of Cassandra
  are a record with the locale \<open>cassandra\<close>, interpreted on tables in memory; the server of sockets and
  what an attempt to publish does to a broker are parameters too. A session of SQLAlchemy is a record with
  the locale \<open>sql_session\<close>: the rows that are seen and those that are committed, and what adding,
  changing, deleting, committing, rolling back and giving back do to both; a query is a function of the
  list of rows. It is interpreted on rows in memory.

  \<^bold>\<open>Theories.\<close>
  \<^item> Prelude: Python strings and numbers, exceptions, operations; Config_Keys and Error_Codes: the
    constants of \<^verbatim>\<open>src/dino/config.py\<close>; Redis_Client: the client and its laws.
  \<^item> Durations (\<^verbatim>\<open>src/dino/validation/duration.py\<close>, \<^verbatim>\<open>generic.py\<close> and the ban times of
    \<^verbatim>\<open>src/dino/utils/__init__.py\<close>), Base64 (its base64 functions).
  \<^item> Memory_Cache, Cache_Iface, Cache_Redis, Cache_Facts: the in-process cache \<open>MemoryCache\<close>, the
    interface of a cache, \<open>CacheRedis\<close>, and coherence: an entry of the in-process cache agrees with
    Redis. \<open>coherent_cache\<close> is the interface that the database relies on; both caches provide it.
  \<^item> Activity, Acl_Patterns, Acl_Rules, Acl_Facts: activities; the evaluator of custom patterns, a
    loop that takes out groups, splits alternatives and conjunctions, and calls itself; every
    validator of a rule, the check of a new rule and the decision on an action.
  \<^item> Keeps: what an operation may change, as a relation of states that all constructs preserve.
  \<^item> Db_Core, Db_Roles, Db_Acls, Db_Bans, Db_Users: \<open>DatabaseRedis\<close>, in the order rooms, roles,
    rules, bans and mutes, users. Db_Facts: the view \<open>dbv\<close> of what is stored, as maps, and each
    command as an update of it; Db_Role_Facts, Db_Registry, Db_Ban_Facts: the operations on views.
  \<^item> Request_Env, Request_Validators, Validate_Messages, Validate_Rooms: the functions of
    \<^verbatim>\<open>src/dino/utils/__init__.py\<close> on users, bans, whispers, and every validator of a request;
    Pre_Process: the decorator and the handlers that create, rename and remove rooms;
    Request_Redis, Request_Facts, Handler_Facts: the validators over the Redis database.
  \<^item> Acl_Config, Config_Facts: \<open>AclConfigValidator\<close> and the two functions of
    \<^verbatim>\<open>src/dino/environ.py\<close> that check the configuration of rules at start and build the validators.
  \<^item> Presence, Presence_Facts: going online, offline, away and invisible in \<open>CacheRedis\<close>,
    \<open>DatabaseRedis\<close> and the hook \<^verbatim>\<open>src/dino/hooks/status.py\<close>, and their refinement of a machine with
    four parts per user.
  \<^item> Storage_Redis, Storage_Facts: \<open>StorageRedis\<close> and \<open>AuthRedis\<close>.
  \<^item> Cassandra_Client, Storage_Cassandra, Cassandra_Facts, Cassandra_Runs: the statements of
    \<^verbatim>\<open>src/dino/storage/cassandra_driver.py\<close> and their laws, \<open>Driver\<close> and \<open>CassandraStorage\<close>, what their
    operations do to the tables as maps, and sequences of them.
  \<^item> Event_Window, Publisher: the window of events seen lately, \<open>BasePublisher\<close> with its attempts,
    and \<open>PubSub\<close>. Event_Payloads: the events for bans, kicks and disconnects.
  \<^item> Queue_Handler, Queue_Facts, Queue_Bans: \<open>QueueHandler\<close> over any database, storage and socket
    server, and contracts of these (\<open>ban_db\<close>, \<open>ban_node\<close>, \<open>ban_blocked\<close>, \<open>socket_server\<close>) under which a ban
    is carried out or stopped. Queue_Redis: the Redis database and both storages meet them.
    Queue_Memory: a node in memory.
  \<^item> Heartbeats, Heartbeat_Redis: \<open>HeartbeatManager\<close>, the request with heartbeats and its hook, the hook
    for the end of a session of heartbeats; the contract \<open>heartbeat_env\<close> and that Redis meets it.
  \<^item> Rdb_Tables (the tables of \<^verbatim>\<open>src/dino/db/rdbms/models.py\<close> and the session), Rdb_Cache (the cache as the
    relational database uses it, and the one that always misses), and \<open>DatabaseRdbms\<close> in seven parts:
    Rdb_Core (sessions, names, existence, users), Rdb_Roles, Rdb_Presence, Rdb_Rooms, Rdb_Acls, Rdb_Bans,
    Rdb_Misc (spam, black list, counters, information on users); \<open>sql_m\<close> is the method \<open>m\<close>.
    Rdb_Facts: what a step of a session does to the rows. Role_Store: the contract \<open>room_role_store\<close> of a
    database that keeps roles in rooms, which the Redis database meets; Rdb_Role_Facts: the relational
    one meets it too. Rdb_Room_Facts, Rdb_Ban_Facts: creating a room, a global ban, rules and spam.
  \<^item> Claims_Values, Claims_Acl, Claims_Config, Claims_Db, Claims_Presence, Claims_Requests, Claims_Storage,
    Claims_Cassandra, Claims_Queue, Claims_Rdb: the properties, each with the number that it has in the manifest,
    and their instances at concrete states.

  \<^bold>\<open>What is shown.\<close> The registry of rooms is an invariant of creating, renaming and removing, and these
  operations refine updates of the view; the cache answers as the database would; roles, rules,
  bans, mutes and messages are read back as they were written; the evaluator of patterns ends for
  every pattern that the check of new rules accepts, and agrees with a reading of the pattern as a
  formula; who may kick, ban, remove, join and send is characterised; a handler runs only for a
  request that was accepted. The tables of messages stay well formed, a ban takes the sockets of the user
  out of every room, an event is acted upon once, deliveries of a message are far apart, and a user
  who sends no more heartbeats is disconnected in the end. The relational database answers like the one
  on Redis to questions on roles after the same changes, and creates rooms and bans row by row as said. Where the code does not do what it means to, the property says what
  it does, and the manifest lists the finding.

  \<^bold>\<open>Bounds.\<close> The evaluator of patterns is given fuel for its recursion and its loop; the number of
  opening parentheses of the pattern plus three is enough for every accepted pattern,
  and what runs out of fuel is the value \<open>None\<close>, so that termination is a statement and never assumed.
  All other recursions are structural.

  \<^bold>\<open>Not modelled.\<close> Connection failures and commands on a key of another type; logging, statistics
  and timing; the events and answers that handlers build, but those for bans, kicks and disconnects;
  other nodes that write to the relational database during a session, errors of its server, and the limits
  of its columns; creating the key space, tables and views of Cassandra; the connections to the
  message queues; the hooks of sockets; the web interface and the other REST resources. Of the database on Redis the two operations on the
  information of a user are left out, and of the cache the roles of a user as a whole.
\<close>

end
